(* ===== verification/Prelude.thy ===== *)
theory Prelude
  imports Main "HOL-Library.Word" "HOL-Library.Sublist"
begin

text \<open>
  Shared vocabulary of the development.

  It holds the types the Go code uses everywhere (\<open>uuid.UUID\<close>, \<open>time.Time\<close>, JSON values),
  the parts of Go's standard library the modelled code calls (\<open>strings.TrimSpace\<close>,
  \<open>strconv\<close>/\<open>fmt\<close> decimal rendering, \<open>encoding/hex\<close>, \<open>encoding/base64\<close>, \<open>time.Format\<close>), and the generic
  list lemmas and locales the component theories share.

  Bytes are HOL characters, so a Go \<open>string\<close> or \<open>[]byte\<close> is a HOL \<open>string\<close> and Go's \<open>len\<close> is
  \<open>length\<close>. A \<open>time.Time\<close> is an instant, the number of nanoseconds since the Unix epoch.
\<close>

named_theorems tx_simps \<open>unfolding rules of the transaction monad\<close>
named_theorems repo_defs \<open>definitions of the repository layer\<close>
named_theorems audit_defs \<open>definitions of the audit chain\<close>

section \<open>Basic types\<close>

type_synonym uuid = "128 word"
type_synonym time = int

definition uuid_Nil :: uuid where
  "uuid_Nil = 0"

text \<open>
  JSON documents as \<open>encoding/json\<close> sees them: \<open>map[string]any\<close> is \<open>JObj\<close>. Object fields keep
  the order in which the source lists them.
\<close>

datatype json =
    JNull
  | JBool bool
  | JNum int
  | JStr string
  | JArr "json list"
  | JObj "(string \<times> json) list"

definition json_field :: "string \<Rightarrow> json \<Rightarrow> json option" where
  "json_field k j = (case j of JObj fs \<Rightarrow> map_of fs k | _ \<Rightarrow> None)"

section \<open>Durations and instants\<close>

definition microsecond :: time where "microsecond = 1000"
definition second :: time where "second = 1000000000"
definition minute :: time where "minute = 60 * second"
definition hour :: time where "hour = 60 * minute"

text \<open>The instant Go's \<open>time.Time{}\<close> denotes: 0001-01-01 00:00:00 UTC.\<close>

definition zero_time :: time where
  "zero_time = - 62135596800 * second"

text \<open>
  PostgreSQL's \<open>timestamptz\<close> keeps microseconds: a stored instant loses its sub-microsecond part.
\<close>

definition pg_time :: "time \<Rightarrow> time" where
  "pg_time t = t - t mod microsecond"

lemma pg_time_idem [simp]: "pg_time (pg_time t) = pg_time t"
  by (simp add: pg_time_def microsecond_def minus_mod_eq_mult_div)

lemma pg_time_le: "pg_time t \<le> t"
  by (simp add: pg_time_def microsecond_def)

lemma pg_time_add_microsecond [simp]:
  "pg_time (pg_time t + microsecond) = pg_time t + microsecond"
  by (simp add: pg_time_def microsecond_def minus_mod_eq_mult_div mod_add_eq)

section \<open>Decimal and hexadecimal text\<close>

definition digit_char :: "nat \<Rightarrow> char" where
  "digit_char d = char_of (48 + d)"

fun show_nat :: "nat \<Rightarrow> string" where
  "show_nat n = (if n < 10 then [digit_char n] else show_nat (n div 10) @ [digit_char (n mod 10)])"

declare show_nat.simps [simp del]

definition show_int :: "int \<Rightarrow> string" where
  "show_int i = (if i < 0 then CHR ''-'' # show_nat (nat (- i)) else show_nat (nat i))"

text \<open>\<open>fmt\<close>'s zero padding to a minimum width.\<close>

definition pad_nat :: "nat \<Rightarrow> nat \<Rightarrow> string" where
  "pad_nat w n = replicate (w - length (show_nat n)) (CHR ''0'') @ show_nat n"

definition is_digit :: "char \<Rightarrow> bool" where
  "is_digit c = (48 \<le> (of_char c :: nat) \<and> (of_char c :: nat) \<le> 57)"

definition digit_val :: "char \<Rightarrow> nat" where
  "digit_val c = of_char c - 48"

definition read_nat :: "string \<Rightarrow> nat" where
  "read_nat s = foldl (\<lambda>acc c. 10 * acc + digit_val c) 0 s"

lemma of_char_char_of_small [simp]: "n < 256 \<Longrightarrow> (of_char (char_of n) :: nat) = n"
  by simp

lemma digit_val_digit_char [simp]: "d < 10 \<Longrightarrow> digit_val (digit_char d) = d"
  by (simp add: digit_val_def digit_char_def)

lemma is_digit_digit_char [simp]: "d < 10 \<Longrightarrow> is_digit (digit_char d)"
  by (simp add: is_digit_def digit_char_def)

lemma show_nat_nonempty [simp]: "show_nat n \<noteq> []"
  by (subst show_nat.simps) simp

lemma read_show_nat [simp]: "read_nat (show_nat n) = n"
proof (induction n rule: show_nat.induct)
  case (1 n)
  show ?case
  proof (cases "n < 10")
    case True
    then show ?thesis by (subst show_nat.simps) (simp add: read_nat_def)
  next
    case False
    with 1 have "foldl (\<lambda>acc c. 10 * acc + digit_val c) 0 (show_nat (n div 10)) = n div 10"
      by (simp add: read_nat_def)
    with False show ?thesis
      by (subst show_nat.simps) (simp add: read_nat_def)
  qed
qed

lemma show_nat_inj [simp]: "show_nat m = show_nat n \<longleftrightarrow> m = n"
  by (metis read_show_nat)

lemma show_nat_digits: "c \<in> set (show_nat n) \<Longrightarrow> is_digit c"
proof (induction n rule: show_nat.induct)
  case (1 n)
  then show ?case
    by (cases "n < 10") (auto simp: show_nat.simps [of n])
qed

definition hex_char :: "nat \<Rightarrow> char" where
  "hex_char d = (if d < 10 then char_of (48 + d) else char_of (87 + d))"

definition hex_val :: "char \<Rightarrow> nat option" where
  "hex_val c =
     (let n = (of_char c :: nat) in
      if 48 \<le> n \<and> n \<le> 57 then Some (n - 48)
      else if 97 \<le> n \<and> n \<le> 102 then Some (n - 87)
      else if 65 \<le> n \<and> n \<le> 70 then Some (n - 55)
      else None)"

text \<open>\<open>hex.EncodeToString\<close> and \<open>hex.DecodeString\<close>.\<close>

fun hex_encode :: "string \<Rightarrow> string" where
  "hex_encode [] = []"
| "hex_encode (c # cs) =
     hex_char ((of_char c :: nat) div 16) # hex_char ((of_char c :: nat) mod 16) # hex_encode cs"

fun hex_decode :: "string \<Rightarrow> string option" where
  "hex_decode [] = Some []"
| "hex_decode [c] = None"
| "hex_decode (a # b # cs) =
     (case (hex_val a, hex_val b) of
        (Some x, Some y) \<Rightarrow> map_option (\<lambda>r. char_of (16 * x + y) # r) (hex_decode cs)
      | _ \<Rightarrow> None)"

lemma hex_val_hex_char [simp]: "d < 16 \<Longrightarrow> hex_val (hex_char d) = Some d"
  by (simp add: hex_val_def hex_char_def Let_def)

lemma hex_decode_encode [simp]: "hex_decode (hex_encode s) = Some s"
proof (induction s)
  case Nil
  then show ?case by simp
next
  case (Cons c cs)
  have "(of_char c :: nat) < 16 * 16"
    by simp
  then have "(of_char c :: nat) div 16 < 16"
    by (rule less_mult_imp_div_less)
  then show ?case
    using Cons by (simp add: hex_val_hex_char)
qed

lemma hex_encode_inj [simp]: "hex_encode s = hex_encode t \<longleftrightarrow> s = t"
  by (metis hex_decode_encode option.inject)

text \<open>
  \<open>base64.StdEncoding\<close>: padded, and the decoder skips line breaks and ignores the unused low bits of the
  last character, as Go's does.
\<close>

definition b64_char :: "nat \<Rightarrow> char" where
  "b64_char d =
     (if d < 26 then char_of (65 + d) else if d < 52 then char_of (71 + d)
      else if d < 62 then char_of (d - 4) else if d = 62 then CHR ''+'' else CHR ''/'')"

definition b64_val :: "char \<Rightarrow> nat option" where
  "b64_val c =
     (let n = (of_char c :: nat) in
      if 65 \<le> n \<and> n \<le> 90 then Some (n - 65)
      else if 97 \<le> n \<and> n \<le> 122 then Some (n - 71)
      else if 48 \<le> n \<and> n \<le> 57 then Some (n + 4)
      else if c = CHR ''+'' then Some 62
      else if c = CHR ''/'' then Some 63
      else None)"

fun b64_encode :: "string \<Rightarrow> string" where
  "b64_encode [] = []"
| "b64_encode [a] =
     (let x = (of_char a :: nat) in [b64_char (x div 4), b64_char (x mod 4 * 16), CHR ''='', CHR ''=''])"
| "b64_encode [a, b] =
     (let x = (of_char a :: nat); y = (of_char b :: nat) in
      [b64_char (x div 4), b64_char (x mod 4 * 16 + y div 16), b64_char (y mod 16 * 4), CHR ''=''])"
| "b64_encode (a # b # c # r) =
     (let x = (of_char a :: nat); y = (of_char b :: nat); z = (of_char c :: nat) in
      b64_char (x div 4) # b64_char (x mod 4 * 16 + y div 16) # b64_char (y mod 16 * 4 + z div 64)
        # b64_char (z mod 64) # b64_encode r)"

fun b64_quads :: "string \<Rightarrow> string option" where
  "b64_quads [] = Some []"
| "b64_quads (a # b # c # d # r) =
     (case (b64_val a, b64_val b) of
        (Some x, Some y) \<Rightarrow>
          if c = CHR ''='' \<and> d = CHR ''='' then (if r = [] then Some [char_of (4 * x + y div 16)] else None)
          else (case b64_val c of
             None \<Rightarrow> None
           | Some z \<Rightarrow>
               let p = char_of (4 * x + y div 16); q = char_of (y mod 16 * 16 + z div 4) in
               if d = CHR ''='' then (if r = [] then Some [p, q] else None)
               else (case b64_val d of
                  None \<Rightarrow> None
                | Some u \<Rightarrow> map_option (\<lambda>t. p # q # char_of (z mod 4 * 64 + u) # t) (b64_quads r)))
      | _ \<Rightarrow> None)"
| "b64_quads _ = None"

definition b64_decode :: "string \<Rightarrow> string option" where
  "b64_decode s = b64_quads (filter (\<lambda>c. c \<noteq> CHR 0x0A \<and> c \<noteq> CHR 0x0D) s)"

lemma b64_val_char [simp]: "d < 64 \<Longrightarrow> b64_val (b64_char d) = Some d"
proof -
  assume "d < 64"
  then consider "d < 26" | "26 \<le> d" "d < 52" | "52 \<le> d" "d < 62" | "d = 62" | "d = 63" by linarith
  then show ?thesis
    by cases (auto simp: b64_val_def b64_char_def Let_def)
qed

lemma b64_char_alphabet: "d < 64 \<Longrightarrow> b64_char d \<noteq> CHR ''='' \<and> b64_char d \<noteq> CHR 0x0A \<and> b64_char d \<noteq> CHR 0x0D"
proof -
  assume d: "d < 64"
  have "b64_val (CHR ''='') = None" "b64_val (CHR 0x0A) = None" "b64_val (CHR 0x0D) = None"
    by (simp_all add: b64_val_def Let_def)
  with b64_val_char [OF d] show ?thesis by (metis option.distinct(1))
qed

lemma byte_parts:
  fixes c :: char
  defines "x \<equiv> (of_char c :: nat)"
  shows "x div 4 < 64" "x div 16 < 16" "x div 64 < 4"
proof -
  have x: "x < 256" unfolding x_def by simp
  from x have "x < 64 * 4" by simp
  then show "x div 4 < 64" by (rule less_mult_imp_div_less)
  from x have "x < 16 * 16" by simp
  then show "x div 16 < 16" by (rule less_mult_imp_div_less)
  from x have "x < 4 * 64" by simp
  then show "x div 64 < 4" by (rule less_mult_imp_div_less)
qed

lemma sextet_bounds:
  fixes u v :: nat
  shows "v < 16 \<Longrightarrow> u mod 4 * 16 + v < 64" "u mod 4 * 16 < 64" "v < 4 \<Longrightarrow> u mod 16 * 4 + v < 64" "u mod 16 * 4 < 64"
proof -
  have m: "u mod 4 \<le> 3" "u mod 16 \<le> 15" by (simp_all add: less_Suc_eq_le [symmetric])
  from m(1) have "u mod 4 * 16 \<le> 48" by linarith
  then show "v < 16 \<Longrightarrow> u mod 4 * 16 + v < 64" "u mod 4 * 16 < 64" by linarith+
  from m(2) have "u mod 16 * 4 \<le> 60" by linarith
  then show "v < 4 \<Longrightarrow> u mod 16 * 4 + v < 64" "u mod 16 * 4 < 64" by linarith+
qed

lemmas b64_arith = b64_char_alphabet byte_parts sextet_bounds

lemma b64_encode_clean: "filter (\<lambda>c. c \<noteq> CHR 0x0A \<and> c \<noteq> CHR 0x0D) (b64_encode s) = b64_encode s"
  by (induction s rule: b64_encode.induct) (simp_all add: Let_def b64_arith)

lemma b64_quads_encode: "b64_quads (b64_encode s) = Some s"
  by (induction s rule: b64_encode.induct) (simp_all add: Let_def b64_arith)

lemma b64_decode_encode [simp]: "b64_decode (b64_encode s) = Some s"
  by (simp add: b64_decode_def b64_encode_clean b64_quads_encode)

section \<open>Calendar rendering (package \<open>time\<close>, UTC)\<close>

text \<open>
  The proleptic Gregorian date of a day number counted from 1970-01-01: \<open>(year, month, day)\<close>.
\<close>

definition civil_from_days :: "int \<Rightarrow> int \<times> int \<times> int" where
  "civil_from_days days =
     (let z = days + 719468;
          era = z div 146097;
          doe = z mod 146097;
          yoe = (doe - doe div 1460 + doe div 36524 - doe div 146096) div 365;
          doy = doe - (365 * yoe + yoe div 4 - yoe div 100);
          mp = (5 * doy + 2) div 153;
          d = doy - (153 * mp + 2) div 5 + 1;
          m = (if mp < 10 then mp + 3 else mp - 9);
          y = yoe + era * 400 + (if m \<le> 2 then 1 else 0)
      in (y, m, d))"

text \<open>\<open>Format("2006-01-02")\<close> and \<open>Format(time.RFC3339)\<close> of an instant in UTC.\<close>

definition pad_int :: "nat \<Rightarrow> int \<Rightarrow> string" where
  "pad_int w i = (if i < 0 then CHR ''-'' # pad_nat w (nat (- i)) else pad_nat w (nat i))"

text \<open>The same digits computed over the integers, which is how they are evaluated.\<close>

function show_pos :: "int \<Rightarrow> string" where
  "show_pos i = (if i < 10 then [char_of (48 + i)] else show_pos (i div 10) @ [char_of (48 + i mod 10)])"
  by pat_completeness auto
termination
  by (relation "measure nat") auto

declare show_pos.simps [simp del]

lemma digit_char_int: "0 \<le> i \<Longrightarrow> digit_char (nat i) = char_of (48 + i)"
proof -
  assume "0 \<le> i"
  then have "char_of (48 + i) = char_of (of_nat (48 + nat i) :: int)" by simp
  also have "\<dots> = digit_char (nat i)" by (simp only: char_of_nat digit_char_def)
  finally show ?thesis by simp
qed

lemma show_pos_nat: "0 \<le> i \<Longrightarrow> show_pos i = show_nat (nat i)"
proof (induction i rule: show_pos.induct)
  case (1 i)
  have "nat (i div 10) = nat i div 10" "nat (i mod 10) = nat i mod 10" using 1(2) by (simp_all add: nat_div_distrib nat_mod_distrib)
  moreover have "digit_char (nat (i mod 10)) = char_of (48 + i mod 10)" by (rule digit_char_int) simp
  ultimately show ?case
    using 1 digit_char_int [of i] pos_imp_zdiv_nonneg_iff [of 10 i] by (subst show_pos.simps, subst show_nat.simps) auto
qed

lemma show_nat_code [code]: "show_nat n = show_pos (int n)"
  by (simp add: show_pos_nat)

lemma show_int_code [code]: "show_int i = (if i < 0 then CHR ''-'' # show_pos (- i) else show_pos i)"
  by (simp add: show_int_def show_pos_nat)

lemma pad_int_code [code]:
  "pad_int w i = (let s = show_pos \<bar>i\<bar>; p = replicate (w - length s) (CHR ''0'') @ s in if i < 0 then CHR ''-'' # p else p)"
  by (simp add: pad_int_def pad_nat_def show_pos_nat Let_def)

definition format_date :: "time \<Rightarrow> string" where
  "format_date t =
     (case civil_from_days (t div (24 * hour)) of (y, m, d) \<Rightarrow>
        pad_int 4 y @ ''-'' @ pad_int 2 m @ ''-'' @ pad_int 2 d)"

definition format_clock :: "time \<Rightarrow> string" where
  "format_clock t =
     (let s = (t mod (24 * hour)) div second in
      pad_int 2 (s div 3600) @ '':'' @ pad_int 2 (s div 60 mod 60) @ '':'' @ pad_int 2 (s mod 60))"

definition format_RFC3339 :: "time \<Rightarrow> string" where
  "format_RFC3339 t = format_date t @ ''T'' @ format_clock t @ ''Z''"

text \<open>Formatting an instant in a zone that lies \<open>off\<close> seconds east of UTC.\<close>

definition format_date_in :: "int \<Rightarrow> time \<Rightarrow> string" where
  "format_date_in off t = format_date (t + off * second)"

definition format_RFC3339_in :: "int \<Rightarrow> time \<Rightarrow> string" where
  "format_RFC3339_in off t =
     (if off = 0 then format_RFC3339 t
      else (let local = t + off * second; mins = \<bar>off\<bar> div 60 in
            format_date local @ ''T'' @ format_clock local
            @ (if off < 0 then ''-'' else ''+'') @ pad_int 2 (mins div 60) @ '':'' @ pad_int 2 (mins mod 60)))"

text \<open>
  \<open>time.RFC3339Nano\<close>: the fraction of a second in nine digits with its trailing zeros removed, and
  no decimal point when the fraction is zero.
\<close>

definition format_fraction :: "time \<Rightarrow> string" where
  "format_fraction t =
     (let ns = t mod second in
      if ns = 0 then []
      else CHR ''.'' # rev (dropWhile (\<lambda>c. c = CHR ''0'') (rev (pad_int 9 ns))))"

definition format_RFC3339Nano :: "time \<Rightarrow> string" where
  "format_RFC3339Nano t = format_date t @ ''T'' @ format_clock t @ format_fraction t @ ''Z''"

section \<open>Text helpers of package \<open>strings\<close>\<close>

text \<open>
  The UTF-8 encodings of the code points \<open>unicode.IsSpace\<close> accepts, which \<open>strings.TrimSpace\<close> removes
  from both ends.
\<close>

definition space_patterns :: "string list" where
  "space_patterns =
     map (\<lambda>n. [char_of n]) [9 :: nat, 10, 11, 12, 13, 32]
     @ map (map char_of) [[0xC2 :: nat, 0x85], [0xC2, 0xA0], [0xE1, 0x9A, 0x80]]
     @ map (\<lambda>n. map char_of [0xE2 :: nat, 0x80, n]) ([0x80 ..< 0x8B] @ [0xA8, 0xA9, 0xAF])
     @ map (map char_of) [[0xE2 :: nat, 0x81, 0x9F], [0xE3, 0x80, 0x80]]"

function trim_left :: "string list \<Rightarrow> string \<Rightarrow> string" where
  "trim_left pats s =
     (case find (\<lambda>p. p \<noteq> [] \<and> prefix p s) pats of
        None \<Rightarrow> s
      | Some p \<Rightarrow> trim_left pats (drop (length p) s))"
  by pat_completeness auto
termination
  by (relation "measure (\<lambda>(pats, s). length s)")
    (auto simp: find_Some_iff prefix_def)

declare trim_left.simps [simp del]

definition TrimSpace :: "string \<Rightarrow> string" where
  "TrimSpace s = rev (trim_left (map rev space_patterns) (rev (trim_left space_patterns s)))"

text \<open>\<open>strings.IndexByte\<close>; \<open>None\<close> is Go's -1.\<close>

fun index_byte :: "string \<Rightarrow> char \<Rightarrow> nat option" where
  "index_byte [] c = None"
| "index_byte (x # xs) c = (if x = c then Some 0 else map_option Suc (index_byte xs c))"

lemma index_byte_append_notin:
  "c \<notin> set xs \<Longrightarrow> index_byte (xs @ c # ys) c = Some (length xs)"
  by (induction xs) auto

lemma trim_left_suffix: "\<exists>p. s = p @ trim_left pats s"
proof (induction pats s rule: trim_left.induct)
  case (1 pats s)
  show ?case
  proof (cases "find (\<lambda>p. p \<noteq> [] \<and> prefix p s) pats")
    case None
    then show ?thesis by (simp add: trim_left.simps [of pats s])
  next
    case (Some p)
    then obtain q where "drop (length p) s = q @ trim_left pats (drop (length p) s)"
      using 1 by blast
    then have "s = (take (length p) s @ q) @ trim_left pats s"
      using Some by (simp add: trim_left.simps [of pats s])
    then show ?thesis by blast
  qed
qed

lemma length_trim_left: "length (trim_left pats s) \<le> length s"
  by (metis trim_left_suffix length_append le_add2)

lemma length_TrimSpace: "length (TrimSpace s) \<le> length s"
  unfolding TrimSpace_def using length_trim_left by (metis length_rev le_trans)

section \<open>Lists\<close>

text \<open>
  First occurrence of every element, in order: the \<open>seen\<close>-map loop the code writes in several
  places.
\<close>

fun dedup_from :: "'a list \<Rightarrow> 'a list \<Rightarrow> 'a list" where
  "dedup_from seen [] = []"
| "dedup_from seen (x # xs) =
     (if x \<in> set seen then dedup_from seen xs else x # dedup_from (x # seen) xs)"

lemma set_dedup_from: "set (dedup_from seen xs) = set xs - set seen"
  by (induction seen xs rule: dedup_from.induct) auto

lemma distinct_dedup_from: "distinct (dedup_from seen xs)"
  by (induction seen xs rule: dedup_from.induct) (auto simp: set_dedup_from)

lemma subseq_dedup_from: "subseq (dedup_from seen xs) xs"
  by (induction seen xs rule: dedup_from.induct) auto

lemma dedup_from_id: "distinct xs \<Longrightarrow> set xs \<inter> set seen = {} \<Longrightarrow> dedup_from seen xs = xs"
  by (induction seen xs rule: dedup_from.induct) auto

lemma map_if_unchanged: "(\<And>x. x \<in> set xs \<Longrightarrow> f x = x) \<Longrightarrow> map f xs = xs"
  by (induction xs) auto

section \<open>Interfaces shared by several components\<close>

text \<open>
  A step relation with a predicate every step keeps: the predicate then holds after any number of
  steps.
\<close>

locale invariant_system =
  fixes step :: "'s \<Rightarrow> 's \<Rightarrow> bool"
    and inv :: "'s \<Rightarrow> bool"
  assumes inv_step: "step s t \<Longrightarrow> inv s \<Longrightarrow> inv t"
begin

lemma inv_steps: "step\<^sup>*\<^sup>* s t \<Longrightarrow> inv s \<Longrightarrow> inv t"
  by (induction rule: rtranclp_induct) (auto intro: inv_step)

end

text \<open>
  A query that sorts the matching rows by a total key and returns a window of them. Consecutive
  windows then tile the result: nothing is repeated and nothing is skipped.
\<close>

locale paged_query =
  fixes rows :: "'d \<Rightarrow> 'q \<Rightarrow> 'r list"
    and page :: "'d \<Rightarrow> 'q \<Rightarrow> nat \<Rightarrow> nat \<Rightarrow> 'r list"
    and cap :: nat
  assumes page_window:
    "0 < limit \<Longrightarrow> limit \<le> cap \<Longrightarrow> page d q limit offset = take limit (drop offset (rows d q))"
begin

lemma length_page: "0 < limit \<Longrightarrow> limit \<le> cap \<Longrightarrow> length (page d q limit offset) \<le> limit"
  by (simp add: page_window)

lemma pages_tile:
  assumes "0 < limit" "limit \<le> cap"
  shows "concat (map (\<lambda>k. page d q limit (k * limit)) [0..<n]) = take (n * limit) (rows d q)"
proof (induction n)
  case 0
  then show ?case by simp
next
  case (Suc n)
  then show ?case
    using assms by (simp add: page_window take_add [symmetric] add.commute)
qed

lemma pages_cover:
  assumes "0 < limit" "limit \<le> cap" "length (rows d q) \<le> n * limit"
  shows "concat (map (\<lambda>k. page d q limit (k * limit)) [0..<n]) = rows d q"
  using assms by (simp add: pages_tile)

end

end
