(* ===== verification/Errors.thy ===== *)
theory Errors
  imports Prelude
begin

text \<open>
  The domain errors of \<open>pkg/errors\<close>: kinds, the error value, its constructors and the translation to
  the wire. A cause attached by \<open>Wrap\<close> only reaches the logs, so a wrapped error is modelled by the
  domain error that carries it.
\<close>

datatype kind =
    KindUnknown | KindNotFound | KindAlreadyExists | KindForbidden | KindUnauthorized | KindValidation
  | KindConflict | KindRateLimited | KindRegionViolation | KindLegalHold | KindInternal

record derror =
  er_Kind :: kind
  er_Code :: string
  er_Message :: string
  er_Field :: string

definition Validation :: "string \<Rightarrow> string \<Rightarrow> derror" where
  "Validation field message =
     \<lparr>er_Kind = KindValidation, er_Code = ''INVALID_ARGUMENT'', er_Message = message, er_Field = field\<rparr>"

definition Conflict :: "string \<Rightarrow> derror" where
  "Conflict reason = \<lparr>er_Kind = KindConflict, er_Code = ''CONFLICT'', er_Message = reason, er_Field = []\<rparr>"

definition NotFound :: "string \<Rightarrow> derror" where
  "NotFound message = \<lparr>er_Kind = KindNotFound, er_Code = ''NOT_FOUND'', er_Message = message, er_Field = []\<rparr>"

definition Forbidden :: "string \<Rightarrow> derror" where
  "Forbidden message = \<lparr>er_Kind = KindForbidden, er_Code = ''FORBIDDEN'', er_Message = message, er_Field = []\<rparr>"

definition Unauthorized :: "string \<Rightarrow> derror" where
  "Unauthorized message =
     \<lparr>er_Kind = KindUnauthorized, er_Code = ''UNAUTHORIZED'', er_Message = message, er_Field = []\<rparr>"

definition sentinel_NotFound :: derror where
  "sentinel_NotFound = NotFound ''resource not found''"

definition sentinel_AlreadyExists :: derror where
  "sentinel_AlreadyExists =
     \<lparr>er_Kind = KindAlreadyExists, er_Code = ''ALREADY_EXISTS'', er_Message = ''resource already exists'', er_Field = []\<rparr>"

definition sentinel_Forbidden :: derror where
  "sentinel_Forbidden = Forbidden ''permission denied''"

definition sentinel_Unauthorized :: derror where
  "sentinel_Unauthorized = Unauthorized ''authentication required''"

text \<open>The body of an HTTP error response; \<open>he_Code\<close> is the status line.\<close>

record http_error =
  he_Code :: nat
  he_Type :: string
  he_Message :: string
  he_Field :: string

definition http_status :: "kind \<Rightarrow> nat" where
  "http_status k = (case k of
      KindNotFound \<Rightarrow> 404
    | KindAlreadyExists \<Rightarrow> 409
    | KindConflict \<Rightarrow> 409
    | KindLegalHold \<Rightarrow> 423
    | KindForbidden \<Rightarrow> 403
    | KindUnauthorized \<Rightarrow> 401
    | KindValidation \<Rightarrow> 400
    | KindRegionViolation \<Rightarrow> 400
    | KindRateLimited \<Rightarrow> 429
    | _ \<Rightarrow> 500)"

text \<open>\<open>None\<close> is an error that is not a domain error.\<close>

definition http_error_of :: "derror option \<Rightarrow> http_error" where
  "http_error_of e = (case e of
      None \<Rightarrow> \<lparr>he_Code = 500, he_Type = ''INTERNAL'', he_Message = ''internal error'', he_Field = []\<rparr>
    | Some x \<Rightarrow> \<lparr>he_Code = http_status (er_Kind x), he_Type = er_Code x,
         he_Message = (if http_status (er_Kind x) = 500 then ''internal error'' else er_Message x),
         he_Field = er_Field x\<rparr>)"

text \<open>gRPC status codes and the status an error becomes.\<close>

datatype grpc_code =
    GNotFound | GAlreadyExists | GPermissionDenied | GUnauthenticated | GInvalidArgument | GAborted
  | GFailedPrecondition | GResourceExhausted | GInternal

definition grpc_status_of :: "derror option \<Rightarrow> grpc_code \<times> string" where
  "grpc_status_of e = (case e of
      None \<Rightarrow> (GInternal, ''internal error'')
    | Some x \<Rightarrow> (case er_Kind x of
        KindNotFound \<Rightarrow> (GNotFound, er_Message x)
      | KindAlreadyExists \<Rightarrow> (GAlreadyExists, er_Message x)
      | KindForbidden \<Rightarrow> (GPermissionDenied, er_Message x)
      | KindUnauthorized \<Rightarrow> (GUnauthenticated, er_Message x)
      | KindValidation \<Rightarrow> (GInvalidArgument, er_Code x @ '': '' @ er_Message x)
      | KindConflict \<Rightarrow> (GAborted, er_Message x)
      | KindLegalHold \<Rightarrow> (GFailedPrecondition, er_Message x)
      | KindRateLimited \<Rightarrow> (GResourceExhausted, er_Message x)
      | KindRegionViolation \<Rightarrow> (GFailedPrecondition, er_Message x)
      | _ \<Rightarrow> (GInternal, ''internal error'')))"

end
