(* ===== verification/Tx.thy ===== *)
theory Tx
  imports Errors
begin

text \<open>
  Callers and transactions: \<open>pkg/auth/context.go\<close>, \<open>pkg/auth/roles.go\<close>, \<open>pkg/database/transaction.go\<close>,
  \<open>pkg/database/tenant.go\<close> and \<open>pkg/database/tenants.go\<close>.

  A piece of Go code that runs against the database is a function of an environment (what the
  process reads: the request context, the two clocks, the UUID generator, and which SQL statements
  fail) and a world (the database and two counters). It returns an error or a value, together with
  the world it leaves. The k-th SQL statement the code issues, \<open>BEGIN\<close>, \<open>set_config\<close> and \<open>COMMIT\<close>
  included, fails with a driver error when \<open>fault env k\<close> says so; every theorem that does not assume
  a healthy environment therefore holds for every pattern of database failures. \<open>WithTx\<close> restores
  the database whenever the body or the commit fails, which is what the rollback does.
\<close>

section \<open>Errors\<close>

text \<open>
  \<open>ErrValidation\<close>, \<open>ErrForbidden\<close> and \<open>ErrNotFound\<close> are the sentinels of a service layer,
  \<open>RepoNotFound\<close> the repository's \<open>ErrNotFound\<close>, \<open>AuthMissing\<close> is \<open>auth.ErrMissing\<close>,
  \<open>PolicyUnavailable\<close> the policy client's error; \<open>ErrChainTampered\<close>, \<open>ErrActorRequired\<close>, \<open>ErrSigningDisabled\<close>,
  \<open>ErrUncertifiedHead\<close> and \<open>ErrDifferingAfterCutover\<close> are the audit service's sentinels; \<open>Domain\<close> is a domain error of
  \<open>pkg/errors\<close>; \<open>DBError\<close> is any other error, most of them failed statements and violated constraints.
\<close>

datatype gerr =
    ErrValidation string
  | ErrForbidden string
  | ErrNotFound string
  | RepoNotFound
  | AuthMissing
  | PolicyUnavailable string
  | ErrChainTampered string
  | ErrActorRequired
  | ErrSigningDisabled
  | ErrUncertifiedHead string
  | ErrDifferingAfterCutover
  | Domain derror
  | DBError string

definition domain_of :: "gerr \<Rightarrow> derror option" where
  "domain_of e = (case e of Domain x \<Rightarrow> Some x | _ \<Rightarrow> None)"

definition ToHTTPError :: "gerr \<Rightarrow> http_error" where
  "ToHTTPError e = http_error_of (domain_of e)"

definition ToGRPCError :: "gerr \<Rightarrow> grpc_code \<times> string" where
  "ToGRPCError e = grpc_status_of (domain_of e)"

section \<open>The request context (\<open>pkg/auth\<close>)\<close>

text \<open>
  The context keeps the tenant as the text of its identifier and \<open>GetTenantID\<close> parses it back; the
  model keeps the identifier.
\<close>

record userinfo =
  u_ID :: uuid
  u_TenantID :: uuid
  u_Email :: string
  u_Role :: string
  u_Groups :: "uuid list"

record reqctx =
  c_User :: "userinfo option"
  c_TenantID :: "uuid option"
  c_ClientIP :: string
  c_UserAgent :: string
  c_Scopes :: "string list option"
  c_Trace :: "(string \<times> string) list"

definition emptyctx :: reqctx where
  "emptyctx = \<lparr>c_User = None, c_TenantID = None, c_ClientIP = [], c_UserAgent = [], c_Scopes = None, c_Trace = []\<rparr>"

definition WithUser :: "reqctx \<Rightarrow> userinfo \<Rightarrow> reqctx" where
  "WithUser c u = c\<lparr>c_User := Some u, c_TenantID := Some (u_TenantID u)\<rparr>"

definition User :: "reqctx \<Rightarrow> gerr + userinfo" where
  "User c = (case c_User c of None \<Rightarrow> Inl AuthMissing | Some u \<Rightarrow> Inr u)"

definition SetTenantID :: "reqctx \<Rightarrow> uuid \<Rightarrow> reqctx" where
  "SetTenantID c i = c\<lparr>c_TenantID := Some i\<rparr>"

definition GetTenantID :: "reqctx \<Rightarrow> gerr + uuid" where
  "GetTenantID c = (case c_TenantID c of None \<Rightarrow> Inl AuthMissing | Some i \<Rightarrow> Inr i)"

definition GetUserID :: "reqctx \<Rightarrow> gerr + uuid" where
  "GetUserID c = (case User c of Inl e \<Rightarrow> Inl e | Inr u \<Rightarrow> Inr (u_ID u))"

definition GetUserRole :: "reqctx \<Rightarrow> string" where
  "GetUserRole c = (case User c of Inl _ \<Rightarrow> [] | Inr u \<Rightarrow> u_Role u)"

definition GetUserGroups :: "reqctx \<Rightarrow> uuid list" where
  "GetUserGroups c = (case User c of Inl _ \<Rightarrow> [] | Inr u \<Rightarrow> u_Groups u)"

definition GetUserName :: "reqctx \<Rightarrow> string" where
  "GetUserName c = (case User c of Inl _ \<Rightarrow> [] | Inr u \<Rightarrow> u_Email u)"

definition WithClientIP :: "reqctx \<Rightarrow> string \<Rightarrow> reqctx" where
  "WithClientIP c ip = (if ip = [] then c else c\<lparr>c_ClientIP := ip\<rparr>)"

definition GetClientIP :: "reqctx \<Rightarrow> string" where
  "GetClientIP c = c_ClientIP c"

definition WithUserAgent :: "reqctx \<Rightarrow> string \<Rightarrow> reqctx" where
  "WithUserAgent c ua = (if ua = [] then c else c\<lparr>c_UserAgent := ua\<rparr>)"

definition GetUserAgent :: "reqctx \<Rightarrow> string" where
  "GetUserAgent c = c_UserAgent c"

definition WithScopes :: "reqctx \<Rightarrow> string list \<Rightarrow> reqctx" where
  "WithScopes c ss = c\<lparr>c_Scopes := Some ss\<rparr>"

definition GetScopes :: "reqctx \<Rightarrow> string list" where
  "GetScopes c = (case c_Scopes c of None \<Rightarrow> [] | Some ss \<Rightarrow> ss)"

definition knownRoles :: "string list" where
  "knownRoles = [''owner'', ''admin'', ''member'', ''guest'', ''viewer'', ''compliance_officer'', ''api_key'']"

definition IsKnownRole :: "string \<Rightarrow> bool" where
  "IsKnownRole role = (role \<in> set knownRoles)"

section \<open>Environment, world and the transaction monad\<close>

text \<open>
  \<open>uuid_String\<close> and \<open>uuid_Parse\<close> stand for \<open>uuid.UUID.String\<close> and \<open>uuid.Parse\<close> of the third-party
  package \<open>google/uuid\<close>; \<open>new_id\<close> is its generator \<open>uuid.NewV7\<close> (\<open>None\<close> when the random source
  fails) and \<open>fallback_id\<close> the generator \<open>uuid.New\<close>. \<open>cur_tenant\<close> is the value of the
  \<open>app.current_tenant\<close> setting inside a tenant transaction; \<open>bypass_rls\<close> is the development posture,
  in which the role ignores row-level security. \<open>pg_ilike text pattern\<close> is PostgreSQL's
  \<open>text ILIKE pattern\<close>, \<open>pg_inet_text\<close> the text it gives back for an \<open>inet\<close> column (an address it refuses makes the
  statement fail), and \<open>local_offset\<close> the server's zone, in seconds east of UTC.
\<close>

record env =
  ctx :: reqctx
  go_now :: time
  db_now :: time
  fault :: "nat \<Rightarrow> string option"
  new_id :: "nat \<Rightarrow> uuid option"
  fallback_id :: "nat \<Rightarrow> uuid"
  cur_tenant :: uuid
  bypass_rls :: bool
  uuid_String :: "uuid \<Rightarrow> string"
  uuid_Parse :: "string \<Rightarrow> uuid option"
  pg_ilike :: "string \<Rightarrow> string \<Rightarrow> bool"
  pg_inet_text :: "string \<Rightarrow> string"
  local_offset :: "time \<Rightarrow> int"

record 'd world =
  wdb :: 'd
  stmts :: nat
  draws :: nat

type_synonym ('d, 'a) m = "env \<Rightarrow> 'd world \<Rightarrow> (gerr + 'a) \<times> 'd world"

definition tret :: "'a \<Rightarrow> ('d, 'a) m" where
  "tret a = (\<lambda>env w. (Inr a, w))"

definition tfail :: "gerr \<Rightarrow> ('d, 'a) m" where
  "tfail e = (\<lambda>env w. (Inl e, w))"

definition tbind :: "('d, 'a) m \<Rightarrow> ('a \<Rightarrow> ('d, 'b) m) \<Rightarrow> ('d, 'b) m" where
  "tbind f g = (\<lambda>env w. case f env w of (Inl e, w') \<Rightarrow> (Inl e, w') | (Inr a, w') \<Rightarrow> g a env w')"

definition with_env :: "(env \<Rightarrow> ('d, 'a) m) \<Rightarrow> ('d, 'a) m" where
  "with_env f = (\<lambda>env. f env env)"

definition tlift :: "gerr + 'a \<Rightarrow> ('d, 'a) m" where
  "tlift r = (\<lambda>env w. (r, w))"

definition tguard :: "bool \<Rightarrow> gerr \<Rightarrow> ('d, unit) m" where
  "tguard b e = (if b then tret () else tfail e)"

text \<open>\<open>if errors.Is(err, repository.ErrNotFound) \<dots>\<close>: replace the repository's not-found error.\<close>

definition tremap :: "gerr \<Rightarrow> ('d, 'a) m \<Rightarrow> ('d, 'a) m" where
  "tremap e f = (\<lambda>env w. case f env w of
      (Inl x, w') \<Rightarrow> (Inl (if x = RepoNotFound then e else x), w')
    | (Inr a, w') \<Rightarrow> (Inr a, w'))"

fun tfor :: "'x list \<Rightarrow> ('x \<Rightarrow> ('d, unit) m) \<Rightarrow> ('d, unit) m" where
  "tfor [] f = tret ()"
| "tfor (x # xs) f = tbind (f x) (\<lambda>_. tfor xs f)"

fun tmap :: "'x list \<Rightarrow> ('x \<Rightarrow> ('d, 'b) m) \<Rightarrow> ('d, 'b list) m" where
  "tmap [] f = tret []"
| "tmap (x # xs) f = tbind (f x) (\<lambda>y. tbind (tmap xs f) (\<lambda>ys. tret (y # ys)))"

text \<open>One SQL statement: it fails as the environment says, otherwise it acts on the tables.\<close>

definition sql :: "string \<Rightarrow> (env \<Rightarrow> 'd \<Rightarrow> gerr + ('a \<times> 'd)) \<Rightarrow> ('d, 'a) m" where
  "sql label f = (\<lambda>env w.
     let w' = w\<lparr>stmts := Suc (stmts w)\<rparr> in
     case fault env (stmts w) of
       Some msg \<Rightarrow> (Inl (DBError (label @ msg)), w')
     | None \<Rightarrow> (case f env (wdb w) of
         Inl e \<Rightarrow> (Inl e, w')
       | Inr (a, d) \<Rightarrow> (Inr a, w'\<lparr>wdb := d\<rparr>)))"

definition sql_read :: "string \<Rightarrow> (env \<Rightarrow> 'd \<Rightarrow> gerr + 'a) \<Rightarrow> ('d, 'a) m" where
  "sql_read label f = sql label (\<lambda>env d. case f env d of Inl e \<Rightarrow> Inl e | Inr a \<Rightarrow> Inr (a, d))"

text \<open>\<open>uuid.NewV7()\<close>; the second one is \<open>NewOutboxEvent\<close>'s, which falls back to \<open>uuid.New()\<close>.\<close>

definition draw_id :: "string \<Rightarrow> ('d, uuid) m" where
  "draw_id label = (\<lambda>env w.
     (case new_id env (draws w) of None \<Rightarrow> Inl (DBError label) | Some u \<Rightarrow> Inr u,
      w\<lparr>draws := Suc (draws w)\<rparr>))"

definition draw_id_or_new :: "('d, uuid) m" where
  "draw_id_or_new = (\<lambda>env w.
     (Inr (case new_id env (draws w) of None \<Rightarrow> fallback_id env (draws w) | Some u \<Rightarrow> u),
      w\<lparr>draws := Suc (draws w)\<rparr>))"

section \<open>Transactions (\<open>pkg/database\<close>)\<close>

definition statement :: "string \<Rightarrow> ('d, unit) m" where
  "statement label = sql label (\<lambda>env d. Inr ((), d))"

definition WithTx :: "('d, 'a) m \<Rightarrow> ('d, 'a) m" where
  "WithTx fn = (\<lambda>env w.
     case statement ''begin tx: '' env w of
       (Inl e, w1) \<Rightarrow> (Inl e, w1)
     | (Inr _, w1) \<Rightarrow>
         (case fn env w1 of
            (Inl e, w2) \<Rightarrow> (Inl e, w2\<lparr>wdb := wdb w1\<rparr>)
          | (Inr a, w2) \<Rightarrow>
              (case statement ''commit tx: '' env w2 of
                 (Inl e, w3) \<Rightarrow> (Inl e, w3\<lparr>wdb := wdb w1\<rparr>)
               | (Inr _, w3) \<Rightarrow> (Inr a, w3))))"

definition setTenantGUC :: "('d, unit) m" where
  "setTenantGUC = statement ''set tenant guc: ''"

definition WithTenantTx :: "uuid \<Rightarrow> ('d, 'a) m \<Rightarrow> ('d, 'a) m" where
  "WithTenantTx tenantID fn =
     (if tenantID = uuid_Nil then tfail (DBError ''WithTenantTx: tenant id is zero'')
      else (\<lambda>env. WithTx (tbind setTenantGUC (\<lambda>_. fn)) (env\<lparr>cur_tenant := tenantID\<rparr>)))"

text \<open>Row-level security: the rows a statement of the transaction can see and write.\<close>

definition visible :: "env \<Rightarrow> uuid \<Rightarrow> bool" where
  "visible env tid = (bypass_rls env \<or> tid = cur_tenant env)"

record org =
  org_ID :: uuid
  org_deleted :: bool

record base_db =
  organizations :: "org list"

definition ListTenantIDs :: "('x base_db_scheme, uuid list) m" where
  "ListTenantIDs = sql_read ''enumerate tenants: ''
     (\<lambda>env d. Inr (map org_ID (filter (\<lambda>x. \<not> org_deleted x) (organizations d))))"

definition ForEachTenant :: "(uuid \<Rightarrow> ('x base_db_scheme, unit) m) \<Rightarrow> ('x base_db_scheme, unit) m" where
  "ForEachTenant fn =
     tbind ListTenantIDs (\<lambda>tenants. tfor tenants (\<lambda>tid. WithTenantTx tid (fn tid)))"

section \<open>Symbolic execution\<close>

text \<open>In a healthy environment no statement fails and the generator returns identifiers.\<close>

definition healthy :: "env \<Rightarrow> bool" where
  "healthy env \<longleftrightarrow> (\<forall>k. fault env k = None) \<and> (\<forall>k. new_id env k \<noteq> None)"

lemma healthy_fault [simp]: "healthy env \<Longrightarrow> fault env k = None"
  by (simp add: healthy_def)

lemma healthy_cur_tenant [simp]: "healthy (env\<lparr>cur_tenant := t\<rparr>) = healthy env"
  by (simp add: healthy_def)

lemma healthy_new_id: "healthy env \<Longrightarrow> \<exists>u. new_id env k = Some u"
  by (simp add: healthy_def)

lemmas tx_core = tret_def tfail_def tbind_def with_env_def tlift_def tguard_def tremap_def

lemma tbind_tret [simp]: "tbind (tret a) g = g a"
  by (simp add: tbind_def tret_def)

lemma tbind_tfail [simp]: "tbind (tfail e) g = tfail e"
  by (simp add: tbind_def tfail_def)

lemma tbind_assoc: "tbind (tbind f g) h = tbind f (\<lambda>a. tbind (g a) h)"
  by (rule ext)+ (auto simp: tbind_def split: prod.splits sum.splits)

lemma tbind_Inr:
  "tbind f g env w = (Inr b, w'') \<longleftrightarrow>
     (\<exists>a w'. f env w = (Inr a, w') \<and> g a env w' = (Inr b, w''))"
  by (auto simp: tbind_def split: prod.splits sum.splits)

lemma tguard_Inr [simp]: "tguard b e env w = (Inr x, w') \<longleftrightarrow> b \<and> w' = w"
  by (auto simp: tguard_def tret_def tfail_def)

lemma tret_Inr [simp]: "tret a env w = (Inr x, w') \<longleftrightarrow> x = a \<and> w' = w"
  by (auto simp: tret_def)

lemma tfail_Inr [simp]: "tfail e env w \<noteq> (Inr x, w')"
  by (simp add: tfail_def)

lemma tremap_Inr [simp]: "tremap e f env w = (Inr a, w') \<longleftrightarrow> f env w = (Inr a, w')"
  by (auto simp: tremap_def split: prod.splits sum.splits)

lemma with_env_app [simp]: "with_env f env w = f env env w"
  by (simp add: with_env_def)

lemma sql_Inr:
  "sql label f env w = (Inr a, w') \<longleftrightarrow>
     fault env (stmts w) = None \<and>
     (\<exists>d. f env (wdb w) = Inr (a, d) \<and> w' = w\<lparr>stmts := Suc (stmts w), wdb := d\<rparr>)"
  by (auto simp: sql_def Let_def split: option.splits sum.splits)

lemma sql_read_Inr:
  "sql_read label f env w = (Inr a, w') \<longleftrightarrow>
     fault env (stmts w) = None \<and> f env (wdb w) = Inr a \<and> w' = w\<lparr>stmts := Suc (stmts w)\<rparr>"
  by (auto simp: sql_read_def sql_Inr split: sum.splits)

lemma statement_Inr:
  "statement label env w = (Inr a, w') \<longleftrightarrow>
     fault env (stmts w) = None \<and> w' = w\<lparr>stmts := Suc (stmts w)\<rparr>"
  by (auto simp: statement_def sql_Inr)

lemmas tx_Inr = tbind_Inr sql_Inr sql_read_Inr statement_Inr

text \<open>
  A committed transaction ran its body on the database it found, in the tenant's scope, and what it
  leaves is what the body left.
\<close>

lemma WithTenantTx_InrE:
  assumes "WithTenantTx tid fn env w = (Inr a, w')"
  obtains w1 w2 where "tid \<noteq> uuid_Nil" "wdb w1 = wdb w" "draws w1 = draws w"
    "fn (env\<lparr>cur_tenant := tid\<rparr>) w1 = (Inr a, w2)" "wdb w' = wdb w2"
proof -
  from assms obtain w2 where
    "tid \<noteq> uuid_Nil"
    "fn (env\<lparr>cur_tenant := tid\<rparr>) (w\<lparr>stmts := Suc (Suc (stmts w))\<rparr>) = (Inr a, w2)" "wdb w' = wdb w2"
    by (auto simp: WithTenantTx_def WithTx_def setTenantGUC_def tx_Inr tfail_def
        split: if_splits prod.splits sum.splits)
  then show thesis
    using that [of "w\<lparr>stmts := Suc (Suc (stmts w))\<rparr>" w2] by simp
qed

text \<open>A transaction that reports an error leaves the database as it found it.\<close>

lemma WithTx_Inl: "WithTx fn env w = (Inl e, w') \<Longrightarrow> wdb w' = wdb w"
  by (auto simp: WithTx_def statement_def sql_def Let_def
        split: prod.splits sum.splits option.splits)

lemma WithTenantTx_Inl: "WithTenantTx tid fn env w = (Inl e, w') \<Longrightarrow> wdb w' = wdb w"
  by (auto simp: WithTenantTx_def tfail_def dest: WithTx_Inl split: if_splits)

text \<open>In a healthy environment a transaction succeeds exactly when its body does.\<close>

lemma healthy_WithTenantTx:
  assumes "healthy env" and "tid \<noteq> uuid_Nil"
    and "fn (env\<lparr>cur_tenant := tid\<rparr>) (w\<lparr>stmts := Suc (Suc (stmts w))\<rparr>) = (Inr a, w')"
  shows "WithTenantTx tid fn env w = (Inr a, w'\<lparr>stmts := Suc (stmts w')\<rparr>)"
  using assms
  by (simp add: WithTenantTx_def WithTx_def setTenantGUC_def statement_def sql_def tbind_def Let_def)

lemma WithTenantTx_fails:
  assumes "healthy env" "tid \<noteq> uuid_Nil"
    and "fst (fn (env\<lparr>cur_tenant := tid\<rparr>) (w\<lparr>stmts := Suc (Suc (stmts w))\<rparr>)) = Inl e"
  shows "fst (WithTenantTx tid fn env w) = Inl e"
  using assms
  by (auto simp: WithTenantTx_def WithTx_def setTenantGUC_def statement_def sql_def tbind_def Let_def
      split: sum.splits prod.splits)

lemma healthy_sql [simp]:
  "healthy env \<Longrightarrow> sql label f env w =
     (case f env (wdb w) of
        Inl e \<Rightarrow> (Inl e, w\<lparr>stmts := Suc (stmts w)\<rparr>)
      | Inr (a, d) \<Rightarrow> (Inr a, w\<lparr>stmts := Suc (stmts w), wdb := d\<rparr>))"
  by (simp add: sql_def Let_def)

lemma healthy_sql_read [simp]:
  "healthy env \<Longrightarrow> sql_read label f env w = (f env (wdb w), w\<lparr>stmts := Suc (stmts w)\<rparr>)"
  by (simp add: sql_read_def split: sum.splits)

section \<open>Relations every run respects\<close>

text \<open>
  \<open>tx_rel E R f\<close>: in every environment that satisfies \<open>E\<close>, whatever \<open>f\<close> does to the database stays
  inside \<open>R\<close>, on success and on failure.
\<close>

definition tx_rel :: "(env \<Rightarrow> bool) \<Rightarrow> ('d \<Rightarrow> 'd \<Rightarrow> bool) \<Rightarrow> ('d, 'a) m \<Rightarrow> bool" where
  "tx_rel E R f \<longleftrightarrow> (\<forall>env w. E env \<longrightarrow> R (wdb w) (wdb (snd (f env w))))"

lemma tx_relD: "tx_rel E R f \<Longrightarrow> E env \<Longrightarrow> f env w = (r, w') \<Longrightarrow> R (wdb w) (wdb w')"
  unfolding tx_rel_def by (metis snd_conv)

lemma tx_relI:
  "(\<And>env w r w'. E env \<Longrightarrow> f env w = (r, w') \<Longrightarrow> R (wdb w) (wdb w')) \<Longrightarrow> tx_rel E R f"
  unfolding tx_rel_def by (metis surjective_pairing)

text \<open>
  \<open>tx_post E P f Q\<close>: started on a database that satisfies \<open>P\<close>, a successful run of \<open>f\<close> returns a value
  and leaves a database that satisfy \<open>Q\<close>. Failures need no clause: they are rolled back.
\<close>

definition tx_post :: "(env \<Rightarrow> bool) \<Rightarrow> ('d \<Rightarrow> bool) \<Rightarrow> ('d, 'a) m \<Rightarrow> ('a \<Rightarrow> 'd \<Rightarrow> bool) \<Rightarrow> bool" where
  "tx_post E P f Q \<longleftrightarrow>
     (\<forall>env w a w'. E env \<longrightarrow> P (wdb w) \<longrightarrow> f env w = (Inr a, w') \<longrightarrow> Q a (wdb w'))"

lemma tx_postI:
  "(\<And>env w a w'. E env \<Longrightarrow> P (wdb w) \<Longrightarrow> f env w = (Inr a, w') \<Longrightarrow> Q a (wdb w')) \<Longrightarrow> tx_post E P f Q"
  by (simp add: tx_post_def)

lemma tx_postD: "tx_post E P f Q \<Longrightarrow> E env \<Longrightarrow> P (wdb w) \<Longrightarrow> f env w = (Inr a, w') \<Longrightarrow> Q a (wdb w')"
  unfolding tx_post_def by blast

lemma post_tbind:
  assumes "tx_post E P f Q" and "\<And>a. tx_post E (Q a) (g a) S"
  shows "tx_post E P (tbind f g) S"
  by (rule tx_postI) (use assms in \<open>auto simp: tbind_Inr dest: tx_postD\<close>)

lemma post_pure:
  "tx_post E P (tguard b e) (\<lambda>_ d. P d \<and> b)"
  "tx_post E P (tlift r) (\<lambda>a d. P d \<and> r = Inr a)"
  "tx_post E P (tret x) (\<lambda>a d. P d \<and> a = x)"
  by (auto intro!: tx_postI simp: tlift_def)

lemma post_with_env: "(\<And>e. tx_post E P (f e) Q) \<Longrightarrow> tx_post E P (with_env f) Q"
  by (auto simp: tx_post_def)

lemma post_tremap: "tx_post E P f Q \<Longrightarrow> tx_post E P (tremap e f) Q"
  by (auto simp: tx_post_def)

lemma post_conseq: "tx_post E P f Q \<Longrightarrow> (\<And>d. P' d \<Longrightarrow> P d) \<Longrightarrow> (\<And>a d. Q a d \<Longrightarrow> Q' a d) \<Longrightarrow> tx_post E P' f Q'"
  unfolding tx_post_def by blast

lemma post_of_rel: "tx_rel E (\<lambda>d d'. I d \<longrightarrow> I d') f \<Longrightarrow> tx_post E I f (\<lambda>_. I)"
  unfolding tx_rel_def tx_post_def by (metis snd_conv)

text \<open>A property of every value a run can return.\<close>

abbreviation tx_returns :: "(env \<Rightarrow> bool) \<Rightarrow> ('d, 'a) m \<Rightarrow> ('a \<Rightarrow> bool) \<Rightarrow> bool" where
  "tx_returns E f Q \<equiv> tx_post E (\<lambda>_. True) f (\<lambda>a _. Q a)"

text \<open>
  A preorder on database states is kept by whole programs once every statement keeps it.
\<close>

locale db_preorder =
  fixes R :: "'d \<Rightarrow> 'd \<Rightarrow> bool"
  assumes R_refl: "R d d"
    and R_trans: "R d d' \<Longrightarrow> R d' d'' \<Longrightarrow> R d d''"
begin

lemma rel_tret: "tx_rel E R (tret a)"
  by (simp add: tx_rel_def tret_def R_refl)

lemma rel_tfail: "tx_rel E R (tfail e)"
  by (simp add: tx_rel_def tfail_def R_refl)

lemma rel_tlift: "tx_rel E R (tlift r)"
  by (simp add: tx_rel_def tlift_def R_refl)

lemma rel_tguard: "tx_rel E R (tguard b e)"
  by (simp add: tguard_def rel_tret rel_tfail)

lemma rel_draw: "tx_rel E R (draw_id l)" "tx_rel E R draw_id_or_new"
  by (simp_all add: tx_rel_def draw_id_def draw_id_or_new_def R_refl)

lemma rel_tbind_returns:
  assumes f: "tx_rel E R f" and ret: "tx_returns E f Q" and g: "\<And>a. Q a \<Longrightarrow> tx_rel E R (g a)"
  shows "tx_rel E R (tbind f g)"
proof (rule tx_relI)
  fix env w r w'
  assume E: "E env" and run: "tbind f g env w = (r, w')"
  obtain x w1 where fw: "f env w = (x, w1)" by fastforce
  have R1: "R (wdb w) (wdb w1)" using tx_relD [OF f E fw] .
  show "R (wdb w) (wdb w')"
  proof (cases x)
    case (Inl e)
    with run fw R1 show ?thesis by (simp add: tbind_def)
  next
    case (Inr a)
    with run fw have gw: "g a env w1 = (r, w')" by (simp add: tbind_def)
    have "Q a" using ret E fw Inr by (auto simp: tx_post_def)
    from tx_relD [OF g [OF this] E gw] R1 show ?thesis by (blast intro: R_trans)
  qed
qed

lemma rel_tbind:
  assumes "tx_rel E R f" and "\<And>a. tx_rel E R (g a)"
  shows "tx_rel E R (tbind f g)"
  by (rule rel_tbind_returns [where Q = "\<lambda>_. True"]) (use assms in \<open>auto intro: tx_postI\<close>)

lemma rel_with_env: "(\<And>e. tx_rel E R (f e)) \<Longrightarrow> tx_rel E R (with_env f)"
  by (simp add: tx_rel_def with_env_def)

lemma rel_tremap:
  assumes "tx_rel E R f"
  shows "tx_rel E R (tremap e f)"
proof (rule tx_relI)
  fix env w r w'
  assume E: "E env" and run: "tremap e f env w = (r, w')"
  obtain x w1 where fw: "f env w = (x, w1)" by fastforce
  with run have "w' = w1" by (auto simp: tremap_def split: sum.splits)
  then show "R (wdb w) (wdb w')" using tx_relD [OF assms E fw] by simp
qed

lemma rel_tfor: "(\<And>x. x \<in> set xs \<Longrightarrow> tx_rel E R (f x)) \<Longrightarrow> tx_rel E R (tfor xs f)"
  by (induction xs) (auto intro: rel_tret rel_tbind)

lemma rel_tmap: "(\<And>x. x \<in> set xs \<Longrightarrow> tx_rel E R (f x)) \<Longrightarrow> tx_rel E R (tmap xs f)"
  by (induction xs) (auto intro: rel_tret rel_tbind)

lemma rel_if: "tx_rel E R f \<Longrightarrow> tx_rel E R g \<Longrightarrow> tx_rel E R (if b then f else g)"
  by simp

lemma rel_sql:
  "(\<And>env d a d'. E env \<Longrightarrow> f env d = Inr (a, d') \<Longrightarrow> R d d') \<Longrightarrow> tx_rel E R (sql l f)"
  unfolding tx_rel_def sql_def Let_def
  by (auto split: option.splits sum.splits simp: R_refl)

lemma rel_sql_read: "tx_rel E R (sql_read l f)"
  unfolding sql_read_def by (rule rel_sql) (auto split: sum.splits simp: R_refl)

lemma rel_statement: "tx_rel E R (statement l)"
  unfolding statement_def by (rule rel_sql) (simp add: R_refl)

lemma rel_WithTx:
  assumes f: "tx_rel E R f"
  shows "tx_rel E R (WithTx f)"
proof (rule tx_relI)
  fix env w r w'
  assume E: "E env" and run: "WithTx f env w = (r, w')"
  show "R (wdb w) (wdb w')"
  proof (cases r)
    case (Inl e)
    then show ?thesis using run WithTx_Inl R_refl by metis
  next
    case (Inr a)
    then obtain w2 where "f env (w\<lparr>stmts := Suc (stmts w)\<rparr>) = (Inr a, w2)" and "wdb w' = wdb w2"
      using run by (auto simp: WithTx_def statement_Inr split: prod.splits sum.splits)
    then show ?thesis using tx_relD [OF f E] by fastforce
  qed
qed

lemma rel_WithTenantTx:
  assumes "\<And>env. E env \<Longrightarrow> E' (env\<lparr>cur_tenant := tid\<rparr>)"
    and "tx_rel E' R f"
  shows "tx_rel E R (WithTenantTx tid f)"
proof -
  have "tx_rel E' R (WithTx (tbind setTenantGUC (\<lambda>_. f)))"
    unfolding setTenantGUC_def by (intro rel_WithTx rel_tbind rel_statement assms(2))
  then show ?thesis
    using assms(1) by (auto simp: tx_rel_def WithTenantTx_def tfail_def R_refl)
qed

lemmas rel_intros = rel_tret rel_tfail rel_tlift rel_tguard rel_draw rel_tbind rel_with_env
  rel_tremap rel_tfor rel_tmap rel_sql_read

end

text \<open>An invariant that successful bodies keep is kept by their transactions, which undo failures.\<close>

lemma inv_WithTenantTx:
  assumes "\<And>env. E env \<Longrightarrow> E' (env\<lparr>cur_tenant := tid\<rparr>)" and "tx_post E' I f (\<lambda>_. I)"
  shows "tx_rel E (\<lambda>d d'. I d \<longrightarrow> I d') (WithTenantTx tid f)"
proof (rule tx_relI, rule impI)
  fix env w r w'
  assume E: "E env" and run: "WithTenantTx tid f env w = (r, w')" and I: "I (wdb w)"
  show "I (wdb w')"
  proof (cases r)
    case (Inl e)
    with run I show ?thesis using WithTenantTx_Inl by metis
  next
    case (Inr a)
    with run obtain w1 w2 where "wdb w1 = wdb w" "f (env\<lparr>cur_tenant := tid\<rparr>) w1 = (Inr a, w2)" "wdb w' = wdb w2"
      by (auto elim: WithTenantTx_InrE)
    with assms E I show ?thesis using tx_postD by metis
  qed
qed

section \<open>All or nothing\<close>

definition tx_atomic :: "('d, 'a) m \<Rightarrow> bool" where
  "tx_atomic f \<longleftrightarrow> (\<forall>env w e w'. f env w = (Inl e, w') \<longrightarrow> wdb w' = wdb w)"

lemma atomic_WithTenantTx: "tx_atomic (WithTenantTx tid f)"
  by (auto simp: tx_atomic_def dest: WithTenantTx_Inl)

lemma atomic_tret: "tx_atomic (tret a)" "tx_atomic (tfail e)"
  by (simp_all add: tx_atomic_def tret_def tfail_def)

lemma atomic_sql_read: "tx_atomic (sql_read l f)"
  by (auto simp: tx_atomic_def sql_read_def sql_def Let_def split: option.splits sum.splits)

text \<open>Pure steps before the transaction.\<close>

lemma atomic_with_env: "(\<And>e. tx_atomic (f e)) \<Longrightarrow> tx_atomic (with_env f)"
  by (auto simp: tx_atomic_def with_env_def)

lemma atomic_tlift: "(\<And>a. tx_atomic (g a)) \<Longrightarrow> tx_atomic (tbind (tlift r) g)"
  by (auto simp: tx_atomic_def tbind_def tlift_def split: sum.splits)

lemma atomic_draw: "(\<And>a. tx_atomic (g a)) \<Longrightarrow> tx_atomic (tbind (draw_id l) g)"
  unfolding tx_atomic_def tbind_def draw_id_def by (auto split: option.splits)

lemma atomic_then_ret: "tx_atomic f \<Longrightarrow> tx_atomic (tbind f (\<lambda>a. tret (g a)))"
  by (auto simp: tx_atomic_def tbind_def tret_def split: sum.splits prod.splits)

end
