(* ===== verification/Outbox.thy ===== *)
theory Outbox
  imports Tx "HOL-Library.Product_Lexorder" "HOL-Library.Multiset"
begin

text \<open>
  The transactional outbox: \<open>pkg/database/outbox.go\<close> and the \<open>outbox\<close>/\<open>outbox_dlq\<close> tables.
  A service inserts one row per event inside the transaction of its business write; the publisher
  (theory \<open>Outbox_Publisher\<close>) drains the rows later.
\<close>

section \<open>Rows and events\<close>

record outbox_event =
  e_ID :: uuid
  e_TenantID :: uuid
  e_EventType :: string
  e_AggregateType :: string
  e_AggregateID :: uuid
  e_Payload :: "json option"
  e_CreatedAt :: time

record outbox_row =
  o_ID :: uuid
  o_TenantID :: uuid
  o_EventType :: string
  o_AggregateType :: string
  o_AggregateID :: uuid
  o_Payload :: json
  o_CreatedAt :: time
  o_ActorID :: "uuid option"
  o_ActorName :: "string option"
  o_IPAddress :: "string option"
  o_UserAgent :: "string option"
  o_TraceContext :: "(string \<times> string) list"
  o_Published :: bool
  o_PublishedAt :: "time option"
  o_Attempts :: nat
  o_TransientFailures :: nat
  o_LastError :: "string option"
  o_NextAttemptAt :: "time option"

record dlq_row =
  q_ID :: uuid
  q_TenantID :: uuid
  q_EventType :: string
  q_AggregateType :: string
  q_AggregateID :: uuid
  q_Payload :: json
  q_CreatedAt :: time
  q_ActorID :: "uuid option"
  q_ActorName :: "string option"
  q_IPAddress :: "string option"
  q_UserAgent :: "string option"
  q_Attempts :: nat
  q_LastError :: string
  q_DeadLetteredAt :: time

record outbox_db = base_db +
  outbox :: "outbox_row list"
  outbox_dlq :: "dlq_row list"

text \<open>
  \<open>NewOutboxEvent\<close>: a fresh identifier and the current time. A marshalled payload is never empty;
  \<open>None\<close> is the empty \<open>json.RawMessage\<close> a caller could pass.
\<close>

definition NewOutboxEvent :: "uuid \<Rightarrow> string \<Rightarrow> string \<Rightarrow> uuid \<Rightarrow> json option \<Rightarrow> ('d, outbox_event) m" where
  "NewOutboxEvent tenantID eventType aggregateType aggregateID payload =
     tbind draw_id_or_new (\<lambda>i. with_env (\<lambda>env. tret
       \<lparr>e_ID = i, e_TenantID = tenantID, e_EventType = eventType, e_AggregateType = aggregateType,
        e_AggregateID = aggregateID, e_Payload = payload, e_CreatedAt = go_now env\<rparr>))"

definition nonempty :: "string \<Rightarrow> string option" where
  "nonempty s = (if s = [] then None else Some s)"

text \<open>The row \<open>Insert\<close> writes: the event, the request's audit fields, and \<open>published = false\<close>.\<close>

definition outbox_row_of :: "env \<Rightarrow> outbox_event \<Rightarrow> json \<Rightarrow> outbox_row" where
  "outbox_row_of env e payload =
     \<lparr>o_ID = e_ID e, o_TenantID = e_TenantID e, o_EventType = e_EventType e,
      o_AggregateType = e_AggregateType e, o_AggregateID = e_AggregateID e, o_Payload = payload,
      o_CreatedAt = pg_time (if e_CreatedAt e = zero_time then go_now env else e_CreatedAt e),
      o_ActorID = (case GetUserID (ctx env) of
                     Inl _ \<Rightarrow> None
                   | Inr u \<Rightarrow> if u = uuid_Nil then None else Some u),
      o_ActorName = nonempty (GetUserName (ctx env)),
      o_IPAddress = map_option (pg_inet_text env) (nonempty (GetClientIP (ctx env))),
      o_UserAgent = nonempty (GetUserAgent (ctx env)),
      o_TraceContext = c_Trace (ctx env),
      o_Published = False, o_PublishedAt = None, o_Attempts = 0, o_TransientFailures = 0,
      o_LastError = None, o_NextAttemptAt = None\<rparr>"

text \<open>
  \<open>OutboxRepository.Insert\<close>. The statement itself can violate the primary key and the row-level
  security check of the table.
\<close>

definition Outbox_Insert :: "outbox_event \<Rightarrow> ('x outbox_db_scheme, unit) m" where
  "Outbox_Insert e =
     (if e_ID e = uuid_Nil \<or> e_TenantID e = uuid_Nil \<or> e_AggregateID e = uuid_Nil
      then tfail (DBError ''outbox: id, tenant_id, aggregate_id are required'')
      else if e_EventType e = [] \<or> e_AggregateType e = []
      then tfail (DBError ''outbox: event_type and aggregate_type are required'')
      else (case e_Payload e of
         None \<Rightarrow> tfail (DBError ''outbox: payload must be non-empty JSON'')
       | Some payload \<Rightarrow>
           sql ''outbox insert: '' (\<lambda>env d.
             if e_ID e \<in> o_ID ` set (outbox d)
             then Inl (DBError ''outbox insert: duplicate key value'')
             else if \<not> bypass_rls env \<and> e_TenantID e \<noteq> cur_tenant env
             then Inl (DBError ''outbox insert: row violates row-level security policy'')
             else Inr ((), d\<lparr>outbox := outbox d @ [outbox_row_of env e payload]\<rparr>))))"

section \<open>The contract a producer relies on\<close>

text \<open>What a producer's queue of events looks like from inside its transaction: an insert appends
  exactly one row and touches nothing else.\<close>

locale event_sink =
  fixes insert_event :: "'e \<Rightarrow> ('d, unit) m"
    and sunk :: "'d \<Rightarrow> 'row list"
    and others :: "'d \<Rightarrow> 'rest"
    and row_of :: "env \<Rightarrow> 'e \<Rightarrow> 'row"
  assumes insert_appends:
    "insert_event e env w = (Inr (), w') \<Longrightarrow> sunk (wdb w') = sunk (wdb w) @ [row_of env e]"
    and insert_frame: "insert_event e env w = (Inr (), w') \<Longrightarrow> others (wdb w') = others (wdb w)"
begin

lemma insert_all:
  "tfor es insert_event env w = (Inr (), w') \<Longrightarrow>
     sunk (wdb w') = sunk (wdb w) @ map (row_of env) es \<and> others (wdb w') = others (wdb w)"
proof (induction es arbitrary: w)
  case Nil
  then show ?case by simp
next
  case (Cons e es)
  then obtain w1 where w1: "insert_event e env w = (Inr (), w1)"
    and rest: "tfor es insert_event env w1 = (Inr (), w')"
    by (auto simp: tbind_Inr)
  show ?case
    using Cons.IH [OF rest] insert_appends [OF w1] insert_frame [OF w1] by simp
qed

end

text \<open>\<open>Outbox_Insert\<close> provides the contract.\<close>

lemma Outbox_Insert_Inr:
  "Outbox_Insert e env w = (Inr u, w') \<longleftrightarrow>
     e_ID e \<noteq> uuid_Nil \<and> e_TenantID e \<noteq> uuid_Nil \<and> e_AggregateID e \<noteq> uuid_Nil
     \<and> e_EventType e \<noteq> [] \<and> e_AggregateType e \<noteq> []
     \<and> fault env (stmts w) = None
     \<and> (bypass_rls env \<or> e_TenantID e = cur_tenant env)
     \<and> e_ID e \<notin> o_ID ` set (outbox (wdb w))
     \<and> (\<exists>p. e_Payload e = Some p
          \<and> w' = w\<lparr>stmts := Suc (stmts w),
                  wdb := (wdb w)\<lparr>outbox := outbox (wdb w) @ [outbox_row_of env e p]\<rparr>\<rparr>)"
  by (auto simp: Outbox_Insert_def sql_Inr split: if_splits option.splits)

text \<open>All an insert can do to the database, whatever its outcome.\<close>

lemma Outbox_Insert_db:
  assumes "Outbox_Insert e env w = (r, w')"
  shows "wdb w' = wdb w \<or>
    (\<exists>p. e_ID e \<notin> o_ID ` set (outbox (wdb w)) \<and> (bypass_rls env \<or> e_TenantID e = cur_tenant env)
         \<and> wdb w' = (wdb w)\<lparr>outbox := outbox (wdb w) @ [outbox_row_of env e p]\<rparr>)"
proof (cases r)
  case (Inl x)
  with assms show ?thesis
    by (auto simp: Outbox_Insert_def tfail_def sql_def Let_def split: if_splits option.splits)
next
  case (Inr u)
  with assms show ?thesis by (auto simp: Outbox_Insert_Inr)
qed

interpretation outbox_sink: event_sink
  "Outbox_Insert :: outbox_event \<Rightarrow> ('x outbox_db_scheme, unit) m" outbox
  "\<lambda>d. (organizations d, outbox_dlq d, outbox_db.more d)"
  "\<lambda>env e. outbox_row_of env e (the (e_Payload e))"
  by unfold_locales (auto simp: Outbox_Insert_Inr)

text \<open>
  An accepted row carries the event's identity, is unpublished, and records the caller that the
  request context names.
\<close>

lemma outbox_row_of_fields [simp]:
  "o_ID (outbox_row_of env e p) = e_ID e"
  "o_TenantID (outbox_row_of env e p) = e_TenantID e"
  "o_EventType (outbox_row_of env e p) = e_EventType e"
  "o_AggregateType (outbox_row_of env e p) = e_AggregateType e"
  "o_AggregateID (outbox_row_of env e p) = e_AggregateID e"
  "o_Payload (outbox_row_of env e p) = p"
  "o_Published (outbox_row_of env e p) = False"
  "o_Attempts (outbox_row_of env e p) = 0"
  by (simp_all add: outbox_row_of_def)

end
