(* ===== verification/Outbox_Publisher.thy ===== *)
theory Outbox_Publisher
  imports Outbox "HOL-Library.AList"
begin

text \<open>
  The outbox publisher: \<open>pkg/database/outbox_publisher.go\<close> and \<open>pkg/database/outbox_dlq.go\<close>, with the
  claim function \<open>outbox_claim_batch\<close> of document migration 000104 it selects its batch with.

  The NATS client is a parameter \<open>js\<close>: the k-th message published in a drain cycle is accepted
  (\<open>None\<close>) or refused with an error. A cycle returns the messages the broker accepted beside its
  result, because a publish is not undone when the transaction later rolls back.
\<close>

section \<open>Configuration and retry delays\<close>

record pub_config =
  PollInterval :: time
  BatchSize :: int
  RetainPublished :: time
  CleanupInterval :: time
  PublishTimeout :: time
  MaxAttempts :: int
  BaseBackoff :: time
  MaxBackoff :: time

definition zero_config :: pub_config where
  "zero_config = \<lparr>PollInterval = 0, BatchSize = 0, RetainPublished = 0, CleanupInterval = 0,
     PublishTimeout = 0, MaxAttempts = 0, BaseBackoff = 0, MaxBackoff = 0\<rparr>"

text \<open>\<open>NewOutboxPublisherWithConfig\<close>'s defaulting of unset fields.\<close>

definition with_defaults :: "pub_config \<Rightarrow> pub_config" where
  "with_defaults cfg =
     \<lparr>PollInterval = (if PollInterval cfg \<le> 0 then 100 * 1000 * microsecond else PollInterval cfg),
      BatchSize = (if BatchSize cfg \<le> 0 then 100 else BatchSize cfg),
      RetainPublished = (if RetainPublished cfg \<le> 0 then 24 * hour else RetainPublished cfg),
      CleanupInterval = (if CleanupInterval cfg \<le> 0 then 5 * minute else CleanupInterval cfg),
      PublishTimeout = (if PublishTimeout cfg \<le> 0 then 5 * second else PublishTimeout cfg),
      MaxAttempts = (if MaxAttempts cfg \<le> 0 then 5 else MaxAttempts cfg),
      BaseBackoff = (if BaseBackoff cfg = 0 then 2 * second else BaseBackoff cfg),
      MaxBackoff = (if MaxBackoff cfg \<le> 0 then 5 * minute else MaxBackoff cfg)\<rparr>"

fun backoff_loop :: "time \<Rightarrow> nat \<Rightarrow> time \<Rightarrow> time" where
  "backoff_loop cap 0 d = (if d > cap then cap else d)"
| "backoff_loop cap (Suc n) d = (let d' = d * 2 in if d' \<ge> cap then cap else backoff_loop cap n d')"

definition backoff :: "pub_config \<Rightarrow> nat \<Rightarrow> time" where
  "backoff cfg attempts =
     (if BaseBackoff cfg \<le> 0 then 0
      else backoff_loop (MaxBackoff cfg) (attempts - 1) (BaseBackoff cfg))"

definition jetStreamDuplicateWindow :: time where
  "jetStreamDuplicateWindow = 2 * minute"

fun transient_loop :: "time \<Rightarrow> nat \<Rightarrow> time \<Rightarrow> time" where
  "transient_loop limit 0 d = d"
| "transient_loop limit (Suc n) d = (if d < limit then transient_loop limit n (d * 2) else d)"

definition transientBackoff :: "pub_config \<Rightarrow> nat \<Rightarrow> time" where
  "transientBackoff cfg failures =
     (if BaseBackoff cfg \<le> 0 then 0
      else let limit = (if MaxBackoff cfg > jetStreamDuplicateWindow
                        then jetStreamDuplicateWindow else MaxBackoff cfg);
               d = transient_loop limit (failures - 1) (BaseBackoff cfg)
           in if d > limit then limit else d)"

section \<open>Publishing one row\<close>

datatype nats_kind =
    NErrTimeout | NErrNoResponders | NErrConnectionClosed | NErrConnectionDraining
  | NErrConnectionReconnecting | NErrDisconnected | NErrNoServers | NErrStaleConnection
  | CtxDeadlineExceeded | CtxCanceled | NErrNoStreamResponse | NErrOther

datatype nats_err = NatsErr nats_kind string

fun isTransientPublishErr :: "nats_err \<Rightarrow> bool" where
  "isTransientPublishErr (NatsErr k _) =
     (k \<in> {NErrTimeout, NErrNoResponders, NErrConnectionClosed, NErrConnectionDraining,
            NErrConnectionReconnecting, NErrDisconnected, NErrNoServers, NErrStaleConnection,
            CtxDeadlineExceeded, CtxCanceled})"

fun publish_err_text :: "nats_err \<Rightarrow> string" where
  "publish_err_text (NatsErr _ msg) = ''js publish: '' @ msg"

record nats_msg =
  nm_Subject :: string
  nm_Data :: json
  nm_Header :: "(string \<times> string) list"

definition omitempty :: "string \<Rightarrow> string \<Rightarrow> (string \<times> json) list" where
  "omitempty k v = (if v = [] then [] else [(k, JStr v)])"

definition opt_str :: "string option \<Rightarrow> string" where
  "opt_str s = (case s of None \<Rightarrow> [] | Some t \<Rightarrow> t)"

definition cloudEvent :: "env \<Rightarrow> string \<Rightarrow> outbox_row \<Rightarrow> json" where
  "cloudEvent env serviceName e = JObj (
     [(''specversion'', JStr ''1.0''),
      (''id'', JStr (uuid_String env (o_ID e))),
      (''source'', JStr (''vaultdms.'' @ serviceName)),
      (''type'', JStr (o_EventType e))]
     @ omitempty ''subject'' (o_AggregateType e @ ''/'' @ uuid_String env (o_AggregateID e))
     @ [(''time'', JStr (format_RFC3339 (o_CreatedAt e))),
        (''datacontenttype'', JStr ''application/json'')]
     @ omitempty ''tenantid'' (uuid_String env (o_TenantID e))
     @ [(''data'', o_Payload e)]
     @ omitempty ''vdmsactorid'' (case o_ActorID e of None \<Rightarrow> [] | Some a \<Rightarrow> uuid_String env a)
     @ omitempty ''vdmsactorname'' (opt_str (o_ActorName e))
     @ omitempty ''vdmsclientip'' (opt_str (o_IPAddress e))
     @ omitempty ''vdmsuseragent'' (opt_str (o_UserAgent e)))"

text \<open>The message \<open>publishOne\<close> hands to JetStream.\<close>

definition publish_msg :: "env \<Rightarrow> string \<Rightarrow> outbox_row \<Rightarrow> nats_msg" where
  "publish_msg env serviceName e =
     \<lparr>nm_Subject = o_EventType e,
      nm_Data = cloudEvent env serviceName e,
      nm_Header = fold (\<lambda>(k, v) h. AList.update k v h) (o_TraceContext e)
                    [(''Nats-Msg-Id'', uuid_String env (o_ID e))]\<rparr>"

section \<open>The drain cycle\<close>

text \<open>\<open>outbox_claim_batch(p_limit)\<close>: due, unpublished rows, oldest first. It is a SECURITY DEFINER
  function and sees every tenant.\<close>

definition outbox_due :: "time \<Rightarrow> outbox_row \<Rightarrow> bool" where
  "outbox_due now r =
     (\<not> o_Published r \<and> (case o_NextAttemptAt r of None \<Rightarrow> True | Some t \<Rightarrow> t \<le> now))"

definition outbox_claim_batch :: "int \<Rightarrow> ('x outbox_db_scheme, outbox_row list) m" where
  "outbox_claim_batch limit = sql_read ''claim unpublished: '' (\<lambda>env d.
     Inr (take (nat (max (min limit 1000) 0))
            (sort_key (\<lambda>r. (o_CreatedAt r, o_ID r)) (filter (outbox_due (db_now env)) (outbox d)))))"

definition update_outbox ::
    "string \<Rightarrow> (outbox_row \<Rightarrow> bool) \<Rightarrow> (env \<Rightarrow> outbox_row \<Rightarrow> outbox_row) \<Rightarrow> ('x outbox_db_scheme, unit) m" where
  "update_outbox label p f = sql label (\<lambda>env d.
     Inr ((), d\<lparr>outbox := map (\<lambda>r. if visible env (o_TenantID r) \<and> p r then f env r else r) (outbox d)\<rparr>))"

definition record_transient :: "pub_config \<Rightarrow> outbox_row \<Rightarrow> nats_err \<Rightarrow> ('x outbox_db_scheme, unit) m" where
  "record_transient cfg r perr =
     (let failures = o_TransientFailures r + 1 in
      update_outbox ''record transient failure: '' (\<lambda>x. o_ID x = o_ID r)
        (\<lambda>env x. x\<lparr>o_LastError := Some (publish_err_text perr), o_TransientFailures := failures,
                    o_NextAttemptAt := Some (pg_time (db_now env + transientBackoff cfg failures))\<rparr>))"

definition record_retry :: "pub_config \<Rightarrow> outbox_row \<Rightarrow> nat \<Rightarrow> nats_err \<Rightarrow> ('x outbox_db_scheme, unit) m" where
  "record_retry cfg r attempts perr =
     update_outbox ''record retry: '' (\<lambda>x. o_ID x = o_ID r)
       (\<lambda>env x. x\<lparr>o_Attempts := attempts, o_LastError := Some (publish_err_text perr),
                   o_NextAttemptAt := Some (pg_time (db_now env + backoff cfg attempts))\<rparr>)"

definition dlq_row_of :: "env \<Rightarrow> outbox_row \<Rightarrow> nat \<Rightarrow> string \<Rightarrow> dlq_row" where
  "dlq_row_of env e attempts errMsg =
     \<lparr>q_ID = o_ID e, q_TenantID = o_TenantID e, q_EventType = o_EventType e,
      q_AggregateType = o_AggregateType e, q_AggregateID = o_AggregateID e, q_Payload = o_Payload e,
      q_CreatedAt = o_CreatedAt e, q_ActorID = o_ActorID e,
      q_ActorName = nonempty (opt_str (o_ActorName e)), q_IPAddress = nonempty (opt_str (o_IPAddress e)),
      q_UserAgent = nonempty (opt_str (o_UserAgent e)),
      q_Attempts = attempts, q_LastError = errMsg, q_DeadLetteredAt = db_now env\<rparr>"

definition deadLetter :: "outbox_row \<Rightarrow> nat \<Rightarrow> string \<Rightarrow> ('x outbox_db_scheme, unit) m" where
  "deadLetter e attempts errMsg =
     tbind (sql ''dead-letter: '' (\<lambda>env d.
       if o_ID e \<in> q_ID ` set (outbox_dlq d)
       then Inl (DBError ''dead-letter: duplicate key value'')
       else Inr ((), d\<lparr>outbox_dlq := outbox_dlq d @ [dlq_row_of env e attempts errMsg]\<rparr>))) (\<lambda>_.
     sql ''dead-letter: '' (\<lambda>env d.
       Inr ((), d\<lparr>outbox := filter (\<lambda>r. \<not> (visible env (o_TenantID r) \<and> o_ID r = o_ID e)) (outbox d)\<rparr>)))"

text \<open>What is written for a row whose publish was refused.\<close>

definition handle_failure :: "pub_config \<Rightarrow> outbox_row \<Rightarrow> nats_err \<Rightarrow> ('x outbox_db_scheme, unit) m" where
  "handle_failure cfg r perr =
     tbind setTenantGUC (\<lambda>_.
     if isTransientPublishErr perr then record_transient cfg r perr
     else (let attempts = o_Attempts r + 1 in
           if int attempts \<ge> MaxAttempts cfg then deadLetter r attempts (publish_err_text perr)
           else record_retry cfg r attempts perr))"

text \<open>
  The loop over the claimed batch: it returns the rows that were published and the messages the
  broker accepted. Only a transient refusal ends it early.
\<close>

fun drain_loop ::
    "pub_config \<Rightarrow> (nat \<Rightarrow> nats_msg \<Rightarrow> nats_err option) \<Rightarrow> string \<Rightarrow> env \<Rightarrow> outbox_row list \<Rightarrow> nat \<Rightarrow>
     'x outbox_db_scheme world \<Rightarrow> (gerr + outbox_row list) \<times> 'x outbox_db_scheme world \<times> nats_msg list" where
  "drain_loop cfg js svc env [] k w = (Inr [], w, [])"
| "drain_loop cfg js svc env (r # rs) k w =
     (let msg = publish_msg env svc r in
      case js k msg of
        None \<Rightarrow>
          (case drain_loop cfg js svc env rs (Suc k) w of (res, w', sent) \<Rightarrow>
             (case res of Inl e \<Rightarrow> Inl e | Inr ps \<Rightarrow> Inr (r # ps), w', msg # sent))
      | Some perr \<Rightarrow>
          (case handle_failure cfg r perr (env\<lparr>cur_tenant := o_TenantID r\<rparr>) w of
             (Inl e, w1) \<Rightarrow> (Inl e, w1, [])
           | (Inr _, w1) \<Rightarrow>
               if isTransientPublishErr perr then (Inr [], w1, [])
               else drain_loop cfg js svc env rs (Suc k) w1))"

text \<open>\<open>for tenantID, ids := range published\<close>: one update per tenant, each in that tenant's scope.\<close>

definition mark_published :: "outbox_row list \<Rightarrow> uuid \<Rightarrow> ('x outbox_db_scheme, unit) m" where
  "mark_published published tid =
     (\<lambda>env. tbind setTenantGUC (\<lambda>_.
        update_outbox ''mark published: ''
          (\<lambda>x. o_ID x \<in> o_ID ` {r \<in> set published. o_TenantID r = tid})
          (\<lambda>env x. x\<lparr>o_Published := True, o_PublishedAt := Some (db_now env)\<rparr>))
        (env\<lparr>cur_tenant := tid\<rparr>))"

definition drainBatch ::
    "pub_config \<Rightarrow> (nat \<Rightarrow> nats_msg \<Rightarrow> nats_err option) \<Rightarrow> string \<Rightarrow> env \<Rightarrow> 'x outbox_db_scheme world \<Rightarrow>
     (gerr + unit) \<times> 'x outbox_db_scheme world \<times> nats_msg list" where
  "drainBatch cfg js svc env w =
     (case tbind (statement ''begin: '') (\<lambda>_. outbox_claim_batch (BatchSize cfg)) env w of
        (Inl e, w1) \<Rightarrow> (Inl e, w1, [])
      | (Inr batch, w1) \<Rightarrow>
          (case drain_loop cfg js svc env batch 0 w1 of
             (Inl e, w2, sent) \<Rightarrow> (Inl e, w2\<lparr>wdb := wdb w\<rparr>, sent)
           | (Inr published, w2, sent) \<Rightarrow>
               (case tbind (tfor (remdups (map o_TenantID published)) (mark_published published))
                       (\<lambda>_. statement ''commit: '') env w2 of
                  (Inl e, w3) \<Rightarrow> (Inl e, w3\<lparr>wdb := wdb w\<rparr>, sent)
                | (Inr _, w3) \<Rightarrow> (Inr (), w3, sent))))"

section \<open>Retention and replay\<close>

definition cleanupOldEvents :: "pub_config \<Rightarrow> ('x outbox_db_scheme, unit) m" where
  "cleanupOldEvents cfg = with_env (\<lambda>env0.
     let cutoff = go_now env0 - RetainPublished cfg in
     ForEachTenant (\<lambda>tid. sql ''delete outbox: '' (\<lambda>env d.
       Inr ((), d\<lparr>outbox := filter (\<lambda>r. \<not> (o_TenantID r = tid \<and> o_Published r
                    \<and> (case o_PublishedAt r of None \<Rightarrow> False | Some t \<Rightarrow> t < cutoff))) (outbox d)\<rparr>))))"

record replay_options =
  r_TenantID :: uuid
  r_Limit :: int
  r_DryRun :: bool

record replayed_event =
  re_ID :: uuid
  re_TenantID :: uuid
  re_EventType :: string
  re_Attempts :: nat
  re_LastError :: string

definition replayed_of :: "dlq_row \<Rightarrow> replayed_event" where
  "replayed_of q = \<lparr>re_ID = q_ID q, re_TenantID = q_TenantID q, re_EventType = q_EventType q,
     re_Attempts = q_Attempts q, re_LastError = q_LastError q\<rparr>"

definition requeued :: "dlq_row \<Rightarrow> outbox_row" where
  "requeued q = \<lparr>o_ID = q_ID q, o_TenantID = q_TenantID q, o_EventType = q_EventType q,
     o_AggregateType = q_AggregateType q, o_AggregateID = q_AggregateID q, o_Payload = q_Payload q,
     o_CreatedAt = q_CreatedAt q, o_ActorID = q_ActorID q, o_ActorName = q_ActorName q,
     o_IPAddress = q_IPAddress q, o_UserAgent = q_UserAgent q, o_TraceContext = [],
     o_Published = False, o_PublishedAt = None, o_Attempts = 0, o_TransientFailures = 0,
     o_LastError = None, o_NextAttemptAt = None\<rparr>"

definition dlq_pick :: "uuid \<Rightarrow> nat \<Rightarrow> dlq_row list \<Rightarrow> dlq_row list" where
  "dlq_pick tid limit qs =
     take limit (sort_key (\<lambda>q. (q_DeadLetteredAt q, q_ID q)) (filter (\<lambda>q. q_TenantID q = tid) qs))"

definition replayTenantDLQ :: "uuid \<Rightarrow> nat \<Rightarrow> bool \<Rightarrow> ('x outbox_db_scheme, replayed_event list) m" where
  "replayTenantDLQ tid limit dryRun = sql [] (\<lambda>env d.
     let picked = dlq_pick tid limit (outbox_dlq d) in
     if dryRun then Inr (map replayed_of picked, d)
     else if \<exists>q \<in> set picked. q_ID q \<in> o_ID ` set (outbox d)
     then Inl (DBError ''duplicate key value'')
     else Inr (map replayed_of picked,
               d\<lparr>outbox_dlq := filter (\<lambda>q. q_ID q \<notin> q_ID ` set picked) (outbox_dlq d),
                 outbox := outbox d @ map requeued picked\<rparr>))"

fun replay_tenants :: "uuid list \<Rightarrow> nat \<Rightarrow> bool \<Rightarrow> replayed_event list \<Rightarrow> ('x outbox_db_scheme, replayed_event list) m" where
  "replay_tenants [] limit dry out = tret out"
| "replay_tenants (tid # tids) limit dry out =
     (if length out \<ge> limit then tret out
      else tbind (WithTenantTx tid (replayTenantDLQ tid (limit - length out) dry))
             (\<lambda>got. replay_tenants tids limit dry (out @ got)))"

definition ReplayDLQ :: "replay_options \<Rightarrow> ('x outbox_db_scheme, replayed_event list) m" where
  "ReplayDLQ opts =
     (let limit = (if r_Limit opts \<le> 0 then 100 else nat (r_Limit opts)) in
      if r_TenantID opts = uuid_Nil
      then tbind ListTenantIDs (\<lambda>tids. replay_tenants tids limit (r_DryRun opts) [])
      else replay_tenants [r_TenantID opts] limit (r_DryRun opts) [])"

end
