(* ===== verification/Outbox_Delivery.thy ===== *)
theory Outbox_Delivery
  imports Outbox_Publisher
begin

text \<open>
  What the outbox publisher guarantees: bounded retry delays, conservation of events between the
  outbox and the dead-letter table, publish-before-mark, and a bounded number of attempts.
\<close>

section \<open>Retry delays\<close>

text \<open>A delay that doubles with each failure until it reaches a cap.\<close>

locale doubling_delay =
  fixes delay :: "nat \<Rightarrow> time" and base cap :: time
  assumes base_pos: "0 < base"
    and cap_pos: "0 < cap"
    and delay_eq: "delay n = min cap (base * 2 ^ (n - 1))"
begin

lemma delay_mono: "m \<le> n \<Longrightarrow> delay m \<le> delay n"
proof -
  assume "m \<le> n"
  then have "(2::int) ^ (m - 1) \<le> 2 ^ (n - 1)"
    by (intro power_increasing) auto
  then have "base * 2 ^ (m - 1) \<le> base * 2 ^ (n - 1)"
    using base_pos by simp
  then show ?thesis by (simp add: delay_eq min_le_iff_disj)
qed

lemma delay_pos: "0 < delay n"
  using base_pos cap_pos by (simp add: delay_eq)

lemma delay_cap: "delay n \<le> cap"
  by (simp add: delay_eq)

lemma delay_reaches_cap: "n > nat cap \<Longrightarrow> delay n = cap"
proof -
  assume "n > nat cap"
  then have "cap \<le> int (n - 1)" using cap_pos by linarith
  also have "int (n - 1) \<le> int (2 ^ (n - 1))" by (simp only: of_nat_le_iff less_imp_le [OF less_exp])
  also have "int (2 ^ (n - 1)) = 2 ^ (n - 1)" by simp
  also have "\<dots> \<le> base * 2 ^ (n - 1)" using base_pos by simp
  finally show ?thesis by (simp add: delay_eq)
qed

end

lemma backoff_loop_eq: "0 < d \<Longrightarrow> backoff_loop cap n d = min cap (d * 2 ^ n)"
proof (induction cap n d rule: backoff_loop.induct)
  case (1 cap d)
  then show ?case by simp
next
  case (2 cap n d)
  show ?case
  proof (cases "d * 2 \<ge> cap")
    case True
    have "d * 2 * 1 \<le> d * 2 * 2 ^ n" using 2(2) by (intro mult_left_mono) auto
    with True have "cap \<le> d * 2 ^ Suc n" by (simp add: mult.assoc)
    with True show ?thesis by (simp add: Let_def)
  next
    case False
    with 2 show ?thesis by (simp add: Let_def mult.assoc)
  qed
qed

lemma transient_loop_eq: "0 < d \<Longrightarrow> min limit (transient_loop limit n d) = min limit (d * 2 ^ n)"
proof (induction limit n d rule: transient_loop.induct)
  case (1 limit d)
  then show ?case by simp
next
  case (2 limit n d)
  show ?case
  proof (cases "d < limit")
    case True
    with 2 show ?thesis by (simp add: mult.assoc)
  next
    case False
    have "d * 1 \<le> d * 2 ^ Suc n" using 2(2) by (intro mult_left_mono one_le_power) auto
    with False show ?thesis by simp
  qed
qed

lemma with_defaults_pos [simp]:
  "0 < MaxBackoff (with_defaults cfg)" "0 < MaxAttempts (with_defaults cfg)"
  "0 < BatchSize (with_defaults cfg)" "0 < RetainPublished (with_defaults cfg)"
  by (simp_all add: with_defaults_def minute_def hour_def second_def)

definition transient_cap :: "pub_config \<Rightarrow> time" where
  "transient_cap cfg = min (MaxBackoff cfg) jetStreamDuplicateWindow"

lemma backoff_eq:
  "0 < BaseBackoff cfg \<Longrightarrow> backoff cfg n = min (MaxBackoff cfg) (BaseBackoff cfg * 2 ^ (n - 1))"
  by (simp add: backoff_def backoff_loop_eq)

lemma transientBackoff_eq:
  assumes "0 < BaseBackoff cfg"
  shows "transientBackoff cfg n = min (transient_cap cfg) (BaseBackoff cfg * 2 ^ (n - 1))"
proof -
  let ?limit = "transient_cap cfg"
  have "transientBackoff cfg n = min ?limit (transient_loop ?limit (n - 1) (BaseBackoff cfg))"
    using assms by (auto simp: transientBackoff_def transient_cap_def Let_def min_def)
  then show ?thesis using transient_loop_eq [OF assms] by simp
qed

text \<open>The configuration every service boots with: all fields unset.\<close>

definition default_config :: pub_config where
  "default_config = with_defaults zero_config"

lemma default_config_simps [simp]:
  "BaseBackoff default_config = 2 * second" "MaxBackoff default_config = 5 * minute"
  "MaxAttempts default_config = 5" "BatchSize default_config = 100"
  by (simp_all add: default_config_def with_defaults_def zero_config_def)

interpretation retry: doubling_delay "backoff default_config" "2 * second" "5 * minute"
  by unfold_locales (simp_all add: backoff_eq second_def minute_def)

interpretation outage: doubling_delay "transientBackoff default_config" "2 * second" "2 * minute"
  by unfold_locales
    (simp_all add: transientBackoff_eq transient_cap_def jetStreamDuplicateWindow_def second_def minute_def)

section \<open>Events and where they live\<close>

text \<open>What identifies an event and what it says; retry bookkeeping excluded.\<close>

type_synonym event_core = "uuid \<times> uuid \<times> string \<times> string \<times> uuid \<times> json \<times> time"

definition ocore :: "outbox_row \<Rightarrow> event_core" where
  "ocore r = (o_ID r, o_TenantID r, o_EventType r, o_AggregateType r, o_AggregateID r, o_Payload r, o_CreatedAt r)"

definition qcore :: "dlq_row \<Rightarrow> event_core" where
  "qcore q = (q_ID q, q_TenantID q, q_EventType q, q_AggregateType q, q_AggregateID q, q_Payload q, q_CreatedAt q)"

definition events_held :: "'x outbox_db_scheme \<Rightarrow> event_core multiset" where
  "events_held d = mset (map ocore (outbox d)) + mset (map qcore (outbox_dlq d))"

definition ids_ok :: "'x outbox_db_scheme \<Rightarrow> bool" where
  "ids_ok d \<longleftrightarrow> distinct (map o_ID (outbox d))"

text \<open>Replacing one row by another version of it.\<close>

definition put_row :: "outbox_row \<Rightarrow> outbox_row \<Rightarrow> outbox_row list \<Rightarrow> outbox_row list" where
  "put_row r r' xs = map (\<lambda>x. if x = r then r' else x) xs"

lemma same_id_same_row:
  "distinct (map o_ID xs) \<Longrightarrow> r \<in> set xs \<Longrightarrow> x \<in> set xs \<Longrightarrow> o_ID x = o_ID r \<longleftrightarrow> x = r"
  by (auto simp: distinct_map dest: inj_onD)

lemma map_put_row: "g r' = g r \<Longrightarrow> map g (put_row r r' xs) = map g xs"
  by (auto simp: put_row_def)

lemma in_put_row: "x \<in> set xs \<Longrightarrow> x \<noteq> r \<Longrightarrow> x \<in> set (put_row r r' xs)"
  by (force simp: put_row_def)

lemma put_row_mem: "r \<in> set xs \<Longrightarrow> r' \<in> set (put_row r r' xs)"
  by (force simp: put_row_def)

lemma put_row_memD: "x \<in> set (put_row r r' xs) \<Longrightarrow> x = r' \<or> x \<in> set xs \<and> x \<noteq> r"
  by (auto simp: put_row_def split: if_splits)

lemma update_by_id:
  assumes "distinct (map o_ID xs)" "r \<in> set xs" "bypass_rls env \<or> cur_tenant env = o_TenantID r"
  shows "map (\<lambda>x. if visible env (o_TenantID x) \<and> o_ID x = o_ID r then f x else x) xs = put_row r (f r) xs"
  unfolding put_row_def
proof (rule map_cong [OF refl])
  fix x assume "x \<in> set xs"
  then have "o_ID x = o_ID r \<longleftrightarrow> x = r" using same_id_same_row [OF assms(1,2)] by simp
  then show "(if visible env (o_TenantID x) \<and> o_ID x = o_ID r then f x else x) = (if x = r then f r else x)"
    using assms(3) by (auto simp: visible_def)
qed

lemma mset_remove_row:
  "distinct (map o_ID xs) \<Longrightarrow> r \<in> set xs \<Longrightarrow>
     mset (map ocore (filter (\<lambda>x. x \<noteq> r) xs)) + {#ocore r#} = mset (map ocore xs)"
proof (induction xs)
  case Nil
  then show ?case by simp
next
  case (Cons y ys)
  show ?case
  proof (cases "y = r")
    case True
    with Cons.prems have "r \<notin> set ys" by (auto simp: image_iff)
    then have "filter (\<lambda>x. x \<noteq> r) ys = ys" by (simp add: filter_id_conv) blast
    with True show ?thesis by simp
  next
    case False
    with Cons show ?thesis by (auto simp: add.commute)
  qed
qed

section \<open>A refused publish\<close>

text \<open>The version of a row a retryable refusal leaves.\<close>

definition deferred :: "pub_config \<Rightarrow> time \<Rightarrow> nats_err \<Rightarrow> outbox_row \<Rightarrow> outbox_row" where
  "deferred cfg now perr r =
     (if isTransientPublishErr perr
      then r\<lparr>o_LastError := Some (publish_err_text perr), o_TransientFailures := Suc (o_TransientFailures r),
             o_NextAttemptAt := Some (pg_time (now + transientBackoff cfg (Suc (o_TransientFailures r))))\<rparr>
      else r\<lparr>o_Attempts := Suc (o_Attempts r), o_LastError := Some (publish_err_text perr),
             o_NextAttemptAt := Some (pg_time (now + backoff cfg (Suc (o_Attempts r))))\<rparr>)"

definition exhausted :: "pub_config \<Rightarrow> nats_err \<Rightarrow> outbox_row \<Rightarrow> bool" where
  "exhausted cfg perr r \<longleftrightarrow> \<not> isTransientPublishErr perr \<and> int (Suc (o_Attempts r)) \<ge> MaxAttempts cfg"

lemma deferred_fields [simp]:
  "o_ID (deferred cfg now perr r) = o_ID r"
  "o_TenantID (deferred cfg now perr r) = o_TenantID r"
  "o_Published (deferred cfg now perr r) = o_Published r"
  "ocore (deferred cfg now perr r) = ocore r"
  by (simp_all add: deferred_def ocore_def)

lemma qcore_dlq_row_of [simp]: "qcore (dlq_row_of env r n e) = ocore r"
  by (simp add: qcore_def ocore_def dlq_row_of_def)

text \<open>The database a handled refusal leaves, as a function of the database it found.\<close>

definition failed_db ::
    "pub_config \<Rightarrow> env \<Rightarrow> nats_err \<Rightarrow> outbox_row \<Rightarrow> 'x outbox_db_scheme \<Rightarrow> 'x outbox_db_scheme" where
  "failed_db cfg env perr r d =
     (if exhausted cfg perr r
      then d\<lparr>outbox := filter (\<lambda>x. x \<noteq> r) (outbox d),
             outbox_dlq := outbox_dlq d @ [dlq_row_of env r (Suc (o_Attempts r)) (publish_err_text perr)]\<rparr>
      else d\<lparr>outbox := put_row r (deferred cfg (db_now env) perr r) (outbox d)\<rparr>)"

lemma failed_db_keeps:
  assumes "ids_ok d" "r \<in> set (outbox d)"
  shows "ids_ok (failed_db cfg env perr r d)"
    and "events_held (failed_db cfg env perr r d) = events_held d"
    and "x \<in> set (outbox d) \<Longrightarrow> x \<noteq> r \<Longrightarrow> x \<in> set (outbox (failed_db cfg env perr r d))"
proof -
  show "ids_ok (failed_db cfg env perr r d)"
    using assms by (auto simp: ids_ok_def failed_db_def map_put_row distinct_map_filter)
  show "events_held (failed_db cfg env perr r d) = events_held d"
  proof (cases "exhausted cfg perr r")
    case True
    with mset_remove_row [of "outbox d" r] assms show ?thesis
      by (simp add: events_held_def failed_db_def ids_ok_def add.assoc add.commute add.left_commute)
  next
    case False
    then show ?thesis by (simp add: events_held_def failed_db_def map_put_row del: map_map)
  qed
  show "x \<in> set (outbox d) \<Longrightarrow> x \<noteq> r \<Longrightarrow> x \<in> set (outbox (failed_db cfg env perr r d))"
    by (simp add: failed_db_def in_put_row)
qed

lemma handle_failure_db:
  assumes run: "handle_failure cfg r perr env w = (Inr u, w')"
    and ok: "ids_ok (wdb w)" "r \<in> set (outbox (wdb w))" "cur_tenant env = o_TenantID r"
  shows "wdb w' = failed_db cfg env perr r (wdb w)"
proof -
  have upd: "\<And>f. map (\<lambda>x. if visible env (o_TenantID x) \<and> o_ID x = o_ID r then f x else x) (outbox (wdb w))
             = put_row r (f r) (outbox (wdb w))"
    using update_by_id ok by (auto simp: ids_ok_def)
  have del: "filter (\<lambda>x. \<not> (visible env (o_TenantID x) \<and> o_ID x = o_ID r)) (outbox (wdb w))
             = filter (\<lambda>x. x \<noteq> r) (outbox (wdb w))"
    using same_id_same_row [of "outbox (wdb w)" r] ok
    by (intro filter_cong) (auto simp: ids_ok_def visible_def)
  show ?thesis
    using run upd del
    by (auto simp: handle_failure_def setTenantGUC_def record_transient_def record_retry_def
          update_outbox_def deadLetter_def tx_Inr Let_def failed_db_def exhausted_def deferred_def
          split: if_splits)
qed

section \<open>The loop over a batch\<close>

definition attempts_ok :: "pub_config \<Rightarrow> 'x outbox_db_scheme \<Rightarrow> bool" where
  "attempts_ok cfg d \<longleftrightarrow> (\<forall>x \<in> set (outbox d). int (o_Attempts x) < MaxAttempts cfg)"

lemma failed_db_attempts: "r \<in> set (outbox d) \<Longrightarrow> attempts_ok cfg d \<Longrightarrow> attempts_ok cfg (failed_db cfg env perr r d)"
  by (auto simp: attempts_ok_def failed_db_def exhausted_def deferred_def dest!: put_row_memD)

lemma failed_db_published:
  "x \<in> set (outbox (failed_db cfg env perr r d)) \<Longrightarrow> o_Published x \<Longrightarrow> \<not> o_Published r \<Longrightarrow> x \<in> set (outbox d)"
  by (auto simp: failed_db_def split: if_splits dest!: put_row_memD)

text \<open>What one pass over a claimed batch leaves, whatever the broker answered.\<close>

definition drain_post ::
    "pub_config \<Rightarrow> (outbox_row \<Rightarrow> nats_msg) \<Rightarrow> outbox_row list \<Rightarrow> 'x outbox_db_scheme \<Rightarrow> 'x outbox_db_scheme \<Rightarrow>
     outbox_row list \<Rightarrow> nats_msg list \<Rightarrow> bool" where
  "drain_post cfg msg rs d d' ps sent \<longleftrightarrow>
     ids_ok d' \<and> events_held d' = events_held d
     \<and> set ps \<subseteq> set rs \<and> set ps \<subseteq> set (outbox d') \<and> sent = map msg ps
     \<and> (\<forall>x \<in> set (outbox d). x \<notin> set rs \<longrightarrow> x \<in> set (outbox d'))
     \<and> (\<forall>x \<in> set (outbox d'). o_Published x \<longrightarrow> x \<in> set (outbox d))
     \<and> (attempts_ok cfg d \<longrightarrow> attempts_ok cfg d')"

lemma drain_post_published:
  "drain_post cfg msg rs d d' ps sent \<Longrightarrow> r \<in> set (outbox d) \<Longrightarrow> r \<notin> set rs \<Longrightarrow>
     drain_post cfg msg (r # rs) d d' (r # ps) (msg r # sent)"
  by (auto simp: drain_post_def)

lemma drain_post_step:
  assumes "drain_post cfg msg rs d1 d' ps sent" "events_held d1 = events_held d"
    and "\<And>x. x \<in> set (outbox d) \<Longrightarrow> x \<noteq> r \<Longrightarrow> x \<in> set (outbox d1)"
    and "\<And>x. x \<in> set (outbox d1) \<Longrightarrow> o_Published x \<Longrightarrow> x \<in> set (outbox d)"
    and "attempts_ok cfg d \<Longrightarrow> attempts_ok cfg d1"
  shows "drain_post cfg msg (r # rs) d d' ps sent"
  unfolding drain_post_def
proof (intro conjI ballI impI)
  show "ids_ok d'" "events_held d' = events_held d" "set ps \<subseteq> set (r # rs)"
    "set ps \<subseteq> set (outbox d')" "sent = map msg ps"
    using assms(1,2) unfolding drain_post_def by auto
  show "x \<in> set (outbox d')" if "x \<in> set (outbox d)" "x \<notin> set (r # rs)" for x
    using assms(1) assms(3) [of x] that unfolding drain_post_def by simp
  show "x \<in> set (outbox d)" if "x \<in> set (outbox d')" "o_Published x" for x
    using assms(1) assms(4) [of x] that unfolding drain_post_def by simp
  show "attempts_ok cfg d'" if "attempts_ok cfg d"
    using assms(1,5) that unfolding drain_post_def by simp
qed

lemma drain_post_failed:
  assumes "ids_ok d" "r \<in> set (outbox d)" "\<not> o_Published r"
    and "drain_post cfg msg rs (failed_db cfg env perr r d) d' ps sent"
  shows "drain_post cfg msg (r # rs) d d' ps sent"
  using assms(4)
proof (rule drain_post_step)
  show "events_held (failed_db cfg env perr r d) = events_held d"
    by (rule failed_db_keeps(2) [OF assms(1,2)])
qed (use assms failed_db_keeps(3) failed_db_published failed_db_attempts in blast)+

lemma drain_post_stop: "ids_ok d \<Longrightarrow> drain_post cfg msg rs d d [] []"
  by (auto simp: drain_post_def)

lemma drain_loop_result:
  assumes "drain_loop cfg js svc env rs k w = (Inr ps, w', sent)"
    and "ids_ok (wdb w)" "distinct rs" "set rs \<subseteq> set (outbox (wdb w))" "\<forall>r \<in> set rs. \<not> o_Published r"
  shows "drain_post cfg (publish_msg env svc) rs (wdb w) (wdb w') ps sent"
  using assms
proof (induction rs arbitrary: k w ps sent)
  case Nil
  then show ?case by (simp add: drain_post_stop)
next
  case (Cons r rs)
  note ok = Cons.prems(2-5)
  show ?case
  proof (cases "js k (publish_msg env svc r)")
    case None
    with Cons.prems(1) obtain ps' sent' where
      rec: "drain_loop cfg js svc env rs (Suc k) w = (Inr ps', w', sent')"
      and ps: "ps = r # ps'" "sent = publish_msg env svc r # sent'"
      by (auto simp: Let_def split: prod.splits sum.splits)
    have "drain_post cfg (publish_msg env svc) rs (wdb w) (wdb w') ps' sent'"
      by (rule Cons.IH [OF rec]) (use ok in auto)
    with ok ps show ?thesis by (auto intro: drain_post_published)
  next
    case (Some perr)
    let ?env = "env\<lparr>cur_tenant := o_TenantID r\<rparr>"
    from Some Cons.prems(1) obtain u w1 where
      hf: "handle_failure cfg r perr ?env w = (Inr u, w1)"
      and rest: "(if isTransientPublishErr perr then (Inr [], w1, [])
                  else drain_loop cfg js svc env rs (Suc k) w1) = (Inr ps, w', sent)"
      by (auto simp: Let_def split: prod.splits sum.splits)
    have d1: "wdb w1 = failed_db cfg ?env perr r (wdb w)"
      by (rule handle_failure_db [OF hf]) (use ok in auto)
    note keep = failed_db_keeps [where cfg = cfg and env = ?env and perr = perr, OF ok(1)]
    have "drain_post cfg (publish_msg env svc) rs (wdb w1) (wdb w') ps sent"
    proof (cases "isTransientPublishErr perr")
      case True
      with rest keep ok d1 show ?thesis by (auto intro: drain_post_stop)
    next
      case False
      with rest have rec: "drain_loop cfg js svc env rs (Suc k) w1 = (Inr ps, w', sent)" by simp
      have "set rs \<subseteq> set (outbox (wdb w1))"
      proof
        fix x assume "x \<in> set rs"
        then show "x \<in> set (outbox (wdb w1))"
          unfolding d1 using ok by (intro failed_db_keeps(3)) auto
      qed
      then show ?thesis by (intro Cons.IH [OF rec]) (use ok keep d1 in auto)
    qed
    then show ?thesis unfolding d1 by (rule drain_post_failed [rotated 3]) (use ok in auto)
  qed
qed

section \<open>Marking the published rows\<close>

text \<open>Rows listed in \<open>ids\<close> may become published; everything else about the outbox stays.\<close>

definition marks :: "uuid set \<Rightarrow> 'x outbox_db_scheme \<Rightarrow> 'x outbox_db_scheme \<Rightarrow> bool" where
  "marks ids d d' \<longleftrightarrow>
     outbox_dlq d' = outbox_dlq d
     \<and> list_all2 (\<lambda>x y. o_ID y = o_ID x \<and> ocore y = ocore x \<and> o_Attempts y = o_Attempts x
                       \<and> (y = x \<or> o_ID x \<in> ids)) (outbox d) (outbox d')"

interpretation marks: db_preorder "marks ids :: 'x outbox_db_scheme \<Rightarrow> _" for ids
proof
  show "marks ids d d" for d :: "'x outbox_db_scheme"
    by (simp add: marks_def list_all2_refl)
  show "marks ids d d''" if "marks ids d d'" "marks ids d' d''" for d d' d'' :: "'x outbox_db_scheme"
    using that unfolding marks_def
    by (auto intro: list_all2_trans [where as = "outbox d" and bs = "outbox d'" and cs = "outbox d''", rotated])
qed

lemma mark_published_marks:
  "tx_rel E (marks (o_ID ` set ps)) (mark_published ps tid)"
proof -
  have "tx_rel (\<lambda>_. True) (marks (o_ID ` set ps)) (tbind setTenantGUC (\<lambda>_.
        update_outbox ''mark published: '' (\<lambda>x. o_ID x \<in> o_ID ` {r \<in> set ps. o_TenantID r = tid})
          (\<lambda>env x. x\<lparr>o_Published := True, o_PublishedAt := Some (db_now env)\<rparr>)))"
    unfolding setTenantGUC_def update_outbox_def
    by (intro marks.rel_tbind marks.rel_statement marks.rel_sql)
      (auto simp: marks_def list_all2_map2 ocore_def intro!: list_all2_refl)
  then show ?thesis unfolding tx_rel_def mark_published_def by blast
qed

lemma marks_keeps:
  assumes "marks ids d d'"
  shows "ids_ok d' = ids_ok d" "events_held d' = events_held d" "attempts_ok cfg d' = attempts_ok cfg d"
proof -
  have all2: "list_all2 (\<lambda>x y. o_ID y = o_ID x \<and> ocore y = ocore x \<and> o_Attempts y = o_Attempts x
                       \<and> (y = x \<or> o_ID x \<in> ids)) (outbox d) (outbox d')"
    and dlq: "outbox_dlq d' = outbox_dlq d"
    using assms by (auto simp: marks_def)
  have "map o_ID (outbox d') = map o_ID (outbox d)"
    and core: "map ocore (outbox d') = map ocore (outbox d)"
    and att: "map o_Attempts (outbox d') = map o_Attempts (outbox d)"
    using all2 by (induction rule: list_all2_induct) auto
  then show "ids_ok d' = ids_ok d" "events_held d' = events_held d"
    using dlq by (simp_all add: ids_ok_def events_held_def)
  have "\<And>P. (\<forall>x \<in> set (outbox d'). P (o_Attempts x)) = (\<forall>a \<in> set (map o_Attempts (outbox d')). P a)"
    by simp
  with att show "attempts_ok cfg d' = attempts_ok cfg d"
    by (simp add: attempts_ok_def)
qed

lemma marks_row:
  "marks ids d d' \<Longrightarrow> y \<in> set (outbox d') \<Longrightarrow> \<exists>x \<in> set (outbox d). ocore y = ocore x \<and> (y = x \<or> o_ID y \<in> ids)"
  unfolding marks_def by (auto simp: list_all2_conv_all_nth in_set_conv_nth) (metis nth_mem)

section \<open>One drain cycle\<close>

text \<open>The rows a cycle claims.\<close>

definition claimed :: "pub_config \<Rightarrow> env \<Rightarrow> 'x outbox_db_scheme \<Rightarrow> outbox_row list" where
  "claimed cfg env d =
     take (nat (max (min (BatchSize cfg) 1000) 0))
       (sort_key (\<lambda>r. (o_CreatedAt r, o_ID r)) (filter (outbox_due (db_now env)) (outbox d)))"

lemma set_claimed: "set (claimed cfg env d) \<subseteq> {r \<in> set (outbox d). outbox_due (db_now env) r}"
  unfolding claimed_def by (rule subset_trans [OF set_take_subset]) simp

lemma claimed_mem:
  "r \<in> set (claimed cfg env d) \<Longrightarrow> r \<in> set (outbox d)"
  "r \<in> set (claimed cfg env d) \<Longrightarrow> \<not> o_Published r"
  using set_claimed [of cfg env d] by (auto simp: outbox_due_def)

lemma distinct_claimed: "ids_ok d \<Longrightarrow> distinct (claimed cfg env d)"
  by (auto simp: claimed_def ids_ok_def distinct_map intro!: distinct_take distinct_filter)

lemma claim_run:
  "tbind (statement l) (\<lambda>_. outbox_claim_batch (BatchSize cfg)) env w = (Inr batch, w1) \<Longrightarrow>
     batch = claimed cfg env (wdb w) \<and> wdb w1 = wdb w"
  by (auto simp: tx_Inr outbox_claim_batch_def claimed_def)

text \<open>A committed cycle: what the loop published, and the marking of exactly those rows.\<close>

lemma drainBatch_Inr:
  assumes run: "drainBatch cfg js svc env w = (Inr u, w', sent)" and ids: "ids_ok (wdb w)"
  obtains ps d2 where
    "drain_post cfg (publish_msg env svc) (claimed cfg env (wdb w)) (wdb w) d2 ps sent"
    "marks (o_ID ` set ps) d2 (wdb w')"
proof -
  from run obtain w1 w2 ps x where
    claim: "tbind (statement ''begin: '') (\<lambda>_. outbox_claim_batch (BatchSize cfg)) env w = (Inr x, w1)"
    and loop: "drain_loop cfg js svc env x 0 w1 = (Inr ps, w2, sent)"
    and mark: "tbind (tfor (remdups (map o_TenantID ps)) (mark_published ps))
                 (\<lambda>_. statement ''commit: '') env w2 = (Inr (), w')"
    by (auto simp: drainBatch_def split: prod.splits sum.splits)
  from claim_run [OF claim] have x: "x = claimed cfg env (wdb w)" "wdb w1 = wdb w" by auto
  have post: "drain_post cfg (publish_msg env svc) x (wdb w1) (wdb w2) ps sent"
    by (rule drain_loop_result [OF loop])
      (use x ids in \<open>auto simp: distinct_claimed dest: claimed_mem\<close>)
  have rel: "tx_rel (\<lambda>_. True) (marks (o_ID ` set ps))
      (tbind (tfor (remdups (map o_TenantID ps)) (mark_published ps)) (\<lambda>_. statement ''commit: ''))"
    by (intro marks.rel_tbind marks.rel_tfor marks.rel_statement mark_published_marks)
  have "marks (o_ID ` set ps) (wdb w2) (wdb w')"
    by (rule tx_relD [OF rel TrueI mark])
  then show thesis using that post x by simp
qed

lemma drainBatch_Inl: "drainBatch cfg js svc env w = (Inl e, w', sent) \<Longrightarrow> wdb w' = wdb w"
  by (auto simp: drainBatch_def tbind_def statement_def outbox_claim_batch_def sql_def sql_read_def Let_def
        split: prod.splits sum.splits option.splits)

lemma drainBatch_conserves_aux:
  assumes "ids_ok (wdb w)" and "drainBatch cfg js svc env w = (res, w', sent)"
  shows "events_held (wdb w') = events_held (wdb w)"
proof (cases res)
  case (Inl e)
  with assms show ?thesis using drainBatch_Inl by metis
next
  case (Inr u)
  with assms obtain ps d2 where
    "drain_post cfg (publish_msg env svc) (claimed cfg env (wdb w)) (wdb w) d2 ps sent"
    and "marks (o_ID ` set ps) d2 (wdb w')"
    using drainBatch_Inr by metis
  then show ?thesis using marks_keeps(2) by (metis drain_post_def)
qed

text \<open>
  Property C32. Whatever the broker answers and whichever statements fail, one drain cycle neither
  loses, nor duplicates, nor rewrites an event: the outbox and the dead-letter table together hold
  the same multiset of events (identity, tenant, type, aggregate, payload, creation time) after it.
\<close>

lemma drainBatch_conserves_events:
  assumes "ids_ok (wdb w)" and "drainBatch cfg js svc env w = (res, w', sent)"
  shows "events_held (wdb w') = events_held (wdb w)"
  by (rule drainBatch_conserves_aux [OF assms])

text \<open>
  Property C33. A committed cycle marks a row published only when the broker accepted, in that very
  cycle, the message built from the claimed row.
\<close>

lemma drainBatch_publishes_before_marking:
  assumes "ids_ok (wdb w)" and "drainBatch cfg js svc env w = (Inr u, w', sent)"
    and "y \<in> set (outbox (wdb w'))" "o_Published y" "y \<notin> set (outbox (wdb w))"
  shows "\<exists>r \<in> set (claimed cfg env (wdb w)). o_ID r = o_ID y \<and> publish_msg env svc r \<in> set sent"
proof -
  obtain ps d2 where
    post: "drain_post cfg (publish_msg env svc) (claimed cfg env (wdb w)) (wdb w) d2 ps sent"
    and mk: "marks (o_ID ` set ps) d2 (wdb w')"
    using drainBatch_Inr [OF assms(2,1)] by metis
  obtain x where x: "x \<in> set (outbox d2)" "ocore y = ocore x" "y = x \<or> o_ID y \<in> o_ID ` set ps"
    using marks_row [OF mk assms(3)] by auto
  have "y \<noteq> x" using post x(1) assms(4,5) unfolding drain_post_def by blast
  with x(3) obtain r where "r \<in> set ps" "o_ID y = o_ID r" by auto
  then show ?thesis using post unfolding drain_post_def by auto
qed

section \<open>A poison row does not block the queue\<close>

definition no_outage :: "(nat \<Rightarrow> nats_msg \<Rightarrow> nats_err option) \<Rightarrow> bool" where
  "no_outage js \<longleftrightarrow> (\<forall>k m e. js k m = Some e \<longrightarrow> \<not> isTransientPublishErr e)"

definition ids_apart :: "'x outbox_db_scheme \<Rightarrow> bool" where
  "ids_apart d \<longleftrightarrow> o_ID ` set (outbox d) \<inter> q_ID ` set (outbox_dlq d) = {}"

lemma failed_db_apart:
  assumes "ids_ok d" "r \<in> set (outbox d)" "ids_apart d"
  shows "ids_apart (failed_db cfg env perr r d)"
proof -
  have "o_ID r \<notin> o_ID ` set (filter (\<lambda>x. x \<noteq> r) (outbox d))"
    using assms(1,2) by (auto simp: ids_ok_def distinct_map dest: inj_onD)
  moreover have "q_ID (dlq_row_of env r n e) = o_ID r" for n e by (simp add: dlq_row_of_def)
  ultimately show ?thesis
    using assms(2,3) by (auto simp: ids_apart_def failed_db_def dest!: put_row_memD)
qed

lemma handle_failure_runs:
  assumes "healthy env" "\<not> isTransientPublishErr perr" "ids_apart (wdb w)" "r \<in> set (outbox (wdb w))"
  shows "\<exists>w'. handle_failure cfg r perr env w = (Inr (), w')"
proof -
  have "o_ID r \<notin> q_ID ` set (outbox_dlq (wdb w))" using assms(3,4) by (auto simp: ids_apart_def)
  with assms show ?thesis
    by (auto simp: handle_failure_def setTenantGUC_def statement_def deadLetter_def record_retry_def
          update_outbox_def tbind_def Let_def)
qed

lemma drain_loop_runs:
  assumes "healthy env" "no_outage js"
    and "ids_ok (wdb w)" "ids_apart (wdb w)" "distinct rs" "set rs \<subseteq> set (outbox (wdb w))"
  shows "\<exists>ps w' sent. drain_loop cfg js svc env rs k w = (Inr ps, w', sent)
           \<and> (\<forall>r \<in> set rs. (\<forall>k. js k (publish_msg env svc r) = None) \<longrightarrow> r \<in> set ps)"
  using assms(3-6)
proof (induction rs arbitrary: k w)
  case Nil
  then show ?case by simp
next
  case (Cons r rs)
  show ?case
  proof (cases "js k (publish_msg env svc r)")
    case None
    from Cons obtain ps w' sent where
      "drain_loop cfg js svc env rs (Suc k) w = (Inr ps, w', sent)"
      "\<forall>r \<in> set rs. (\<forall>k. js k (publish_msg env svc r) = None) \<longrightarrow> r \<in> set ps"
      by (metis distinct.simps(2) list.simps(15) insert_subset)
    with None show ?thesis by (auto simp: Let_def)
  next
    case (Some perr)
    let ?env = "env\<lparr>cur_tenant := o_TenantID r\<rparr>"
    have nt: "\<not> isTransientPublishErr perr" using Some assms(2) by (auto simp: no_outage_def)
    obtain w1 where w1: "handle_failure cfg r perr ?env w = (Inr (), w1)"
      using handle_failure_runs [of ?env perr w r cfg] nt Cons.prems assms(1) by auto
    have d1: "wdb w1 = failed_db cfg ?env perr r (wdb w)"
      by (rule handle_failure_db [OF w1]) (use Cons.prems in auto)
    have "set rs \<subseteq> set (outbox (wdb w1))"
    proof
      fix x assume "x \<in> set rs"
      then show "x \<in> set (outbox (wdb w1))"
        unfolding d1 using Cons.prems by (intro failed_db_keeps(3)) auto
    qed
    moreover have "ids_ok (wdb w1)" "ids_apart (wdb w1)"
      unfolding d1 using Cons.prems by (auto intro: failed_db_keeps failed_db_apart)
    ultimately obtain ps w' sent where
      "drain_loop cfg js svc env rs (Suc k) w1 = (Inr ps, w', sent)"
      "\<forall>r \<in> set rs. (\<forall>k. js k (publish_msg env svc r) = None) \<longrightarrow> r \<in> set ps"
      using Cons.IH [of w1 "Suc k"] Cons.prems(3) by auto
    with Some w1 nt show ?thesis by (auto simp: Let_def)
  qed
qed

lemma mark_published_row:
  assumes "mark_published ps tid env w = (Inr (), w')" "x \<in> set (outbox (wdb w))"
  shows "\<exists>y \<in> set (outbox (wdb w')). ocore y = ocore x \<and> (o_Published x \<longrightarrow> o_Published y)
           \<and> ((\<exists>r \<in> set ps. ocore r = ocore x \<and> o_TenantID r = tid) \<longrightarrow> o_Published y)"
proof -
  let ?f = "\<lambda>x. if visible (env\<lparr>cur_tenant := tid\<rparr>) (o_TenantID x) \<and> o_ID x \<in> o_ID ` {r \<in> set ps. o_TenantID r = tid}
                 then x\<lparr>o_Published := True, o_PublishedAt := Some (db_now env)\<rparr> else x"
  have "outbox (wdb w') = map ?f (outbox (wdb w))"
    using assms(1) by (auto simp: mark_published_def update_outbox_def setTenantGUC_def tx_Inr)
  with assms(2) have "?f x \<in> set (outbox (wdb w'))" by auto
  moreover have "ocore (?f x) = ocore x" "o_Published x \<longrightarrow> o_Published (?f x)"
    by (simp_all add: ocore_def)
  moreover have "(\<exists>r \<in> set ps. ocore r = ocore x \<and> o_TenantID r = tid) \<longrightarrow> o_Published (?f x)"
    by (auto simp: ocore_def visible_def intro: rev_image_eqI)
  ultimately show ?thesis by blast
qed

lemma mark_all_rows:
  assumes "tfor tids (mark_published ps) env w = (Inr (), w')" "x \<in> set (outbox (wdb w))"
  shows "\<exists>y \<in> set (outbox (wdb w')). ocore y = ocore x \<and> (o_Published x \<longrightarrow> o_Published y)
           \<and> ((\<exists>r \<in> set ps. ocore r = ocore x \<and> o_TenantID r \<in> set tids) \<longrightarrow> o_Published y)"
  using assms
proof (induction tids arbitrary: w x)
  case Nil
  then show ?case by auto
next
  case (Cons tid tids)
  from Cons.prems(1) obtain w1 where w1: "mark_published ps tid env w = (Inr (), w1)"
    "tfor tids (mark_published ps) env w1 = (Inr (), w')" by (auto simp: tbind_Inr)
  obtain y where y: "y \<in> set (outbox (wdb w1))" "ocore y = ocore x" "o_Published x \<longrightarrow> o_Published y"
      "(\<exists>r \<in> set ps. ocore r = ocore x \<and> o_TenantID r = tid) \<longrightarrow> o_Published y"
    using mark_published_row [OF w1(1) Cons.prems(2)] by blast
  show ?case using Cons.IH [OF w1(2) y(1)] y(2-4) by (metis set_ConsD)
qed

lemma mark_all_runs: "healthy env \<Longrightarrow> \<exists>w'. tfor tids (mark_published ps) env w = (Inr (), w')"
  by (induction tids arbitrary: w)
    (auto simp: tret_def mark_published_def update_outbox_def setTenantGUC_def statement_def tbind_def)

text \<open>
  Property C34. While the database is healthy and the broker has no outage, a drain cycle succeeds
  and publishes every claimed row the broker accepts, no matter how many rows before it in the batch
  are refused, retried or dead-lettered.
\<close>

lemma drainBatch_poison_rows_do_not_block:
  assumes ok: "healthy env" "no_outage js" "ids_ok (wdb w)" "ids_apart (wdb w)"
    and r: "r \<in> set (claimed cfg env (wdb w))" "\<forall>k. js k (publish_msg env svc r) = None"
  shows "\<exists>w' sent. drainBatch cfg js svc env w = (Inr (), w', sent)
           \<and> publish_msg env svc r \<in> set sent
           \<and> (\<exists>y \<in> set (outbox (wdb w')). ocore y = ocore r \<and> o_Published y)"
proof -
  let ?w1 = "w\<lparr>stmts := Suc (Suc (stmts w))\<rparr>" and ?batch = "claimed cfg env (wdb w)"
  have claim: "tbind (statement ''begin: '') (\<lambda>_. outbox_claim_batch (BatchSize cfg)) env w = (Inr ?batch, ?w1)"
    using ok(1) by (simp add: tbind_def statement_def outbox_claim_batch_def claimed_def)
  have sub: "distinct ?batch" "set ?batch \<subseteq> set (outbox (wdb ?w1))" "\<forall>r \<in> set ?batch. \<not> o_Published r"
    using ok(3) by (auto simp: distinct_claimed dest: claimed_mem)
  obtain ps w2 sent where loop: "drain_loop cfg js svc env ?batch 0 ?w1 = (Inr ps, w2, sent)"
    and ps: "r \<in> set ps"
    using drain_loop_runs [of env js ?w1 ?batch cfg svc 0] ok sub r by auto
  have post: "drain_post cfg (publish_msg env svc) ?batch (wdb ?w1) (wdb w2) ps sent"
    by (rule drain_loop_result [OF loop]) (use ok sub in auto)
  obtain w3 where w3: "tfor (remdups (map o_TenantID ps)) (mark_published ps) env w2 = (Inr (), w3)"
    using mark_all_runs [OF ok(1)] by blast
  have "r \<in> set (outbox (wdb w2))" using ps post by (auto simp: drain_post_def)
  with mark_all_rows [OF w3] ps
  have "\<exists>y \<in> set (outbox (wdb w3)). ocore y = ocore r \<and> o_Published y"
    by (metis image_eqI list.set_map set_remdups)
  moreover have "drainBatch cfg js svc env w = (Inr (), w3\<lparr>stmts := Suc (stmts w3)\<rparr>, sent)"
    using claim loop w3 ok(1) by (simp add: drainBatch_def tbind_def statement_def)
  moreover have "publish_msg env svc r \<in> set sent"
    using post ps by (auto simp: drain_post_def)
  ultimately show ?thesis by simp
qed

end
