(* ===== verification/Outbox_System.thy ===== *)
theory Outbox_System
  imports Outbox_Delivery
begin

text \<open>
  The outbox over time. Producers insert, the publisher drains and cleans up, an operator replays the
  dead-letter table; every one of these may fail at any statement. Both tables keep their keys
  unique, and every event a producer committed stays in one of the two tables until it has been
  published and its retention has passed.
\<close>

section \<open>Keys\<close>

definition outbox_wf :: "'x outbox_db_scheme \<Rightarrow> bool" where
  "outbox_wf d \<longleftrightarrow> ids_ok d \<and> distinct (map q_ID (outbox_dlq d))"

interpretation keeps_wf: db_preorder "\<lambda>d d'. outbox_wf d \<longrightarrow> outbox_wf (d' :: 'x outbox_db_scheme)"
  by unfold_locales auto

lemma Outbox_Insert_wf: "tx_rel E (\<lambda>d d'. outbox_wf d \<longrightarrow> outbox_wf d') (Outbox_Insert e)"
  by (rule tx_relI) (auto simp: outbox_wf_def ids_ok_def dest!: Outbox_Insert_db)

lemma update_outbox_wf:
  assumes "\<And>env x. o_ID (f env x) = o_ID x"
  shows "tx_rel E (\<lambda>d d'. outbox_wf d \<longrightarrow> outbox_wf d') (update_outbox l p f)"
  unfolding update_outbox_def
proof (intro keeps_wf.rel_sql impI)
  fix env a and d d' :: "'a outbox_db_scheme"
  assume "Inr ((), d\<lparr>outbox := map (\<lambda>r. if visible env (o_TenantID r) \<and> p r then f env r else r) (outbox d)\<rparr>)
            = Inr (a, d')" and "outbox_wf d"
  moreover have "o_ID \<circ> (\<lambda>r. if visible env (o_TenantID r) \<and> p r then f env r else r) = o_ID"
    using assms by auto
  ultimately show "outbox_wf d'" by (auto simp: outbox_wf_def ids_ok_def)
qed

lemma deadLetter_wf: "tx_rel E (\<lambda>d d'. outbox_wf d \<longrightarrow> outbox_wf d') (deadLetter e n msg)"
  unfolding deadLetter_def
  by (intro keeps_wf.rel_tbind keeps_wf.rel_sql)
    (auto simp: outbox_wf_def ids_ok_def dlq_row_of_def distinct_map_filter split: if_splits)

lemma handle_failure_wf: "tx_rel E (\<lambda>d d'. outbox_wf d \<longrightarrow> outbox_wf d') (handle_failure cfg r perr)"
  unfolding handle_failure_def setTenantGUC_def record_transient_def record_retry_def Let_def
  by (intro keeps_wf.rel_tbind keeps_wf.rel_statement keeps_wf.rel_if update_outbox_wf deadLetter_wf) simp_all

lemma drain_loop_wf:
  "drain_loop cfg js svc env rs k w = (res, w', sent) \<Longrightarrow> outbox_wf (wdb w) \<Longrightarrow> outbox_wf (wdb w')"
proof (induction rs arbitrary: k w res sent)
  case Nil
  then show ?case by simp
next
  case (Cons r rs)
  show ?case
  proof (cases "js k (publish_msg env svc r)")
    case None
    with Cons show ?thesis by (auto simp: Let_def split: prod.splits)
  next
    case (Some perr)
    obtain x w1 where hf: "handle_failure cfg r perr (env\<lparr>cur_tenant := o_TenantID r\<rparr>) w = (x, w1)"
      by fastforce
    have "outbox_wf (wdb w1)"
      using tx_relD [OF handle_failure_wf TrueI hf] Cons.prems(2) by simp
    with Some hf Cons show ?thesis by (auto simp: Let_def split: sum.splits if_splits)
  qed
qed

lemma mark_published_wf: "tx_rel E (\<lambda>d d'. outbox_wf d \<longrightarrow> outbox_wf d') (mark_published ps tid)"
proof -
  have "tx_rel (\<lambda>_. True) (\<lambda>d d'. outbox_wf d \<longrightarrow> outbox_wf d') (tbind setTenantGUC (\<lambda>_.
        update_outbox ''mark published: '' (\<lambda>x. o_ID x \<in> o_ID ` {r \<in> set ps. o_TenantID r = tid})
          (\<lambda>env x. x\<lparr>o_Published := True, o_PublishedAt := Some (db_now env)\<rparr>)))"
    unfolding setTenantGUC_def
    by (intro keeps_wf.rel_tbind keeps_wf.rel_statement update_outbox_wf) simp
  then show ?thesis unfolding tx_rel_def mark_published_def by blast
qed

lemma drainBatch_wf:
  assumes "drainBatch cfg js svc env w = (res, w', sent)" "outbox_wf (wdb w)"
  shows "outbox_wf (wdb w')"
proof (cases res)
  case (Inl e)
  with assms show ?thesis using drainBatch_Inl by metis
next
  case (Inr u)
  with assms(1) obtain w1 w2 ps x where
    claim: "tbind (statement ''begin: '') (\<lambda>_. outbox_claim_batch (BatchSize cfg)) env w = (Inr x, w1)"
    and loop: "drain_loop cfg js svc env x 0 w1 = (Inr ps, w2, sent)"
    and mark: "tbind (tfor (remdups (map o_TenantID ps)) (mark_published ps))
                 (\<lambda>_. statement ''commit: '') env w2 = (Inr (), w')"
    by (auto simp: drainBatch_def split: prod.splits sum.splits)
  have "tx_rel (\<lambda>_. True) (\<lambda>d d'. outbox_wf d \<longrightarrow> outbox_wf d')
          (tbind (tfor (remdups (map o_TenantID ps)) (mark_published ps)) (\<lambda>_. statement ''commit: ''))"
    by (intro keeps_wf.rel_tbind keeps_wf.rel_tfor keeps_wf.rel_statement mark_published_wf)
  from tx_relD [OF this TrueI mark] show ?thesis
    using drain_loop_wf [OF loop] claim_run [OF claim] assms(2) by simp
qed

section \<open>Replay\<close>

lemma set_dlq_pick: "set (dlq_pick tid n qs) \<subseteq> {q \<in> set qs. q_TenantID q = tid}"
  unfolding dlq_pick_def by (rule subset_trans [OF set_take_subset]) simp

lemma dlq_split:
  assumes "distinct (map q_ID qs)"
  shows "mset (filter (\<lambda>q. q_ID q \<notin> q_ID ` set (dlq_pick tid n qs)) qs) + mset (dlq_pick tid n qs) = mset qs"
    and "distinct (map q_ID (dlq_pick tid n qs))"
proof -
  let ?p = "dlq_pick tid n qs"
  have d: "distinct qs" "inj_on q_ID (set qs)" using assms by (auto simp: distinct_map)
  have sub: "set ?p \<subseteq> set qs" using set_dlq_pick by fast
  have dp: "distinct ?p" using d(1) by (auto simp: dlq_pick_def intro!: distinct_take distinct_filter)
  have "q_ID q \<in> q_ID ` set ?p \<longleftrightarrow> q \<in> set ?p" if "q \<in> set qs" for q
    using d(2) sub that by (auto dest: inj_onD)
  then have f: "filter (\<lambda>q. q_ID q \<notin> q_ID ` set ?p) qs = filter (\<lambda>q. q \<notin> set ?p) qs"
    by (intro filter_cong) auto
  have "mset (filter (\<lambda>q. q \<in> set ?p) qs) = mset ?p"
    using d(1) dp sub by (subst set_eq_iff_mset_eq_distinct [symmetric]) (auto intro: distinct_filter)
  then show "mset (filter (\<lambda>q. q_ID q \<notin> q_ID ` set ?p) qs) + mset ?p = mset qs"
    unfolding f using multiset_partition [of "mset qs" "\<lambda>q. q \<in> set ?p"] by (simp add: add.commute)
  show "distinct (map q_ID ?p)"
    using dp d(2) sub by (auto simp: distinct_map intro: inj_on_subset)
qed

lemma ocore_requeued [simp]: "ocore (requeued q) = qcore q"
  by (simp add: ocore_def qcore_def requeued_def)

definition replay_ok :: "'x outbox_db_scheme \<Rightarrow> 'x outbox_db_scheme \<Rightarrow> bool" where
  "replay_ok d d' \<longleftrightarrow> (outbox_wf d \<longrightarrow> outbox_wf d' \<and> events_held d' = events_held d)
     \<and> (\<exists>new. outbox d' = outbox d @ new \<and> (\<forall>r \<in> set new. \<not> o_Published r \<and> o_Attempts r = 0))"

interpretation replay_ok: db_preorder "replay_ok :: 'x outbox_db_scheme \<Rightarrow> _"
proof
  show "replay_ok d d" for d :: "'x outbox_db_scheme" by (simp add: replay_ok_def)
  show "replay_ok d d''" if "replay_ok d d'" "replay_ok d' d''" for d d' d'' :: "'x outbox_db_scheme"
    using that unfolding replay_ok_def by (metis append.assoc Un_iff set_append)
qed

lemma replayTenantDLQ_ok: "tx_rel E replay_ok (replayTenantDLQ tid n dry)"
  unfolding replayTenantDLQ_def
proof (rule replay_ok.rel_sql)
  fix env a and d d' :: "'a outbox_db_scheme"
  let ?p = "dlq_pick tid n (outbox_dlq d)"
  assume run: "(let picked = ?p
       in if dry then Inr (map replayed_of picked, d)
          else if \<exists>q\<in>set picked. q_ID q \<in> o_ID ` set (outbox d) then Inl (DBError ''duplicate key value'')
               else Inr (map replayed_of picked,
                     d\<lparr>outbox_dlq := filter (\<lambda>q. q_ID q \<notin> q_ID ` set picked) (outbox_dlq d),
                        outbox := outbox d @ map requeued picked\<rparr>)) = Inr (a, d')"
  show "replay_ok d d'"
  proof (cases dry)
    case True
    with run show ?thesis by (simp add: replay_ok_def)
  next
    case False
    with run have pk: "\<forall>q\<in>set ?p. q_ID q \<notin> o_ID ` set (outbox d)"
      and d': "d' = d\<lparr>outbox_dlq := filter (\<lambda>q. q_ID q \<notin> q_ID ` set ?p) (outbox_dlq d),
                      outbox := outbox d @ map requeued ?p\<rparr>"
      by (auto simp: Let_def split: if_splits)
    have apart: "\<forall>q\<in>set ?p. \<forall>x \<in> set (outbox d). o_ID x \<noteq> q_ID q"
      using pk by (metis image_eqI)
    have oid: "o_ID \<circ> requeued = q_ID" by (auto simp: requeued_def)
    have "outbox_wf d' \<and> events_held d' = events_held d" if wf: "outbox_wf d"
    proof
      note split = dlq_split [of "outbox_dlq d" tid n]
      have dist: "distinct (map q_ID (outbox_dlq d))" using wf by (simp add: outbox_wf_def)
      show "outbox_wf d'"
        using wf apart split(2) [OF dist] by (auto simp: outbox_wf_def ids_ok_def d' oid distinct_map_filter)
      have "mset (map qcore (filter (\<lambda>q. q_ID q \<notin> q_ID ` set ?p) (outbox_dlq d))) + mset (map qcore ?p)
              = mset (map qcore (outbox_dlq d))"
        using arg_cong [OF split(1) [OF dist], of "image_mset qcore"] by simp
      then show "events_held d' = events_held d"
        by (simp add: events_held_def d' comp_def ac_simps)
    qed
    then show ?thesis
      unfolding replay_ok_def by (auto simp: d' requeued_def)
  qed
qed

lemma replay_tenants_ok: "tx_rel E replay_ok (replay_tenants tids n dry out)"
proof (induction tids n dry out rule: replay_tenants.induct)
  case (1 limit dry out)
  then show ?case by (simp add: replay_ok.rel_tret)
next
  case (2 tid tids limit dry out)
  show ?case
  proof (cases "length out \<ge> limit")
    case True
    then show ?thesis by (simp add: replay_ok.rel_tret)
  next
    case False
    have "tx_rel E replay_ok (WithTenantTx tid (replayTenantDLQ tid (limit - length out) dry))"
      by (rule replay_ok.rel_WithTenantTx [where E' = "\<lambda>_. True"]) (auto intro: replayTenantDLQ_ok)
    with False 2 show ?thesis by (auto intro: replay_ok.rel_tbind)
  qed
qed

lemma ReplayDLQ_ok: "tx_rel E replay_ok (ReplayDLQ opts)"
  unfolding ReplayDLQ_def Let_def ListTenantIDs_def
  by (intro replay_ok.rel_if replay_ok.rel_tbind replay_ok.rel_sql_read replay_tenants_ok)


section \<open>Retention\<close>

text \<open>All a clean-up can do: drop rows that were published before the cutoff.\<close>

definition cleaned :: "time \<Rightarrow> 'x outbox_db_scheme \<Rightarrow> 'x outbox_db_scheme \<Rightarrow> bool" where
  "cleaned cutoff d d' \<longleftrightarrow> outbox_dlq d' = outbox_dlq d
     \<and> (\<exists>P. outbox d' = filter P (outbox d)
          \<and> (\<forall>x. \<not> P x \<longrightarrow> o_Published x \<and> (\<exists>t. o_PublishedAt x = Some t \<and> t < cutoff)))"

interpretation cleaned: db_preorder "cleaned cutoff :: 'x outbox_db_scheme \<Rightarrow> _" for cutoff
proof
  show "cleaned cutoff d d" for d :: "'x outbox_db_scheme"
    unfolding cleaned_def by (intro conjI refl exI [of _ "\<lambda>_. True"]) simp_all
  show "cleaned cutoff d d''" if rel: "cleaned cutoff d d'" "cleaned cutoff d' d''"
    for d d' d'' :: "'x outbox_db_scheme"
  proof -
    obtain P Q where "outbox d' = filter P (outbox d)" "outbox d'' = filter Q (outbox d')"
      "\<forall>x. \<not> P x \<longrightarrow> o_Published x \<and> (\<exists>t. o_PublishedAt x = Some t \<and> t < cutoff)"
      "\<forall>x. \<not> Q x \<longrightarrow> o_Published x \<and> (\<exists>t. o_PublishedAt x = Some t \<and> t < cutoff)"
      using rel unfolding cleaned_def by blast
    moreover have "outbox_dlq d'' = outbox_dlq d" using rel by (simp add: cleaned_def)
    ultimately show ?thesis
      unfolding cleaned_def by (intro conjI exI [of _ "\<lambda>x. P x \<and> Q x"]) auto
  qed
qed

lemma cleanupOldEvents_cleaned:
  assumes "cleanupOldEvents cfg env w = (r, w')"
  shows "cleaned (go_now env - RetainPublished cfg) (wdb w) (wdb w')"
proof -
  let ?cut = "go_now env - RetainPublished cfg"
  have "tx_rel (\<lambda>_. True) (cleaned ?cut) (sql ''delete outbox: '' (\<lambda>env d.
       Inr ((), d\<lparr>outbox := filter (\<lambda>r. \<not> (o_TenantID r = tid \<and> o_Published r
                    \<and> (case o_PublishedAt r of None \<Rightarrow> False | Some t \<Rightarrow> t < ?cut))) (outbox d)\<rparr>)))" for tid
    by (rule cleaned.rel_sql) (auto simp: cleaned_def split: option.splits)
  then have "tx_rel (\<lambda>_. True) (cleaned ?cut) (ForEachTenant (\<lambda>tid. sql ''delete outbox: '' (\<lambda>env d.
       Inr ((), d\<lparr>outbox := filter (\<lambda>r. \<not> (o_TenantID r = tid \<and> o_Published r
                    \<and> (case o_PublishedAt r of None \<Rightarrow> False | Some t \<Rightarrow> t < ?cut))) (outbox d)\<rparr>))))"
    unfolding ForEachTenant_def ListTenantIDs_def
    by (intro cleaned.rel_tbind cleaned.rel_sql_read cleaned.rel_tfor
        cleaned.rel_WithTenantTx [where E' = "\<lambda>_. True"]) auto
  then show ?thesis
    using assms by (auto simp: cleanupOldEvents_def with_env_def Let_def dest: tx_relD)
qed

section \<open>The outbox as a transition system\<close>

inductive outbox_step :: "pub_config \<Rightarrow> 'x outbox_db_scheme \<Rightarrow> 'x outbox_db_scheme \<Rightarrow> bool" for cfg where
  produce: "WithTenantTx tid (Outbox_Insert e) env w = (r, w') \<Longrightarrow> outbox_step cfg (wdb w) (wdb w')"
| drain: "drainBatch cfg js svc env w = (res, w', sent) \<Longrightarrow> outbox_step cfg (wdb w) (wdb w')"
| cleanup: "cleanupOldEvents cfg env w = (r, w') \<Longrightarrow> outbox_step cfg (wdb w) (wdb w')"
| replay: "ReplayDLQ opts env w = (out, w') \<Longrightarrow> outbox_step cfg (wdb w) (wdb w')"

definition outbox_inv :: "pub_config \<Rightarrow> 'x outbox_db_scheme \<Rightarrow> bool" where
  "outbox_inv cfg d \<longleftrightarrow> outbox_wf d \<and> attempts_ok cfg d"

definition producing :: "'x outbox_db_scheme \<Rightarrow> 'x outbox_db_scheme \<Rightarrow> bool" where
  "producing d d' \<longleftrightarrow> outbox_dlq d' = outbox_dlq d
     \<and> (\<exists>new. outbox d' = outbox d @ new \<and> (\<forall>r \<in> set new. o_Attempts r = 0))"

interpretation producing: db_preorder "producing :: 'x outbox_db_scheme \<Rightarrow> _"
proof
  show "producing d d" for d :: "'x outbox_db_scheme" by (simp add: producing_def)
  show "producing d d''" if "producing d d'" "producing d' d''" for d d' d'' :: "'x outbox_db_scheme"
    using that unfolding producing_def by (metis append.assoc Un_iff set_append)
qed

lemma produce_step:
  assumes "WithTenantTx tid (Outbox_Insert e) env w = (r, w')"
  shows "producing (wdb w) (wdb w')" "outbox_wf (wdb w) \<longrightarrow> outbox_wf (wdb w')"
proof -
  have "tx_rel (\<lambda>_. True) producing (Outbox_Insert e)"
    by (rule tx_relI) (auto simp: producing_def dest!: Outbox_Insert_db)
  then have "tx_rel (\<lambda>_. True) producing (WithTenantTx tid (Outbox_Insert e))"
    by (intro producing.rel_WithTenantTx [where E' = "\<lambda>_. True"]) simp_all
  from tx_relD [OF this TrueI assms] show "producing (wdb w) (wdb w')" .
  have "tx_rel (\<lambda>_. True) (\<lambda>d d'. outbox_wf d \<longrightarrow> outbox_wf d') (WithTenantTx tid (Outbox_Insert e))"
    by (intro keeps_wf.rel_WithTenantTx [where E' = "\<lambda>_. True"] Outbox_Insert_wf) simp
  from tx_relD [OF this TrueI assms] show "outbox_wf (wdb w) \<longrightarrow> outbox_wf (wdb w')" .
qed

lemma cleaned_wf: "cleaned cutoff d d' \<Longrightarrow> outbox_wf d \<Longrightarrow> outbox_wf d'"
  by (auto simp: cleaned_def outbox_wf_def ids_ok_def distinct_map_filter)

lemma drainBatch_attempts:
  assumes "drainBatch cfg js svc env w = (res, w', sent)" "ids_ok (wdb w)" "attempts_ok cfg (wdb w)"
  shows "attempts_ok cfg (wdb w')"
proof (cases res)
  case (Inl e)
  with assms show ?thesis using drainBatch_Inl by metis
next
  case (Inr u)
  with assms obtain ps d2 where
    "drain_post cfg (publish_msg env svc) (claimed cfg env (wdb w)) (wdb w) d2 ps sent"
    and "marks (o_ID ` set ps) d2 (wdb w')"
    using drainBatch_Inr by metis
  then show ?thesis using marks_keeps(3) assms(3) by (metis drain_post_def)
qed

lemma outbox_step_inv:
  assumes "0 < MaxAttempts cfg" "outbox_step cfg d d'" "outbox_inv cfg d"
  shows "outbox_inv cfg d'"
  using assms(2)
proof (cases rule: outbox_step.cases)
  case (produce tid e env w r w')
  from produce_step [OF produce(3)] assms(1,3) produce(1,2) show ?thesis
    by (auto simp: outbox_inv_def attempts_ok_def producing_def)
next
  case (drain js svc env w res w' sent)
  then show ?thesis
    using drainBatch_wf [OF drain(3)] drainBatch_attempts [OF drain(3)] assms(3)
    by (simp add: outbox_inv_def outbox_wf_def)
next
  case (cleanup env w r w')
  then show ?thesis
    using cleanupOldEvents_cleaned [OF cleanup(3)] assms(3) cleaned_wf
    by (auto simp: outbox_inv_def attempts_ok_def) (auto simp: cleaned_def)
next
  case (replay opts env w out w')
  then show ?thesis
    using tx_relD [OF ReplayDLQ_ok TrueI replay(3)] assms(1,3)
    by (auto simp: outbox_inv_def attempts_ok_def replay_ok_def)
qed

interpretation outbox_sys: invariant_system "outbox_step default_config" "outbox_inv default_config"
  by unfold_locales (rule outbox_step_inv, simp_all)

text \<open>
  Property C39. However producers, publishers, clean-ups and replays interleave and fail, starting
  from empty tables the keys of both tables stay unique and no queued row ever shows as many attempts
  as would have dead-lettered it.
\<close>

theorem outbox_reachable_inv:
  assumes "(outbox_step default_config)\<^sup>*\<^sup>* d d'" "outbox d = []" "outbox_dlq d = []"
  shows "distinct (map o_ID (outbox d')) \<and> distinct (map q_ID (outbox_dlq d'))
         \<and> (\<forall>r \<in> set (outbox d'). o_Attempts r < 5)"
proof -
  have "outbox_inv default_config d"
    using assms(2,3) by (simp add: outbox_inv_def outbox_wf_def ids_ok_def attempts_ok_def)
  from outbox_sys.inv_steps [OF assms(1) this] show ?thesis
    by (auto simp: outbox_inv_def outbox_wf_def ids_ok_def attempts_ok_def)
qed

text \<open>One step keeps every event that is dead-lettered or not yet published.\<close>

lemma outbox_step_keeps:
  assumes "outbox_step cfg d d'" "outbox_wf d" "c \<in># events_held d" "c \<notin># events_held d'"
  shows "\<exists>x \<in> set (outbox d). ocore x = c \<and> o_Published x"
  using assms(1)
proof (cases rule: outbox_step.cases)
  case (produce tid e env w r w')
  from produce_step(1) [OF produce(3)] produce(1,2) assms(3,4) show ?thesis
    by (auto simp: producing_def events_held_def)
next
  case (drain js svc env w res w' sent)
  with drainBatch_conserves_aux assms show ?thesis by (metis outbox_wf_def)
next
  case (cleanup env w r w')
  from cleanupOldEvents_cleaned [OF cleanup(3)] cleanup(1,2) assms(3,4) show ?thesis
    by (auto simp: cleaned_def events_held_def) blast
next
  case (replay opts env w out w')
  then show ?thesis
    using tx_relD [OF ReplayDLQ_ok TrueI replay(3)] assms by (simp add: replay_ok_def)
qed

text \<open>
  Property C1. An event that was committed to the outbox can disappear from both tables only from a
  row that a drain cycle had marked published: along every run of the system from a well-formed
  state, if it is gone at the end there was a state in which its row was published.
\<close>

theorem outbox_at_least_once:
  assumes "(outbox_step default_config)\<^sup>*\<^sup>* d d'" "outbox_inv default_config d"
    and "c \<in># events_held d" "c \<notin># events_held d'"
  shows "\<exists>d1. (outbox_step default_config)\<^sup>*\<^sup>* d d1 \<and> (outbox_step default_config)\<^sup>*\<^sup>* d1 d'
            \<and> (\<exists>x \<in> set (outbox d1). ocore x = c \<and> o_Published x)"
  using assms(1,4)
proof (induction rule: rtranclp_induct)
  case base
  with assms(3) show ?case by simp
next
  case (step d1 d2)
  show ?case
  proof (cases "c \<in># events_held d1")
    case True
    have "outbox_wf d1"
      using outbox_sys.inv_steps [OF step(1) assms(2)] by (simp add: outbox_inv_def)
    from outbox_step_keeps [OF step(2) this True step(4)] step(1,2) show ?thesis
      by (meson r_into_rtranclp)
  next
    case False
    with step show ?thesis by (meson rtranclp.rtrancl_into_rtrancl)
  qed
qed

end
