(* ===== verification/Outbox_Examples.thy ===== *)
theory Outbox_Examples
  imports Outbox_System
begin

text \<open>
  Concrete runs of the outbox: a broker that refuses one event type, a small outbox with a published
  row, a poison row and two due rows, and the properties of \<open>Outbox_Delivery\<close> and \<open>Outbox_System\<close> applied
  to them.
\<close>

definition demo_user :: userinfo where
  "demo_user = \<lparr>u_ID = 2, u_TenantID = 1, u_Email = ''ada@example.org'', u_Role = ''member'', u_Groups = []\<rparr>"

definition demo_env :: env where
  "demo_env = \<lparr>ctx = emptyctx\<lparr>c_User := Some demo_user\<rparr>, go_now = 1000 * second, db_now = 1000 * second,
     fault = (\<lambda>_. None), new_id = (\<lambda>k. Some (of_nat (100 + k))), fallback_id = (\<lambda>k. of_nat (100 + k)),
     cur_tenant = 0, bypass_rls = False, uuid_String = (\<lambda>u. show_nat (unat u)),
     uuid_Parse = (\<lambda>s. Some (of_nat (read_nat s))), pg_ilike = (\<lambda>s p. s = p), pg_inet_text = (\<lambda>s. s @ ''/32''), local_offset = (\<lambda>_. 0)\<rparr>"

lemma healthy_demo_env [simp]: "healthy demo_env"
  by (simp add: healthy_def demo_env_def)

definition demo_row :: "uuid \<Rightarrow> string \<Rightarrow> nat \<Rightarrow> outbox_row" where
  "demo_row i ty n =
     \<lparr>o_ID = i, o_TenantID = 1, o_EventType = ty, o_AggregateType = ''task'', o_AggregateID = 7,
      o_Payload = JNull, o_CreatedAt = second, o_ActorID = None, o_ActorName = None, o_IPAddress = None,
      o_UserAgent = None, o_TraceContext = [], o_Published = False, o_PublishedAt = None, o_Attempts = n,
      o_TransientFailures = 0, o_LastError = None, o_NextAttemptAt = None\<rparr>"

text \<open>Row 10 is refused for the fifth time, row 11 for the first time, row 12 is accepted.\<close>

definition demo_outbox :: outbox_db where
  "demo_outbox = \<lparr>organizations = [\<lparr>org_ID = 1, org_deleted = False\<rparr>],
     outbox = [demo_row 10 ''poison'' 4, demo_row 11 ''poison'' 0, demo_row 12 ''fine'' 0], outbox_dlq = []\<rparr>"

definition demo_js :: "nat \<Rightarrow> nats_msg \<Rightarrow> nats_err option" where
  "demo_js k m = (if nm_Subject m = ''poison'' then Some (NatsErr NErrNoStreamResponse ''refused'') else None)"

abbreviation demo_outbox_world :: "outbox_db world" where
  "demo_outbox_world \<equiv> \<lparr>wdb = demo_outbox, stmts = 0, draws = 0\<rparr>"

abbreviation demo_drain :: "(gerr + unit) \<times> outbox_db world \<times> nats_msg list" where
  "demo_drain \<equiv> drainBatch default_config demo_js ''task'' demo_env demo_outbox_world"

lemma pairs: "p = (fst p, fst (snd p), snd (snd p))"
  by simp

lemma demo_outbox_ok: "ids_ok demo_outbox" "ids_apart demo_outbox" "outbox_wf demo_outbox"
  by (simp_all add: ids_ok_def ids_apart_def outbox_wf_def demo_outbox_def demo_row_def)

lemma demo_drain_result: "fst demo_drain = Inr ()"
  by code_simp

text \<open>The refused row 10 leaves the outbox for the dead-letter table, and every event is still held.\<close>

theorem drainBatch_conserves_events_witness:
  "events_held (wdb (fst (snd demo_drain))) = events_held demo_outbox"
  using drainBatch_conserves_events [of demo_outbox_world, OF _ pairs] by (simp add: demo_outbox_ok)

definition demo_published :: outbox_row where
  "demo_published = (demo_row 12 ''fine'' 0)\<lparr>o_Published := True, o_PublishedAt := Some (1000 * second)\<rparr>"

lemma demo_published_in: "demo_published \<in> set (outbox (wdb (fst (snd demo_drain))))"
  by code_simp

theorem drainBatch_publishes_before_marking_witness:
  "\<exists>r \<in> set (claimed default_config demo_env demo_outbox).
     o_ID r = 12 \<and> publish_msg demo_env ''task'' r \<in> set (snd (snd demo_drain))"
proof -
  have run: "demo_drain = (Inr (), fst (snd demo_drain), snd (snd demo_drain))"
    using demo_drain_result pairs by metis
  have "o_Published demo_published" "demo_published \<notin> set (outbox (wdb demo_outbox_world))" "o_ID demo_published = 12"
    by (simp_all add: demo_published_def demo_outbox_def demo_row_def)
  then show ?thesis
    using drainBatch_publishes_before_marking [OF _ run demo_published_in] demo_outbox_ok by simp
qed

lemma demo_claimed: "demo_row 12 ''fine'' 0 \<in> set (claimed default_config demo_env demo_outbox)"
  by code_simp

theorem drainBatch_poison_rows_do_not_block_witness:
  "\<exists>w' sent. drainBatch default_config demo_js ''task'' demo_env demo_outbox_world = (Inr (), w', sent)
     \<and> publish_msg demo_env ''task'' (demo_row 12 ''fine'' 0) \<in> set sent
     \<and> (\<exists>y \<in> set (outbox (wdb w')). ocore y = ocore (demo_row 12 ''fine'' 0) \<and> o_Published y)"
proof (rule drainBatch_poison_rows_do_not_block)
  show "no_outage demo_js" by (auto simp: no_outage_def demo_js_def)
  show "\<forall>k. demo_js k (publish_msg demo_env ''task'' (demo_row 12 ''fine'' 0)) = None"
    by (simp add: demo_js_def publish_msg_def demo_row_def)
qed (use demo_outbox_ok demo_claimed in simp_all)

abbreviation demo_replay :: "(gerr + replayed_event list) \<times> outbox_db world" where
  "demo_replay \<equiv> tbind (deadLetter (demo_row 10 ''poison'' 4) 5 ''refused'') (\<lambda>_. replayTenantDLQ 1 100 False)
                    (demo_env\<lparr>cur_tenant := 1\<rparr>) demo_outbox_world"

lemma demo_replay_result:
  "fst demo_replay = Inr [\<lparr>re_ID = 10, re_TenantID = 1, re_EventType = ''poison'', re_Attempts = 5, re_LastError = ''refused''\<rparr>]"
  by code_simp


text \<open>A producer's transaction, a drain and, a day later, a clean-up.\<close>

definition demo_event :: outbox_event where
  "demo_event = \<lparr>e_ID = 12, e_TenantID = 1, e_EventType = ''fine'', e_AggregateType = ''task'', e_AggregateID = 7,
     e_Payload = Some JNull, e_CreatedAt = second\<rparr>"

definition demo_empty :: outbox_db where
  "demo_empty = \<lparr>organizations = [\<lparr>org_ID = 1, org_deleted = False\<rparr>], outbox = [], outbox_dlq = []\<rparr>"

definition world_on :: "'d \<Rightarrow> 'd world" where
  "world_on d = \<lparr>wdb = d, stmts = 0, draws = 0\<rparr>"

lemma wdb_world_on [simp]: "wdb (world_on d) = d"
  by (simp add: world_on_def)

definition demo_queued :: outbox_db where
  "demo_queued = wdb (snd (WithTenantTx 1 (Outbox_Insert demo_event) demo_env (world_on demo_empty)))"

definition demo_drained :: outbox_db where
  "demo_drained = wdb (fst (snd (drainBatch default_config demo_js ''task'' demo_env (world_on demo_queued))))"

definition demo_cleaned :: outbox_db where
  "demo_cleaned = wdb (snd (cleanupOldEvents default_config (demo_env\<lparr>go_now := 30 * hour\<rparr>) (world_on demo_drained)))"

lemma demo_run:
  "outbox_step default_config demo_empty demo_queued"
  "outbox_step default_config demo_queued demo_drained"
  "outbox_step default_config demo_drained demo_cleaned"
proof -
  have "outbox_step default_config (wdb (world_on demo_empty))
      (wdb (snd (WithTenantTx 1 (Outbox_Insert demo_event) demo_env (world_on demo_empty))))"
    by (rule outbox_step.produce) (rule prod.collapse [symmetric])
  then show "outbox_step default_config demo_empty demo_queued" by (simp add: demo_queued_def)
  have "outbox_step default_config (wdb (world_on demo_queued))
      (wdb (fst (snd (drainBatch default_config demo_js ''task'' demo_env (world_on demo_queued)))))"
    by (rule outbox_step.drain) (rule pairs)
  then show "outbox_step default_config demo_queued demo_drained" by (simp add: demo_drained_def)
  have "outbox_step default_config (wdb (world_on demo_drained))
      (wdb (snd (cleanupOldEvents default_config (demo_env\<lparr>go_now := 30 * hour\<rparr>) (world_on demo_drained))))"
    by (rule outbox_step.cleanup) (rule prod.collapse [symmetric])
  then show "outbox_step default_config demo_drained demo_cleaned" by (simp add: demo_cleaned_def)
qed

theorem outbox_reachable_inv_witness:
  "length (outbox demo_queued) = 1 \<and> distinct (map o_ID (outbox demo_drained))
   \<and> o_Attempts (hd (outbox demo_drained)) < 5"
proof -
  have "(outbox_step default_config)\<^sup>*\<^sup>* demo_empty demo_drained"
    using demo_run by (meson converse_rtranclp_into_rtranclp rtranclp.rtrancl_refl)
  then have "distinct (map o_ID (outbox demo_drained)) \<and> distinct (map q_ID (outbox_dlq demo_drained))
       \<and> (\<forall>r \<in> set (outbox demo_drained). o_Attempts r < 5)"
    by (rule outbox_reachable_inv) (simp_all add: demo_empty_def)
  moreover have "length (outbox demo_queued) = 1" "outbox demo_drained \<noteq> []" by code_simp+
  ultimately show ?thesis by simp
qed

lemma demo_lost: "outbox demo_queued = [outbox_row_of (demo_env\<lparr>cur_tenant := 1\<rparr>) demo_event JNull]"
  "outbox_dlq demo_queued = []" "outbox demo_cleaned = []" "outbox_dlq demo_cleaned = []"
  by code_simp+

theorem outbox_at_least_once_witness:
  "\<exists>d1. (outbox_step default_config)\<^sup>*\<^sup>* demo_queued d1 \<and> (outbox_step default_config)\<^sup>*\<^sup>* d1 demo_cleaned
     \<and> (\<exists>x \<in> set (outbox d1). ocore x = ocore (outbox_row_of demo_env demo_event JNull) \<and> o_Published x)"
proof -
  have core: "ocore (outbox_row_of demo_env demo_event JNull) = ocore (hd (outbox demo_queued))"
    by (simp add: demo_lost ocore_def outbox_row_of_def)
  have "(outbox_step default_config)\<^sup>*\<^sup>* demo_queued demo_cleaned"
    using demo_run by (meson converse_rtranclp_into_rtranclp rtranclp.rtrancl_refl)
  moreover have "outbox_inv default_config demo_queued"
    by (simp add: outbox_inv_def outbox_wf_def ids_ok_def attempts_ok_def demo_lost outbox_row_of_def)
  moreover have "ocore (hd (outbox demo_queued)) \<in># events_held demo_queued"
    "ocore (hd (outbox demo_queued)) \<notin># events_held demo_cleaned"
    by (simp_all add: events_held_def demo_lost)
  ultimately show ?thesis unfolding core by (rule outbox_at_least_once)
qed

end
