(* ===== verification/Task_Model.thy ===== *)
theory Task_Model
  imports Outbox
begin

text \<open>
  The task service's data and its pure code: \<open>services/task/internal/model/task.go\<close>,
  \<open>service/permissions.go\<close>, the status matrix of \<open>service/transitions.go\<close>, the mention parser of
  \<open>service/comments.go\<close> and the small helpers of \<open>service/tasks.go\<close> and \<open>service/sweep.go\<close>.
\<close>

section \<open>Rows (\<open>model/task.go\<close>)\<close>

record task_assignee =
  a_UserID :: uuid
  a_AddedBy :: uuid
  a_AddedAt :: time

record task_document =
  d_DocumentID :: uuid
  d_WorkspaceID :: uuid
  d_TitleSnapshot :: string
  d_LinkedBy :: uuid
  d_LinkedAt :: time

record task =
  t_TenantID :: uuid
  t_ID :: uuid
  t_Title :: string
  t_Description :: string
  t_Status :: string
  t_Priority :: string
  t_Source :: string
  t_DueAt :: "time option"
  t_CompletedAt :: "time option"
  t_DeletedAt :: "time option"
  t_CreatedBy :: uuid
  t_CompletedBy :: "uuid option"
  t_RemindedAt :: "time option"
  t_OverdueNotifiedAt :: "time option"
  t_CreatedAt :: time
  t_UpdatedAt :: time
  t_Assignees :: "task_assignee list"
  t_Documents :: "task_document list"

record task_comment =
  c_TenantID :: uuid
  c_ID :: uuid
  c_TaskID :: uuid
  c_AuthorID :: uuid
  c_Body :: string
  c_Mentions :: "uuid list"
  c_CreatedAt :: time
  c_UpdatedAt :: time
  c_DeletedAt :: "time option"

record task_activity =
  v_ID :: nat
  v_TaskID :: uuid
  v_ActorID :: uuid
  v_Action :: string
  v_Detail :: json
  v_CreatedAt :: time

section \<open>Permission gates (\<open>permissions.go\<close>)\<close>

definition isAdmin :: "string \<Rightarrow> bool" where
  "isAdmin role \<longleftrightarrow> role = ''admin'' \<or> role = ''owner''"

definition canListAllTasks :: "string \<Rightarrow> bool" where
  "canListAllTasks role \<longleftrightarrow> isAdmin role \<or> role = ''compliance_officer''"

fun isAssignee_loop :: "task_assignee list \<Rightarrow> uuid \<Rightarrow> bool" where
  "isAssignee_loop [] userID = False"
| "isAssignee_loop (a # as) userID = (if a_UserID a = userID then True else isAssignee_loop as userID)"

definition isAssignee :: "task \<Rightarrow> uuid \<Rightarrow> bool" where
  "isAssignee t userID = isAssignee_loop (t_Assignees t) userID"

definition canEditFields :: "task \<Rightarrow> uuid \<Rightarrow> string \<Rightarrow> bool" where
  "canEditFields t userID role \<longleftrightarrow> t_CreatedBy t = userID \<or> isAdmin role"

definition canTransition :: "task \<Rightarrow> uuid \<Rightarrow> string \<Rightarrow> bool" where
  "canTransition t userID role =
     (if t_CreatedBy t = userID then True else if isAssignee t userID then True else isAdmin role)"

definition canManageLinks :: "task \<Rightarrow> uuid \<Rightarrow> string \<Rightarrow> bool" where
  "canManageLinks t userID role = canTransition t userID role"

lemma isAssignee_iff: "isAssignee t u \<longleftrightarrow> u \<in> a_UserID ` set (t_Assignees t)"
proof -
  have "isAssignee_loop as u \<longleftrightarrow> u \<in> a_UserID ` set as" for as by (induction as) auto
  then show ?thesis by (simp add: isAssignee_def)
qed

section \<open>The status matrix (\<open>transitions.go\<close>)\<close>

definition validTransition :: "string \<Rightarrow> string \<Rightarrow> bool" where
  "validTransition from to =
     (if from = ''open'' then to = ''in_progress'' \<or> to = ''done'' \<or> to = ''cancelled''
      else if from = ''in_progress'' then to = ''done'' \<or> to = ''cancelled''
      else if from = ''done'' \<or> from = ''cancelled'' then to = ''open''
      else False)"

definition task_statuses :: "string set" where
  "task_statuses = {''open'', ''in_progress'', ''done'', ''cancelled''}"

lemma validTransition_statuses:
  "validTransition from to \<Longrightarrow> from \<in> task_statuses \<and> to \<in> task_statuses \<and> from \<noteq> to"
  by (auto simp: validTransition_def task_statuses_def split: if_splits)

section \<open>Helpers of \<open>tasks.go\<close> and \<open>sweep.go\<close>\<close>

definition validPriority :: "string \<Rightarrow> bool" where
  "validPriority p \<longleftrightarrow> p = ''low'' \<or> p = ''normal'' \<or> p = ''high'' \<or> p = ''urgent''"

fun dedupUUIDs_loop :: "uuid list \<Rightarrow> uuid list \<Rightarrow> uuid list" where
  "dedupUUIDs_loop seen [] = []"
| "dedupUUIDs_loop seen (x # xs) =
     (if x = uuid_Nil \<or> x \<in> set seen then dedupUUIDs_loop seen xs
      else x # dedupUUIDs_loop (x # seen) xs)"

definition dedupUUIDs :: "uuid list \<Rightarrow> uuid list" where
  "dedupUUIDs ids = dedupUUIDs_loop [] ids"

definition uuidsToStrings :: "env \<Rightarrow> uuid list \<Rightarrow> json" where
  "uuidsToStrings env ids = JArr (map (\<lambda>i. JStr (uuid_String env i)) ids)"

definition normalizeLimitOffset :: "int \<Rightarrow> int \<Rightarrow> int \<times> int" where
  "normalizeLimitOffset limit offset =
     (let limit = (if limit \<le> 0 then 50 else limit);
          limit = (if limit > 100 then 100 else limit)
      in (limit, if offset < 0 then 0 else offset))"

definition completionRecipients :: "task \<Rightarrow> uuid \<Rightarrow> uuid list" where
  "completionRecipients t actor = dedup_from [actor] (t_CreatedBy t # map a_UserID (t_Assignees t))"

definition assigneesAndCreator :: "task \<Rightarrow> uuid list" where
  "assigneesAndCreator t = dedup_from [] (t_CreatedBy t # map a_UserID (t_Assignees t))"

fun documentTitleSnapshot_loop :: "task_document list \<Rightarrow> uuid \<Rightarrow> string option" where
  "documentTitleSnapshot_loop [] documentID = None"
| "documentTitleSnapshot_loop (d # ds) documentID =
     (if d_DocumentID d = documentID then Some (d_TitleSnapshot d) else documentTitleSnapshot_loop ds documentID)"

definition documentTitleSnapshot :: "task \<Rightarrow> uuid \<Rightarrow> string option" where
  "documentTitleSnapshot t documentID = documentTitleSnapshot_loop (t_Documents t) documentID"

definition excludeUUID :: "uuid list \<Rightarrow> uuid \<Rightarrow> uuid list" where
  "excludeUUID ids ex = filter (\<lambda>i. i \<noteq> ex) ids"

definition ellipsis :: string where
  "ellipsis = map char_of [0xE2 :: nat, 0x80, 0xA6]"

definition truncateForNotify :: "string \<Rightarrow> nat \<Rightarrow> string" where
  "truncateForNotify s mx = (if length s \<le> mx then s else take mx s @ ellipsis)"

definition mentionNotifyBodyMaxLen :: nat where
  "mentionNotifyBodyMaxLen = 200"

lemma dedupUUIDs_loop_eq:
  "dedupUUIDs_loop seen xs = dedup_from seen (filter (\<lambda>x. x \<noteq> uuid_Nil) xs)"
  by (induction seen xs rule: dedupUUIDs_loop.induct) auto

lemma dedupUUIDs_props:
  "distinct (dedupUUIDs ids)" "set (dedupUUIDs ids) = set ids - {uuid_Nil}" "subseq (dedupUUIDs ids) ids"
proof -
  show "distinct (dedupUUIDs ids)" "set (dedupUUIDs ids) = set ids - {uuid_Nil}"
    by (auto simp: dedupUUIDs_def dedupUUIDs_loop_eq distinct_dedup_from set_dedup_from)
  show "subseq (dedupUUIDs ids) ids"
    unfolding dedupUUIDs_def dedupUUIDs_loop_eq
    by (rule subseq_order.trans [OF subseq_dedup_from subseq_filter_left])
qed

section \<open>Mentions (\<open>comments.go\<close>)\<close>

definition is_hex_or_dash :: "char \<Rightarrow> bool" where
  "is_hex_or_dash c =
     (let n = (of_char c :: nat) in
      48 \<le> n \<and> n \<le> 57 \<or> 97 \<le> n \<and> n \<le> 102 \<or> 65 \<le> n \<and> n \<le> 70 \<or> n = 45)"

text \<open>
  One match of \<open>mentionRE\<close> at the start of the text: the captured group and what follows the match.
  The name class excludes the closing bracket, so the greedy repetition stops at the first one.
\<close>

definition match_mention :: "string \<Rightarrow> (string \<times> string) option" where
  "match_mention s =
     (if take 2 s \<noteq> ''@['' then None
      else (let name = takeWhile (\<lambda>c. c \<noteq> CHR '']'') (drop 2 s);
                rest = dropWhile (\<lambda>c. c \<noteq> CHR '']'') (drop 2 s);
                grp = take 36 (drop 2 rest)
            in if name \<noteq> [] \<and> take 2 rest = ''](''  \<and> length grp = 36 \<and> list_all is_hex_or_dash grp
                  \<and> take 1 (drop 38 rest) = '')''
               then Some (grp, drop 39 rest) else None))"

lemma match_mention_shorter: "match_mention s = Some (g, r) \<Longrightarrow> length r < length s"
proof -
  assume m: "match_mention s = Some (g, r)"
  have "length (dropWhile (\<lambda>c. c \<noteq> CHR '']'') (drop 2 s)) \<le> length s"
    by (rule le_trans [OF length_dropWhile_le]) simp
  moreover have "s \<noteq> []" using m by (auto simp: match_mention_def)
  ultimately show ?thesis
    using m by (auto simp: match_mention_def Let_def split: if_splits)
qed

text \<open>\<open>FindAllStringSubmatch(body, -1)\<close>: leftmost, non-overlapping matches.\<close>

function find_mentions :: "string \<Rightarrow> string list" where
  "find_mentions s =
     (case s of [] \<Rightarrow> []
      | c # cs \<Rightarrow> (case match_mention s of Some (g, r) \<Rightarrow> g # find_mentions r | None \<Rightarrow> find_mentions cs))"
  by auto
termination
  by (relation "measure length") (auto dest: match_mention_shorter)

declare find_mentions.simps [simp del]

definition parseMentions :: "env \<Rightarrow> string \<Rightarrow> uuid list" where
  "parseMentions env body = dedup_from [] (List.map_filter (uuid_Parse env) (find_mentions body))"

lemma parseMentions_distinct: "distinct (parseMentions env body)"
  by (simp add: parseMentions_def distinct_dedup_from)

text \<open>The token the clients write for a mention (\<open>web/src/api/comments.ts\<close>, \<open>mentionToken\<close>).\<close>

definition mention_token :: "string \<Rightarrow> string \<Rightarrow> string" where
  "mention_token name g = ''@['' @ name @ '']('' @ g @ '')''"

lemma match_mention_token:
  assumes "name \<noteq> []" "CHR '']'' \<notin> set name" "length g = 36" "list_all is_hex_or_dash g"
  shows "match_mention (mention_token name g @ post) = Some (g, post)"
proof -
  have "takeWhile (\<lambda>c. c \<noteq> CHR '']'') (name @ CHR '']'' # r) = name"
    and "dropWhile (\<lambda>c. c \<noteq> CHR '']'') (name @ CHR '']'' # r) = CHR '']'' # r" for r
    using assms(2) by (auto simp: takeWhile_append2 dropWhile_append2 takeWhile_append dropWhile_append)
  with assms show ?thesis by (simp add: match_mention_def mention_token_def Let_def)
qed

lemma match_mention_other: "c \<noteq> CHR ''@'' \<Longrightarrow> match_mention (c # cs) = None"
  by (auto simp: match_mention_def split: if_splits)

lemma find_mentions_skip: "CHR ''@'' \<notin> set pre \<Longrightarrow> find_mentions (pre @ s) = find_mentions s"
proof (induction pre)
  case Nil
  then show ?case by simp
next
  case (Cons c pre)
  then show ?case by (subst find_mentions.simps) (auto simp: match_mention_other)
qed

lemma find_mentions_token:
  assumes "CHR ''@'' \<notin> set pre" "name \<noteq> []" "CHR '']'' \<notin> set name" "length g = 36" "list_all is_hex_or_dash g"
  shows "find_mentions (pre @ mention_token name g @ post) = g # find_mentions post"
proof -
  have "find_mentions (mention_token name g @ post) = g # find_mentions post"
    using match_mention_token [OF assms(2-5)]
    by (subst find_mentions.simps) (simp add: mention_token_def)
  with find_mentions_skip [OF assms(1)] show ?thesis by simp
qed

end
