(* ===== verification/Task_Repo.thy ===== *)
theory Task_Repo
  imports Task_Model
begin

text \<open>
  The task service's tables and its repository layer: \<open>services/task/internal/repository\<close>, over the
  schema of \<open>services/task/migrations\<close> and of document migration 000033.

  A table is a list of rows in insertion order. The statements below carry \<open>tenant_id = $1\<close> with the
  tenant of the surrounding transaction, so the row-level security predicate adds nothing to them; the
  two claims of the sweep have no such predicate and rely on it, which is why they mention
  \<open>visible\<close>. Row \<open>n\<close> of \<open>task_activity\<close> has identity \<open>n\<close>.
\<close>

record user_row =
  us_TenantID :: uuid
  us_ID :: uuid
  us_deleted :: bool

record doc_row =
  dc_TenantID :: uuid
  dc_ID :: uuid
  dc_WorkspaceID :: uuid
  dc_FolderID :: uuid
  dc_Title :: string
  dc_LifecycleState :: string
  dc_deleted :: bool

type_synonym task_key = "uuid \<times> uuid"

record task_db = outbox_db +
  tasks :: "task list"
  task_assignees :: "(task_key \<times> task_assignee) list"
  task_documents :: "(task_key \<times> task_document) list"
  task_comments :: "task_comment list"
  task_activity_log :: "(uuid \<times> task_activity) list"
  users :: "user_row list"
  documents :: "doc_row list"

definition live :: "uuid \<Rightarrow> uuid \<Rightarrow> task \<Rightarrow> bool" where
  "live tid i t \<longleftrightarrow> t_TenantID t = tid \<and> t_ID t = i \<and> t_DeletedAt t = None"

definition task_exists :: "uuid \<Rightarrow> uuid \<Rightarrow> 'x task_db_scheme \<Rightarrow> bool" where
  "task_exists tid i d \<longleftrightarrow> (\<exists>t \<in> set (tasks d). t_TenantID t = tid \<and> t_ID t = i)"

text \<open>The CHECK constraints of the table.\<close>

definition task_checks :: "task \<Rightarrow> bool" where
  "task_checks t \<longleftrightarrow> t_Status t \<in> task_statuses \<and> validPriority (t_Priority t)
     \<and> (t_Source t = ''user'' \<or> t_Source t = ''workflow'')"

section \<open>\<open>tasks_repo.go\<close>\<close>

definition insert_assignee :: "string \<Rightarrow> uuid \<Rightarrow> uuid \<Rightarrow> (env \<Rightarrow> task_assignee) \<Rightarrow> ('x task_db_scheme, bool) m" where
  "insert_assignee label tid taskID mk = sql label (\<lambda>env d.
     let a = mk env in
     if \<exists>r \<in> set (task_assignees d). fst r = (tid, taskID) \<and> a_UserID (snd r) = a_UserID a then Inr (False, d)
     else if \<not> task_exists tid taskID d then Inl (DBError (label @ ''violates foreign key constraint''))
     else Inr (True, d\<lparr>task_assignees := task_assignees d @ [((tid, taskID), a)]\<rparr>))"

text \<open>The bare columns an \<open>INSERT\<close> or \<open>UPDATE\<close> stores: instants lose their sub-microsecond part.\<close>

definition task_columns :: "task \<Rightarrow> task" where
  "task_columns t = t\<lparr>t_DueAt := map_option pg_time (t_DueAt t), t_CompletedAt := map_option pg_time (t_CompletedAt t),
     t_DeletedAt := None, t_RemindedAt := map_option pg_time (t_RemindedAt t),
     t_OverdueNotifiedAt := map_option pg_time (t_OverdueNotifiedAt t),
     t_CreatedAt := pg_time (t_CreatedAt t), t_UpdatedAt := pg_time (t_UpdatedAt t),
     t_Assignees := [], t_Documents := []\<rparr>"

definition insert_task_row :: "task \<Rightarrow> ('x task_db_scheme, unit) m" where
  "insert_task_row t = sql ''insert task: '' (\<lambda>env d.
     if \<not> task_checks t then Inl (DBError ''insert task: violates check constraint'')
     else if \<not> visible env (t_TenantID t) then Inl (DBError ''insert task: row violates row-level security policy'')
     else if task_exists (t_TenantID t) (t_ID t) d then Inl (DBError ''insert task: duplicate key value'')
     else if t_TenantID t \<notin> org_ID ` set (organizations d)
             \<or> (\<forall>u \<in> set (users d). \<not> (us_TenantID u = t_TenantID t \<and> us_ID u = t_CreatedBy t))
     then Inl (DBError ''insert task: violates foreign key constraint'')
     else Inr ((), d\<lparr>tasks := tasks d @ [task_columns t]\<rparr>))"

definition insert_document :: "uuid \<Rightarrow> uuid \<Rightarrow> task_document \<Rightarrow> ('x task_db_scheme, unit) m" where
  "insert_document tid taskID x = sql ''insert task_documents: '' (\<lambda>env d.
     if \<exists>r \<in> set (task_documents d). fst r = (tid, taskID) \<and> d_DocumentID (snd r) = d_DocumentID x then Inr ((), d)
     else if \<not> task_exists tid taskID d then Inl (DBError ''insert task_documents: violates foreign key constraint'')
     else Inr ((), d\<lparr>task_documents := task_documents d @ [((tid, taskID), x)]\<rparr>))"

definition Tasks_Create :: "task \<Rightarrow> ('x task_db_scheme, unit) m" where
  "Tasks_Create t =
     tbind (insert_task_row t) (\<lambda>_.
     tbind (tfor (t_Assignees t) (\<lambda>a. tbind
        (insert_assignee ''insert task_assignees: '' (t_TenantID t) (t_ID t)
          (\<lambda>_. a\<lparr>a_AddedAt := pg_time (if a_AddedAt a = zero_time then t_CreatedAt t else a_AddedAt a)\<rparr>)) (\<lambda>_. tret ()))) (\<lambda>_.
     tfor (t_Documents t) (\<lambda>x. insert_document (t_TenantID t) (t_ID t)
          (x\<lparr>d_LinkedAt := pg_time (if d_LinkedAt x = zero_time then t_CreatedAt t else d_LinkedAt x)\<rparr>))))"

definition hydrateTasks :: "uuid \<Rightarrow> task list \<Rightarrow> ('x task_db_scheme, task list) m" where
  "hydrateTasks tid ts =
     (let ids = map t_ID ts in
      tbind (sql_read ''list task_assignees: '' (\<lambda>env d. Inr (sort_key (\<lambda>r. a_AddedAt (snd r))
               (filter (\<lambda>r. fst (fst r) = tid \<and> snd (fst r) \<in> set ids) (task_assignees d))))) (\<lambda>arows.
      tbind (sql_read ''list task_documents: '' (\<lambda>env d. Inr (sort_key (\<lambda>r. d_LinkedAt (snd r))
               (filter (\<lambda>r. fst (fst r) = tid \<and> snd (fst r) \<in> set ids) (task_documents d))))) (\<lambda>drows.
      tret (map (\<lambda>t. t\<lparr>t_Assignees := map snd (filter (\<lambda>r. snd (fst r) = t_ID t) arows),
                        t_Documents := map snd (filter (\<lambda>r. snd (fst r) = t_ID t) drows)\<rparr>) ts))))"

definition Tasks_GetByID :: "uuid \<Rightarrow> uuid \<Rightarrow> ('x task_db_scheme, task) m" where
  "Tasks_GetByID tid i =
     tbind (sql_read [] (\<lambda>env d. case find (live tid i) (tasks d) of None \<Rightarrow> Inl RepoNotFound | Some t \<Rightarrow> Inr t))
       (\<lambda>t. tbind (hydrateTasks tid [t]) (\<lambda>ts. tret (hd ts)))"

record task_filters =
  f_AssigneeID :: "uuid option"
  f_CreatedBy :: "uuid option"
  f_DocumentID :: "uuid option"
  f_Statuses :: "string list"
  f_Priority :: string
  f_Query :: string
  f_InvolvedUserID :: "uuid option"
  f_IncludeCompleted :: bool
  f_Limit :: int
  f_Offset :: int
  f_Sort :: string

definition assigned_to :: "'x task_db_scheme \<Rightarrow> task \<Rightarrow> uuid \<Rightarrow> bool" where
  "assigned_to d t u \<longleftrightarrow>
     (\<exists>r \<in> set (task_assignees d). fst r = (t_TenantID t, t_ID t) \<and> a_UserID (snd r) = u)"

definition document_on :: "'x task_db_scheme \<Rightarrow> task \<Rightarrow> uuid \<Rightarrow> bool" where
  "document_on d t x \<longleftrightarrow>
     (\<exists>r \<in> set (task_documents d). fst r = (t_TenantID t, t_ID t) \<and> d_DocumentID (snd r) = x)"

definition opt_holds :: "'a option \<Rightarrow> ('a \<Rightarrow> bool) \<Rightarrow> bool" where
  "opt_holds x p = (case x of None \<Rightarrow> True | Some y \<Rightarrow> p y)"

definition buildTaskWhere :: "uuid \<Rightarrow> task_filters \<Rightarrow> env \<Rightarrow> 'x task_db_scheme \<Rightarrow> task \<Rightarrow> bool" where
  "buildTaskWhere tid f env d t \<longleftrightarrow>
     t_TenantID t = tid \<and> t_DeletedAt t = None
     \<and> opt_holds (f_AssigneeID f) (assigned_to d t)
     \<and> opt_holds (f_CreatedBy f) (\<lambda>u. t_CreatedBy t = u)
     \<and> opt_holds (f_InvolvedUserID f) (\<lambda>u. t_CreatedBy t = u \<or> assigned_to d t u)
     \<and> opt_holds (f_DocumentID f) (document_on d t)
     \<and> (if f_Statuses f \<noteq> [] then t_Status t \<in> set (f_Statuses f)
        else f_IncludeCompleted f \<or> t_Status t \<notin> {''done'', ''cancelled''})
     \<and> (f_Priority f = [] \<or> t_Priority t = f_Priority f)
     \<and> (f_Query f = [] \<or> pg_ilike env (t_Title t) (''%'' @ f_Query f @ ''%'')
                        \<or> pg_ilike env (t_Description t) (''%'' @ f_Query f @ ''%''))"

definition priority_weight :: "string \<Rightarrow> int" where
  "priority_weight p = (if p = ''urgent'' then 4 else if p = ''high'' then 3 else if p = ''normal'' then 2 else 1)"

text \<open>The sort key of \<open>taskOrderClause\<close>; a descending column is a negated one.\<close>

definition taskOrderClause :: "string \<Rightarrow> task \<Rightarrow> int \<times> int \<times> int \<times> int \<times> uuid" where
  "taskOrderClause srt t =
     (let due_null = (if t_DueAt t = None then 1 else 0);
          due = (case t_DueAt t of None \<Rightarrow> 0 | Some x \<Rightarrow> x);
          weight = - priority_weight (t_Priority t);
          newest = - t_CreatedAt t
      in if srt = ''priority'' then (weight, due_null, due, newest, t_ID t)
         else if srt = ''created_at'' then (newest, 0, 0, 0, t_ID t)
         else (due_null, due, weight, newest, t_ID t))"

definition matching_tasks :: "uuid \<Rightarrow> task_filters \<Rightarrow> env \<Rightarrow> 'x task_db_scheme \<Rightarrow> task list" where
  "matching_tasks tid f env d =
     sort_key (taskOrderClause (f_Sort f)) (filter (buildTaskWhere tid f env d) (tasks d))"

definition Tasks_List :: "uuid \<Rightarrow> task_filters \<Rightarrow> ('x task_db_scheme, task list \<times> nat) m" where
  "Tasks_List tid f =
     (case normalizeLimitOffset (f_Limit f) (f_Offset f) of (limit, offset) \<Rightarrow>
      tbind (sql_read ''count tasks: '' (\<lambda>env d. Inr (length (filter (buildTaskWhere tid f env d) (tasks d))))) (\<lambda>total.
      if total = 0 then tret ([], 0)
      else tbind (sql_read ''list tasks: '' (\<lambda>env d.
               Inr (take (nat limit) (drop (nat offset) (matching_tasks tid f env d))))) (\<lambda>out.
           if out = [] then tret (out, total)
           else tbind (hydrateTasks tid out) (\<lambda>ts. tret (ts, total)))))"

definition update_task_columns :: "time \<Rightarrow> task \<Rightarrow> task \<Rightarrow> task" where
  "update_task_columns now t x =
     x\<lparr>t_Title := t_Title t, t_Description := t_Description t, t_Status := t_Status t, t_Priority := t_Priority t,
       t_DueAt := map_option pg_time (t_DueAt t), t_CompletedBy := t_CompletedBy t,
       t_CompletedAt := map_option pg_time (t_CompletedAt t),
       t_RemindedAt := map_option pg_time (t_RemindedAt t),
       t_OverdueNotifiedAt := map_option pg_time (t_OverdueNotifiedAt t), t_UpdatedAt := now\<rparr>"

definition Tasks_Update :: "task \<Rightarrow> ('x task_db_scheme, unit) m" where
  "Tasks_Update t = sql ''update task: '' (\<lambda>env d.
     if \<not> (\<exists>x \<in> set (tasks d). live (t_TenantID t) (t_ID t) x) then Inl RepoNotFound
     else if t_Status t \<notin> task_statuses \<or> \<not> validPriority (t_Priority t)
     then Inl (DBError ''update task: violates check constraint'')
     else Inr ((), d\<lparr>tasks := map (\<lambda>x. if live (t_TenantID t) (t_ID t) x
                                      then update_task_columns (db_now env) t x else x) (tasks d)\<rparr>))"

definition Tasks_SoftDelete :: "uuid \<Rightarrow> uuid \<Rightarrow> ('x task_db_scheme, unit) m" where
  "Tasks_SoftDelete tid i = sql ''soft delete task: '' (\<lambda>env d.
     if \<not> (\<exists>x \<in> set (tasks d). live tid i x) then Inl RepoNotFound
     else Inr ((), d\<lparr>tasks := map (\<lambda>x. if live tid i x
                       then x\<lparr>t_DeletedAt := Some (db_now env), t_UpdatedAt := db_now env\<rparr> else x) (tasks d)\<rparr>))"

definition Tasks_AddAssignee :: "uuid \<Rightarrow> uuid \<Rightarrow> uuid \<Rightarrow> uuid \<Rightarrow> ('x task_db_scheme, bool) m" where
  "Tasks_AddAssignee tid taskID userID addedBy =
     insert_assignee ''insert task_assignees: '' tid taskID
       (\<lambda>env. \<lparr>a_UserID = userID, a_AddedBy = addedBy, a_AddedAt = db_now env\<rparr>)"

definition Tasks_RemoveAssignee :: "uuid \<Rightarrow> uuid \<Rightarrow> uuid \<Rightarrow> ('x task_db_scheme, bool) m" where
  "Tasks_RemoveAssignee tid taskID userID = sql ''delete task_assignees: '' (\<lambda>env d.
     let hit = (\<lambda>r. fst r = (tid, taskID) \<and> a_UserID (snd r) = userID) in
     Inr (\<exists>r \<in> set (task_assignees d). hit r,
          d\<lparr>task_assignees := filter (\<lambda>r. \<not> hit r) (task_assignees d)\<rparr>))"

definition Tasks_LinkDocument :: "uuid \<Rightarrow> uuid \<Rightarrow> uuid \<Rightarrow> uuid \<Rightarrow> ('x task_db_scheme, task_document \<times> bool) m" where
  "Tasks_LinkDocument tid taskID documentID linkedBy =
     tbind (sql_read ''resolve document: '' (\<lambda>env d.
        case find (\<lambda>x. dc_TenantID x = tid \<and> dc_ID x = documentID \<and> \<not> dc_deleted x) (documents d) of
          None \<Rightarrow> Inl RepoNotFound | Some x \<Rightarrow> Inr (dc_WorkspaceID x, dc_Title x))) (\<lambda>(workspaceID, title).
     sql ''insert task_documents: '' (\<lambda>env d.
       let hit = (\<lambda>r. fst r = (tid, taskID) \<and> d_DocumentID (snd r) = documentID);
           upd = (\<lambda>x. x\<lparr>d_WorkspaceID := workspaceID, d_TitleSnapshot := title\<rparr>) in
       case find hit (task_documents d) of
         Some r \<Rightarrow> Inr ((upd (snd r), False),
            d\<lparr>task_documents := map (\<lambda>r. if hit r then (fst r, upd (snd r)) else r) (task_documents d)\<rparr>)
       | None \<Rightarrow>
           (let x = \<lparr>d_DocumentID = documentID, d_WorkspaceID = workspaceID, d_TitleSnapshot = title,
                     d_LinkedBy = linkedBy, d_LinkedAt = db_now env\<rparr> in
            if \<not> task_exists tid taskID d then Inl (DBError ''insert task_documents: violates foreign key constraint'')
            else Inr ((x, True), d\<lparr>task_documents := task_documents d @ [((tid, taskID), x)]\<rparr>))))"

definition Tasks_UnlinkDocument :: "uuid \<Rightarrow> uuid \<Rightarrow> uuid \<Rightarrow> ('x task_db_scheme, bool) m" where
  "Tasks_UnlinkDocument tid taskID documentID = sql ''delete task_documents: '' (\<lambda>env d.
     let hit = (\<lambda>r. fst r = (tid, taskID) \<and> d_DocumentID (snd r) = documentID) in
     Inr (\<exists>r \<in> set (task_documents d). hit r,
          d\<lparr>task_documents := filter (\<lambda>r. \<not> hit r) (task_documents d)\<rparr>))"

definition due_soon :: "time \<Rightarrow> task \<Rightarrow> bool" where
  "due_soon now t \<longleftrightarrow> t_Status t \<in> {''open'', ''in_progress''}
     \<and> (case t_DueAt t of None \<Rightarrow> False | Some x \<Rightarrow> now \<le> x \<and> x \<le> now + 24 * hour)
     \<and> t_RemindedAt t = None \<and> t_DeletedAt t = None"

definition overdue :: "time \<Rightarrow> task \<Rightarrow> bool" where
  "overdue now t \<longleftrightarrow> t_Status t \<in> {''open'', ''in_progress''}
     \<and> (case t_DueAt t of None \<Rightarrow> False | Some x \<Rightarrow> x < now)
     \<and> t_OverdueNotifiedAt t = None \<and> t_DeletedAt t = None"

text \<open>\<open>UPDATE \<dots> RETURNING\<close>; the table's trigger overrides the \<open>updated_at\<close> the statements set.\<close>

definition claim_tasks ::
    "string \<Rightarrow> (task \<Rightarrow> bool) \<Rightarrow> (task \<Rightarrow> task) \<Rightarrow> ('x task_db_scheme, task list) m" where
  "claim_tasks label p f = sql label (\<lambda>env d.
     let hit = (\<lambda>t. visible env (t_TenantID t) \<and> p t);
         g = (\<lambda>t. (f t)\<lparr>t_UpdatedAt := db_now env\<rparr>) in
     Inr (map g (filter hit (tasks d)),
          d\<lparr>tasks := map (\<lambda>t. if hit t then g t else t) (tasks d)\<rparr>))"

definition Tasks_ClaimDueSoon :: "time \<Rightarrow> ('x task_db_scheme, task list) m" where
  "Tasks_ClaimDueSoon now = claim_tasks ''claim due-soon tasks: '' (due_soon (pg_time now))
     (\<lambda>t. t\<lparr>t_RemindedAt := Some (pg_time now)\<rparr>)"

definition Tasks_ClaimOverdue :: "time \<Rightarrow> ('x task_db_scheme, task list) m" where
  "Tasks_ClaimOverdue now = claim_tasks ''claim overdue tasks: '' (overdue (pg_time now))
     (\<lambda>t. t\<lparr>t_OverdueNotifiedAt := Some (pg_time now)\<rparr>)"

section \<open>\<open>comments_repo.go\<close>\<close>

definition live_comment :: "uuid \<Rightarrow> uuid \<Rightarrow> task_comment \<Rightarrow> bool" where
  "live_comment tid i c \<longleftrightarrow> c_TenantID c = tid \<and> c_ID c = i \<and> c_DeletedAt c = None"

definition Comments_Create :: "task_comment \<Rightarrow> ('x task_db_scheme, unit) m" where
  "Comments_Create c = sql ''insert task_comments: '' (\<lambda>env d.
     if \<exists>x \<in> set (task_comments d). c_TenantID x = c_TenantID c \<and> c_ID x = c_ID c
     then Inl (DBError ''insert task_comments: duplicate key value'')
     else if \<not> task_exists (c_TenantID c) (c_TaskID c) d
     then Inl (DBError ''insert task_comments: violates foreign key constraint'')
     else Inr ((), d\<lparr>task_comments := task_comments d @
            [c\<lparr>c_CreatedAt := pg_time (c_CreatedAt c), c_UpdatedAt := pg_time (c_UpdatedAt c), c_DeletedAt := None\<rparr>]\<rparr>))"

definition Comments_List :: "uuid \<Rightarrow> uuid \<Rightarrow> nat \<Rightarrow> nat \<Rightarrow> ('x task_db_scheme, task_comment list) m" where
  "Comments_List tid taskID limit offset = sql_read ''list task_comments: '' (\<lambda>env d.
     Inr (take limit (drop offset (sort_key c_CreatedAt
       (filter (\<lambda>c. c_TenantID c = tid \<and> c_TaskID c = taskID \<and> c_DeletedAt c = None) (task_comments d))))))"

definition Comments_GetByID :: "uuid \<Rightarrow> uuid \<Rightarrow> ('x task_db_scheme, task_comment) m" where
  "Comments_GetByID tid i = sql_read [] (\<lambda>env d.
     case find (live_comment tid i) (task_comments d) of None \<Rightarrow> Inl RepoNotFound | Some c \<Rightarrow> Inr c)"

definition update_comments ::
    "string \<Rightarrow> uuid \<Rightarrow> uuid \<Rightarrow> (env \<Rightarrow> task_comment \<Rightarrow> task_comment) \<Rightarrow> ('x task_db_scheme, unit) m" where
  "update_comments label tid i f = sql label (\<lambda>env d.
     if \<not> (\<exists>x \<in> set (task_comments d). live_comment tid i x) then Inl RepoNotFound
     else Inr ((), d\<lparr>task_comments := map (\<lambda>x. if live_comment tid i x then f env x else x) (task_comments d)\<rparr>))"

definition Comments_Update :: "task_comment \<Rightarrow> ('x task_db_scheme, unit) m" where
  "Comments_Update c = update_comments ''update task_comments: '' (c_TenantID c) (c_ID c)
     (\<lambda>env x. x\<lparr>c_Body := c_Body c, c_Mentions := c_Mentions c, c_UpdatedAt := db_now env\<rparr>)"

definition Comments_SoftDelete :: "uuid \<Rightarrow> uuid \<Rightarrow> ('x task_db_scheme, unit) m" where
  "Comments_SoftDelete tid i = update_comments ''soft delete task_comments: '' tid i
     (\<lambda>env x. x\<lparr>c_DeletedAt := Some (db_now env), c_UpdatedAt := db_now env\<rparr>)"

section \<open>\<open>activity_repo.go\<close> and \<open>document_facts.go\<close>\<close>

definition activity_actions :: "string list" where
  "activity_actions = [''created'', ''updated'', ''assigned'', ''unassigned'', ''status_changed'',
     ''document_linked'', ''document_unlinked'', ''commented'', ''deleted'']"

definition Activity_Insert :: "uuid \<Rightarrow> uuid \<Rightarrow> uuid \<Rightarrow> string \<Rightarrow> json \<Rightarrow> ('x task_db_scheme, unit) m" where
  "Activity_Insert tid taskID actorID action detail = sql ''insert task_activity: '' (\<lambda>env d.
     if action \<notin> set activity_actions then Inl (DBError ''insert task_activity: violates check constraint'')
     else if \<not> task_exists tid taskID d then Inl (DBError ''insert task_activity: violates foreign key constraint'')
     else Inr ((), d\<lparr>task_activity_log := task_activity_log d @
        [(tid, \<lparr>v_ID = Suc (length (task_activity_log d)), v_TaskID = taskID, v_ActorID = actorID,
                v_Action = action, v_Detail = detail, v_CreatedAt = db_now env\<rparr>)]\<rparr>))"

definition Activity_List :: "uuid \<Rightarrow> uuid \<Rightarrow> nat \<Rightarrow> nat \<Rightarrow> ('x task_db_scheme, task_activity list) m" where
  "Activity_List tid taskID limit offset = sql_read ''list task_activity: '' (\<lambda>env d.
     Inr (take limit (drop offset (rev (sort_key v_ID
       (map snd (filter (\<lambda>r. fst r = tid \<and> v_TaskID (snd r) = taskID) (task_activity_log d))))))))"

record document_facts =
  df_ID :: uuid
  df_WorkspaceID :: uuid
  df_FolderID :: uuid
  df_LifecycleState :: string

definition LoadDocumentFacts :: "uuid \<Rightarrow> uuid \<Rightarrow> ('x task_db_scheme, document_facts option) m" where
  "LoadDocumentFacts tid docID = sql_read [] (\<lambda>env d.
     Inr (map_option (\<lambda>x. \<lparr>df_ID = docID, df_WorkspaceID = dc_WorkspaceID x, df_FolderID = dc_FolderID x,
                           df_LifecycleState = dc_LifecycleState x\<rparr>)
       (find (\<lambda>x. dc_TenantID x = tid \<and> dc_ID x = docID \<and> \<not> dc_deleted x) (documents d))))"

end
