(* ===== verification/Task_Service.thy ===== *)
theory Task_Service
  imports Task_Repo
begin

text \<open>
  The task service's operations: \<open>services/task/internal/service\<close> (\<open>service.go\<close>, \<open>events.go\<close>,
  \<open>tasks.go\<close>, \<open>transitions.go\<close>, \<open>links.go\<close>, \<open>comments.go\<close>, \<open>sweep.go\<close>, \<open>document_access.go\<close>).
  Every mutation is one tenant transaction that writes the row, its activity entry and its outbox
  events. The policy service's gRPC client is the parameter \<open>policy\<close>.
\<close>

section \<open>\<open>service.go\<close> and \<open>events.go\<close>\<close>

definition mustCaller :: "reqctx \<Rightarrow> gerr + (uuid \<times> uuid \<times> string)" where
  "mustCaller c =
     (case User c of
        Inl e \<Rightarrow> Inl e
      | Inr u \<Rightarrow> if u_TenantID u = uuid_Nil \<or> u_ID u = uuid_Nil then Inl AuthMissing
                 else Inr (u_TenantID u, u_ID u, u_Role u))"

definition with_caller :: "(uuid \<Rightarrow> uuid \<Rightarrow> string \<Rightarrow> ('d, 'a) m) \<Rightarrow> ('d, 'a) m" where
  "with_caller f = with_env (\<lambda>env. tbind (tlift (mustCaller (ctx env))) (\<lambda>(tid, uid, role). f tid uid role))"

definition taskAggregateType :: string where
  "taskAggregateType = ''task''"

definition newTaskEvent :: "uuid \<Rightarrow> string \<Rightarrow> uuid \<Rightarrow> json \<Rightarrow> ('d, outbox_event) m" where
  "newTaskEvent tid eventType taskID payload =
     NewOutboxEvent tid eventType taskAggregateType taskID (Some payload)"

definition emitTaskEvent :: "uuid \<Rightarrow> uuid \<Rightarrow> string \<Rightarrow> (env \<Rightarrow> json) \<Rightarrow> ('x outbox_db_scheme, unit) m" where
  "emitTaskEvent tid taskID eventType payload =
     with_env (\<lambda>env. tbind (newTaskEvent tid eventType taskID (payload env)) Outbox_Insert)"

definition emitNotify ::
    "uuid \<Rightarrow> uuid \<Rightarrow> string \<Rightarrow> string \<Rightarrow> string \<Rightarrow> uuid list \<Rightarrow> ('x outbox_db_scheme, unit) m" where
  "emitNotify tid taskID notifType title body userIDs =
     (if userIDs = [] then tret ()
      else emitTaskEvent tid taskID (''dms.notify.task.'' @ notifType @ ''.v1'') (\<lambda>env. JObj
        [(''tenant_id'', JStr (uuid_String env tid)),
         (''user_ids'', uuidsToStrings env userIDs),
         (''type'', JStr (''task.'' @ notifType)),
         (''title'', JStr title),
         (''body'', JStr body),
         (''resource_type'', JStr ''task''),
         (''resource_id'', JStr (uuid_String env taskID))]))"

section \<open>\<open>tasks.go\<close>\<close>

text \<open>A due date as the request carries it: the instant and the zone offset it was written with.\<close>

record create_task_input =
  ci_Title :: string
  ci_Description :: string
  ci_Priority :: string
  ci_Source :: string
  ci_DueAt :: "(time \<times> int) option"
  ci_AssigneeIDs :: "uuid list"
  ci_DocumentIDs :: "uuid list"

record update_task_input =
  ui_ID :: uuid
  ui_Title :: "string option"
  ui_Description :: "string option"
  ui_Priority :: "string option"
  ui_DueAt :: "time option"
  ui_ClearDueAt :: bool

definition missing_users :: "uuid \<Rightarrow> uuid list \<Rightarrow> 'x task_db_scheme \<Rightarrow> uuid list" where
  "missing_users tid ids d =
     filter (\<lambda>i. \<not> (\<exists>u \<in> set (users d). us_TenantID u = tid \<and> us_ID u = i \<and> \<not> us_deleted u)) ids"

definition join_comma :: "string list \<Rightarrow> string" where
  "join_comma ss = (case ss of [] \<Rightarrow> [] | s # rest \<Rightarrow> s @ concat (map (\<lambda>x. '', '' @ x) rest))"

definition validateAssigneesExist :: "uuid \<Rightarrow> uuid list \<Rightarrow> ('x task_db_scheme, unit) m" where
  "validateAssigneesExist tid ids =
     (if ids = [] then tret ()
      else sql_read ''validate assignee ids: '' (\<lambda>env d.
        let missing = missing_users tid ids d in
        if missing \<noteq> []
        then Inl (ErrValidation (''unknown assignee id(s): '' @ join_comma (map (uuid_String env) missing)))
        else Inr ()))"

definition create_checks :: "create_task_input \<Rightarrow> gerr + (string \<times> string \<times> string)" where
  "create_checks inp =
     (let title = TrimSpace (ci_Title inp) in
      if title = [] then Inl (ErrValidation ''title is required'')
      else if length title > 200 then Inl (ErrValidation ''title must be at most 200 characters'')
      else if ci_Priority inp \<noteq> [] \<and> \<not> validPriority (ci_Priority inp)
      then Inl (ErrValidation ''priority must be one of low|normal|high|urgent'')
      else if ci_Source inp \<noteq> [] \<and> ci_Source inp \<noteq> ''user'' \<and> ci_Source inp \<noteq> ''workflow''
      then Inl (ErrValidation ''source must be one of user|workflow'')
      else Inr (title, if ci_Priority inp = [] then ''normal'' else ci_Priority inp,
                if ci_Source inp = [] then ''user'' else ci_Source inp))"

definition new_task :: "create_task_input \<Rightarrow> uuid \<Rightarrow> uuid \<Rightarrow> uuid \<Rightarrow> string \<times> string \<times> string \<Rightarrow> time \<Rightarrow> task" where
  "new_task inp tid uid i = (\<lambda>(title, priority, source) now.
     \<lparr>t_TenantID = tid, t_ID = i, t_Title = title, t_Description = ci_Description inp,
      t_Status = ''open'', t_Priority = priority, t_Source = source,
      t_DueAt = map_option fst (ci_DueAt inp), t_CompletedAt = None, t_DeletedAt = None,
      t_CreatedBy = uid, t_CompletedBy = None, t_RemindedAt = None, t_OverdueNotifiedAt = None,
      t_CreatedAt = now, t_UpdatedAt = now, t_Assignees = [], t_Documents = []\<rparr>)"

definition record_assigned :: "uuid \<Rightarrow> uuid \<Rightarrow> uuid \<Rightarrow> uuid \<Rightarrow> ('x task_db_scheme, unit) m" where
  "record_assigned tid taskID actorID userID = with_env (\<lambda>env.
     tbind (Activity_Insert tid taskID actorID ''assigned'' (JObj [(''user_id'', JStr (uuid_String env userID))])) (\<lambda>_.
     emitTaskEvent tid taskID ''dms.task.assigned.v1'' (\<lambda>env. JObj
       [(''task_id'', JStr (uuid_String env taskID)),
        (''user_id'', JStr (uuid_String env userID)),
        (''assigned_by'', JStr (uuid_String env actorID))])))"

text \<open>The transaction of \<open>CreateTask\<close>.\<close>

definition create_task_tx ::
    "task \<Rightarrow> (time \<times> int) option \<Rightarrow> uuid list \<Rightarrow> uuid list \<Rightarrow> ('x task_db_scheme, task) m" where
  "create_task_tx t due assigneeIDs documentIDs = with_env (\<lambda>env.
     let tid = t_TenantID t; i = t_ID t; uid = t_CreatedBy t in
     tbind (Tasks_Create t) (\<lambda>_.
     tbind (validateAssigneesExist tid assigneeIDs) (\<lambda>_.
     tbind (tfor assigneeIDs (\<lambda>aid. tbind (Tasks_AddAssignee tid i aid uid) (\<lambda>_. tret ()))) (\<lambda>_.
     tbind (tmap documentIDs (\<lambda>docID.
        tbind (tremap (ErrValidation (''document '' @ uuid_String env docID @ '' not found''))
                 (Tasks_LinkDocument tid i docID uid)) (\<lambda>(d, _). tret d))) (\<lambda>docs.
     tbind (Activity_Insert tid i uid ''created'' (JObj [])) (\<lambda>_.
     tbind (tfor assigneeIDs (record_assigned tid i uid)) (\<lambda>_.
     tbind (emitTaskEvent tid i ''dms.task.created.v1'' (\<lambda>env. JObj
        [(''task_id'', JStr (uuid_String env i)),
         (''title'', JStr (t_Title t)),
         (''status'', JStr (t_Status t)),
         (''priority'', JStr (t_Priority t)),
         (''source'', JStr (t_Source t)),
         (''created_by'', JStr (uuid_String env uid)),
         (''assignee_ids'', uuidsToStrings env assigneeIDs),
         (''document_ids'', uuidsToStrings env documentIDs)])) (\<lambda>_.
     tbind (tfor assigneeIDs (\<lambda>aid.
        if aid = uid then tret ()
        else emitNotify tid i ''assigned'' ''A task was assigned to you''
               (t_Title t @ (case due of None \<Rightarrow> []
                             | Some (x, off) \<Rightarrow> '' (due '' @ format_date_in off x @ '')''))
               [aid])) (\<lambda>_.
     tret (t\<lparr>t_Assignees := map (\<lambda>aid. \<lparr>a_UserID = aid, a_AddedBy = uid, a_AddedAt = t_CreatedAt t\<rparr>) assigneeIDs,
             t_Documents := docs\<rparr>))))))))))"

definition CreateTask :: "create_task_input \<Rightarrow> ('x task_db_scheme, task) m" where
  "CreateTask inp = with_caller (\<lambda>tid uid _.
     tbind (tlift (create_checks inp)) (\<lambda>fields.
     let assigneeIDs = dedupUUIDs (ci_AssigneeIDs inp); documentIDs = dedupUUIDs (ci_DocumentIDs inp) in
     tbind (draw_id ''generate task id: '') (\<lambda>i. with_env (\<lambda>env.
     WithTenantTx tid (create_task_tx (new_task inp tid uid i fields (go_now env)) (ci_DueAt inp)
        assigneeIDs documentIDs)))))"

definition get_task_or_404 :: "uuid \<Rightarrow> uuid \<Rightarrow> ('x task_db_scheme, task) m" where
  "get_task_or_404 tid i = tremap (ErrNotFound ''task not found'') (Tasks_GetByID tid i)"

definition GetTask :: "uuid \<Rightarrow> ('x task_db_scheme, task) m" where
  "GetTask i = with_caller (\<lambda>tid _ _. WithTenantTx tid (get_task_or_404 tid i))"

text \<open>The patch: the new row and the names of the changed fields, or the validation error.\<close>

definition patch_title :: "update_task_input \<Rightarrow> task \<times> string list \<Rightarrow> gerr + task \<times> string list" where
  "patch_title inp = (\<lambda>(cur, changed). case ui_Title inp of
     None \<Rightarrow> Inr (cur, changed)
   | Some raw \<Rightarrow>
       (let title = TrimSpace raw in
        if title = [] \<or> length title > 200 then Inl (ErrValidation ''title must be 1..200 chars'')
        else if title \<noteq> t_Title cur then Inr (cur\<lparr>t_Title := title\<rparr>, changed @ [''title''])
        else Inr (cur, changed)))"

definition patch_description :: "update_task_input \<Rightarrow> task \<times> string list \<Rightarrow> gerr + task \<times> string list" where
  "patch_description inp = (\<lambda>(cur, changed). case ui_Description inp of
     None \<Rightarrow> Inr (cur, changed)
   | Some x \<Rightarrow> if x \<noteq> t_Description cur then Inr (cur\<lparr>t_Description := x\<rparr>, changed @ [''description''])
               else Inr (cur, changed))"

definition patch_priority :: "update_task_input \<Rightarrow> task \<times> string list \<Rightarrow> gerr + task \<times> string list" where
  "patch_priority inp = (\<lambda>(cur, changed). case ui_Priority inp of
     None \<Rightarrow> Inr (cur, changed)
   | Some p \<Rightarrow>
       if \<not> validPriority p then Inl (ErrValidation ''priority must be one of low|normal|high|urgent'')
       else if p \<noteq> t_Priority cur then Inr (cur\<lparr>t_Priority := p\<rparr>, changed @ [''priority''])
       else Inr (cur, changed))"

definition patch_due :: "update_task_input \<Rightarrow> task \<times> string list \<Rightarrow> task \<times> string list" where
  "patch_due inp = (\<lambda>(cur, changed).
     if ui_DueAt inp \<noteq> None \<and> t_DueAt cur \<noteq> ui_DueAt inp
     then (cur\<lparr>t_DueAt := ui_DueAt inp, t_RemindedAt := None, t_OverdueNotifiedAt := None\<rparr>, changed @ [''due_at''])
     else if ui_ClearDueAt inp \<and> t_DueAt cur \<noteq> None
     then (cur\<lparr>t_DueAt := None, t_RemindedAt := None, t_OverdueNotifiedAt := None\<rparr>, changed @ [''due_at''])
     else (cur, changed))"

definition apply_patch :: "update_task_input \<Rightarrow> task \<Rightarrow> gerr + task \<times> string list" where
  "apply_patch inp cur =
     (case patch_title inp (cur, []) of Inl e \<Rightarrow> Inl e | Inr s1 \<Rightarrow>
      case patch_description inp s1 of Inl e \<Rightarrow> Inl e | Inr s2 \<Rightarrow>
      case patch_priority inp s2 of Inl e \<Rightarrow> Inl e | Inr s3 \<Rightarrow> Inr (patch_due inp s3))"

text \<open>The writes of \<open>UpdateTask\<close>, and its transaction.\<close>

definition commit_update :: "uuid \<Rightarrow> uuid \<Rightarrow> task \<Rightarrow> string list \<Rightarrow> ('x task_db_scheme, task) m" where
  "commit_update tid uid cur' changed =
     tbind (Tasks_Update cur') (\<lambda>_.
     tbind (Activity_Insert tid (t_ID cur') uid ''updated''
              (JObj [(''fields'', JArr (map JStr changed))])) (\<lambda>_.
     tbind (emitTaskEvent tid (t_ID cur') ''dms.task.updated.v1'' (\<lambda>env. JObj
        [(''task_id'', JStr (uuid_String env (t_ID cur'))),
         (''updated_by'', JStr (uuid_String env uid)),
         (''fields'', JArr (map JStr changed))])) (\<lambda>_.
     tret cur')))"

definition update_task_tx :: "uuid \<Rightarrow> uuid \<Rightarrow> string \<Rightarrow> update_task_input \<Rightarrow> ('x task_db_scheme, task) m" where
  "update_task_tx tid uid role inp =
     tbind (get_task_or_404 tid (ui_ID inp)) (\<lambda>cur.
     tbind (tguard (canEditFields cur uid role)
        (ErrForbidden ''only the creator or an admin may edit a task's fields'')) (\<lambda>_.
     tbind (tlift (apply_patch inp cur)) (\<lambda>(cur', changed).
     if changed = [] then tret cur' else commit_update tid uid cur' changed)))"

definition UpdateTask :: "update_task_input \<Rightarrow> ('x task_db_scheme, task) m" where
  "UpdateTask inp = with_caller (\<lambda>tid uid role. WithTenantTx tid (update_task_tx tid uid role inp))"

definition DeleteTask :: "uuid \<Rightarrow> ('x task_db_scheme, unit) m" where
  "DeleteTask i = with_caller (\<lambda>tid uid role. WithTenantTx tid (
     tbind (get_task_or_404 tid i) (\<lambda>cur.
     tbind (tguard (canEditFields cur uid role)
        (ErrForbidden ''only the creator or an admin may delete a task'')) (\<lambda>_.
     tbind (tremap (ErrNotFound ''task not found'') (Tasks_SoftDelete tid i)) (\<lambda>_.
     tbind (Activity_Insert tid i uid ''deleted'' (JObj [])) (\<lambda>_.
     emitTaskEvent tid i ''dms.task.deleted.v1'' (\<lambda>env. JObj
       [(''task_id'', JStr (uuid_String env i)), (''deleted_by'', JStr (uuid_String env uid))])))))))"

section \<open>\<open>transitions.go\<close>\<close>

definition stamp_status :: "string \<Rightarrow> uuid \<Rightarrow> time \<Rightarrow> task \<Rightarrow> task" where
  "stamp_status to uid now cur =
     (let cur = cur\<lparr>t_Status := to\<rparr> in
      if to = ''done'' then cur\<lparr>t_CompletedBy := Some uid, t_CompletedAt := Some now\<rparr>
      else if to = ''open'' then cur\<lparr>t_CompletedBy := None, t_CompletedAt := None\<rparr>
      else cur)"

text \<open>The writes of \<open>doTransition\<close> for the stamped row, and its transaction.\<close>

definition commit_transition :: "uuid \<Rightarrow> uuid \<Rightarrow> uuid \<Rightarrow> string \<Rightarrow> string \<Rightarrow> task \<Rightarrow> ('x task_db_scheme, task) m" where
  "commit_transition tid uid i from to cur' =
     tbind (tremap (ErrNotFound ''task not found'') (Tasks_Update cur')) (\<lambda>_.
     tbind (Activity_Insert tid i uid ''status_changed''
              (JObj [(''from'', JStr from), (''to'', JStr to)])) (\<lambda>_.
     tbind (emitTaskEvent tid i ''dms.task.status_changed.v1'' (\<lambda>env. JObj
        [(''task_id'', JStr (uuid_String env i)),
         (''from'', JStr from), (''to'', JStr to),
         (''changed_by'', JStr (uuid_String env uid))])) (\<lambda>_.
     tbind (if to = ''done''
            then emitNotify tid i ''completed'' ''Task completed'' (t_Title cur') (completionRecipients cur' uid)
            else tret ()) (\<lambda>_.
     Tasks_GetByID tid i))))"

definition transition_tx :: "uuid \<Rightarrow> uuid \<Rightarrow> string \<Rightarrow> uuid \<Rightarrow> string \<Rightarrow> string \<Rightarrow> ('x task_db_scheme, task) m" where
  "transition_tx tid uid role i to verb =
     tbind (get_task_or_404 tid i) (\<lambda>cur.
     tbind (tguard (canTransition cur uid role)
        (ErrForbidden ''only the creator, an assignee, or an admin may transition a task'')) (\<lambda>_.
     tbind (tguard (validTransition (t_Status cur) to)
        (ErrValidation (''cannot '' @ verb @ '' a '' @ t_Status cur @ '' task: invalid transition to '' @ to))) (\<lambda>_.
     with_env (\<lambda>env. commit_transition tid uid i (t_Status cur) to (stamp_status to uid (go_now env) cur)))))"

definition doTransition :: "uuid \<Rightarrow> string \<Rightarrow> string \<Rightarrow> ('x task_db_scheme, task) m" where
  "doTransition i to verb = with_caller (\<lambda>tid uid role. WithTenantTx tid (transition_tx tid uid role i to verb))"

definition StartTask :: "uuid \<Rightarrow> ('x task_db_scheme, task) m" where
  "StartTask i = doTransition i ''in_progress'' ''start''"

definition CompleteTask :: "uuid \<Rightarrow> ('x task_db_scheme, task) m" where
  "CompleteTask i = doTransition i ''done'' ''complete''"

definition ReopenTask :: "uuid \<Rightarrow> ('x task_db_scheme, task) m" where
  "ReopenTask i = doTransition i ''open'' ''reopen''"

definition CancelTask :: "uuid \<Rightarrow> ('x task_db_scheme, task) m" where
  "CancelTask i = doTransition i ''cancelled'' ''cancel''"

section \<open>\<open>links.go\<close>\<close>

definition AddAssignee :: "uuid \<Rightarrow> uuid \<Rightarrow> ('x task_db_scheme, task) m" where
  "AddAssignee taskID userID = with_caller (\<lambda>tid actorID role. WithTenantTx tid (
     tbind (get_task_or_404 tid taskID) (\<lambda>cur.
     tbind (tguard (canManageLinks cur actorID role)
        (ErrForbidden ''only the creator, an assignee, or an admin may manage a task's assignees'')) (\<lambda>_.
     tbind (validateAssigneesExist tid [userID]) (\<lambda>_.
     tbind (Tasks_AddAssignee tid taskID userID actorID) (\<lambda>inserted.
     tbind (if inserted
            then tbind (record_assigned tid taskID actorID userID) (\<lambda>_.
                 if userID \<noteq> actorID
                 then emitNotify tid taskID ''assigned'' ''A task was assigned to you'' (t_Title cur) [userID]
                 else tret ())
            else tret ()) (\<lambda>_.
     Tasks_GetByID tid taskID)))))))"

definition RemoveAssignee :: "uuid \<Rightarrow> uuid \<Rightarrow> ('x task_db_scheme, task) m" where
  "RemoveAssignee taskID userID = with_caller (\<lambda>tid actorID role. WithTenantTx tid (
     tbind (get_task_or_404 tid taskID) (\<lambda>cur.
     tbind (tguard (canManageLinks cur actorID role \<or> userID = actorID)
        (ErrForbidden ''only the creator, an assignee, an admin, or the assignee themselves may remove an assignee'')) (\<lambda>_.
     tbind (tguard (isAssignee cur userID) (ErrValidation ''user is not an assignee of this task'')) (\<lambda>_.
     tbind (Tasks_RemoveAssignee tid taskID userID) (\<lambda>removed.
     tbind (if removed
            then with_env (\<lambda>env.
              tbind (Activity_Insert tid taskID actorID ''unassigned''
                       (JObj [(''user_id'', JStr (uuid_String env userID))])) (\<lambda>_.
              emitTaskEvent tid taskID ''dms.task.unassigned.v1'' (\<lambda>env. JObj
                [(''task_id'', JStr (uuid_String env taskID)),
                 (''user_id'', JStr (uuid_String env userID)),
                 (''unassigned_by'', JStr (uuid_String env actorID))])))
            else tret ()) (\<lambda>_.
     Tasks_GetByID tid taskID)))))))"

definition LinkDocument :: "uuid \<Rightarrow> uuid \<Rightarrow> ('x task_db_scheme, task) m" where
  "LinkDocument taskID documentID = with_caller (\<lambda>tid actorID role. WithTenantTx tid (with_env (\<lambda>env.
     tbind (get_task_or_404 tid taskID) (\<lambda>cur.
     tbind (tguard (canManageLinks cur actorID role)
        (ErrForbidden ''only the creator, an assignee, or an admin may manage a task's linked documents'')) (\<lambda>_.
     tbind (tremap (ErrValidation (''document '' @ uuid_String env documentID @ '' not found''))
              (Tasks_LinkDocument tid taskID documentID actorID)) (\<lambda>(d, inserted).
     tbind (if inserted
            then tbind (Activity_Insert tid taskID actorID ''document_linked'' (JObj
                   [(''document_id'', JStr (uuid_String env documentID)), (''title'', JStr (d_TitleSnapshot d))])) (\<lambda>_.
                 emitTaskEvent tid taskID ''dms.task.document_linked.v1'' (\<lambda>env. JObj
                   [(''task_id'', JStr (uuid_String env taskID)),
                    (''document_id'', JStr (uuid_String env documentID)),
                    (''title'', JStr (d_TitleSnapshot d)),
                    (''linked_by'', JStr (uuid_String env actorID))]))
            else tret ()) (\<lambda>_.
     Tasks_GetByID tid taskID)))))))"

definition UnlinkDocument :: "uuid \<Rightarrow> uuid \<Rightarrow> ('x task_db_scheme, task) m" where
  "UnlinkDocument taskID documentID = with_caller (\<lambda>tid actorID role. WithTenantTx tid (
     tbind (get_task_or_404 tid taskID) (\<lambda>cur.
     tbind (tguard (canManageLinks cur actorID role)
        (ErrForbidden ''only the creator, an assignee, or an admin may manage a task's linked documents'')) (\<lambda>_.
     case documentTitleSnapshot cur documentID of
       None \<Rightarrow> tfail (ErrValidation ''document is not linked to this task'')
     | Some title \<Rightarrow>
         tbind (Tasks_UnlinkDocument tid taskID documentID) (\<lambda>removed.
         tbind (if removed
                then with_env (\<lambda>env.
                  tbind (Activity_Insert tid taskID actorID ''document_unlinked'' (JObj
                       [(''document_id'', JStr (uuid_String env documentID)), (''title'', JStr title)])) (\<lambda>_.
                  emitTaskEvent tid taskID ''dms.task.document_unlinked.v1'' (\<lambda>env. JObj
                    [(''task_id'', JStr (uuid_String env taskID)),
                     (''document_id'', JStr (uuid_String env documentID)),
                     (''title'', JStr title),
                     (''unlinked_by'', JStr (uuid_String env actorID))])))
                else tret ()) (\<lambda>_.
         Tasks_GetByID tid taskID))))))"

section \<open>\<open>comments.go\<close>\<close>

definition filterExistingUserIDs :: "uuid \<Rightarrow> uuid list \<Rightarrow> ('x task_db_scheme, uuid list) m" where
  "filterExistingUserIDs tid ids =
     (if ids = [] then tret []
      else sql_read ''filter mention ids: '' (\<lambda>env d.
        Inr (filter (\<lambda>i. \<exists>u \<in> set (users d). us_TenantID u = tid \<and> us_ID u = i \<and> \<not> us_deleted u) ids)))"

definition check_body :: "string \<Rightarrow> gerr + string" where
  "check_body raw =
     (let body = TrimSpace raw in
      if body = [] then Inl (ErrValidation ''body is required'')
      else if length body > 4000 then Inl (ErrValidation ''body must be at most 4000 characters'')
      else Inr body)"

definition AddComment :: "uuid \<Rightarrow> string \<Rightarrow> ('x task_db_scheme, task_comment) m" where
  "AddComment taskID raw = with_caller (\<lambda>tid uid _.
     tbind (tlift (check_body raw)) (\<lambda>body.
     tbind (draw_id ''generate comment id: '') (\<lambda>i. with_env (\<lambda>env. WithTenantTx tid (
       tbind (get_task_or_404 tid taskID) (\<lambda>_.
       tbind (filterExistingUserIDs tid (parseMentions env body)) (\<lambda>mentions.
       let c = \<lparr>c_TenantID = tid, c_ID = i, c_TaskID = taskID, c_AuthorID = uid, c_Body = body,
                c_Mentions = mentions, c_CreatedAt = go_now env, c_UpdatedAt = go_now env, c_DeletedAt = None\<rparr> in
       tbind (Comments_Create c) (\<lambda>_.
       tbind (Activity_Insert tid taskID uid ''commented''
                (JObj [(''comment_id'', JStr (uuid_String env i))])) (\<lambda>_.
       tbind (emitTaskEvent tid taskID ''dms.task.comment.created.v1'' (\<lambda>env. JObj
          [(''task_id'', JStr (uuid_String env taskID)),
           (''comment_id'', JStr (uuid_String env i)),
           (''author_id'', JStr (uuid_String env uid)),
           (''mentions'', uuidsToStrings env mentions)])) (\<lambda>_.
       tbind (emitNotify tid taskID ''mention'' ''You were mentioned on a task''
                (truncateForNotify body mentionNotifyBodyMaxLen) (excludeUUID mentions uid)) (\<lambda>_.
       tret c)))))))))))"

definition ListComments :: "uuid \<Rightarrow> int \<Rightarrow> int \<Rightarrow> ('x task_db_scheme, task_comment list) m" where
  "ListComments taskID limit offset = with_caller (\<lambda>tid _ _.
     case normalizeLimitOffset limit offset of (l, off) \<Rightarrow>
       WithTenantTx tid (Comments_List tid taskID (nat l) (nat off)))"

definition get_comment_on :: "uuid \<Rightarrow> uuid \<Rightarrow> uuid \<Rightarrow> ('x task_db_scheme, task_comment) m" where
  "get_comment_on tid taskID commentID =
     tbind (tremap (ErrNotFound ''comment not found'') (Comments_GetByID tid commentID)) (\<lambda>c.
     tbind (tguard (c_TaskID c = taskID) (ErrNotFound ''comment not found'')) (\<lambda>_. tret c))"

definition UpdateComment :: "uuid \<Rightarrow> uuid \<Rightarrow> string \<Rightarrow> ('x task_db_scheme, task_comment) m" where
  "UpdateComment taskID commentID raw = with_caller (\<lambda>tid uid _.
     tbind (tlift (check_body raw)) (\<lambda>body. WithTenantTx tid (with_env (\<lambda>env.
       tbind (get_comment_on tid taskID commentID) (\<lambda>c.
       tbind (tguard (c_AuthorID c = uid) (ErrForbidden ''only the author may edit a comment'')) (\<lambda>_.
       tbind (filterExistingUserIDs tid (parseMentions env body)) (\<lambda>mentions.
       let c' = c\<lparr>c_Body := body, c_Mentions := mentions, c_UpdatedAt := go_now env\<rparr> in
       tbind (tremap (ErrNotFound ''comment not found'') (Comments_Update c')) (\<lambda>_.
       tret c'))))))))"

definition DeleteComment :: "uuid \<Rightarrow> uuid \<Rightarrow> ('x task_db_scheme, unit) m" where
  "DeleteComment taskID commentID = with_caller (\<lambda>tid uid role. WithTenantTx tid (
     tbind (get_comment_on tid taskID commentID) (\<lambda>c.
     tbind (tguard (c_AuthorID c = uid \<or> isAdmin role)
        (ErrForbidden ''only the author or an admin may delete a comment'')) (\<lambda>_.
     tremap (ErrNotFound ''comment not found'') (Comments_SoftDelete tid commentID)))))"

definition ListActivity :: "uuid \<Rightarrow> int \<Rightarrow> int \<Rightarrow> ('x task_db_scheme, task_activity list) m" where
  "ListActivity taskID limit offset = with_caller (\<lambda>tid _ _.
     case normalizeLimitOffset limit offset of (l, off) \<Rightarrow>
       WithTenantTx tid (Activity_List tid taskID (nat l) (nat off)))"

section \<open>\<open>sweep.go\<close>\<close>

definition emitDueSoonNotify :: "uuid \<Rightarrow> uuid \<Rightarrow> ('x task_db_scheme, unit) m" where
  "emitDueSoonNotify tid taskID = with_env (\<lambda>env.
     tbind (Tasks_GetByID tid taskID) (\<lambda>t.
     emitNotify tid taskID ''due_soon'' ''Task due within 24 hours''
       (t_Title t @ '' '' @ map char_of [0xE2 :: nat, 0x80, 0x94] @ '' due ''
         @ (case t_DueAt t of None \<Rightarrow> [] | Some x \<Rightarrow> format_RFC3339_in (local_offset env x) x))
       (map a_UserID (t_Assignees t))))"

definition emitOverdueNotify :: "uuid \<Rightarrow> uuid \<Rightarrow> ('x task_db_scheme, unit) m" where
  "emitOverdueNotify tid taskID =
     tbind (Tasks_GetByID tid taskID) (\<lambda>t.
     emitNotify tid taskID ''overdue'' ''Task is overdue'' (t_Title t) (assigneesAndCreator t))"

definition sweepOne :: "uuid \<Rightarrow> time \<Rightarrow> ('x task_db_scheme, unit) m" where
  "sweepOne tid now = WithTenantTx tid (
     tbind (Tasks_ClaimDueSoon now) (\<lambda>dueSoon.
     tbind (tfor dueSoon (\<lambda>t. emitDueSoonNotify tid (t_ID t))) (\<lambda>_.
     tbind (Tasks_ClaimOverdue now) (\<lambda>late.
     tfor late (\<lambda>t. emitOverdueNotify tid (t_ID t))))))"

definition listAllTenantsForSweep :: "('x base_db_scheme, uuid list) m" where
  "listAllTenantsForSweep = sql_read [] (\<lambda>env d. Inr (map org_ID (organizations d)))"

text \<open>\<open>_ = s.sweepOne(\<dots>)\<close>: one tenant's error does not stop the others.\<close>

definition ignore_err :: "('d, unit) m \<Rightarrow> ('d, unit) m" where
  "ignore_err f = (\<lambda>env w. case f env w of (_, w') \<Rightarrow> (Inr (), w'))"

definition SweepTaskNotifications :: "('x task_db_scheme, unit) m" where
  "SweepTaskNotifications = with_env (\<lambda>env.
     tbind listAllTenantsForSweep (\<lambda>tids. tfor tids (\<lambda>tid. ignore_err (sweepOne tid (go_now env)))))"

section \<open>\<open>document_access.go\<close> and \<open>ListTasks\<close>\<close>

record check_permission_request =
  cp_SubjectType :: string
  cp_SubjectId :: string
  cp_Action :: string
  cp_ResourceType :: string
  cp_ResourceId :: string
  cp_Context :: json
  cp_Metadata :: "(string \<times> string) list"

definition view_request :: "env \<Rightarrow> uuid \<Rightarrow> uuid \<Rightarrow> string \<Rightarrow> document_facts \<Rightarrow> check_permission_request" where
  "view_request env tid uid role doc =
     \<lparr>cp_SubjectType = ''user'', cp_SubjectId = uuid_String env uid, cp_Action = ''view'',
      cp_ResourceType = ''document'', cp_ResourceId = uuid_String env (df_ID doc),
      cp_Context = JObj [(''user_role'', JStr role),
                         (''workspace_id'', JStr (uuid_String env (df_WorkspaceID doc))),
                         (''folder_id'', JStr (uuid_String env (df_FolderID doc))),
                         (''lifecycle_state'', JStr (df_LifecycleState doc))],
      cp_Metadata = [(''x-tenant-id'', uuid_String env tid), (''x-user-id'', uuid_String env uid),
                     (''x-user-role'', role)]
                    @ (if GetUserName (ctx env) \<noteq> [] then [(''x-user-name'', GetUserName (ctx env))] else [])\<rparr>"

type_synonym policy_client = "check_permission_request \<Rightarrow> string + bool"

definition canReadDocument ::
    "policy_client option \<Rightarrow> uuid \<Rightarrow> uuid \<Rightarrow> string \<Rightarrow> document_facts \<Rightarrow> ('d, bool) m" where
  "canReadDocument policy tid uid role doc = with_env (\<lambda>env.
     case policy of
       None \<Rightarrow> tfail (PolicyUnavailable ''policy client not configured'')
     | Some check \<Rightarrow>
         (case check (view_request env tid uid role doc) of
            Inl e \<Rightarrow> tfail (PolicyUnavailable e)
          | Inr allowed \<Rightarrow> tret allowed))"

definition callerCanReadDocument ::
    "policy_client option \<Rightarrow> uuid \<Rightarrow> uuid \<Rightarrow> string \<Rightarrow> uuid \<Rightarrow> ('x task_db_scheme, bool) m" where
  "callerCanReadDocument policy tid uid role docID =
     tbind (WithTenantTx tid (LoadDocumentFacts tid docID)) (\<lambda>facts.
     case facts of None \<Rightarrow> tret False | Some doc \<Rightarrow> canReadDocument policy tid uid role doc)"

record task_page =
  p_Items :: "task list"
  p_Total :: nat
  p_Limit :: int
  p_Offset :: int

definition list_page :: "uuid \<Rightarrow> task_filters \<Rightarrow> ('x task_db_scheme, task_page) m" where
  "list_page tid f =
     tbind (WithTenantTx tid (Tasks_List tid f)) (\<lambda>(items, total).
     tret \<lparr>p_Items = items, p_Total = total, p_Limit = f_Limit f, p_Offset = f_Offset f\<rparr>)"

definition ListTasks :: "policy_client option \<Rightarrow> string \<Rightarrow> task_filters \<Rightarrow> ('x task_db_scheme, task_page) m" where
  "ListTasks policy flt f0 = with_caller (\<lambda>tid uid role.
     case normalizeLimitOffset (f_Limit f0) (f_Offset f0) of (l, off) \<Rightarrow>
     let f = f0\<lparr>f_Limit := l, f_Offset := off\<rparr> in
     if flt = ''mine'' then list_page tid (f\<lparr>f_AssigneeID := Some uid\<rparr>)
     else if flt = ''created'' then list_page tid (f\<lparr>f_CreatedBy := Some uid\<rparr>)
     else if flt = ''all'' \<or> flt = [] then
       (if canListAllTasks role then list_page tid f
        else (case f_DocumentID f of
            Some docID \<Rightarrow>
              tbind (callerCanReadDocument policy tid uid role docID) (\<lambda>canRead.
              if canRead then list_page tid f
              else tret \<lparr>p_Items = [], p_Total = 0, p_Limit = l, p_Offset = off\<rparr>)
          | None \<Rightarrow> list_page tid (f\<lparr>f_InvolvedUserID := Some uid\<rparr>)))
     else tfail (ErrValidation ''filter must be one of mine|created|all''))"

end
