(* ===== verification/Task_Frame.thy ===== *)
theory Task_Frame
  imports Task_Service
begin

text \<open>
  Relations that every operation of the task service respects. A preorder on databases that each
  repository statement respects inside a tenant's transaction is respected by every operation, whatever
  its outcome and whichever statement fails. Two interpretations: the logs only grow, and a caller
  changes nothing of another tenant.
\<close>

section \<open>What the reads return\<close>

lemma Tasks_GetByID_read: "Tasks_GetByID tid i env w = (r, w') \<Longrightarrow> wdb w' = wdb w"
  by (auto simp: Tasks_GetByID_def hydrateTasks_def tbind_def sql_read_def sql_def Let_def tret_def
        split: option.splits sum.splits prod.splits)

definition hydrated :: "'x task_db_scheme \<Rightarrow> task \<Rightarrow> task" where
  "hydrated d t = t\<lparr>
     t_Assignees := map snd (sort_key (\<lambda>r. a_AddedAt (snd r)) (filter (\<lambda>r. fst r = (t_TenantID t, t_ID t)) (task_assignees d))),
     t_Documents := map snd (sort_key (\<lambda>r. d_LinkedAt (snd r)) (filter (\<lambda>r. fst r = (t_TenantID t, t_ID t)) (task_documents d)))\<rparr>"

lemma filter_sorted_key: "\<forall>r \<in> set xs. p r \<Longrightarrow> filter p (sort_key f xs) = sort_key f xs"
  by (simp add: filter_id_conv)

lemma key_filter:
  "filter (\<lambda>r. fst (fst r) = tid \<and> snd (fst r) \<in> set [i]) rows = filter (\<lambda>r. fst r = (tid, i)) rows"
  by (rule filter_cong) auto

lemma Tasks_GetByID_Inr:
  assumes "Tasks_GetByID tid i env w = (Inr t, w')"
  obtains x where "find (live tid i) (tasks (wdb w)) = Some x" "t = hydrated (wdb w) x" "wdb w' = wdb w"
proof -
  from assms obtain x where x: "find (live tid i) (tasks (wdb w)) = Some x"
    and t: "t = x\<lparr>t_Assignees := map snd (filter (\<lambda>r. snd (fst r) = t_ID x) (sort_key (\<lambda>r. a_AddedAt (snd r))
               (filter (\<lambda>r. fst (fst r) = tid \<and> snd (fst r) \<in> set [t_ID x]) (task_assignees (wdb w))))),
            t_Documents := map snd (filter (\<lambda>r. snd (fst r) = t_ID x) (sort_key (\<lambda>r. d_LinkedAt (snd r))
               (filter (\<lambda>r. fst (fst r) = tid \<and> snd (fst r) \<in> set [t_ID x]) (task_documents (wdb w)))))\<rparr>"
    and w: "wdb w' = wdb w"
    by (auto simp: Tasks_GetByID_def hydrateTasks_def tx_Inr Let_def split: option.splits)
  from x have "t_TenantID x = tid" "t_ID x = i" by (auto simp: find_Some_iff live_def)
  then have "t = hydrated (wdb w) x"
    unfolding t hydrated_def key_filter by (simp add: filter_sorted_key)
  with x w show thesis using that by blast
qed

lemma hydrated_fields [simp]:
  "t_TenantID (hydrated d x) = t_TenantID x" "t_ID (hydrated d x) = t_ID x"
  "t_Status (hydrated d x) = t_Status x" "t_CreatedBy (hydrated d x) = t_CreatedBy x"
  "t_CompletedBy (hydrated d x) = t_CompletedBy x" "t_CompletedAt (hydrated d x) = t_CompletedAt x"
  "t_Priority (hydrated d x) = t_Priority x" "t_Source (hydrated d x) = t_Source x"
  "t_DueAt (hydrated d x) = t_DueAt x" "t_Title (hydrated d x) = t_Title x"
  "t_DeletedAt (hydrated d x) = t_DeletedAt x"
  by (simp_all add: hydrated_def)

lemma GetByID_returns: "tx_returns E (get_task_or_404 tid i) (\<lambda>t. t_TenantID t = tid \<and> t_ID t = i)"
  unfolding get_task_or_404_def
  by (rule post_tremap, rule tx_postI) (auto elim!: Tasks_GetByID_Inr simp: find_Some_iff live_def)

lemma newTaskEvent_returns:
  "tx_returns E (newTaskEvent tid et i p) (\<lambda>e. e_TenantID e = tid \<and> e_EventType e = et \<and> e_AggregateID e = i
     \<and> e_AggregateType e = ''task'' \<and> e_Payload e = Some p)"
  by (rule tx_postI)
    (auto simp: newTaskEvent_def NewOutboxEvent_def tbind_Inr draw_id_or_new_def taskAggregateType_def)

text \<open>What a patch cannot touch.\<close>

definition same_core :: "task \<Rightarrow> task \<Rightarrow> bool" where
  "same_core cur cur' \<longleftrightarrow>
     t_TenantID cur' = t_TenantID cur \<and> t_ID cur' = t_ID cur \<and> t_Status cur' = t_Status cur
     \<and> t_CreatedBy cur' = t_CreatedBy cur \<and> t_Source cur' = t_Source cur
     \<and> t_CompletedBy cur' = t_CompletedBy cur \<and> t_CompletedAt cur' = t_CompletedAt cur
     \<and> t_Assignees cur' = t_Assignees cur \<and> t_Documents cur' = t_Documents cur
     \<and> (validPriority (t_Priority cur) \<longrightarrow> validPriority (t_Priority cur'))"

lemma same_core_trans: "same_core a b \<Longrightarrow> same_core b c \<Longrightarrow> same_core a c"
  by (simp add: same_core_def)

lemma patch_same_core:
  "patch_title inp (cur, ch) = Inr (cur', ch') \<Longrightarrow> same_core cur cur'"
  "patch_description inp (cur, ch) = Inr (cur', ch') \<Longrightarrow> same_core cur cur'"
  "patch_priority inp (cur, ch) = Inr (cur', ch') \<Longrightarrow> same_core cur cur'"
  "patch_due inp (cur, ch) = (cur', ch') \<Longrightarrow> same_core cur cur'"
  by (auto simp: patch_title_def patch_description_def patch_priority_def patch_due_def same_core_def Let_def
      split: option.splits if_splits)

lemma apply_patch_keeps:
  assumes "apply_patch inp cur = Inr (cur', changed)"
  shows "same_core cur cur'"
proof -
  from assms obtain c1 ch1 c2 ch2 c3 ch3 where
    s1: "patch_title inp (cur, []) = Inr (c1, ch1)" and s2: "patch_description inp (c1, ch1) = Inr (c2, ch2)"
    and s3: "patch_priority inp (c2, ch2) = Inr (c3, ch3)" and s4: "patch_due inp (c3, ch3) = (cur', changed)"
    by (auto simp: apply_patch_def split: sum.splits)
  show ?thesis
    using patch_same_core(1) [OF s1] patch_same_core(2) [OF s2] patch_same_core(3) [OF s3] patch_same_core(4) [OF s4]
    by (blast intro: same_core_trans)
qed

lemma stamp_status_keeps [simp]:
  "t_TenantID (stamp_status to u now t) = t_TenantID t" "t_ID (stamp_status to u now t) = t_ID t"
  "t_Status (stamp_status to u now t) = to" "t_Title (stamp_status to u now t) = t_Title t"
  "t_Priority (stamp_status to u now t) = t_Priority t"
  by (simp_all add: stamp_status_def Let_def)

section \<open>Relations kept by every operation\<close>

definition caller_in :: "uuid \<Rightarrow> env \<Rightarrow> bool" where
  "caller_in tid env \<longleftrightarrow> (\<exists>u. c_User (ctx env) = Some u \<and> u_TenantID u = tid)"

lemma mustCaller_caller_in: "mustCaller (ctx env) = Inr (tid', uid, role) \<Longrightarrow> caller_in tid env \<Longrightarrow> tid' = tid"
  by (auto simp: mustCaller_def User_def caller_in_def split: if_splits)

text \<open>
  \<open>S\<close> is the assumption on the environment, which may not depend on the transaction's tenant. The
  laws are about the statements; \<open>Tasks_Update\<close> is left to the extension below.
\<close>

locale task_relation = db_preorder R
  for R :: "'x task_db_scheme \<Rightarrow> 'x task_db_scheme \<Rightarrow> bool" +
  fixes tid :: uuid and S :: "env \<Rightarrow> bool"
  assumes S_scope: "S (env\<lparr>cur_tenant := other\<rparr>) = S env"
    and rel_insert_task: "t_TenantID t = tid \<Longrightarrow> t_Status t = ''open'' \<Longrightarrow> t_CompletedBy t = None \<Longrightarrow> t_CompletedAt t = None
       \<Longrightarrow> tx_rel (\<lambda>env. S env \<and> cur_tenant env = tid) R (insert_task_row t)"
    and rel_insert_assignee: "tx_rel (\<lambda>env. S env \<and> cur_tenant env = tid) R (insert_assignee l tid i mk)"
    and rel_insert_document: "tx_rel (\<lambda>env. S env \<and> cur_tenant env = tid) R (insert_document tid i x)"
    and rel_SoftDelete: "tx_rel (\<lambda>env. S env \<and> cur_tenant env = tid) R (Tasks_SoftDelete tid i)"
    and rel_RemoveAssignee_row: "tx_rel (\<lambda>env. S env \<and> cur_tenant env = tid) R (Tasks_RemoveAssignee tid i u)"
    and rel_LinkDocument_row: "tx_rel (\<lambda>env. S env \<and> cur_tenant env = tid) R (Tasks_LinkDocument tid i doc u)"
    and rel_UnlinkDocument_row: "tx_rel (\<lambda>env. S env \<and> cur_tenant env = tid) R (Tasks_UnlinkDocument tid i doc)"
    and rel_ClaimDueSoon: "tx_rel (\<lambda>env. S env \<and> cur_tenant env = tid) R (Tasks_ClaimDueSoon now)"
    and rel_ClaimOverdue: "tx_rel (\<lambda>env. S env \<and> cur_tenant env = tid) R (Tasks_ClaimOverdue now)"
    and rel_Comments_Create: "c_TenantID c = tid \<Longrightarrow> tx_rel (\<lambda>env. S env \<and> cur_tenant env = tid) R (Comments_Create c)"
    and rel_update_comments: "(\<And>env x. c_TenantID (f env x) = c_TenantID x
         \<and> c_ID (f env x) = c_ID x \<and> c_TaskID (f env x) = c_TaskID x) \<Longrightarrow>
       tx_rel (\<lambda>env. S env \<and> cur_tenant env = tid) R (update_comments l tid i f)"
    and rel_Activity_Insert: "tx_rel (\<lambda>env. S env \<and> cur_tenant env = tid) R (Activity_Insert tid i u act det)"
    and rel_Outbox_Insert: "e_TenantID e = tid \<Longrightarrow> tx_rel (\<lambda>env. S env \<and> cur_tenant env = tid) R (Outbox_Insert e)"
begin

lemma rel_GetByID: "tx_rel E R (Tasks_GetByID t i)" "tx_rel E R (get_task_or_404 t i)"
proof -
  show "tx_rel E R (Tasks_GetByID t i)"
    by (rule tx_relI) (auto dest: Tasks_GetByID_read simp: R_refl)
  then show "tx_rel E R (get_task_or_404 t i)" unfolding get_task_or_404_def by (rule rel_tremap)
qed

lemma rel_emitTaskEvent: "tx_rel (\<lambda>env. S env \<and> cur_tenant env = tid) R (emitTaskEvent tid i et p)"
  unfolding emitTaskEvent_def
  by (intro rel_with_env rel_tbind_returns [OF _ newTaskEvent_returns])
    (auto simp: newTaskEvent_def NewOutboxEvent_def intro!: rel_tbind rel_draw rel_with_env rel_tret rel_Outbox_Insert)

lemma rel_emitNotify: "tx_rel (\<lambda>env. S env \<and> cur_tenant env = tid) R (emitNotify tid i n t b us)"
  by (simp add: emitNotify_def rel_emitTaskEvent rel_tret)

lemma rel_record_assigned: "tx_rel (\<lambda>env. S env \<and> cur_tenant env = tid) R (record_assigned tid i a u)"
  unfolding record_assigned_def by (intro rel_with_env rel_tbind rel_Activity_Insert rel_emitTaskEvent)

lemma rel_validate: "tx_rel E R (validateAssigneesExist t ids)" "tx_rel E R (filterExistingUserIDs t ids)"
  by (simp_all add: validateAssigneesExist_def filterExistingUserIDs_def rel_tret rel_sql_read)

lemmas rel_parts = rel_GetByID rel_emitTaskEvent rel_emitNotify rel_record_assigned rel_validate
  rel_insert_assignee rel_insert_document rel_SoftDelete rel_RemoveAssignee_row
  rel_LinkDocument_row rel_UnlinkDocument_row rel_Activity_Insert

text \<open>The tenant of the transaction is the caller's.\<close>

lemma rel_with_caller:
  assumes "\<And>uid role. tx_rel (\<lambda>env. S env \<and> caller_in tid env) R (f tid uid role)"
  shows "tx_rel (\<lambda>env. S env \<and> caller_in tid env) R (with_caller f)"
proof (rule tx_relI)
  fix env w r w'
  assume E: "S env \<and> caller_in tid env" and run: "with_caller f env w = (r, w')"
  show "R (wdb w) (wdb w')"
  proof (cases "mustCaller (ctx env)")
    case (Inl e)
    with run show ?thesis by (simp add: with_caller_def tbind_def tlift_def R_refl)
  next
    case (Inr u)
    obtain t' uid role where u: "u = (t', uid, role)" by (cases u)
    with Inr E have "t' = tid" using mustCaller_caller_in by blast
    with run Inr u have "f tid uid role env w = (r, w')" by (simp add: with_caller_def tbind_def tlift_def)
    then show ?thesis using tx_relD [OF assms E] by blast
  qed
qed

lemma rel_tx:
  "tx_rel (\<lambda>env. S env \<and> cur_tenant env = tid) R f \<Longrightarrow> tx_rel (\<lambda>env. S env \<and> caller_in tid env) R (WithTenantTx tid f)"
  by (rule rel_WithTenantTx [where E' = "\<lambda>env. S env \<and> cur_tenant env = tid"]) (simp_all add: S_scope)

lemma rel_Tasks_Create:
  "t_TenantID t = tid \<Longrightarrow> t_Status t = ''open'' \<Longrightarrow> t_CompletedBy t = None \<Longrightarrow> t_CompletedAt t = None \<Longrightarrow>
     tx_rel (\<lambda>env. S env \<and> cur_tenant env = tid) R (Tasks_Create t)"
  unfolding Tasks_Create_def
  by (intro rel_tbind rel_tfor rel_tret rel_insert_task) (simp_all add: rel_insert_assignee rel_insert_document rel_tbind rel_tret)

lemma rel_create_task_tx:
  assumes "t_TenantID t = tid" "t_Status t = ''open''" "t_CompletedBy t = None" "t_CompletedAt t = None"
  shows "tx_rel (\<lambda>env. S env \<and> cur_tenant env = tid) R (create_task_tx t due as ds)"
  unfolding create_task_tx_def Let_def assms(1) Tasks_AddAssignee_def
  by (intro rel_with_env rel_tbind rel_Tasks_Create rel_parts rel_tfor rel_tmap rel_tremap rel_if rel_tret assms)
    (auto intro: rel_tret rel_emitNotify)

lemma rel_CreateTask: "tx_rel (\<lambda>env. S env \<and> caller_in tid env) R (CreateTask inp)"
  unfolding CreateTask_def Let_def
  by (intro rel_with_caller rel_tbind rel_tlift rel_draw rel_with_env rel_tx rel_create_task_tx)
    (auto simp: new_task_def)

lemma rel_DeleteTask: "tx_rel (\<lambda>env. S env \<and> caller_in tid env) R (DeleteTask i)"
  unfolding DeleteTask_def
  by (intro rel_with_caller rel_tx rel_tbind rel_tguard rel_tremap rel_parts)

lemma rel_AddAssignee: "tx_rel (\<lambda>env. S env \<and> caller_in tid env) R (AddAssignee i u)"
  unfolding AddAssignee_def Tasks_AddAssignee_def
  by (intro rel_with_caller rel_tx rel_tbind rel_tguard rel_parts rel_if rel_tret)

lemma rel_RemoveAssignee: "tx_rel (\<lambda>env. S env \<and> caller_in tid env) R (RemoveAssignee i u)"
  unfolding RemoveAssignee_def
  by (intro rel_with_caller rel_tx rel_tbind rel_tguard rel_parts rel_if rel_with_env rel_tret)

lemma rel_LinkDocument: "tx_rel (\<lambda>env. S env \<and> caller_in tid env) R (LinkDocument i doc)"
  unfolding LinkDocument_def
  by (intro rel_with_caller rel_tx rel_with_env rel_tbind rel_tguard rel_tremap rel_parts)
    (auto intro!: rel_tbind rel_parts rel_tret)

lemma rel_UnlinkDocument: "tx_rel (\<lambda>env. S env \<and> caller_in tid env) R (UnlinkDocument i doc)"
  unfolding UnlinkDocument_def
  by (intro rel_with_caller rel_tx rel_tbind rel_tguard rel_parts)
    (auto split: option.split intro!: rel_tfail rel_tbind rel_parts rel_if rel_with_env rel_tret)

lemma rel_AddComment: "tx_rel (\<lambda>env. S env \<and> caller_in tid env) R (AddComment i b)"
  unfolding AddComment_def Let_def
  by (intro rel_with_caller rel_tbind rel_tlift rel_draw rel_with_env rel_tx rel_parts rel_Comments_Create rel_tret) simp

lemma rel_get_comment: "tx_rel E R (get_comment_on t i c)"
  unfolding get_comment_on_def Comments_GetByID_def
  by (intro rel_tbind rel_tremap rel_sql_read rel_tguard rel_tret)

lemma get_comment_returns: "tx_returns E (get_comment_on t i c) (\<lambda>x. c_TenantID x = t \<and> c_ID x = c)"
  by (rule tx_postI)
    (auto simp: get_comment_on_def Comments_GetByID_def tx_Inr find_Some_iff live_comment_def split: option.splits)

lemma rel_UpdateComment: "tx_rel (\<lambda>env. S env \<and> caller_in tid env) R (UpdateComment i c b)"
  unfolding UpdateComment_def Let_def Comments_Update_def
  by (intro rel_with_caller rel_tbind [OF rel_tlift] rel_tx rel_with_env
      rel_tbind_returns [OF rel_get_comment get_comment_returns] rel_tbind [OF rel_tguard] rel_tbind [OF rel_validate(2)]
      rel_tbind [OF rel_tremap] rel_tret) (simp add: rel_update_comments)

lemma rel_DeleteComment: "tx_rel (\<lambda>env. S env \<and> caller_in tid env) R (DeleteComment i c)"
  unfolding DeleteComment_def Comments_SoftDelete_def
  by (intro rel_with_caller rel_tx rel_tbind rel_get_comment rel_tguard rel_tremap rel_update_comments) simp

lemma rel_sweepOne: "tx_rel S R (sweepOne tid now)"
  unfolding sweepOne_def emitDueSoonNotify_def emitOverdueNotify_def
  by (rule rel_WithTenantTx [where E' = "\<lambda>env. S env \<and> cur_tenant env = tid"])
    (auto simp: S_scope intro!: rel_tbind rel_ClaimDueSoon rel_ClaimOverdue rel_tfor rel_with_env rel_parts)

end

locale task_relation_upd = task_relation R tid S
  for R :: "'x task_db_scheme \<Rightarrow> 'x task_db_scheme \<Rightarrow> bool" and tid :: uuid and S :: "env \<Rightarrow> bool" +
  assumes rel_Update: "t_TenantID t = tid \<Longrightarrow> tx_rel (\<lambda>env. S env \<and> cur_tenant env = tid) R (Tasks_Update t)"
begin

lemma rel_commit_update:
  "t_TenantID cur = tid \<Longrightarrow> tx_rel (\<lambda>env. S env \<and> cur_tenant env = tid) R (commit_update tid uid cur changed)"
  unfolding commit_update_def by (intro rel_tbind rel_Update rel_parts rel_tret)

lemma rel_UpdateTask: "tx_rel (\<lambda>env. S env \<and> caller_in tid env) R (UpdateTask inp)"
proof -
  have "tx_rel (\<lambda>env. S env \<and> cur_tenant env = tid) R (tbind (tlift (apply_patch inp cur)) (\<lambda>(cur', changed).
       if changed = [] then tret cur' else commit_update tid uid cur' changed))"
    if cur: "t_TenantID cur = tid \<and> t_ID cur = i" for cur uid i
  proof (rule rel_tbind_returns [OF rel_tlift, where Q = "\<lambda>x. t_TenantID (fst x) = tid"], goal_cases)
    case 1
    show ?case
      by (rule tx_postI) (use cur in \<open>auto simp: tlift_def same_core_def dest!: apply_patch_keeps\<close>)
  next
    case (2 x)
    then show ?case by (cases x) (simp add: rel_tret rel_commit_update)
  qed
  then show ?thesis
    unfolding UpdateTask_def update_task_tx_def
    by (intro rel_with_caller rel_tx rel_tbind_returns [OF rel_GetByID(2) GetByID_returns] rel_tbind [OF rel_tguard])
qed

lemma rel_commit_transition:
  "t_TenantID cur = tid \<Longrightarrow> tx_rel (\<lambda>env. S env \<and> cur_tenant env = tid) R (commit_transition tid uid i from to cur)"
  unfolding commit_transition_def by (intro rel_tbind rel_tremap rel_Update rel_parts rel_if rel_tret)

lemma rel_doTransition: "tx_rel (\<lambda>env. S env \<and> caller_in tid env) R (doTransition i to verb)"
  unfolding doTransition_def transition_tx_def
  by (intro rel_with_caller rel_tx rel_tbind_returns [OF rel_GetByID(2) GetByID_returns] rel_tbind [OF rel_tguard]
      rel_with_env rel_commit_transition) simp

end

end
