(* ===== verification/Task_Isolation.thy ===== *)
theory Task_Isolation
  imports Task_Frame
begin

text \<open>
  The operations of the task service as one interface, and the two relations all of them respect: the
  activity log and the outbox only grow, and nothing that belongs to another tenant changes.
\<close>

section \<open>Operations\<close>

datatype task_op =
    OpCreate create_task_input
  | OpGet uuid
  | OpUpdate update_task_input
  | OpDelete uuid
  | OpStart uuid
  | OpComplete uuid
  | OpReopen uuid
  | OpCancel uuid
  | OpAddAssignee uuid uuid
  | OpRemoveAssignee uuid uuid
  | OpLinkDocument uuid uuid
  | OpUnlinkDocument uuid uuid
  | OpAddComment uuid string
  | OpUpdateComment uuid uuid string
  | OpDeleteComment uuid uuid
  | OpSweepOne uuid time

definition drop_result :: "('d, 'a) m \<Rightarrow> ('d, unit) m" where
  "drop_result f = tbind f (\<lambda>_. tret ())"

fun run_op :: "task_op \<Rightarrow> ('x task_db_scheme, unit) m" where
  "run_op (OpCreate inp) = drop_result (CreateTask inp)"
| "run_op (OpGet i) = drop_result (GetTask i)"
| "run_op (OpUpdate inp) = drop_result (UpdateTask inp)"
| "run_op (OpDelete i) = DeleteTask i"
| "run_op (OpStart i) = drop_result (StartTask i)"
| "run_op (OpComplete i) = drop_result (CompleteTask i)"
| "run_op (OpReopen i) = drop_result (ReopenTask i)"
| "run_op (OpCancel i) = drop_result (CancelTask i)"
| "run_op (OpAddAssignee i u) = drop_result (AddAssignee i u)"
| "run_op (OpRemoveAssignee i u) = drop_result (RemoveAssignee i u)"
| "run_op (OpLinkDocument i x) = drop_result (LinkDocument i x)"
| "run_op (OpUnlinkDocument i x) = drop_result (UnlinkDocument i x)"
| "run_op (OpAddComment i b) = drop_result (AddComment i b)"
| "run_op (OpUpdateComment i c b) = drop_result (UpdateComment i c b)"
| "run_op (OpDeleteComment i c) = DeleteComment i c"
| "run_op (OpSweepOne tid now) = sweepOne tid now"

text \<open>The tenant an operation acts for: the caller's, and for the sweep the tenant it is run on.\<close>

fun acts_for :: "uuid \<Rightarrow> task_op \<Rightarrow> env \<Rightarrow> bool" where
  "acts_for tid (OpSweepOne t now) = (\<lambda>env. t = tid)"
| "acts_for tid _ = caller_in tid"

context task_relation_upd
begin

lemma rel_run_op: "tx_rel (\<lambda>env. S env \<and> acts_for tid op env) R (run_op op)"
proof (cases op)
  case (OpGet i)
  have "tx_rel (\<lambda>env. S env \<and> caller_in tid env) R (GetTask i)"
    unfolding GetTask_def by (intro rel_with_caller rel_tx rel_parts)
  with OpGet show ?thesis by (simp add: drop_result_def rel_tbind rel_tret)
next
  case (OpSweepOne t now)
  have "tx_rel (\<lambda>env. S env \<and> t = tid) R (sweepOne t now)"
    using rel_sweepOne [of now] by (auto simp: tx_rel_def)
  with OpSweepOne show ?thesis by simp
qed (simp_all add: drop_result_def rel_tbind rel_tret rel_CreateTask rel_UpdateTask rel_DeleteTask
    StartTask_def CompleteTask_def ReopenTask_def CancelTask_def rel_doTransition rel_AddAssignee rel_RemoveAssignee
    rel_LinkDocument rel_UnlinkDocument rel_AddComment rel_UpdateComment rel_DeleteComment)

end

section \<open>The logs only grow\<close>

definition logs_grow :: "'x task_db_scheme \<Rightarrow> 'x task_db_scheme \<Rightarrow> bool" where
  "logs_grow d d' \<longleftrightarrow> prefix (task_activity_log d) (task_activity_log d') \<and> prefix (outbox d) (outbox d')
     \<and> outbox_dlq d' = outbox_dlq d"

interpretation logs: db_preorder "logs_grow :: 'x task_db_scheme \<Rightarrow> _"
  by unfold_locales (auto simp: logs_grow_def)

lemma logs_outbox: "tx_rel E logs_grow (Outbox_Insert e)"
  by (rule tx_relI) (auto simp: logs_grow_def dest!: Outbox_Insert_db)

lemma logs_sql:
  assumes "\<And>env d a d'. f env d = Inr (a, d') \<Longrightarrow>
     prefix (task_activity_log d) (task_activity_log d') \<and> outbox d' = outbox d \<and> outbox_dlq d' = outbox_dlq d"
  shows "tx_rel E logs_grow (sql l f)"
  by (rule logs.rel_sql) (use assms in \<open>auto simp: logs_grow_def\<close>)

lemma logs_rows:
  "tx_rel E logs_grow (insert_task_row t)" "tx_rel E logs_grow (insert_assignee l tid i mk)"
  "tx_rel E logs_grow (insert_document tid i x)" "tx_rel E logs_grow (Tasks_SoftDelete tid i)"
  "tx_rel E logs_grow (Tasks_RemoveAssignee tid i u)" "tx_rel E logs_grow (Tasks_UnlinkDocument tid i doc)"
  "tx_rel E logs_grow (claim_tasks l p g)" "tx_rel E logs_grow (Comments_Create c)"
  "tx_rel E logs_grow (update_comments l tid i h)" "tx_rel E logs_grow (Activity_Insert tid i u act det)"
  "tx_rel E logs_grow (Tasks_Update t)"
  unfolding insert_task_row_def insert_assignee_def insert_document_def Tasks_SoftDelete_def
    Tasks_RemoveAssignee_def Tasks_UnlinkDocument_def claim_tasks_def Comments_Create_def update_comments_def
    Activity_Insert_def Tasks_Update_def
  by (rule logs_sql; auto simp: Let_def split: if_splits)+

lemma logs_link: "tx_rel E logs_grow (Tasks_LinkDocument tid i doc u)"
  unfolding Tasks_LinkDocument_def
  by (rule logs.rel_tbind [OF logs.rel_sql_read])
    (auto intro!: logs_sql simp: Let_def split: if_splits option.splits)

interpretation logs: task_relation_upd "logs_grow :: 'x task_db_scheme \<Rightarrow> _" tid "\<lambda>_. True" for tid
  by unfold_locales
    (simp_all add: logs_rows logs_outbox logs_link Tasks_ClaimDueSoon_def Tasks_ClaimOverdue_def)

section \<open>Other tenants\<close>

definition of_others :: "uuid \<Rightarrow> 'x task_db_scheme \<Rightarrow> _" where
  "of_others tid d =
     (filter (\<lambda>t. t_TenantID t \<noteq> tid) (tasks d),
      filter (\<lambda>r. fst (fst r) \<noteq> tid) (task_assignees d),
      filter (\<lambda>r. fst (fst r) \<noteq> tid) (task_documents d),
      filter (\<lambda>c. c_TenantID c \<noteq> tid) (task_comments d),
      filter (\<lambda>r. fst r \<noteq> tid) (task_activity_log d),
      filter (\<lambda>r. o_TenantID r \<noteq> tid) (outbox d),
      (outbox_dlq d, users d, documents d, organizations d))"

definition isolates :: "uuid \<Rightarrow> 'x task_db_scheme \<Rightarrow> 'x task_db_scheme \<Rightarrow> bool" where
  "isolates tid d d' \<longleftrightarrow> of_others tid d' = of_others tid d"

interpretation iso: db_preorder "isolates tid :: 'x task_db_scheme \<Rightarrow> _" for tid
  by unfold_locales (simp_all add: isolates_def)

lemma filter_map_if_id:
  "(\<And>x. x \<in> set xs \<Longrightarrow> q (if h x then f x else x) = q x) \<Longrightarrow> (\<And>x. x \<in> set xs \<Longrightarrow> h x \<Longrightarrow> \<not> q x) \<Longrightarrow>
     filter q (map (\<lambda>x. if h x then f x else x) xs) = filter q xs"
  by (induction xs) (auto split: if_splits)

lemma iso_outbox: "e_TenantID e = tid \<Longrightarrow> tx_rel E (isolates tid) (Outbox_Insert e)"
  by (rule tx_relI) (auto simp: isolates_def of_others_def dest!: Outbox_Insert_db)

lemma iso_appends:
  "t_TenantID t = tid \<Longrightarrow> tx_rel E (isolates tid) (insert_task_row t)"
  "tx_rel E (isolates tid) (insert_assignee l tid i mk)" "tx_rel E (isolates tid) (insert_document tid i x)"
  "c_TenantID c = tid \<Longrightarrow> tx_rel E (isolates tid) (Comments_Create c)"
  "tx_rel E (isolates tid) (Activity_Insert tid i u act det)"
  unfolding insert_task_row_def insert_assignee_def insert_document_def Comments_Create_def Activity_Insert_def
  by (rule iso.rel_sql; auto simp: isolates_def of_others_def task_columns_def Let_def split: if_splits)+

lemma filter_other_hit: "(\<And>x. x \<in> set xs \<Longrightarrow> hit x \<Longrightarrow> \<not> q x) \<Longrightarrow> filter q (filter (\<lambda>x. \<not> hit x) xs) = filter q xs"
  by (auto intro!: filter_cong)

lemma iso_deletes:
  "tx_rel E (isolates tid) (Tasks_RemoveAssignee tid i u)" "tx_rel E (isolates tid) (Tasks_UnlinkDocument tid i doc)"
  unfolding Tasks_RemoveAssignee_def Tasks_UnlinkDocument_def
  by (rule iso.rel_sql; auto simp: isolates_def of_others_def Let_def intro!: filter_cong)+

lemma iso_updates:
  "t_TenantID t = tid \<Longrightarrow> tx_rel E (isolates tid) (Tasks_Update t)"
  "tx_rel E (isolates tid) (Tasks_SoftDelete tid i)"
  "(\<And>env x. c_TenantID (f env x) = c_TenantID x) \<Longrightarrow> tx_rel E (isolates tid) (update_comments l tid i f)"
  unfolding Tasks_Update_def Tasks_SoftDelete_def update_comments_def
  by (rule iso.rel_sql; auto simp: isolates_def of_others_def live_def live_comment_def update_task_columns_def
      split: if_splits intro!: filter_map_if_id)+

lemma iso_claim:
  assumes "\<And>t. t_TenantID (g t) = t_TenantID t"
  shows "tx_rel (\<lambda>env. \<not> bypass_rls env \<and> cur_tenant env = tid) (isolates tid) (claim_tasks l p g)"
  unfolding claim_tasks_def
  by (rule iso.rel_sql)
    (auto simp: isolates_def of_others_def visible_def Let_def assms split: if_splits intro!: filter_map_if_id)

lemma iso_link: "tx_rel E (isolates tid) (Tasks_LinkDocument tid i doc u)"
  unfolding Tasks_LinkDocument_def
  by (rule iso.rel_tbind [OF iso.rel_sql_read])
    (auto intro!: iso.rel_sql filter_map_if_id simp: isolates_def of_others_def Let_def split: if_splits option.splits)

interpretation iso: task_relation_upd "isolates tid :: 'x task_db_scheme \<Rightarrow> _" tid "\<lambda>env. \<not> bypass_rls env" for tid
  by unfold_locales
    (simp_all add: iso_outbox iso_appends iso_deletes iso_updates iso_claim iso_link
      Tasks_ClaimDueSoon_def Tasks_ClaimOverdue_def)

section \<open>Atomicity\<close>

lemma atomic_with_caller: "(\<And>t u r. tx_atomic (f t u r)) \<Longrightarrow> tx_atomic (with_caller f)"
  unfolding with_caller_def by (intro atomic_with_env atomic_tlift) (auto split: prod.split)

lemma atomic_drop_result: "tx_atomic f \<Longrightarrow> tx_atomic (drop_result f)"
  unfolding drop_result_def by (rule atomic_then_ret)

lemma run_op_atomic: "tx_atomic (run_op op)"
  by (cases op)
    (auto simp: CreateTask_def GetTask_def UpdateTask_def DeleteTask_def StartTask_def CompleteTask_def
      ReopenTask_def CancelTask_def doTransition_def AddAssignee_def RemoveAssignee_def LinkDocument_def
      UnlinkDocument_def AddComment_def UpdateComment_def DeleteComment_def sweepOne_def Let_def
      intro!: atomic_drop_result atomic_with_caller atomic_tlift atomic_draw atomic_with_env atomic_WithTenantTx)

section \<open>Properties\<close>

text \<open>
  Property C17. Under row-level security no operation, successful or not, changes a row of another
  tenant: tasks, assignees, linked documents, comments, activity and outbox rows of every tenant but
  the one the operation acts for are the same before and after, and the users, documents and
  organizations of all tenants are untouched.
\<close>

theorem task_ops_isolate_tenants:
  assumes "run_op op env w = (r, w')" "acts_for tid op env" "\<not> bypass_rls env"
  shows "of_others tid (wdb w') = of_others tid (wdb w)"
proof -
  have "isolates tid (wdb w) (wdb w')"
    by (rule tx_relD [OF iso.rel_run_op _ assms(1)]) (use assms in simp)
  then show ?thesis by (simp add: isolates_def)
qed

text \<open>
  The audit trail of a task and the outbox are append-only for the service: whatever an
  operation does and wherever it fails, the earlier activity entries and outbox rows are still there,
  unchanged and in the same order.
\<close>

theorem task_ops_append_only:
  assumes "run_op op env w = (r, w')" "acts_for tid op env"
  shows "prefix (task_activity_log (wdb w)) (task_activity_log (wdb w'))
         \<and> prefix (outbox (wdb w)) (outbox (wdb w'))"
proof -
  have "logs_grow (wdb w) (wdb w')"
    by (rule tx_relD [OF logs.rel_run_op _ assms(1)]) (use assms in simp)
  then show ?thesis by (simp add: logs_grow_def)
qed


end
