(* ===== verification/Task_Lifecycle.thy ===== *)
theory Task_Lifecycle
  imports Task_Isolation
begin

text \<open>
  The integrity of the task tables over time: keys, foreign keys, the CHECK constraints and the
  relation between a task's status and its completion stamp hold in every state the service can reach,
  from any interleaving of operations of any callers and tenants, with failures anywhere.
\<close>

section \<open>The invariant\<close>

definition completion_ok :: "task \<Rightarrow> bool" where
  "completion_ok t \<longleftrightarrow>
     (if t_Status t = ''done'' then t_CompletedBy t \<noteq> None \<and> t_CompletedAt t \<noteq> None
      else t_CompletedBy t = None \<and> t_CompletedAt t = None)"

definition row_ok :: "task \<Rightarrow> bool" where
  "row_ok t \<longleftrightarrow> task_checks t \<and> completion_ok t"

definition task_key_of :: "task \<Rightarrow> task_key" where
  "task_key_of t = (t_TenantID t, t_ID t)"

definition task_keys :: "'x task_db_scheme \<Rightarrow> task_key set" where
  "task_keys d = task_key_of ` set (tasks d)"

text \<open>A side table: a unique key, and a reference to an existing task.\<close>

definition table_ok :: "task_key set \<Rightarrow> ('r \<Rightarrow> 'k) \<Rightarrow> ('r \<Rightarrow> task_key) \<Rightarrow> 'r list \<Rightarrow> bool" where
  "table_ok ks key ref rows \<longleftrightarrow> distinct (map key rows) \<and> ref ` set rows \<subseteq> ks"

definition assignee_key :: "task_key \<times> task_assignee \<Rightarrow> task_key \<times> uuid" where
  "assignee_key r = (fst r, a_UserID (snd r))"

definition link_key :: "task_key \<times> task_document \<Rightarrow> task_key \<times> uuid" where
  "link_key r = (fst r, d_DocumentID (snd r))"

definition comment_key :: "task_comment \<Rightarrow> uuid \<times> uuid" where
  "comment_key c = (c_TenantID c, c_ID c)"

definition comment_ref :: "task_comment \<Rightarrow> task_key" where
  "comment_ref c = (c_TenantID c, c_TaskID c)"

definition activity_ref :: "uuid \<times> task_activity \<Rightarrow> task_key" where
  "activity_ref r = (fst r, v_TaskID (snd r))"

definition log_ok :: "task_key set \<Rightarrow> (uuid \<times> task_activity) list \<Rightarrow> bool" where
  "log_ok ks rows \<longleftrightarrow> map (\<lambda>r. v_ID (snd r)) rows = [1..<Suc (length rows)] \<and> activity_ref ` set rows \<subseteq> ks"

definition task_inv :: "'x task_db_scheme \<Rightarrow> bool" where
  "task_inv d \<longleftrightarrow> list_all row_ok (tasks d) \<and> distinct (map task_key_of (tasks d))
     \<and> table_ok (task_keys d) assignee_key fst (task_assignees d)
     \<and> table_ok (task_keys d) link_key fst (task_documents d)
     \<and> table_ok (task_keys d) comment_key comment_ref (task_comments d)
     \<and> log_ok (task_keys d) (task_activity_log d)"

lemma task_exists_key: "task_exists tid i d \<longleftrightarrow> (tid, i) \<in> task_keys d"
  by (auto simp: task_exists_def task_keys_def task_key_of_def)

lemma task_keys_update [simp]:
  "task_keys (d\<lparr>task_assignees := x1\<rparr>) = task_keys d" "task_keys (d\<lparr>task_documents := x2\<rparr>) = task_keys d"
  "task_keys (d\<lparr>task_comments := x3\<rparr>) = task_keys d" "task_keys (d\<lparr>task_activity_log := x4\<rparr>) = task_keys d"
  "task_keys (d\<lparr>outbox := x5\<rparr>) = task_keys d"
  by (simp_all add: task_keys_def)

lemma table_ok_append [simp]:
  "table_ok ks key ref (rows @ [r]) \<longleftrightarrow> table_ok ks key ref rows \<and> key r \<notin> key ` set rows \<and> ref r \<in> ks"
  by (auto simp: table_ok_def)

lemma table_ok_filter: "table_ok ks key ref rows \<Longrightarrow> table_ok ks key ref (filter p rows)"
  by (auto simp: table_ok_def distinct_map_filter)

lemma table_ok_map:
  assumes "\<And>r. key (g r) = key r" "\<And>r. ref (g r) = ref r"
  shows "table_ok ks key ref (map g rows) = table_ok ks key ref rows"
  using assms by (simp add: table_ok_def comp_def image_image)

lemma ok_mono: "table_ok ks key ref rows \<Longrightarrow> ks \<subseteq> ks' \<Longrightarrow> table_ok ks' key ref rows"
  "log_ok ks log \<Longrightarrow> ks \<subseteq> ks' \<Longrightarrow> log_ok ks' log"
  by (auto simp: table_ok_def log_ok_def)

lemma log_ok_append [simp]:
  "log_ok ks (rows @ [r]) \<longleftrightarrow> log_ok ks rows \<and> v_ID (snd r) = Suc (length rows) \<and> activity_ref r \<in> ks"
  by (auto simp: log_ok_def)

interpretation inv: db_preorder "\<lambda>d d'. task_inv d \<longrightarrow> task_inv (d' :: 'x task_db_scheme)"
  by unfold_locales auto

lemma inv_outbox: "tx_rel E (\<lambda>d d'. task_inv d \<longrightarrow> task_inv d') (Outbox_Insert e)"
  by (rule tx_relI) (drule Outbox_Insert_db, elim disjE exE conjE, simp_all add: task_inv_def)

text \<open>Statements that append a row.\<close>

lemma inv_append_task:
  assumes "task_inv d" "row_ok t" "task_key_of t \<notin> task_keys d"
  shows "task_inv (d\<lparr>tasks := tasks d @ [t]\<rparr>)"
proof -
  have "task_keys (d\<lparr>tasks := tasks d @ [t]\<rparr>) = insert (task_key_of t) (task_keys d)"
    by (simp add: task_keys_def)
  then show ?thesis
    using assms unfolding task_inv_def by (simp add: ok_mono [OF _ subset_insertI]) (simp add: task_keys_def)
qed

lemma inv_insert_task:
  assumes "t_Status t = ''open''" "t_CompletedBy t = None" "t_CompletedAt t = None"
  shows "tx_rel E (\<lambda>d d'. task_inv d \<longrightarrow> task_inv d') (insert_task_row t)"
proof -
  have "task_checks t \<Longrightarrow> row_ok (task_columns t)"
    using assms by (simp add: row_ok_def completion_ok_def task_checks_def task_columns_def)
  moreover have "task_key_of (task_columns t) = (t_TenantID t, t_ID t)"
    by (simp add: task_key_of_def task_columns_def)
  ultimately show ?thesis
    unfolding insert_task_row_def
    by (intro inv.rel_sql) (auto simp: task_exists_key intro!: inv_append_task split: if_splits)
qed

lemma inv_insert_assignee: "tx_rel E (\<lambda>d d'. task_inv d \<longrightarrow> task_inv d') (insert_assignee l tid i mk)"
proof -
  have "task_inv d \<Longrightarrow> \<not> (\<exists>r \<in> set (task_assignees d). fst r = (tid, i) \<and> a_UserID (snd r) = a_UserID a) \<Longrightarrow>
      (tid, i) \<in> task_keys d \<Longrightarrow> task_inv (d\<lparr>task_assignees := task_assignees d @ [((tid, i), a)]\<rparr>)"
    for d :: "'a task_db_scheme" and a
    unfolding task_inv_def by (simp add: assignee_key_def image_iff) metis
  then show ?thesis
    unfolding insert_assignee_def Let_def
    by (intro inv.rel_sql) (auto simp: task_exists_key split: if_splits)
qed

lemma inv_append_link:
  assumes "task_inv d" "\<not> (\<exists>r \<in> set (task_documents d). fst r = (tid, i) \<and> d_DocumentID (snd r) = d_DocumentID x)"
    and "(tid, i) \<in> task_keys d"
  shows "task_inv (d\<lparr>task_documents := task_documents d @ [((tid, i), x)]\<rparr>)"
  using assms unfolding task_inv_def by (simp add: link_key_def image_iff) metis

lemma inv_insert_document: "tx_rel E (\<lambda>d d'. task_inv d \<longrightarrow> task_inv d') (insert_document tid i x)"
  unfolding insert_document_def
  by (rule inv.rel_sql) (auto simp: task_exists_key intro!: inv_append_link split: if_splits)

lemma inv_comment: "tx_rel E (\<lambda>d d'. task_inv d \<longrightarrow> task_inv d') (Comments_Create c)"
proof -
  have "task_inv d \<Longrightarrow> \<not> (\<exists>x \<in> set (task_comments d). c_TenantID x = c_TenantID c \<and> c_ID x = c_ID c) \<Longrightarrow>
      comment_ref c \<in> task_keys d \<Longrightarrow> comment_key c' = comment_key c \<Longrightarrow> comment_ref c' = comment_ref c \<Longrightarrow>
      task_inv (d\<lparr>task_comments := task_comments d @ [c']\<rparr>)" for d :: "'a task_db_scheme" and c'
    unfolding task_inv_def by (simp add: comment_key_def image_iff) metis
  then show ?thesis
    unfolding Comments_Create_def
    by (intro inv.rel_sql) (auto simp: task_exists_key comment_key_def comment_ref_def split: if_splits)
qed

lemma inv_activity: "tx_rel E (\<lambda>d d'. task_inv d \<longrightarrow> task_inv d') (Activity_Insert tid i u act det)"
  unfolding Activity_Insert_def
  by (rule inv.rel_sql) (auto simp: task_exists_key task_inv_def activity_ref_def split: if_splits)

text \<open>Statements that delete a row.\<close>

lemma inv_deletes:
  "tx_rel E (\<lambda>d d'. task_inv d \<longrightarrow> task_inv d') (Tasks_RemoveAssignee tid i u)"
  "tx_rel E (\<lambda>d d'. task_inv d \<longrightarrow> task_inv d') (Tasks_UnlinkDocument tid i doc)"
  unfolding Tasks_RemoveAssignee_def Tasks_UnlinkDocument_def Let_def
  by (rule inv.rel_sql; clarsimp simp: task_inv_def table_ok_filter)+

text \<open>Statements that rewrite rows: the key must stay, and a task row must stay well-formed.\<close>

lemma inv_map_tasks:
  assumes "\<And>t. task_key_of (g t) = task_key_of t" "\<And>t. t \<in> set (tasks d) \<Longrightarrow> row_ok t \<Longrightarrow> row_ok (g t)"
    and "task_inv d"
  shows "task_inv (d\<lparr>tasks := map g (tasks d)\<rparr>)"
proof -
  have "task_keys (d\<lparr>tasks := map g (tasks d)\<rparr>) = task_keys d"
    using assms(1) by (simp add: task_keys_def image_image)
  then show ?thesis
    using assms by (simp add: task_inv_def comp_def list_all_iff)
qed

lemma inv_SoftDelete: "tx_rel E (\<lambda>d d'. task_inv d \<longrightarrow> task_inv d') (Tasks_SoftDelete tid i)"
  unfolding Tasks_SoftDelete_def
  by (rule inv.rel_sql)
    (auto intro!: inv_map_tasks simp: task_key_of_def row_ok_def task_checks_def completion_ok_def split: if_splits)

lemma inv_claim:
  assumes "\<And>t. task_key_of (g t) = task_key_of t" "\<And>t. row_ok (g t) = row_ok t"
  shows "tx_rel E (\<lambda>d d'. task_inv d \<longrightarrow> task_inv d') (claim_tasks l p g)"
proof -
  have "row_ok (t\<lparr>t_UpdatedAt := x\<rparr>) = row_ok t" "task_key_of (t\<lparr>t_UpdatedAt := x\<rparr>) = task_key_of t" for t x
    by (simp_all add: row_ok_def task_checks_def completion_ok_def task_key_of_def)
  then show ?thesis
    unfolding claim_tasks_def Let_def
    by (intro inv.rel_sql) (auto intro!: inv_map_tasks simp: assms split: if_splits)
qed

lemma inv_update_comments:
  assumes "\<And>env x. comment_key (f env x) = comment_key x" "\<And>env x. comment_ref (f env x) = comment_ref x"
  shows "tx_rel E (\<lambda>d d'. task_inv d \<longrightarrow> task_inv d') (update_comments l tid i f)"
  unfolding update_comments_def
  by (rule inv.rel_sql) (auto simp: task_inv_def table_ok_map assms split: if_splits)

lemma inv_link: "tx_rel E (\<lambda>d d'. task_inv d \<longrightarrow> task_inv d') (Tasks_LinkDocument tid i doc u)"
proof -
  let ?f = "\<lambda>ws title r. if fst r = (tid, i) \<and> d_DocumentID (snd r) = doc
               then (fst r, (snd r)\<lparr>d_WorkspaceID := ws, d_TitleSnapshot := title\<rparr>) else r"
  have "task_inv (d\<lparr>task_documents := map (?f ws title) (task_documents d)\<rparr>) = task_inv d"
    for d :: "'a task_db_scheme" and ws title
  proof -
    have "table_ok ks link_key fst (map (?f ws title) rows) = table_ok ks link_key fst rows" for ks rows
      by (rule table_ok_map) (auto simp: link_key_def)
    then show ?thesis by (simp add: task_inv_def)
  qed
  then show ?thesis
    unfolding Tasks_LinkDocument_def
    by (intro inv.rel_tbind [OF inv.rel_sql_read])
      (auto intro!: inv.rel_sql inv_append_link simp: Let_def task_exists_key find_None_iff split: option.splits if_splits)
qed

interpretation inv: task_relation "\<lambda>d d'. task_inv d \<longrightarrow> task_inv (d' :: 'x task_db_scheme)" tid "\<lambda>_. True" for tid
  by unfold_locales
    (simp_all add: inv_outbox inv_insert_task inv_insert_assignee inv_insert_document inv_comment inv_activity
      inv_deletes inv_SoftDelete inv_claim inv_link Tasks_ClaimDueSoon_def Tasks_ClaimOverdue_def
      inv_update_comments comment_key_def comment_ref_def task_key_of_def row_ok_def task_checks_def completion_ok_def)

lemmas inv_with_caller = inv.rel_with_caller [simplified]
lemmas inv_tx = inv.rel_tx [simplified]

section \<open>Status changes and edits\<close>

lemma completion_stamp:
  "completion_ok cur \<Longrightarrow> validTransition (t_Status cur) to \<Longrightarrow> completion_ok (stamp_status to u now cur)"
  by (auto simp: completion_ok_def stamp_status_def validTransition_def Let_def split: if_splits)

lemma completion_same_core: "same_core cur cur' \<Longrightarrow> completion_ok cur \<Longrightarrow> completion_ok cur'"
  by (simp add: same_core_def completion_ok_def)

lemma inv_Update:
  assumes "completion_ok t"
  shows "tx_rel E (\<lambda>d d'. task_inv d \<longrightarrow> task_inv d') (Tasks_Update t)"
proof -
  have "row_ok (update_task_columns now t x)"
    if "row_ok x" "t_Status t \<in> task_statuses" "validPriority (t_Priority t)" for now x
    using that assms by (simp add: row_ok_def task_checks_def completion_ok_def update_task_columns_def)
  moreover have "task_key_of (update_task_columns now t x) = task_key_of x" for now x
    by (simp add: task_key_of_def update_task_columns_def)
  ultimately show ?thesis
    unfolding Tasks_Update_def
    by (intro inv.rel_sql) (auto intro!: inv_map_tasks split: if_splits)
qed

lemma post_get:
  "tx_post E task_inv (get_task_or_404 tid i)
     (\<lambda>t d. task_inv d \<and> completion_ok t \<and> t_TenantID t = tid \<and> t_ID t = i)"
  unfolding get_task_or_404_def
proof (rule post_tremap, rule tx_postI)
  fix env and w w' :: "'a task_db_scheme world" and t
  assume inv: "task_inv (wdb w)" and run: "Tasks_GetByID tid i env w = (Inr t, w')"
  from run obtain x where x: "find (live tid i) (tasks (wdb w)) = Some x" "t = hydrated (wdb w) x" "wdb w' = wdb w"
    by (rule Tasks_GetByID_Inr)
  then have "x \<in> set (tasks (wdb w))" "live tid i x" by (auto simp: find_Some_iff)
  moreover from this inv have "completion_ok x" by (auto simp: task_inv_def list_all_iff row_ok_def)
  ultimately show "task_inv (wdb w') \<and> completion_ok t \<and> t_TenantID t = tid \<and> t_ID t = i"
    using x inv by (simp add: completion_ok_def live_def)
qed

text \<open>Once the stamped row is known to be well-formed, the rest of a body only runs invariant-keeping parts.\<close>

lemma post_guarded:
  "(b \<Longrightarrow> tx_post E P g Q) \<Longrightarrow> tx_post E P (tbind (tguard b e) (\<lambda>_. g)) Q"
  by (auto simp: tx_post_def tbind_Inr)

lemma post_pre: "(C \<Longrightarrow> tx_post E I f Q) \<Longrightarrow> tx_post E (\<lambda>d. I d \<and> C) f Q"
  by (auto simp: tx_post_def)

lemma inv_commit_transition:
  "completion_ok cur \<Longrightarrow> tx_rel (\<lambda>env. cur_tenant env = tid) (\<lambda>d d'. task_inv d \<longrightarrow> task_inv d')
     (commit_transition tid uid i from to cur)"
  unfolding commit_transition_def
  using inv.rel_emitTaskEvent [of tid] inv.rel_emitNotify [of tid]
  by (intro inv.rel_tbind inv.rel_tremap inv_Update inv_activity inv.rel_if inv.rel_tret inv.rel_GetByID) simp_all

lemma inv_commit_update:
  "completion_ok cur \<Longrightarrow> tx_rel (\<lambda>env. cur_tenant env = tid) (\<lambda>d d'. task_inv d \<longrightarrow> task_inv d')
     (commit_update tid uid cur changed)"
  unfolding commit_update_def
  using inv.rel_emitTaskEvent [of tid]
  by (intro inv.rel_tbind inv_Update inv_activity inv.rel_tret) simp_all

lemma inv_doTransition: "tx_rel (caller_in tid) (\<lambda>d d'. task_inv d \<longrightarrow> task_inv d') (doTransition i to verb)"
proof -
  have "tx_post (\<lambda>env. cur_tenant env = tid) task_inv (transition_tx tid uid role i to verb) (\<lambda>_. task_inv)" for uid role
    unfolding transition_tx_def
    by (intro post_tbind [OF post_get] post_pre post_guarded post_with_env post_of_rel inv_commit_transition)
      (blast intro: completion_stamp)
  then show ?thesis
    unfolding doTransition_def
    by (intro inv_with_caller inv_WithTenantTx [where E' = "\<lambda>env. cur_tenant env = tid"]) simp_all
qed

lemma inv_UpdateTask: "tx_rel (caller_in tid) (\<lambda>d d'. task_inv d \<longrightarrow> task_inv d') (UpdateTask inp)"
proof -
  have "tx_post (\<lambda>env. cur_tenant env = tid) task_inv (tbind (tlift (apply_patch inp cur)) (\<lambda>(cur', changed).
      if changed = [] then tret cur' else commit_update tid uid cur' changed)) (\<lambda>_. task_inv)"
    if "completion_ok cur" for cur uid
  proof (rule post_tbind [OF post_pure(2)], rule post_pre)
    fix x assume "apply_patch inp cur = Inr x"
    then have "completion_ok (fst x)"
      using that apply_patch_keeps completion_same_core by (metis prod.collapse)
    then show "tx_post (\<lambda>env. cur_tenant env = tid) task_inv
        (case x of (cur', changed) \<Rightarrow> if changed = [] then tret cur' else commit_update tid uid cur' changed) (\<lambda>_. task_inv)"
      by (cases x) (auto intro!: post_of_rel inv_commit_update inv.rel_tret)
  qed
  then have "tx_post (\<lambda>env. cur_tenant env = tid) task_inv (update_task_tx tid uid role inp) (\<lambda>_. task_inv)" for uid role
    unfolding update_task_tx_def
    by (intro post_tbind [OF post_get] post_pre post_guarded) blast
  then show ?thesis
    unfolding UpdateTask_def
    by (intro inv_with_caller inv_WithTenantTx [where E' = "\<lambda>env. cur_tenant env = tid"]) simp_all
qed

section \<open>Every reachable state\<close>

lemma inv_GetTask: "tx_rel (caller_in tid) (\<lambda>d d'. task_inv d \<longrightarrow> task_inv d') (GetTask i)"
  unfolding GetTask_def by (intro inv_with_caller inv_tx inv.rel_GetByID)

lemma inv_sweepOne: "tx_rel (\<lambda>env. t = tid) (\<lambda>d d'. task_inv d \<longrightarrow> task_inv d') (sweepOne t now)"
  using inv.rel_sweepOne [of t now] by (auto simp: tx_rel_def)

lemma inv_drop_result:
  "tx_rel E (\<lambda>d d'. task_inv d \<longrightarrow> task_inv d') f \<Longrightarrow> tx_rel E (\<lambda>d d'. task_inv d \<longrightarrow> task_inv d') (drop_result f)"
  unfolding drop_result_def by (rule inv.rel_tbind) (simp_all add: inv.rel_tret)

lemmas inv_ops = inv.rel_CreateTask inv.rel_DeleteTask inv.rel_AddAssignee inv.rel_RemoveAssignee
  inv.rel_LinkDocument inv.rel_UnlinkDocument inv.rel_AddComment inv.rel_UpdateComment inv.rel_DeleteComment

lemma run_op_inv: "tx_rel (acts_for tid op) (\<lambda>d d'. task_inv d \<longrightarrow> task_inv d') (run_op op)"
  by (cases op)
    (auto simp: StartTask_def CompleteTask_def ReopenTask_def CancelTask_def
      intro!: inv_drop_result inv_GetTask inv_sweepOne inv_UpdateTask inv_doTransition inv_ops [simplified])

inductive task_step :: "'x task_db_scheme \<Rightarrow> 'x task_db_scheme \<Rightarrow> bool" where
  "acts_for tid op env \<Longrightarrow> run_op op env w = (r, w') \<Longrightarrow> task_step (wdb w) (wdb w')"

interpretation task_sys: invariant_system "task_step :: 'x task_db_scheme \<Rightarrow> _" task_inv
proof
  fix d d' :: "'x task_db_scheme"
  assume "task_step d d'" "task_inv d"
  then show "task_inv d'"
    by cases (use tx_relD [OF run_op_inv] in blast)
qed


end
