(* ===== verification/Task_Behaviour.thy ===== *)
theory Task_Behaviour
  imports Task_Lifecycle
begin

text \<open>
  What each operation of the task service does: the exact effect of a status change, who may change
  what, that repeated calls have no second effect, what a list shows to whom and how its pages fit
  together, and the sweep's single shot.
\<close>

section \<open>Events\<close>

text \<open>What an outbox row announces: tenant, event type, task and payload.\<close>

definition announces :: "outbox_row \<Rightarrow> uuid \<times> string \<times> uuid \<times> json" where
  "announces r = (o_TenantID r, o_EventType r, o_AggregateID r, o_Payload r)"

lemma emitTaskEvent_Inr:
  assumes "emitTaskEvent tid i et p env w = (Inr u, w')"
  obtains row where "wdb w' = (wdb w)\<lparr>outbox := outbox (wdb w) @ [row]\<rparr>"
    "announces row = (tid, et, i, p env)" "\<not> o_Published row"
proof -
  from assms obtain e w1 where e: "newTaskEvent tid et i (p env) env w = (Inr e, w1)"
    and ins: "Outbox_Insert e env w1 = (Inr u, w')"
    by (auto simp: emitTaskEvent_def tbind_Inr)
  have w1: "wdb w1 = wdb w" "e_TenantID e = tid" "e_EventType e = et" "e_AggregateID e = i" "e_Payload e = Some (p env)"
    using e by (auto simp: newTaskEvent_def NewOutboxEvent_def tbind_Inr draw_id_or_new_def)
  from ins w1 have "wdb w' = (wdb w)\<lparr>outbox := outbox (wdb w) @ [outbox_row_of env e (p env)]\<rparr>"
    by (auto simp: Outbox_Insert_Inr)
  then show thesis by (rule that) (use w1 in \<open>simp_all add: announces_def\<close>)
qed

definition notify_payload :: "env \<Rightarrow> uuid \<Rightarrow> uuid \<Rightarrow> string \<Rightarrow> string \<Rightarrow> string \<Rightarrow> uuid list \<Rightarrow> json" where
  "notify_payload env tid i n title body us = JObj
     [(''tenant_id'', JStr (uuid_String env tid)), (''user_ids'', uuidsToStrings env us),
      (''type'', JStr (''task.'' @ n)), (''title'', JStr title), (''body'', JStr body),
      (''resource_type'', JStr ''task''), (''resource_id'', JStr (uuid_String env i))]"

lemma emitNotify_Inr:
  assumes "emitNotify tid i n title body us env w = (Inr u, w')"
  obtains rows where "wdb w' = (wdb w)\<lparr>outbox := outbox (wdb w) @ rows\<rparr>"
    "map announces rows = (if us = [] then []
        else [(tid, ''dms.notify.task.'' @ n @ ''.v1'', i, notify_payload env tid i n title body us)])"
proof (cases "us = []")
  case True
  with assms that [of "[]"] show thesis by (simp add: emitNotify_def)
next
  case False
  with assms obtain row where "wdb w' = (wdb w)\<lparr>outbox := outbox (wdb w) @ [row]\<rparr>"
    "announces row = (tid, ''dms.notify.task.'' @ n @ ''.v1'', i, notify_payload env tid i n title body us)"
    by (auto simp: emitNotify_def notify_payload_def elim!: emitTaskEvent_Inr)
  with False show thesis by (intro that [of "[row]"]) simp_all
qed

lemma Activity_Insert_Inr:
  "Activity_Insert tid i u act det env w = (Inr x, w') \<longleftrightarrow>
     fault env (stmts w) = None \<and> act \<in> set activity_actions \<and> task_exists tid i (wdb w)
     \<and> w' = w\<lparr>stmts := Suc (stmts w), wdb := (wdb w)\<lparr>task_activity_log := task_activity_log (wdb w) @
        [(tid, \<lparr>v_ID = Suc (length (task_activity_log (wdb w))), v_TaskID = i, v_ActorID = u,
                v_Action = act, v_Detail = det, v_CreatedAt = db_now env\<rparr>)]\<rparr>\<rparr>"
  by (auto simp: Activity_Insert_def sql_Inr split: if_splits)

lemma with_caller_Inr:
  assumes "with_caller f env w = (Inr a, w')"
  obtains tid uid role where "mustCaller (ctx env) = Inr (tid, uid, role)" "f tid uid role env w = (Inr a, w')"
  using assms by (auto simp: with_caller_def tbind_Inr tlift_def)

lemma get_task_Inr:
  assumes "get_task_or_404 tid i env w = (Inr t, w')"
  obtains x where "find (live tid i) (tasks (wdb w)) = Some x" "t = hydrated (wdb w) x" "wdb w' = wdb w"
  using assms unfolding get_task_or_404_def by (auto elim: Tasks_GetByID_Inr)

section \<open>Status changes\<close>

text \<open>The row a transition leaves in place of \<open>y\<close>.\<close>

definition transitioned :: "env \<Rightarrow> uuid \<Rightarrow> uuid \<Rightarrow> uuid \<Rightarrow> string \<Rightarrow> task \<Rightarrow> task \<Rightarrow> task" where
  "transitioned env tid uid i to cur y =
     (if live tid i y then update_task_columns (db_now env) (stamp_status to uid (go_now env) cur) y else y)"

definition status_activity :: "env \<Rightarrow> nat \<Rightarrow> uuid \<Rightarrow> uuid \<Rightarrow> string \<Rightarrow> string \<Rightarrow> task_activity" where
  "status_activity env n i uid from to =
     \<lparr>v_ID = n, v_TaskID = i, v_ActorID = uid, v_Action = ''status_changed'',
      v_Detail = JObj [(''from'', JStr from), (''to'', JStr to)], v_CreatedAt = db_now env\<rparr>"

definition status_event :: "env \<Rightarrow> uuid \<Rightarrow> uuid \<Rightarrow> uuid \<Rightarrow> string \<Rightarrow> string \<Rightarrow> uuid \<times> string \<times> uuid \<times> json" where
  "status_event env tid i uid from to =
     (tid, ''dms.task.status_changed.v1'', i, JObj [(''task_id'', JStr (uuid_String env i)),
         (''from'', JStr from), (''to'', JStr to), (''changed_by'', JStr (uuid_String env uid))])"

definition completion_notices :: "env \<Rightarrow> uuid \<Rightarrow> uuid \<Rightarrow> uuid \<Rightarrow> string \<Rightarrow> task \<Rightarrow> (uuid \<times> string \<times> uuid \<times> json) list" where
  "completion_notices env tid i uid to cur =
     (let us = completionRecipients cur uid in
      if to = ''done'' \<and> us \<noteq> []
      then [(tid, ''dms.notify.task.completed.v1'', i,
             notify_payload env tid i ''completed'' ''Task completed'' (t_Title cur) us)]
      else [])"

lemma completionRecipients_stamp [simp]:
  "completionRecipients (stamp_status to u now cur) a = completionRecipients cur a"
  by (simp add: completionRecipients_def stamp_status_def Let_def)

lemma commit_transition_Inr:
  assumes run: "commit_transition tid uid i from to (stamp_status to uid (go_now env) cur) env w = (Inr t', w')"
    and cur: "t_TenantID cur = tid" "t_ID cur = i"
  shows "\<exists>rows.
     wdb w' = (wdb w)\<lparr>tasks := map (transitioned env tid uid i to cur) (tasks (wdb w)),
        task_activity_log := task_activity_log (wdb w)
          @ [(tid, status_activity env (Suc (length (task_activity_log (wdb w)))) i uid from to)],
        outbox := outbox (wdb w) @ rows\<rparr>
     \<and> map announces rows = status_event env tid i uid from to # completion_notices env tid i uid to cur
     \<and> (\<exists>y. find (live tid i) (tasks (wdb w')) = Some y \<and> t' = hydrated (wdb w') y)"
proof -
  let ?c = "stamp_status to uid (go_now env) cur"
  from run obtain w1 w2 w3 w4 where
    s1: "Tasks_Update ?c env w = (Inr (), w1)"
    and s2: "Activity_Insert tid i uid ''status_changed'' (JObj [(''from'', JStr from), (''to'', JStr to)]) env w1 = (Inr (), w2)"
    and s3: "emitTaskEvent tid i ''dms.task.status_changed.v1'' (\<lambda>env. JObj
        [(''task_id'', JStr (uuid_String env i)), (''from'', JStr from), (''to'', JStr to),
         (''changed_by'', JStr (uuid_String env uid))]) env w2 = (Inr (), w3)"
    and s4: "(if to = ''done'' then emitNotify tid i ''completed'' ''Task completed'' (t_Title ?c) (completionRecipients ?c uid)
              else tret ()) env w3 = (Inr (), w4)"
    and s5: "Tasks_GetByID tid i env w4 = (Inr t', w')"
    by (auto simp: commit_transition_def tbind_Inr)
  have d1: "wdb w1 = (wdb w)\<lparr>tasks := map (transitioned env tid uid i to cur) (tasks (wdb w))\<rparr>"
    using s1 cur by (auto simp: Tasks_Update_def sql_Inr transitioned_def split: if_splits)
  have d2: "wdb w2 = (wdb w1)\<lparr>task_activity_log := task_activity_log (wdb w1)
          @ [(tid, status_activity env (Suc (length (task_activity_log (wdb w1)))) i uid from to)]\<rparr>"
    using s2 by (auto simp: Activity_Insert_Inr status_activity_def)
  from s3 obtain row where d3: "wdb w3 = (wdb w2)\<lparr>outbox := outbox (wdb w2) @ [row]\<rparr>"
    "announces row = status_event env tid i uid from to"
    by (rule emitTaskEvent_Inr) (simp add: status_event_def)
  have "\<exists>rows. wdb w4 = (wdb w3)\<lparr>outbox := outbox (wdb w3) @ rows\<rparr>
          \<and> map announces rows = completion_notices env tid i uid to cur"
  proof (cases "to = ''done''")
    case True
    with s4 have "emitNotify tid i ''completed'' ''Task completed'' (t_Title cur) (completionRecipients cur uid) env w3 = (Inr (), w4)"
      by simp
    then obtain rows where "wdb w4 = (wdb w3)\<lparr>outbox := outbox (wdb w3) @ rows\<rparr>"
      "map announces rows = (if completionRecipients cur uid = [] then []
        else [(tid, ''dms.notify.task.'' @ ''completed'' @ ''.v1'', i,
               notify_payload env tid i ''completed'' ''Task completed'' (t_Title cur) (completionRecipients cur uid))])"
      by (rule emitNotify_Inr)
    with True show ?thesis by (intro exI [of _ rows]) (simp add: completion_notices_def Let_def)
  next
    case False
    with s4 show ?thesis by (intro exI [of _ "[]"]) (simp add: completion_notices_def Let_def)
  qed
  then obtain rows where d4: "wdb w4 = (wdb w3)\<lparr>outbox := outbox (wdb w3) @ rows\<rparr>"
    "map announces rows = completion_notices env tid i uid to cur" by blast
  from s5 obtain y where y: "find (live tid i) (tasks (wdb w4)) = Some y" "t' = hydrated (wdb w4) y" "wdb w' = wdb w4"
    by (rule Tasks_GetByID_Inr)
  show ?thesis
    by (rule exI [of _ "row # rows"]) (use d1 d2 d3 d4 y in simp)
qed

text \<open>
  Property C16. A successful status change did exactly this, in one commit: the caller was allowed
  to make it and the matrix allows it; the task's row got the new status and its completion stamp set
  (to the caller, for \<open>done\<close>), cleared (for \<open>open\<close>) or kept; one \<open>status_changed\<close> activity entry and
  one \<open>status_changed\<close> event were appended, and for a completion one notice to the other stakeholders;
  nothing else in the database changed, and the task returned is the stored one.
\<close>

theorem doTransition_effect:
  assumes "doTransition i to verb env w = (Inr t', w')"
  shows "\<exists>tid uid role x rows.
     mustCaller (ctx env) = Inr (tid, uid, role)
     \<and> x \<in> set (tasks (wdb w)) \<and> live tid i x
     \<and> canTransition (hydrated (wdb w) x) uid role
     \<and> validTransition (t_Status x) to
     \<and> wdb w' = (wdb w)\<lparr>
          tasks := map (transitioned env tid uid i to (hydrated (wdb w) x)) (tasks (wdb w)),
          task_activity_log := task_activity_log (wdb w)
            @ [(tid, status_activity env (Suc (length (task_activity_log (wdb w)))) i uid (t_Status x) to)],
          outbox := outbox (wdb w) @ rows\<rparr>
     \<and> map announces rows = status_event env tid i uid (t_Status x) to
                              # completion_notices env tid i uid to (hydrated (wdb w) x)
     \<and> (\<exists>y. find (live tid i) (tasks (wdb w')) = Some y \<and> t' = hydrated (wdb w') y)"
proof -
  obtain tid uid role where c: "mustCaller (ctx env) = Inr (tid, uid, role)"
    and tx: "WithTenantTx tid (transition_tx tid uid role i to verb) env w = (Inr t', w')"
    using assms unfolding doTransition_def by (rule with_caller_Inr)
  let ?env = "env\<lparr>cur_tenant := tid\<rparr>"
  from tx obtain w1 w2 where body: "transition_tx tid uid role i to verb ?env w1 = (Inr t', w2)"
    and w: "wdb w1 = wdb w" "wdb w' = wdb w2"
    by (rule WithTenantTx_InrE)
  from body obtain cur w3 where get: "get_task_or_404 tid i ?env w1 = (Inr cur, w3)"
    and ok: "canTransition cur uid role" "validTransition (t_Status cur) to"
    and commit: "commit_transition tid uid i (t_Status cur) to (stamp_status to uid (go_now ?env) cur) ?env w3 = (Inr t', w2)"
    by (auto simp: transition_tx_def tbind_Inr)
  from get obtain x where x: "find (live tid i) (tasks (wdb w1)) = Some x" "cur = hydrated (wdb w1) x" "wdb w3 = wdb w1"
    by (rule get_task_Inr)
  then have mem: "x \<in> set (tasks (wdb w))" "live tid i x" using w by (auto simp: find_Some_iff)
  have key: "t_TenantID cur = tid" "t_ID cur = i" using mem x by (auto simp: live_def)
  note eff = commit_transition_Inr [OF commit key]
  have "transitioned ?env = transitioned env" "status_activity ?env = status_activity env"
    "status_event ?env = status_event env" "completion_notices ?env = completion_notices env"
    by (auto simp: fun_eq_iff transitioned_def status_activity_def status_event_def completion_notices_def
        notify_payload_def uuidsToStrings_def Let_def)
  with eff show ?thesis
    using c mem ok x w by (intro exI [of _ tid] exI [of _ uid] exI [of _ role] exI [of _ x]) auto
qed

section \<open>Runs in a healthy environment\<close>

text \<open>The next \<open>n\<close> identifiers the generator returns are new to the outbox.\<close>

definition fresh_ids :: "nat \<Rightarrow> env \<Rightarrow> 'x outbox_db_scheme world \<Rightarrow> bool" where
  "fresh_ids n env w \<longleftrightarrow> inj_on (new_id env) {draws w ..< draws w + n}
     \<and> (\<forall>k \<in> {draws w ..< draws w + n}. \<exists>u. new_id env k = Some u \<and> u \<noteq> uuid_Nil \<and> u \<notin> o_ID ` set (outbox (wdb w)))"

lemma fresh_ids_cong:
  "fresh_ids n env w \<Longrightarrow> draws w' = draws w \<Longrightarrow> outbox (wdb w') = outbox (wdb w) \<Longrightarrow> fresh_ids n env w'"
  by (simp add: fresh_ids_def)

lemma fresh_ids_tenant [simp]: "fresh_ids n (env\<lparr>cur_tenant := t\<rparr>) w = fresh_ids n env w"
  by (simp add: fresh_ids_def)

lemma fresh_ids_mono: "fresh_ids (Suc n) env w \<Longrightarrow> fresh_ids n env w"
  unfolding fresh_ids_def by (auto intro: inj_on_subset)

lemma GetByID_runs:
  assumes "healthy env" "find (live tid i) (tasks (wdb w)) = Some x"
  shows "\<exists>w'. Tasks_GetByID tid i env w = (Inr (hydrated (wdb w) x), w') \<and> wdb w' = wdb w \<and> draws w' = draws w"
proof -
  have "\<exists>t w'. Tasks_GetByID tid i env w = (Inr t, w') \<and> draws w' = draws w"
    using assms by (simp add: Tasks_GetByID_def hydrateTasks_def tbind_def tret_def Let_def)
  then obtain t w' where run: "Tasks_GetByID tid i env w = (Inr t, w')" and dr: "draws w' = draws w" by blast
  from run obtain y where "find (live tid i) (tasks (wdb w)) = Some y" "t = hydrated (wdb w) y" "wdb w' = wdb w"
    by (rule Tasks_GetByID_Inr)
  with run dr assms(2) show ?thesis by auto
qed

lemma GetByID_missing:
  "healthy env \<Longrightarrow> find (live tid i) (tasks (wdb w)) = None \<Longrightarrow>
     get_task_or_404 tid i env w = (Inl (ErrNotFound ''task not found''), w\<lparr>stmts := Suc (stmts w)\<rparr>)"
  by (simp add: get_task_or_404_def Tasks_GetByID_def tbind_def tremap_def)

lemma emitTaskEvent_runs:
  assumes "healthy env" "fresh_ids (Suc n) env w" "tid \<noteq> uuid_Nil" "i \<noteq> uuid_Nil" "et \<noteq> []" "visible env tid"
  shows "\<exists>w' row. emitTaskEvent tid i et p env w = (Inr (), w') \<and> fresh_ids n env w'
           \<and> wdb w' = (wdb w)\<lparr>outbox := outbox (wdb w) @ [row]\<rparr>"
proof -
  obtain u where u: "new_id env (draws w) = Some u" "u \<noteq> uuid_Nil" "u \<notin> o_ID ` set (outbox (wdb w))"
  proof -
    have "draws w \<in> {draws w ..< draws w + Suc n}" by simp
    with assms(2) show thesis unfolding fresh_ids_def using that by blast
  qed
  let ?e = "\<lparr>e_ID = u, e_TenantID = tid, e_EventType = et, e_AggregateType = ''task'', e_AggregateID = i,
              e_Payload = Some (p env), e_CreatedAt = go_now env\<rparr>"
  let ?w1 = "w\<lparr>draws := Suc (draws w)\<rparr>"
  let ?w2 = "?w1\<lparr>stmts := Suc (stmts w), wdb := (wdb w)\<lparr>outbox := outbox (wdb w) @ [outbox_row_of env ?e (p env)]\<rparr>\<rparr>"
  have "Outbox_Insert ?e env ?w1 = (Inr (), ?w2)"
    using assms u by (simp add: Outbox_Insert_Inr visible_def)
  then have run: "emitTaskEvent tid i et p env w = (Inr (), ?w2)"
    using u(1) by (simp add: emitTaskEvent_def newTaskEvent_def NewOutboxEvent_def tbind_def draw_id_or_new_def
        tret_def taskAggregateType_def)
  have other: "new_id env k \<noteq> Some u" if "k \<in> {Suc (draws w) ..< draws w + Suc n}" for k
  proof
    assume "new_id env k = Some u"
    then have "k = draws w" using assms(2) u(1) that by (auto simp: fresh_ids_def dest: inj_onD [of _ _ k "draws w"])
    with that show False by simp
  qed
  have "\<exists>v. new_id env k = Some v \<and> v \<noteq> uuid_Nil \<and> v \<noteq> u \<and> v \<notin> o_ID ` set (outbox (wdb w))"
    if k: "k \<in> {Suc (draws w) ..< draws w + Suc n}" for k
  proof -
    have "k \<in> {draws w ..< draws w + Suc n}" using k by auto
    then obtain v where "new_id env k = Some v" "v \<noteq> uuid_Nil" "v \<notin> o_ID ` set (outbox (wdb w))"
      using assms(2) unfolding fresh_ids_def by blast
    with other [OF k] show ?thesis by auto
  qed
  moreover have "inj_on (new_id env) {Suc (draws w) ..< draws w + Suc n}"
    using assms(2) unfolding fresh_ids_def by (auto intro: inj_on_subset)
  ultimately have "fresh_ids n env ?w2" unfolding fresh_ids_def by simp
  with run show ?thesis by auto
qed

lemma emitNotify_runs:
  assumes "healthy env" "fresh_ids (Suc n) env w" "tid \<noteq> uuid_Nil" "i \<noteq> uuid_Nil" "visible env tid"
  shows "\<exists>w' rows. emitNotify tid i nm t b us env w = (Inr (), w') \<and> fresh_ids n env w'
           \<and> wdb w' = (wdb w)\<lparr>outbox := outbox (wdb w) @ rows\<rparr>"
proof (cases "us = []")
  case True
  then show ?thesis using fresh_ids_mono [OF assms(2)] by (intro exI [of _ w] exI [of _ "[]"]) (simp add: emitNotify_def tret_def)
next
  case False
  have "\<exists>w' row. emitNotify tid i nm t b us env w = (Inr (), w') \<and> fresh_ids n env w'
           \<and> wdb w' = (wdb w)\<lparr>outbox := outbox (wdb w) @ [row]\<rparr>"
    unfolding emitNotify_def if_not_P [OF False] by (rule emitTaskEvent_runs) (use assms in simp_all)
  then show ?thesis by blast
qed

lemma Activity_Insert_runs:
  assumes "healthy env" "act \<in> set activity_actions" "task_exists tid i (wdb w)"
  shows "\<exists>w' rows. Activity_Insert tid i u act det env w = (Inr (), w') \<and> draws w' = draws w
           \<and> wdb w' = (wdb w)\<lparr>task_activity_log := task_activity_log (wdb w) @ rows\<rparr>"
  using assms by (simp add: Activity_Insert_def) blast

lemma find_live_exists: "find (live tid i) ts = Some x \<Longrightarrow> x \<in> set ts \<and> live tid i x"
  by (auto simp: find_Some_iff)

lemma find_transitioned:
  "find (live tid i) ts \<noteq> None \<Longrightarrow> find (live tid i) (map (transitioned env tid uid i to cur) ts) \<noteq> None"
  by (induction ts) (auto simp: transitioned_def live_def update_task_columns_def)

lemma commit_transition_runs:
  assumes ok: "healthy env" "fresh_ids (Suc (Suc 0)) env w" "tid \<noteq> uuid_Nil" "i \<noteq> uuid_Nil" "visible env tid"
    and x: "find (live tid i) (tasks (wdb w)) = Some x"
    and c: "t_TenantID cur = tid" "t_ID cur = i" "to \<in> task_statuses" "validPriority (t_Priority cur)"
  shows "\<exists>t' w'. commit_transition tid uid i frm to (stamp_status to uid (go_now env) cur) env w = (Inr t', w')"
proof -
  let ?c = "stamp_status to uid (go_now env) cur"
  let ?w1 = "w\<lparr>stmts := Suc (stmts w), wdb := (wdb w)\<lparr>tasks := map (transitioned env tid uid i to cur) (tasks (wdb w))\<rparr>\<rparr>"
  have "\<exists>y \<in> set (tasks (wdb w)). live tid i y" using find_live_exists [OF x] by blast
  then have s1: "tremap (ErrNotFound ''task not found'') (Tasks_Update ?c) env w = (Inr (), ?w1)"
    using ok(1) c by (simp add: tremap_def Tasks_Update_def transitioned_def [abs_def])
  have "task_key_of (transitioned env tid uid i to cur y) = task_key_of y" for y
    by (simp add: transitioned_def task_key_of_def update_task_columns_def)
  then have ex: "task_exists tid i (wdb ?w1)"
    using find_live_exists [OF x] by (force simp: task_exists_key task_keys_def task_key_of_def live_def image_image)
  obtain w2 al where s2: "Activity_Insert tid i uid ''status_changed'' (JObj [(''from'', JStr frm), (''to'', JStr to)]) env ?w1 = (Inr (), w2)"
    "draws w2 = draws ?w1" "wdb w2 = (wdb ?w1)\<lparr>task_activity_log := task_activity_log (wdb ?w1) @ al\<rparr>"
    using Activity_Insert_runs [OF ok(1) _ ex, of "''status_changed''"] unfolding activity_actions_def by fastforce
  have f2: "fresh_ids (Suc (Suc 0)) env w2" using ok(2) by (rule fresh_ids_cong) (use s2 in simp_all)
  obtain w3 row where s3: "emitTaskEvent tid i ''dms.task.status_changed.v1'' (\<lambda>env. JObj
        [(''task_id'', JStr (uuid_String env i)), (''from'', JStr frm), (''to'', JStr to),
         (''changed_by'', JStr (uuid_String env uid))]) env w2 = (Inr (), w3)" "fresh_ids (Suc 0) env w3"
    "wdb w3 = (wdb w2)\<lparr>outbox := outbox (wdb w2) @ [row]\<rparr>"
    using emitTaskEvent_runs [OF ok(1) f2 ok(3,4) _ ok(5)] by blast
  obtain w4 rows where s4: "(if to = ''done'' then emitNotify tid i ''completed'' ''Task completed'' (t_Title ?c) (completionRecipients ?c uid)
              else tret ()) env w3 = (Inr (), w4)" "wdb w4 = (wdb w3)\<lparr>outbox := outbox (wdb w3) @ rows\<rparr>"
  proof (cases "to = ''done''")
    case True
    obtain w4 rows where "emitNotify tid i ''completed'' ''Task completed'' (t_Title ?c) (completionRecipients ?c uid) env w3 = (Inr (), w4)"
      "wdb w4 = (wdb w3)\<lparr>outbox := outbox (wdb w3) @ rows\<rparr>"
      using emitNotify_runs [OF ok(1) s3(2) ok(3,4,5)] by blast
    then show thesis by (intro that) (simp_all only: if_P [OF True])
  next
    case False
    then show thesis using that [of w3 "[]"] by (simp add: tret_def)
  qed
  have "find (live tid i) (tasks (wdb w4)) \<noteq> None"
    using find_transitioned [of tid i "tasks (wdb w)"] x s2 s3 s4 by auto
  then obtain y where "find (live tid i) (tasks (wdb w4)) = Some y" by blast
  from GetByID_runs [OF ok(1) this] obtain w5 where "Tasks_GetByID tid i env w4 = (Inr (hydrated (wdb w4) y), w5)" by blast
  with s1 s2(1) s3(1) s4(1) show ?thesis
    unfolding commit_transition_def tbind_Inr by blast
qed

text \<open>A request a member of the tenant makes, with the transaction's settings.\<close>

lemma doTransition_run:
  assumes "mustCaller (ctx env) = Inr (tid, uid, role)"
  shows "doTransition i to verb env w = WithTenantTx tid (transition_tx tid uid role i to verb) env w"
  using assms by (simp add: doTransition_def with_caller_def tbind_def tlift_def)

lemma mustCaller_tenant: "mustCaller c = Inr (tid, uid, role) \<Longrightarrow> tid \<noteq> uuid_Nil \<and> uid \<noteq> uuid_Nil"
  by (auto simp: mustCaller_def split: sum.splits if_splits)

text \<open>
  Property C28. In a healthy environment a status change is decided by exactly three questions, in
  this order: is there a live task with that id in the caller's tenant (else not found), may the
  caller change it (else forbidden), does the matrix allow the step (else a validation error). When all
  three hold, the change goes through.
\<close>

theorem doTransition_decides:
  assumes env: "healthy env" "mustCaller (ctx env) = Inr (tid, uid, role)" "fresh_ids 2 env w"
    and db: "task_inv (wdb w)" "i \<noteq> uuid_Nil"
  shows "case find (live tid i) (tasks (wdb w)) of
           None \<Rightarrow> fst (doTransition i to verb env w) = Inl (ErrNotFound ''task not found'')
         | Some x \<Rightarrow>
             if \<not> canTransition (hydrated (wdb w) x) uid role
             then fst (doTransition i to verb env w)
                    = Inl (ErrForbidden ''only the creator, an assignee, or an admin may transition a task'')
             else if \<not> validTransition (t_Status x) to
             then fst (doTransition i to verb env w)
                    = Inl (ErrValidation (''cannot '' @ verb @ '' a '' @ t_Status x @ '' task: invalid transition to '' @ to))
             else \<exists>t' w'. doTransition i to verb env w = (Inr t', w')"
proof -
  let ?env = "env\<lparr>cur_tenant := tid\<rparr>" and ?w = "w\<lparr>stmts := Suc (Suc (stmts w))\<rparr>"
  have h: "healthy ?env" and tid: "tid \<noteq> uuid_Nil" using env mustCaller_tenant by auto
  note fails = WithTenantTx_fails [OF env(1) tid, where fn = "transition_tx tid uid role i to verb" and w = w]
  show ?thesis
  proof (cases "find (live tid i) (tasks (wdb w))")
    case None
    then have "fst (transition_tx tid uid role i to verb ?env ?w) = Inl (ErrNotFound ''task not found'')"
      using GetByID_missing [OF h, of tid i ?w] by (simp add: transition_tx_def tbind_def)
    from fails [OF this] None show ?thesis by (simp add: doTransition_run [OF env(2)])
  next
    case (Some x)
    obtain w1 where get: "get_task_or_404 tid i ?env ?w = (Inr (hydrated (wdb w) x), w1)"
      and w1: "wdb w1 = wdb w" "draws w1 = draws w"
      using GetByID_runs [OF h, of tid i ?w x] Some by (auto simp: get_task_or_404_def tremap_def)
    note [simp] = doTransition_run [OF env(2)]
    consider (forbid) "\<not> canTransition (hydrated (wdb w) x) uid role"
      | (invalid) "canTransition (hydrated (wdb w) x) uid role" "\<not> validTransition (t_Status x) to"
      | (ok) "canTransition (hydrated (wdb w) x) uid role" "validTransition (t_Status x) to" by blast
    then show ?thesis
    proof cases
      case forbid
      then have "fst (transition_tx tid uid role i to verb ?env ?w)
          = Inl (ErrForbidden ''only the creator, an assignee, or an admin may transition a task'')"
        using get by (simp add: transition_tx_def tbind_def tguard_def tfail_def)
      from fails [OF this] Some forbid show ?thesis by simp
    next
      case invalid
      then have "fst (transition_tx tid uid role i to verb ?env ?w)
          = Inl (ErrValidation (''cannot '' @ verb @ '' a '' @ t_Status x @ '' task: invalid transition to '' @ to))"
        using get by (simp add: transition_tx_def tbind_def tguard_def tfail_def tret_def)
      from fails [OF this] Some invalid show ?thesis by simp
    next
      case ok
      from find_live_exists [OF Some] db(1) have x: "t_TenantID x = tid" "t_ID x = i" "validPriority (t_Priority x)"
        by (auto simp: live_def task_inv_def list_all_iff row_ok_def task_checks_def)
      have "fresh_ids (Suc (Suc 0)) ?env w1" using env(3) w1 by (auto intro: fresh_ids_cong simp: numeral_2_eq_2)
      from commit_transition_runs [OF h this tid db(2), where x = x and cur = "hydrated (wdb w) x" and to = to
          and uid = uid and frm = "t_Status x"]
      obtain t' w2 where "commit_transition tid uid i (t_Status x) to (stamp_status to uid (go_now ?env) (hydrated (wdb w) x)) ?env w1
          = (Inr t', w2)"
        using Some w1 x validTransition_statuses [OF ok(2)] by (auto simp: visible_def)
      then have "transition_tx tid uid role i to verb ?env ?w = (Inr t', w2)"
        using get ok by (simp add: transition_tx_def tbind_def tguard_def tret_def)
      from healthy_WithTenantTx [where fn = "transition_tx tid uid role i to verb" and w = w, OF env(1) tid this] Some ok
      show ?thesis by simp
    qed
  qed
qed

end
