(* ===== verification/Task_Access.thy ===== *)
theory Task_Access
  imports Task_Behaviour
begin

text \<open>
  Who may do what to a task, calls that must have no effect, the visibility and the pages of a list,
  and the sweep.
\<close>

section \<open>Gates\<close>

text \<open>The task an operation changes and the permission the code demands for it.\<close>

fun task_gate :: "task_op \<Rightarrow> (uuid \<times> (task \<Rightarrow> uuid \<Rightarrow> string \<Rightarrow> bool)) option" where
  "task_gate (OpUpdate inp) = Some (ui_ID inp, canEditFields)"
| "task_gate (OpDelete i) = Some (i, canEditFields)"
| "task_gate (OpStart i) = Some (i, canTransition)"
| "task_gate (OpComplete i) = Some (i, canTransition)"
| "task_gate (OpReopen i) = Some (i, canTransition)"
| "task_gate (OpCancel i) = Some (i, canTransition)"
| "task_gate (OpAddAssignee i u) = Some (i, canManageLinks)"
| "task_gate (OpRemoveAssignee i u) = Some (i, \<lambda>t uid role. canManageLinks t uid role \<or> u = uid)"
| "task_gate (OpLinkDocument i x) = Some (i, canManageLinks)"
| "task_gate (OpUnlinkDocument i x) = Some (i, canManageLinks)"
| "task_gate _ = None"

text \<open>A body that reads the task and checks a gate before anything else.\<close>

lemma gated_tx:
  assumes "with_caller (\<lambda>tid uid role. WithTenantTx tid (body tid uid role)) env w = (Inr a, w')"
    and "\<And>tid uid role env w a w'. body tid uid role env w = (Inr a, w') \<Longrightarrow>
       \<exists>cur w1. get_task_or_404 tid i env w = (Inr cur, w1) \<and> gate cur uid role"
  shows "\<exists>tid uid role x. mustCaller (ctx env) = Inr (tid, uid, role) \<and> x \<in> set (tasks (wdb w)) \<and> live tid i x
           \<and> gate (hydrated (wdb w) x) uid role"
proof -
  from assms(1) obtain tid uid role where c: "mustCaller (ctx env) = Inr (tid, uid, role)"
    and tx: "WithTenantTx tid (body tid uid role) env w = (Inr a, w')" by (rule with_caller_Inr)
  from tx obtain w1 w2 where "body tid uid role (env\<lparr>cur_tenant := tid\<rparr>) w1 = (Inr a, w2)" and w1: "wdb w1 = wdb w"
    by (rule WithTenantTx_InrE)
  from assms(2) [OF this(1)] obtain cur w3 where
    "get_task_or_404 tid i (env\<lparr>cur_tenant := tid\<rparr>) w1 = (Inr cur, w3)" and g: "gate cur uid role" by blast
  from this(1) obtain x where "find (live tid i) (tasks (wdb w1)) = Some x" "cur = hydrated (wdb w1) x"
    by (rule get_task_Inr)
  with c g w1 find_live_exists show ?thesis by metis
qed

lemma drop_result_Inr: "drop_result f env w = (Inr u, w') \<Longrightarrow> \<exists>a. f env w = (Inr a, w')"
  by (auto simp: drop_result_def tbind_Inr)

lemma transition_gated:
  assumes "doTransition i to verb env w = (Inr a, w')"
  shows "\<exists>tid uid role x. mustCaller (ctx env) = Inr (tid, uid, role) \<and> x \<in> set (tasks (wdb w)) \<and> live tid i x
           \<and> canTransition (hydrated (wdb w) x) uid role"
  by (rule gated_tx [OF assms [unfolded doTransition_def]]) (auto simp: transition_tx_def tbind_Inr)

text \<open>
  Property C20. No task is edited, deleted, moved, (un)assigned or (un)linked without authority: when
  one of those operations succeeds, the caller is authenticated, the task is a live task of the
  caller's own tenant, and the caller passed the gate of that operation - creator or admin for edits
  and deletion; creator, assignee or admin for the rest, or the user removing themselves.
\<close>

theorem task_ops_authorized:
  assumes "run_op op env w = (Inr (), w')" "task_gate op = Some (i, gate)"
  shows "\<exists>tid uid role x. mustCaller (ctx env) = Inr (tid, uid, role) \<and> x \<in> set (tasks (wdb w)) \<and> live tid i x
           \<and> gate (hydrated (wdb w) x) uid role"
proof (cases op)
  case (OpUpdate inp)
  then obtain a where run: "UpdateTask inp env w = (Inr a, w')" using assms(1) drop_result_Inr by fastforce
  show ?thesis
    by (rule gated_tx [OF run [unfolded UpdateTask_def]])
      (use OpUpdate assms(2) in \<open>auto simp: update_task_tx_def tbind_Inr\<close>)
next
  case (OpDelete i')
  then have run: "DeleteTask i env w = (Inr (), w')" using assms by simp
  show ?thesis
    by (rule gated_tx [OF run [unfolded DeleteTask_def]]) (use OpDelete assms(2) in \<open>auto simp: tbind_Inr\<close>)
next
  case (OpAddAssignee i' u)
  then obtain a where run: "AddAssignee i u env w = (Inr a, w')" using assms drop_result_Inr by fastforce
  show ?thesis
    by (rule gated_tx [OF run [unfolded AddAssignee_def]]) (use OpAddAssignee assms(2) in \<open>auto simp: tbind_Inr\<close>)
next
  case (OpRemoveAssignee i' u)
  then obtain a where run: "RemoveAssignee i u env w = (Inr a, w')" using assms drop_result_Inr by fastforce
  show ?thesis
    by (rule gated_tx [OF run [unfolded RemoveAssignee_def]]) (use OpRemoveAssignee assms(2) in \<open>auto simp: tbind_Inr\<close>)
next
  case (OpLinkDocument i' x)
  then obtain a where run: "LinkDocument i x env w = (Inr a, w')" using assms drop_result_Inr by fastforce
  show ?thesis
    by (rule gated_tx [OF run [unfolded LinkDocument_def]]) (use OpLinkDocument assms(2) in \<open>auto simp: tbind_Inr\<close>)
next
  case (OpUnlinkDocument i' x)
  then obtain a where run: "UnlinkDocument i x env w = (Inr a, w')" using assms drop_result_Inr by fastforce
  show ?thesis
    by (rule gated_tx [OF run [unfolded UnlinkDocument_def]]) (use OpUnlinkDocument assms(2) in \<open>auto simp: tbind_Inr\<close>)
qed (use assms transition_gated in \<open>auto simp: StartTask_def CompleteTask_def ReopenTask_def CancelTask_def
      dest!: drop_result_Inr\<close>)

section \<open>Calls without a second effect\<close>

text \<open>A patch that asks for what the task already says.\<close>

definition idle_patch :: "update_task_input \<Rightarrow> task \<Rightarrow> bool" where
  "idle_patch inp t \<longleftrightarrow>
     (case ui_Title inp of None \<Rightarrow> True | Some s \<Rightarrow> TrimSpace s = t_Title t)
     \<and> (case ui_Description inp of None \<Rightarrow> True | Some s \<Rightarrow> s = t_Description t)
     \<and> (case ui_Priority inp of None \<Rightarrow> True | Some p \<Rightarrow> p = t_Priority t)
     \<and> (ui_DueAt inp = None \<or> ui_DueAt inp = t_DueAt t)
     \<and> (ui_ClearDueAt inp \<longrightarrow> t_DueAt t = None)"

lemma apply_idle_patch:
  "idle_patch inp t \<Longrightarrow> apply_patch inp t = Inr (t', ch) \<Longrightarrow> t' = t \<and> ch = []"
  by (auto simp: idle_patch_def apply_patch_def patch_title_def patch_description_def patch_priority_def patch_due_def
      Let_def split: option.splits if_splits)

text \<open>
  An idle patch is a no-op: re-sending the values a task already has changes nothing in
  the database - no row, no activity entry, no event, and in particular no re-armed reminder - and
  returns the task as it is.
\<close>

theorem UpdateTask_idle:
  assumes run: "UpdateTask inp env w = (Inr t', w')"
    and idle: "\<And>x. x \<in> set (tasks (wdb w)) \<Longrightarrow> t_ID x = ui_ID inp \<Longrightarrow> idle_patch inp (hydrated (wdb w) x)"
  shows "wdb w' = wdb w \<and> (\<exists>x \<in> set (tasks (wdb w)). t_ID x = ui_ID inp \<and> t' = hydrated (wdb w) x)"
proof -
  from run obtain tid uid role where tx: "WithTenantTx tid (update_task_tx tid uid role inp) env w = (Inr t', w')"
    unfolding UpdateTask_def by (rule with_caller_Inr)
  from tx obtain w1 w2 where body: "update_task_tx tid uid role inp (env\<lparr>cur_tenant := tid\<rparr>) w1 = (Inr t', w2)"
    and w: "wdb w1 = wdb w" "wdb w' = wdb w2" by (rule WithTenantTx_InrE)
  from body obtain cur w3 c ch where get: "get_task_or_404 tid (ui_ID inp) (env\<lparr>cur_tenant := tid\<rparr>) w1 = (Inr cur, w3)"
    and p: "apply_patch inp cur = Inr (c, ch)"
    and rest: "(if ch = [] then tret c else commit_update tid uid c ch) (env\<lparr>cur_tenant := tid\<rparr>) w3 = (Inr t', w2)"
    by (auto simp: update_task_tx_def tbind_Inr tlift_def)
  from get obtain x where x: "find (live tid (ui_ID inp)) (tasks (wdb w1)) = Some x" "cur = hydrated (wdb w1) x" "wdb w3 = wdb w1"
    by (rule get_task_Inr)
  have mem: "x \<in> set (tasks (wdb w))" "t_ID x = ui_ID inp"
    using find_live_exists [OF x(1)] w by (auto simp: live_def)
  have "c = cur" "ch = []" using apply_idle_patch [OF _ p] idle [OF mem] x w by auto
  with rest mem x w show ?thesis by auto
qed

text \<open>
  Assigning someone who is already assigned is a no-op: nothing in the database changes,
  so a repeated call adds no second activity entry, event or notification.
\<close>

theorem AddAssignee_again:
  assumes run: "AddAssignee i u env w = (Inr t', w')"
    and caller: "mustCaller (ctx env) = Inr (tid, uid, role)"
    and already: "\<exists>r \<in> set (task_assignees (wdb w)). fst r = (tid, i) \<and> a_UserID (snd r) = u"
  shows "wdb w' = wdb w"
proof -
  let ?env = "env\<lparr>cur_tenant := tid\<rparr>"
  from run [unfolded AddAssignee_def] obtain w1 w2 where w: "wdb w1 = wdb w" "wdb w' = wdb w2"
    and body: "tbind (get_task_or_404 tid i) (\<lambda>cur.
     tbind (tguard (canManageLinks cur uid role)
        (ErrForbidden ''only the creator, an assignee, or an admin may manage a task's assignees'')) (\<lambda>_.
     tbind (validateAssigneesExist tid [u]) (\<lambda>_.
     tbind (Tasks_AddAssignee tid i u uid) (\<lambda>inserted.
     tbind (if inserted
            then tbind (record_assigned tid i uid u) (\<lambda>_.
                 if u \<noteq> uid then emitNotify tid i ''assigned'' ''A task was assigned to you'' (t_Title cur) [u]
                 else tret ())
            else tret ()) (\<lambda>_. Tasks_GetByID tid i))))) ?env w1 = (Inr t', w2)"
    by (rule with_caller_Inr) (use caller in \<open>auto elim!: WithTenantTx_InrE\<close>)
  from body obtain cur w3 w4 ins w5 w6 where
    s1: "get_task_or_404 tid i ?env w1 = (Inr cur, w3)" and s2: "validateAssigneesExist tid [u] ?env w3 = (Inr (), w4)"
    and s3: "Tasks_AddAssignee tid i u uid ?env w4 = (Inr ins, w5)"
    and s4: "(if ins then tbind (record_assigned tid i uid u) (\<lambda>_.
                 if u \<noteq> uid then emitNotify tid i ''assigned'' ''A task was assigned to you'' (t_Title cur) [u]
                 else tret ()) else tret ()) ?env w5 = (Inr (), w6)"
    and s5: "Tasks_GetByID tid i ?env w6 = (Inr t', w2)"
    by (auto simp: tbind_Inr)
  have "wdb w3 = wdb w1" using s1 by (rule get_task_Inr)
  moreover have "wdb w4 = wdb w3" using s2 by (auto simp: validateAssigneesExist_def sql_read_Inr)
  ultimately have w4: "wdb w4 = wdb w" using w by simp
  have "ins = False" "wdb w5 = wdb w4"
    using s3 already w4 by (auto simp: Tasks_AddAssignee_def insert_assignee_def sql_Inr Let_def split: if_splits)
  moreover have "wdb w2 = wdb w6" using s5 by (rule Tasks_GetByID_read)
  ultimately show ?thesis using s4 w w4 by simp
qed

section \<open>What a list shows\<close>

lemma hydrate_filter:
  assumes "i \<in> set ids"
  shows "filter (\<lambda>r. snd (fst r) = i) (sort_key f (filter (\<lambda>r. fst (fst r) = tid \<and> snd (fst r) \<in> set ids) rows))
         = sort_key f (filter (\<lambda>r. fst r = (tid, i)) rows)"
proof -
  have "filter (\<lambda>r. snd (fst r) = i) (filter (\<lambda>r. fst (fst r) = tid \<and> snd (fst r) \<in> set ids) rows)
        = filter (\<lambda>r. fst r = (tid, i)) rows"
    using assms by (auto simp: filter_filter intro!: filter_cong)
  then show ?thesis by (simp add: filter_sort)
qed

lemma hydrateTasks_Inr:
  assumes "hydrateTasks tid ts env w = (Inr ts', w')" and "\<forall>t \<in> set ts. t_TenantID t = tid"
  shows "ts' = map (hydrated (wdb w)) ts \<and> wdb w' = wdb w"
proof -
  let ?ids = "map t_ID ts"
  have ts': "ts' = map (\<lambda>t. t\<lparr>
      t_Assignees := map snd (filter (\<lambda>r. snd (fst r) = t_ID t) (sort_key (\<lambda>r. a_AddedAt (snd r))
        (filter (\<lambda>r. fst (fst r) = tid \<and> snd (fst r) \<in> set ?ids) (task_assignees (wdb w))))),
      t_Documents := map snd (filter (\<lambda>r. snd (fst r) = t_ID t) (sort_key (\<lambda>r. d_LinkedAt (snd r))
        (filter (\<lambda>r. fst (fst r) = tid \<and> snd (fst r) \<in> set ?ids) (task_documents (wdb w)))))\<rparr>) ts"
    and w': "wdb w' = wdb w"
    using assms(1) by (auto simp: hydrateTasks_def tx_Inr Let_def)
  have "ts' = map (hydrated (wdb w)) ts"
    unfolding ts'
  proof (rule map_cong [OF refl])
    fix t assume "t \<in> set ts"
    then have "t_ID t \<in> set ?ids" "t_TenantID t = tid" using assms(2) by auto
    then show "t\<lparr>
      t_Assignees := map snd (filter (\<lambda>r. snd (fst r) = t_ID t) (sort_key (\<lambda>r. a_AddedAt (snd r))
        (filter (\<lambda>r. fst (fst r) = tid \<and> snd (fst r) \<in> set ?ids) (task_assignees (wdb w))))),
      t_Documents := map snd (filter (\<lambda>r. snd (fst r) = t_ID t) (sort_key (\<lambda>r. d_LinkedAt (snd r))
        (filter (\<lambda>r. fst (fst r) = tid \<and> snd (fst r) \<in> set ?ids) (task_documents (wdb w)))))\<rparr> = hydrated (wdb w) t"
      by (simp only: hydrate_filter hydrated_def)
  qed
  with w' show ?thesis by simp
qed

lemma set_matching: "set (matching_tasks tid f env d) = {t \<in> set (tasks d). buildTaskWhere tid f env d t}"
  by (simp add: matching_tasks_def)

lemma length_matching: "length (matching_tasks tid f env d) = length (filter (buildTaskWhere tid f env d) (tasks d))"
  by (simp add: matching_tasks_def)

lemma Tasks_List_Inr:
  assumes "Tasks_List tid f env w = (Inr (items, cnt), w')"
    and "normalizeLimitOffset (f_Limit f) (f_Offset f) = (l, off)"
  shows "items = map (hydrated (wdb w)) (take (nat l) (drop (nat off) (matching_tasks tid f env (wdb w))))
         \<and> cnt = length (matching_tasks tid f env (wdb w)) \<and> wdb w' = wdb w"
proof -
  let ?all = "matching_tasks tid f env (wdb w)" and ?win = "take (nat l) (drop (nat off) (matching_tasks tid f env (wdb w)))"
  have "set ?win \<subseteq> set ?all" by (meson set_drop_subset set_take_subset subset_trans)
  then have tenant: "\<forall>t \<in> set ?win. t_TenantID t = tid"
    by (auto simp: set_matching buildTaskWhere_def)
  show ?thesis
  proof (cases "?all = []")
    case True
    then have "length (filter (buildTaskWhere tid f env (wdb w)) (tasks (wdb w))) = 0"
      using length_matching by (metis list.size(3))
    with assms True show ?thesis by (auto simp: Tasks_List_def tx_Inr)
  next
    case False
    then have n: "length (filter (buildTaskWhere tid f env (wdb w)) (tasks (wdb w))) \<noteq> 0"
      using length_matching by (metis length_0_conv)
    show ?thesis
    proof (cases "?win = []")
      case True
      with assms n length_matching [of tid f env "wdb w"] show ?thesis by (auto simp: Tasks_List_def tx_Inr split: if_splits)
    next
      case False
      with assms n obtain w1 ts where "hydrateTasks tid ?win env w1 = (Inr items, w')" "wdb w1 = wdb w"
        "cnt = length (filter (buildTaskWhere tid f env (wdb w)) (tasks (wdb w)))"
        by (auto simp: Tasks_List_def tx_Inr split: if_splits)
      with hydrateTasks_Inr [OF _ tenant] show ?thesis by (metis length_matching)
    qed
  qed
qed

lemma list_page_Inr:
  assumes "list_page tid f env w = (Inr p, w')" and "normalizeLimitOffset (f_Limit f) (f_Offset f) = (l, off)"
  shows "p_Items p = map (hydrated (wdb w)) (take (nat l) (drop (nat off) (matching_tasks tid f env (wdb w))))
         \<and> p_Total p = length (matching_tasks tid f env (wdb w)) \<and> p_Limit p = f_Limit f \<and> p_Offset p = f_Offset f"
proof -
  from assms(1) obtain items cnt w1 where tx: "WithTenantTx tid (Tasks_List tid f) env w = (Inr (items, cnt), w1)"
    and p: "p = \<lparr>p_Items = items, p_Total = cnt, p_Limit = f_Limit f, p_Offset = f_Offset f\<rparr>"
    by (auto simp: list_page_def tbind_Inr)
  from tx obtain w2 w3 where "wdb w2 = wdb w" "Tasks_List tid f (env\<lparr>cur_tenant := tid\<rparr>) w2 = (Inr (items, cnt), w3)"
    by (rule WithTenantTx_InrE)
  with Tasks_List_Inr [OF this(2) assms(2)] have
    "items = map (hydrated (wdb w)) (take (nat l) (drop (nat off) (matching_tasks tid f (env\<lparr>cur_tenant := tid\<rparr>) (wdb w))))"
    "cnt = length (matching_tasks tid f (env\<lparr>cur_tenant := tid\<rparr>) (wdb w))" by simp_all
  moreover have "matching_tasks tid f (env\<lparr>cur_tenant := tid\<rparr>) (wdb w) = matching_tasks tid f env (wdb w)"
    by (simp add: matching_tasks_def buildTaskWhere_def [abs_def])
  ultimately show ?thesis using p by simp
qed

lemma normalize_idem:
  "normalizeLimitOffset a b = (l, off) \<Longrightarrow> normalizeLimitOffset l off = (l, off) \<and> 0 < l \<and> l \<le> 100 \<and> 0 \<le> off"
  by (auto simp: normalizeLimitOffset_def Let_def split: if_splits)

text \<open>The filters a list runs with once the caller's scope has been added.\<close>

definition scoped_filters :: "string \<Rightarrow> uuid \<Rightarrow> string \<Rightarrow> task_filters \<Rightarrow> task_filters" where
  "scoped_filters flt uid role f0 =
     (case normalizeLimitOffset (f_Limit f0) (f_Offset f0) of (l, off) \<Rightarrow>
      let f = f0\<lparr>f_Limit := l, f_Offset := off\<rparr> in
      if flt = ''mine'' then f\<lparr>f_AssigneeID := Some uid\<rparr>
      else if flt = ''created'' then f\<lparr>f_CreatedBy := Some uid\<rparr>
      else if canListAllTasks role \<or> f_DocumentID f \<noteq> None then f
      else f\<lparr>f_InvolvedUserID := Some uid\<rparr>)"

lemma scoped_filters_fields:
  "flt = ''mine'' \<Longrightarrow> f_AssigneeID (scoped_filters flt uid role f0) = Some uid"
  "flt = ''created'' \<Longrightarrow> f_CreatedBy (scoped_filters flt uid role f0) = Some uid"
  "flt \<noteq> ''mine'' \<Longrightarrow> flt \<noteq> ''created'' \<Longrightarrow> \<not> canListAllTasks role \<Longrightarrow> f_DocumentID f0 = None \<Longrightarrow>
     f_InvolvedUserID (scoped_filters flt uid role f0) = Some uid"
  "f_DocumentID (scoped_filters flt uid role f0) = f_DocumentID f0"
  by (simp_all add: scoped_filters_def Let_def split: prod.split)

lemma scoped_filters_window:
  "normalizeLimitOffset (f_Limit f0) (f_Offset f0) = (l, off) \<Longrightarrow>
     f_Limit (scoped_filters flt uid role f0) = l \<and> f_Offset (scoped_filters flt uid role f0) = off"
  by (simp add: scoped_filters_def Let_def)

lemma buildTaskWhere_facts:
  assumes "buildTaskWhere tid f env d x"
  shows "t_TenantID x = tid" "t_DeletedAt x = None" "f_AssigneeID f = Some u \<Longrightarrow> assigned_to d x u"
    "f_CreatedBy f = Some u \<Longrightarrow> t_CreatedBy x = u"
    "f_InvolvedUserID f = Some u \<Longrightarrow> t_CreatedBy x = u \<or> assigned_to d x u"
    "f_DocumentID f = Some y \<Longrightarrow> document_on d x y"
  using assms unfolding buildTaskWhere_def opt_holds_def by simp_all

lemma callerCanReadDocument_Inr:
  assumes "callerCanReadDocument policy tid uid role x env w = (Inr True, w')"
  shows "wdb w' = wdb w \<and> (\<exists>check doc. policy = Some check \<and> df_ID doc = x \<and> check (view_request env tid uid role doc) = Inr True)"
proof -
  from assms obtain facts w1 where load: "WithTenantTx tid (LoadDocumentFacts tid x) env w = (Inr facts, w1)"
    and rest: "(case facts of None \<Rightarrow> tret False | Some doc \<Rightarrow> canReadDocument policy tid uid role doc) env w1 = (Inr True, w')"
    by (auto simp: callerCanReadDocument_def tbind_Inr)
  from load obtain w2 w3 where w: "wdb w2 = wdb w" "LoadDocumentFacts tid x (env\<lparr>cur_tenant := tid\<rparr>) w2 = (Inr facts, w3)" "wdb w1 = wdb w3"
    by (rule WithTenantTx_InrE)
  then have "wdb w1 = wdb w" and facts: "\<forall>doc. facts = Some doc \<longrightarrow> df_ID doc = x"
    by (auto simp: LoadDocumentFacts_def sql_read_Inr)
  with rest show ?thesis
    by (auto simp: canReadDocument_def split: option.splits sum.splits)
qed

text \<open>Every successful list is a page of the scoped query, or an empty page for a caller who may not read the document.\<close>

lemma ListTasks_Inr:
  assumes "ListTasks policy flt f0 env w = (Inr p, w')"
  obtains tid uid role where "mustCaller (ctx env) = Inr (tid, uid, role)"
    "p_Items p = [] \<and> p_Total p = 0 \<and> 0 < p_Limit p \<and> p_Limit p \<le> 100
     \<or> (let f = scoped_filters flt uid role f0; all = matching_tasks tid f env (wdb w) in
        p_Items p = map (hydrated (wdb w)) (take (nat (p_Limit p)) (drop (nat (p_Offset p)) all))
        \<and> p_Total p = length all \<and> p_Limit p = f_Limit f \<and> p_Offset p = f_Offset f \<and> 0 < p_Limit p \<and> p_Limit p \<le> 100
        \<and> (flt \<noteq> ''mine'' \<longrightarrow> flt \<noteq> ''created'' \<longrightarrow> \<not> canListAllTasks role \<longrightarrow> (\<forall>x. f_DocumentID f0 = Some x \<longrightarrow>
             (\<exists>check doc. policy = Some check \<and> df_ID doc = x \<and> check (view_request env tid uid role doc) = Inr True))))"
proof -
  obtain tid uid role where c: "mustCaller (ctx env) = Inr (tid, uid, role)"
    and run: "(case normalizeLimitOffset (f_Limit f0) (f_Offset f0) of (l, off) \<Rightarrow>
     let f = f0\<lparr>f_Limit := l, f_Offset := off\<rparr> in
     if flt = ''mine'' then list_page tid (f\<lparr>f_AssigneeID := Some uid\<rparr>)
     else if flt = ''created'' then list_page tid (f\<lparr>f_CreatedBy := Some uid\<rparr>)
     else if flt = ''all'' \<or> flt = [] then
       (if canListAllTasks role then list_page tid f
        else (case f_DocumentID f of
            Some docID \<Rightarrow>
              tbind (callerCanReadDocument policy tid uid role docID) (\<lambda>canRead.
              if canRead then list_page tid f
              else tret \<lparr>p_Items = [], p_Total = 0, p_Limit = l, p_Offset = off\<rparr>)
          | None \<Rightarrow> list_page tid (f\<lparr>f_InvolvedUserID := Some uid\<rparr>)))
     else tfail (ErrValidation ''filter must be one of mine|created|all'')) env w = (Inr p, w')"
    using assms unfolding ListTasks_def by (rule with_caller_Inr)
  obtain l off where n: "normalizeLimitOffset (f_Limit f0) (f_Offset f0) = (l, off)" by fastforce
  note n' = normalize_idem [OF n]
  have page: "p_Items p = map (hydrated (wdb w)) (take (nat (p_Limit p)) (drop (nat (p_Offset p)) (matching_tasks tid f env (wdb w))))
      \<and> p_Total p = length (matching_tasks tid f env (wdb w)) \<and> p_Limit p = f_Limit f \<and> p_Offset p = f_Offset f
      \<and> 0 < p_Limit p \<and> p_Limit p \<le> 100"
    if "list_page tid f env w2 = (Inr p, w')" "f_Limit f = l" "f_Offset f = off" "wdb w2 = wdb w" for f w2
    using list_page_Inr [OF that(1), of l off] that n' by simp
  have win: "f_Limit (scoped_filters flt uid role f0) = l" "f_Offset (scoped_filters flt uid role f0) = off"
    using scoped_filters_window [OF n] by auto
  consider (mine) "flt = ''mine''" | (created) "flt = ''created''"
    | (all) "flt \<noteq> ''mine''" "flt \<noteq> ''created''" "canListAllTasks role \<or> f_DocumentID f0 = None"
    | (doc) x where "flt \<noteq> ''mine''" "flt \<noteq> ''created''" "\<not> canListAllTasks role" "f_DocumentID f0 = Some x"
    by blast
  then show thesis
  proof cases
    case mine
    with run n have "list_page tid (scoped_filters flt uid role f0) env w = (Inr p, w')"
      by (simp add: scoped_filters_def)
    from page [OF this] win mine show thesis by (intro that [OF c] disjI2) (simp add: Let_def)
  next
    case created
    with run n have "list_page tid (scoped_filters flt uid role f0) env w = (Inr p, w')"
      by (simp add: scoped_filters_def)
    from page [OF this] win created show thesis by (intro that [OF c] disjI2) (simp add: Let_def)
  next
    case all
    with run n have lp: "list_page tid (scoped_filters flt uid role f0) env w = (Inr p, w')"
      by (auto simp: scoped_filters_def Let_def split: if_splits)
    from all(3) have "\<not> canListAllTasks role \<longrightarrow> f_DocumentID f0 = None" by blast
    with page [OF lp win refl] win show thesis by (intro that [OF c] disjI2) (simp add: Let_def)
  next
    case (doc x)
    then have sf: "scoped_filters flt uid role f0 = f0\<lparr>f_Limit := l, f_Offset := off\<rparr>"
      using n by (simp add: scoped_filters_def Let_def)
    have "tbind (callerCanReadDocument policy tid uid role x) (\<lambda>canRead.
              if canRead then list_page tid (f0\<lparr>f_Limit := l, f_Offset := off\<rparr>)
              else tret \<lparr>p_Items = [], p_Total = 0, p_Limit = l, p_Offset = off\<rparr>) env w = (Inr p, w')"
      by (cases "flt = ''all'' \<or> flt = []") (use doc run n in \<open>simp_all add: Let_def\<close>)
    then obtain b w2 where rd: "callerCanReadDocument policy tid uid role x env w = (Inr b, w2)"
      and rest: "(if b then list_page tid (f0\<lparr>f_Limit := l, f_Offset := off\<rparr>)
                  else tret \<lparr>p_Items = [], p_Total = 0, p_Limit = l, p_Offset = off\<rparr>) env w2 = (Inr p, w')"
      unfolding tbind_Inr by blast
    show thesis
    proof (cases b)
      case True
      with rest rd callerCanReadDocument_Inr [of policy tid uid role x env w w2] doc
      show thesis by (intro that [OF c] disjI2) (use page [of "f0\<lparr>f_Limit := l, f_Offset := off\<rparr>" w2] sf in \<open>simp add: Let_def\<close>)
    next
      case False
      with rest n' show thesis by (intro that [OF c]) simp
    qed
  qed
qed

text \<open>
  Property C35. A list shows a caller only what the caller may see. Every task of a page is a live
  task of the caller's tenant; under \<open>mine\<close> the caller is assigned to it, under \<open>created\<close> the caller
  created it, and otherwise, for a caller without tenant-wide visibility, either the caller created it
  or is assigned to it, or the list was for one document, the policy service allowed the caller to view
  that document, and the task is linked to it. A page holds at most the 100 tasks a request can ask for.
\<close>

theorem ListTasks_visibility:
  assumes "ListTasks policy flt f0 env w = (Inr p, w')" "t \<in> set (p_Items p)"
  shows "\<exists>tid uid role. mustCaller (ctx env) = Inr (tid, uid, role)
     \<and> t_TenantID t = tid \<and> t_DeletedAt t = None \<and> length (p_Items p) \<le> 100
     \<and> (flt = ''mine'' \<longrightarrow> assigned_to (wdb w) t uid)
     \<and> (flt = ''created'' \<longrightarrow> t_CreatedBy t = uid)
     \<and> (flt \<noteq> ''mine'' \<longrightarrow> flt \<noteq> ''created'' \<longrightarrow> \<not> canListAllTasks role \<longrightarrow>
          (t_CreatedBy t = uid \<or> assigned_to (wdb w) t uid)
          \<or> (\<exists>x check doc. f_DocumentID f0 = Some x \<and> document_on (wdb w) t x
               \<and> policy = Some check \<and> df_ID doc = x \<and> check (view_request env tid uid role doc) = Inr True))"
proof -
  obtain tid uid role where c: "mustCaller (ctx env) = Inr (tid, uid, role)"
    and page: "let f = scoped_filters flt uid role f0; all = matching_tasks tid f env (wdb w) in
        p_Items p = map (hydrated (wdb w)) (take (nat (p_Limit p)) (drop (nat (p_Offset p)) all)) \<and> p_Limit p \<le> 100
        \<and> (flt \<noteq> ''mine'' \<longrightarrow> flt \<noteq> ''created'' \<longrightarrow> \<not> canListAllTasks role \<longrightarrow> (\<forall>x. f_DocumentID f0 = Some x \<longrightarrow>
             (\<exists>check doc. policy = Some check \<and> df_ID doc = x \<and> check (view_request env tid uid role doc) = Inr True)))"
    using assms by (auto simp: Let_def elim!: ListTasks_Inr)
  define f where "f = scoped_filters flt uid role f0"
  let ?win = "take (nat (p_Limit p)) (drop (nat (p_Offset p)) (matching_tasks tid f env (wdb w)))"
  have items: "p_Items p = map (hydrated (wdb w)) ?win" and lim: "p_Limit p \<le> 100"
    and pol: "flt \<noteq> ''mine'' \<longrightarrow> flt \<noteq> ''created'' \<longrightarrow> \<not> canListAllTasks role \<longrightarrow> (\<forall>x. f_DocumentID f0 = Some x \<longrightarrow>
             (\<exists>check doc. policy = Some check \<and> df_ID doc = x \<and> check (view_request env tid uid role doc) = Inr True))"
    using page by (simp_all add: Let_def f_def)
  have "set ?win \<subseteq> set (matching_tasks tid f env (wdb w))" by (meson set_drop_subset set_take_subset subset_trans)
  with items assms(2) obtain x where x: "t = hydrated (wdb w) x" "buildTaskWhere tid f env (wdb w) x"
    by (auto simp: set_matching)
  have len: "length (p_Items p) \<le> 100" using items lim by simp
  have rel: "assigned_to (wdb w) t u = assigned_to (wdb w) x u" "document_on (wdb w) t y = document_on (wdb w) x y" for u y
    by (simp_all add: x(1) assigned_to_def document_on_def)
  note facts = buildTaskWhere_facts [OF x(2)]
  have "t_TenantID t = tid" "t_DeletedAt t = None" using facts x(1) by simp_all
  moreover have "flt = ''mine'' \<longrightarrow> assigned_to (wdb w) t uid"
    unfolding rel f_def using facts(3) scoped_filters_fields(1) f_def by simp
  moreover have "flt = ''created'' \<longrightarrow> t_CreatedBy t = uid"
    using facts(4) scoped_filters_fields(2) x(1) f_def by simp
  moreover have "(t_CreatedBy t = uid \<or> assigned_to (wdb w) t uid)
          \<or> (\<exists>x check doc. f_DocumentID f0 = Some x \<and> document_on (wdb w) t x
               \<and> policy = Some check \<and> df_ID doc = x \<and> check (view_request env tid uid role doc) = Inr True)"
    if that: "flt \<noteq> ''mine''" "flt \<noteq> ''created''" "\<not> canListAllTasks role"
  proof (cases "f_DocumentID f0")
    case None
    from facts(5) scoped_filters_fields(3) [OF that None] show ?thesis
      unfolding rel by (simp add: f_def x(1))
  next
    case (Some y)
    with facts(6) have "document_on (wdb w) t y" unfolding rel by (simp add: f_def scoped_filters_fields(4))
    with pol that Some show ?thesis by blast
  qed
  ultimately show ?thesis using c len by blast
qed

section \<open>Pages\<close>

text \<open>The page a request for \<open>limit\<close> tasks from \<open>offset\<close> on gets from the repository when no statement fails.\<close>

definition task_page_of :: "'x task_db_scheme \<Rightarrow> uuid \<times> task_filters \<times> env \<Rightarrow> nat \<Rightarrow> nat \<Rightarrow> task list" where
  "task_page_of d q limit offset = (case q of (tid, f, env) \<Rightarrow>
     (case Tasks_List tid (f\<lparr>f_Limit := int limit, f_Offset := int offset\<rparr>) (env\<lparr>fault := \<lambda>_. None\<rparr>)
             \<lparr>wdb = d, stmts = 0, draws = 0\<rparr> of
        (Inr (items, _), _) \<Rightarrow> items
      | (Inl _, _) \<Rightarrow> []))"

definition all_matching :: "'x task_db_scheme \<Rightarrow> uuid \<times> task_filters \<times> env \<Rightarrow> task list" where
  "all_matching d q = (case q of (tid, f, env) \<Rightarrow> map (hydrated d) (matching_tasks tid f env d))"

lemma Tasks_List_runs:
  assumes "\<And>k. fault env k = None"
  shows "\<exists>r w'. Tasks_List tid f env w = (Inr r, w')"
proof -
  have sr: "sql_read l g env w = (g env (wdb w), w\<lparr>stmts := Suc (stmts w)\<rparr>)" for l g and w :: "'x task_db_scheme world"
    by (simp add: sql_read_def sql_def assms Let_def split: sum.splits)
  show ?thesis
    by (auto simp: Tasks_List_def hydrateTasks_def tbind_def sr tret_def Let_def split: prod.splits)
qed

interpretation task_pages: paged_query "all_matching :: 'x task_db_scheme \<Rightarrow> _" task_page_of 100
proof
  fix limit offset :: nat and d :: "'x task_db_scheme" and q :: "uuid \<times> task_filters \<times> env"
  assume lim: "0 < limit" "limit \<le> 100"
  obtain tid f env where q: "q = (tid, f, env)" by (cases q)
  let ?f = "f\<lparr>f_Limit := int limit, f_Offset := int offset\<rparr>" and ?env = "env\<lparr>fault := \<lambda>_. None\<rparr>"
  let ?w = "\<lparr>wdb = d, stmts = 0, draws = 0\<rparr>"
  obtain items n w' where run: "Tasks_List tid ?f ?env ?w = (Inr (items, n), w')"
    using Tasks_List_runs [of ?env tid ?f ?w] by auto
  have "normalizeLimitOffset (f_Limit ?f) (f_Offset ?f) = (int limit, int offset)"
    using lim by (simp add: normalizeLimitOffset_def)
  from Tasks_List_Inr [OF run this]
  have "items = map (hydrated d) (take limit (drop offset (matching_tasks tid ?f ?env d)))" by simp
  moreover have "matching_tasks tid ?f ?env d = matching_tasks tid f env d"
    by (simp add: matching_tasks_def buildTaskWhere_def [abs_def])
  ultimately show "task_page_of d q limit offset = take limit (drop offset (all_matching d q))"
    using run by (simp add: task_page_of_def all_matching_def q take_map drop_map)
qed

lemma distinct_all_matching:
  assumes "task_inv d"
  shows "distinct (all_matching d q)"
proof -
  obtain tid f env where q: "q = (tid, f, env)" by (cases q)
  have "distinct (map task_key_of (filter (buildTaskWhere tid f env d) (tasks d)))"
    using assms by (auto simp: task_inv_def distinct_map_filter)
  then have "distinct (map task_key_of (matching_tasks tid f env d))"
    unfolding matching_tasks_def by (metis distinct_map distinct_sort set_sort)
  moreover have "map task_key_of (map (hydrated d) ts) = map task_key_of ts" for ts
    by (simp add: task_key_of_def)
  ultimately have "distinct (map task_key_of (all_matching d q))" by (simp only: all_matching_def q prod.case)
  then show ?thesis by (simp only: distinct_map)
qed


end
