(* ===== verification/Task_Sweep.thy ===== *)
theory Task_Sweep
  imports Task_Access
begin

text \<open>
  The hourly sweep of one tenant (\<open>service/sweep.go\<close>): every overdue task is notified, and a task is
  claimed once - a second sweep at the same instant does nothing.
\<close>

section \<open>Loops that only emit\<close>

definition same_tables :: "'x task_db_scheme \<Rightarrow> 'x task_db_scheme \<Rightarrow> bool" where
  "same_tables d d' \<longleftrightarrow> d'\<lparr>outbox := outbox d\<rparr> = d"

lemma same_tables_refl [simp]: "same_tables d d"
  by (simp add: same_tables_def)

lemma same_tables_append [simp]: "same_tables d (d'\<lparr>outbox := xs\<rparr>) = same_tables d d'"
  by (simp add: same_tables_def)

lemma same_tables_fields:
  assumes "same_tables d d'"
  shows "tasks d' = tasks d" "task_assignees d' = task_assignees d" "task_documents d' = task_documents d"
    "hydrated d' = hydrated d"
proof -
  have "tasks (d'\<lparr>outbox := outbox d\<rparr>) = tasks d" "task_assignees (d'\<lparr>outbox := outbox d\<rparr>) = task_assignees d"
    "task_documents (d'\<lparr>outbox := outbox d\<rparr>) = task_documents d"
    using assms unfolding same_tables_def by metis+
  then show "tasks d' = tasks d" "task_assignees d' = task_assignees d" "task_documents d' = task_documents d"
    "hydrated d' = hydrated d" by (simp_all add: hydrated_def [abs_def])
qed

lemma tfor_emits:
  assumes "tfor xs f env w = (Inr (), w')" "same_tables d (wdb w)"
    and step: "\<And>x w w'. x \<in> set xs \<Longrightarrow> f x env w = (Inr (), w') \<Longrightarrow> same_tables d (wdb w) \<Longrightarrow>
       \<exists>rows. wdb w' = (wdb w)\<lparr>outbox := outbox (wdb w) @ rows\<rparr> \<and> P x rows"
  shows "\<exists>rss. wdb w' = (wdb w)\<lparr>outbox := outbox (wdb w) @ concat rss\<rparr> \<and> list_all2 P xs rss"
  using assms
proof (induction xs arbitrary: w)
  case Nil
  then show ?case by (auto intro: exI [of _ "[]"])
next
  case (Cons x xs)
  from Cons.prems(1) obtain w1 where w1: "f x env w = (Inr (), w1)" and rest: "tfor xs f env w1 = (Inr (), w')"
    by (auto simp: tbind_Inr)
  from Cons.prems(3) [OF _ w1 Cons.prems(2)] obtain rows where
    rows: "wdb w1 = (wdb w)\<lparr>outbox := outbox (wdb w) @ rows\<rparr>" "P x rows" by auto
  have "same_tables d (wdb w1)" using rows Cons.prems(2) by simp
  from Cons.IH [OF rest this] Cons.prems(3) obtain rss where
    "wdb w' = (wdb w1)\<lparr>outbox := outbox (wdb w1) @ concat rss\<rparr>" "list_all2 P xs rss" by (metis list.set_intros(2))
  with rows show ?case by (intro exI [of _ "rows # rss"]) simp
qed

lemma emitDueSoonNotify_emits:
  "emitDueSoonNotify tid i env w = (Inr u, w') \<Longrightarrow> \<exists>rows. wdb w' = (wdb w)\<lparr>outbox := outbox (wdb w) @ rows\<rparr>"
  by (auto simp: emitDueSoonNotify_def tbind_Inr elim!: Tasks_GetByID_Inr emitNotify_Inr)

lemma assigneesAndCreator_nonempty: "assigneesAndCreator t \<noteq> []"
  by (simp add: assigneesAndCreator_def)

definition overdue_notice :: "env \<Rightarrow> uuid \<Rightarrow> task \<Rightarrow> uuid \<times> string \<times> uuid \<times> json" where
  "overdue_notice env tid t = (tid, ''dms.notify.task.overdue.v1'', t_ID t,
     notify_payload env tid (t_ID t) ''overdue'' ''Task is overdue'' (t_Title t) (assigneesAndCreator t))"

lemma emitOverdueNotify_emits:
  assumes "emitOverdueNotify tid i env w = (Inr u, w')"
  shows "\<exists>rows x. wdb w' = (wdb w)\<lparr>outbox := outbox (wdb w) @ rows\<rparr>
           \<and> find (live tid i) (tasks (wdb w)) = Some x \<and> map announces rows = [overdue_notice env tid (hydrated (wdb w) x)]"
proof -
  from assms obtain t w1 where get: "Tasks_GetByID tid i env w = (Inr t, w1)"
    and em: "emitNotify tid i ''overdue'' ''Task is overdue'' (t_Title t) (assigneesAndCreator t) env w1 = (Inr u, w')"
    by (auto simp: emitOverdueNotify_def tbind_Inr)
  from get obtain x where x: "find (live tid i) (tasks (wdb w)) = Some x" "t = hydrated (wdb w) x" "wdb w1 = wdb w"
    by (rule Tasks_GetByID_Inr)
  from em obtain rows where "wdb w' = (wdb w1)\<lparr>outbox := outbox (wdb w1) @ rows\<rparr>"
    "map announces rows = (if assigneesAndCreator t = [] then []
        else [(tid, ''dms.notify.task.'' @ ''overdue'' @ ''.v1'', i,
               notify_payload env tid i ''overdue'' ''Task is overdue'' (t_Title t) (assigneesAndCreator t))])"
    by (rule emitNotify_Inr)
  moreover have "t_ID t = i" using find_live_exists [OF x(1)] x(2) by (simp add: live_def)
  ultimately show ?thesis
    using x assigneesAndCreator_nonempty by (intro exI [of _ rows] exI [of _ x]) (simp add: overdue_notice_def)
qed

lemma list_all2_in_set: "list_all2 P xs ys \<Longrightarrow> x \<in> set xs \<Longrightarrow> \<exists>y \<in> set ys. P x y"
  by (induction rule: list_all2_induct) auto

section \<open>One sweep\<close>

definition reminded :: "env \<Rightarrow> time \<Rightarrow> task \<Rightarrow> task" where
  "reminded env now t =
     (if visible env (t_TenantID t) \<and> due_soon (pg_time now) t
      then t\<lparr>t_RemindedAt := Some (pg_time now), t_UpdatedAt := db_now env\<rparr> else t)"

definition pinged :: "env \<Rightarrow> time \<Rightarrow> task \<Rightarrow> task" where
  "pinged env now t =
     (if visible env (t_TenantID t) \<and> overdue (pg_time now) t
      then t\<lparr>t_OverdueNotifiedAt := Some (pg_time now), t_UpdatedAt := db_now env\<rparr> else t)"

definition overdue_claims :: "env \<Rightarrow> time \<Rightarrow> task list \<Rightarrow> task list" where
  "overdue_claims env now ts =
     map (\<lambda>t. t\<lparr>t_OverdueNotifiedAt := Some (pg_time now), t_UpdatedAt := db_now env\<rparr>)
       (filter (\<lambda>t. visible env (t_TenantID t) \<and> overdue (pg_time now) t) ts)"

lemma sweepOne_Inr:
  assumes "sweepOne tid now env w = (Inr u, w')"
  defines "env' \<equiv> env\<lparr>cur_tenant := tid\<rparr>"
  obtains rows1 w1 w2 where
    "wdb w1 = (wdb w)\<lparr>tasks := map (pinged env' now) (map (reminded env' now) (tasks (wdb w))),
                        outbox := outbox (wdb w) @ rows1\<rparr>"
    "tfor (overdue_claims env' now (map (reminded env' now) (tasks (wdb w))))
          (\<lambda>t. emitOverdueNotify tid (t_ID t)) env' w1 = (Inr (), w2)"
    "wdb w' = wdb w2"
    "(\<forall>t \<in> set (tasks (wdb w)). \<not> (visible env' (t_TenantID t) \<and> due_soon (pg_time now) t)) \<longrightarrow> rows1 = []"
proof -
  from assms(1) obtain w0 w9 where w0: "wdb w0 = wdb w" and w9: "wdb w' = wdb w9"
    and body: "tbind (Tasks_ClaimDueSoon now) (\<lambda>dueSoon.
     tbind (tfor dueSoon (\<lambda>t. emitDueSoonNotify tid (t_ID t))) (\<lambda>_.
     tbind (Tasks_ClaimOverdue now) (\<lambda>late. tfor late (\<lambda>t. emitOverdueNotify tid (t_ID t))))) env' w0 = (Inr u, w9)"
    unfolding sweepOne_def env'_def by (rule WithTenantTx_InrE)
  from body obtain due wa wb late wc where
    c1: "Tasks_ClaimDueSoon now env' w0 = (Inr due, wa)"
    and e1: "tfor due (\<lambda>t. emitDueSoonNotify tid (t_ID t)) env' wa = (Inr (), wb)"
    and c2: "Tasks_ClaimOverdue now env' wb = (Inr late, wc)"
    and e2: "tfor late (\<lambda>t. emitOverdueNotify tid (t_ID t)) env' wc = (Inr (), w9)"
    by (auto simp: tbind_Inr)
  have a: "wdb wa = (wdb w)\<lparr>tasks := map (reminded env' now) (tasks (wdb w))\<rparr>"
    using c1 w0 by (auto simp: Tasks_ClaimDueSoon_def claim_tasks_def sql_Inr Let_def reminded_def [abs_def])
  obtain rss where b: "wdb wb = (wdb wa)\<lparr>outbox := outbox (wdb wa) @ concat rss\<rparr>" "list_all2 (\<lambda>_ _. True) due rss"
    using tfor_emits [OF e1 same_tables_refl, where P = "\<lambda>_ _. True"] emitDueSoonNotify_emits by blast
  have due: "set due = (\<lambda>t. t\<lparr>t_RemindedAt := Some (pg_time now), t_UpdatedAt := db_now env'\<rparr>) `
      {t \<in> set (tasks (wdb w)). visible env' (t_TenantID t) \<and> due_soon (pg_time now) t}"
    using c1 w0 by (auto simp: Tasks_ClaimDueSoon_def claim_tasks_def sql_Inr Let_def)
  have c: "late = overdue_claims env' now (tasks (wdb wb))"
    "wdb wc = (wdb wb)\<lparr>tasks := map (pinged env' now) (tasks (wdb wb))\<rparr>"
    using c2 by (auto simp: Tasks_ClaimOverdue_def claim_tasks_def sql_Inr Let_def pinged_def [abs_def] overdue_claims_def)
  show thesis
  proof (rule that)
    show "wdb wc = (wdb w)\<lparr>tasks := map (pinged env' now) (map (reminded env' now) (tasks (wdb w))),
                        outbox := outbox (wdb w) @ concat rss\<rparr>"
      using a b c by simp
    show "tfor (overdue_claims env' now (map (reminded env' now) (tasks (wdb w))))
          (\<lambda>t. emitOverdueNotify tid (t_ID t)) env' wc = (Inr (), w9)"
      using e2 c(1) a b by simp
    show "wdb w' = wdb w9" by (rule w9)
    show "(\<forall>t \<in> set (tasks (wdb w)). \<not> (visible env' (t_TenantID t) \<and> due_soon (pg_time now) t)) \<longrightarrow> concat rss = []"
    proof
      assume "\<forall>t \<in> set (tasks (wdb w)). \<not> (visible env' (t_TenantID t) \<and> due_soon (pg_time now) t)"
      then have "set due = {}" unfolding due by blast
      with b(2) show "concat rss = []" by simp
    qed
  qed
qed

lemma sweep_settles:
  "visible env (t_TenantID t) \<Longrightarrow> \<not> due_soon (pg_time now) (pinged env now (reminded env now t))"
  "visible env (t_TenantID t) \<Longrightarrow> \<not> overdue (pg_time now) (pinged env now (reminded env now t))"
  by (auto simp: pinged_def reminded_def due_soon_def overdue_def split: if_splits)

lemma sweepOne_tables:
  assumes "sweepOne tid now env w = (Inr u, w')"
  shows "\<exists>rows. wdb w' = (wdb w)\<lparr>
      tasks := map (pinged (env\<lparr>cur_tenant := tid\<rparr>) now) (map (reminded (env\<lparr>cur_tenant := tid\<rparr>) now) (tasks (wdb w))),
      outbox := outbox (wdb w) @ rows\<rparr>"
proof -
  let ?env = "env\<lparr>cur_tenant := tid\<rparr>"
  obtain rows1 w1 w2 where w1: "wdb w1 = (wdb w)\<lparr>tasks := map (pinged ?env now) (map (reminded ?env now) (tasks (wdb w))),
                        outbox := outbox (wdb w) @ rows1\<rparr>"
    and loop: "tfor (overdue_claims ?env now (map (reminded ?env now) (tasks (wdb w))))
          (\<lambda>t. emitOverdueNotify tid (t_ID t)) ?env w1 = (Inr (), w2)"
    and w2: "wdb w' = wdb w2"
    using assms by (rule sweepOne_Inr)
  obtain rss where "wdb w2 = (wdb w1)\<lparr>outbox := outbox (wdb w1) @ concat rss\<rparr>"
    using tfor_emits [OF loop same_tables_refl, where P = "\<lambda>_ _. True"] emitOverdueNotify_emits by blast
  with w1 w2 show ?thesis by (intro exI [of _ "rows1 @ concat rss"]) simp
qed

text \<open>
  The sweep fires once: when a sweep of a tenant has committed, a second sweep at the
  same instant that commits as well leaves the database unchanged - no task is claimed again and
  nobody is notified twice.
\<close>

theorem sweepOne_single_shot:
  assumes first: "sweepOne tid now env w = (Inr (), w1)"
    and second: "sweepOne tid now env' w2 = (Inr (), w3)"
    and same: "wdb w2 = wdb w1" "\<not> bypass_rls env'"
  shows "wdb w3 = wdb w2"
proof -
  let ?e1 = "env\<lparr>cur_tenant := tid\<rparr>" and ?e2 = "env'\<lparr>cur_tenant := tid\<rparr>"
  obtain rows where d1: "wdb w1 = (wdb w)\<lparr>tasks := map (pinged ?e1 now) (map (reminded ?e1 now) (tasks (wdb w))),
      outbox := outbox (wdb w) @ rows\<rparr>" using sweepOne_tables [OF first] by blast
  have settled: "\<not> (visible ?e2 (t_TenantID t) \<and> (due_soon (pg_time now) t \<or> overdue (pg_time now) t))"
    if "t \<in> set (tasks (wdb w2))" for t
  proof -
    have "tasks (wdb w2) = map (pinged ?e1 now) (map (reminded ?e1 now) (tasks (wdb w)))" using same d1 by simp
    with that obtain y where y: "t = pinged ?e1 now (reminded ?e1 now y)" by auto
    have ten: "t_TenantID t = t_TenantID y" by (simp add: y pinged_def reminded_def)
    show ?thesis
    proof
      assume v: "visible ?e2 (t_TenantID t) \<and> (due_soon (pg_time now) t \<or> overdue (pg_time now) t)"
      then have "t_TenantID y = tid" using same(2) ten by (simp add: visible_def)
      then have "visible ?e1 (t_TenantID y)" by (simp add: visible_def)
      with v y sweep_settles show False by blast
    qed
  qed
  then have id: "map (reminded ?e2 now) (tasks (wdb w2)) = tasks (wdb w2)"
    by (intro map_if_unchanged) (auto simp: reminded_def)
  have id2: "map (pinged ?e2 now) (tasks (wdb w2)) = tasks (wdb w2)"
    using settled by (intro map_if_unchanged) (auto simp: pinged_def)
  have late: "overdue_claims ?e2 now (tasks (wdb w2)) = []"
    using settled by (auto simp: overdue_claims_def filter_empty_conv)
  have quiet: "\<forall>t \<in> set (tasks (wdb w2)). \<not> (visible ?e2 (t_TenantID t) \<and> due_soon (pg_time now) t)"
    using settled by blast
  obtain rows1 wa wb where wa: "wdb wa = (wdb w2)\<lparr>tasks := map (pinged ?e2 now) (map (reminded ?e2 now) (tasks (wdb w2))),
                        outbox := outbox (wdb w2) @ rows1\<rparr>"
    and loop: "tfor (overdue_claims ?e2 now (map (reminded ?e2 now) (tasks (wdb w2))))
          (\<lambda>t. emitOverdueNotify tid (t_ID t)) ?e2 wa = (Inr (), wb)"
    and w3: "wdb w3 = wdb wb"
    and rows1: "(\<forall>t \<in> set (tasks (wdb w2)). \<not> (visible ?e2 (t_TenantID t) \<and> due_soon (pg_time now) t)) \<longrightarrow> rows1 = []"
    using second by (rule sweepOne_Inr)
  have "wb = wa" using loop by (simp add: id late)
  with wa w3 mp [OF rows1 quiet] id id2 show ?thesis by simp
qed

text \<open>
  Property C37. Nobody's overdue task is missed: when a sweep of a tenant commits, every task of the
  tenant that was overdue and not yet pinged has its notice in the outbox, addressed to its creator and
  all its assignees.
\<close>

theorem sweepOne_notifies_overdue:
  fixes w w' :: "'a task_db_scheme world"
  assumes run: "sweepOne tid now env w = (Inr (), w')" and inv: "task_inv (wdb w)"
    and t: "t \<in> set (tasks (wdb w))" "t_TenantID t = tid" "overdue (pg_time now) t"
  shows "\<exists>row \<in> set (drop (length (outbox (wdb w))) (outbox (wdb w'))).
           announces row = overdue_notice (env\<lparr>cur_tenant := tid\<rparr>) tid (hydrated (wdb w) t)"
proof -
  let ?env = "env\<lparr>cur_tenant := tid\<rparr>"
  obtain rows1 w1 w2 where w1: "wdb w1 = (wdb w)\<lparr>tasks := map (pinged ?env now) (map (reminded ?env now) (tasks (wdb w))),
                        outbox := outbox (wdb w) @ rows1\<rparr>"
    and loop: "tfor (overdue_claims ?env now (map (reminded ?env now) (tasks (wdb w))))
          (\<lambda>t. emitOverdueNotify tid (t_ID t)) ?env w1 = (Inr (), w2)"
    and w2: "wdb w' = wdb w2"
    using run by (rule sweepOne_Inr)
  let ?P = "\<lambda>x rows. \<exists>y. find (live tid (t_ID x)) (tasks (wdb w1)) = Some y
               \<and> map announces rows = [overdue_notice ?env tid (hydrated (wdb w1) y)]"
  have "\<exists>rss. wdb w2 = (wdb w1)\<lparr>outbox := outbox (wdb w1) @ concat rss\<rparr>
      \<and> list_all2 ?P (overdue_claims ?env now (map (reminded ?env now) (tasks (wdb w)))) rss"
  proof (rule tfor_emits [OF loop same_tables_refl])
    fix x and wa wb :: "'a task_db_scheme world"
    assume em: "emitOverdueNotify tid (t_ID x) ?env wa = (Inr (), wb)" and st: "same_tables (wdb w1) (wdb wa)"
    obtain rows y where "wdb wb = (wdb wa)\<lparr>outbox := outbox (wdb wa) @ rows\<rparr>"
      "find (live tid (t_ID x)) (tasks (wdb wa)) = Some y" "map announces rows = [overdue_notice ?env tid (hydrated (wdb wa) y)]"
      using emitOverdueNotify_emits [OF em] by (elim exE conjE) (rule that)
    with same_tables_fields [OF st]
    show "\<exists>rows. wdb wb = (wdb wa)\<lparr>outbox := outbox (wdb wa) @ rows\<rparr> \<and> ?P x rows" by auto
  qed
  then obtain rss where rss: "wdb w2 = (wdb w1)\<lparr>outbox := outbox (wdb w1) @ concat rss\<rparr>"
    and all2: "list_all2 ?P (overdue_claims ?env now (map (reminded ?env now) (tasks (wdb w)))) rss" by blast
  have same: "reminded ?env now t = t" using t(3) by (auto simp: reminded_def due_soon_def overdue_def split: option.splits)
  have "t\<lparr>t_OverdueNotifiedAt := Some (pg_time now), t_UpdatedAt := db_now ?env\<rparr>
      \<in> set (overdue_claims ?env now (map (reminded ?env now) (tasks (wdb w))))"
    using t same unfolding overdue_claims_def by (force simp: visible_def)
  then obtain rows y where rows: "rows \<in> set rss" and y: "find (live tid (t_ID t)) (tasks (wdb w1)) = Some y"
    and ann: "map announces rows = [overdue_notice ?env tid (hydrated (wdb w1) y)]"
    using list_all2_in_set [OF all2] by fastforce
  obtain z where z: "z \<in> set (tasks (wdb w))" "y = pinged ?env now (reminded ?env now z)" and live: "live tid (t_ID t) y"
    using find_live_exists [OF y] w1 by auto
  have "task_key_of z = task_key_of t"
    using live t(2) unfolding z(2) by (auto simp: live_def task_key_of_def pinged_def reminded_def split: if_splits)
  then have "z = t" using inv z(1) t(1) by (auto simp: task_inv_def distinct_map dest: inj_onD)
  with z(2) same have "y = pinged ?env now t" by simp
  then have "overdue_notice ?env tid (hydrated (wdb w1) y) = overdue_notice ?env tid (hydrated (wdb w) t)"
    by (simp add: w1 overdue_notice_def hydrated_def assigneesAndCreator_def pinged_def)
  with ann obtain row where row: "row \<in> set rows" "announces row = overdue_notice ?env tid (hydrated (wdb w) t)" by auto
  have "outbox (wdb w') = outbox (wdb w) @ rows1 @ concat rss" using w1 w2 rss by simp
  with row rows show ?thesis by auto
qed

end
