(* ===== verification/Task_Examples.thy ===== *)
theory Task_Examples
  imports Task_Sweep Outbox_Examples
begin

text \<open>
  Concrete runs of the task service: one tenant with two users and one overdue task beside
  another tenant's task, and the properties of the task theories applied to what happens to it.
\<close>

definition demo_task :: task where
  "demo_task = \<lparr>t_TenantID = 1, t_ID = 10, t_Title = ''Review'', t_Description = [], t_Status = ''open'',
     t_Priority = ''normal'', t_Source = ''user'', t_DueAt = Some (500 * second), t_CompletedAt = None,
     t_DeletedAt = None, t_CreatedBy = 2, t_CompletedBy = None, t_RemindedAt = None,
     t_OverdueNotifiedAt = None, t_CreatedAt = second, t_UpdatedAt = second, t_Assignees = [], t_Documents = []\<rparr>"

definition demo_tasks :: task_db where
  "demo_tasks = \<lparr>organizations = [\<lparr>org_ID = 1, org_deleted = False\<rparr>, \<lparr>org_ID = 5, org_deleted = False\<rparr>],
     outbox = [], outbox_dlq = [], tasks = [demo_task, demo_task\<lparr>t_TenantID := 5, t_ID := 20\<rparr>], task_assignees = [((1, 10), \<lparr>a_UserID = 3, a_AddedBy = 2, a_AddedAt = second\<rparr>)],
     task_documents = [], task_comments = [], task_activity_log = [],
     users = [\<lparr>us_TenantID = 1, us_ID = 2, us_deleted = False\<rparr>, \<lparr>us_TenantID = 1, us_ID = 3, us_deleted = False\<rparr>],
     documents = []\<rparr>"

lemma demo_tasks_inv: "task_inv demo_tasks"
  by (simp add: task_inv_def demo_tasks_def demo_task_def row_ok_def task_checks_def completion_ok_def task_statuses_def
      validPriority_def task_key_of_def task_keys_def table_ok_def assignee_key_def log_ok_def)

lemma demo_caller: "mustCaller (ctx demo_env) = Inr (1, 2, ''member'')"
  by (simp add: mustCaller_def demo_env_def demo_user_def emptyctx_def User_def uuid_Nil_def)

lemma run_pair: "fst p = Inr a \<Longrightarrow> p = (Inr a, snd p)"
  by (cases p) simp

abbreviation demo_world :: "task_db world" where
  "demo_world \<equiv> world_on demo_tasks"

abbreviation after_complete :: task_db where
  "after_complete \<equiv> wdb (snd (run_op (OpComplete 10) demo_env demo_world))"

lemma demo_complete: "run_op (OpComplete 10) demo_env demo_world = (Inr (), snd (run_op (OpComplete 10) demo_env demo_world))"
  by (rule run_pair) code_simp

lemma demo_acts: "acts_for 1 (OpComplete 10) demo_env" "\<not> bypass_rls demo_env"
  by (simp_all add: caller_in_def demo_env_def demo_user_def emptyctx_def)

theorem task_ops_isolate_tenants_witness: "of_others 1 after_complete = of_others 1 demo_tasks"
  using task_ops_isolate_tenants [OF demo_complete demo_acts] by simp

theorem task_ops_append_only_witness:
  "prefix (task_activity_log demo_tasks) (task_activity_log after_complete) \<and> prefix (outbox demo_tasks) (outbox after_complete)"
  using task_ops_append_only [OF demo_complete demo_acts(1)] by simp

lemma demo_reopen: "fst (run_op (OpReopen 10) demo_env demo_world)
    = Inl (ErrValidation ''cannot reopen a open task: invalid transition to open'')"
  by code_simp


theorem task_ops_authorized_witness:
  "\<exists>tid uid role x. mustCaller (ctx demo_env) = Inr (tid, uid, role) \<and> x \<in> set (tasks demo_tasks) \<and> live tid 10 x
     \<and> canTransition (hydrated demo_tasks x) uid role"
  using task_ops_authorized [OF demo_complete, of 10 canTransition] by simp

definition demo_patch :: update_task_input where
  "demo_patch = \<lparr>ui_ID = 10, ui_Title = Some '' Review '', ui_Description = None, ui_Priority = Some ''normal'',
     ui_DueAt = Some (500 * second), ui_ClearDueAt = False\<rparr>"

lemma demo_update: "UpdateTask demo_patch demo_env demo_world
    = (Inr (projr (fst (UpdateTask demo_patch demo_env demo_world))), snd (UpdateTask demo_patch demo_env demo_world))"
proof -
  have "\<not> isl (fst (UpdateTask demo_patch demo_env demo_world))" by code_simp
  then show ?thesis by (metis prod.collapse sum.collapse(2))
qed

lemma demo_trim: "TrimSpace '' Review '' = ''Review''"
  by code_simp

theorem UpdateTask_idle_witness: "wdb (snd (UpdateTask demo_patch demo_env demo_world)) = demo_tasks"
proof -
  have "idle_patch demo_patch (hydrated (wdb demo_world) x)" if "x \<in> set (tasks (wdb demo_world))" "t_ID x = ui_ID demo_patch" for x
    using that by (auto simp: idle_patch_def demo_patch_def demo_trim demo_tasks_def demo_task_def hydrated_def)
  from UpdateTask_idle [OF demo_update this] show ?thesis by simp
qed

lemma demo_add: "AddAssignee 10 3 demo_env demo_world
    = (Inr (projr (fst (AddAssignee 10 3 demo_env demo_world))), snd (AddAssignee 10 3 demo_env demo_world))"
proof -
  have "\<not> isl (fst (AddAssignee 10 3 demo_env demo_world))" by code_simp
  then show ?thesis by (metis prod.collapse sum.collapse(2))
qed

theorem AddAssignee_again_witness: "wdb (snd (AddAssignee 10 3 demo_env demo_world)) = demo_tasks"
  using AddAssignee_again [OF demo_add demo_caller] by (simp add: demo_tasks_def)

definition demo_filters :: task_filters where
  "demo_filters = \<lparr>f_AssigneeID = None, f_CreatedBy = None, f_DocumentID = None, f_Statuses = [], f_Priority = [],
     f_Query = [], f_InvolvedUserID = None, f_IncludeCompleted = False, f_Limit = 10, f_Offset = 0, f_Sort = []\<rparr>"

abbreviation demo_list :: "(gerr + task_page) \<times> task_db world" where
  "demo_list \<equiv> ListTasks None ''created'' demo_filters demo_env demo_world"

lemma demo_list_run: "demo_list = (Inr (projr (fst demo_list)), snd demo_list)"
proof -
  have "\<not> isl (fst demo_list)" by code_simp
  then show ?thesis by (metis prod.collapse sum.collapse(2))
qed

lemma demo_list_items: "hydrated demo_tasks demo_task \<in> set (p_Items (projr (fst demo_list)))"
  by code_simp

theorem ListTasks_visibility_witness:
  "\<exists>tid uid role. mustCaller (ctx demo_env) = Inr (tid, uid, role)
     \<and> t_TenantID (hydrated demo_tasks demo_task) = tid \<and> t_CreatedBy (hydrated demo_tasks demo_task) = uid"
  using ListTasks_visibility [OF demo_list_run demo_list_items] by blast


abbreviation demo_transition :: "(gerr + task) \<times> task_db world" where
  "demo_transition \<equiv> doTransition 10 ''done'' ''complete'' demo_env demo_world"

lemma demo_transition_run: "demo_transition = (Inr (projr (fst demo_transition)), snd demo_transition)"
proof -
  have "\<not> isl (fst demo_transition)" by code_simp
  then show ?thesis by (metis prod.collapse sum.collapse(2))
qed

theorem doTransition_effect_witness:
  "\<exists>tid uid role x rows. mustCaller (ctx demo_env) = Inr (tid, uid, role) \<and> live tid 10 x
     \<and> wdb (snd demo_transition) = demo_tasks\<lparr>
          tasks := map (transitioned demo_env tid uid 10 ''done'' (hydrated demo_tasks x)) (tasks demo_tasks),
          task_activity_log := task_activity_log demo_tasks
            @ [(tid, status_activity demo_env (Suc (length (task_activity_log demo_tasks))) 10 uid (t_Status x) ''done'')],
          outbox := outbox demo_tasks @ rows\<rparr>
     \<and> map announces rows = status_event demo_env tid 10 uid (t_Status x) ''done''
                              # completion_notices demo_env tid 10 uid ''done'' (hydrated demo_tasks x)"
  using doTransition_effect [OF demo_transition_run] unfolding wdb_world_on
  by (elim exE conjE) (intro exI conjI, assumption+)

lemma demo_fresh: "fresh_ids 2 demo_env demo_world"
proof -
  have "{0..<Suc (Suc 0)} = {0, Suc 0}" by auto
  then show ?thesis by (simp add: fresh_ids_def world_on_def demo_env_def demo_tasks_def uuid_Nil_def)
qed

theorem doTransition_decides_witness: "\<exists>t' w'. doTransition 10 ''done'' ''complete'' demo_env demo_world = (Inr t', w')"
proof -
  have "(10 :: uuid) \<noteq> uuid_Nil" by (simp add: uuid_Nil_def)
  from doTransition_decides [OF healthy_demo_env demo_caller demo_fresh, of 10 "''done''" "''complete''"] this
  show ?thesis
    by (simp add: demo_tasks_inv) (simp add: demo_tasks_def demo_task_def live_def canTransition_def hydrated_def validTransition_def)
qed

text \<open>A tenant without tasks in which the caller creates one.\<close>

definition demo_blank :: task_db where
  "demo_blank = demo_tasks\<lparr>tasks := [], task_assignees := []\<rparr>"

definition demo_input :: create_task_input where
  "demo_input = \<lparr>ci_Title = ''Review'', ci_Description = [], ci_Priority = ''high'', ci_Source = [], ci_DueAt = None,
     ci_AssigneeIDs = [3], ci_DocumentIDs = []\<rparr>"

definition demo_created :: task_db where
  "demo_created = wdb (snd (run_op (OpCreate demo_input) demo_env (world_on demo_blank)))"

lemma demo_create_step: "task_step demo_blank demo_created"
proof -
  have "acts_for 1 (OpCreate demo_input) demo_env"
    by (simp add: caller_in_def demo_env_def demo_user_def emptyctx_def)
  then have "task_step (wdb (world_on demo_blank)) (wdb (snd (run_op (OpCreate demo_input) demo_env (world_on demo_blank))))"
    by (rule task_step.intros) (rule prod.collapse [symmetric])
  then show ?thesis by (simp add: demo_created_def)
qed


abbreviation demo_sweep :: "(gerr + unit) \<times> task_db world" where
  "demo_sweep \<equiv> sweepOne 1 (1000 * second) demo_env demo_world"

abbreviation demo_sweep_again :: "(gerr + unit) \<times> task_db world" where
  "demo_sweep_again \<equiv> sweepOne 1 (1000 * second) demo_env (snd demo_sweep)"

lemma demo_sweep_run: "demo_sweep = (Inr (), snd demo_sweep)"
  by (rule run_pair) code_simp

lemma demo_sweep_again_run: "demo_sweep_again = (Inr (), snd demo_sweep_again)"
  by (rule run_pair) code_simp

theorem sweepOne_single_shot_witness: "wdb (snd demo_sweep_again) = wdb (snd demo_sweep)"
  using sweepOne_single_shot [OF demo_sweep_run demo_sweep_again_run] demo_acts(2) by simp

theorem sweepOne_notifies_overdue_witness:
  "\<exists>row \<in> set (outbox (wdb (snd demo_sweep))).
     announces row = overdue_notice (demo_env\<lparr>cur_tenant := 1\<rparr>) 1 (hydrated demo_tasks demo_task)"
proof -
  have "demo_task \<in> set (tasks (wdb demo_world))" "t_TenantID demo_task = 1" by (simp_all add: demo_tasks_def demo_task_def)
  moreover have "overdue (pg_time (1000 * second)) demo_task" by code_simp
  ultimately show ?thesis
    using sweepOne_notifies_overdue [OF demo_sweep_run] demo_tasks_inv in_set_dropD by fastforce
qed

end
