(* ===== verification/Audit_Model.thy ===== *)
theory Audit_Model
  imports Tx
begin

text \<open>
  The audit service's data and its pure code: \<open>services/audit/internal/model/model.go\<close>, the hash
  functions at the end of \<open>service/service.go\<close>, \<open>service/merkle.go\<close> and the subject parser.

  What the service takes from the standard library's cryptography and JSON packages and from
  PostgreSQL's casts is collected in the record \<open>audit_lib\<close> and stays a parameter of every definition:
  \<open>sha256\<close> is \<open>sha256.Sum256\<close>; \<open>signer\<close> is \<open>None\<close> when no signing key is configured and otherwise holds
  the key's identifier with \<open>ed25519.Sign\<close> under it; \<open>ed_verify\<close> is \<open>ed25519.Verify\<close> under its public key.
  No theorem assumes anything of \<open>sha256\<close>.
\<close>

section \<open>Library parameters\<close>

record audit_lib =
  sha256 :: "string \<Rightarrow> string"
  signer :: "(string \<times> (string \<Rightarrow> string)) option"
  ed_verify :: "string \<Rightarrow> string \<Rightarrow> bool"
  json_Marshal :: "json \<Rightarrow> string"
  json_Unmarshal :: "string \<Rightarrow> json option"
  jsonb_text :: "string \<Rightarrow> string option"
  inet_host :: "string \<Rightarrow> string option"
  pg_uuid :: "string \<Rightarrow> uuid option"
  redact_details :: "string \<Rightarrow> string"

section \<open>Rows (\<open>model/model.go\<close>)\<close>

record audit_event =
  ev_ID :: string
  ev_TenantID :: string
  ev_EventHash :: string
  ev_PreviousHash :: string
  ev_Actor :: string
  ev_ActorName :: string
  ev_Action :: string
  ev_ResourceType :: string
  ev_ResourceID :: string
  ev_ResourceTitle :: string
  ev_Details :: string
  ev_IPAddress :: string
  ev_UserAgent :: string
  ev_SourceEvent :: string
  ev_CreatedAt :: time

definition zero_event :: audit_event where
  "zero_event = \<lparr>ev_ID = [], ev_TenantID = [], ev_EventHash = [], ev_PreviousHash = [], ev_Actor = [], ev_ActorName = [],
     ev_Action = [], ev_ResourceType = [], ev_ResourceID = [], ev_ResourceTitle = [], ev_Details = [], ev_IPAddress = [],
     ev_UserAgent = [], ev_SourceEvent = [], ev_CreatedAt = 0\<rparr>"

record list_filter =
  lf_TenantID :: string
  lf_Actor :: string
  lf_Action :: string
  lf_ResourceType :: string
  lf_ResourceID :: string
  lf_DateFrom :: "time option"
  lf_DateTo :: "time option"
  lf_PageSize :: int
  lf_PageToken :: "(time \<times> string) option"

record integrity_result =
  ir_TenantID :: string
  ir_TotalEvents :: nat
  ir_Verified :: nat
  ir_BrokenAt :: string
  ir_BrokenHash :: string
  ir_ExpectedHash :: string
  ir_Valid :: bool
  ir_CheckpointValid :: bool
  ir_CheckpointAt :: string
  ir_CheckpointCount :: int
  ir_CheckpointMessage :: string

record merkle_proof =
  mp_TenantID :: string
  mp_ResourceType :: string
  mp_ResourceID :: string
  mp_Count :: nat
  mp_RootHash :: string
  mp_FirstEventID :: string
  mp_LastEventID :: string
  mp_FirstAt :: "time option"
  mp_LastAt :: "time option"
  mp_Valid :: bool
  mp_BrokenAt :: string
  mp_BrokenHash :: string
  mp_ExpectedHash :: string
  mp_LeafHashes :: "string list"

record audit_checkpoint =
  cp_TenantID :: string
  cp_ID :: uuid
  cp_CreatedAt :: time
  cp_HeadHash :: string
  cp_EventCount :: int
  cp_Algo :: string
  cp_KeyID :: string
  cp_Signature :: string

section \<open>Chain hashes (\<open>service/service.go\<close>)\<close>

definition hashV2Prefix :: string where
  "hashV2Prefix = ''v2:''"

text \<open>\<open>wf\<close>: the length in decimal, a colon, the bytes.\<close>

definition frame :: "string \<Rightarrow> string" where
  "frame s = show_nat (length s) @ '':'' @ s"

text \<open>Everything a v2 hash covers, in the order it is written to the digest.\<close>

definition hashed_fields :: "string \<Rightarrow> audit_event \<Rightarrow> string list" where
  "hashed_fields prev e =
     [prev, ev_ID e, ev_TenantID e, ev_Actor e, ev_ActorName e, ev_Action e, ev_ResourceType e, ev_ResourceID e,
      ev_ResourceTitle e, ev_Details e, ev_IPAddress e, ev_UserAgent e, ev_SourceEvent e,
      format_RFC3339Nano (ev_CreatedAt e)]"

definition hash_message :: "string \<Rightarrow> audit_event \<Rightarrow> string" where
  "hash_message prev e = concat (map frame (hashed_fields prev e))"

definition computeEventHash :: "audit_lib \<Rightarrow> string \<Rightarrow> audit_event \<Rightarrow> string" where
  "computeEventHash L prev e = hashV2Prefix @ hex_encode (sha256 L (hash_message prev e))"

definition computeHash :: "audit_lib \<Rightarrow> string \<Rightarrow> string \<Rightarrow> string \<Rightarrow> string \<Rightarrow> string \<Rightarrow> time \<Rightarrow> string" where
  "computeHash L prev tenantID actor action resourceID t =
     hex_encode (sha256 L (prev @ ''|'' @ tenantID @ ''|'' @ actor @ ''|'' @ action @ ''|'' @ resourceID @ ''|''
       @ format_RFC3339Nano t))"

definition expectedHashFor :: "audit_lib \<Rightarrow> string \<Rightarrow> audit_event \<Rightarrow> string" where
  "expectedHashFor L prev e =
     (if prefix hashV2Prefix (ev_EventHash e) then computeEventHash L prev e
      else computeHash L prev (ev_TenantID e) (ev_Actor e) (ev_Action e) (ev_ResourceID e) (ev_CreatedAt e))"

text \<open>The signed message of a checkpoint.\<close>

definition CanonicalCheckpointMessage :: "string \<Rightarrow> string \<Rightarrow> int \<Rightarrow> string" where
  "CanonicalCheckpointMessage tenantID headHash eventCount =
     ''sedoc-audit-checkpoint:v1|'' @ tenantID @ ''|'' @ headHash @ ''|'' @ show_int eventCount"

definition strField :: "json \<Rightarrow> string \<Rightarrow> string" where
  "strField m key = (case json_field key m of Some (JStr s) \<Rightarrow> s | _ \<Rightarrow> [])"

definition splitEnvelopeSubject :: "string \<Rightarrow> (string \<times> string) option" where
  "splitEnvelopeSubject s =
     (if s = [] then None
      else case index_byte s (CHR ''/'') of
             None \<Rightarrow> None
           | Some i \<Rightarrow> if i = 0 \<or> i = length s - 1 then None else Some (take i s, drop (i + 1) s))"

section \<open>Merkle proofs (\<open>service/merkle.go\<close>)\<close>

definition merkle_leaf :: "audit_lib \<Rightarrow> string \<Rightarrow> string" where
  "merkle_leaf L h = (case hex_decode h of Some b \<Rightarrow> b | None \<Rightarrow> sha256 L h)"

text \<open>One pass of the inner loop; an odd last node is paired with itself.\<close>

fun merkle_level :: "audit_lib \<Rightarrow> string list \<Rightarrow> string list" where
  "merkle_level L [] = []"
| "merkle_level L [x] = [sha256 L (x @ x)]"
| "merkle_level L (x # y # r) = sha256 L (x @ y) # merkle_level L r"

lemma length_merkle_level: "length (merkle_level L xs) = (length xs + 1) div 2"
  by (induction L xs rule: merkle_level.induct) auto

function merkle_reduce :: "audit_lib \<Rightarrow> string list \<Rightarrow> string" where
  "merkle_reduce L xs = (if length xs > 1 then merkle_reduce L (merkle_level L xs) else hd xs)"
  by pat_completeness auto
termination
  by (relation "measure (\<lambda>(L, xs). length xs)") (auto simp: length_merkle_level)

declare merkle_reduce.simps [simp del]

definition merkleRoot :: "audit_lib \<Rightarrow> string list \<Rightarrow> string" where
  "merkleRoot L leavesHex =
     (if leavesHex = [] then [] else hex_encode (merkle_reduce L (map (merkle_leaf L) leavesHex)))"

text \<open>Bytewise order of Go strings.\<close>

fun str_less :: "string \<Rightarrow> string \<Rightarrow> bool" where
  "str_less _ [] = False"
| "str_less [] (_ # _) = True"
| "str_less (a # s) (b # t) =
     ((of_char a :: nat) < of_char b \<or> a = b \<and> str_less s t)"

definition event_before :: "audit_event \<Rightarrow> audit_event \<Rightarrow> bool" where
  "event_before a b =
     (if ev_CreatedAt a = ev_CreatedAt b then str_less (ev_ID a) (ev_ID b) else ev_CreatedAt a < ev_CreatedAt b)"

text \<open>\<open>sort.SliceStable\<close>: insertion behind everything that is not later.\<close>

fun insert_stable :: "('a \<Rightarrow> 'a \<Rightarrow> bool) \<Rightarrow> 'a \<Rightarrow> 'a list \<Rightarrow> 'a list" where
  "insert_stable lt x [] = [x]"
| "insert_stable lt x (y # ys) = (if lt y x then y # insert_stable lt x ys else x # y # ys)"

definition sort_stable :: "('a \<Rightarrow> 'a \<Rightarrow> bool) \<Rightarrow> 'a list \<Rightarrow> 'a list" where
  "sort_stable lt xs = foldr (insert_stable lt) xs []"

text \<open>The first event whose stored hash differs from the one its own fields give.\<close>

definition first_broken :: "audit_lib \<Rightarrow> audit_event list \<Rightarrow> audit_event option" where
  "first_broken L evs = find (\<lambda>e. ev_EventHash e \<noteq> expectedHashFor L (ev_PreviousHash e) e) evs"

definition buildMerkleProof :: "audit_lib \<Rightarrow> string \<Rightarrow> string \<Rightarrow> string \<Rightarrow> audit_event list \<Rightarrow> merkle_proof" where
  "buildMerkleProof L tenantID resourceType resourceID events =
     (let evs = sort_stable event_before events; bad = first_broken L evs; leaves = map ev_EventHash evs in
      \<lparr>mp_TenantID = tenantID, mp_ResourceType = resourceType, mp_ResourceID = resourceID, mp_Count = length evs,
       mp_RootHash = merkleRoot L leaves,
       mp_FirstEventID = (if evs = [] then [] else ev_ID (hd evs)),
       mp_LastEventID = (if evs = [] then [] else ev_ID (last evs)),
       mp_FirstAt = (if evs = [] then None else Some (ev_CreatedAt (hd evs))),
       mp_LastAt = (if evs = [] then None else Some (ev_CreatedAt (last evs))),
       mp_Valid = (bad = None),
       mp_BrokenAt = (case bad of None \<Rightarrow> [] | Some e \<Rightarrow> ev_ID e),
       mp_BrokenHash = (case bad of None \<Rightarrow> [] | Some e \<Rightarrow> ev_EventHash e),
       mp_ExpectedHash = (case bad of None \<Rightarrow> [] | Some e \<Rightarrow> expectedHashFor L (ev_PreviousHash e) e),
       mp_LeafHashes = leaves\<rparr>)"

end
