(* ===== verification/Audit_Repo.thy ===== *)
theory Audit_Repo
  imports Audit_Model "HOL-Library.Product_Lexorder"
begin

text \<open>
  The audit service's tables and its repository layer: \<open>services/audit/internal/repository\<close> over the
  \<open>audit_events\<close> table (document migration 000001, audit migrations 000001 and 000002), the
  \<open>audit_checkpoints\<close> table (000003) and the two SECURITY DEFINER functions of 000006.

  \<open>pg_advisory_xact_lock\<close> serialises the writers of one tenant, so a write transaction is one step on
  the tables. A value PostgreSQL refuses for a reason no definition mentions (an invalid byte sequence,
  a missing partition) makes its statement fail, which \<open>fault\<close> covers.
\<close>

section \<open>Tables\<close>

record audit_row =
  r_id :: uuid
  r_tenant :: uuid
  r_event_hash :: string
  r_previous_hash :: "string option"
  r_actor :: string
  r_actor_id :: "uuid option"
  r_actor_name :: string
  r_actor_type :: string
  r_action :: string
  r_resource_type :: "string option"
  r_resource_id :: "uuid option"
  r_resource_title :: "string option"
  r_details :: string
  r_ip_address :: "string option"
  r_user_agent :: "string option"
  r_source_event :: "string option"
  r_created_at :: time

record audit_db = base_db +
  audit_events :: "audit_row list"
  audit_checkpoints :: "(uuid \<times> audit_checkpoint) list"

definition coalesce :: "string option \<Rightarrow> string" where
  "coalesce x = (case x of None \<Rightarrow> [] | Some s \<Rightarrow> s)"

definition nullif :: "string \<Rightarrow> string option" where
  "nullif s = (if s = [] then None else Some s)"

lemma coalesce_nullif [simp]: "coalesce (nullif s) = s"
  by (simp add: coalesce_def nullif_def)

text \<open>\<open>selectEvents\<close> with \<open>scanEvents\<close>: a row as the service reads it.\<close>

definition scan_event :: "env \<Rightarrow> audit_row \<Rightarrow> audit_event" where
  "scan_event env r =
     \<lparr>ev_ID = uuid_String env (r_id r), ev_TenantID = uuid_String env (r_tenant r), ev_EventHash = r_event_hash r,
      ev_PreviousHash = coalesce (r_previous_hash r), ev_Actor = r_actor r, ev_ActorName = r_actor_name r,
      ev_Action = r_action r, ev_ResourceType = coalesce (r_resource_type r),
      ev_ResourceID = (case r_resource_id r of None \<Rightarrow> [] | Some u \<Rightarrow> uuid_String env u),
      ev_ResourceTitle = coalesce (r_resource_title r), ev_Details = r_details r,
      ev_IPAddress = coalesce (r_ip_address r), ev_UserAgent = coalesce (r_user_agent r),
      ev_SourceEvent = coalesce (r_source_event r), ev_CreatedAt = r_created_at r\<rparr>"

definition tenant_rows :: "env \<Rightarrow> uuid \<Rightarrow> 'x audit_db_scheme \<Rightarrow> audit_row list" where
  "tenant_rows env tid d = filter (\<lambda>r. r_tenant r = tid \<and> visible env (r_tenant r)) (audit_events d)"

text \<open>\<open>ORDER BY created_at ASC, id ASC\<close>.\<close>

definition row_key :: "audit_row \<Rightarrow> time \<times> uuid" where
  "row_key r = (r_created_at r, r_id r)"

definition ordered_rows :: "env \<Rightarrow> uuid \<Rightarrow> 'x audit_db_scheme \<Rightarrow> audit_row list" where
  "ordered_rows env tid d = sort_key row_key (tenant_rows env tid d)"

definition load_chain :: "string \<Rightarrow> uuid \<Rightarrow> ('x audit_db_scheme, audit_event list) m" where
  "load_chain label tid = sql_read label (\<lambda>env d. Inr (map (scan_event env) (ordered_rows env tid d)))"

section \<open>Tenant transactions\<close>

definition withTenant :: "string \<Rightarrow> (uuid \<Rightarrow> ('d, 'a) m) \<Rightarrow> ('d, 'a) m" where
  "withTenant tenantID fn = with_env (\<lambda>env.
     case uuid_Parse env tenantID of
       None \<Rightarrow> tfail (DBError ''tenant_id: invalid UUID'')
     | Some tid \<Rightarrow> WithTenantTx tid (fn tid))"

definition ListAll :: "string \<Rightarrow> ('x audit_db_scheme, audit_event list) m" where
  "ListAll tenantID = withTenant tenantID (load_chain [])"

definition ListBySubject :: "string \<Rightarrow> string \<Rightarrow> ('x audit_db_scheme, audit_event list) m" where
  "ListBySubject tenantID subjectID = withTenant tenantID (\<lambda>tid. sql_read [] (\<lambda>env d.
     Inr (map (scan_event env) (sort_key r_created_at (filter (\<lambda>r. r_actor r = subjectID) (tenant_rows env tid d))))))"

section \<open>Appending to the chain\<close>

text \<open>A cast \<open>NULLIF(x, '')::type\<close>: \<open>Inl\<close> when the text is not a value of the type.\<close>

definition cast_or_null :: "string \<Rightarrow> (string \<Rightarrow> 'v option) \<Rightarrow> string \<Rightarrow> gerr + 'v option" where
  "cast_or_null label cast s =
     (if s = [] then Inr None else case cast s of None \<Rightarrow> Inl (DBError (label @ ''invalid input syntax'')) | Some v \<Rightarrow> Inr (Some v))"

text \<open>Step 4 of \<open>AppendChained\<close>: the exact text PostgreSQL will hand back for three columns.\<close>

definition canonicalise :: "audit_lib \<Rightarrow> audit_event \<Rightarrow> ('d, audit_event) m" where
  "canonicalise L e = sql_read ''canonicalise event fields: '' (\<lambda>env d.
     case jsonb_text L (ev_Details e) of
       None \<Rightarrow> Inl (DBError ''canonicalise event fields: invalid input syntax for type json'')
     | Some det \<Rightarrow>
         (case cast_or_null ''canonicalise event fields: '' (inet_host L) (ev_IPAddress e) of
            Inl x \<Rightarrow> Inl x
          | Inr ip \<Rightarrow>
              (case cast_or_null ''canonicalise event fields: '' (pg_uuid L) (ev_ResourceID e) of
                 Inl x \<Rightarrow> Inl x
               | Inr rid \<Rightarrow> Inr (e\<lparr>ev_Details := det, ev_IPAddress := coalesce ip,
                      ev_ResourceID := (case rid of None \<Rightarrow> [] | Some u \<Rightarrow> uuid_String env u)\<rparr>))))"

definition lockChain :: "('d, unit) m" where
  "lockChain = statement ''chain lock: ''"

text \<open>The newest event of the tenant: \<open>ORDER BY created_at DESC, id DESC LIMIT 1\<close>.\<close>

definition chain_head :: "string \<Rightarrow> uuid \<Rightarrow> ('x audit_db_scheme, audit_row option) m" where
  "chain_head label tid = sql_read label (\<lambda>env d.
     let rs = ordered_rows env tid d in Inr (if rs = [] then None else Some (last rs)))"

text \<open>The row \<open>insertEvent\<close> writes.\<close>

definition row_of_event :: "audit_lib \<Rightarrow> env \<Rightarrow> uuid \<Rightarrow> audit_event \<Rightarrow> gerr + audit_row" where
  "row_of_event L env tid e =
     (case pg_uuid L (ev_ID e) of
        None \<Rightarrow> Inl (DBError ''invalid input syntax for type uuid'')
      | Some i \<Rightarrow>
     (case cast_or_null [] (pg_uuid L) (ev_Actor e) of
        Inl x \<Rightarrow> Inl x
      | Inr actorID \<Rightarrow>
     (case cast_or_null [] (pg_uuid L) (ev_ResourceID e) of
        Inl x \<Rightarrow> Inl x
      | Inr resourceID \<Rightarrow>
     (case cast_or_null [] (inet_host L) (ev_IPAddress e) of
        Inl x \<Rightarrow> Inl x
      | Inr ip \<Rightarrow>
     (case jsonb_text L (ev_Details e) of
        None \<Rightarrow> Inl (DBError ''invalid input syntax for type json'')
      | Some det \<Rightarrow> Inr
          \<lparr>r_id = i, r_tenant = tid, r_event_hash = ev_EventHash e, r_previous_hash = Some (ev_PreviousHash e),
           r_actor = ev_Actor e, r_actor_id = actorID, r_actor_name = ev_ActorName e,
           r_actor_type = (if ev_Actor e = [] then ''system'' else ''user''),
           r_action = ev_Action e, r_resource_type = nullif (ev_ResourceType e), r_resource_id = resourceID,
           r_resource_title = nullif (ev_ResourceTitle e), r_details = det, r_ip_address = ip,
           r_user_agent = nullif (ev_UserAgent e), r_source_event = nullif (ev_SourceEvent e),
           r_created_at = pg_time (ev_CreatedAt e)\<rparr>)))))"

definition insertEvent :: "audit_lib \<Rightarrow> uuid \<Rightarrow> audit_event \<Rightarrow> ('x audit_db_scheme, unit) m" where
  "insertEvent L tid e = sql [] (\<lambda>env d.
     case row_of_event L env tid e of
       Inl x \<Rightarrow> Inl x
     | Inr r \<Rightarrow>
         if \<not> visible env tid then Inl (DBError ''row violates row-level security policy'')
         else if row_key r \<in> row_key ` set (audit_events d) then Inl (DBError ''duplicate key value'')
         else Inr ((), d\<lparr>audit_events := audit_events d @ [r]\<rparr>))"

text \<open>Steps 2, 3 and 5: link to the head, keep \<open>created_at\<close> strictly increasing, hash.\<close>

definition link_event :: "audit_lib \<Rightarrow> audit_row option \<Rightarrow> audit_event \<Rightarrow> audit_event" where
  "link_event L tip e =
     (let prev = (case tip of None \<Rightarrow> [] | Some h \<Rightarrow> r_event_hash h);
          at = (case tip of None \<Rightarrow> ev_CreatedAt e
                | Some h \<Rightarrow> if ev_CreatedAt e > r_created_at h then ev_CreatedAt e else r_created_at h + microsecond);
          e1 = e\<lparr>ev_CreatedAt := at, ev_PreviousHash := prev\<rparr>
      in e1\<lparr>ev_EventHash := computeEventHash L prev e1\<rparr>)"

definition appendInTx :: "audit_lib \<Rightarrow> uuid \<Rightarrow> audit_event \<Rightarrow> ('x audit_db_scheme, audit_event) m" where
  "appendInTx L tid e0 =
     (let e = (if ev_Details e0 = [] then e0\<lparr>ev_Details := ''{}''\<rparr> else e0) in
      tbind (canonicalise L e) (\<lambda>e1.
      tbind lockChain (\<lambda>_.
      tbind (chain_head ''chain head: '' tid) (\<lambda>tip.
      let e2 = link_event L tip e1 in
      tbind (insertEvent L tid e2) (\<lambda>_. tret e2)))))"

definition AppendChained :: "audit_lib \<Rightarrow> audit_event \<Rightarrow> ('x audit_db_scheme, audit_event) m" where
  "AppendChained L e = withTenant (ev_TenantID e) (\<lambda>tid. appendInTx L tid e)"

section \<open>Listing pages\<close>

text \<open>
  \<open>List\<close>. A page token stands for the pair \<open>decodeCursor\<close> reads from it; one with an empty id is
  ignored, as is a token that does not decode.
\<close>

definition list_matches :: "audit_lib \<Rightarrow> list_filter \<Rightarrow> audit_row \<Rightarrow> bool" where
  "list_matches L f r \<longleftrightarrow>
     (lf_Actor f \<noteq> [] \<longrightarrow> r_actor r = lf_Actor f)
     \<and> (lf_Action f \<noteq> [] \<longrightarrow> r_action r = lf_Action f)
     \<and> (lf_ResourceType f \<noteq> [] \<longrightarrow> r_resource_type r = Some (lf_ResourceType f))
     \<and> (lf_ResourceID f \<noteq> [] \<longrightarrow> r_resource_id r = pg_uuid L (lf_ResourceID f) \<and> r_resource_id r \<noteq> None)
     \<and> (case lf_DateFrom f of None \<Rightarrow> True | Some t \<Rightarrow> r_created_at r \<ge> pg_time t)
     \<and> (case lf_DateTo f of None \<Rightarrow> True | Some t \<Rightarrow> r_created_at r \<le> pg_time t)
     \<and> (case lf_PageToken f of None \<Rightarrow> True
        | Some (t, i) \<Rightarrow> i \<noteq> [] \<longrightarrow> (case pg_uuid L i of None \<Rightarrow> False | Some u \<Rightarrow> row_key r < (pg_time t, u)))"

definition list_page_size :: "list_filter \<Rightarrow> nat" where
  "list_page_size f = (if lf_PageSize f \<le> 0 \<or> lf_PageSize f > 100 then 50 else nat (lf_PageSize f))"

text \<open>An argument that is no uuid makes the statement fail.\<close>

definition list_args_ok :: "audit_lib \<Rightarrow> list_filter \<Rightarrow> bool" where
  "list_args_ok L f \<longleftrightarrow> (lf_ResourceID f \<noteq> [] \<longrightarrow> pg_uuid L (lf_ResourceID f) \<noteq> None)
     \<and> (case lf_PageToken f of None \<Rightarrow> True | Some (t, i) \<Rightarrow> i \<noteq> [] \<longrightarrow> pg_uuid L i \<noteq> None)"

definition newest_first :: "audit_lib \<Rightarrow> env \<Rightarrow> uuid \<Rightarrow> list_filter \<Rightarrow> 'x audit_db_scheme \<Rightarrow> audit_row list" where
  "newest_first L env tid f d = rev (sort_key row_key (filter (list_matches L f) (tenant_rows env tid d)))"

definition List_page :: "audit_lib \<Rightarrow> list_filter \<Rightarrow> ('x audit_db_scheme, audit_event list \<times> (time \<times> string) option) m" where
  "List_page L f = withTenant (lf_TenantID f) (\<lambda>tid. sql_read [] (\<lambda>env d.
     if \<not> list_args_ok L f then Inl (DBError ''invalid input syntax for type uuid'')
     else let n = list_page_size f;
              evs = map (scan_event env) (take (n + 1) (newest_first L env tid f d)) in
          Inr (if length evs > n then (take n evs, Some (ev_CreatedAt (evs ! (n - 1)), ev_ID (evs ! (n - 1))))
               else (evs, None))))"

section \<open>Erasure\<close>

text \<open>The SECURITY DEFINER function \<open>audit_redact_subject\<close>; it returns the ids it changed.\<close>

definition redact_row :: "audit_lib \<Rightarrow> audit_row \<Rightarrow> audit_row" where
  "redact_row L r = r\<lparr>r_actor := ''REDACTED'', r_actor_id := None, r_actor_name := ''REDACTED'',
     r_ip_address := None, r_user_agent := None, r_details := redact_details L (r_details r)\<rparr>"

definition audit_redact_subject :: "audit_lib \<Rightarrow> uuid \<Rightarrow> string \<Rightarrow> ('x audit_db_scheme, uuid list) m" where
  "audit_redact_subject L tid subject = sql ''redact: '' (\<lambda>env d.
     if subject = [] \<or> subject = ''REDACTED''
     then Inl (DBError ''redact: audit_redact_subject: tenant and subject are required'')
     else if cur_tenant env \<noteq> tid then Inl (DBError ''redact: audit_redact_subject: caller is not in tenant'')
     else let hit = (\<lambda>r. r_tenant r = tid \<and> r_actor r = subject) in
          Inr (map r_id (filter hit (audit_events d)),
               d\<lparr>audit_events := map (\<lambda>r. if hit r then redact_row L r else r) (audit_events d)\<rparr>))"

definition set_hashes :: "string \<Rightarrow> string \<Rightarrow> audit_row \<Rightarrow> audit_row" where
  "set_hashes prev h r = r\<lparr>r_previous_hash := Some prev, r_event_hash := h\<rparr>"

definition audit_set_event_hash :: "uuid \<Rightarrow> uuid \<Rightarrow> string \<Rightarrow> string \<Rightarrow> ('x audit_db_scheme, unit) m" where
  "audit_set_event_hash tid i prev h = sql ''re-chain event: '' (\<lambda>env d.
     if cur_tenant env \<noteq> tid then Inl (DBError ''audit_set_event_hash: caller is not in tenant'')
     else if \<not> prefix hashV2Prefix h then Inl (DBError ''audit_set_event_hash: a v2 hash is required'')
     else let hit = (\<lambda>r. r_tenant r = tid \<and> r_id r = i) in
          if length (filter hit (audit_events d)) \<noteq> 1 then Inl (DBError ''audit_set_event_hash: expected 1 event'')
          else Inr ((), d\<lparr>audit_events := map (\<lambda>r. if hit r then set_hashes prev h r else r) (audit_events d)\<rparr>))"

text \<open>Step 1: every event from the subject's first one on must still link and match.\<close>

fun verify_links :: "audit_lib \<Rightarrow> string \<Rightarrow> audit_event list \<Rightarrow> gerr + unit" where
  "verify_links L prev [] = Inr ()"
| "verify_links L prev (e # es) =
     (if ev_PreviousHash e \<noteq> prev then Inl (ErrChainTampered (''event '' @ ev_ID e @ '' does not link to its predecessor''))
      else if expectedHashFor L (ev_PreviousHash e) e \<noteq> ev_EventHash e
      then Inl (ErrChainTampered (''event '' @ ev_ID e @ '' does not match its stored hash''))
      else verify_links L (ev_EventHash e) es)"

text \<open>Step 3: re-hash from the first redacted event on, writing only the links that change.\<close>

fun rechain :: "audit_lib \<Rightarrow> uuid \<Rightarrow> uuid list \<Rightarrow> string \<Rightarrow> bool \<Rightarrow> audit_row list \<Rightarrow> ('x audit_db_scheme, unit) m" where
  "rechain L tid redacted newPrev rechaining [] = tret ()"
| "rechain L tid redacted newPrev rechaining (r # rs) =
     (let rechaining' = (rechaining \<or> r_id r \<in> set redacted) in
      if \<not> rechaining' then rechain L tid redacted (r_event_hash r) False rs
      else with_env (\<lambda>env.
        let e = scan_event env r; nxt = computeEventHash L newPrev e in
        tbind (if nxt \<noteq> ev_EventHash e \<or> newPrev \<noteq> ev_PreviousHash e then audit_set_event_hash tid (r_id r) newPrev nxt else tret ())
          (\<lambda>_. rechain L tid redacted nxt True rs)))"

text \<open>Steps 2 to 4 inside the transaction, and the whole of it.\<close>

definition redact_tx ::
    "audit_lib \<Rightarrow> uuid \<Rightarrow> string \<Rightarrow> (env \<Rightarrow> uuid \<Rightarrow> nat \<Rightarrow> audit_event) \<Rightarrow> ('x audit_db_scheme, nat) m" where
  "redact_tx L tid subjectID marker =
     tbind (audit_redact_subject L tid subjectID) (\<lambda>redacted.
     let n = card (set redacted) in
     if n = 0 then tret 0
     else tbind (sql_read ''re-chain load: '' (\<lambda>env d. Inr (ordered_rows env tid d))) (\<lambda>rows.
          tbind (rechain L tid redacted [] False rows) (\<lambda>_.
          tbind draw_id_or_new (\<lambda>i. with_env (\<lambda>env.
          tbind (appendInTx L tid (marker env i n)) (\<lambda>_. tret n))))))"

definition erase_tx ::
    "audit_lib \<Rightarrow> uuid \<Rightarrow> string \<Rightarrow> (env \<Rightarrow> uuid \<Rightarrow> nat \<Rightarrow> audit_event) \<Rightarrow> ('x audit_db_scheme, nat) m" where
  "erase_tx L tid subjectID marker =
     tbind lockChain (\<lambda>_.
     tbind (load_chain ''verify load: '' tid) (\<lambda>events.
     let earlier = takeWhile (\<lambda>e. ev_Actor e \<noteq> subjectID) events; tail = dropWhile (\<lambda>e. ev_Actor e \<noteq> subjectID) events in
     if tail = [] then tret 0
     else tbind (tlift (verify_links L (if earlier = [] then [] else ev_EventHash (last earlier)) tail)) (\<lambda>_.
          redact_tx L tid subjectID marker)))"

definition AnonymizeAndRechain ::
    "audit_lib \<Rightarrow> string \<Rightarrow> string \<Rightarrow> (env \<Rightarrow> uuid \<Rightarrow> nat \<Rightarrow> audit_event) \<Rightarrow> ('x audit_db_scheme, nat) m" where
  "AnonymizeAndRechain L tenantID subjectID marker = withTenant tenantID (\<lambda>tid. erase_tx L tid subjectID marker)"

section \<open>Checkpoints\<close>

definition HeadAndCount :: "string \<Rightarrow> ('x audit_db_scheme, nat \<times> string) m" where
  "HeadAndCount tenantID = withTenant tenantID (\<lambda>tid. sql_read [] (\<lambda>env d.
     let rs = ordered_rows env tid d in Inr (length rs, if rs = [] then [] else r_event_hash (last rs))))"

text \<open>The database supplies \<open>id\<close> and \<open>created_at\<close>; the id is drawn like any other.\<close>

definition insertCheckpointTx :: "uuid \<Rightarrow> audit_checkpoint \<Rightarrow> ('x audit_db_scheme, audit_checkpoint) m" where
  "insertCheckpointTx tid cp = tbind draw_id_or_new (\<lambda>i. sql [] (\<lambda>env d.
     let cp' = cp\<lparr>cp_TenantID := uuid_String env tid, cp_ID := i, cp_CreatedAt := db_now env\<rparr> in
     if \<not> visible env tid then Inl (DBError ''row violates row-level security policy'')
     else if (tid, i) \<in> (\<lambda>(t, c). (t, cp_ID c)) ` set (audit_checkpoints d) then Inl (DBError ''duplicate key value'')
     else Inr (cp', d\<lparr>audit_checkpoints := audit_checkpoints d @ [(tid, cp')]\<rparr>)))"

definition InsertCheckpoint :: "audit_checkpoint \<Rightarrow> ('x audit_db_scheme, audit_checkpoint) m" where
  "InsertCheckpoint cp = withTenant (cp_TenantID cp) (\<lambda>tid. insertCheckpointTx tid cp)"

definition tenant_checkpoints :: "env \<Rightarrow> uuid \<Rightarrow> 'x audit_db_scheme \<Rightarrow> audit_checkpoint list" where
  "tenant_checkpoints env tid d = rev (sort_key (\<lambda>c. (cp_CreatedAt c, cp_ID c))
     (map snd (filter (\<lambda>r. fst r = tid \<and> visible env (fst r)) (audit_checkpoints d))))"

definition LatestCheckpoint :: "string \<Rightarrow> ('x audit_db_scheme, audit_checkpoint option) m" where
  "LatestCheckpoint tenantID = withTenant tenantID (\<lambda>tid. sql_read [] (\<lambda>env d.
     Inr (case tenant_checkpoints env tid d of [] \<Rightarrow> None | c # _ \<Rightarrow> Some c)))"

definition ListCheckpoints :: "string \<Rightarrow> int \<Rightarrow> ('x audit_db_scheme, audit_checkpoint list) m" where
  "ListCheckpoints tenantID limit =
     (let n = (if limit \<le> 0 \<or> limit > 500 then 100 else nat limit) in
      withTenant tenantID (\<lambda>tid. sql_read [] (\<lambda>env d. Inr (take n (tenant_checkpoints env tid d)))))"

end
