(* ===== verification/Audit_Service.thy ===== *)
theory Audit_Service
  imports Audit_Repo
begin

text \<open>
  The audit service: \<open>services/audit/internal/service/service.go\<close> and \<open>service/rebaseline.go\<close>, with
  \<open>repository/rebaseline.go\<close>, which only the latter calls.
\<close>

section \<open>Appending\<close>

text \<open>\<open>newID()\<close> as text.\<close>

definition newID :: "('d, string) m" where
  "newID = tbind draw_id_or_new (\<lambda>i. with_env (\<lambda>env. tret (uuid_String env i)))"

definition appendChained :: "audit_lib \<Rightarrow> audit_event \<Rightarrow> ('x audit_db_scheme, audit_event) m" where
  "appendChained L e = AppendChained L (e\<lparr>ev_CreatedAt := pg_time (ev_CreatedAt e)\<rparr>)"

text \<open>\<open>json.Unmarshal(raw, &envelope)\<close> into a \<open>map[string]any\<close>: an object, or \<open>null\<close>, which leaves the map nil.\<close>

definition unmarshal_object :: "audit_lib \<Rightarrow> string \<Rightarrow> json option" where
  "unmarshal_object L raw =
     (case json_Unmarshal L raw of Some (JObj fs) \<Rightarrow> Some (JObj fs) | Some JNull \<Rightarrow> Some (JObj []) | _ \<Rightarrow> None)"

definition envelope_data :: "json \<Rightarrow> json" where
  "envelope_data envelope = (case json_field ''data'' envelope of Some (JObj fs) \<Rightarrow> JObj fs | _ \<Rightarrow> envelope)"

text \<open>Prefer the first text, fall back to the second when it is empty.\<close>

definition or_else :: "string \<Rightarrow> string \<Rightarrow> string" where
  "or_else a b = (if a = [] then b else a)"

definition resource_of :: "json \<Rightarrow> json \<Rightarrow> string \<times> string" where
  "resource_of envelope data =
     (let rt = strField data ''resource_type''; ri = strField data ''resource_id'' in
      if rt = [] \<or> ri = []
      then (case splitEnvelopeSubject (strField envelope ''subject'') of
              Some (t, i) \<Rightarrow> (or_else rt t, or_else ri i)
            | None \<Rightarrow> (rt, ri))
      else (rt, ri))"

text \<open>The entry \<open>IngestEvent\<close> derives from an envelope.\<close>

definition ingested :: "string \<Rightarrow> string \<Rightarrow> json \<Rightarrow> string \<Rightarrow> time \<Rightarrow> audit_event" where
  "ingested subject raw envelope i now =
     (let data = envelope_data envelope in
      zero_event\<lparr>
        ev_ID := i,
        ev_TenantID := or_else (strField envelope ''tenantid'') (strField data ''tenant_id''),
        ev_Actor := or_else (strField data ''actor_id'') (strField envelope ''vdmsactorid''),
        ev_ActorName := or_else (strField data ''actor_name'') (strField envelope ''vdmsactorname''),
        ev_Action := or_else (strField envelope ''type'') subject,
        ev_ResourceType := fst (resource_of envelope data),
        ev_ResourceID := snd (resource_of envelope data),
        ev_ResourceTitle := strField data ''resource_title'',
        ev_Details := raw,
        ev_IPAddress := or_else (strField data ''ip_address'') (strField envelope ''vdmsclientip''),
        ev_UserAgent := or_else (strField data ''user_agent'') (strField envelope ''vdmsuseragent''),
        ev_SourceEvent := subject,
        ev_CreatedAt := now\<rparr>)"

definition IngestEvent :: "audit_lib \<Rightarrow> string \<Rightarrow> string \<Rightarrow> ('x audit_db_scheme, audit_event) m" where
  "IngestEvent L subject raw =
     (case unmarshal_object L raw of
        None \<Rightarrow> tfail (DBError ''unmarshal event: '')
      | Some envelope \<Rightarrow>
          if or_else (strField envelope ''tenantid'') (strField (envelope_data envelope) ''tenant_id'') = []
          then tfail (DBError ''event missing tenant_id'')
          else tbind newID (\<lambda>i. with_env (\<lambda>env. appendChained L (ingested subject raw envelope i (go_now env)))))"

definition denied_event :: "audit_lib \<Rightarrow> string \<Rightarrow> string \<Rightarrow> string \<Rightarrow> string \<Rightarrow> string \<Rightarrow> string \<Rightarrow> string \<Rightarrow> time \<Rightarrow> audit_event" where
  "denied_event L tenantID actor actorName action endpoint role i now =
     zero_event\<lparr>ev_ID := i, ev_TenantID := tenantID, ev_Actor := actor, ev_ActorName := actorName,
       ev_Action := ''audit.'' @ action @ ''.denied'',
       ev_Details := json_Marshal L (JObj [(''actual_role'', JStr role), (''endpoint'', JStr endpoint),
                                           (''required_role'', JStr ''admin|owner'')]),
       ev_CreatedAt := now\<rparr>"

definition RecordAccessDenied ::
    "audit_lib \<Rightarrow> string \<Rightarrow> string \<Rightarrow> string \<Rightarrow> string \<Rightarrow> string \<Rightarrow> string \<Rightarrow> ('x audit_db_scheme, audit_event) m" where
  "RecordAccessDenied L tenantID actor actorName action endpoint role =
     (if tenantID = [] then tfail (DBError ''record access denied: empty tenant'')
      else tbind newID (\<lambda>i. with_env (\<lambda>env.
        appendChained L (denied_event L tenantID actor actorName action endpoint role i (go_now env)))))"

section \<open>Checkpoints\<close>

definition signCheckpoint :: "string \<times> (string \<Rightarrow> string) \<Rightarrow> string \<Rightarrow> string \<Rightarrow> int \<Rightarrow> audit_checkpoint" where
  "signCheckpoint key tenantID h count =
     \<lparr>cp_TenantID = tenantID, cp_ID = uuid_Nil, cp_CreatedAt = zero_time, cp_HeadHash = h, cp_EventCount = count,
      cp_Algo = ''ed25519'', cp_KeyID = fst key,
      cp_Signature = b64_encode (snd key (CanonicalCheckpointMessage tenantID h count))\<rparr>"

definition CreateCheckpoint :: "audit_lib \<Rightarrow> string \<Rightarrow> ('x audit_db_scheme, audit_checkpoint) m" where
  "CreateCheckpoint L tenantID =
     (case signer L of
        None \<Rightarrow> tfail ErrSigningDisabled
      | Some key \<Rightarrow>
          tbind (HeadAndCount tenantID) (\<lambda>(count, h).
          if count = 0 \<or> h = [] then tfail (DBError ''no audit events to checkpoint'')
          else InsertCheckpoint (signCheckpoint key tenantID h (int count))))"

section \<open>Verification\<close>

fun verify_loop :: "audit_lib \<Rightarrow> string \<Rightarrow> integrity_result \<Rightarrow> audit_event list \<Rightarrow> integrity_result" where
  "verify_loop L prevHash res [] = res"
| "verify_loop L prevHash res (e # es) =
     (if ev_EventHash e \<noteq> expectedHashFor L prevHash e
      then res\<lparr>ir_Valid := False, ir_BrokenAt := ev_ID e, ir_BrokenHash := ev_EventHash e,
               ir_ExpectedHash := expectedHashFor L prevHash e\<rparr>
      else verify_loop L (ev_EventHash e) (res\<lparr>ir_Verified := ir_Verified res + 1\<rparr>) es)"

definition start_result :: "string \<Rightarrow> nat \<Rightarrow> integrity_result" where
  "start_result tenantID n = \<lparr>ir_TenantID = tenantID, ir_TotalEvents = n, ir_Verified = 0, ir_BrokenAt = [],
     ir_BrokenHash = [], ir_ExpectedHash = [], ir_Valid = True, ir_CheckpointValid = False, ir_CheckpointAt = [],
     ir_CheckpointCount = 0, ir_CheckpointMessage = []\<rparr>"

text \<open>
  The body of \<open>verifyLatestCheckpoint\<close> for a loaded checkpoint. Indexing the events with a count below
  one would be a Go panic; \<open>None\<close> stands for it.
\<close>

definition check_checkpoint ::
    "audit_lib \<Rightarrow> env \<Rightarrow> audit_checkpoint \<Rightarrow> audit_event list \<Rightarrow> integrity_result \<Rightarrow> integrity_result option" where
  "check_checkpoint L env cp events res0 =
     (let res = res0\<lparr>ir_CheckpointAt := format_RFC3339_in (local_offset env (cp_CreatedAt cp)) (cp_CreatedAt cp),
                     ir_CheckpointCount := cp_EventCount cp\<rparr> in
      if signer L = None \<or> cp_KeyID cp \<noteq> fst (the (signer L))
      then Some (res\<lparr>ir_CheckpointMessage := ''signing key unavailable to verify checkpoint (key_id '' @ cp_KeyID cp @ '')''\<rparr>)
      else case b64_decode (cp_Signature cp) of
        None \<Rightarrow> Some (res\<lparr>ir_CheckpointMessage := ''checkpoint signature not decodable''\<rparr>)
      | Some sig \<Rightarrow>
          if \<not> ed_verify L (CanonicalCheckpointMessage (cp_TenantID cp) (cp_HeadHash cp) (cp_EventCount cp)) sig
          then Some (res\<lparr>ir_CheckpointMessage := ''checkpoint signature INVALID''\<rparr>)
          else if cp_EventCount cp > int (length events)
          then Some (res\<lparr>ir_CheckpointMessage := ''checkpoint covers '' @ show_int (cp_EventCount cp)
                 @ '' events but only '' @ show_nat (length events) @ '' present (truncation?)''\<rparr>)
          else if cp_EventCount cp < 1 then None
          else if ev_EventHash (events ! nat (cp_EventCount cp - 1)) \<noteq> cp_HeadHash cp
          then Some (res\<lparr>ir_CheckpointMessage := ''chain head at checkpoint does not match signed head (tamper)''\<rparr>)
          else Some (res\<lparr>ir_CheckpointValid := True,
                 ir_CheckpointMessage := ''signature valid; chain head matches signed checkpoint''\<rparr>))"

definition verifyLatestCheckpoint ::
    "audit_lib \<Rightarrow> string \<Rightarrow> audit_event list \<Rightarrow> integrity_result \<Rightarrow> ('x audit_db_scheme, integrity_result) m" where
  "verifyLatestCheckpoint L tenantID events res = (\<lambda>env w.
     case LatestCheckpoint tenantID env w of
       (Inl e, w') \<Rightarrow> (Inr (res\<lparr>ir_CheckpointMessage := ''checkpoint lookup failed: ''\<rparr>), w')
     | (Inr None, w') \<Rightarrow> (Inr (res\<lparr>ir_CheckpointMessage := ''no signed checkpoint''\<rparr>), w')
     | (Inr (Some cp), w') \<Rightarrow>
         (case check_checkpoint L env cp events res of
            None \<Rightarrow> (Inl (DBError ''panic: index out of range''), w')
          | Some r \<Rightarrow> (Inr r, w')))"

definition VerifyIntegrity :: "audit_lib \<Rightarrow> string \<Rightarrow> ('x audit_db_scheme, integrity_result) m" where
  "VerifyIntegrity L tenantID =
     tbind (ListAll tenantID) (\<lambda>events.
     let res = verify_loop L [] (start_result tenantID (length events)) events in
     if \<not> ir_Valid res then tret res else verifyLatestCheckpoint L tenantID events res)"

definition MerkleProofForResource :: "audit_lib \<Rightarrow> string \<Rightarrow> string \<Rightarrow> string \<Rightarrow> ('x audit_db_scheme, merkle_proof) m" where
  "MerkleProofForResource L tenantID resourceType resourceID =
     tbind (List_page L \<lparr>lf_TenantID = tenantID, lf_Actor = [], lf_Action = [], lf_ResourceType = resourceType,
        lf_ResourceID = resourceID, lf_DateFrom = None, lf_DateTo = None, lf_PageSize = 10000, lf_PageToken = None\<rparr>)
       (\<lambda>(events, _). tret (buildMerkleProof L tenantID resourceType resourceID events))"

section \<open>Data subjects\<close>

definition ExportSubject :: "string \<Rightarrow> string \<Rightarrow> ('x audit_db_scheme, string \<times> audit_event list \<times> time) m" where
  "ExportSubject tenantID subjectID =
     tbind (ListBySubject tenantID subjectID) (\<lambda>events. with_env (\<lambda>env. tret (subjectID, events, go_now env)))"

text \<open>The \<open>audit.subject_erased\<close> marker.\<close>

definition erasure_marker ::
    "audit_lib \<Rightarrow> string \<Rightarrow> string \<Rightarrow> string \<Rightarrow> string \<Rightarrow> env \<Rightarrow> uuid \<Rightarrow> nat \<Rightarrow> audit_event" where
  "erasure_marker L tenantID subjectID actorID actorName env i redacted =
     zero_event\<lparr>ev_ID := uuid_String env i, ev_TenantID := tenantID, ev_Actor := actorID, ev_ActorName := actorName,
       ev_Action := ''audit.subject_erased'',
       ev_Details := json_Marshal L (JObj [(''redacted_count'', JNum (int redacted)),
                                           (''subject_hash'', JStr (hex_encode (sha256 L subjectID)))]),
       ev_CreatedAt := pg_time (go_now env)\<rparr>"

definition AnonymizeSubject :: "audit_lib \<Rightarrow> string \<Rightarrow> string \<Rightarrow> string \<Rightarrow> string \<Rightarrow> ('x audit_db_scheme, nat) m" where
  "AnonymizeSubject L tenantID subjectID actorID actorName = with_env (\<lambda>env.
     if uuid_Parse env actorID = None \<or> uuid_Parse env actorID = Some uuid_Nil then tfail ErrActorRequired
     else tbind (AnonymizeAndRechain L tenantID subjectID (erasure_marker L tenantID subjectID actorID actorName)) (\<lambda>n.
       if n = 0 then tret 0
       else (\<lambda>env w. case CreateCheckpoint L tenantID env w of (_, w') \<Rightarrow> (Inr n, w'))))"

section \<open>Re-baselining (\<open>rebaseline.go\<close>)\<close>

record rebaseline_result =
  rb_Events :: nat
  rb_Rewritten :: nat
  rb_First :: "(string \<times> time) option"
  rb_Last :: "(string \<times> time) option"
  rb_AtOrAfterCutover :: nat
  rb_OldHead :: string
  rb_NewHead :: string
  rb_Applied :: bool
  rb_CutoverConsidered :: bool

text \<open>The walk: the result and the rewrites \<open>(id, previous hash, hash)\<close>, in chain order.\<close>

fun rebaseline_walk ::
    "audit_lib \<Rightarrow> env \<Rightarrow> time option \<Rightarrow> string \<Rightarrow> rebaseline_result \<Rightarrow> audit_row list \<Rightarrow>
     rebaseline_result \<times> (uuid \<times> string \<times> string) list" where
  "rebaseline_walk L env cutover prev res [] = (res\<lparr>rb_NewHead := prev\<rparr>, [])"
| "rebaseline_walk L env cutover prev res (r # rs) =
     (let e = scan_event env r; want = expectedHashFor L prev e;
          differs = (want \<noteq> ev_EventHash e \<or> prev \<noteq> ev_PreviousHash e);
          d = (ev_ID e, ev_CreatedAt e);
          res1 = (if differs
                  then res\<lparr>rb_Rewritten := rb_Rewritten res + 1,
                           rb_First := (case rb_First res of None \<Rightarrow> Some d | x \<Rightarrow> x), rb_Last := Some d,
                           rb_AtOrAfterCutover := rb_AtOrAfterCutover res
                             + (case cutover of None \<Rightarrow> 0 | Some c \<Rightarrow> if ev_CreatedAt e < c then 0 else 1)\<rparr>
                  else res);
          res2 = res1\<lparr>rb_OldHead := ev_EventHash e\<rparr>
      in case rebaseline_walk L env cutover want res2 rs of
           (res', ws) \<Rightarrow> (res', if differs then (r_id r, prev, want) # ws else ws))"

text \<open>\<open>UPDATE audit_events SET previous_hash, event_hash WHERE tenant_id AND id\<close>.\<close>

definition rewrite_event :: "uuid \<Rightarrow> uuid \<times> string \<times> string \<Rightarrow> ('x audit_db_scheme, unit) m" where
  "rewrite_event tid = (\<lambda>(i, prev, h). sql ''rebaseline event: '' (\<lambda>env d. Inr ((),
     d\<lparr>audit_events := map (\<lambda>r. if r_tenant r = tid \<and> visible env (r_tenant r) \<and> r_id r = i
                              then set_hashes prev h r else r) (audit_events d)\<rparr>)))"

definition zero_rebaseline :: rebaseline_result where
  "zero_rebaseline = \<lparr>rb_Events = 0, rb_Rewritten = 0, rb_First = None, rb_Last = None, rb_AtOrAfterCutover = 0,
     rb_OldHead = [], rb_NewHead = [], rb_Applied = False, rb_CutoverConsidered = False\<rparr>"

text \<open>The transaction's body once the chain is loaded.\<close>

definition rebaseline_tx ::
    "audit_lib \<Rightarrow> uuid \<Rightarrow> bool \<Rightarrow> time option \<Rightarrow> (env \<Rightarrow> uuid \<Rightarrow> string \<Rightarrow> string \<Rightarrow> nat \<Rightarrow> audit_event) \<Rightarrow>
     (string \<Rightarrow> int \<Rightarrow> audit_checkpoint) option \<Rightarrow> audit_row list \<Rightarrow> ('x audit_db_scheme, rebaseline_result) m" where
  "rebaseline_tx L tid apply cutover marker sign rows = with_env (\<lambda>env.
     case rebaseline_walk L env cutover []
            (zero_rebaseline\<lparr>rb_Events := length rows, rb_CutoverConsidered := (cutover \<noteq> None)\<rparr>) rows of
       (res, rewrites) \<Rightarrow>
         if \<not> apply \<or> rb_Rewritten res = 0 then tret res
         else if rb_AtOrAfterCutover res > 0 then tfail ErrDifferingAfterCutover
         else tbind (tfor rewrites (rewrite_event tid)) (\<lambda>_.
              tbind draw_id_or_new (\<lambda>i.
              tbind (appendInTx L tid (marker env i (rb_OldHead res) (rb_NewHead res) (rb_Rewritten res))) (\<lambda>m.
              tbind (insertCheckpointTx tid (the sign (ev_EventHash m) (int (length rows) + 1))) (\<lambda>_.
              tret (res\<lparr>rb_Applied := True\<rparr>))))))"

definition RebaselineChain ::
    "audit_lib \<Rightarrow> string \<Rightarrow> bool \<Rightarrow> time option \<Rightarrow> (env \<Rightarrow> uuid \<Rightarrow> string \<Rightarrow> string \<Rightarrow> nat \<Rightarrow> audit_event) \<Rightarrow>
     (string \<Rightarrow> int \<Rightarrow> audit_checkpoint) option \<Rightarrow> ('x audit_db_scheme, rebaseline_result) m" where
  "RebaselineChain L tenantID apply cutover marker sign =
     (if apply \<and> cutover = None then tfail (DBError ''rebaseline: apply requires a cutover'')
      else if apply \<and> sign = None then tfail (DBError ''rebaseline: apply requires a checkpoint signer'')
      else withTenant tenantID (\<lambda>tid.
        tbind lockChain (\<lambda>_.
        tbind (sql_read ''rebaseline load: '' (\<lambda>env d. Inr (ordered_rows env tid d))) (\<lambda>rows.
        rebaseline_tx L tid apply cutover marker sign rows))))"

text \<open>\<open>mayResign\<close>: the pair is \<open>(sign, noCheckpoint)\<close>.\<close>

definition may_resign ::
    "audit_lib \<Rightarrow> bool \<Rightarrow> audit_event list \<Rightarrow> audit_checkpoint option \<Rightarrow> gerr + bool \<times> bool" where
  "may_resign L allowFirst events latest =
     (case latest of
        None \<Rightarrow> if allowFirst then Inr (True, True)
                else Inl (ErrUncertifiedHead ''the tenant has no checkpoint'')
      | Some cp \<Rightarrow>
          if cp_HeadHash cp = ev_EventHash (last events) \<and> cp_EventCount cp = int (length events) then Inr (False, False)
          else let msg = CanonicalCheckpointMessage (cp_TenantID cp) (cp_HeadHash cp) (cp_EventCount cp) in
               if (case b64_decode (cp_Signature cp) of None \<Rightarrow> True | Some sig \<Rightarrow>
                     cp_KeyID cp \<noteq> (case signer L of None \<Rightarrow> [] | Some k \<Rightarrow> fst k) \<or> \<not> ed_verify L msg sig)
               then Inl (ErrUncertifiedHead ''latest checkpoint signature does not verify with this key'')
               else if cp_EventCount cp \<ge> 1 \<and> cp_EventCount cp \<le> int (length events)
                       \<and> ev_EventHash (events ! nat (cp_EventCount cp - 1)) = cp_HeadHash cp
               then Inr (True, False)
               else Inl (ErrUncertifiedHead ''the signed prefix no longer matches the chain''))"

definition mayResign :: "audit_lib \<Rightarrow> string \<Rightarrow> bool \<Rightarrow> ('x audit_db_scheme, bool \<times> bool) m" where
  "mayResign L tenantID allowFirst =
     tbind (ListAll tenantID) (\<lambda>events.
     if events = [] then tret (False, False)
     else tbind (LatestCheckpoint tenantID) (\<lambda>cp. tlift (may_resign L allowFirst events cp)))"

record rebaseline_options =
  op_Apply :: bool
  op_Operator :: string
  op_Cutover :: "time option"
  op_AllowFirst :: bool

text \<open>The \<open>audit.chain_rebaselined\<close> marker; it is built only when a cutover is given.\<close>

definition rebaseline_marker ::
    "audit_lib \<Rightarrow> string \<Rightarrow> rebaseline_options \<Rightarrow> env \<Rightarrow> uuid \<Rightarrow> string \<Rightarrow> string \<Rightarrow> nat \<Rightarrow> audit_event" where
  "rebaseline_marker L tenantID opt env i oldHead newHead rewritten =
     zero_event\<lparr>ev_ID := uuid_String env i, ev_TenantID := tenantID, ev_ActorName := op_Operator opt,
       ev_Action := ''audit.chain_rebaselined'',
       ev_Details := json_Marshal L (JObj [(''cutover'', JStr (format_RFC3339 (the (op_Cutover opt)))),
          (''new_head_hash'', JStr newHead), (''old_head_hash'', JStr oldHead), (''operator'', JStr (op_Operator opt)),
          (''reason'', JStr ''one-time cutover to canonical event hashes''), (''rewritten_count'', JNum (int rewritten))]),
       ev_CreatedAt := pg_time (go_now env)\<rparr>"

text \<open>
  The outcome: the chain's result and the flags \<open>Checkpointed\<close> and \<open>NoCheckpoint\<close>. The partial result Go
  returns beside an error is left out.
\<close>

definition Rebaseline :: "audit_lib \<Rightarrow> string \<Rightarrow> rebaseline_options \<Rightarrow> ('x audit_db_scheme, rebaseline_result \<times> bool \<times> bool) m" where
  "Rebaseline L tenantID opt =
     (if op_Apply opt \<and> signer L = None then tfail ErrSigningDisabled
      else tbind (RebaselineChain L tenantID (op_Apply opt) (op_Cutover opt) (rebaseline_marker L tenantID opt)
                    (map_option (\<lambda>key. signCheckpoint key tenantID) (signer L))) (\<lambda>res.
        if rb_Applied res then tret (res, True, False)
        else if \<not> op_Apply opt \<or> rb_Rewritten res > 0 then tret (res, False, False)
        else tbind (mayResign L tenantID (op_AllowFirst opt)) (\<lambda>(resign, noCheckpoint).
          if \<not> resign then tret (res, False, noCheckpoint)
          else tbind (CreateCheckpoint L tenantID) (\<lambda>_. tret (res, True, noCheckpoint)))))"

end
