(* ===== verification/Audit_Chain.thy ===== *)
theory Audit_Chain
  imports Audit_Service
begin

text \<open>
  Hash chains. An abstract interface, \<open>hash_chain\<close>, says what tamper evidence needs of a link function;
  the audit service's hash functions provide it: the length-prefixed framing is injective, so two equal
  hashes either cover equal fields or exhibit a collision of the digest.
\<close>

section \<open>Chains in general\<close>

fun chain_from :: "('h \<Rightarrow> 'e \<Rightarrow> 'h) \<Rightarrow> ('e \<Rightarrow> 'h) \<Rightarrow> 'h \<Rightarrow> 'e list \<Rightarrow> bool" where
  "chain_from expected stored prev [] = True"
| "chain_from expected stored prev (e # es) \<longleftrightarrow>
     stored e = expected prev e \<and> chain_from expected stored (stored e) es"

definition head_from :: "('e \<Rightarrow> 'h) \<Rightarrow> 'h \<Rightarrow> 'e list \<Rightarrow> 'h" where
  "head_from stored prev es = (if es = [] then prev else stored (last es))"

lemma head_from_simps [simp]:
  "head_from stored prev [] = prev" "head_from stored prev (es @ [e]) = stored e"
  "head_from stored prev (e # es) = head_from stored (stored e) es"
  by (simp_all add: head_from_def)

lemma chain_from_append:
  "chain_from f s prev (xs @ ys) \<longleftrightarrow> chain_from f s prev xs \<and> chain_from f s (head_from s prev xs) ys"
  by (induction xs arbitrary: prev) auto

text \<open>The messages a verifier hashes along a chain.\<close>

fun chain_messages :: "('h \<Rightarrow> 'e \<Rightarrow> 'm) \<Rightarrow> ('e \<Rightarrow> 'h) \<Rightarrow> 'h \<Rightarrow> 'e list \<Rightarrow> 'm list" where
  "chain_messages msg stored prev [] = []"
| "chain_messages msg stored prev (e # es) = msg prev e # chain_messages msg stored (stored e) es"

lemma chain_messages_append:
  "chain_messages msg s prev (xs @ ys) = chain_messages msg s prev xs @ chain_messages msg s (head_from s prev xs) ys"
  by (induction xs arbitrary: prev) auto

lemma length_chain_messages [simp]: "length (chain_messages msg s prev es) = length es"
  by (induction es arbitrary: prev) auto

text \<open>Two different messages at the same position of two chains with the same digest.\<close>

definition collision_between :: "('m \<Rightarrow> 'd) \<Rightarrow> 'm list \<Rightarrow> 'm list \<Rightarrow> bool" where
  "collision_between digest ms ms' \<longleftrightarrow> (\<exists>(m, m') \<in> set (zip ms ms'). m \<noteq> m' \<and> digest m = digest m')"

lemma collision_between_snoc:
  "length ms = length ms' \<Longrightarrow>
   collision_between g (ms @ [m]) (ms' @ [m']) \<longleftrightarrow> collision_between g ms ms' \<or> m \<noteq> m' \<and> g m = g m'"
  by (auto simp: collision_between_def)

locale hash_chain =
  fixes expected :: "'h \<Rightarrow> 'e \<Rightarrow> 'h"
    and stored :: "'e \<Rightarrow> 'h"
    and sealed :: "'h \<Rightarrow> bool"
    and message :: "'h \<Rightarrow> 'e \<Rightarrow> 'm"
    and digest :: "'m \<Rightarrow> 'd"
    and content :: "'e \<Rightarrow> 'c"
  assumes sealed_digest:
      "sealed (stored e) \<Longrightarrow> sealed (stored e') \<Longrightarrow> expected p e = expected p' e' \<Longrightarrow> digest (message p e) = digest (message p' e')"
    and message_inj: "message p e = message p' e' \<Longrightarrow> p = p' \<and> content e = content e'"
begin

text \<open>The head hash of a verified chain pins the whole chain, up to a collision.\<close>

lemma head_pins_chain:
  assumes "chain_from expected stored p es" "chain_from expected stored p es'" "length es = length es'"
    and "head_from stored p es = head_from stored p es'" "\<forall>e \<in> set es. sealed (stored e)"
  shows "collision_between digest (chain_messages message stored p es) (chain_messages message stored p es')
         \<or> map content es = map content es' \<and> map stored es = map stored es'"
  using assms
proof (induction es arbitrary: es' rule: rev_induct)
  case Nil
  then show ?case by simp
next
  case (snoc x xs)
  then obtain ys y where es': "es' = ys @ [y]" and len: "length xs = length ys"
    by (cases es' rule: rev_cases) auto
  let ?h = "head_from stored p xs" and ?h' = "head_from stored p ys"
  have st: "stored x = stored y" "stored x = expected ?h x" "stored y = expected ?h' y"
    and ch: "chain_from expected stored p xs" "chain_from expected stored p ys"
    using snoc.prems es' by (auto simp: chain_from_append)
  have "digest (message ?h x) = digest (message ?h' y)"
    using st snoc.prems(5) by (intro sealed_digest) auto
  then consider (coll) "message ?h x \<noteq> message ?h' y" "digest (message ?h x) = digest (message ?h' y)"
    | (same) "?h = ?h'" "content x = content y" using message_inj by blast
  then show ?case
  proof cases
    case coll
    then show ?thesis using es' len by (simp add: chain_messages_append collision_between_snoc)
  next
    case same
    then show ?thesis
      using snoc.IH [OF ch len same(1)] snoc.prems(5) st es' len
      by (auto simp: chain_messages_append collision_between_snoc)
  qed
qed

end

section \<open>Framing\<close>

lemma digits_colon_inj:
  assumes "ds @ CHR '':'' # u = ds' @ CHR '':'' # v" "\<forall>c \<in> set ds. is_digit c" "\<forall>c \<in> set ds'. is_digit c"
  shows "ds = ds' \<and> u = v"
proof -
  have colon: "\<not> is_digit (CHR '':'')" by (simp add: is_digit_def)
  have "takeWhile is_digit (ds @ CHR '':'' # u) = ds" "takeWhile is_digit (ds' @ CHR '':'' # v) = ds'"
    using assms(2,3) colon by (simp_all add: takeWhile_append)
  with assms(1) show ?thesis by simp
qed

lemma frame_append_inj: "frame s @ r = frame t @ r' \<Longrightarrow> s = t \<and> r = r'"
proof -
  assume "frame s @ r = frame t @ r'"
  then have "show_nat (length s) @ CHR '':'' # s @ r = show_nat (length t) @ CHR '':'' # t @ r'"
    by (simp add: frame_def)
  then have "show_nat (length s) = show_nat (length t) \<and> s @ r = t @ r'"
    by (rule digits_colon_inj) (auto dest: show_nat_digits)
  then show ?thesis by (metis append_eq_append_conv show_nat_inj)
qed

lemma frame_nonempty [simp]: "frame s \<noteq> []"
  by (simp add: frame_def)

lemma framed_fields: "concat (map frame xs) = concat (map frame ys) \<Longrightarrow> xs = ys"
proof (induction xs arbitrary: ys)
  case Nil
  then show ?case by (cases ys) auto
next
  case (Cons x xs)
  then obtain y ys' where ys: "ys = y # ys'" by (cases ys) auto
  with Cons.prems have "x = y \<and> concat (map frame xs) = concat (map frame ys')"
    by (intro frame_append_inj) simp
  with Cons.IH ys show ?case by blast
qed

text \<open>What the hash of an event covers besides the previous hash.\<close>

definition event_content :: "audit_event \<Rightarrow> string list" where
  "event_content e = tl (hashed_fields [] e)"

lemma hashed_fields_content: "hashed_fields p e = p # event_content e"
  by (simp add: hashed_fields_def event_content_def)

lemma hash_message_eq: "hash_message p e = hash_message p' e' \<longleftrightarrow> p = p' \<and> event_content e = event_content e'"
proof
  assume "hash_message p e = hash_message p' e'"
  then have "hashed_fields p e = hashed_fields p' e'" unfolding hash_message_def by (rule framed_fields)
  then show "p = p' \<and> event_content e = event_content e'" by (simp add: hashed_fields_content)
qed (simp add: hash_message_def hashed_fields_content)

text \<open>
  Property C19. No field can bleed into its neighbour: the byte string a v2 hash is computed over
  determines the previous hash and every field of the event (the creation time in its rendered form),
  whatever bytes the fields contain.
\<close>

theorem hash_message_injective:
  "hash_message p e = hash_message p' e' \<longleftrightarrow>
     p = p' \<and> ev_ID e = ev_ID e' \<and> ev_TenantID e = ev_TenantID e' \<and> ev_Actor e = ev_Actor e'
     \<and> ev_ActorName e = ev_ActorName e' \<and> ev_Action e = ev_Action e' \<and> ev_ResourceType e = ev_ResourceType e'
     \<and> ev_ResourceID e = ev_ResourceID e' \<and> ev_ResourceTitle e = ev_ResourceTitle e' \<and> ev_Details e = ev_Details e'
     \<and> ev_IPAddress e = ev_IPAddress e' \<and> ev_UserAgent e = ev_UserAgent e' \<and> ev_SourceEvent e = ev_SourceEvent e'
     \<and> format_RFC3339Nano (ev_CreatedAt e) = format_RFC3339Nano (ev_CreatedAt e')"
  by (simp add: hash_message_eq event_content_def hashed_fields_def)

section \<open>The audit chain\<close>

lemma expected_v2: "prefix hashV2Prefix (ev_EventHash e) \<Longrightarrow> expectedHashFor L p e = computeEventHash L p e"
  by (simp add: expectedHashFor_def)

lemma computeEventHash_v2 [simp]: "prefix hashV2Prefix (computeEventHash L p e)"
  by (simp add: computeEventHash_def)

interpretation audit_chain: hash_chain "expectedHashFor L" ev_EventHash "prefix hashV2Prefix" hash_message "sha256 L" event_content
  for L
proof
  fix e e' p p'
  assume "prefix hashV2Prefix (ev_EventHash e)" "prefix hashV2Prefix (ev_EventHash e')"
    and "expectedHashFor L p e = expectedHashFor L p' e'"
  then show "sha256 L (hash_message p e) = sha256 L (hash_message p' e')"
    by (simp add: expected_v2 computeEventHash_def)
qed (simp add: hash_message_eq)

abbreviation chain_ok :: "audit_lib \<Rightarrow> string \<Rightarrow> audit_event list \<Rightarrow> bool" where
  "chain_ok L \<equiv> chain_from (expectedHashFor L) ev_EventHash"

text \<open>The loop of \<open>VerifyIntegrity\<close> decides exactly this, and names the first event that fails.\<close>

lemma verify_loop_valid:
  "ir_Valid res \<Longrightarrow> ir_Valid (verify_loop L p res es) \<longleftrightarrow> chain_ok L p es"
  by (induction L p res es rule: verify_loop.induct) auto

lemma verify_loop_result:
  "chain_ok L p es \<Longrightarrow> verify_loop L p res es = res\<lparr>ir_Verified := ir_Verified res + length es\<rparr>"
  by (induction L p res es rule: verify_loop.induct) auto

lemma verify_loop_break:
  assumes "\<not> chain_ok L p es"
  shows "\<exists>xs e ys. es = xs @ e # ys \<and> chain_ok L p xs
     \<and> ev_EventHash e \<noteq> expectedHashFor L (head_from ev_EventHash p xs) e
     \<and> verify_loop L p res es = res\<lparr>ir_Verified := ir_Verified res + length xs, ir_Valid := False,
          ir_BrokenAt := ev_ID e, ir_BrokenHash := ev_EventHash e,
          ir_ExpectedHash := expectedHashFor L (head_from ev_EventHash p xs) e\<rparr>"
  using assms
proof (induction es arbitrary: p res)
  case Nil
  then show ?case by simp
next
  case (Cons e es)
  show ?case
  proof (cases "ev_EventHash e = expectedHashFor L p e")
    case False
    then show ?thesis by (intro exI [of _ "[]"] exI [of _ e] exI [of _ es]) simp
  next
    case True
    with Cons.prems have "\<not> chain_ok L (ev_EventHash e) es" by simp
    from Cons.IH [OF this, of "res\<lparr>ir_Verified := ir_Verified res + 1\<rparr>"]
    obtain xs x ys where "es = xs @ x # ys" "chain_ok L (ev_EventHash e) xs"
      "ev_EventHash x \<noteq> expectedHashFor L (head_from ev_EventHash (ev_EventHash e) xs) x"
      "verify_loop L (ev_EventHash e) (res\<lparr>ir_Verified := ir_Verified res + 1\<rparr>) es
        = res\<lparr>ir_Verified := Suc (ir_Verified res + length xs), ir_Valid := False, ir_BrokenAt := ev_ID x,
             ir_BrokenHash := ev_EventHash x, ir_ExpectedHash := expectedHashFor L (head_from ev_EventHash (ev_EventHash e) xs) x\<rparr>"
      by auto
    with True show ?thesis by (intro exI [of _ "e # xs"] exI [of _ x] exI [of _ ys]) simp
  qed
qed

text \<open>
  Property C27. The verification loop accepts a chain exactly when every stored hash is the one
  recomputed from the event and its predecessor, and then has counted all events; otherwise it stops at
  the first event that differs, having counted exactly the events before it, and reports that event with
  both hashes.
\<close>

theorem verify_loop_decides:
  "if chain_ok L p es
   then verify_loop L p res es = res\<lparr>ir_Verified := ir_Verified res + length es\<rparr>
   else \<exists>xs e ys. es = xs @ e # ys \<and> chain_ok L p xs
     \<and> ev_EventHash e \<noteq> expectedHashFor L (head_from ev_EventHash p xs) e
     \<and> verify_loop L p res es = res\<lparr>ir_Verified := ir_Verified res + length xs, ir_Valid := False,
          ir_BrokenAt := ev_ID e, ir_BrokenHash := ev_EventHash e,
          ir_ExpectedHash := expectedHashFor L (head_from ev_EventHash p xs) e\<rparr>"
  using verify_loop_result verify_loop_break by simp

section \<open>Chains as the service writes them\<close>

text \<open>Every event carries its predecessor's hash and a v2 hash over the values as stored.\<close>

fun linked :: "audit_lib \<Rightarrow> string \<Rightarrow> audit_event list \<Rightarrow> bool" where
  "linked L p [] = True"
| "linked L p (e # es) \<longleftrightarrow> ev_PreviousHash e = p \<and> ev_EventHash e = computeEventHash L p e \<and> linked L (ev_EventHash e) es"

lemma linked_append: "linked L p (xs @ ys) \<longleftrightarrow> linked L p xs \<and> linked L (head_from ev_EventHash p xs) ys"
  by (induction xs arbitrary: p) auto

lemma linked_sealed: "linked L p es \<Longrightarrow> \<forall>e \<in> set es. prefix hashV2Prefix (ev_EventHash e)"
  by (induction es arbitrary: p) auto

lemma linked_chain_ok: "linked L p es \<Longrightarrow> chain_ok L p es"
  by (induction es arbitrary: p) (auto simp: expected_v2)

lemma linked_verifies: "linked L p es \<Longrightarrow> verify_links L p es = Inr ()"
  by (induction es arbitrary: p) (auto simp: expected_v2)

lemma linked_self: "linked L p es \<Longrightarrow> e \<in> set es \<Longrightarrow> ev_EventHash e = expectedHashFor L (ev_PreviousHash e) e"
  by (induction es arbitrary: p) (auto simp: expected_v2)

lemma verify_links_ok:
  "verify_links L p es = Inr () \<longleftrightarrow> chain_ok L p es \<and> map ev_PreviousHash es = butlast (p # map ev_EventHash es)"
proof (induction es arbitrary: p)
  case Nil
  then show ?case by simp
next
  case (Cons e es)
  then show ?case by (cases es) auto
qed

end
