(* ===== verification/Audit_Append.thy ===== *)
theory Audit_Append
  imports Audit_Chain "HOL-Library.Multiset"
begin

text \<open>
  What an append does to a tenant's trail: the row reads back as the very event that was hashed, it is
  the last one in the order the verifier walks, and its creation time is strictly after every earlier
  one. The assumptions on PostgreSQL are its documented text conversions, \<open>pg_laws\<close>.
\<close>

section \<open>Reading back what was stored\<close>

text \<open>
  Converting a value that PostgreSQL itself rendered gives the same value: \<open>jsonb\<close> text, \<open>host(inet)\<close>,
  and uuids in their canonical form, which both \<open>uuid.Parse\<close> and the cast to \<open>uuid\<close> accept.
\<close>

definition pg_laws :: "audit_lib \<Rightarrow> env \<Rightarrow> bool" where
  "pg_laws L env \<longleftrightarrow>
     (\<forall>s t. jsonb_text L s = Some t \<longrightarrow> jsonb_text L t = Some t)
     \<and> (\<forall>s t. inet_host L s = Some t \<longrightarrow> inet_host L t = Some t \<and> t \<noteq> [])
     \<and> (\<forall>u. pg_uuid L (uuid_String env u) = Some u \<and> uuid_Parse env (uuid_String env u) = Some u \<and> uuid_String env u \<noteq> [])"

lemma pg_laws_tenant [simp]: "pg_laws L (env\<lparr>cur_tenant := t\<rparr>) = pg_laws L env"
  by (simp add: pg_laws_def)

lemma scan_event_cong: "uuid_String env = uuid_String env' \<Longrightarrow> scan_event env = scan_event env'"
  by (rule ext) (simp add: scan_event_def split: option.splits)

lemma scan_event_tenant [simp]: "scan_event (env\<lparr>cur_tenant := t\<rparr>) = scan_event env"
  by (rule scan_event_cong) simp

lemma scan_event_fields [simp]:
  "ev_ID (scan_event env r) = uuid_String env (r_id r)" "ev_TenantID (scan_event env r) = uuid_String env (r_tenant r)"
  "ev_EventHash (scan_event env r) = r_event_hash r" "ev_PreviousHash (scan_event env r) = coalesce (r_previous_hash r)"
  "ev_Actor (scan_event env r) = r_actor r" "ev_CreatedAt (scan_event env r) = r_created_at r"
  by (simp_all add: scan_event_def)

text \<open>An event all of whose fields already have the form PostgreSQL hands back.\<close>

definition canonical :: "audit_lib \<Rightarrow> env \<Rightarrow> uuid \<Rightarrow> audit_event \<Rightarrow> bool" where
  "canonical L env tid e \<longleftrightarrow>
     ev_TenantID e = uuid_String env tid \<and> (\<exists>i. ev_ID e = uuid_String env i)
     \<and> jsonb_text L (ev_Details e) = Some (ev_Details e)
     \<and> (ev_IPAddress e = [] \<or> inet_host L (ev_IPAddress e) = Some (ev_IPAddress e))
     \<and> (ev_ResourceID e = [] \<or> (\<exists>u. ev_ResourceID e = uuid_String env u))
     \<and> pg_time (ev_CreatedAt e) = ev_CreatedAt e"

lemma cast_or_null_Inr:
  "cast_or_null l f s = Inr x \<longleftrightarrow> (if s = [] then x = None else \<exists>v. f s = Some v \<and> x = Some v)"
  by (auto simp: cast_or_null_def split: option.splits)

lemma row_of_event_reads_back:
  assumes laws: "pg_laws L env" and can: "canonical L env tid e" and row: "row_of_event L env tid e = Inr r"
  shows "scan_event env r = e" "r_tenant r = tid" "r_created_at r = ev_CreatedAt e"
proof -
  from can obtain i where i: "ev_ID e = uuid_String env i" by (auto simp: canonical_def)
  from row obtain actorID resourceID ip where
    c: "cast_or_null [] (pg_uuid L) (ev_ResourceID e) = Inr resourceID" "cast_or_null [] (inet_host L) (ev_IPAddress e) = Inr ip"
    and r: "r = \<lparr>r_id = i, r_tenant = tid, r_event_hash = ev_EventHash e, r_previous_hash = Some (ev_PreviousHash e),
           r_actor = ev_Actor e, r_actor_id = actorID, r_actor_name = ev_ActorName e,
           r_actor_type = (if ev_Actor e = [] then ''system'' else ''user''),
           r_action = ev_Action e, r_resource_type = nullif (ev_ResourceType e), r_resource_id = resourceID,
           r_resource_title = nullif (ev_ResourceTitle e), r_details = ev_Details e, r_ip_address = ip,
           r_user_agent = nullif (ev_UserAgent e), r_source_event = nullif (ev_SourceEvent e),
           r_created_at = pg_time (ev_CreatedAt e)\<rparr>"
    using laws can i by (auto simp: row_of_event_def pg_laws_def canonical_def split: option.splits sum.splits)
  have "coalesce ip = ev_IPAddress e"
    using c(2) can by (auto simp: cast_or_null_Inr canonical_def coalesce_def split: if_splits)
  moreover have "(case resourceID of None \<Rightarrow> [] | Some u \<Rightarrow> uuid_String env u) = ev_ResourceID e"
    using c(1) can laws by (auto simp: cast_or_null_Inr canonical_def pg_laws_def split: if_splits)
  ultimately show "scan_event env r = e"
    using can i by (simp add: r scan_event_def canonical_def coalesce_def [of "Some _"])
  show "r_tenant r = tid" "r_created_at r = ev_CreatedAt e" using can by (simp_all add: r canonical_def)
qed

section \<open>One append\<close>

definition fill_details :: "audit_event \<Rightarrow> audit_event" where
  "fill_details e = (if ev_Details e = [] then e\<lparr>ev_Details := ''{}''\<rparr> else e)"

lemma canonicalise_Inr:
  assumes "canonicalise L e env w = (Inr e1, w')" "pg_laws L env" "ev_TenantID e = uuid_String env tid"
    "ev_ID e = uuid_String env i" "pg_time (ev_CreatedAt e) = ev_CreatedAt e"
  shows "canonical L env tid e1" "wdb w' = wdb w"
    "e1 = e\<lparr>ev_Details := ev_Details e1, ev_IPAddress := ev_IPAddress e1, ev_ResourceID := ev_ResourceID e1\<rparr>"
proof -
  from assms(1) obtain det ip rid where
    c: "jsonb_text L (ev_Details e) = Some det" "cast_or_null ''canonicalise event fields: '' (inet_host L) (ev_IPAddress e) = Inr ip"
      "cast_or_null ''canonicalise event fields: '' (pg_uuid L) (ev_ResourceID e) = Inr rid"
    and e1: "e1 = e\<lparr>ev_Details := det, ev_IPAddress := coalesce ip,
                      ev_ResourceID := (case rid of None \<Rightarrow> [] | Some u \<Rightarrow> uuid_String env u)\<rparr>"
    and w': "w' = w\<lparr>stmts := Suc (stmts w)\<rparr>"
    by (auto simp: canonicalise_def sql_read_Inr split: option.splits sum.splits)
  show "wdb w' = wdb w" by (simp add: w')
  show "e1 = e\<lparr>ev_Details := ev_Details e1, ev_IPAddress := ev_IPAddress e1, ev_ResourceID := ev_ResourceID e1\<rparr>"
    by (simp add: e1)
  have "jsonb_text L det = Some det" using assms(2) c(1) by (auto simp: pg_laws_def)
  moreover have "coalesce ip = [] \<or> inet_host L (coalesce ip) = Some (coalesce ip)"
    using c(2) assms(2) by (auto simp: cast_or_null_Inr coalesce_def pg_laws_def split: if_splits)
  moreover have "(case rid of None \<Rightarrow> [] | Some u \<Rightarrow> uuid_String env u) = []
      \<or> (\<exists>u. (case rid of None \<Rightarrow> [] | Some u \<Rightarrow> uuid_String env u) = uuid_String env u)"
    by (cases rid) auto
  ultimately show "canonical L env tid e1"
    using assms(3,4,5) by (auto simp: canonical_def e1)
qed

text \<open>Rows with microsecond times, and a row that comes after all others in the verifier's order.\<close>

definition times_ok :: "'x audit_db_scheme \<Rightarrow> bool" where
  "times_ok d \<longleftrightarrow> (\<forall>r \<in> set (audit_events d). pg_time (r_created_at r) = r_created_at r)"

lemma sort_key_snoc_max:
  assumes "\<And>x. x \<in> set xs \<Longrightarrow> f x \<le> f y"
  shows "sort_key f (xs @ [y]) = sort_key f xs @ [y]"
proof (rule properties_for_sort_key)
  show "mset (sort_key f xs @ [y]) = mset (xs @ [y])" by simp
  show "sorted (map f (sort_key f xs @ [y]))" using assms by (auto simp: sorted_append)
  show "filter (\<lambda>x. f k = f x) (sort_key f xs @ [y]) = filter (\<lambda>x. f k = f x) (xs @ [y])"
    if "k \<in> set (sort_key f xs @ [y])" for k
    using sort_key_stable [of f "f k" xs] by (simp add: eq_commute [of "f k"])
qed

lemma last_sort_key:
  assumes "x \<in> set xs"
  shows "f x \<le> f (last (sort_key f xs))"
proof -
  have "sorted (map f (sort_key f xs))" "x \<in> set (sort_key f xs)" using assms by simp_all
  then show ?thesis
    by (cases "sort_key f xs" rule: rev_cases) (auto simp: sorted_append)
qed

text \<open>The tenant's rows in the verifier's order, and the events it reads.\<close>

definition trail_rows :: "uuid \<Rightarrow> 'x audit_db_scheme \<Rightarrow> audit_row list" where
  "trail_rows tid d = sort_key row_key (filter (\<lambda>r. r_tenant r = tid) (audit_events d))"

definition trail :: "env \<Rightarrow> uuid \<Rightarrow> 'x audit_db_scheme \<Rightarrow> audit_event list" where
  "trail env tid d = map (scan_event env) (trail_rows tid d)"

lemma trail_tenant [simp]: "trail (env\<lparr>cur_tenant := t\<rparr>) = trail env"
  by (rule ext)+ (simp add: trail_def)

lemma ordered_rows_trail: "visible env tid \<Longrightarrow> ordered_rows env tid d = trail_rows tid d"
proof -
  assume "visible env tid"
  then have same: "(\<lambda>r. r_tenant r = tid \<and> visible env (r_tenant r)) = (\<lambda>r. r_tenant r = tid)" by auto
  show ?thesis unfolding ordered_rows_def tenant_rows_def trail_rows_def same ..
qed

lemma set_trail_rows [simp]: "set (trail_rows tid d) = {r \<in> set (audit_events d). r_tenant r = tid}"
  by (auto simp: trail_rows_def)

definition tip_of :: "uuid \<Rightarrow> 'x audit_db_scheme \<Rightarrow> audit_row option" where
  "tip_of tid d = (if trail_rows tid d = [] then None else Some (last (trail_rows tid d)))"

lemma tip_latest:
  assumes "r \<in> set (audit_events d)" "r_tenant r = tid"
  shows "\<exists>h. tip_of tid d = Some h \<and> h \<in> set (audit_events d) \<and> r_created_at r \<le> r_created_at h"
proof -
  have ne: "trail_rows tid d \<noteq> []" using assms by (auto simp flip: set_empty)
  have "row_key r \<le> row_key (last (trail_rows tid d))"
    unfolding trail_rows_def by (rule last_sort_key) (use assms in simp)
  then have "r_created_at r \<le> r_created_at (last (trail_rows tid d))" by (auto simp: row_key_def less_eq_prod_def)
  moreover have "last (trail_rows tid d) \<in> set (audit_events d)"
    using last_in_set [OF ne] by simp
  ultimately show ?thesis using ne by (simp add: tip_of_def)
qed

lemma link_event_fields [simp]:
  "ev_TenantID (link_event L tip e) = ev_TenantID e" "ev_ID (link_event L tip e) = ev_ID e"
  "ev_Details (link_event L tip e) = ev_Details e" "ev_IPAddress (link_event L tip e) = ev_IPAddress e"
  "ev_ResourceID (link_event L tip e) = ev_ResourceID e" "ev_Actor (link_event L tip e) = ev_Actor e"
  "ev_ActorName (link_event L tip e) = ev_ActorName e" "ev_Action (link_event L tip e) = ev_Action e"
  "ev_ResourceType (link_event L tip e) = ev_ResourceType e" "ev_ResourceTitle (link_event L tip e) = ev_ResourceTitle e"
  "ev_UserAgent (link_event L tip e) = ev_UserAgent e" "ev_SourceEvent (link_event L tip e) = ev_SourceEvent e"
  "ev_PreviousHash (link_event L tip e) = (case tip of None \<Rightarrow> [] | Some h \<Rightarrow> r_event_hash h)"
  by (simp_all add: link_event_def Let_def)

lemma computeEventHash_hashes [simp]:
  "computeEventHash L p (e\<lparr>ev_EventHash := h\<rparr>) = computeEventHash L p e"
  "computeEventHash L p (e\<lparr>ev_PreviousHash := q\<rparr>) = computeEventHash L p e"
  by (simp_all add: computeEventHash_def hash_message_def hashed_fields_def)

lemma link_event_hash:
  "ev_EventHash (link_event L tip e) = computeEventHash L (case tip of None \<Rightarrow> [] | Some h \<Rightarrow> r_event_hash h) (link_event L tip e)"
  by (simp add: link_event_def Let_def)

lemma link_event_time:
  "tip = Some h \<Longrightarrow> r_created_at h < ev_CreatedAt (link_event L tip e)"
  "pg_time (ev_CreatedAt e) = ev_CreatedAt e \<Longrightarrow> (\<And>h. tip = Some h \<Longrightarrow> pg_time (r_created_at h) = r_created_at h) \<Longrightarrow>
     pg_time (ev_CreatedAt (link_event L tip e)) = ev_CreatedAt (link_event L tip e)"
proof -
  show "tip = Some h \<Longrightarrow> r_created_at h < ev_CreatedAt (link_event L tip e)"
    by (simp add: link_event_def Let_def microsecond_def)
  assume e: "pg_time (ev_CreatedAt e) = ev_CreatedAt e" and t: "\<And>h. tip = Some h \<Longrightarrow> pg_time (r_created_at h) = r_created_at h"
  show "pg_time (ev_CreatedAt (link_event L tip e)) = ev_CreatedAt (link_event L tip e)"
  proof (cases tip)
    case None
    with e show ?thesis by (simp add: link_event_def Let_def)
  next
    case (Some h)
    have "pg_time (r_created_at h + microsecond) = r_created_at h + microsecond"
      using t [OF Some] pg_time_add_microsecond [of "r_created_at h"] by simp
    with Some e show ?thesis by (simp add: link_event_def Let_def)
  qed
qed

text \<open>The effect of an append on the tables.\<close>

lemma insertEvent_Inr:
  assumes "insertEvent L tid e env w = (Inr u, w')"
  obtains r where "row_of_event L env tid e = Inr r" "visible env tid"
    "wdb w' = (wdb w)\<lparr>audit_events := audit_events (wdb w) @ [r]\<rparr>"
  using assms by (cases "row_of_event L env tid e") (auto simp: insertEvent_def sql_Inr split: if_splits)

lemma appendInTx_Inr:
  assumes run: "appendInTx L tid e env w = (Inr e2, w')" and laws: "pg_laws L env"
    and e: "ev_TenantID e = uuid_String env tid" "ev_ID e = uuid_String env i" "pg_time (ev_CreatedAt e) = ev_CreatedAt e"
    and times: "times_ok (wdb w)"
  obtains r e1 where "wdb w' = (wdb w)\<lparr>audit_events := audit_events (wdb w) @ [r]\<rparr>"
    "r_tenant r = tid" "scan_event env r = e2" "r_created_at r = ev_CreatedAt e2" "canonical L env tid e1"
    "e2 = link_event L (tip_of tid (wdb w)) e1" "canonical L env tid e2"
    "e1 = (fill_details e)\<lparr>ev_Details := ev_Details e1, ev_IPAddress := ev_IPAddress e1, ev_ResourceID := ev_ResourceID e1\<rparr>"
proof -
  have fill: "ev_TenantID (fill_details e) = uuid_String env tid" "ev_ID (fill_details e) = uuid_String env i"
    "pg_time (ev_CreatedAt (fill_details e)) = ev_CreatedAt (fill_details e)"
    using e by (simp_all add: fill_details_def)
  from run obtain e1 w1 w3 tip w4 where
    can: "canonicalise L (fill_details e) env w = (Inr e1, w1)"
    and tip: "chain_head ''chain head: '' tid env (w1\<lparr>stmts := Suc (stmts w1)\<rparr>) = (Inr tip, w3)"
    and ins: "insertEvent L tid (link_event L tip e1) env w3 = (Inr (), w4)" and e2: "e2 = link_event L tip e1" "w' = w4"
    by (auto simp: appendInTx_def fill_details_def [symmetric] Let_def lockChain_def tbind_Inr statement_Inr)
  from ins obtain r where "row_of_event L env tid (link_event L tip e1) = Inr r" "visible env tid"
      "wdb w4 = (wdb w3)\<lparr>audit_events := audit_events (wdb w3) @ [r]\<rparr>" by (rule insertEvent_Inr)
  note row = this(1,2) e2(1) this(3) [folded e2(2)]
  from canonicalise_Inr [OF can laws fill] have c1: "canonical L env tid e1" "wdb w1 = wdb w"
    "e1 = (fill_details e)\<lparr>ev_Details := ev_Details e1, ev_IPAddress := ev_IPAddress e1, ev_ResourceID := ev_ResourceID e1\<rparr>"
    by simp_all
  have w3: "wdb w3 = wdb w" and tip': "tip = tip_of tid (wdb w)"
    using tip c1(2) row(2) by (auto simp: chain_head_def sql_read_Inr Let_def ordered_rows_trail tip_of_def)
  have "pg_time (r_created_at h) = r_created_at h" if "tip = Some h" for h
    using that times tip' last_in_set [of "trail_rows tid (wdb w)"] by (auto simp: tip_of_def times_ok_def split: if_splits)
  then have "canonical L env tid e2"
    using c1(1) link_event_time(2) [of e1 tip L] row(3) by (simp add: canonical_def)
  moreover from row_of_event_reads_back [OF laws this [unfolded row(3)] row(1)] have
    "scan_event env r = e2" "r_tenant r = tid" "r_created_at r = ev_CreatedAt e2" using row(3) by simp_all
  ultimately show thesis using that row(3,4) w3 tip' c1 by simp
qed

lemma trail_rows_append:
  assumes "\<And>x. x \<in> set (audit_events d) \<Longrightarrow> r_tenant x = r_tenant r \<Longrightarrow> r_created_at x < r_created_at r"
  shows "trail_rows tid (d\<lparr>audit_events := audit_events d @ [r]\<rparr>) = trail_rows tid d @ (if r_tenant r = tid then [r] else [])"
proof (cases "r_tenant r = tid")
  case True
  have "row_key x \<le> row_key r" if "x \<in> set (filter (\<lambda>r. r_tenant r = tid) (audit_events d))" for x
    using assms [of x] that True by (simp add: row_key_def less_eq_prod_def)
  from sort_key_snoc_max [where f = row_key and xs = "filter (\<lambda>r. r_tenant r = tid) (audit_events d)", OF this] True
  show ?thesis by (simp add: trail_rows_def)
next
  case False
  then show ?thesis by (simp add: trail_rows_def)
qed

text \<open>An append extends the tenant's trail by the event it returns and leaves the other trails alone.\<close>

lemma appendInTx_trail:
  assumes run: "appendInTx L tid e env w = (Inr e2, w')" and laws: "pg_laws L env"
    and e: "ev_TenantID e = uuid_String env tid" "ev_ID e = uuid_String env i" "pg_time (ev_CreatedAt e) = ev_CreatedAt e"
    and times: "times_ok (wdb w)"
  shows "trail env t (wdb w') = trail env t (wdb w) @ (if t = tid then [e2] else [])"
    and "ev_PreviousHash e2 = head_from ev_EventHash [] (trail env tid (wdb w))"
    and "ev_EventHash e2 = computeEventHash L (ev_PreviousHash e2) e2"
    and "\<forall>x \<in> set (trail env tid (wdb w)). ev_CreatedAt x < ev_CreatedAt e2"
    and "times_ok (wdb w')" "audit_checkpoints (wdb w') = audit_checkpoints (wdb w)"
    and "organizations (wdb w') = organizations (wdb w)"
    and "\<exists>r. audit_events (wdb w') = audit_events (wdb w) @ [r] \<and> uuid_String env (r_id r) = uuid_String env i \<and> r_tenant r = tid"
proof -
  obtain r e1 where w': "wdb w' = (wdb w)\<lparr>audit_events := audit_events (wdb w) @ [r]\<rparr>"
    and r: "r_tenant r = tid" "scan_event env r = e2" "r_created_at r = ev_CreatedAt e2"
    and e1: "e2 = link_event L (tip_of tid (wdb w)) e1" and can: "canonical L env tid e2"
    and e1': "e1 = (fill_details e)\<lparr>ev_Details := ev_Details e1, ev_IPAddress := ev_IPAddress e1, ev_ResourceID := ev_ResourceID e1\<rparr>"
    using appendInTx_Inr [OF run laws e times] by metis
  have later: "r_created_at x < r_created_at r" if x: "x \<in> set (audit_events (wdb w))" "r_tenant x = r_tenant r" for x
  proof -
    have "r_tenant x = tid" using x r by simp
    then obtain h where h: "tip_of tid (wdb w) = Some h" "r_created_at x \<le> r_created_at h"
      using tip_latest [OF x(1)] by blast
    with link_event_time(1) [OF h(1), of L e1] show ?thesis by (simp add: r e1)
  qed
  show "trail env t (wdb w') = trail env t (wdb w) @ (if t = tid then [e2] else [])"
    using trail_rows_append [where d = "wdb w" and tid = t, OF later] r by (auto simp: trail_def w')
  have head: "(case tip_of tid (wdb w) of None \<Rightarrow> [] | Some h \<Rightarrow> r_event_hash h) = head_from ev_EventHash [] (trail env tid (wdb w))"
    by (auto simp: tip_of_def head_from_def trail_def last_map scan_event_def)
  show "ev_PreviousHash e2 = head_from ev_EventHash [] (trail env tid (wdb w))" by (simp add: e1 head)
  show "ev_EventHash e2 = computeEventHash L (ev_PreviousHash e2) e2"
    unfolding e1 link_event_fields by (rule link_event_hash)
  show "\<forall>x \<in> set (trail env tid (wdb w)). ev_CreatedAt x < ev_CreatedAt e2"
    using later r by (auto simp: trail_def scan_event_def)
  show "times_ok (wdb w')" using times can r(3) by (auto simp: times_ok_def w' canonical_def)
  show "audit_checkpoints (wdb w') = audit_checkpoints (wdb w)" "organizations (wdb w') = organizations (wdb w)"
    by (simp_all add: w')
  have "ev_ID e2 = uuid_String env i" using e(2) by (simp add: e1) (subst e1', simp add: fill_details_def)
  then show "\<exists>r. audit_events (wdb w') = audit_events (wdb w) @ [r] \<and> uuid_String env (r_id r) = uuid_String env i \<and> r_tenant r = tid"
    using r(1) r(2) [symmetric] w' by auto
qed

end
