(* ===== verification/Audit_Trail.thy ===== *)
theory Audit_Trail
  imports Audit_Append
begin

text \<open>
  The operations of the audit service on trails: what each success does to the trail of its tenant, that
  the trails of all other tenants stay as they are, and that failures change nothing.
\<close>

section \<open>Tenant transactions\<close>

lemma withTenant_InrE:
  assumes "withTenant s fn env w = (Inr a, w')"
  obtains tid w1 w2 where "uuid_Parse env s = Some tid" "tid \<noteq> uuid_Nil" "wdb w1 = wdb w" "draws w1 = draws w"
    "fn tid (env\<lparr>cur_tenant := tid\<rparr>) w1 = (Inr a, w2)" "wdb w' = wdb w2"
  using assms by (auto simp: withTenant_def split: option.splits elim!: WithTenantTx_InrE)

lemma withTenant_Inl: "withTenant s fn env w = (Inl e, w') \<Longrightarrow> wdb w' = wdb w"
  by (auto simp: withTenant_def tfail_def dest: WithTenantTx_Inl split: option.splits)

lemma visible_current [simp]: "visible (env\<lparr>cur_tenant := tid\<rparr>) tid"
  by (simp add: visible_def)

lemma withTenant_read:
  assumes "withTenant s (\<lambda>tid. sql_read l (f tid)) env w = (r, w')"
  shows "wdb w' = wdb w"
proof (cases r)
  case (Inl e)
  with assms show ?thesis by (auto dest: withTenant_Inl)
next
  case (Inr a)
  with assms show ?thesis by (auto simp: sql_read_Inr elim: withTenant_InrE)
qed

lemma ListAll_Inr:
  assumes "ListAll s env w = (Inr es, w')"
  obtains tid where "uuid_Parse env s = Some tid" "tid \<noteq> uuid_Nil" "es = trail env tid (wdb w)" "wdb w' = wdb w"
  using assms unfolding ListAll_def load_chain_def
  by (auto simp: sql_read_Inr ordered_rows_trail trail_def elim!: withTenant_InrE)

section \<open>Well-formed audit tables\<close>

definition ids_distinct :: "'x audit_db_scheme \<Rightarrow> bool" where
  "ids_distinct d \<longleftrightarrow> distinct (map r_id (audit_events d))"

definition audit_inv :: "audit_lib \<Rightarrow> env \<Rightarrow> 'x audit_db_scheme \<Rightarrow> bool" where
  "audit_inv L env d \<longleftrightarrow> times_ok d \<and> ids_distinct d \<and> (\<forall>tid. linked L [] (trail env tid d))
     \<and> (\<forall>c \<in> set (audit_checkpoints d). 1 \<le> cp_EventCount (snd c))"

lemma trail_cong: "uuid_String env = uuid_String env' \<Longrightarrow> trail env = trail env'"
  by (rule ext)+ (simp add: trail_def scan_event_cong [of env env'])

lemma audit_inv_tenant [simp]: "audit_inv L (env\<lparr>cur_tenant := t\<rparr>) d = audit_inv L env d"
  by (simp add: audit_inv_def)

text \<open>Changing rows in place without touching their keys.\<close>

lemma sort_key_map: "sort_key k (map f xs) = map f (sort_key (\<lambda>x. k (f x)) xs)"
proof -
  have ins: "insort_key k (f x) (map f ys) = map f (insort_key (\<lambda>x. k (f x)) x ys)" for x ys by (induction ys) auto
  show ?thesis by (induction xs) (auto simp: ins)
qed

definition keeps_keys :: "(audit_row \<Rightarrow> audit_row) \<Rightarrow> bool" where
  "keeps_keys f \<longleftrightarrow> (\<forall>r. row_key (f r) = row_key r \<and> r_tenant (f r) = r_tenant r)"

lemma keeps_keysD: "keeps_keys f \<Longrightarrow> row_key (f r) = row_key r" "keeps_keys f \<Longrightarrow> r_tenant (f r) = r_tenant r"
  "keeps_keys f \<Longrightarrow> r_id (f r) = r_id r" "keeps_keys f \<Longrightarrow> r_created_at (f r) = r_created_at r"
  by (auto simp: keeps_keys_def row_key_def)

lemma trail_rows_map:
  "keeps_keys f \<Longrightarrow> trail_rows tid (d\<lparr>audit_events := map f (audit_events d)\<rparr>) = map f (trail_rows tid d)"
  by (simp add: trail_rows_def filter_map sort_key_map comp_def keeps_keysD)

text \<open>All an in-place rewrite of one tenant's rows can do.\<close>

definition rewritten :: "uuid \<Rightarrow> 'x audit_db_scheme \<Rightarrow> 'x audit_db_scheme \<Rightarrow> bool" where
  "rewritten tid d d' \<longleftrightarrow> (\<exists>f. keeps_keys f \<and> (\<forall>r. r_tenant r \<noteq> tid \<longrightarrow> f r = r)
     \<and> d' = d\<lparr>audit_events := map f (audit_events d)\<rparr>)"

interpretation rewritten: db_preorder "rewritten tid :: 'x audit_db_scheme \<Rightarrow> _" for tid
proof
  show "rewritten tid d d" for d :: "'x audit_db_scheme"
    unfolding rewritten_def by (intro exI [of _ id]) (simp add: keeps_keys_def)
  show "rewritten tid d d''" if rel: "rewritten tid d d'" "rewritten tid d' d''" for d d' d'' :: "'x audit_db_scheme"
  proof -
    obtain f g where "keeps_keys f" "\<forall>r. r_tenant r \<noteq> tid \<longrightarrow> f r = r" "d' = d\<lparr>audit_events := map f (audit_events d)\<rparr>"
      "keeps_keys g" "\<forall>r. r_tenant r \<noteq> tid \<longrightarrow> g r = r" "d'' = d'\<lparr>audit_events := map g (audit_events d')\<rparr>"
      using rel unfolding rewritten_def by blast
    then show ?thesis unfolding rewritten_def by (intro exI [of _ "g \<circ> f"]) (auto simp: keeps_keys_def)
  qed
qed

lemma rewritten_keeps:
  assumes "rewritten tid d d'"
  shows "times_ok d' = times_ok d" "map r_id (audit_events d') = map r_id (audit_events d)"
    "audit_checkpoints d' = audit_checkpoints d" "t \<noteq> tid \<Longrightarrow> trail_rows t d' = trail_rows t d"
    "map row_key (trail_rows t d') = map row_key (trail_rows t d)" "organizations d' = organizations d"
proof -
  obtain f where f: "keeps_keys f" "\<forall>r. r_tenant r \<noteq> tid \<longrightarrow> f r = r" "d' = d\<lparr>audit_events := map f (audit_events d)\<rparr>"
    using assms unfolding rewritten_def by blast
  show "times_ok d' = times_ok d" "map r_id (audit_events d') = map r_id (audit_events d)"
    "audit_checkpoints d' = audit_checkpoints d" "organizations d' = organizations d"
    using f by (auto simp: times_ok_def keeps_keysD)
  show "map row_key (trail_rows t d') = map row_key (trail_rows t d)"
    using f(1) by (simp add: f(3) trail_rows_map keeps_keysD)
  assume "t \<noteq> tid"
  then show "trail_rows t d' = trail_rows t d"
    using f(2) by (simp add: f(3) trail_rows_map [OF f(1)]) (rule map_idI, auto)
qed

section \<open>Appends\<close>

text \<open>The event an append is given names the tenant in canonical form and a fresh id, and carries microseconds.\<close>

definition well_named :: "env \<Rightarrow> 'x audit_db_scheme \<Rightarrow> uuid \<Rightarrow> uuid \<Rightarrow> audit_event \<Rightarrow> bool" where
  "well_named env d tid i e \<longleftrightarrow> ev_TenantID e = uuid_String env tid \<and> ev_ID e = uuid_String env i
     \<and> pg_time (ev_CreatedAt e) = ev_CreatedAt e \<and> i \<notin> r_id ` set (audit_events d)"

lemma appendInTx_inv:
  assumes run: "appendInTx L tid e env w = (Inr e2, w')" and laws: "pg_laws L env"
    and e: "well_named env (wdb w) tid i e" and inv: "audit_inv L env (wdb w)"
  shows "audit_inv L env (wdb w')" "trail env t (wdb w') = trail env t (wdb w) @ (if t = tid then [e2] else [])"
    "audit_checkpoints (wdb w') = audit_checkpoints (wdb w)"
proof -
  have e': "ev_TenantID e = uuid_String env tid" "ev_ID e = uuid_String env i" "pg_time (ev_CreatedAt e) = ev_CreatedAt e"
    and fresh: "i \<notin> r_id ` set (audit_events (wdb w))" using e by (auto simp: well_named_def)
  have times: "times_ok (wdb w)" using inv by (simp add: audit_inv_def)
  note app = appendInTx_trail [OF run laws e' times]
  show "trail env t (wdb w') = trail env t (wdb w) @ (if t = tid then [e2] else [])"
    "audit_checkpoints (wdb w') = audit_checkpoints (wdb w)" using app by auto
  obtain r where r: "audit_events (wdb w') = audit_events (wdb w) @ [r]" "uuid_String env (r_id r) = uuid_String env i"
    using app(8) by blast
  then have "r_id r = i" using laws by (metis pg_laws_def option.inject)
  then have "ids_distinct (wdb w')" using inv fresh r(1) by (simp add: audit_inv_def ids_distinct_def)
  moreover have "linked L [] (trail env t (wdb w'))" for t
    using inv app(1) [of t] app(2,3) by (auto simp: audit_inv_def linked_append)
  ultimately show "audit_inv L env (wdb w')" using inv app(5,6) by (simp add: audit_inv_def)
qed

lemma pg_time_truncate [simp]: "pg_time (ev_CreatedAt (e\<lparr>ev_CreatedAt := pg_time t\<rparr>)) = ev_CreatedAt (e\<lparr>ev_CreatedAt := pg_time t\<rparr>)"
  by simp

text \<open>The identifier \<open>newID\<close> returns next.\<close>

definition next_id :: "env \<Rightarrow> nat \<Rightarrow> uuid" where
  "next_id env k = (case new_id env k of None \<Rightarrow> fallback_id env k | Some u \<Rightarrow> u)"

lemma draw_id_or_new_run: "draw_id_or_new env w = (Inr (next_id env (draws w)), w\<lparr>draws := Suc (draws w)\<rparr>)"
  by (simp add: draw_id_or_new_def next_id_def)

lemma newID_run: "newID env w = (Inr (uuid_String env (next_id env (draws w))), w\<lparr>draws := Suc (draws w)\<rparr>)"
  by (simp add: newID_def tbind_def draw_id_or_new_run tret_def)

text \<open>Appending through the service: all of the effect, on success and on failure.\<close>

lemma appendChained_inv:
  assumes run: "appendChained L e env w = (r, w')" and laws: "pg_laws L env"
    and e: "ev_TenantID e = uuid_String env tid" "ev_ID e = uuid_String env i" "i \<notin> r_id ` set (audit_events (wdb w))"
    and inv: "audit_inv L env (wdb w)"
  shows "audit_inv L env (wdb w')"
    "case r of Inl x \<Rightarrow> wdb w' = wdb w
     | Inr e2 \<Rightarrow> (\<forall>t. trail env t (wdb w') = trail env t (wdb w) @ (if t = tid then [e2] else []))
                  \<and> audit_checkpoints (wdb w') = audit_checkpoints (wdb w)"
proof -
  let ?e = "e\<lparr>ev_CreatedAt := pg_time (ev_CreatedAt e)\<rparr>"
  have "audit_inv L env (wdb w') \<and> (case r of Inl x \<Rightarrow> wdb w' = wdb w
     | Inr e2 \<Rightarrow> (\<forall>t. trail env t (wdb w') = trail env t (wdb w) @ (if t = tid then [e2] else []))
                  \<and> audit_checkpoints (wdb w') = audit_checkpoints (wdb w))"
  proof (cases r)
    case (Inl x)
    with run inv show ?thesis by (auto simp: appendChained_def AppendChained_def dest: withTenant_Inl)
  next
    case (Inr e2)
    with run obtain t w1 w2 where t: "uuid_Parse env (ev_TenantID ?e) = Some t" and w1: "wdb w1 = wdb w"
      and app: "appendInTx L t ?e (env\<lparr>cur_tenant := t\<rparr>) w1 = (Inr e2, w2)" and w': "wdb w' = wdb w2"
      unfolding appendChained_def AppendChained_def by (auto elim: withTenant_InrE)
    have "t = tid" using t laws e(1) by (simp add: pg_laws_def)
    with app have app: "appendInTx L tid ?e (env\<lparr>cur_tenant := tid\<rparr>) w1 = (Inr e2, w2)" by simp
    have named: "well_named (env\<lparr>cur_tenant := tid\<rparr>) (wdb w1) tid i ?e" using e w1 by (simp add: well_named_def)
    note eff = appendInTx_inv [OF app _ named]
    from eff(1,2,3) inv laws w1 w' Inr show ?thesis by simp
  qed
  then show "audit_inv L env (wdb w')"
    "case r of Inl x \<Rightarrow> wdb w' = wdb w
     | Inr e2 \<Rightarrow> (\<forall>t. trail env t (wdb w') = trail env t (wdb w) @ (if t = tid then [e2] else []))
                  \<and> audit_checkpoints (wdb w') = audit_checkpoints (wdb w)" by blast+
qed

section \<open>Re-hashing in place\<close>

fun rehash :: "audit_lib \<Rightarrow> string \<Rightarrow> audit_event list \<Rightarrow> audit_event list" where
  "rehash L p [] = []"
| "rehash L p (e # es) =
     (let h = computeEventHash L p e in e\<lparr>ev_PreviousHash := p, ev_EventHash := h\<rparr> # rehash L h es)"

lemma rehash_linked: "linked L p (rehash L p es)"
  by (induction L p es rule: rehash.induct) (simp_all add: Let_def)

lemma rehash_keeps: "map event_content (rehash L p es) = map event_content es"
  by (induction L p es rule: rehash.induct) (simp_all add: Let_def event_content_def hashed_fields_def)

lemma rehash_actors: "map ev_Actor (rehash L p es) = map ev_Actor es" "map ev_Action (rehash L p es) = map ev_Action es"
  by (induction L p es rule: rehash.induct) (simp_all add: Let_def)

text \<open>One link written back.\<close>

lemma set_hashes_scan:
  "scan_event env (set_hashes p h r) = (scan_event env r)\<lparr>ev_PreviousHash := p, ev_EventHash := h\<rparr>"
  by (simp add: scan_event_def set_hashes_def coalesce_def)

definition put_hashes :: "uuid \<Rightarrow> uuid \<Rightarrow> string \<Rightarrow> string \<Rightarrow> audit_row \<Rightarrow> audit_row" where
  "put_hashes tid i p h r = (if r_tenant r = tid \<and> r_id r = i then set_hashes p h r else r)"

lemma put_hashes_keeps: "keeps_keys (put_hashes tid i p h)"
  by (simp add: keeps_keys_def put_hashes_def set_hashes_def row_key_def)

lemma audit_set_event_hash_Inr:
  assumes "audit_set_event_hash tid i p h env w = (Inr u, w')"
  shows "wdb w' = (wdb w)\<lparr>audit_events := map (put_hashes tid i p h) (audit_events (wdb w))\<rparr>"
  using assms by (auto simp: audit_set_event_hash_def sql_Inr Let_def put_hashes_def [abs_def] split: if_splits)

lemma put_hashes_rewritten: "rewritten tid d (d\<lparr>audit_events := map (put_hashes tid i p h) (audit_events d)\<rparr>)"
  unfolding rewritten_def by (intro exI [of _ "put_hashes tid i p h"]) (simp add: put_hashes_keeps, simp add: put_hashes_def)

text \<open>Writing the link of one row changes exactly that row of the trail.\<close>

lemma put_hashes_trail:
  assumes "trail_rows tid d = xs @ r # rs" "distinct (map r_id (xs @ r # rs))"
  shows "trail_rows tid (d\<lparr>audit_events := map (put_hashes tid (r_id r) p h) (audit_events d)\<rparr>)
           = xs @ set_hashes p h r # rs"
proof -
  have ten: "\<forall>x \<in> set (xs @ r # rs). r_tenant x = tid"
    using assms(1) set_trail_rows [of tid d] by auto
  have "put_hashes tid (r_id r) p h x = x" if "x \<in> set xs \<union> set rs" for x
  proof -
    have "r_id r \<notin> r_id ` (set xs \<union> set rs)" using assms(2) by auto
    then have "r_id x \<noteq> r_id r" using that by (metis imageI)
    then show ?thesis by (simp add: put_hashes_def)
  qed
  then have "map (put_hashes tid (r_id r) p h) xs = xs" "map (put_hashes tid (r_id r) p h) rs = rs"
    by (auto intro!: map_idI)
  then show ?thesis
    using ten by (simp add: trail_rows_map [OF put_hashes_keeps] assms(1) put_hashes_def [of _ _ _ _ r])
qed

text \<open>The re-chaining loop: a prefix is skipped, the rest is re-hashed from the last skipped hash.\<close>

definition rechained :: "audit_lib \<Rightarrow> env \<Rightarrow> (audit_row \<Rightarrow> bool) \<Rightarrow> string \<Rightarrow> audit_row list \<Rightarrow> audit_event list" where
  "rechained L env skip p rs =
     map (scan_event env) (takeWhile skip rs)
     @ rehash L (head_from r_event_hash p (takeWhile skip rs)) (map (scan_event env) (dropWhile skip rs))"

lemma takeWhile_never [simp]: "takeWhile (\<lambda>_. False) xs = []"
  by (cases xs) auto

lemma rechain_run:
  assumes "rechain L tid red p b rs env w = (Inr u, w')"
    and "trail_rows tid (wdb w) = xs @ rs" "distinct (map r_id (xs @ rs))"
  shows "rewritten tid (wdb w) (wdb w')
       \<and> trail env tid (wdb w') = map (scan_event env) xs @ rechained L env (\<lambda>r. \<not> b \<and> r_id r \<notin> set red) p rs"
  using assms
proof (induction rs arbitrary: p b xs w)
  case Nil
  then show ?case by (simp add: rechained_def trail_def rewritten.R_refl)
next
  case (Cons r rs)
  show ?case
  proof (cases "b \<or> r_id r \<in> set red")
    case False
    with Cons.prems(1) have run: "rechain L tid red (r_event_hash r) False rs env w = (Inr u, w')" by (simp add: Let_def)
    from Cons.IH [OF this, of "xs @ [r]"] Cons.prems False show ?thesis by (simp add: rechained_def)
  next
    case True
    let ?e = "scan_event env r"
    let ?h = "computeEventHash L p ?e"
    from True Cons.prems(1) obtain w1 where
      set: "(if ?h \<noteq> ev_EventHash ?e \<or> p \<noteq> ev_PreviousHash ?e then audit_set_event_hash tid (r_id r) p ?h else tret ()) env w = (Inr (), w1)"
      and rest: "rechain L tid red ?h True rs env w1 = (Inr u, w')"
      by (auto simp: Let_def tbind_Inr)
    obtain r' where w1: "trail_rows tid (wdb w1) = xs @ r' # rs" "rewritten tid (wdb w) (wdb w1)" "r_id r' = r_id r"
      and r': "scan_event env r' = ?e\<lparr>ev_PreviousHash := p, ev_EventHash := ?h\<rparr>"
    proof (cases "?h \<noteq> ev_EventHash ?e \<or> p \<noteq> ev_PreviousHash ?e")
      case True
      with set have wr: "wdb w1 = (wdb w)\<lparr>audit_events := map (put_hashes tid (r_id r) p ?h) (audit_events (wdb w))\<rparr>"
        by (simp add: audit_set_event_hash_Inr)
      show thesis
      proof (rule that)
        show "trail_rows tid (wdb w1) = xs @ set_hashes p ?h r # rs"
          unfolding wr by (rule put_hashes_trail) (use Cons.prems in simp_all)
        show "rewritten tid (wdb w) (wdb w1)" unfolding wr by (rule put_hashes_rewritten)
      qed (simp_all add: set_hashes_scan, simp add: set_hashes_def)
    next
      case False
      then have "?h = ev_EventHash ?e" "p = ev_PreviousHash ?e" by blast+
      then have "?e\<lparr>ev_PreviousHash := p, ev_EventHash := ?h\<rparr> = ?e" by (metis audit_event.surjective audit_event.update_convs(3,4))
      moreover have "w1 = w" using set unfolding if_not_P [OF False] by simp
      ultimately show thesis using that [of r] Cons.prems(2) by (simp add: rewritten.R_refl)
    qed
    have "distinct (map r_id ((xs @ [r']) @ rs))" using Cons.prems(3) w1(3) by simp
    from Cons.IH [OF rest, of "xs @ [r']"] this w1 r' True
    have "rewritten tid (wdb w1) (wdb w')"
      "trail env tid (wdb w') = map (scan_event env) xs @ ?e\<lparr>ev_PreviousHash := p, ev_EventHash := ?h\<rparr> # rehash L ?h (map (scan_event env) rs)"
      by (simp_all add: rechained_def)
    then show ?thesis using True w1(2) by (auto simp: rechained_def Let_def intro: rewritten.R_trans)
  qed
qed

end
