(* ===== verification/Audit_Erasure.thy ===== *)
theory Audit_Erasure
  imports Audit_Trail
begin

text \<open>
  GDPR erasure (\<open>AnonymizeSubject\<close>): what a successful run does to a trail, event by event, that the
  re-chained trail still verifies, and that a trail that was tampered with is refused untouched.
\<close>

section \<open>Redaction\<close>

definition redact_event :: "audit_lib \<Rightarrow> audit_event \<Rightarrow> audit_event" where
  "redact_event L e = e\<lparr>ev_Actor := ''REDACTED'', ev_ActorName := ''REDACTED'', ev_IPAddress := [], ev_UserAgent := [],
     ev_Details := redact_details L (ev_Details e)\<rparr>"

definition erased :: "audit_lib \<Rightarrow> string \<Rightarrow> audit_event \<Rightarrow> audit_event" where
  "erased L subject e = (if ev_Actor e = subject then redact_event L e else e)"

definition erase_row :: "audit_lib \<Rightarrow> uuid \<Rightarrow> string \<Rightarrow> audit_row \<Rightarrow> audit_row" where
  "erase_row L tid subject r = (if r_tenant r = tid \<and> r_actor r = subject then redact_row L r else r)"

lemma scan_redact_row: "scan_event env (redact_row L r) = redact_event L (scan_event env r)"
  by (simp add: scan_event_def redact_row_def redact_event_def coalesce_def)

lemma scan_erase_row: "r_tenant r = tid \<Longrightarrow> scan_event env (erase_row L tid subject r) = erased L subject (scan_event env r)"
  by (simp add: erase_row_def erased_def scan_redact_row)

lemma erase_row_keeps: "keeps_keys (erase_row L tid subject)"
  by (simp add: keeps_keys_def erase_row_def redact_row_def row_key_def)

lemma erase_row_fields [simp]: "r_id (erase_row L tid subject r) = r_id r" "r_event_hash (erase_row L tid subject r) = r_event_hash r"
  by (simp_all add: erase_row_def redact_row_def)

lemma audit_redact_subject_Inr:
  assumes "audit_redact_subject L tid subject env w = (Inr ids, w')"
  shows "wdb w' = (wdb w)\<lparr>audit_events := map (erase_row L tid subject) (audit_events (wdb w))\<rparr>"
    "ids = map r_id (filter (\<lambda>r. r_tenant r = tid \<and> r_actor r = subject) (audit_events (wdb w)))"
    "subject \<noteq> []" "subject \<noteq> ''REDACTED''"
  using assms by (auto simp: audit_redact_subject_def sql_Inr Let_def erase_row_def [abs_def] split: if_splits)

lemma erase_rewritten: "rewritten tid d (d\<lparr>audit_events := map (erase_row L tid subject) (audit_events d)\<rparr>)"
  unfolding rewritten_def
  by (intro exI [of _ "erase_row L tid subject"]) (simp add: erase_row_keeps, simp add: erase_row_def)

section \<open>The re-chained trail\<close>

definition before_subject :: "string \<Rightarrow> audit_event list \<Rightarrow> audit_event list" where
  "before_subject subject es = takeWhile (\<lambda>e. ev_Actor e \<noteq> subject) es"

definition from_subject :: "string \<Rightarrow> audit_event list \<Rightarrow> audit_event list" where
  "from_subject subject es = dropWhile (\<lambda>e. ev_Actor e \<noteq> subject) es"

text \<open>A trail after the erasure, without the marker.\<close>

definition erased_trail :: "audit_lib \<Rightarrow> string \<Rightarrow> audit_event list \<Rightarrow> audit_event list" where
  "erased_trail L subject es =
     before_subject subject es
     @ rehash L (head_from ev_EventHash [] (before_subject subject es)) (map (erased L subject) (from_subject subject es))"

lemma erased_trail_linked: "linked L [] es \<Longrightarrow> linked L [] (erased_trail L subject es)"
proof -
  assume "linked L [] es"
  then have "linked L [] (before_subject subject es @ from_subject subject es)"
    by (simp add: before_subject_def from_subject_def)
  then show ?thesis by (simp add: erased_trail_def linked_append rehash_linked)
qed

lemma erased_trail_actors:
  assumes "subject \<noteq> ''REDACTED''" "e \<in> set (erased_trail L subject es)"
  shows "ev_Actor e \<noteq> subject"
proof -
  let ?p = "head_from ev_EventHash [] (before_subject subject es)"
  consider "e \<in> set (before_subject subject es)" | "e \<in> set (rehash L ?p (map (erased L subject) (from_subject subject es)))"
    using assms(2) unfolding erased_trail_def by auto
  then show ?thesis
  proof cases
    case 1
    then show ?thesis unfolding before_subject_def by (auto dest: set_takeWhileD)
  next
    case 2
    then have "ev_Actor e \<in> set (map ev_Actor (rehash L ?p (map (erased L subject) (from_subject subject es))))" by simp
    then have "ev_Actor e \<in> set (map ev_Actor (map (erased L subject) (from_subject subject es)))" by (simp only: rehash_actors)
    then obtain x where "ev_Actor e = ev_Actor (erased L subject x)" by auto
    then show ?thesis using assms(1) by (simp add: erased_def redact_event_def split: if_splits)
  qed
qed

lemma erased_contents:
  "map event_content (erased_trail L subject es) = map (\<lambda>e. event_content (erased L subject e)) es"
proof -
  have es: "es = before_subject subject es @ from_subject subject es"
    by (simp add: before_subject_def from_subject_def)
  have "map (\<lambda>e. event_content (erased L subject e)) (before_subject subject es) = map event_content (before_subject subject es)"
    by (rule map_cong) (auto simp: before_subject_def erased_def dest: set_takeWhileD)
  moreover have "map event_content (rehash L p (map (erased L subject) (from_subject subject es)))
      = map (\<lambda>e. event_content (erased L subject e)) (from_subject subject es)" for p
    by (simp add: rehash_keeps)
  ultimately have "map event_content (erased_trail L subject es)
      = map (\<lambda>e. event_content (erased L subject e)) (before_subject subject es @ from_subject subject es)"
    unfolding erased_trail_def map_append by (simp only:)
  then show ?thesis unfolding es [symmetric] .
qed

lemma head_from_map: "(\<And>x. x \<in> set xs \<Longrightarrow> g (f x) = h x) \<Longrightarrow> head_from g p (map f xs) = head_from h p xs"
  by (auto simp: head_from_def last_map)

lemma rechained_erased:
  assumes ids: "ids_distinct d"
    and hits: "ids = map r_id (filter (\<lambda>r. r_tenant r = tid \<and> r_actor r = subject) (audit_events d))"
  shows "rechained L env (\<lambda>r. r_id r \<notin> set ids) [] (map (erase_row L tid subject) (trail_rows tid d))
           = erased_trail L subject (trail env tid d)"
proof -
  let ?T = "trail_rows tid d" and ?f = "erase_row L tid subject"
  have inT: "r \<in> set (audit_events d)" "r_tenant r = tid" if "r \<in> set ?T" for r using that by auto
  have hit: "r_id (?f r) \<notin> set ids \<longleftrightarrow> r_actor r \<noteq> subject" if "r \<in> set ?T" for r
  proof -
    have "r_id r \<in> set ids \<longleftrightarrow> r_actor r = subject"
    proof
      assume "r_id r \<in> set ids"
      then obtain x where x: "x \<in> set (audit_events d)" "r_actor x = subject" "r_id x = r_id r" unfolding hits by auto
      have "inj_on r_id (set (audit_events d))" using ids by (simp add: ids_distinct_def distinct_map)
      from inj_onD [OF this x(3) x(1) inT(1) [OF that]] x(2) show "r_actor r = subject" by simp
    next
      assume "r_actor r = subject"
      then show "r_id r \<in> set ids" unfolding hits using inT [OF that] by auto
    qed
    then show ?thesis by simp
  qed
  have tw: "takeWhile (\<lambda>r. r_id r \<notin> set ids) (map ?f ?T) = map ?f (takeWhile (\<lambda>r. r_actor r \<noteq> subject) ?T)"
    unfolding takeWhile_map comp_def by (intro arg_cong [where f = "map ?f"] takeWhile_cong refl hit)
  have dw: "dropWhile (\<lambda>r. r_id r \<notin> set ids) (map ?f ?T) = map ?f (dropWhile (\<lambda>r. r_actor r \<noteq> subject) ?T)"
    unfolding dropWhile_map comp_def by (intro arg_cong [where f = "map ?f"] dropWhile_cong refl hit)
  have b: "before_subject subject (trail env tid d) = map (scan_event env) (takeWhile (\<lambda>r. r_actor r \<noteq> subject) ?T)"
    "from_subject subject (trail env tid d) = map (scan_event env) (dropWhile (\<lambda>r. r_actor r \<noteq> subject) ?T)"
    by (simp_all add: before_subject_def from_subject_def trail_def takeWhile_map dropWhile_map comp_def)
  have id: "map ?f (takeWhile (\<lambda>r. r_actor r \<noteq> subject) ?T) = takeWhile (\<lambda>r. r_actor r \<noteq> subject) ?T"
    by (rule map_idI) (auto simp: erase_row_def dest: set_takeWhileD)
  have scan: "map (scan_event env) (map ?f (dropWhile (\<lambda>r. r_actor r \<noteq> subject) ?T))
      = map (erased L subject) (map (scan_event env) (dropWhile (\<lambda>r. r_actor r \<noteq> subject) ?T))"
  proof -
    have "scan_event env (?f r) = erased L subject (scan_event env r)" if "r \<in> set (dropWhile (\<lambda>r. r_actor r \<noteq> subject) ?T)" for r
      using inT(2) [OF set_dropWhileD [OF that]] by (rule scan_erase_row)
    then show ?thesis by (simp only: map_map comp_def cong: map_cong)
  qed
  have "head_from r_event_hash [] (takeWhile (\<lambda>r. r_actor r \<noteq> subject) ?T) = head_from ev_EventHash [] (before_subject subject (trail env tid d))"
    unfolding b by (rule head_from_map [symmetric]) simp
  then show ?thesis
    unfolding rechained_def tw dw id scan erased_trail_def b by simp
qed

section \<open>The erasure transaction\<close>

lemma appendInTx_fields:
  assumes "appendInTx L tid e env w = (Inr e2, w')" "pg_laws L env" "ev_TenantID e = uuid_String env tid"
    "ev_ID e = uuid_String env i" "pg_time (ev_CreatedAt e) = ev_CreatedAt e" "times_ok (wdb w)"
  shows "ev_Actor e2 = ev_Actor e" "ev_ActorName e2 = ev_ActorName e" "ev_Action e2 = ev_Action e" "ev_TenantID e2 = ev_TenantID e"
proof -
  obtain e1 where e2: "e2 = link_event L (tip_of tid (wdb w)) e1"
    and e1: "e1 = (fill_details e)\<lparr>ev_Details := ev_Details e1, ev_IPAddress := ev_IPAddress e1, ev_ResourceID := ev_ResourceID e1\<rparr>"
    using appendInTx_Inr [OF assms] by metis
  have "ev_Actor e1 = ev_Actor e" "ev_ActorName e1 = ev_ActorName e" "ev_Action e1 = ev_Action e" "ev_TenantID e1 = ev_TenantID e"
    by (subst e1, simp add: fill_details_def)+
  then show "ev_Actor e2 = ev_Actor e" "ev_ActorName e2 = ev_ActorName e" "ev_Action e2 = ev_Action e" "ev_TenantID e2 = ev_TenantID e"
    by (simp_all add: e2)
qed

lemma filter_trail_length:
  "length (filter (\<lambda>e. ev_Actor e = subject) (trail env tid d))
     = length (filter (\<lambda>r. r_tenant r = tid \<and> r_actor r = subject) (audit_events d))"
proof -
  have "mset (filter (\<lambda>r. r_actor r = subject) (trail_rows tid d))
      = mset (filter (\<lambda>r. r_tenant r = tid \<and> r_actor r = subject) (audit_events d))"
    by (simp add: trail_rows_def filter_filter_mset)
  from mset_eq_length [OF this] show ?thesis by (simp add: trail_def filter_map comp_def)
qed

text \<open>What the caller's marker must look like for the chain to verify.\<close>

definition marker_ok :: "string \<Rightarrow> (env \<Rightarrow> uuid \<Rightarrow> nat \<Rightarrow> audit_event) \<Rightarrow> bool" where
  "marker_ok s marker \<longleftrightarrow> (\<forall>env i n. ev_TenantID (marker env i n) = s \<and> ev_ID (marker env i n) = uuid_String env i
     \<and> pg_time (ev_CreatedAt (marker env i n)) = ev_CreatedAt (marker env i n))"

text \<open>Everything a run that erased something did.\<close>

definition erasure_done :: "audit_lib \<Rightarrow> env \<Rightarrow> uuid \<Rightarrow> string \<Rightarrow> nat \<Rightarrow> audit_event \<Rightarrow> 'x audit_db_scheme \<Rightarrow> 'x audit_db_scheme \<Rightarrow> bool" where
  "erasure_done L env tid subject n m d d' \<longleftrightarrow>
     n = length (filter (\<lambda>e. ev_Actor e = subject) (trail env tid d)) \<and> 0 < n \<and> subject \<noteq> ''REDACTED''
     \<and> trail env tid d' = erased_trail L subject (trail env tid d) @ [m]
     \<and> ev_PreviousHash m = head_from ev_EventHash [] (erased_trail L subject (trail env tid d))
     \<and> ev_EventHash m = computeEventHash L (ev_PreviousHash m) m
     \<and> (\<forall>t. t \<noteq> tid \<longrightarrow> trail env t d' = trail env t d)
     \<and> times_ok d' \<and> audit_checkpoints d' = audit_checkpoints d
     \<and> (\<exists>r. map r_id (audit_events d') = map r_id (audit_events d) @ [r] \<and> r \<notin> r_id ` set (audit_events d))"

lemma erasure_done_tenant [simp]: "erasure_done L (env\<lparr>cur_tenant := t\<rparr>) = erasure_done L env"
  by (rule ext)+ (simp add: erasure_done_def)

definition fresh_next :: "env \<Rightarrow> 'x audit_db_scheme \<Rightarrow> bool" where
  "fresh_next env d \<longleftrightarrow> (\<forall>k. next_id env k \<notin> r_id ` set (audit_events d))"

lemma next_id_tenant [simp]: "next_id (env\<lparr>cur_tenant := t\<rparr>) = next_id env"
  by (rule ext) (simp add: next_id_def split: option.splits)

text \<open>The steps after the verification.\<close>

lemma redact_and_rechain:
  assumes red: "audit_redact_subject L tid subject env w = (Inr ids, w1)"
    and load: "sql_read l (\<lambda>env d. Inr (ordered_rows env tid d)) env w1 = (Inr rows, w2)"
    and rech: "rechain L tid ids [] False rows env w2 = (Inr u, w3)"
    and db: "ids_distinct (wdb w)" "visible env tid"
  shows "rewritten tid (wdb w) (wdb w3)" "trail env tid (wdb w3) = erased_trail L subject (trail env tid (wdb w))"
    "card (set ids) = length (filter (\<lambda>e. ev_Actor e = subject) (trail env tid (wdb w)))"
    "subject \<noteq> ''REDACTED''"
proof -
  note r = audit_redact_subject_Inr [OF red]
  have w2: "wdb w2 = wdb w1" and rows: "rows = trail_rows tid (wdb w1)"
    using load db(2) by (auto simp: sql_read_Inr ordered_rows_trail)
  have rows': "rows = map (erase_row L tid subject) (trail_rows tid (wdb w))"
    unfolding rows r(1) by (rule trail_rows_map [OF erase_row_keeps])
  have dist: "distinct (map r_id (trail_rows tid (wdb w)))"
  proof -
    have "distinct (audit_events (wdb w))" "inj_on r_id (set (audit_events (wdb w)))"
      using db(1) by (simp_all add: ids_distinct_def distinct_map)
    then show ?thesis by (auto simp: distinct_map trail_rows_def intro: inj_on_subset)
  qed
  have "map r_id rows = map r_id (trail_rows tid (wdb w))" by (simp add: rows')
  with dist have "rewritten tid (wdb w2) (wdb w3)
     \<and> trail env tid (wdb w3) = rechained L env (\<lambda>r. r_id r \<notin> set ids) [] rows"
    using rechain_run [OF rech, of "[]"] w2 rows by simp
  moreover have "rewritten tid (wdb w) (wdb w1)" unfolding r(1) by (rule erase_rewritten)
  ultimately show "rewritten tid (wdb w) (wdb w3)" "trail env tid (wdb w3) = erased_trail L subject (trail env tid (wdb w))"
    using rechained_erased [OF db(1) r(2)] w2 rows' by (auto intro: rewritten.R_trans)
  have "distinct ids" using db(1) unfolding r(2) ids_distinct_def by (simp add: distinct_map_filter)
  then show "card (set ids) = length (filter (\<lambda>e. ev_Actor e = subject) (trail env tid (wdb w)))"
    using distinct_card [OF \<open>distinct ids\<close>] by (simp add: r(2) filter_trail_length)
  show "subject \<noteq> ''REDACTED''" by (rule r(4))
qed

lemma erasure_marker_appended:
  assumes rw: "rewritten tid d (wdb w)" "trail env tid (wdb w) = erased_trail L subject (trail env tid d)"
    and cnt: "n = length (filter (\<lambda>e. ev_Actor e = subject) (trail env tid d))" "0 < n" "subject \<noteq> ''REDACTED''"
    and app: "appendInTx L tid (marker env i n) env w = (Inr m, w')"
    and ok: "pg_laws L env" "marker_ok (uuid_String env tid) marker" "times_ok d" "i \<notin> r_id ` set (audit_events d)"
  shows "erasure_done L env tid subject n m d (wdb w')" "ev_Actor m = ev_Actor (marker env i n)" "ev_Action m = ev_Action (marker env i n)"
proof -
  note keep = rewritten_keeps [OF rw(1)]
  have e: "ev_TenantID (marker env i n) = uuid_String env tid" "ev_ID (marker env i n) = uuid_String env i"
    "pg_time (ev_CreatedAt (marker env i n)) = ev_CreatedAt (marker env i n)"
    using ok(2) by (simp_all add: marker_ok_def)
  have times: "times_ok (wdb w)" using keep(1) ok(3) by simp
  note eff = appendInTx_trail [OF app ok(1) e times]
  show "ev_Actor m = ev_Actor (marker env i n)" "ev_Action m = ev_Action (marker env i n)"
    using appendInTx_fields [OF app ok(1) e times] by simp_all
  obtain r where r: "audit_events (wdb w') = audit_events (wdb w) @ [r]" "uuid_String env (r_id r) = uuid_String env i"
    using eff(8) by blast
  then have "r_id r = i" using ok(1) by (metis pg_laws_def option.inject)
  then have "\<exists>x. map r_id (audit_events (wdb w')) = map r_id (audit_events d) @ [x] \<and> x \<notin> r_id ` set (audit_events d)"
    using ok(4) keep(2) r(1) by simp
  moreover have "trail env t (wdb w') = trail env t d" if "t \<noteq> tid" for t
    using eff(1) [of t] keep(4) [OF that] that by (simp add: trail_def)
  ultimately show "erasure_done L env tid subject n m d (wdb w')"
    unfolding erasure_done_def using cnt rw(2) eff(1) [of tid] eff(2,3,5,6) keep(3) by simp
qed

lemma redact_tx_Inr:
  assumes run: "redact_tx L tid subject marker env w = (Inr n, w')"
    and ok: "pg_laws L env" "marker_ok (uuid_String env tid) marker" "times_ok (wdb w)" "ids_distinct (wdb w)" "fresh_next env (wdb w)"
    and pos: "0 < length (filter (\<lambda>e. ev_Actor e = subject) (trail env tid (wdb w)))" and vis: "visible env tid"
  shows "\<exists>m i. erasure_done L env tid subject n m (wdb w) (wdb w')
           \<and> ev_Actor m = ev_Actor (marker env i n) \<and> ev_Action m = ev_Action (marker env i n)"
proof -
  from run obtain ids w4 where red: "audit_redact_subject L tid subject env w = (Inr ids, w4)"
    and tail: "(if card (set ids) = 0 then tret 0
           else tbind (sql_read ''re-chain load: '' (\<lambda>env d. Inr (ordered_rows env tid d))) (\<lambda>rows.
                tbind (rechain L tid ids [] False rows) (\<lambda>_.
                tbind draw_id_or_new (\<lambda>i. with_env (\<lambda>env.
                tbind (appendInTx L tid (marker env i (card (set ids)))) (\<lambda>_. tret (card (set ids)))))))) env w4 = (Inr n, w')"
    unfolding redact_tx_def tbind_Inr [of "audit_redact_subject L tid subject"] Let_def by blast
  have "distinct ids" using ok(4) unfolding audit_redact_subject_Inr(2) [OF red] ids_distinct_def by (simp add: distinct_map_filter)
  from distinct_card [OF this] have cnt: "card (set ids) = length (filter (\<lambda>e. ev_Actor e = subject) (trail env tid (wdb w)))"
    by (simp add: audit_redact_subject_Inr(2) [OF red] filter_trail_length)
  with pos have "card (set ids) \<noteq> 0" by simp
  with tail obtain rows w5 w6 m where
    load: "sql_read ''re-chain load: '' (\<lambda>env d. Inr (ordered_rows env tid d)) env w4 = (Inr rows, w5)"
    and rech: "rechain L tid ids [] False rows env w5 = (Inr (), w6)"
    and app: "appendInTx L tid (marker env (next_id env (draws w6)) (card (set ids))) env (w6\<lparr>draws := Suc (draws w6)\<rparr>) = (Inr m, w')"
    and n: "n = card (set ids)"
    unfolding if_not_P [OF \<open>card (set ids) \<noteq> 0\<close>] by (auto simp: tbind_Inr draw_id_or_new_run)
  note rr = redact_and_rechain [OF red load rech ok(4) vis]
  have db: "rewritten tid (wdb w) (wdb (w6\<lparr>draws := Suc (draws w6)\<rparr>))"
    "trail env tid (wdb (w6\<lparr>draws := Suc (draws w6)\<rparr>)) = erased_trail L subject (trail env tid (wdb w))"
    using rr by simp_all
  have "next_id env (draws w6) \<notin> r_id ` set (audit_events (wdb w))" using ok(5) by (simp add: fresh_next_def)
  from erasure_marker_appended [OF db cnt _ rr(4) app ok(1,2,3) this] pos cnt n show ?thesis by auto
qed

lemma AnonymizeAndRechain_Inr:
  assumes run: "AnonymizeAndRechain L (uuid_String env tid) subject marker env w = (Inr n, w')"
    and ok: "pg_laws L env" "marker_ok (uuid_String env tid) marker" "times_ok (wdb w)" "ids_distinct (wdb w)" "fresh_next env (wdb w)"
  obtains (none) "n = 0" "wdb w' = wdb w"
    | (some) m i where "erasure_done L env tid subject n m (wdb w) (wdb w')"
        "ev_Actor m = ev_Actor (marker (env\<lparr>cur_tenant := tid\<rparr>) i n)" "ev_Action m = ev_Action (marker (env\<lparr>cur_tenant := tid\<rparr>) i n)"
        "verify_links L (head_from ev_EventHash [] (before_subject subject (trail env tid (wdb w)))) (from_subject subject (trail env tid (wdb w))) = Inr ()"
proof -
  let ?env = "env\<lparr>cur_tenant := tid\<rparr>"
  let ?es = "trail env tid (wdb w)"
  have parse: "uuid_Parse env (uuid_String env tid) = Some tid" using ok(1) by (simp add: pg_laws_def)
  obtain w1 w2 where w1: "wdb w1 = wdb w" and w': "wdb w' = wdb w2"
    and body: "erase_tx L tid subject marker ?env w1 = (Inr n, w2)"
    using run parse unfolding AnonymizeAndRechain_def by (auto elim!: withTenant_InrE)
  from body obtain wa es w3 where lock: "lockChain ?env w1 = (Inr (), wa)"
    and load: "load_chain ''verify load: '' tid ?env wa = (Inr es, w3)"
    and rest: "(if from_subject subject es = [] then tret 0
       else tbind (tlift (verify_links L (head_from ev_EventHash [] (before_subject subject es)) (from_subject subject es)))
              (\<lambda>_. redact_tx L tid subject marker)) ?env w3 = (Inr n, w2)"
    unfolding erase_tx_def tbind_Inr [of lockChain] tbind_Inr [of "load_chain ''verify load: '' tid"] Let_def
      before_subject_def [symmetric] from_subject_def [symmetric] head_from_def [symmetric] by (elim exE conjE) (rule that, auto)
  have "wdb wa = wdb w" using lock w1 by (auto simp: lockChain_def statement_Inr)
  with load have es: "es = ?es" and w3: "wdb w3 = wdb w"
    by (auto simp: load_chain_def sql_read_Inr ordered_rows_trail trail_def)
  note rest = rest [unfolded es]
  show thesis
  proof (cases "from_subject subject ?es = []")
    case True
    with rest w3 w' none show thesis by simp
  next
    case False
    then have ver: "verify_links L (head_from ev_EventHash [] (before_subject subject ?es)) (from_subject subject ?es) = Inr ()"
      and red: "redact_tx L tid subject marker ?env w3 = (Inr n, w2)"
      using rest by (auto simp: tbind_Inr tlift_def)
    obtain e where "e \<in> set ?es" "ev_Actor e = subject"
      using False unfolding from_subject_def by (auto simp: dropWhile_eq_Nil_conv)
    then have pos: "0 < length (filter (\<lambda>e. ev_Actor e = subject) ?es)" by (auto simp: filter_empty_conv)
    from redact_tx_Inr [OF red] pos ok w3 obtain m i where
      "erasure_done L ?env tid subject n m (wdb w) (wdb w2)" "ev_Actor m = ev_Actor (marker ?env i n)" "ev_Action m = ev_Action (marker ?env i n)"
      by (auto simp: fresh_next_def)
    with some [of m i] ver w' show thesis by simp
  qed
qed

section \<open>The erasure of a data subject\<close>

lemma erasure_marker_ok: "marker_ok s (erasure_marker L s subject actor name)"
  by (simp add: marker_ok_def erasure_marker_def zero_event_def)

lemma insertCheckpointTx_Inr:
  assumes "insertCheckpointTx tid cp env w = (Inr cp', w')"
  shows "cp' = cp\<lparr>cp_TenantID := uuid_String env tid, cp_ID := next_id env (draws w), cp_CreatedAt := db_now env\<rparr>"
    "wdb w' = (wdb w)\<lparr>audit_checkpoints := audit_checkpoints (wdb w) @ [(tid, cp')]\<rparr>"
  using assms by (auto simp: insertCheckpointTx_def tbind_Inr draw_id_or_new_run sql_Inr Let_def split: if_splits)

lemma InsertCheckpoint_Inr:
  assumes "InsertCheckpoint cp env w = (Inr cp', w')"
  obtains t i where "uuid_Parse env (cp_TenantID cp) = Some t"
    "cp' = cp\<lparr>cp_TenantID := uuid_String env t, cp_ID := i, cp_CreatedAt := db_now env\<rparr>"
    "wdb w' = (wdb w)\<lparr>audit_checkpoints := audit_checkpoints (wdb w) @ [(t, cp')]\<rparr>"
proof -
  from assms obtain t w1 w2 where t: "uuid_Parse env (cp_TenantID cp) = Some t" "wdb w1 = wdb w"
    "insertCheckpointTx t cp (env\<lparr>cur_tenant := t\<rparr>) w1 = (Inr cp', w2)" "wdb w' = wdb w2"
    unfolding InsertCheckpoint_def by (rule withTenant_InrE)
  from insertCheckpointTx_Inr [OF t(3)] t that show thesis by simp
qed

lemma CreateCheckpoint_db:
  assumes "CreateCheckpoint L s env w = (r, w')"
  shows "wdb w' = wdb w \<or> (\<exists>c. 1 \<le> cp_EventCount (snd c)
           \<and> wdb w' = (wdb w)\<lparr>audit_checkpoints := audit_checkpoints (wdb w) @ [c]\<rparr>)"
proof (cases "signer L")
  case None
  with assms show ?thesis by (simp add: CreateCheckpoint_def tfail_def)
next
  case (Some key)
  obtain x w1 where hc: "HeadAndCount s env w = (x, w1)" by fastforce
  have w1: "wdb w1 = wdb w" using hc unfolding HeadAndCount_def by (rule withTenant_read)
  show ?thesis
  proof (cases "\<exists>count h. x = Inr (count, h) \<and> count \<noteq> 0 \<and> h \<noteq> []")
    case False
    with assms Some hc w1 show ?thesis by (auto simp: CreateCheckpoint_def tbind_def tfail_def split: sum.splits prod.splits if_splits)
  next
    case True
    then obtain count h where x: "x = Inr (count, h)" "count \<noteq> 0" "h \<noteq> []" by blast
    with assms Some hc have ins: "InsertCheckpoint (signCheckpoint key s h (int count)) env w1 = (r, w')"
      by (simp add: CreateCheckpoint_def tbind_def)
    show ?thesis
    proof (cases r)
      case (Inl e)
      with ins w1 show ?thesis by (auto simp: InsertCheckpoint_def dest: withTenant_Inl)
    next
      case (Inr cp)
      with ins obtain t i where "wdb w' = (wdb w1)\<lparr>audit_checkpoints := audit_checkpoints (wdb w1)
          @ [(t, (signCheckpoint key s h (int count))\<lparr>cp_TenantID := uuid_String env t, cp_ID := i, cp_CreatedAt := db_now env\<rparr>)]\<rparr>"
        by (auto elim: InsertCheckpoint_Inr)
      with x(2) w1 show ?thesis
        by (intro disjI2 exI [of _ "(t, (signCheckpoint key s h (int count))\<lparr>cp_TenantID := uuid_String env t, cp_ID := i, cp_CreatedAt := db_now env\<rparr>)"])
          (simp add: signCheckpoint_def)
    qed
  qed
qed

lemma AnonymizeSubject_Inr:
  assumes run: "AnonymizeSubject L (uuid_String env tid) subject actor name env w = (Inr n, w')" and pos: "0 < n"
    and ok: "pg_laws L env" "times_ok (wdb w)" "ids_distinct (wdb w)" "fresh_next env (wdb w)"
  obtains m d cps where "erasure_done L env tid subject n m (wdb w) d" "ev_Actor m = actor" "ev_Action m = ''audit.subject_erased''"
    "wdb w' = d\<lparr>audit_checkpoints := audit_checkpoints d @ cps\<rparr>" "\<forall>c \<in> set cps. 1 \<le> cp_EventCount (snd c)"
    "verify_links L (head_from ev_EventHash [] (before_subject subject (trail env tid (wdb w)))) (from_subject subject (trail env tid (wdb w))) = Inr ()"
    "uuid_Parse env actor \<noteq> None"
proof -
  let ?mk = "erasure_marker L (uuid_String env tid) subject actor name"
  from run obtain k w1 where an: "AnonymizeAndRechain L (uuid_String env tid) subject ?mk env w = (Inr k, w1)"
    and act: "uuid_Parse env actor \<noteq> None"
    and fin: "(if k = 0 then tret 0 else (\<lambda>env w. case CreateCheckpoint L (uuid_String env tid) env w of (_, w') \<Rightarrow> (Inr k, w'))) env w1 = (Inr n, w')"
    by (auto simp: AnonymizeSubject_def tbind_Inr split: if_splits)
  have "k \<noteq> 0" using fin pos by (auto split: if_splits)
  then have k: "k = n" and cp: "CreateCheckpoint L (uuid_String env tid) env w1 = (fst (CreateCheckpoint L (uuid_String env tid) env w1), w')"
    using fin by (auto split: prod.splits)
  from an ok(1) erasure_marker_ok ok(2,3,4) show thesis
  proof (cases rule: AnonymizeAndRechain_Inr)
    case none
    with \<open>k \<noteq> 0\<close> show thesis by simp
  next
    case (some m i)
    have m: "ev_Actor m = actor" "ev_Action m = ''audit.subject_erased''"
      using some(2,3) by (simp_all add: erasure_marker_def zero_event_def)
    from CreateCheckpoint_db [OF cp] obtain cps where "wdb w' = (wdb w1)\<lparr>audit_checkpoints := audit_checkpoints (wdb w1) @ cps\<rparr>"
      "\<forall>c \<in> set cps. 1 \<le> cp_EventCount (snd c)"
    proof
      assume "wdb w' = wdb w1"
      then show thesis using that [of "[]"] by simp
    next
      assume "\<exists>c. 1 \<le> cp_EventCount (snd c) \<and> wdb w' = (wdb w1)\<lparr>audit_checkpoints := audit_checkpoints (wdb w1) @ [c]\<rparr>"
      then obtain c where "1 \<le> cp_EventCount (snd c)" "wdb w' = (wdb w1)\<lparr>audit_checkpoints := audit_checkpoints (wdb w1) @ [c]\<rparr>" by blast
      then show thesis using that [of "[c]"] by simp
    qed
    from that [OF some(1) [unfolded k] m this some(4) act] show thesis .
  qed
qed

end
