(* ===== verification/Audit_Guarantees.thy ===== *)
theory Audit_Guarantees
  imports Audit_Erasure
begin

text \<open>
  What the audit service guarantees: the effect of an erasure, that a tampered trail is refused untouched,
  that every state the service reaches verifies, what a valid checkpoint says about the events below it,
  and the bounds of the Merkle proofs.
\<close>

section \<open>Erasure\<close>

lemma erasure_done_inv:
  assumes fin: "erasure_done L env tid subject n m d d'" and inv: "audit_inv L env d"
    and cps: "\<forall>c \<in> set cps. 1 \<le> cp_EventCount (snd c)"
  shows "audit_inv L env (d'\<lparr>audit_checkpoints := audit_checkpoints d' @ cps\<rparr>)"
proof -
  let ?d = "d'\<lparr>audit_checkpoints := audit_checkpoints d' @ cps\<rparr>"
  have keep: "trail env t (d'\<lparr>audit_checkpoints := cs\<rparr>) = trail env t d'" for t cs by (simp add: trail_def trail_rows_def)
  have "linked L [] (trail env tid d')"
    using fin inv erased_trail_linked [of L "trail env tid d" subject]
    by (simp add: erasure_done_def linked_append audit_inv_def)
  moreover have "trail env t d' = trail env t d" if "t \<noteq> tid" for t using fin that by (simp add: erasure_done_def)
  ultimately have linked: "linked L [] (trail env t d')" for t using inv by (cases "t = tid") (simp_all add: audit_inv_def)
  obtain r where "map r_id (audit_events d') = map r_id (audit_events d) @ [r]" "r \<notin> r_id ` set (audit_events d)"
    using fin unfolding erasure_done_def by blast
  then have "ids_distinct d'" using inv by (simp add: audit_inv_def ids_distinct_def)
  moreover have "times_ok d'" "audit_checkpoints d' = audit_checkpoints d" using fin by (simp_all add: erasure_done_def)
  ultimately show ?thesis
    using linked inv cps by (auto simp: audit_inv_def keep times_ok_def ids_distinct_def)
qed


section \<open>Tampering stops an erasure\<close>

lemma verify_links_Inl: "verify_links L p es = Inl x \<Longrightarrow> \<exists>msg. x = ErrChainTampered msg"
  by (induction es arbitrary: p) (auto split: if_splits)

lemma AnonymizeAndRechain_tampered:
  fixes w :: "'a audit_db_scheme world"
  assumes h: "healthy env" "pg_laws L env" "tid \<noteq> uuid_Nil"
    and has: "from_subject subject (trail env tid (wdb w)) \<noteq> []"
    and bad: "verify_links L (head_from ev_EventHash [] (before_subject subject (trail env tid (wdb w))))
                (from_subject subject (trail env tid (wdb w))) = Inl x"
  shows "fst (AnonymizeAndRechain L (uuid_String env tid) subject marker env w) = Inl x"
proof -
  let ?env = "env\<lparr>cur_tenant := tid\<rparr>" and ?w = "w\<lparr>stmts := Suc (Suc (stmts w))\<rparr>"
  have he: "healthy ?env" using h(1) by simp
  have lock: "lockChain ?env v = (Inr (), v\<lparr>stmts := Suc (stmts v)\<rparr>)" for v :: "'a audit_db_scheme world"
    using he by (simp add: lockChain_def statement_def)
  have load: "load_chain l tid ?env v = (Inr (trail env tid (wdb v)), v\<lparr>stmts := Suc (stmts v)\<rparr>)" for l and v :: "'a audit_db_scheme world"
    using he by (simp add: load_chain_def ordered_rows_trail trail_def)
  have "fst (erase_tx L tid subject marker ?env ?w) = Inl x"
    using has bad
    by (simp add: erase_tx_def tbind_def [of lockChain] lock tbind_def [of "load_chain _ _"] load Let_def
        before_subject_def from_subject_def head_from_def) (auto simp: tbind_def tlift_def split: if_splits)
  then have "fst (WithTenantTx tid (erase_tx L tid subject marker) env w) = Inl x" by (rule WithTenantTx_fails [OF h(1,3)])
  then show ?thesis
    using h(2) by (simp add: AnonymizeAndRechain_def withTenant_def pg_laws_def)
qed

text \<open>
  Property C30. An erasure never launders tampering: when some event from the subject's first one on does not
  link to its predecessor or does not match its stored hash, the erasure is refused as tampered, nothing is
  redacted and nothing is re-hashed.
\<close>

theorem AnonymizeSubject_refuses_tampered:
  assumes env: "healthy env" "pg_laws L env" "tid \<noteq> uuid_Nil" "uuid_Parse env actor = Some a" "a \<noteq> uuid_Nil"
    and has: "\<exists>e \<in> set (trail env tid (wdb w)). ev_Actor e = subject"
    and bad: "verify_links L (head_from ev_EventHash [] (before_subject subject (trail env tid (wdb w))))
                (from_subject subject (trail env tid (wdb w))) \<noteq> Inr ()"
    and run: "AnonymizeSubject L (uuid_String env tid) subject actor name env w = (r, w')"
  shows "(\<exists>msg. r = Inl (ErrChainTampered msg)) \<and> wdb w' = wdb w"
proof -
  let ?mk = "erasure_marker L (uuid_String env tid) subject actor name"
  obtain x where x: "verify_links L (head_from ev_EventHash [] (before_subject subject (trail env tid (wdb w))))
                (from_subject subject (trail env tid (wdb w))) = Inl x" using bad old.sum.exhaust by (metis (full_types) old.unit.exhaust)
  have "from_subject subject (trail env tid (wdb w)) \<noteq> []" using has by (auto simp: from_subject_def dropWhile_eq_Nil_conv)
  from AnonymizeAndRechain_tampered [OF env(1,2,3) this x]
  have err: "fst (AnonymizeAndRechain L (uuid_String env tid) subject ?mk env w) = Inl x" .
  then obtain w1 where w1: "AnonymizeAndRechain L (uuid_String env tid) subject ?mk env w = (Inl x, w1)"
    by (metis prod.collapse)
  then have "AnonymizeSubject L (uuid_String env tid) subject actor name env w = (Inl x, w1)"
    using env(4,5) by (simp add: AnonymizeSubject_def tbind_def)
  moreover have "wdb w1 = wdb w" using w1 unfolding AnonymizeAndRechain_def by (rule withTenant_Inl)
  ultimately show ?thesis using run verify_links_Inl [OF x] by auto
qed

section \<open>Every reachable state verifies\<close>

text \<open>
  What the environments of one installation have in common: how uuids are written, the laws of the
  casts, and generators that do not repeat an id of the table.
\<close>

definition audit_env :: "audit_lib \<Rightarrow> (uuid \<Rightarrow> string) \<Rightarrow> env \<Rightarrow> 'x audit_db_scheme \<Rightarrow> bool" where
  "audit_env L str env d \<longleftrightarrow> uuid_String env = str \<and> pg_laws L env \<and> fresh_next env d"

text \<open>The tenant text of an envelope, as \<open>IngestEvent\<close> finds it.\<close>

definition envelope_tenant :: "audit_lib \<Rightarrow> string \<Rightarrow> string" where
  "envelope_tenant L raw = (case unmarshal_object L raw of None \<Rightarrow> []
     | Some v \<Rightarrow> or_else (strField v ''tenantid'') (strField (envelope_data v) ''tenant_id''))"

text \<open>The operations of the service, by any caller, with any failures.\<close>

inductive audit_step :: "audit_lib \<Rightarrow> (uuid \<Rightarrow> string) \<Rightarrow> 'x audit_db_scheme \<Rightarrow> 'x audit_db_scheme \<Rightarrow> bool" for L str where
  ingest: "audit_env L str env (wdb w) \<Longrightarrow> envelope_tenant L raw = str t \<Longrightarrow> IngestEvent L subject raw env w = (r, w')
    \<Longrightarrow> audit_step L str (wdb w) (wdb w')"
| denied: "audit_env L str env (wdb w) \<Longrightarrow> RecordAccessDenied L (str t) actor name action endpoint role env w = (r, w')
    \<Longrightarrow> audit_step L str (wdb w) (wdb w')"
| anonymize: "audit_env L str env (wdb w) \<Longrightarrow> AnonymizeSubject L (str t) subject actor name env w = (r', w')
    \<Longrightarrow> audit_step L str (wdb w) (wdb w')"
| checkpoint: "audit_env L str env (wdb w) \<Longrightarrow> CreateCheckpoint L s env w = (c, w') \<Longrightarrow> audit_step L str (wdb w) (wdb w')"
| rebaseline: "audit_env L str env (wdb w) \<Longrightarrow> Rebaseline L (str t) opt env w = (b, w') \<Longrightarrow> audit_step L str (wdb w) (wdb w')"

definition chains_ok :: "audit_lib \<Rightarrow> (uuid \<Rightarrow> string) \<Rightarrow> 'x audit_db_scheme \<Rightarrow> bool" where
  "chains_ok L str d \<longleftrightarrow> (\<forall>env. uuid_String env = str \<longrightarrow> audit_inv L env d)"

lemma audit_inv_cong: "uuid_String env = uuid_String env' \<Longrightarrow> audit_inv L env d = audit_inv L env' d"
  by (simp add: audit_inv_def trail_cong [of env env'])

lemma chains_ok_iff: "uuid_String env = str \<Longrightarrow> chains_ok L str d = audit_inv L env d"
  using audit_inv_cong by (auto simp: chains_ok_def)

lemma audit_inv_checkpoints:
  assumes "audit_inv L env d" "\<forall>c \<in> set cps. 1 \<le> cp_EventCount (snd c)"
  shows "audit_inv L env (d\<lparr>audit_checkpoints := audit_checkpoints d @ cps\<rparr>)"
proof -
  have "trail env t (d\<lparr>audit_checkpoints := cs\<rparr>) = trail env t d" for t cs by (simp add: trail_def trail_rows_def)
  with assms show ?thesis by (auto simp: audit_inv_def times_ok_def ids_distinct_def)
qed

lemma fresh_id: "fresh_next env d \<Longrightarrow> next_id env k \<notin> r_id ` set (audit_events d)"
  by (simp add: fresh_next_def)

lemma IngestEvent_inv:
  assumes run: "IngestEvent L subject raw env w = (r, w')" and ok: "pg_laws L env" "fresh_next env (wdb w)"
    and t: "envelope_tenant L raw = uuid_String env t" and inv: "audit_inv L env (wdb w)"
  shows "audit_inv L env (wdb w')"
proof (cases "unmarshal_object L raw")
  case None
  with run inv show ?thesis by (simp add: IngestEvent_def tfail_def)
next
  case (Some v)
  let ?w = "w\<lparr>draws := Suc (draws w)\<rparr>" and ?i = "next_id env (draws w)"
  have ten: "or_else (strField v ''tenantid'') (strField (envelope_data v) ''tenant_id'') = uuid_String env t"
    using t Some by (simp add: envelope_tenant_def)
  moreover have "uuid_String env t \<noteq> []" using ok(1) by (simp add: pg_laws_def)
  ultimately have app: "appendChained L (ingested subject raw v (uuid_String env ?i) (go_now env)) env ?w = (r, w')"
    using run Some by (simp add: IngestEvent_def tbind_def newID_run)
  have "ev_TenantID (ingested subject raw v (uuid_String env ?i) (go_now env)) = uuid_String env t"
    "ev_ID (ingested subject raw v (uuid_String env ?i) (go_now env)) = uuid_String env ?i"
    using ten by (simp_all add: ingested_def Let_def)
  from appendChained_inv(1) [OF app ok(1) this] inv fresh_id [OF ok(2)] show ?thesis by simp
qed

lemma RecordAccessDenied_inv:
  assumes run: "RecordAccessDenied L (uuid_String env t) actor name action endpoint role env w = (r, w')"
    and ok: "pg_laws L env" "fresh_next env (wdb w)" and inv: "audit_inv L env (wdb w)"
  shows "audit_inv L env (wdb w')"
proof -
  let ?w = "w\<lparr>draws := Suc (draws w)\<rparr>" and ?i = "next_id env (draws w)"
  have "uuid_String env t \<noteq> []" using ok(1) by (simp add: pg_laws_def)
  then have app: "appendChained L (denied_event L (uuid_String env t) actor name action endpoint role (uuid_String env ?i) (go_now env)) env ?w = (r, w')"
    using run by (simp add: RecordAccessDenied_def tbind_def newID_run)
  have "ev_TenantID (denied_event L (uuid_String env t) actor name action endpoint role (uuid_String env ?i) (go_now env)) = uuid_String env t"
    "ev_ID (denied_event L (uuid_String env t) actor name action endpoint role (uuid_String env ?i) (go_now env)) = uuid_String env ?i"
    by (simp_all add: denied_event_def)
  from appendChained_inv(1) [OF app ok(1) this] inv fresh_id [OF ok(2)] show ?thesis by simp
qed

lemma CreateCheckpoint_inv:
  assumes "CreateCheckpoint L s env w = (r, w')" "audit_inv L env' (wdb w)"
  shows "audit_inv L env' (wdb w')"
  using CreateCheckpoint_db [OF assms(1)] audit_inv_checkpoints [OF assms(2), of "[c]" for c] assms(2) by auto

lemma AnonymizeSubject_inv:
  assumes run: "AnonymizeSubject L (uuid_String env t) subject actor name env w = (r, w')"
    and ok: "pg_laws L env" "fresh_next env (wdb w)" and inv: "audit_inv L env (wdb w)"
  shows "audit_inv L env (wdb w')"
proof (cases r)
  case (Inl e)
  let ?mk = "erasure_marker L (uuid_String env t) subject actor name"
  have "wdb w' = wdb w"
  proof (cases "uuid_Parse env actor = None \<or> uuid_Parse env actor = Some uuid_Nil")
    case True
    with run show ?thesis by (auto simp: AnonymizeSubject_def tfail_def)
  next
    case False
    with run Inl have "AnonymizeAndRechain L (uuid_String env t) subject ?mk env w = (Inl e, w')"
      by (auto simp: AnonymizeSubject_def tbind_def tret_def split: prod.splits sum.splits if_splits)
    then show ?thesis unfolding AnonymizeAndRechain_def by (rule withTenant_Inl)
  qed
  with inv show ?thesis by simp
next
  case (Inr n)
  have tables: "times_ok (wdb w)" "ids_distinct (wdb w)" using inv by (simp_all add: audit_inv_def)
  show ?thesis
  proof (cases "n = 0")
    case True
    with run Inr have "AnonymizeAndRechain L (uuid_String env t) subject (erasure_marker L (uuid_String env t) subject actor name) env w = (Inr 0, w')"
      by (auto simp: AnonymizeSubject_def tbind_def tret_def tfail_def split: prod.splits sum.splits if_splits)
    from this ok(1) erasure_marker_ok tables ok(2) inv show ?thesis
      by (cases rule: AnonymizeAndRechain_Inr) (auto simp: erasure_done_def)
  next
    case False
    then obtain m d cps where "erasure_done L env t subject n m (wdb w) d"
      "wdb w' = d\<lparr>audit_checkpoints := audit_checkpoints d @ cps\<rparr>" "\<forall>c \<in> set cps. 1 \<le> cp_EventCount (snd c)"
      using AnonymizeSubject_Inr [OF run [unfolded Inr] _ ok(1) tables ok(2)] by (metis neq0_conv)
    then show ?thesis using erasure_done_inv inv by metis
  qed
qed

subsection \<open>Re-baselining a chain that verifies\<close>

lemma rebaseline_walk_linked:
  assumes "linked L prev (map (scan_event env) rs)"
  shows "snd (rebaseline_walk L env cutover prev res rs) = []
    \<and> rb_Rewritten (fst (rebaseline_walk L env cutover prev res rs)) = rb_Rewritten res
    \<and> rb_Applied (fst (rebaseline_walk L env cutover prev res rs)) = rb_Applied res"
  using assms
proof (induction rs arbitrary: prev res)
  case Nil
  then show ?case by simp
next
  case (Cons r rs)
  let ?h = "r_event_hash r"
  have r: "expectedHashFor L prev (scan_event env r) = ?h" "prev = coalesce (r_previous_hash r)"
    using Cons.prems expected_v2 [of "scan_event env r" L prev] by auto
  have "linked L ?h (map (scan_event env) rs)" using Cons.prems by auto
  from Cons.IH [OF this, of "res\<lparr>rb_OldHead := ?h\<rparr>"] show ?case
    using r by (simp add: Let_def split: prod.splits)
qed

lemma RebaselineChain_linked:
  assumes run: "RebaselineChain L s ap cutover marker sign env w = (r, w')" and inv: "audit_inv L env (wdb w)"
  shows "wdb w' = wdb w \<and> (\<forall>res. r = Inr res \<longrightarrow> rb_Rewritten res = 0 \<and> \<not> rb_Applied res)"
proof (cases r)
  case (Inl e)
  with run show ?thesis by (auto simp: RebaselineChain_def tfail_def dest: withTenant_Inl split: if_splits)
next
  case (Inr res)
  from run Inr obtain tid w1 w2 where w1: "wdb w1 = wdb w" and w': "wdb w' = wdb w2"
    and body: "tbind lockChain (\<lambda>_. tbind (sql_read ''rebaseline load: '' (\<lambda>env d. Inr (ordered_rows env tid d)))
        (\<lambda>rows. rebaseline_tx L tid ap cutover marker sign rows)) (env\<lparr>cur_tenant := tid\<rparr>) w1 = (Inr res, w2)"
    unfolding RebaselineChain_def by (auto split: if_splits elim!: withTenant_InrE)
  let ?rows = "trail_rows tid (wdb w)" and ?env = "env\<lparr>cur_tenant := tid\<rparr>"
  let ?res0 = "zero_rebaseline\<lparr>rb_Events := length ?rows, rb_CutoverConsidered := (cutover \<noteq> None)\<rparr>"
  from body w1 have fin: "rebaseline_tx L tid ap cutover marker sign ?rows ?env (w1\<lparr>stmts := Suc (Suc (stmts w1))\<rparr>) = (Inr res, w2)"
    by (auto simp: tbind_Inr lockChain_def statement_Inr sql_read_Inr ordered_rows_trail)
  have "linked L [] (map (scan_event ?env) ?rows)" using inv by (simp add: audit_inv_def trail_def)
  from rebaseline_walk_linked [OF this, of cutover ?res0]
  have "rb_Rewritten (fst (rebaseline_walk L ?env cutover [] ?res0 ?rows)) = 0"
    "\<not> rb_Applied (fst (rebaseline_walk L ?env cutover [] ?res0 ?rows))"
    by (simp_all add: zero_rebaseline_def)
  with fin w1 w' Inr show ?thesis by (auto simp: rebaseline_tx_def split: prod.splits)
qed

lemma LatestCheckpoint_db: "LatestCheckpoint s env w = (r, w') \<Longrightarrow> wdb w' = wdb w"
  unfolding LatestCheckpoint_def by (rule withTenant_read)

lemma ListAll_db: "ListAll s env w = (r, w') \<Longrightarrow> wdb w' = wdb w"
  unfolding ListAll_def load_chain_def by (rule withTenant_read)

lemma mayResign_db: "mayResign L s allow env w = (r, w') \<Longrightarrow> wdb w' = wdb w"
  by (auto simp: mayResign_def tbind_def tret_def tlift_def dest!: ListAll_db LatestCheckpoint_db
      split: prod.splits sum.splits if_splits)

lemma Rebaseline_inv:
  assumes run: "Rebaseline L s opt env w = (r, w')" and inv: "audit_inv L env (wdb w)"
  shows "audit_inv L env (wdb w')"
proof (cases "op_Apply opt \<and> signer L = None")
  case True
  with run inv show ?thesis by (simp add: Rebaseline_def tfail_def)
next
  case False
  obtain rc w1 where chain: "RebaselineChain L s (op_Apply opt) (op_Cutover opt) (rebaseline_marker L s opt)
      (map_option (\<lambda>key. signCheckpoint key s) (signer L)) env w = (rc, w1)" by fastforce
  from RebaselineChain_linked [OF this inv] have w1: "wdb w1 = wdb w"
    and res: "\<And>res. rc = Inr res \<Longrightarrow> rb_Rewritten res = 0 \<and> \<not> rb_Applied res" by auto
  note rest = run [unfolded Rebaseline_def if_not_P [OF False] tbind_def [of "RebaselineChain _ _ _ _ _ _"] chain]
  show ?thesis
  proof (cases "\<exists>res. rc = Inr res \<and> op_Apply opt")
    case False
    with rest w1 inv res show ?thesis by (auto simp: tret_def split: sum.splits)
  next
    case True
    then obtain res0 where rc: "rc = Inr res0" and ap: "op_Apply opt" by blast
    obtain x w2 where resign: "mayResign L s (op_AllowFirst opt) env w1 = (x, w2)" by fastforce
    have w2: "wdb w2 = wdb w" using mayResign_db [OF resign] w1 by simp
    obtain c w3 where cp: "CreateCheckpoint L s env w2 = (c, w3)" by fastforce
    have "audit_inv L env (wdb w3)" using CreateCheckpoint_inv [OF cp] w2 inv by simp
    with rest rc ap res [OF rc] resign cp w2 inv show ?thesis
      by (auto simp: tbind_def tret_def split: sum.splits if_splits prod.splits)
  qed
qed

interpretation audit_sys: invariant_system "audit_step L str :: 'x audit_db_scheme \<Rightarrow> _" "chains_ok L str" for L str
proof
  fix d d' :: "'x audit_db_scheme"
  assume "audit_step L str d d'" and ok: "chains_ok L str d"
  then show "chains_ok L str d'"
  proof (cases rule: audit_step.cases)
    case (ingest env w raw t subject r w')
    then have "audit_inv L env (wdb w')"
      by (intro IngestEvent_inv [OF ingest(5), of t]) (use ok chains_ok_iff in \<open>auto simp: audit_env_def\<close>)
    with ingest show ?thesis by (auto simp: audit_env_def chains_ok_iff)
  next
    case (denied env w t actor name action endpoint role r w')
    then have str: "uuid_String env = str" by (simp add: audit_env_def)
    have "audit_inv L env (wdb w')"
      by (rule RecordAccessDenied_inv [OF denied(4) [folded str]]) (use denied ok chains_ok_iff in \<open>auto simp: audit_env_def\<close>)
    with denied str show ?thesis by (auto simp: chains_ok_iff)
  next
    case (anonymize env w t subject actor name r' w')
    then have str: "uuid_String env = str" by (simp add: audit_env_def)
    have "audit_inv L env (wdb w')"
      by (rule AnonymizeSubject_inv [OF anonymize(4) [folded str]]) (use anonymize ok chains_ok_iff in \<open>auto simp: audit_env_def\<close>)
    with anonymize str show ?thesis by (auto simp: chains_ok_iff)
  next
    case (checkpoint env w s c w')
    then have "audit_inv L env (wdb w')"
      by (intro CreateCheckpoint_inv [OF checkpoint(4)]) (use ok chains_ok_iff in \<open>auto simp: audit_env_def\<close>)
    with checkpoint show ?thesis by (auto simp: audit_env_def chains_ok_iff)
  next
    case (rebaseline env w t opt b w')
    then have "audit_inv L env (wdb w')"
      by (intro Rebaseline_inv [OF rebaseline(4)]) (use ok chains_ok_iff in \<open>auto simp: audit_env_def\<close>)
    with rebaseline show ?thesis by (auto simp: audit_env_def chains_ok_iff)
  qed
qed

text \<open>Verification in a healthy environment.\<close>

lemma withTenant_healthy_read:
  assumes "healthy env" "uuid_Parse env s = Some tid" "tid \<noteq> uuid_Nil" "f tid (env\<lparr>cur_tenant := tid\<rparr>) (wdb w) = Inr a"
  shows "withTenant s (\<lambda>tid. sql_read l (f tid)) env w = (Inr a, w\<lparr>stmts := Suc (Suc (Suc (Suc (stmts w))))\<rparr>)"
  using assms healthy_WithTenantTx [OF assms(1,3), of "sql_read l (f tid)" w a]
  by (simp add: withTenant_def)

lemma ListAll_healthy:
  assumes "healthy env" "pg_laws L env" "tid \<noteq> uuid_Nil"
  shows "ListAll (uuid_String env tid) env w = (Inr (trail env tid (wdb w)), w\<lparr>stmts := Suc (Suc (Suc (Suc (stmts w))))\<rparr>)"
  unfolding ListAll_def load_chain_def
  by (rule withTenant_healthy_read) (use assms in \<open>auto simp: pg_laws_def ordered_rows_trail trail_def\<close>)

text \<open>The newest checkpoint of a tenant.\<close>

definition newest_checkpoint :: "uuid \<Rightarrow> 'x audit_db_scheme \<Rightarrow> audit_checkpoint option" where
  "newest_checkpoint tid d =
     (case rev (sort_key (\<lambda>c. (cp_CreatedAt c, cp_ID c)) (map snd (filter (\<lambda>r. fst r = tid) (audit_checkpoints d)))) of
        [] \<Rightarrow> None | c # _ \<Rightarrow> Some c)"

lemma tenant_checkpoints_all:
  "visible env tid \<Longrightarrow> tenant_checkpoints env tid d
     = rev (sort_key (\<lambda>c. (cp_CreatedAt c, cp_ID c)) (map snd (filter (\<lambda>r. fst r = tid) (audit_checkpoints d))))"
proof -
  assume "visible env tid"
  then have same: "(\<lambda>r. fst r = tid \<and> visible env (fst r)) = (\<lambda>r. fst r = tid)" by auto
  show ?thesis unfolding tenant_checkpoints_def same ..
qed

lemma LatestCheckpoint_healthy:
  assumes "healthy env" "pg_laws L env" "tid \<noteq> uuid_Nil"
  shows "LatestCheckpoint (uuid_String env tid) env w = (Inr (newest_checkpoint tid (wdb w)), w\<lparr>stmts := Suc (Suc (Suc (Suc (stmts w))))\<rparr>)"
  unfolding LatestCheckpoint_def
  by (rule withTenant_healthy_read) (use assms in \<open>auto simp: pg_laws_def tenant_checkpoints_all newest_checkpoint_def\<close>)

lemma newest_checkpoint_mem:
  assumes "newest_checkpoint tid d = Some c" shows "(tid, c) \<in> set (audit_checkpoints d)"
proof -
  let ?cs = "map snd (filter (\<lambda>r. fst r = tid) (audit_checkpoints d))"
  obtain rest where "rev (sort_key (\<lambda>c. (cp_CreatedAt c, cp_ID c)) ?cs) = c # rest"
    using assms by (auto simp: newest_checkpoint_def split: list.splits)
  then have "c \<in> set (rev (sort_key (\<lambda>c. (cp_CreatedAt c, cp_ID c)) ?cs))" by simp
  then have "c \<in> set ?cs" by simp
  then show ?thesis by force
qed

lemma check_checkpoint_result:
  assumes "check_checkpoint L env cp es res = Some r"
  shows "ir_Valid r = ir_Valid res \<and> ir_Verified r = ir_Verified res \<and> ir_TotalEvents r = ir_TotalEvents res"
  using assms by (auto simp: check_checkpoint_def Let_def split: if_splits option.splits)

lemma check_checkpoint_total: "1 \<le> cp_EventCount cp \<Longrightarrow> \<exists>r. check_checkpoint L env cp es res = Some r"
  by (auto simp: check_checkpoint_def Let_def split: option.splits)

lemma VerifyIntegrity_healthy:
  assumes env: "healthy env" "pg_laws L env" "tid \<noteq> uuid_Nil" and inv: "audit_inv L env (wdb w)"
  shows "\<exists>res w'. VerifyIntegrity L (uuid_String env tid) env w = (Inr res, w') \<and> ir_Valid res \<and> wdb w' = wdb w
      \<and> ir_Verified res = length (trail env tid (wdb w)) \<and> ir_TotalEvents res = length (trail env tid (wdb w))
      \<and> (case newest_checkpoint tid (wdb w) of None \<Rightarrow> True | Some cp \<Rightarrow>
           check_checkpoint L env cp (trail env tid (wdb w))
             ((start_result (uuid_String env tid) (length (trail env tid (wdb w))))\<lparr>ir_Verified := length (trail env tid (wdb w))\<rparr>) = Some res)"
proof -
  let ?es = "trail env tid (wdb w)"
  let ?res = "(start_result (uuid_String env tid) (length ?es))\<lparr>ir_Verified := length ?es\<rparr>"
  have "chain_ok L [] ?es" using inv linked_chain_ok by (auto simp: audit_inv_def)
  then have loop: "verify_loop L [] (start_result (uuid_String env tid) (length ?es)) ?es = ?res"
    by (simp add: verify_loop_result) (simp add: start_result_def)
  have valid: "ir_Valid ?res" by (simp add: start_result_def)
  show ?thesis
  proof (cases "newest_checkpoint tid (wdb w)")
    case None
    then show ?thesis
      by (simp add: VerifyIntegrity_def tbind_def ListAll_healthy [OF env] loop valid verifyLatestCheckpoint_def LatestCheckpoint_healthy [OF env] Let_def)
        (simp add: start_result_def)
  next
    case (Some cp)
    have "1 \<le> cp_EventCount cp" using newest_checkpoint_mem [OF Some] inv by (auto simp: audit_inv_def)
    then obtain r where r: "check_checkpoint L env cp ?es ?res = Some r" using check_checkpoint_total by blast
    from check_checkpoint_result [OF r] valid have "ir_Valid r" "ir_Verified r = length ?es" "ir_TotalEvents r = length ?es"
      by (simp_all add: start_result_def)
    with Some r show ?thesis
      by (simp add: VerifyIntegrity_def tbind_def ListAll_healthy [OF env] loop valid verifyLatestCheckpoint_def LatestCheckpoint_healthy [OF env] Let_def)
  qed
qed


section \<open>What a valid checkpoint proves\<close>

lemma HeadAndCount_Inr:
  assumes "HeadAndCount s env w = (Inr (k, h), w')"
  obtains tid where "uuid_Parse env s = Some tid" "k = length (trail env tid (wdb w))"
    "h = head_from ev_EventHash [] (trail env tid (wdb w))" "wdb w' = wdb w"
proof -
  from assms obtain tid w1 w2 where t: "uuid_Parse env s = Some tid" "wdb w1 = wdb w" "wdb w' = wdb w2"
    and rd: "sql_read [] (\<lambda>env d. let rs = ordered_rows env tid d in Inr (length rs, if rs = [] then [] else r_event_hash (last rs)))
       (env\<lparr>cur_tenant := tid\<rparr>) w1 = (Inr (k, h), w2)"
    unfolding HeadAndCount_def by (rule withTenant_InrE)
  from rd t have "k = length (trail_rows tid (wdb w))" "h = head_from r_event_hash [] (trail_rows tid (wdb w))" "wdb w2 = wdb w"
    by (auto simp: sql_read_Inr Let_def ordered_rows_trail head_from_def)
  moreover have "head_from r_event_hash [] (trail_rows tid (wdb w)) = head_from ev_EventHash [] (trail env tid (wdb w))"
    unfolding trail_def by (rule head_from_map [symmetric]) simp
  ultimately show thesis using that t by (simp add: trail_def)
qed

text \<open>A checkpoint is signed over the head and the length of the chain it was made from.\<close>

lemma CreateCheckpoint_signs:
  assumes run: "CreateCheckpoint L (uuid_String env tid) env w = (Inr cp, w')" and laws: "pg_laws L env"
  obtains key i where "signer L = Some key" "trail env tid (wdb w) \<noteq> []"
    "cp = (signCheckpoint key (uuid_String env tid) (head_from ev_EventHash [] (trail env tid (wdb w)))
             (int (length (trail env tid (wdb w)))))\<lparr>cp_ID := i, cp_CreatedAt := db_now env\<rparr>"
    "wdb w' = (wdb w)\<lparr>audit_checkpoints := audit_checkpoints (wdb w) @ [(tid, cp)]\<rparr>"
proof -
  have parse: "uuid_Parse env (uuid_String env tid) = Some tid" using laws by (simp add: pg_laws_def)
  from run obtain key where key: "signer L = Some key" by (auto simp: CreateCheckpoint_def split: option.splits)
  with run obtain k h w1 where hc: "HeadAndCount (uuid_String env tid) env w = (Inr (k, h), w1)"
    and rest: "(if k = 0 \<or> h = [] then tfail (DBError ''no audit events to checkpoint'')
          else InsertCheckpoint (signCheckpoint key (uuid_String env tid) h (int k))) env w1 = (Inr cp, w')"
    by (auto simp: CreateCheckpoint_def tbind_Inr split: prod.splits)
  from hc parse have c: "k = length (trail env tid (wdb w))" "h = head_from ev_EventHash [] (trail env tid (wdb w))" "wdb w1 = wdb w"
    by (auto elim: HeadAndCount_Inr)
  from rest have ins: "InsertCheckpoint (signCheckpoint key (uuid_String env tid) h (int k)) env w1 = (Inr cp, w')"
    and "k \<noteq> 0" by (auto split: if_splits)
  from ins obtain t i where "uuid_Parse env (uuid_String env tid) = Some t"
    "cp = (signCheckpoint key (uuid_String env tid) h (int k))\<lparr>cp_TenantID := uuid_String env t, cp_ID := i, cp_CreatedAt := db_now env\<rparr>"
    "wdb w' = (wdb w1)\<lparr>audit_checkpoints := audit_checkpoints (wdb w1) @ [(t, cp)]\<rparr>"
    by (rule InsertCheckpoint_Inr) (simp add: signCheckpoint_def)
  with parse c \<open>k \<noteq> 0\<close> show thesis by (intro that [OF key, of i]) (auto simp: signCheckpoint_def)
qed

lemma nat_int_pred [simp]: "nat (int n - 1) = n - Suc 0"
  by arith

text \<open>The signed message determines the tenant, the head and the count.\<close>

lemma bar_split_first: "CHR ''|'' \<notin> set a \<Longrightarrow> CHR ''|'' \<notin> set b \<Longrightarrow> a @ CHR ''|'' # x = b @ CHR ''|'' # y \<Longrightarrow> a = b \<and> x = y"
proof (induction a arbitrary: b)
  case Nil
  then show ?case by (cases b) auto
next
  case (Cons c a)
  then show ?case by (cases b) auto
qed

lemma bar_split_last:
  assumes "CHR ''|'' \<notin> set x" "CHR ''|'' \<notin> set y" "a @ CHR ''|'' # x = b @ CHR ''|'' # y"
  shows "a = b \<and> x = y"
proof -
  have "rev x @ CHR ''|'' # rev a = rev y @ CHR ''|'' # rev b" using arg_cong [OF assms(3), of rev] by simp
  from bar_split_first [OF _ _ this] assms(1,2) show ?thesis by simp
qed

lemma show_int_bar: "CHR ''|'' \<notin> set (show_int n)"
  by (auto simp: show_int_def is_digit_def dest!: show_nat_digits)

lemma show_int_inj: "show_int m = show_int n \<longleftrightarrow> m = n"
proof
  assume eq: "show_int m = show_int n"
  have "show_nat k \<noteq> CHR ''-'' # s" for k s using show_nat_digits [of "CHR ''-''" k] by (auto simp: is_digit_def)
  then have "(m < 0) = (n < 0)" using eq by (metis show_int_def)
  with eq show "m = n" by (cases "n < 0") (simp_all add: show_int_def)
qed simp

lemma CanonicalCheckpointMessage_inj:
  assumes "CanonicalCheckpointMessage t h n = CanonicalCheckpointMessage t' h' n'"
    and "CHR ''|'' \<notin> set t" "CHR ''|'' \<notin> set t'"
  shows "t = t' \<and> h = h' \<and> n = n'"
proof -
  from assms(1) have "t @ CHR ''|'' # (h @ CHR ''|'' # show_int n) = t' @ CHR ''|'' # (h' @ CHR ''|'' # show_int n')"
    by (simp add: CanonicalCheckpointMessage_def)
  from bar_split_first [OF assms(2,3) this] have "t = t'" "h @ CHR ''|'' # show_int n = h' @ CHR ''|'' # show_int n'" by simp_all
  moreover from bar_split_last [OF show_int_bar show_int_bar this(2)] have "h = h'" "show_int n = show_int n'" by simp_all
  ultimately show ?thesis by (simp add: show_int_inj)
qed

lemma LatestCheckpoint_Inr:
  assumes "LatestCheckpoint s env w = (Inr c, w')" "uuid_Parse env s = Some tid"
  shows "c = newest_checkpoint tid (wdb w)"
proof -
  from assms obtain w1 w2 where "wdb w1 = wdb w"
    and "sql_read [] (\<lambda>env d. Inr (case tenant_checkpoints env tid d of [] \<Rightarrow> None | c # _ \<Rightarrow> Some c)) (env\<lparr>cur_tenant := tid\<rparr>) w1 = (Inr c, w2)"
    unfolding LatestCheckpoint_def by (auto elim!: withTenant_InrE)
  then show ?thesis by (simp add: sql_read_Inr newest_checkpoint_def tenant_checkpoints_all)
qed

text \<open>A result that reports a valid checkpoint: which checkpoint it was and what was compared.\<close>

lemma VerifyIntegrity_checkpoint:
  assumes run: "VerifyIntegrity L s env w = (Inr res, w')" and parse: "uuid_Parse env s = Some tid"
    and good: "ir_Valid res" "ir_CheckpointValid res"
  obtains cp sig where "newest_checkpoint tid (wdb w) = Some cp" "chain_ok L [] (trail env tid (wdb w))"
    "ed_verify L (CanonicalCheckpointMessage (cp_TenantID cp) (cp_HeadHash cp) (cp_EventCount cp)) sig"
    "1 \<le> cp_EventCount cp" "cp_EventCount cp \<le> int (length (trail env tid (wdb w)))" "ir_CheckpointCount res = cp_EventCount cp"
    "ev_EventHash (trail env tid (wdb w) ! nat (cp_EventCount cp - 1)) = cp_HeadHash cp"
proof -
  from run obtain es w1 where list: "ListAll s env w = (Inr es, w1)"
    and rest: "(if \<not> ir_Valid (verify_loop L [] (start_result s (length es)) es) then tret (verify_loop L [] (start_result s (length es)) es)
       else verifyLatestCheckpoint L s es (verify_loop L [] (start_result s (length es)) es)) env w1 = (Inr res, w')"
    by (auto simp: VerifyIntegrity_def tbind_Inr Let_def)
  let ?res = "verify_loop L [] (start_result s (length es)) es"
  from list parse have es: "es = trail env tid (wdb w)" and w1: "wdb w1 = wdb w" by (auto elim: ListAll_Inr)
  have "ir_Valid ?res" using rest good(1) by (auto split: if_splits)
  then have chain: "chain_ok L [] es" using verify_loop_valid [of "start_result s (length es)"] by (simp add: start_result_def)
  then have "?res = (start_result s (length es))\<lparr>ir_Verified := ir_Verified (start_result s (length es)) + length es\<rparr>" by (rule verify_loop_result)
  then have off: "\<not> ir_CheckpointValid ?res" by (simp add: start_result_def)
  from rest \<open>ir_Valid ?res\<close> have vl: "verifyLatestCheckpoint L s es ?res env w1 = (Inr res, w')" by simp
  obtain x w2 where lc: "LatestCheckpoint s env w1 = (x, w2)" by fastforce
  obtain cp where cp: "x = Inr (Some cp)" "check_checkpoint L env cp es ?res = Some res"
    using vl good(2) off lc by (auto simp: verifyLatestCheckpoint_def split: sum.splits option.splits)
  have "newest_checkpoint tid (wdb w) = Some cp" using LatestCheckpoint_Inr [OF lc [unfolded cp(1)] parse] w1 by simp
  moreover from cp(2) good(2) off obtain sig where
    "ed_verify L (CanonicalCheckpointMessage (cp_TenantID cp) (cp_HeadHash cp) (cp_EventCount cp)) sig"
    "1 \<le> cp_EventCount cp" "cp_EventCount cp \<le> int (length es)" "ir_CheckpointCount res = cp_EventCount cp"
    "ev_EventHash (es ! nat (cp_EventCount cp - 1)) = cp_HeadHash cp"
    by (auto simp: check_checkpoint_def Let_def split: if_splits option.splits)
  ultimately show thesis using that chain es by simp
qed

text \<open>The chains this installation's service has put its signature under.\<close>

definition checkpointed :: "audit_lib \<Rightarrow> env \<Rightarrow> uuid \<Rightarrow> audit_event list \<Rightarrow> bool" where
  "checkpointed L env tid es \<longleftrightarrow> (\<exists>env0 (w0 :: audit_db world) cp w1.
     uuid_String env0 = uuid_String env \<and> pg_laws L env0 \<and> audit_inv L env0 (wdb w0)
     \<and> CreateCheckpoint L (uuid_String env0 tid) env0 w0 = (Inr cp, w1) \<and> es = trail env0 tid (wdb w0))"

lemma checkpointed_chain:
  assumes "checkpointed L env tid es"
  shows "es \<noteq> [] \<and> linked L [] es"
proof -
  from assms obtain env0 cp and w0 w1 :: "audit_db world" where laws: "pg_laws L env0" and inv: "audit_inv L env0 (wdb w0)"
    and run: "CreateCheckpoint L (uuid_String env0 tid) env0 w0 = (Inr cp, w1)" and es: "es = trail env0 tid (wdb w0)"
    unfolding checkpointed_def by blast
  have "linked L [] es" using inv es by (simp add: audit_inv_def)
  moreover have "es \<noteq> []" using CreateCheckpoint_signs [OF run laws] es by metis
  ultimately show ?thesis by blast
qed


lemma newest_checkpoint_snoc:
  assumes "\<And>x. (tid, x) \<in> set (audit_checkpoints d) \<Longrightarrow> (cp_CreatedAt x, cp_ID x) \<le> (cp_CreatedAt c, cp_ID c)"
  shows "newest_checkpoint tid (d\<lparr>audit_checkpoints := audit_checkpoints d @ [(tid, c)]\<rparr>) = Some c"
proof -
  let ?cs = "map snd (filter (\<lambda>r. fst r = tid) (audit_checkpoints d))"
  have "(cp_CreatedAt x, cp_ID x) \<le> (cp_CreatedAt c, cp_ID c)" if "x \<in> set ?cs" for x
    using that assms [of x] by (auto simp only: set_map set_filter image_iff mem_Collect_eq prod.collapse split_paired_all fst_conv snd_conv)
  then have "sort_key (\<lambda>c. (cp_CreatedAt c, cp_ID c)) (?cs @ [c]) = sort_key (\<lambda>c. (cp_CreatedAt c, cp_ID c)) ?cs @ [c]"
    by (rule sort_key_snoc_max)
  then show ?thesis by (simp add: newest_checkpoint_def)
qed

text \<open>
  Property C31. A fresh checkpoint verifies: right after \<open>CreateCheckpoint\<close> has signed the chain of a tenant,
  \<open>VerifyIntegrity\<close> reports the chain and the checkpoint as valid, for as many events as the chain has. The
  hypotheses are that \<open>ed25519.Verify\<close> accepts what \<open>ed25519.Sign\<close> made, and that the new checkpoint is
  the newest one of the tenant.
\<close>

theorem CreateCheckpoint_verifies:
  assumes env: "healthy env" "pg_laws L env" "tid \<noteq> uuid_Nil" and inv: "audit_inv L env (wdb w)"
    and key: "\<And>k m. signer L = Some k \<Longrightarrow> ed_verify L m (snd k m)"
    and run: "CreateCheckpoint L (uuid_String env tid) env w = (Inr cp, w1)"
    and newest: "\<And>x. (tid, x) \<in> set (audit_checkpoints (wdb w)) \<Longrightarrow> (cp_CreatedAt x, cp_ID x) \<le> (cp_CreatedAt cp, cp_ID cp)"
  shows "\<exists>res w2. VerifyIntegrity L (uuid_String env tid) env w1 = (Inr res, w2) \<and> ir_Valid res \<and> ir_CheckpointValid res
           \<and> ir_CheckpointCount res = int (length (trail env tid (wdb w)))"
proof -
  let ?es = "trail env tid (wdb w)" and ?h = "head_from ev_EventHash [] (trail env tid (wdb w))"
  obtain k i where k: "signer L = Some k" and ne: "?es \<noteq> []"
    and cp: "cp = (signCheckpoint k (uuid_String env tid) ?h (int (length ?es)))\<lparr>cp_ID := i, cp_CreatedAt := db_now env\<rparr>"
    and w1: "wdb w1 = (wdb w)\<lparr>audit_checkpoints := audit_checkpoints (wdb w) @ [(tid, cp)]\<rparr>"
    using CreateCheckpoint_signs [OF run env(2)] by metis
  have inv1: "audit_inv L env (wdb w1)" by (rule CreateCheckpoint_inv [OF run inv])
  have tr: "trail env tid (wdb w1) = ?es" by (simp add: w1 trail_def trail_rows_def)
  have new: "newest_checkpoint tid (wdb w1) = Some cp" unfolding w1 by (rule newest_checkpoint_snoc [OF newest])
  have "ev_EventHash (?es ! nat (int (length ?es) - 1)) = ?h"
    using ne by (simp add: head_from_def last_conv_nth)
  then have good: "ir_CheckpointValid res \<and> ir_CheckpointCount res = int (length ?es)"
    if "check_checkpoint L env cp ?es r0 = Some res" for res r0
    using that key [OF k] k ne by (auto simp: check_checkpoint_def Let_def cp signCheckpoint_def b64_decode_encode)
  from VerifyIntegrity_healthy [OF env inv1] new tr obtain res w2 where
    "VerifyIntegrity L (uuid_String env tid) env w1 = (Inr res, w2)" "ir_Valid res"
    "check_checkpoint L env cp ?es ((start_result (uuid_String env tid) (length ?es))\<lparr>ir_Verified := length ?es\<rparr>) = Some res"
    by auto
  with good show ?thesis by blast
qed

text \<open>
  A re-baselining signs the head of a chain that needs no repair only when the signed history
  vouches for it: with a checkpoint present, its signature verifies under this key and the event it counts up to
  still has the signed hash; with none, only on explicit request. A head the newest checkpoint already covers is
  never signed again.
\<close>

theorem may_resign_sound:
  assumes "may_resign L allow es latest = Inr (True, nc)" "es \<noteq> []"
  shows "case latest of
           None \<Rightarrow> allow \<and> nc
         | Some cp \<Rightarrow> \<not> nc \<and> \<not> (cp_HeadHash cp = ev_EventHash (last es) \<and> cp_EventCount cp = int (length es))
             \<and> (\<exists>sig. b64_decode (cp_Signature cp) = Some sig
                  \<and> ed_verify L (CanonicalCheckpointMessage (cp_TenantID cp) (cp_HeadHash cp) (cp_EventCount cp)) sig)
             \<and> (\<exists>xs e ys. es = xs @ e # ys \<and> int (length xs) + 1 = cp_EventCount cp \<and> ev_EventHash e = cp_HeadHash cp)"
proof (cases latest)
  case None
  with assms show ?thesis by (simp add: may_resign_def split: if_splits)
next
  case (Some cp)
  let ?n = "nat (cp_EventCount cp - 1)"
  from assms Some obtain sig where sig: "b64_decode (cp_Signature cp) = Some sig"
      "ed_verify L (CanonicalCheckpointMessage (cp_TenantID cp) (cp_HeadHash cp) (cp_EventCount cp)) sig"
    and n: "1 \<le> cp_EventCount cp" "cp_EventCount cp \<le> int (length es)" "ev_EventHash (es ! ?n) = cp_HeadHash cp"
    and new: "\<not> (cp_HeadHash cp = ev_EventHash (last es) \<and> cp_EventCount cp = int (length es))" "\<not> nc"
    by (auto simp: may_resign_def Let_def split: if_splits option.splits)
  have "es = take ?n es @ es ! ?n # drop (Suc ?n) es" using n by (intro id_take_nth_drop) linarith
  moreover have "int (length (take ?n es)) + 1 = cp_EventCount cp" using n by simp
  ultimately have "\<exists>xs e ys. es = xs @ e # ys \<and> int (length xs) + 1 = cp_EventCount cp \<and> ev_EventHash e = cp_HeadHash cp"
    using n(3) by blast
  then show ?thesis using Some sig new by simp
qed

section \<open>Merkle proofs\<close>

text \<open>
  A Merkle root does not determine its leaves: repeating the last of an odd number of leaves
  gives the same root, so a proof over a trail and one over the trail with its last event listed twice carry
  the same root hash.
\<close>

theorem merkleRoot_repeats_last:
  assumes "even (length xs)" "xs \<noteq> []"
  shows "merkleRoot L (xs @ [x]) = merkleRoot L (xs @ [x, x])"
proof -
  have level: "merkle_level L (ys @ [y]) = merkle_level L (ys @ [y, y])" if "even (length ys)" for ys y
    using that by (induction ys rule: induct_list012) auto
  have "merkle_reduce L (ys @ [y]) = merkle_reduce L (ys @ [y, y])" if "even (length ys)" "ys \<noteq> []" for ys y
    using that level [of ys y] by (simp add: merkle_reduce.simps [of L "ys @ _"])
  with assms show ?thesis by (simp add: merkleRoot_def)
qed

text \<open>The stable sort keeps every event.\<close>

lemma mset_insert_stable: "mset (insert_stable lt x xs) = add_mset x (mset xs)"
  by (induction xs) auto

lemma mset_sort_stable [simp]: "mset (sort_stable lt xs) = mset xs"
  by (induction xs) (simp_all add: sort_stable_def mset_insert_stable)

lemma length_sort_stable [simp]: "length (sort_stable lt xs) = length xs"
  by (rule mset_eq_length) simp

lemma List_page_bound:
  assumes "List_page L f env w = (Inr (evs, token), w')"
  shows "length evs \<le> list_page_size f"
  using assms unfolding List_page_def
  by (rule withTenant_InrE) (auto simp: sql_read_Inr Let_def split: if_splits)


text \<open>
  A Merkle proof is valid exactly when every event it covers still has the hash its fields and its
  stored link give; its leaves are the stored hashes of the events, each once.
\<close>

theorem buildMerkleProof_valid:
  "mp_Valid (buildMerkleProof L t rt ri evs) = list_all (\<lambda>e. ev_EventHash e = expectedHashFor L (ev_PreviousHash e) e) evs
   \<and> mset (mp_LeafHashes (buildMerkleProof L t rt ri evs)) = image_mset ev_EventHash (mset evs)"
proof -
  have "set (sort_stable event_before evs) = set evs" by (metis mset_sort_stable set_mset_mset)
  moreover have "mset (map ev_EventHash (sort_stable event_before evs)) = image_mset ev_EventHash (mset evs)" by simp
  ultimately show ?thesis
    by (auto simp: buildMerkleProof_def Let_def first_broken_def find_None_iff list_all_iff)
qed

end
