(* ===== verification/Audit_Pipeline.thy ===== *)
theory Audit_Pipeline
  imports Audit_Guarantees Outbox_Publisher
begin

text \<open>
  From a service's transaction to the audit trail: the outbox row a request writes, the CloudEvents envelope
  the publisher makes of it, and the audit event the audit service derives from that envelope.
\<close>

section \<open>What an append keeps of the event it is given\<close>

lemma appendInTx_source:
  assumes "appendInTx L tid e env w = (Inr e2, w')"
  obtains e1 tip w1 where "canonicalise L (fill_details e) env w = (Inr e1, w1)" "e2 = link_event L tip e1"
  using assms
  by (auto simp: appendInTx_def fill_details_def [symmetric] Let_def lockChain_def tbind_Inr)

lemma canonicalise_keeps:
  assumes "canonicalise L e env w = (Inr e1, w')"
  shows "e1 = e\<lparr>ev_Details := ev_Details e1, ev_IPAddress := ev_IPAddress e1, ev_ResourceID := ev_ResourceID e1\<rparr>"
    and "pg_laws L env \<Longrightarrow> ev_ResourceID e = uuid_String env u \<Longrightarrow> ev_ResourceID e1 = uuid_String env u"
  using assms by (auto simp: canonicalise_def sql_read_Inr cast_or_null_Inr pg_laws_def split: option.splits sum.splits if_splits)

lemma appendInTx_keeps:
  assumes "appendInTx L tid e env w = (Inr e2, w')"
  shows "ev_TenantID e2 = ev_TenantID e" "ev_Action e2 = ev_Action e" "ev_Actor e2 = ev_Actor e"
    "ev_ActorName e2 = ev_ActorName e" "ev_ResourceType e2 = ev_ResourceType e" "ev_UserAgent e2 = ev_UserAgent e"
    "ev_SourceEvent e2 = ev_SourceEvent e" "ev_ResourceTitle e2 = ev_ResourceTitle e"
    and "pg_laws L env \<Longrightarrow> ev_ResourceID e = uuid_String env u \<Longrightarrow> ev_ResourceID e2 = uuid_String env u"
proof -
  from assms obtain e1 tip w1 where can: "canonicalise L (fill_details e) env w = (Inr e1, w1)" and e2: "e2 = link_event L tip e1"
    by (rule appendInTx_source)
  have e1: "e1 = (fill_details e)\<lparr>ev_Details := ev_Details e1, ev_IPAddress := ev_IPAddress e1, ev_ResourceID := ev_ResourceID e1\<rparr>"
    by (rule canonicalise_keeps(1) [OF can])
  have fields: "ev_TenantID e1 = ev_TenantID e" "ev_Action e1 = ev_Action e" "ev_Actor e1 = ev_Actor e"
    "ev_ActorName e1 = ev_ActorName e" "ev_ResourceType e1 = ev_ResourceType e" "ev_UserAgent e1 = ev_UserAgent e"
    "ev_SourceEvent e1 = ev_SourceEvent e" "ev_ResourceTitle e1 = ev_ResourceTitle e"
    by (subst e1, simp add: fill_details_def)+
  then show "ev_TenantID e2 = ev_TenantID e" "ev_Action e2 = ev_Action e" "ev_Actor e2 = ev_Actor e"
    "ev_ActorName e2 = ev_ActorName e" "ev_ResourceType e2 = ev_ResourceType e" "ev_UserAgent e2 = ev_UserAgent e"
    "ev_SourceEvent e2 = ev_SourceEvent e" "ev_ResourceTitle e2 = ev_ResourceTitle e"
    by (simp_all add: e2 link_event_def Let_def)
  assume "pg_laws L env" "ev_ResourceID e = uuid_String env u"
  then have "ev_ResourceID e1 = uuid_String env u" by (intro canonicalise_keeps(2) [OF can]) (simp_all add: fill_details_def)
  then show "ev_ResourceID e2 = uuid_String env u" by (simp add: e2 link_event_def Let_def)
qed

section \<open>The envelope\<close>

text \<open>The payload fields that take precedence over the envelope's.\<close>

definition audit_keys :: "string list" where
  "audit_keys = [''tenant_id'', ''actor_id'', ''actor_name'', ''ip_address'', ''user_agent'', ''resource_type'', ''resource_id'']"

lemma splitEnvelopeSubject_join:
  assumes "t \<noteq> []" "CHR ''/'' \<notin> set t" "i \<noteq> []"
  shows "splitEnvelopeSubject (t @ ''/'' @ i) = Some (t, i)"
  using assms by (simp add: splitEnvelopeSubject_def index_byte_append_notin)

lemma cloudEvent_fields:
  fixes env svc r
  defines "v \<equiv> cloudEvent env svc r"
  assumes "uuid_String env (o_TenantID r) \<noteq> []"
  shows "strField v ''type'' = o_EventType r" "strField v ''tenantid'' = uuid_String env (o_TenantID r)"
    "strField v ''subject'' = o_AggregateType r @ ''/'' @ uuid_String env (o_AggregateID r)"
    "json_field ''data'' v = Some (o_Payload r)"
    "strField v ''vdmsactorid'' = (case o_ActorID r of None \<Rightarrow> [] | Some a \<Rightarrow> uuid_String env a)"
    "strField v ''vdmsactorname'' = opt_str (o_ActorName r)"
    "strField v ''vdmsuseragent'' = opt_str (o_UserAgent r)"
    "strField v ''vdmsclientip'' = opt_str (o_IPAddress r)"
  using assms(2)
  by (simp_all add: v_def cloudEvent_def strField_def json_field_def omitempty_def)

lemma payload_silent: "\<forall>k \<in> set audit_keys. map_of fs k = None \<Longrightarrow> k \<in> set audit_keys \<Longrightarrow> strField (JObj fs) k = []"
  by (simp add: strField_def json_field_def)

text \<open>The event derived from an envelope whose payload names neither actor nor resource.\<close>

lemma ingested_cloudEvent:
  fixes env svc r raw i now
  defines "v \<equiv> cloudEvent env svc r"
  defines "a \<equiv> ingested (o_EventType r) raw v i now"
  assumes r: "o_Payload r = JObj fs" "\<forall>k \<in> set audit_keys. map_of fs k = None"
    and str: "\<And>u. uuid_String env u \<noteq> []"
    and agg: "o_AggregateType r \<noteq> []" "CHR ''/'' \<notin> set (o_AggregateType r)"
  shows "ev_ID a = i" "ev_TenantID a = uuid_String env (o_TenantID r)" "ev_Action a = o_EventType r"
    "ev_SourceEvent a = o_EventType r" "ev_ResourceType a = o_AggregateType r"
    "ev_ResourceID a = uuid_String env (o_AggregateID r)"
    "ev_Actor a = (case o_ActorID r of None \<Rightarrow> [] | Some u \<Rightarrow> uuid_String env u)"
    "ev_ActorName a = opt_str (o_ActorName r)" "ev_UserAgent a = opt_str (o_UserAgent r)"
proof -
  note fields = cloudEvent_fields [of env r svc, folded v_def, OF str]
  have data: "envelope_data v = JObj fs" using fields(4) r(1) by (simp add: envelope_data_def)
  have silent: "strField (JObj fs) k = []" if "k \<in> set audit_keys" for k using payload_silent [OF r(2) that] .
  note silents = silent [of "''actor_id''"] silent [of "''actor_name''"] silent [of "''user_agent''"]
    silent [of "''resource_type''"] silent [of "''resource_id''"]
  have res: "resource_of v (JObj fs) = (o_AggregateType r, uuid_String env (o_AggregateID r))"
    using silents fields(3) splitEnvelopeSubject_join [OF agg str, of "o_AggregateID r"]
    by (simp add: resource_of_def Let_def or_else_def audit_keys_def)
  show "ev_ID a = i" "ev_TenantID a = uuid_String env (o_TenantID r)" "ev_Action a = o_EventType r"
    "ev_SourceEvent a = o_EventType r" "ev_ResourceType a = o_AggregateType r"
    "ev_ResourceID a = uuid_String env (o_AggregateID r)"
    using fields(1,2) str [of "o_TenantID r"] res by (simp_all add: a_def ingested_def Let_def data or_else_def)
  show "ev_Actor a = (case o_ActorID r of None \<Rightarrow> [] | Some u \<Rightarrow> uuid_String env u)"
    "ev_ActorName a = opt_str (o_ActorName r)" "ev_UserAgent a = opt_str (o_UserAgent r)"
    using fields(5,6,7) silents by (simp_all add: a_def ingested_def Let_def data or_else_def audit_keys_def)
qed

text \<open>
  Property C8. From the request to the audit trail: take the outbox row a request writes for an event whose
  payload names neither actor nor resource itself, publish it, and let the audit service ingest the message.
  When the ingestion succeeds, exactly one event is appended to the trail of the tenant the row belongs to. It
  names the event type as its action, the aggregate as its resource, and the authenticated user of that very
  request, with name and user agent, as its actor; and the trails still verify. The hypothesis on JSON is that
  the envelope survives being marshalled and unmarshalled.
\<close>

theorem published_event_is_audited:
  fixes w w' :: "'a audit_db_scheme world"
  assumes r: "r = outbox_row_of env0 e (JObj fs)" "\<forall>k \<in> set audit_keys. map_of fs k = None"
    and e: "e_AggregateType e \<noteq> []" "CHR ''/'' \<notin> set (e_AggregateType e)"
    and json: "json_Unmarshal L (json_Marshal L (nm_Data (publish_msg env1 svc r))) = Some (nm_Data (publish_msg env1 svc r))"
    and run: "IngestEvent L (nm_Subject (publish_msg env1 svc r)) (json_Marshal L (nm_Data (publish_msg env1 svc r))) env w = (Inr a, w')"
    and env: "uuid_String env1 = uuid_String env" "pg_laws L env" "fresh_next env (wdb w)" "audit_inv L env (wdb w)"
  shows "trail env (e_TenantID e) (wdb w') = trail env (e_TenantID e) (wdb w) @ [a]
     \<and> ev_TenantID a = uuid_String env (e_TenantID e)
     \<and> ev_Action a = e_EventType e \<and> ev_SourceEvent a = e_EventType e
     \<and> ev_ResourceType a = e_AggregateType e \<and> ev_ResourceID a = uuid_String env (e_AggregateID e)
     \<and> ev_Actor a = (case GetUserID (ctx env0) of Inl _ \<Rightarrow> [] | Inr u \<Rightarrow> if u = uuid_Nil then [] else uuid_String env u)
     \<and> ev_ActorName a = GetUserName (ctx env0) \<and> ev_UserAgent a = GetUserAgent (ctx env0)
     \<and> audit_inv L env (wdb w')"
proof -
  let ?v = "cloudEvent env1 svc r" and ?w = "w\<lparr>draws := Suc (draws w)\<rparr>" and ?i = "next_id env (draws w)"
  let ?raw = "json_Marshal L ?v"
  let ?x = "ingested (o_EventType r) ?raw ?v (uuid_String env ?i) (go_now env)"
  let ?y = "?x\<lparr>ev_CreatedAt := pg_time (ev_CreatedAt ?x)\<rparr>"
  have str: "uuid_String env1 u \<noteq> []" for u using env(1,2) by (simp add: pg_laws_def)
  have row: "o_Payload r = JObj fs" "o_AggregateType r \<noteq> []" "CHR ''/'' \<notin> set (o_AggregateType r)"
    using r(1) e by (simp_all add: outbox_row_of_def)
  note x = ingested_cloudEvent [OF row(1) r(2) str row(2,3), of ?raw svc "uuid_String env ?i" "go_now env"]
  have obj: "unmarshal_object L ?raw = Some ?v"
    using json by (simp add: unmarshal_object_def publish_msg_def cloudEvent_def)
  have "ev_TenantID ?x \<noteq> []" using x(2) str by simp
  then have "or_else (strField ?v ''tenantid'') (strField (envelope_data ?v) ''tenant_id'') \<noteq> []"
    by (simp add: ingested_def Let_def)
  with run obj have app: "appendChained L ?x env ?w = (Inr a, w')"
    by (simp add: IngestEvent_def publish_msg_def tbind_def newID_run)
  have named: "ev_TenantID ?x = uuid_String env (o_TenantID r)" "ev_ID ?x = uuid_String env ?i"
    using x(1,2) env(1) by simp_all
  have fresh: "?i \<notin> r_id ` set (audit_events (wdb ?w))" using fresh_id [OF env(3)] by simp
  note eff = appendChained_inv [OF app env(2) named fresh]
  have "trail env (o_TenantID r) (wdb w') = trail env (o_TenantID r) (wdb w) @ [a]" "audit_inv L env (wdb w')"
    using eff env(4) by simp_all
  moreover obtain tid and w1 w2 :: "'a audit_db_scheme world" where "appendInTx L tid ?y (env\<lparr>cur_tenant := tid\<rparr>) w1 = (Inr a, w2)"
    using app unfolding appendChained_def AppendChained_def by (rule withTenant_InrE) (erule that)
  from appendInTx_keeps [OF this] have keep: "ev_TenantID a = ev_TenantID ?x" "ev_Action a = ev_Action ?x" "ev_Actor a = ev_Actor ?x"
    "ev_ActorName a = ev_ActorName ?x" "ev_ResourceType a = ev_ResourceType ?x" "ev_UserAgent a = ev_UserAgent ?x"
    "ev_SourceEvent a = ev_SourceEvent ?x" "ev_ResourceID ?x = uuid_String env u \<Longrightarrow> ev_ResourceID a = uuid_String env u" for u
    using env(2) by simp_all
  moreover have "o_TenantID r = e_TenantID e" "o_EventType r = e_EventType e" "o_AggregateType r = e_AggregateType e" "o_AggregateID r = e_AggregateID e"
    "opt_str (o_ActorName r) = GetUserName (ctx env0)" "opt_str (o_UserAgent r) = GetUserAgent (ctx env0)"
    "(case o_ActorID r of None \<Rightarrow> [] | Some u \<Rightarrow> uuid_String env1 u)
       = (case GetUserID (ctx env0) of Inl _ \<Rightarrow> [] | Inr u \<Rightarrow> if u = uuid_Nil then [] else uuid_String env u)"
    by (simp_all add: r(1) outbox_row_of_def opt_str_def nonempty_def env(1) split: sum.splits)
  ultimately show ?thesis using x env(1) by simp
qed

end
