(* ===== verification/Audit_Examples.thy ===== *)
theory Audit_Examples
  imports Audit_Pipeline Outbox_Examples
begin

text \<open>
  Concrete runs of the audit service, with a one-byte checksum in place of the digest: two recorded denials,
  a checkpoint over them, the erasure of one of the two actors, and a row that was tampered with.
\<close>

section \<open>Evaluation\<close>

text \<open>
  The hash of an event and the rendering of a date are expanded only once their arguments are known: a
  conditional is not entered before its condition is decided.
\<close>

definition event_hash_now :: "audit_lib \<Rightarrow> string \<Rightarrow> audit_event \<Rightarrow> string" where
  "event_hash_now L prev e = hashV2Prefix @ hex_encode (sha256 L (hash_message prev e))"

lemma computeEventHash_code [code]:
  "computeEventHash L prev e = (if ev_CreatedAt e < 0 then event_hash_now L prev e else event_hash_now L prev e)"
  by (simp add: event_hash_now_def computeEventHash_def)

definition date_now :: "time \<Rightarrow> string" where
  "date_now t = (case civil_from_days (t div (24 * hour)) of (y, m, d) \<Rightarrow>
     pad_int 4 y @ ''-'' @ pad_int 2 m @ ''-'' @ pad_int 2 d)"

lemma format_date_code [code]: "format_date t = (if t < 0 then date_now t else date_now t)"
  by (simp add: date_now_def format_date_def)

text \<open>The same for the steps of a transaction, which are run only in a known world.\<close>

definition append_now :: "audit_lib \<Rightarrow> uuid \<Rightarrow> audit_event \<Rightarrow> ('x audit_db_scheme, audit_event) m" where
  "append_now L tid e0 =
     (let e = (if ev_Details e0 = [] then e0\<lparr>ev_Details := ''{}''\<rparr> else e0) in
      tbind (canonicalise L e) (\<lambda>e1. tbind lockChain (\<lambda>_. tbind (chain_head ''chain head: '' tid) (\<lambda>tip.
      let e2 = link_event L tip e1 in tbind (insertEvent L tid e2) (\<lambda>_. tret e2)))))"

lemma appendInTx_code [code]:
  "appendInTx L tid e env w = (if stmts w = 0 then append_now L tid e env w else append_now L tid e env w)"
  by (simp add: append_now_def appendInTx_def)

definition insert_now :: "audit_lib \<Rightarrow> uuid \<Rightarrow> audit_event \<Rightarrow> ('x audit_db_scheme, unit) m" where
  "insert_now L tid e env w = sql [] (\<lambda>env d.
     case row_of_event L env tid e of
       Inl x \<Rightarrow> Inl x
     | Inr r \<Rightarrow>
         if \<not> visible env tid then Inl (DBError ''row violates row-level security policy'')
         else if row_key r \<in> row_key ` set (audit_events d) then Inl (DBError ''duplicate key value'')
         else Inr ((), d\<lparr>audit_events := audit_events d @ [r]\<rparr>)) env w"

lemma insertEvent_code [code]:
  "insertEvent L tid e env w = (if stmts w = 0 then insert_now L tid e env w else insert_now L tid e env w)"
  by (simp add: insert_now_def insertEvent_def)

definition link_now :: "audit_lib \<Rightarrow> audit_row option \<Rightarrow> audit_event \<Rightarrow> audit_event" where
  "link_now L tip e =
     (let prev = (case tip of None \<Rightarrow> [] | Some h \<Rightarrow> r_event_hash h);
          at = (case tip of None \<Rightarrow> ev_CreatedAt e
                | Some h \<Rightarrow> if ev_CreatedAt e > r_created_at h then ev_CreatedAt e else r_created_at h + microsecond);
          e1 = e\<lparr>ev_CreatedAt := at, ev_PreviousHash := prev\<rparr>
      in e1\<lparr>ev_EventHash := computeEventHash L prev e1\<rparr>)"

lemma link_event_code [code]:
  "link_event L tip e = (if ev_CreatedAt e < 0 then link_now L tip e else link_now L tip e)"
  by (simp add: link_now_def link_event_def)

definition redact_now :: "audit_lib \<Rightarrow> uuid \<Rightarrow> string \<Rightarrow> (env \<Rightarrow> uuid \<Rightarrow> nat \<Rightarrow> audit_event) \<Rightarrow> ('x audit_db_scheme, nat) m" where
  "redact_now L tid subjectID marker =
     tbind (audit_redact_subject L tid subjectID) (\<lambda>redacted.
     let n = card (set redacted) in
     if n = 0 then tret 0
     else tbind (sql_read ''re-chain load: '' (\<lambda>env d. Inr (ordered_rows env tid d))) (\<lambda>rows.
          tbind (rechain L tid redacted [] False rows) (\<lambda>_.
          tbind draw_id_or_new (\<lambda>i. with_env (\<lambda>env.
          tbind (appendInTx L tid (marker env i n)) (\<lambda>_. tret n))))))"

lemma redact_tx_code [code]:
  "redact_tx L tid s marker env w = (if stmts w = 0 then redact_now L tid s marker env w else redact_now L tid s marker env w)"
  by (simp add: redact_now_def redact_tx_def)

definition rechain_now :: "audit_lib \<Rightarrow> uuid \<Rightarrow> uuid list \<Rightarrow> string \<Rightarrow> bool \<Rightarrow> audit_row \<Rightarrow> audit_row list \<Rightarrow> ('x audit_db_scheme, unit) m" where
  "rechain_now L tid redacted newPrev rechaining r rs env w =
     (if \<not> (rechaining \<or> r_id r \<in> set redacted) then rechain L tid redacted (r_event_hash r) False rs env w
      else let e = scan_event env r; nxt = computeEventHash L newPrev e in
        tbind (if nxt \<noteq> ev_EventHash e \<or> newPrev \<noteq> ev_PreviousHash e then audit_set_event_hash tid (r_id r) newPrev nxt else tret ())
          (\<lambda>_. rechain L tid redacted nxt True rs) env w)"

lemma rechain_code [code]:
  "rechain L tid redacted newPrev rechaining [] env w = (Inr (), w)"
  "rechain L tid redacted newPrev rechaining (r # rs) env w =
     (if stmts w = 0 then rechain_now L tid redacted newPrev rechaining r rs env w
      else rechain_now L tid redacted newPrev rechaining r rs env w)"
  by (simp_all add: tret_def rechain_now_def Let_def)

section \<open>An installation\<close>

definition checksum :: "string \<Rightarrow> string" where
  "checksum s = [char_of (foldl (\<lambda>n c. n + of_char c) (0 :: int) s)]"

definition demo_sign :: "string \<Rightarrow> string" where
  "demo_sign m = take 2 (rev m)"

definition demo_lib :: audit_lib where
  "demo_lib = \<lparr>sha256 = checksum, signer = Some (''k1'', demo_sign), ed_verify = (\<lambda>m s. s = demo_sign m),
     json_Marshal = (\<lambda>_. ''{}''), json_Unmarshal = (\<lambda>_. None), jsonb_text = Some,
     inet_host = (\<lambda>s. if s = [] then None else Some s), pg_uuid = (\<lambda>s. Some (of_nat (read_nat s))), redact_details = (\<lambda>_. ''{}'')\<rparr>"

text \<open>An environment whose generator draws from a hundred identifiers.\<close>

definition env_at :: "nat \<Rightarrow> env" where
  "env_at n = demo_env\<lparr>new_id := (\<lambda>k. Some (of_nat (n + k mod 100)))\<rparr>"

lemma env_at_fields [simp]: "uuid_String (env_at n) = uuid_String demo_env" "healthy (env_at n)"
  "uuid_Parse (env_at n) = uuid_Parse demo_env" "ctx (env_at n) = ctx demo_env"
  by (simp_all add: env_at_def healthy_def demo_env_def)

lemma demo_laws [simp]: "pg_laws demo_lib (env_at n)"
  by (auto simp: pg_laws_def demo_lib_def env_at_def demo_env_def split: if_splits)

lemma env_at_fresh:
  assumes "\<forall>r \<in> set (audit_events d). unat (r_id r) < n \<or> unat (r_id r) \<ge> n + 100" "n < 100000"
  shows "fresh_next (env_at n) d"
proof -
  have "next_id (env_at n) k \<notin> r_id ` set (audit_events d)" for k
  proof
    assume "next_id (env_at n) k \<in> r_id ` set (audit_events d)"
    then obtain r where r: "r \<in> set (audit_events d)" "r_id r = of_nat (n + k mod 100)"
      by (auto simp: next_id_def env_at_def)
    have "n + k mod 100 < 2 ^ 128" using assms(2) mod_less_divisor [of 100 k] by (simp add: less_trans [of _ 200000])
    then have "unat (r_id r) = n + k mod 100" unfolding r(2) unat_of_nat by simp
    then show False using assms(1) r(1) mod_less_divisor [of 100 k] by fastforce
  qed
  then show ?thesis by (simp add: fresh_next_def)
qed

section \<open>A trail\<close>

definition demo_audit_empty :: audit_db where
  "demo_audit_empty = \<lparr>organizations = [\<lparr>org_ID = 1, org_deleted = False\<rparr>], audit_events = [], audit_checkpoints = []\<rparr>"

abbreviation deny :: "nat \<Rightarrow> string \<Rightarrow> audit_db \<Rightarrow> (gerr + audit_event) \<times> audit_db world" where
  "deny n actor d \<equiv> RecordAccessDenied demo_lib ''1'' actor ''name'' ''events.list'' ''/api'' ''member'' (env_at n) (world_on d)"

text \<open>The rows two recorded denials leave.\<close>

definition denial_row :: "uuid \<Rightarrow> string \<Rightarrow> string \<Rightarrow> string \<Rightarrow> uuid \<Rightarrow> time \<Rightarrow> audit_row" where
  "denial_row i prev h actor a at =
     \<lparr>r_id = i, r_tenant = 1, r_event_hash = h, r_previous_hash = Some prev, r_actor = actor, r_actor_id = Some a,
      r_actor_name = ''name'', r_actor_type = ''user'', r_action = ''audit.events.list.denied'', r_resource_type = None,
      r_resource_id = None, r_resource_title = None, r_details = ''{}'', r_ip_address = None, r_user_agent = None,
      r_source_event = None, r_created_at = at\<rparr>"

definition demo_audit1 :: audit_db where
  "demo_audit1 = demo_audit_empty\<lparr>audit_events := [denial_row 100 [] ''v2:61'' ''2'' 2 1000000000000]\<rparr>"

definition demo_audit :: audit_db where
  "demo_audit = demo_audit_empty\<lparr>audit_events := [denial_row 100 [] ''v2:61'' ''2'' 2 1000000000000,
     denial_row 200 ''v2:61'' ''v2:07'' ''3'' 3 1000000001000]\<rparr>"

lemma demo_denials: "wdb (snd (deny 100 ''2'' demo_audit_empty)) = demo_audit1" "wdb (snd (deny 200 ''3'' demo_audit1)) = demo_audit"
  by code_simp+

lemma demo_audit_fresh: "fresh_next (env_at 100) demo_audit_empty" "fresh_next (env_at 200) demo_audit1" "fresh_next (env_at 300) demo_audit"
  by (rule env_at_fresh; simp add: demo_audit_empty_def demo_audit1_def demo_audit_def denial_row_def)+

lemma demo_uuid: "uuid_String demo_env 1 = ''1''" "uuid_Parse demo_env ''3'' = Some 3" "uuid_Parse demo_env ''1'' = Some 1"
  by code_simp+

lemma demo_audit_steps: "(audit_step demo_lib (uuid_String demo_env))\<^sup>*\<^sup>* demo_audit_empty demo_audit"
proof -
  have "audit_step demo_lib (uuid_String demo_env) (wdb (world_on d)) (wdb (snd (deny n actor d)))"
    if "fresh_next (env_at n) d" for n actor d
  proof (rule audit_step.denied)
    show "audit_env demo_lib (uuid_String demo_env) (env_at n) (wdb (world_on d))" using that by (simp add: audit_env_def)
    show "RecordAccessDenied demo_lib (uuid_String demo_env 1) actor ''name'' ''events.list'' ''/api'' ''member'' (env_at n) (world_on d)
        = (fst (deny n actor d), snd (deny n actor d))" by (simp add: demo_uuid)
  qed
  from this [OF demo_audit_fresh(1), of "''2''"] this [OF demo_audit_fresh(2), of "''3''"]
  have "audit_step demo_lib (uuid_String demo_env) demo_audit_empty demo_audit1"
    "audit_step demo_lib (uuid_String demo_env) demo_audit1 demo_audit"
    by (simp_all add: demo_denials)
  then show ?thesis by (meson converse_rtranclp_into_rtranclp rtranclp.rtrancl_refl)
qed


lemma demo_audit_inv: "audit_inv demo_lib (env_at n) demo_audit"
proof -
  have "chains_ok demo_lib (uuid_String demo_env) demo_audit_empty"
    by (simp add: chains_ok_iff [OF refl] audit_inv_def times_ok_def ids_distinct_def trail_def trail_rows_def demo_audit_empty_def)
  from audit_sys.inv_steps [OF demo_audit_steps this] show ?thesis by (simp add: chains_ok_iff [of "env_at n"])
qed

section \<open>Erasure\<close>

abbreviation demo_erase :: "audit_db \<Rightarrow> (gerr + nat) \<times> audit_db world" where
  "demo_erase d \<equiv> AnonymizeSubject demo_lib ''1'' ''2'' ''3'' ''op'' (env_at 300) (world_on d)"

lemma demo_erase_run: "fst (demo_erase demo_audit) = Inr 1"
  by code_simp


text \<open>Somebody rewrote the action of the first event.\<close>

definition demo_tampered :: audit_db where
  "demo_tampered = demo_audit\<lparr>audit_events := map (\<lambda>r. if r_id r = 100 then r\<lparr>r_action := ''login''\<rparr> else r) (audit_events demo_audit)\<rparr>"

lemma demo_tampered_links:
  "verify_links demo_lib (head_from ev_EventHash [] (before_subject ''2'' (trail (env_at 300) 1 demo_tampered)))
     (from_subject ''2'' (trail (env_at 300) 1 demo_tampered)) \<noteq> Inr ()"
  by code_simp

theorem AnonymizeSubject_refuses_tampered_witness:
  "(\<exists>msg. fst (demo_erase demo_tampered) = Inl (ErrChainTampered msg)) \<and> wdb (snd (demo_erase demo_tampered)) = demo_tampered"
proof -
  have run: "AnonymizeSubject demo_lib (uuid_String (env_at 300) 1) ''2'' ''3'' ''op'' (env_at 300) (world_on demo_tampered)
      = (fst (demo_erase demo_tampered), snd (demo_erase demo_tampered))"
    by (simp add: demo_uuid)
  have "\<exists>e \<in> set (trail (env_at 300) 1 demo_tampered). ev_Actor e = ''2''"
    by (simp add: trail_def trail_rows_def demo_tampered_def demo_audit_def demo_audit_empty_def denial_row_def)
  moreover have "(1 :: uuid) \<noteq> uuid_Nil" "(3 :: uuid) \<noteq> uuid_Nil" by (simp_all add: uuid_Nil_def)
  ultimately show ?thesis
    using AnonymizeSubject_refuses_tampered [OF env_at_fields(2) demo_laws _ _ _ _ _ run, of 3] demo_tampered_links
    by (simp add: demo_uuid)
qed

section \<open>Checkpoints and proofs\<close>

abbreviation demo_check :: "(gerr + audit_checkpoint) \<times> audit_db world" where
  "demo_check \<equiv> CreateCheckpoint demo_lib ''1'' (env_at 300) (world_on demo_audit)"

definition demo_cp :: audit_checkpoint where
  "demo_cp = (signCheckpoint (''k1'', demo_sign) ''1'' ''v2:07'' 2)\<lparr>cp_ID := 300, cp_CreatedAt := 1000 * second\<rparr>"

lemma demo_check_run: "fst demo_check = Inr demo_cp"
  by code_simp

theorem CreateCheckpoint_verifies_witness:
  "\<exists>res w2. VerifyIntegrity demo_lib ''1'' (env_at 300) (snd demo_check) = (Inr res, w2) \<and> ir_Valid res \<and> ir_CheckpointValid res
     \<and> ir_CheckpointCount res = 2"
proof -
  have run: "CreateCheckpoint demo_lib (uuid_String (env_at 300) 1) (env_at 300) (world_on demo_audit) = (Inr demo_cp, snd demo_check)"
    using demo_check_run by (simp add: demo_uuid) (metis prod.collapse)
  have "length (trail (env_at 300) 1 demo_audit) = 2"
    by (simp add: trail_def trail_rows_def demo_audit_def demo_audit_empty_def denial_row_def)
  moreover have "(1 :: uuid) \<noteq> uuid_Nil" by (simp add: uuid_Nil_def)
  moreover have "\<And>k m. signer demo_lib = Some k \<Longrightarrow> ed_verify demo_lib m (snd k m)" by (auto simp: demo_lib_def)
  moreover have "audit_checkpoints (wdb (world_on demo_audit)) = []" by (simp add: demo_audit_def demo_audit_empty_def)
  ultimately show ?thesis
    using CreateCheckpoint_verifies [OF env_at_fields(2) demo_laws _ _ _ run] demo_audit_inv by (simp add: demo_uuid)
qed

text \<open>A re-baselining after one more event may sign, because the second event still carries the signed hash.\<close>

theorem may_resign_sound_witness:
  "\<exists>xs e ys. trail (env_at 300) 1 demo_audit = xs @ e # ys \<and> int (length xs) + 1 = 1 \<and> ev_EventHash e = ''v2:61''"
proof -
  let ?cp = "demo_cp\<lparr>cp_HeadHash := ''v2:61'', cp_EventCount := 1, cp_Signature := b64_encode (demo_sign (CanonicalCheckpointMessage ''1'' ''v2:61'' 1))\<rparr>"
  have "may_resign demo_lib False (trail (env_at 300) 1 demo_audit) (Some ?cp) = Inr (True, False)" by code_simp
  moreover have "trail (env_at 300) 1 demo_audit \<noteq> []" by code_simp
  ultimately show ?thesis using may_resign_sound [of demo_lib False "trail (env_at 300) 1 demo_audit" "Some ?cp"] by simp
qed

theorem merkleRoot_repeats_last_witness:
  "merkleRoot demo_lib [''0a'', ''0b'', ''0c''] = merkleRoot demo_lib [''0a'', ''0b'', ''0c'', ''0c'']"
  using merkleRoot_repeats_last [of "[''0a'', ''0b'']" demo_lib "''0c''"] by simp

abbreviation demo_proof :: "(gerr + merkle_proof) \<times> audit_db world" where
  "demo_proof \<equiv> MerkleProofForResource demo_lib ''1'' [] [] (env_at 300) (world_on demo_audit)"

lemma demo_proof_run: "(case fst demo_proof of Inl _ \<Rightarrow> False | Inr p \<Rightarrow> mp_Count p = 2)"
  by code_simp


text \<open>A key that has signed one message, and a verifier that accepts nothing else.\<close>

definition demo_message :: string where
  "demo_message = CanonicalCheckpointMessage ''1'' ''v2:07'' 2"

definition strict_lib :: audit_lib where
  "strict_lib = demo_lib\<lparr>ed_verify := (\<lambda>m s. m = demo_message \<and> s = demo_sign m)\<rparr>"

lemma strict_hash: "computeEventHash strict_lib = computeEventHash demo_lib"
  by (rule ext)+ (simp add: computeEventHash_def strict_lib_def)

lemma strict_linked: "linked strict_lib p es = linked demo_lib p es"
  by (induction es arbitrary: p) (simp_all add: strict_hash)

lemma strict_laws: "pg_laws strict_lib (env_at n)"
  using demo_laws [of n] by (simp add: pg_laws_def strict_lib_def)

lemma strict_inv: "audit_inv strict_lib (env_at n) demo_audit"
  using demo_audit_inv [of n] by (simp add: audit_inv_def strict_linked)

abbreviation strict_check :: "(gerr + audit_checkpoint) \<times> audit_db world" where
  "strict_check \<equiv> CreateCheckpoint strict_lib ''1'' (env_at 300) (world_on demo_audit)"

abbreviation strict_verify :: "(gerr + integrity_result) \<times> audit_db world" where
  "strict_verify \<equiv> VerifyIntegrity strict_lib ''1'' (env_at 300) (snd strict_check)"

lemma strict_runs: "fst strict_check = Inr demo_cp" "audit_checkpoints (wdb (snd strict_check)) = [(1, demo_cp)]"
  "(case fst strict_verify of Inl _ \<Rightarrow> False | Inr r \<Rightarrow> ir_Valid r \<and> ir_CheckpointValid r \<and> ir_CheckpointCount r = 2)"
  by code_simp+

lemma demo_trail_head: "head_from ev_EventHash [] (trail (env_at 300) 1 demo_audit) = ''v2:07''" "length (trail (env_at 300) 1 demo_audit) = 2"
  by code_simp+

lemma demo_signed: "checkpointed strict_lib (env_at 300) 1 (trail (env_at 300) 1 demo_audit)"
proof -
  have "CreateCheckpoint strict_lib (uuid_String (env_at 300) 1) (env_at 300) (world_on demo_audit) = (Inr demo_cp, snd strict_check)"
    using strict_runs(1) by (simp add: demo_uuid) (metis prod.collapse)
  then show ?thesis
    unfolding checkpointed_def
    by (intro exI [of _ "env_at 300"] exI [of _ "world_on demo_audit"] exI [of _ demo_cp] exI [of _ "snd strict_check"])
      (simp add: strict_laws strict_inv)
qed


section \<open>From a request to the trail\<close>

definition piped_event :: outbox_event where
  "piped_event = \<lparr>e_ID = 40, e_TenantID = 1, e_EventType = ''dms.task.deleted.v1'', e_AggregateType = ''task'', e_AggregateID = 7,
     e_Payload = Some (JObj [(''task_id'', JStr ''7'')]), e_CreatedAt = second\<rparr>"

definition piped_row :: outbox_row where
  "piped_row = outbox_row_of demo_env piped_event (JObj [(''task_id'', JStr ''7'')])"

definition piped_lib :: audit_lib where
  "piped_lib = demo_lib\<lparr>json_Unmarshal := (\<lambda>_. Some (nm_Data (publish_msg demo_env ''task'' piped_row)))\<rparr>"

abbreviation piped :: "(gerr + audit_event) \<times> audit_db world" where
  "piped \<equiv> IngestEvent piped_lib (nm_Subject (publish_msg demo_env ''task'' piped_row))
     (json_Marshal piped_lib (nm_Data (publish_msg demo_env ''task'' piped_row))) (env_at 100) (world_on demo_audit_empty)"

lemma piped_run: "case fst piped of Inl _ \<Rightarrow> False | Inr _ \<Rightarrow> True"
  by code_simp

theorem published_event_is_audited_witness:
  "\<exists>a. trail (env_at 100) 1 (wdb (snd piped)) = [a] \<and> ev_Actor a = ''2'' \<and> ev_Action a = ''dms.task.deleted.v1''
     \<and> ev_ResourceType a = ''task''"
proof -
  obtain a where "fst piped = Inr a" using piped_run by (auto split: sum.splits)
  then have run: "piped = (Inr a, snd piped)" by (metis prod.collapse)
  have laws: "pg_laws piped_lib (env_at 100)" using demo_laws [of 100] by (simp add: pg_laws_def piped_lib_def)
  have inv: "audit_inv piped_lib (env_at 100) (wdb (world_on demo_audit_empty))"
    by (simp add: audit_inv_def times_ok_def ids_distinct_def trail_def trail_rows_def demo_audit_empty_def)
  have json: "json_Unmarshal piped_lib (json_Marshal piped_lib (nm_Data (publish_msg demo_env ''task'' piped_row)))
      = Some (nm_Data (publish_msg demo_env ''task'' piped_row))" by (simp add: piped_lib_def)
  have row: "piped_row = outbox_row_of demo_env piped_event (JObj [(''task_id'', JStr ''7'')])" by (simp add: piped_row_def)
  have "\<forall>k \<in> set audit_keys. map_of [(''task_id'', JStr ''7'')] k = None" by (simp add: audit_keys_def)
  moreover have "e_AggregateType piped_event \<noteq> []" "CHR ''/'' \<notin> set (e_AggregateType piped_event)" by (simp_all add: piped_event_def)
  moreover have "fresh_next (env_at 100) (wdb (world_on demo_audit_empty))" using demo_audit_fresh(1) by simp
  moreover have "trail (env_at 100) 1 demo_audit_empty = []" by (simp add: trail_def trail_rows_def demo_audit_empty_def)
  moreover have "uuid_String demo_env 2 = ''2''" by code_simp
  moreover have "GetUserID (ctx demo_env) = Inr 2" "(2 :: uuid) \<noteq> uuid_Nil"
    by (simp_all add: demo_env_def demo_user_def emptyctx_def GetUserID_def User_def uuid_Nil_def)
  ultimately show ?thesis
    using published_event_is_audited [OF row _ _ _ json run _ laws _ inv] by (simp add: piped_event_def)
qed

end
