(* ===== verification/Policy_Model.thy ===== *)
theory Policy_Model
  imports Outbox
begin

text \<open>
  The data of the policy service (\<open>services/policy/internal/model\<close>) and the authorisation rules of
  \<open>services/policy/internal/opa/policy.rego\<close> with their Go wrapper \<open>engine.go\<close>.

  A Rego rule body is a conjunction of expressions; a reference to a missing key of \<open>input.context\<close> is
  undefined and makes its expression, and so the body, fail, while \<open>not\<close> of an undefined expression
  succeeds. \<open>ctx_is\<close> and \<open>ctx_nonempty\<close> are these two readings. \<open>parse_rfc3339_ns\<close> is the builtin of the
  Open Policy Agent that reads an instant; \<open>None\<close> is its undefined result.
\<close>

section \<open>\<open>model.go\<close>\<close>

record permission =
  pm_TenantID :: uuid
  pm_ID :: uuid
  pm_ResourceType :: string
  pm_ResourceID :: uuid
  pm_PrincipalType :: string
  pm_PrincipalID :: uuid
  pm_Capability :: string
  pm_Effect :: string
  pm_GrantedBy :: uuid
  pm_GrantedAt :: time
  pm_ValidFrom :: time
  pm_ValidTo :: "time option"
  pm_ExpiresAt :: "time option"

definition IsActive :: "permission \<Rightarrow> time \<Rightarrow> bool" where
  "IsActive p at =
     (if (case pm_ValidTo p of None \<Rightarrow> False | Some v \<Rightarrow> \<not> at < v) then False
      else if (case pm_ExpiresAt p of None \<Rightarrow> False | Some v \<Rightarrow> \<not> at < v) then False
      else if at < pm_ValidFrom p then False
      else True)"

record workspace_member =
  wm_TenantID :: uuid
  wm_WorkspaceID :: uuid
  wm_UserID :: uuid
  wm_Role :: string

type_synonym abac = "string \<Rightarrow> string option"

record check_input =
  chk_SubjectType :: string
  chk_SubjectID :: string
  chk_Action :: string
  chk_ResourceType :: string
  chk_ResourceID :: string
  chk_Context :: abac

record check_result =
  cr_Allowed :: bool
  cr_Reason :: string

section \<open>\<open>engine.go\<close>: what the rules see\<close>

record permission_doc =
  pd_ResourceType :: string
  pd_ResourceID :: string
  pd_PrincipalType :: string
  pd_PrincipalID :: string
  pd_Capability :: string
  pd_ValidTo :: string
  pd_ExpiresAt :: string

record workspace_doc =
  wd_UserID :: string
  wd_WorkspaceID :: string
  wd_Role :: string

record eval_input =
  ei_Input :: check_input
  ei_Permissions :: "permission_doc list"
  ei_UserGroups :: "string list"
  ei_Workspaces :: "workspace_doc list"

section \<open>\<open>policy.rego\<close>\<close>

definition ctx_is :: "check_input \<Rightarrow> string \<Rightarrow> string \<Rightarrow> bool" where
  "ctx_is i key v = (chk_Context i key = Some v)"

definition ctx_nonempty :: "check_input \<Rightarrow> string \<Rightarrow> bool" where
  "ctx_nonempty i key = (case chk_Context i key of None \<Rightarrow> False | Some v \<Rightarrow> v \<noteq> [])"

definition hierarchy :: "string \<Rightarrow> nat option" where
  "hierarchy c =
     (if c = ''admin'' then Some 50
      else if c = ''delete'' then Some 40
      else if c = ''edit'' then Some 30
      else if c = ''share'' then Some 20
      else if c = ''view_unredacted'' then Some 15
      else if c = ''view'' then Some 10
      else None)"

definition capability_includes :: "string \<Rightarrow> string \<Rightarrow> bool" where
  "capability_includes granted requested =
     (case (hierarchy granted, hierarchy requested) of
        (Some g, Some r) \<Rightarrow> r \<le> g
      | _ \<Rightarrow> False)"

definition past :: "(string \<Rightarrow> time option) \<Rightarrow> time \<Rightarrow> string \<Rightarrow> bool" where
  "past parse_rfc3339_ns now s \<longleftrightarrow> s \<noteq> []
     \<and> (case parse_rfc3339_ns s of None \<Rightarrow> False | Some t \<Rightarrow> t < now)"

definition permission_expired :: "(string \<Rightarrow> time option) \<Rightarrow> time \<Rightarrow> permission_doc \<Rightarrow> bool" where
  "permission_expired parse now p \<longleftrightarrow> past parse now (pd_ExpiresAt p) \<or> past parse now (pd_ValidTo p)"

definition matches_principal :: "permission_doc \<Rightarrow> eval_input \<Rightarrow> bool" where
  "matches_principal p e \<longleftrightarrow>
     (pd_PrincipalType p = chk_SubjectType (ei_Input e) \<and> pd_PrincipalID p = chk_SubjectID (ei_Input e))
     \<or> (chk_SubjectType (ei_Input e) = ''user'' \<and> pd_PrincipalType p = ''group''
        \<and> pd_PrincipalID p \<in> set (ei_UserGroups e))"

definition workspace_id_of_input :: "check_input \<Rightarrow> string option" where
  "workspace_id_of_input i =
     (if chk_ResourceType i = ''workspace'' then Some (chk_ResourceID i)
      else if ctx_nonempty i ''workspace_id'' then chk_Context i ''workspace_id''
      else None)"

definition wm_ws_in_scope :: "workspace_doc \<Rightarrow> check_input \<Rightarrow> bool" where
  "wm_ws_in_scope wm i = (workspace_id_of_input i = Some (wd_WorkspaceID wm))"

text \<open>A grant on exactly \<open>(kind, id)\<close> that includes the requested action and has not expired.\<close>

definition grants_on :: "(string \<Rightarrow> time option) \<Rightarrow> time \<Rightarrow> check_input \<Rightarrow> string \<Rightarrow> string option \<Rightarrow> permission_doc \<Rightarrow> bool" where
  "grants_on parse now i kind rid p \<longleftrightarrow> pd_ResourceType p = kind \<and> Some (pd_ResourceID p) = rid
     \<and> capability_includes (pd_Capability p) (chk_Action i) \<and> \<not> permission_expired parse now p"

definition rule1 :: "(string \<Rightarrow> time option) \<Rightarrow> time \<Rightarrow> eval_input \<Rightarrow> bool" where
  "rule1 parse now e = (let i = ei_Input e in
     \<exists>p \<in> set (ei_Permissions e). pd_PrincipalType p = chk_SubjectType i \<and> pd_PrincipalID p = chk_SubjectID i
       \<and> grants_on parse now i (chk_ResourceType i) (Some (chk_ResourceID i)) p)"

definition rule2 :: "(string \<Rightarrow> time option) \<Rightarrow> time \<Rightarrow> eval_input \<Rightarrow> bool" where
  "rule2 parse now e = (let i = ei_Input e in chk_SubjectType i = ''user'' \<and>
     (\<exists>g \<in> set (ei_UserGroups e). \<exists>p \<in> set (ei_Permissions e).
        pd_PrincipalType p = ''group'' \<and> pd_PrincipalID p = g
        \<and> grants_on parse now i (chk_ResourceType i) (Some (chk_ResourceID i)) p))"

definition rule3 :: "(string \<Rightarrow> time option) \<Rightarrow> time \<Rightarrow> eval_input \<Rightarrow> bool" where
  "rule3 parse now e = (let i = ei_Input e in chk_ResourceType i = ''document'' \<and> ctx_nonempty i ''folder_id'' \<and>
     (\<exists>p \<in> set (ei_Permissions e). matches_principal p e
        \<and> grants_on parse now i ''folder'' (chk_Context i ''folder_id'') p))"

definition rule4 :: "(string \<Rightarrow> time option) \<Rightarrow> time \<Rightarrow> eval_input \<Rightarrow> bool" where
  "rule4 parse now e = (let i = ei_Input e in
     (chk_ResourceType i = ''document'' \<or> chk_ResourceType i = ''folder'') \<and> ctx_nonempty i ''workspace_id'' \<and>
     (\<exists>p \<in> set (ei_Permissions e). matches_principal p e
        \<and> grants_on parse now i ''workspace'' (chk_Context i ''workspace_id'') p))"

definition rule5 :: "eval_input \<Rightarrow> bool" where
  "rule5 e = (let i = ei_Input e in chk_SubjectType i = ''user'' \<and>
     (\<exists>wm \<in> set (ei_Workspaces e). wd_UserID wm = chk_SubjectID i \<and> wd_Role wm = ''admin'' \<and> wm_ws_in_scope wm i))"

definition rule5a :: "eval_input \<Rightarrow> bool" where
  "rule5a e = (let i = ei_Input e in chk_SubjectType i = ''user'' \<and> chk_Action i = ''view'' \<and>
     (\<exists>wm \<in> set (ei_Workspaces e). wd_UserID wm = chk_SubjectID i \<and> wm_ws_in_scope wm i))"

definition rule6 :: "eval_input \<Rightarrow> bool" where
  "rule6 e = (let i = ei_Input e in chk_SubjectType i = ''user''
     \<and> (ctx_is i ''user_role'' ''owner'' \<or> ctx_is i ''user_role'' ''admin''))"

definition rego_allow :: "(string \<Rightarrow> time option) \<Rightarrow> time \<Rightarrow> eval_input \<Rightarrow> bool" where
  "rego_allow parse now e \<longleftrightarrow> rule1 parse now e \<or> rule2 parse now e \<or> rule3 parse now e \<or> rule4 parse now e
     \<or> rule5 e \<or> rule5a e \<or> rule6 e"

definition clearance_levels :: "string \<Rightarrow> nat option" where
  "clearance_levels c =
     (if c = ''unclassified'' then Some 0
      else if c = ''internal'' then Some 1
      else if c = ''confidential'' then Some 2
      else if c = ''restricted'' then Some 3
      else None)"

definition clearance_rank :: "string \<Rightarrow> nat" where
  "clearance_rank c = (case clearance_levels c of Some r \<Rightarrow> r | None \<Rightarrow> 0)"

definition clearance_display :: "string \<Rightarrow> string" where
  "clearance_display c = (if c = [] then ''none'' else c)"

definition class_display :: "string \<Rightarrow> string" where
  "class_display c = (if c = [] then ''unclassified'' else c)"

text \<open>The format \<open>'%s'\<close>.\<close>

definition quoted :: "string \<Rightarrow> string" where
  "quoted s = CHR 0x27 # s @ [CHR 0x27]"

definition disposed_deny :: "check_input \<Rightarrow> bool" where
  "disposed_deny i \<longleftrightarrow> chk_ResourceType i = ''document'' \<and> ctx_is i ''lifecycle_state'' ''disposed''
     \<and> \<not> ctx_is i ''user_role'' ''owner'' \<and> \<not> ctx_is i ''user_role'' ''admin''"

definition clearance_deny :: "check_input \<Rightarrow> bool" where
  "clearance_deny i \<longleftrightarrow> ctx_is i ''classification_gate'' ''on'' \<and> ctx_nonempty i ''required_clearance''
     \<and> (case (chk_Context i ''user_clearance'', chk_Context i ''required_clearance'') of
          (Some u, Some r) \<Rightarrow> clearance_rank u < clearance_rank r
        | _ \<Rightarrow> False)
     \<and> \<not> ctx_is i ''user_role'' ''owner''"

definition rego_deny :: "check_input \<Rightarrow> bool" where
  "rego_deny i \<longleftrightarrow> disposed_deny i \<or> ctx_is i ''user_status'' ''deactivated'' \<or> clearance_deny i"

text \<open>\<open>deny_reason\<close> is undefined unless a clearance is missing; the PHI rule and the other one exclude each other.\<close>

definition deny_reason :: "check_input \<Rightarrow> string option" where
  "deny_reason i =
     (if \<not> clearance_deny i then None
      else case (chk_Context i ''required_clearance'', chk_Context i ''user_clearance'') of
        (Some r, Some u) \<Rightarrow>
          if ctx_is i ''has_phi'' ''true''
          then Some (''blocked: document contains PHI and requires '' @ quoted r
                     @ '' clearance, which you lack (your clearance: '' @ quoted (clearance_display u) @ '')'')
          else (case chk_Context i ''security_classification'' of
             None \<Rightarrow> None
           | Some c \<Rightarrow> Some (''blocked: '' @ quoted (class_display c) @ ''-classified document requires '' @ quoted r
                     @ '' clearance, which you lack (your clearance: '' @ quoted (clearance_display u) @ '')''))
      | _ \<Rightarrow> None)"

definition final_decision :: "(string \<Rightarrow> time option) \<Rightarrow> time \<Rightarrow> eval_input \<Rightarrow> bool" where
  "final_decision parse now e \<longleftrightarrow> rego_allow parse now e \<and> \<not> rego_deny (ei_Input e)"

definition Eval :: "(string \<Rightarrow> time option) \<Rightarrow> time \<Rightarrow> eval_input \<Rightarrow> check_result" where
  "Eval parse now e =
     (if final_decision parse now e then \<lparr>cr_Allowed = True, cr_Reason = []\<rparr>
      else let reason = (case deny_reason (ei_Input e) of None \<Rightarrow> [] | Some m \<Rightarrow> m) in
           \<lparr>cr_Allowed = False, cr_Reason = (if reason = [] then ''policy denied'' else reason)\<rparr>)"

end
