(* ===== verification/Policy_Repo.thy ===== *)
theory Policy_Repo
  imports Policy_Model
begin

text \<open>
  The tables the policy service reads and writes, its repository layer
  (\<open>services/policy/internal/repository\<close>) and its Redis cache (\<open>services/policy/internal/cache\<close>).

  The service owns \<open>permissions\<close>; the other tables belong to other services and are only read. The cache is a
  key-value store with an expiry instant per key and a store of sets, kept next to the tables because the code
  never touches it inside a transaction. A Redis command fails when \<open>redis_fault\<close> says so, and then has no effect;
  the Redis server's clock is taken to agree with the service's.
\<close>

section \<open>Tables\<close>

record folder_grant =
  fg_TenantID :: uuid
  fg_FolderID :: uuid
  fg_GranteeType :: string
  fg_GranteeID :: uuid

record folder_facts =
  ff_TenantID :: uuid
  ff_ID :: uuid
  ff_WorkspaceID :: uuid
  ff_Visibility :: "string option"
  ff_OwnerID :: "uuid option"
  ff_deleted :: bool

record doc_facts =
  df_WorkspaceID :: uuid
  df_FolderID :: uuid
  df_LifecycleState :: string
  df_SecurityClassification :: string
  df_HasPHI :: bool
  df_HasPII :: bool

record document_row =
  dr_TenantID :: uuid
  dr_ID :: uuid
  dr_Facts :: doc_facts
  dr_deleted :: bool

record account_row =
  ac_TenantID :: uuid
  ac_ID :: uuid
  ac_Status :: string
  ac_Clearance :: "string option"

record classification_rule =
  cl_MinClassification :: string
  cl_Action :: string
  cl_RequiredClearance :: string
  cl_AppliesToPHI :: bool

record classification_gate =
  ga_Enabled :: bool
  ga_PHIRequiresRestricted :: bool
  ga_Rules :: "classification_rule list"

text \<open>What a cache entry can hold: one of the three encoded types, or bytes that do not decode.\<close>

datatype cval = CPerms "permission_doc list" | CGroups "string list" | CWorkspaces "workspace_doc list" | CRaw string

record policy_db = outbox_db +
  permissions :: "permission list"
  group_members :: "(uuid \<times> uuid \<times> uuid) list"
  workspace_members :: "workspace_member list"
  folder_grants :: "folder_grant list"
  folder_table :: "folder_facts list"
  document_table :: "document_row list"
  accounts :: "account_row list"
  gate_config :: "(uuid \<times> bool \<times> bool) list"
  access_rules :: "(uuid \<times> classification_rule) list"
  redis_kv :: "string \<Rightarrow> (cval \<times> time) option"
  redis_sets :: "string \<Rightarrow> string list"

section \<open>\<open>permission_repo.go\<close>\<close>

text \<open>The validity predicate of the two listings; the parameter arrives at the server in microseconds.\<close>

definition valid_at :: "time \<Rightarrow> permission \<Rightarrow> bool" where
  "valid_at at p \<longleftrightarrow> pm_ValidFrom p \<le> pg_time at
     \<and> (case pm_ValidTo p of None \<Rightarrow> True | Some v \<Rightarrow> pg_time at < v)
     \<and> (case pm_ExpiresAt p of None \<Rightarrow> True | Some v \<Rightarrow> pg_time at < v)"

definition on_resource :: "uuid \<Rightarrow> string \<Rightarrow> uuid \<Rightarrow> permission \<Rightarrow> bool" where
  "on_resource tid kind i p \<longleftrightarrow> pm_TenantID p = tid \<and> pm_ResourceType p = kind \<and> pm_ResourceID p = i"

definition for_principal :: "string \<Rightarrow> uuid \<Rightarrow> permission \<Rightarrow> bool" where
  "for_principal pt pid p \<longleftrightarrow> pm_PrincipalType p = pt \<and> pm_PrincipalID p = pid"

definition Permissions_ListByResource :: "uuid \<Rightarrow> string \<Rightarrow> uuid \<Rightarrow> time \<Rightarrow> ('x policy_db_scheme, permission list) m" where
  "Permissions_ListByResource tid kind i at = sql_read ''policy db: '' (\<lambda>env d.
     Inr (filter (\<lambda>p. on_resource tid kind i p \<and> valid_at at p) (permissions d)))"

definition Permissions_ListByResourceAsOf :: "uuid \<Rightarrow> string \<Rightarrow> uuid \<Rightarrow> time \<Rightarrow> ('x policy_db_scheme, permission list) m" where
  "Permissions_ListByResourceAsOf tid kind i asOf = sql_read ''policy db: '' (\<lambda>env d.
     Inr (filter (\<lambda>p. on_resource tid kind i p \<and> pm_ValidFrom p \<le> pg_time asOf
       \<and> (case pm_ValidTo p of None \<Rightarrow> True | Some v \<Rightarrow> pg_time asOf \<le> v)) (permissions d)))"

definition Permissions_ListByPrincipal :: "uuid \<Rightarrow> string \<Rightarrow> uuid \<Rightarrow> time \<Rightarrow> ('x policy_db_scheme, permission list) m" where
  "Permissions_ListByPrincipal tid pt pid at = sql_read ''policy db: '' (\<lambda>env d.
     Inr (filter (\<lambda>p. pm_TenantID p = tid \<and> for_principal pt pid p \<and> valid_at at p) (permissions d)))"

definition Permissions_ListForPrincipalOnResource ::
    "uuid \<Rightarrow> string \<Rightarrow> uuid \<Rightarrow> string \<Rightarrow> uuid \<Rightarrow> ('x policy_db_scheme, permission list) m" where
  "Permissions_ListForPrincipalOnResource tid kind i pt pid = sql_read ''policy db: '' (\<lambda>env d.
     Inr (filter (\<lambda>p. on_resource tid kind i p \<and> for_principal pt pid p) (permissions d)))"

text \<open>The foreign key of \<open>granted_by\<close> and the slot the unique constraint spans.\<close>

definition known_user :: "uuid \<Rightarrow> uuid \<Rightarrow> 'x policy_db_scheme \<Rightarrow> bool" where
  "known_user tid uid d \<longleftrightarrow> (\<exists>u \<in> set (accounts d). ac_TenantID u = tid \<and> ac_ID u = uid)"

definition slot :: "permission \<Rightarrow> uuid \<times> string \<times> uuid \<times> string \<times> uuid \<times> string" where
  "slot p = (pm_TenantID p, pm_ResourceType p, pm_ResourceID p, pm_PrincipalType p, pm_PrincipalID p, pm_Capability p)"

definition stored_capabilities :: "string list" where
  "stored_capabilities = [''view'', ''edit'', ''delete'', ''share'', ''admin'', ''annotation.create'', ''annotation.delete'']"

definition permission_checks :: "permission \<Rightarrow> bool" where
  "permission_checks p \<longleftrightarrow> pm_ResourceType p \<in> set [''document'', ''folder'', ''workspace'']
     \<and> pm_PrincipalType p \<in> set [''user'', ''group''] \<and> pm_Capability p \<in> set stored_capabilities"

definition fk_violation :: gerr where
  "fk_violation = Domain (Conflict ''foreign key violation'')"

definition has_key :: "uuid \<Rightarrow> uuid \<Rightarrow> permission \<Rightarrow> bool" where
  "has_key tid i p \<longleftrightarrow> pm_TenantID p = tid \<and> pm_ID p = i"

definition Permissions_Reactivate :: "uuid \<Rightarrow> uuid \<Rightarrow> uuid \<Rightarrow> time \<Rightarrow> time option \<Rightarrow> ('x policy_db_scheme, permission) m" where
  "Permissions_Reactivate tid i grantedBy at expiresAt = sql ''policy db: '' (\<lambda>env d.
     let revive = (\<lambda>p. p\<lparr>pm_ValidFrom := pg_time at, pm_ValidTo := None, pm_ExpiresAt := map_option pg_time expiresAt,
                         pm_GrantedBy := grantedBy, pm_GrantedAt := pg_time at\<rparr>) in
     case find (has_key tid i) (permissions d) of
       None \<Rightarrow> Inl (Domain sentinel_NotFound)
     | Some p \<Rightarrow> if \<not> known_user tid grantedBy d then Inl fk_violation
         else Inr (revive p, d\<lparr>permissions := map (\<lambda>q. if has_key tid i q then revive q else q) (permissions d)\<rparr>))"

definition permission_columns :: "permission \<Rightarrow> permission" where
  "permission_columns p = p\<lparr>pm_GrantedAt := pg_time (pm_GrantedAt p), pm_ValidFrom := pg_time (pm_ValidFrom p),
     pm_ValidTo := map_option pg_time (pm_ValidTo p), pm_ExpiresAt := map_option pg_time (pm_ExpiresAt p)\<rparr>"

definition Permissions_Insert :: "permission \<Rightarrow> ('x policy_db_scheme, unit) m" where
  "Permissions_Insert p =
     (if pm_Effect p \<noteq> ''allow''
      then tfail (Domain (Validation ''effect'' ''deny grants not supported in current schema''))
      else sql ''policy db: '' (\<lambda>env d.
        if \<not> permission_checks p then Inl (DBError ''policy db: violates check constraint'')
        else if \<not> visible env (pm_TenantID p) then Inl (DBError ''policy db: row violates row-level security policy'')
        else if (\<exists>q \<in> set (permissions d). has_key (pm_TenantID p) (pm_ID p) q \<or> slot q = slot p)
        then Inl (Domain sentinel_AlreadyExists)
        else if pm_TenantID p \<notin> org_ID ` set (organizations d) \<or> \<not> known_user (pm_TenantID p) (pm_GrantedBy p) d
        then Inl fk_violation
        else Inr ((), d\<lparr>permissions := permissions d @ [permission_columns p]\<rparr>)))"

definition revocable :: "uuid \<Rightarrow> uuid \<Rightarrow> time \<Rightarrow> permission \<Rightarrow> bool" where
  "revocable tid i at p \<longleftrightarrow> has_key tid i p \<and> (case pm_ValidTo p of None \<Rightarrow> True | Some v \<Rightarrow> pg_time at < v)"

definition Permissions_Revoke :: "uuid \<Rightarrow> uuid \<Rightarrow> time \<Rightarrow> ('x policy_db_scheme, permission) m" where
  "Permissions_Revoke tid i at = sql ''policy db: '' (\<lambda>env d.
     let retire = (\<lambda>p. p\<lparr>pm_ValidTo := Some (pg_time at)\<rparr>) in
     case find (revocable tid i at) (permissions d) of
       None \<Rightarrow> Inl (Domain sentinel_NotFound)
     | Some p \<Rightarrow> Inr (retire p, d\<lparr>permissions := map (\<lambda>q. if revocable tid i at q then retire q else q) (permissions d)\<rparr>))"

section \<open>\<open>group_repo.go\<close>, \<open>workspace_repo.go\<close>, \<open>resource_context_repo.go\<close>\<close>

definition Groups_GroupsForUser :: "uuid \<Rightarrow> uuid \<Rightarrow> ('x policy_db_scheme, uuid list) m" where
  "Groups_GroupsForUser tid uid = sql_read ''policy db: '' (\<lambda>env d.
     Inr (map (\<lambda>r. fst (snd r)) (filter (\<lambda>r. fst r = tid \<and> snd (snd r) = uid) (group_members d))))"

definition Groups_UsersInGroup :: "uuid \<Rightarrow> uuid \<Rightarrow> ('x policy_db_scheme, uuid list) m" where
  "Groups_UsersInGroup tid gid = sql_read ''policy db: '' (\<lambda>env d.
     Inr (map (\<lambda>r. snd (snd r)) (filter (\<lambda>r. fst r = tid \<and> fst (snd r) = gid) (group_members d))))"

definition Workspaces_MembershipsForUser :: "uuid \<Rightarrow> uuid \<Rightarrow> ('x policy_db_scheme, workspace_member list) m" where
  "Workspaces_MembershipsForUser tid uid = sql_read ''policy db: '' (\<lambda>env d.
     Inr (filter (\<lambda>m. wm_TenantID m = tid \<and> wm_UserID m = uid) (workspace_members d)))"

definition Context_DocumentFacts :: "uuid \<Rightarrow> uuid \<Rightarrow> ('x policy_db_scheme, doc_facts option) m" where
  "Context_DocumentFacts tid i = sql_read ''policy db: '' (\<lambda>env d. Inr (map_option dr_Facts
     (find (\<lambda>r. dr_TenantID r = tid \<and> dr_ID r = i \<and> \<not> dr_deleted r) (document_table d))))"

definition Context_FolderWorkspace :: "uuid \<Rightarrow> uuid \<Rightarrow> ('x policy_db_scheme, uuid option) m" where
  "Context_FolderWorkspace tid i = sql_read ''policy db: '' (\<lambda>env d. Inr (map_option ff_WorkspaceID
     (find (\<lambda>r. ff_TenantID r = tid \<and> ff_ID r = i \<and> \<not> ff_deleted r) (folder_table d))))"

definition Context_UserFacts :: "uuid \<Rightarrow> uuid \<Rightarrow> ('x policy_db_scheme, string \<times> string) m" where
  "Context_UserFacts tid i = sql_read ''policy db: '' (\<lambda>env d. Inr
     (case find (\<lambda>r. ac_TenantID r = tid \<and> ac_ID r = i) (accounts d) of
        None \<Rightarrow> ([], [])
      | Some r \<Rightarrow> (ac_Status r, case ac_Clearance r of None \<Rightarrow> [] | Some c \<Rightarrow> c)))"

definition Context_ClassificationGate :: "uuid \<Rightarrow> ('x policy_db_scheme, classification_gate) m" where
  "Context_ClassificationGate tid =
     tbind (sql_read ''policy db: '' (\<lambda>env d. Inr (find (\<lambda>r. fst r = tid) (gate_config d)))) (\<lambda>row.
     case row of
       None \<Rightarrow> tret \<lparr>ga_Enabled = False, ga_PHIRequiresRestricted = False, ga_Rules = []\<rparr>
     | Some (_, enabled, phi) \<Rightarrow>
         if \<not> enabled then tret \<lparr>ga_Enabled = False, ga_PHIRequiresRestricted = phi, ga_Rules = []\<rparr>
         else sql_read ''policy db: '' (\<lambda>env d. Inr \<lparr>ga_Enabled = True, ga_PHIRequiresRestricted = phi,
                ga_Rules = map snd (filter (\<lambda>r. fst r = tid) (access_rules d))\<rparr>))"

section \<open>Errors the code ignores\<close>

definition tignore :: "('d, 'a) m \<Rightarrow> ('d, unit) m" where
  "tignore f = (\<lambda>env w. (Inr (), snd (f env w)))"

definition tor :: "('d, 'a) m \<Rightarrow> 'a \<Rightarrow> ('d, 'a) m" where
  "tor f x = (\<lambda>env w. case f env w of (Inl _, w') \<Rightarrow> (Inr x, w') | (Inr a, w') \<Rightarrow> (Inr a, w'))"

section \<open>\<open>cache.go\<close>\<close>

record policy_lib =
  parse_rfc3339_ns :: "string \<Rightarrow> time option"
  redis_fault :: "nat \<Rightarrow> string option"

definition TTL :: time where "TTL = 60 * second"

definition MembershipTTL :: time where "MembershipTTL = 5 * second"

definition redis :: "policy_lib \<Rightarrow> (env \<Rightarrow> 'd \<Rightarrow> 'a \<times> 'd) \<Rightarrow> ('d, 'a) m" where
  "redis L f = (\<lambda>env w.
     let w' = w\<lparr>stmts := Suc (stmts w)\<rparr> in
     case redis_fault L (stmts w) of
       Some msg \<Rightarrow> (Inl (DBError msg), w')
     | None \<Rightarrow> (case f env (wdb w) of (a, d) \<Rightarrow> (Inr a, w'\<lparr>wdb := d\<rparr>)))"

definition ResourcePermsKey :: "env \<Rightarrow> uuid \<Rightarrow> string \<Rightarrow> uuid \<Rightarrow> string" where
  "ResourcePermsKey env tid kind i = ''perm:'' @ uuid_String env tid @ '':'' @ kind @ '':'' @ uuid_String env i"

definition UserGroupsKey :: "env \<Rightarrow> uuid \<Rightarrow> uuid \<Rightarrow> string" where
  "UserGroupsKey env tid uid = ''groups:'' @ uuid_String env tid @ '':'' @ uuid_String env uid"

definition UserWorkspacesKey :: "env \<Rightarrow> uuid \<Rightarrow> uuid \<Rightarrow> string" where
  "UserWorkspacesKey env tid uid = ''workspaces:'' @ uuid_String env tid @ '':'' @ uuid_String env uid"

definition ResourcePermsSetKey :: "env \<Rightarrow> uuid \<Rightarrow> uuid \<Rightarrow> string" where
  "ResourcePermsSetKey env tid gid = ''perm_by_group:'' @ uuid_String env tid @ '':'' @ uuid_String env gid"

definition cache_lookup :: "time \<Rightarrow> 'x policy_db_scheme \<Rightarrow> string \<Rightarrow> cval option" where
  "cache_lookup now d key = (case redis_kv d key of None \<Rightarrow> None | Some (v, e) \<Rightarrow> if now < e then Some v else None)"

definition Cache_Del :: "policy_lib \<Rightarrow> string list \<Rightarrow> ('x policy_db_scheme, unit) m" where
  "Cache_Del L keys = (if keys = [] then tret ()
     else redis L (\<lambda>env d. ((), d\<lparr>redis_kv := (\<lambda>k. if k \<in> set keys then None else redis_kv d k)\<rparr>)))"

definition GetJSON :: "policy_lib \<Rightarrow> string \<Rightarrow> (cval \<Rightarrow> 'a option) \<Rightarrow> ('x policy_db_scheme, 'a option) m" where
  "GetJSON L key decode =
     tbind (redis L (\<lambda>env d. (cache_lookup (go_now env) d key, d))) (\<lambda>b.
     case b of
       None \<Rightarrow> tret None
     | Some v \<Rightarrow> (case decode v of
         Some x \<Rightarrow> tret (Some x)
       | None \<Rightarrow> tbind (tignore (Cache_Del L [key])) (\<lambda>_. tret None)))"

definition SetJSONTTL :: "policy_lib \<Rightarrow> string \<Rightarrow> cval \<Rightarrow> time \<Rightarrow> ('x policy_db_scheme, unit) m" where
  "SetJSONTTL L key v ttl = redis L (\<lambda>env d. ((), d\<lparr>redis_kv := (redis_kv d)(key := Some (v, go_now env + ttl))\<rparr>))"

definition SetJSON :: "policy_lib \<Rightarrow> string \<Rightarrow> cval \<Rightarrow> ('x policy_db_scheme, unit) m" where
  "SetJSON L key v = SetJSONTTL L key v TTL"

definition InvalidateResource :: "policy_lib \<Rightarrow> uuid \<Rightarrow> string \<Rightarrow> uuid \<Rightarrow> ('x policy_db_scheme, unit) m" where
  "InvalidateResource L tid kind i = with_env (\<lambda>env. Cache_Del L [ResourcePermsKey env tid kind i])"

definition InvalidateUserGroups :: "policy_lib \<Rightarrow> uuid \<Rightarrow> uuid \<Rightarrow> ('x policy_db_scheme, unit) m" where
  "InvalidateUserGroups L tid uid = with_env (\<lambda>env. Cache_Del L [UserGroupsKey env tid uid])"

definition InvalidateUserWorkspaces :: "policy_lib \<Rightarrow> uuid \<Rightarrow> uuid \<Rightarrow> ('x policy_db_scheme, unit) m" where
  "InvalidateUserWorkspaces L tid uid = with_env (\<lambda>env. Cache_Del L [UserWorkspacesKey env tid uid])"

definition TrackResourceByGroup :: "policy_lib \<Rightarrow> uuid \<Rightarrow> uuid \<Rightarrow> string \<Rightarrow> uuid \<Rightarrow> ('x policy_db_scheme, unit) m" where
  "TrackResourceByGroup L tid gid kind i = redis L (\<lambda>env d.
     let key = ResourcePermsSetKey env tid gid; member = kind @ '':'' @ uuid_String env i in
     ((), d\<lparr>redis_sets := (redis_sets d)(key := List.insert member (redis_sets d key))\<rparr>))"

definition InvalidateResourcesForGroup :: "policy_lib \<Rightarrow> uuid \<Rightarrow> uuid \<Rightarrow> ('x policy_db_scheme, nat) m" where
  "InvalidateResourcesForGroup L tid gid = with_env (\<lambda>env.
     tbind (redis L (\<lambda>env d. (redis_sets d (ResourcePermsSetKey env tid gid), d))) (\<lambda>members.
     let keys = map (\<lambda>m. ''perm:'' @ uuid_String env tid @ '':'' @ m) members in
     if keys = [] then tret 0
     else tbind (Cache_Del L keys) (\<lambda>_. tret (length keys))))"

end
