(* ===== verification/Policy_Service.thy ===== *)
theory Policy_Service
  imports Policy_Repo
begin

text \<open>
  The operations of the policy service: the cache-aware loaders (\<open>service.go\<close>), the decision
  (\<open>check.go\<close>), granting and revoking (\<open>grant.go\<close>, \<open>grant_rules.go\<close>) and the plain listings (\<open>list.go\<close>)
  of \<open>services/policy/internal/service\<close>.
\<close>

section \<open>\<open>service.go\<close>\<close>

definition permsToDocs :: "env \<Rightarrow> permission list \<Rightarrow> permission_doc list" where
  "permsToDocs env ps = map (\<lambda>p.
     \<lparr>pd_ResourceType = pm_ResourceType p, pd_ResourceID = uuid_String env (pm_ResourceID p),
      pd_PrincipalType = pm_PrincipalType p, pd_PrincipalID = uuid_String env (pm_PrincipalID p),
      pd_Capability = pm_Capability p,
      pd_ValidTo = (case pm_ValidTo p of None \<Rightarrow> [] | Some v \<Rightarrow> format_RFC3339_in (local_offset env v) v),
      pd_ExpiresAt = (case pm_ExpiresAt p of None \<Rightarrow> [] | Some v \<Rightarrow> format_RFC3339_in (local_offset env v) v)\<rparr>) ps"

definition as_perms :: "cval \<Rightarrow> permission_doc list option" where
  "as_perms v = (case v of CPerms ds \<Rightarrow> Some ds | _ \<Rightarrow> None)"

definition as_groups :: "cval \<Rightarrow> string list option" where
  "as_groups v = (case v of CGroups gs \<Rightarrow> Some gs | _ \<Rightarrow> None)"

definition as_workspaces :: "cval \<Rightarrow> workspace_doc list option" where
  "as_workspaces v = (case v of CWorkspaces ws \<Rightarrow> Some ws | _ \<Rightarrow> None)"

text \<open>The common shape of the three loaders: a hit is returned, otherwise the database is read and the cache filled.\<close>

definition loadPermsForOne :: "policy_lib \<Rightarrow> uuid \<Rightarrow> string \<Rightarrow> uuid \<Rightarrow> ('x policy_db_scheme, permission_doc list) m" where
  "loadPermsForOne L tid kind i = with_env (\<lambda>env.
     let key = ResourcePermsKey env tid kind i in
     tbind (tor (GetJSON L key as_perms) None) (\<lambda>hit.
     case hit of
       Some docs \<Rightarrow> tret docs
     | None \<Rightarrow>
         tbind (WithTenantTx tid (Permissions_ListByResource tid kind i (go_now env))) (\<lambda>perms.
         let docs = permsToDocs env perms in
         tbind (tignore (SetJSON L key (CPerms docs))) (\<lambda>_.
         tbind (tfor perms (\<lambda>p. if pm_PrincipalType p = ''group''
                  then tignore (TrackResourceByGroup L tid (pm_PrincipalID p) kind i) else tret ())) (\<lambda>_.
         tret docs)))))"

definition loadUserGroups :: "policy_lib \<Rightarrow> uuid \<Rightarrow> uuid \<Rightarrow> ('x policy_db_scheme, string list) m" where
  "loadUserGroups L tid uid = with_env (\<lambda>env.
     let key = UserGroupsKey env tid uid in
     tbind (tor (GetJSON L key as_groups) None) (\<lambda>hit.
     case hit of
       Some gs \<Rightarrow> tret gs
     | None \<Rightarrow>
         tbind (WithTenantTx tid (Groups_GroupsForUser tid uid)) (\<lambda>ids.
         let out = map (uuid_String env) ids in
         tbind (tignore (SetJSONTTL L key (CGroups out) MembershipTTL)) (\<lambda>_. tret out))))"

definition workspace_docs :: "env \<Rightarrow> workspace_member list \<Rightarrow> workspace_doc list" where
  "workspace_docs env ms = map (\<lambda>m. \<lparr>wd_UserID = uuid_String env (wm_UserID m),
     wd_WorkspaceID = uuid_String env (wm_WorkspaceID m), wd_Role = wm_Role m\<rparr>) ms"

definition loadUserWorkspaces :: "policy_lib \<Rightarrow> uuid \<Rightarrow> uuid \<Rightarrow> ('x policy_db_scheme, workspace_doc list) m" where
  "loadUserWorkspaces L tid uid = with_env (\<lambda>env.
     let key = UserWorkspacesKey env tid uid in
     tbind (tor (GetJSON L key as_workspaces) None) (\<lambda>hit.
     case hit of
       Some ws \<Rightarrow> tret ws
     | None \<Rightarrow>
         tbind (WithTenantTx tid (Workspaces_MembershipsForUser tid uid)) (\<lambda>ms.
         let out = workspace_docs env ms in
         tbind (tignore (SetJSONTTL L key (CWorkspaces out) MembershipTTL)) (\<lambda>_. tret out))))"

text \<open>The cascading loads: a failure to load the folder's or the workspace's grants only loses those grants.\<close>

definition load_cascade :: "policy_lib \<Rightarrow> uuid \<Rightarrow> bool \<Rightarrow> string \<Rightarrow> string \<Rightarrow> ('x policy_db_scheme, permission_doc list) m" where
  "load_cascade L tid applies kind s = with_env (\<lambda>env.
     if applies \<and> s \<noteq> [] then
       (case uuid_Parse env s of
          None \<Rightarrow> tret []
        | Some i \<Rightarrow> tor (loadPermsForOne L tid kind i) [])
     else tret [])"

definition loadResourcePermissions ::
    "policy_lib \<Rightarrow> uuid \<Rightarrow> string \<Rightarrow> uuid \<Rightarrow> string \<Rightarrow> string \<Rightarrow> ('x policy_db_scheme, permission_doc list) m" where
  "loadResourcePermissions L tid kind i folderID workspaceID =
     tbind (loadPermsForOne L tid kind i) (\<lambda>direct.
     tbind (load_cascade L tid (kind = ''document'') ''folder'' folderID) (\<lambda>folderPerms.
     tbind (load_cascade L tid (kind = ''document'' \<or> kind = ''folder'') ''workspace'' workspaceID) (\<lambda>wsPerms.
     tret (direct @ folderPerms @ wsPerms))))"

definition policy_emit :: "uuid \<Rightarrow> uuid \<Rightarrow> string \<Rightarrow> json \<Rightarrow> ('x policy_db_scheme, unit) m" where
  "policy_emit tid aggregateID eventType payload =
     tbind (NewOutboxEvent tid eventType ''permission'' aggregateID (Some payload)) Outbox_Insert"

section \<open>\<open>check.go\<close>\<close>

definition validSubjectTypes :: "string list" where
  "validSubjectTypes = [''user'', ''group'']"

definition validResourceTypes :: "string list" where
  "validResourceTypes = [''document'', ''folder'', ''workspace'']"

definition validActions :: "string list" where
  "validActions = [''view'', ''view_unredacted'', ''share'', ''edit'', ''delete'', ''admin'']"

definition validateCheck :: "uuid \<Rightarrow> check_input \<Rightarrow> gerr option" where
  "validateCheck tid i =
     (if tid = uuid_Nil then Some (Domain (Validation ''tenant_id'' ''required''))
      else if chk_SubjectType i \<notin> set validSubjectTypes
      then Some (Domain (Validation ''subject_type'' ''must be user or group''))
      else if chk_SubjectID i = [] then Some (Domain (Validation ''subject_id'' ''required''))
      else if chk_ResourceType i \<notin> set validResourceTypes
      then Some (Domain (Validation ''resource_type'' ''must be document, folder, or workspace''))
      else if chk_ResourceID i = [] then Some (Domain (Validation ''resource_id'' ''required''))
      else if chk_Action i \<notin> set validActions then Some (Domain (Validation ''action'' ''unsupported action''))
      else None)"

definition ctx_get :: "abac \<Rightarrow> string \<Rightarrow> string" where
  "ctx_get c k = (case c k of None \<Rightarrow> [] | Some v \<Rightarrow> v)"

text \<open>Group and workspace memberships are loaded for users only; a failed load counts as no membership.\<close>

definition load_memberships :: "policy_lib \<Rightarrow> uuid \<Rightarrow> check_input \<Rightarrow> ('x policy_db_scheme, string list \<times> workspace_doc list) m" where
  "load_memberships L tid i = with_env (\<lambda>env.
     if chk_SubjectType i = ''user'' then
       (case uuid_Parse env (chk_SubjectID i) of
          None \<Rightarrow> tret ([], [])
        | Some sid \<Rightarrow>
            tbind (tor (loadUserGroups L tid sid) []) (\<lambda>gs.
            tbind (tor (loadUserWorkspaces L tid sid) []) (\<lambda>ws. tret (gs, ws))))
     else tret ([], []))"

definition Check :: "policy_lib \<Rightarrow> uuid \<Rightarrow> check_input \<Rightarrow> ('x policy_db_scheme, check_result) m" where
  "Check L tid i = with_env (\<lambda>env.
     case validateCheck tid i of
       Some e \<Rightarrow> tfail e
     | None \<Rightarrow> (case uuid_Parse env (chk_ResourceID i) of
         None \<Rightarrow> tfail (Domain (Validation ''resource_id'' ''not a uuid''))
       | Some rid \<Rightarrow>
           tbind (loadResourcePermissions L tid (chk_ResourceType i) rid
                    (ctx_get (chk_Context i) ''folder_id'') (ctx_get (chk_Context i) ''workspace_id'')) (\<lambda>perms.
           tbind (load_memberships L tid i) (\<lambda>(gs, ws).
           tret (Eval (parse_rfc3339_ns L) (go_now env)
                   \<lparr>ei_Input = i, ei_Permissions = perms, ei_UserGroups = gs, ei_Workspaces = ws\<rparr>)))))"

text \<open>
  \<open>BatchCheck\<close> runs the checks in goroutines and stores each result at its own index. The schedule
  lists the indices in the order in which the checks run.
\<close>

definition check_or_deny :: "policy_lib \<Rightarrow> uuid \<Rightarrow> check_input \<Rightarrow> ('x policy_db_scheme, check_result) m" where
  "check_or_deny L tid i = tor (Check L tid i) \<lparr>cr_Allowed = False, cr_Reason = ''internal error''\<rparr>"

fun run_checks :: "policy_lib \<Rightarrow> (uuid \<times> check_input) list \<Rightarrow> nat list \<Rightarrow> check_result list \<Rightarrow> ('x policy_db_scheme, check_result list) m" where
  "run_checks L inputs [] out = tret out"
| "run_checks L inputs (i # rest) out =
     tbind (check_or_deny L (fst (inputs ! i)) (snd (inputs ! i))) (\<lambda>r. run_checks L inputs rest (out[i := r]))"

definition BatchCheck :: "policy_lib \<Rightarrow> nat list \<Rightarrow> (uuid \<times> check_input) list \<Rightarrow> ('x policy_db_scheme, check_result list) m" where
  "BatchCheck L schedule inputs =
     (if length inputs > 50 then tfail (Domain (Validation ''checks'' ''batch size exceeds 50''))
      else run_checks L inputs schedule (replicate (length inputs) \<lparr>cr_Allowed = False, cr_Reason = []\<rparr>))"

section \<open>\<open>grant_rules.go\<close>\<close>

definition capRank :: "string \<Rightarrow> nat" where
  "capRank c =
     (if c = ''admin'' then 50
      else if c = ''delete'' then 40
      else if c = ''edit'' then 30
      else if c = ''share'' then 20
      else if c = ''view_unredacted'' then 15
      else if c = ''view'' then 10
      else 0)"

definition MayGrant :: "string \<Rightarrow> string \<Rightarrow> bool" where
  "MayGrant callerCap requested =
     (if capRank requested = 0 then False
      else if capRank callerCap < capRank ''share'' then False
      else capRank requested \<le> capRank callerCap)"

definition CapabilityProbeOrder :: "string list" where
  "CapabilityProbeOrder = [''admin'', ''delete'', ''edit'', ''share'']"

record supersede_granter =
  sg_ID :: uuid
  sg_Cap :: string
  sg_OrgAdmin :: bool

definition superseded :: "string \<Rightarrow> supersede_granter \<Rightarrow> permission \<Rightarrow> bool" where
  "superseded granted g p =
     (let ceiling = capRank (sg_Cap g); rank = capRank (pm_Capability p) in
      if pm_Capability p = granted then False
      else if rank = 0 then False
      else if sg_OrgAdmin g \<and> 0 < ceiling then True
      else if ceiling < rank then False
      else if rank = ceiling \<and> pm_GrantedBy p \<noteq> sg_ID g then False
      else True)"

definition supersededCapabilities :: "permission list \<Rightarrow> string \<Rightarrow> supersede_granter \<Rightarrow> permission list" where
  "supersededCapabilities existing granted g = filter (superseded granted g) existing"

section \<open>\<open>grant.go\<close>\<close>

record grant_input =
  gi_TenantID :: uuid
  gi_GrantedBy :: uuid
  gi_ResourceType :: string
  gi_ResourceID :: uuid
  gi_PrincipalType :: string
  gi_PrincipalID :: uuid
  gi_Capability :: string
  gi_ValidTo :: "time option"
  gi_ExpiresAt :: "time option"
  gi_GranterCapability :: string
  gi_GranterOrgAdmin :: bool

definition validateGrant :: "grant_input \<Rightarrow> gerr option" where
  "validateGrant g =
     (if gi_TenantID g = uuid_Nil then Some (Domain (Validation ''tenant_id'' ''required''))
      else if gi_ResourceType g \<notin> set validResourceTypes then Some (Domain (Validation ''resource_type'' ''unsupported''))
      else if gi_ResourceID g = uuid_Nil then Some (Domain (Validation ''resource_id'' ''required''))
      else if gi_PrincipalType g \<notin> set validSubjectTypes then Some (Domain (Validation ''principal_type'' ''unsupported''))
      else if gi_PrincipalID g = uuid_Nil then Some (Domain (Validation ''principal_id'' ''required''))
      else if gi_Capability g \<notin> set [''view'', ''share'', ''edit'', ''delete'', ''admin'']
      then Some (Domain (Validation ''capability'' ''unsupported''))
      else None)"

definition isActive :: "permission \<Rightarrow> time \<Rightarrow> bool" where
  "isActive p t =
     (if t < pm_ValidFrom p then False
      else if (case pm_ValidTo p of None \<Rightarrow> False | Some v \<Rightarrow> \<not> t < v) then False
      else if (case pm_ExpiresAt p of None \<Rightarrow> False | Some v \<Rightarrow> \<not> t < v) then False
      else True)"

text \<open>One turn of the loop over the existing rows: the row with this capability, and the other active ones.\<close>

definition sort_existing :: "string \<Rightarrow> time \<Rightarrow> permission option \<times> permission list \<Rightarrow> permission \<Rightarrow> permission option \<times> permission list" where
  "sort_existing c now = (\<lambda>(same, held) p.
     if pm_Capability p = c then (Some p, held)
     else if \<not> isActive p now then (same, held)
     else (same, held @ [p]))"

definition permission_payload :: "env \<Rightarrow> permission \<Rightarrow> string \<Rightarrow> uuid \<Rightarrow> json" where
  "permission_payload env p actorField actor = JObj
     [(''permission_id'', JStr (uuid_String env (pm_ID p))),
      (''resource_type'', JStr (pm_ResourceType p)),
      (''resource_id'', JStr (uuid_String env (pm_ResourceID p))),
      (''principal_type'', JStr (pm_PrincipalType p)),
      (''principal_id'', JStr (uuid_String env (pm_PrincipalID p))),
      (''capability'', JStr (pm_Capability p)),
      (actorField, JStr (uuid_String env actor))]"

definition emitRevoked :: "permission \<Rightarrow> uuid \<Rightarrow> ('x policy_db_scheme, unit) m" where
  "emitRevoked p actorID = with_env (\<lambda>env. policy_emit (pm_TenantID p) (pm_ID p) ''dms.permission.revoked.v1''
     (permission_payload env p ''revoked_by'' actorID))"

definition shareTitleFor :: "string \<Rightarrow> string" where
  "shareTitleFor rt =
     (if rt = ''workspace'' then ''A workspace was shared with you''
      else if rt = ''folder'' then ''A folder was shared with you''
      else ''A document was shared with you'')"

definition shareBodyFor :: "string \<Rightarrow> string \<Rightarrow> string" where
  "shareBodyFor rt c = ''You now have permission to '' @ (if c = ''admin'' then ''administer'' else c) @ '' this '' @ rt @ ''.''"

definition notifyGrantee :: "permission \<Rightarrow> ('x policy_db_scheme, unit) m" where
  "notifyGrantee p = with_env (\<lambda>env.
     if pm_PrincipalType p \<noteq> ''user'' then tret ()
     else if pm_PrincipalID p = pm_GrantedBy p then tret ()
     else (let noun = pm_ResourceType p in
       policy_emit (pm_TenantID p) (pm_ID p) (''dms.notify.'' @ noun @ ''_shared.v1'') (JObj
         [(''tenant_id'', JStr (uuid_String env (pm_TenantID p))),
          (''user_ids'', JArr [JStr (uuid_String env (pm_PrincipalID p))]),
          (''type'', JStr (noun @ ''.shared'')),
          (''title'', JStr (shareTitleFor (pm_ResourceType p))),
          (''body'', JStr (shareBodyFor (pm_ResourceType p) (pm_Capability p))),
          (''resource_type'', JStr noun),
          (''resource_id'', JStr (uuid_String env (pm_ResourceID p)))])))"

definition new_permission :: "grant_input \<Rightarrow> uuid \<Rightarrow> time \<Rightarrow> permission" where
  "new_permission g i now =
     \<lparr>pm_TenantID = gi_TenantID g, pm_ID = i, pm_ResourceType = gi_ResourceType g, pm_ResourceID = gi_ResourceID g,
      pm_PrincipalType = gi_PrincipalType g, pm_PrincipalID = gi_PrincipalID g, pm_Capability = gi_Capability g,
      pm_Effect = ''allow'', pm_GrantedBy = gi_GrantedBy g, pm_GrantedAt = now, pm_ValidFrom = now,
      pm_ValidTo = gi_ValidTo g, pm_ExpiresAt = gi_ExpiresAt g\<rparr>"

text \<open>The three cases of the switch: already held, revived, new. The flag is \<open>changed\<close>.\<close>

definition grant_row :: "grant_input \<Rightarrow> permission option \<Rightarrow> ('x policy_db_scheme, permission \<times> bool) m" where
  "grant_row g same = with_env (\<lambda>env. let now = go_now env in
     case same of
       Some p \<Rightarrow>
         if isActive p now then tret (p, False)
         else tbind (Permissions_Reactivate (gi_TenantID g) (pm_ID p) (gi_GrantedBy g) now (gi_ExpiresAt g))
                (\<lambda>r. tret (r, True))
     | None \<Rightarrow>
         tbind (draw_id ''uuid: '') (\<lambda>i. let p = new_permission g i now in
         tbind (Permissions_Insert p) (\<lambda>_. tret (p, True))))"

definition retire_grants :: "uuid \<Rightarrow> uuid \<Rightarrow> permission list \<Rightarrow> ('x policy_db_scheme, permission list) m" where
  "retire_grants tid actor ps = with_env (\<lambda>env. tmap ps (\<lambda>p.
     tbind (Permissions_Revoke tid (pm_ID p) (go_now env)) (\<lambda>r.
     tbind (emitRevoked r actor) (\<lambda>_. tret r))))"

definition grant_tx :: "grant_input \<Rightarrow> ('x policy_db_scheme, permission \<times> permission list) m" where
  "grant_tx g = with_env (\<lambda>env.
     tbind (Permissions_ListForPrincipalOnResource (gi_TenantID g) (gi_ResourceType g) (gi_ResourceID g)
              (gi_PrincipalType g) (gi_PrincipalID g)) (\<lambda>existing.
     case foldl (sort_existing (gi_Capability g) (go_now env)) (None, []) existing of (same, held) \<Rightarrow>
     tbind (grant_row g same) (\<lambda>(granted, changed).
     tbind (retire_grants (gi_TenantID g) (gi_GrantedBy g) (supersededCapabilities held (gi_Capability g)
              \<lparr>sg_ID = gi_GrantedBy g, sg_Cap = gi_GranterCapability g, sg_OrgAdmin = gi_GranterOrgAdmin g\<rparr>)) (\<lambda>retired.
     if \<not> changed then tret (granted, retired)
     else tbind (policy_emit (gi_TenantID g) (pm_ID granted) ''dms.permission.granted.v1''
                   (permission_payload env granted ''granted_by'' (pm_GrantedBy granted))) (\<lambda>_.
          tbind (notifyGrantee granted) (\<lambda>_. tret (granted, retired)))))))"

definition invalidateForPermission :: "policy_lib \<Rightarrow> permission \<Rightarrow> ('x policy_db_scheme, unit) m" where
  "invalidateForPermission L p =
     tbind (tignore (InvalidateResource L (pm_TenantID p) (pm_ResourceType p) (pm_ResourceID p))) (\<lambda>_.
     if pm_PrincipalType p = ''group''
     then tignore (InvalidateResourcesForGroup L (pm_TenantID p) (pm_PrincipalID p))
     else tret ())"

definition Grant :: "policy_lib \<Rightarrow> grant_input \<Rightarrow> ('x policy_db_scheme, permission) m" where
  "Grant L g =
     (case validateGrant g of
        Some e \<Rightarrow> tfail e
      | None \<Rightarrow>
          tbind (WithTenantTx (gi_TenantID g) (grant_tx g)) (\<lambda>(granted, retired).
          tbind (invalidateForPermission L granted) (\<lambda>_.
          tbind (tfor retired (invalidateForPermission L)) (\<lambda>_. tret granted))))"

definition Revoke :: "policy_lib \<Rightarrow> uuid \<Rightarrow> uuid \<Rightarrow> uuid \<Rightarrow> ('x policy_db_scheme, unit) m" where
  "Revoke L tid i actorID = with_env (\<lambda>env.
     if tid = uuid_Nil \<or> i = uuid_Nil then tfail (Domain (Validation ''id'' ''required''))
     else tbind (WithTenantTx tid (
            tbind (Permissions_Revoke tid i (go_now env)) (\<lambda>p.
            tbind (policy_emit tid i ''dms.permission.revoked.v1''
                     (permission_payload env (p\<lparr>pm_ID := i\<rparr>) ''revoked_by'' actorID)) (\<lambda>_. tret p)))) (\<lambda>revoked.
          invalidateForPermission L revoked))"

section \<open>\<open>list.go\<close>\<close>

definition ListByResource :: "uuid \<Rightarrow> string \<Rightarrow> uuid \<Rightarrow> ('x policy_db_scheme, permission list) m" where
  "ListByResource tid kind i = with_env (\<lambda>env. WithTenantTx tid (Permissions_ListByResource tid kind i (go_now env)))"

definition ListByPrincipal :: "uuid \<Rightarrow> string \<Rightarrow> uuid \<Rightarrow> ('x policy_db_scheme, permission list) m" where
  "ListByPrincipal tid pt pid = with_env (\<lambda>env. WithTenantTx tid (Permissions_ListByPrincipal tid pt pid (go_now env)))"

definition ListMine :: "policy_lib \<Rightarrow> uuid \<Rightarrow> uuid \<Rightarrow> ('x policy_db_scheme, permission list) m" where
  "ListMine L tid uid = with_env (\<lambda>env.
     tbind (ListByPrincipal tid ''user'' uid) (\<lambda>out.
     tbind (loadUserGroups L tid uid) (\<lambda>groups.
     tbind (tmap groups (\<lambda>g. case uuid_Parse env g of
              None \<Rightarrow> tret []
            | Some gid \<Rightarrow> ListByPrincipal tid ''group'' gid)) (\<lambda>more.
     tret (out @ concat more)))))"

definition ListAsOf :: "uuid \<Rightarrow> string \<Rightarrow> uuid \<Rightarrow> time \<Rightarrow> ('x policy_db_scheme, permission list) m" where
  "ListAsOf tid kind i asOf = WithTenantTx tid (Permissions_ListByResourceAsOf tid kind i asOf)"

end
