(* ===== verification/Policy_Context.thy ===== *)
theory Policy_Context
  imports Policy_Service "HOL-Library.List_Lexorder" "HOL-Library.Char_ord"
begin

text \<open>
  The rest of \<open>services/policy/internal/service\<close>: the server-side decision context
  (\<open>resource_context.go\<close>), the reader set and the effective-access report (\<open>list.go\<close>, \<open>effective.go\<close>) and the
  consumer that drops cache entries on permission events (\<open>permission_events.go\<close>).

  Inside a PostgreSQL transaction a failed statement makes every later one fail, the commit included, so
  where the code ignores the error of a query inside a transaction the transaction as a whole still
  fails; the model reports the error at once.
\<close>

section \<open>\<open>resource_context.go\<close>\<close>

definition classificationRank :: "string \<Rightarrow> nat" where
  "classificationRank level =
     (if level = ''internal'' then 1 else if level = ''confidential'' then 2
      else if level = ''restricted'' then 3 else 0)"

definition effectiveClassification :: "bool \<Rightarrow> string \<Rightarrow> bool \<Rightarrow> bool \<Rightarrow> string" where
  "effectiveClassification phiRequiresRestricted class hasPHI hasPII =
     (let eff = (if hasPHI \<and> phiRequiresRestricted \<and> classificationRank class < classificationRank ''restricted''
                 then ''restricted'' else class) in
      if hasPII \<and> classificationRank eff < classificationRank ''internal'' then ''internal'' else eff)"

definition rule_concerns :: "string \<Rightarrow> classification_rule \<Rightarrow> bool" where
  "rule_concerns action r \<longleftrightarrow> \<not> (cl_Action r \<noteq> ''*'' \<and> cl_Action r \<noteq> action
     \<and> (cl_Action r \<noteq> ''download'' \<or> action \<noteq> ''view''))"

definition raise_clearance :: "string \<Rightarrow> bool \<Rightarrow> string \<Rightarrow> string \<Rightarrow> classification_rule \<Rightarrow> string" where
  "raise_clearance effClass hasPHI action req r =
     (if \<not> rule_concerns action r then req
      else if (classificationRank (cl_MinClassification r) \<le> classificationRank effClass \<or> (cl_AppliesToPHI r \<and> hasPHI))
              \<and> classificationRank req < classificationRank (cl_RequiredClearance r)
      then cl_RequiredClearance r else req)"

definition requiredClearance :: "classification_rule list \<Rightarrow> string \<Rightarrow> bool \<Rightarrow> string \<Rightarrow> string" where
  "requiredClearance rules effClass hasPHI action =
     foldl (raise_clearance effClass hasPHI action)
       (if 0 < classificationRank effClass then effClass else []) rules"

record resource_context =
  rc_Found :: bool
  rc_base :: abac
  rc_doc :: "doc_facts option"
  rc_gate :: classification_gate
  rc_clearance :: string

definition boolStr :: "bool \<Rightarrow> string" where
  "boolStr b = (if b then ''true'' else ''false'')"

definition context_For :: "resource_context \<Rightarrow> string \<Rightarrow> abac" where
  "context_For rc action =
     (case rc_doc rc of
        None \<Rightarrow> rc_base rc
      | Some doc \<Rightarrow>
          if ga_Enabled (rc_gate rc) then
            (let eff = effectiveClassification (ga_PHIRequiresRestricted (rc_gate rc)) (df_SecurityClassification doc)
                         (df_HasPHI doc) (df_HasPII doc) in
             (rc_base rc)(''classification_gate'' \<mapsto> ''on'', ''security_classification'' \<mapsto> eff,
               ''has_phi'' \<mapsto> boolStr (df_HasPHI doc), ''has_pii'' \<mapsto> boolStr (df_HasPII doc),
               ''user_clearance'' \<mapsto> rc_clearance rc,
               ''required_clearance'' \<mapsto> requiredClearance (ga_Rules (rc_gate rc)) eff (df_HasPHI doc) action))
          else rc_base rc)"

definition no_gate :: classification_gate where
  "no_gate = \<lparr>ga_Enabled = False, ga_PHIRequiresRestricted = False, ga_Rules = []\<rparr>"

definition resolve_resource :: "uuid \<Rightarrow> string \<Rightarrow> uuid \<Rightarrow> resource_context \<Rightarrow> ('x policy_db_scheme, resource_context) m" where
  "resolve_resource tid kind i rc = with_env (\<lambda>env.
     if kind = ''document'' then
       tbind (Context_DocumentFacts tid i) (\<lambda>doc. case doc of
         None \<Rightarrow> tret rc
       | Some f \<Rightarrow> tbind (Context_ClassificationGate tid) (\<lambda>gate.
           tret (rc\<lparr>rc_Found := True, rc_doc := Some f, rc_gate := gate,
             rc_base := (rc_base rc)(''workspace_id'' \<mapsto> uuid_String env (df_WorkspaceID f),
               ''folder_id'' \<mapsto> uuid_String env (df_FolderID f), ''lifecycle_state'' \<mapsto> df_LifecycleState f)\<rparr>)))
     else if kind = ''folder'' then
       tbind (Context_FolderWorkspace tid i) (\<lambda>ws. case ws of
         None \<Rightarrow> tret rc
       | Some x \<Rightarrow> tret (rc\<lparr>rc_Found := True, rc_base := (rc_base rc)(''workspace_id'' \<mapsto> uuid_String env x)\<rparr>))
     else if kind = ''workspace'' then tret (rc\<lparr>rc_Found := True\<rparr>)
     else tret rc)"

definition ResolveResourceContext :: "uuid \<Rightarrow> uuid \<Rightarrow> string \<Rightarrow> string \<Rightarrow> uuid \<Rightarrow> ('x policy_db_scheme, resource_context) m" where
  "ResolveResourceContext tid uid role kind i = WithTenantTx tid (
     tbind (Context_UserFacts tid uid) (\<lambda>(status, clearance).
     resolve_resource tid kind i
       \<lparr>rc_Found = False,
        rc_base = (if status = [] then [''user_role'' \<mapsto> role]
                   else [''user_role'' \<mapsto> role, ''user_status'' \<mapsto> status]),
        rc_doc = None, rc_gate = no_gate, rc_clearance = clearance\<rparr>))"

section \<open>\<open>list.go\<close>: the reader set\<close>

definition query_folder_grants :: "uuid \<Rightarrow> uuid \<Rightarrow> ('x policy_db_scheme, (string \<times> uuid) list) m" where
  "query_folder_grants tid fid = sql_read ''policy db: '' (\<lambda>env d. Inr (map (\<lambda>r. (fg_GranteeType r, fg_GranteeID r))
     (filter (\<lambda>r. fg_TenantID r = tid \<and> fg_FolderID r = fid) (folder_grants d))))"

definition query_admins :: "uuid \<Rightarrow> uuid \<Rightarrow> ('x policy_db_scheme, uuid list) m" where
  "query_admins tid wid = sql_read ''policy db: '' (\<lambda>env d. Inr (map wm_UserID
     (filter (\<lambda>m. wm_TenantID m = tid \<and> wm_WorkspaceID m = wid \<and> wm_Role m = ''admin'') (workspace_members d))))"

text \<open>\<open>collect\<close>: the principals of the grants with a capability.\<close>

definition reader_pairs :: "permission list \<Rightarrow> (string \<times> uuid) list" where
  "reader_pairs ps = map (\<lambda>p. (pm_PrincipalType p, pm_PrincipalID p)) (filter (\<lambda>p. pm_Capability p \<noteq> []) ps)"

definition only_when :: "'a option \<Rightarrow> bool \<Rightarrow> 'a option" where
  "only_when x b = (if b then x else None)"

definition opt_read :: "'k option \<Rightarrow> ('k \<Rightarrow> ('d, 'a list) m) \<Rightarrow> ('d, 'a list) m" where
  "opt_read k f = (case k of None \<Rightarrow> tret [] | Some x \<Rightarrow> f x)"

definition readers_tx :: "uuid \<Rightarrow> string \<Rightarrow> uuid \<Rightarrow> uuid option \<Rightarrow> uuid option \<Rightarrow> ('x policy_db_scheme, (string \<times> uuid) list) m" where
  "readers_tx tid kind i workspaceID folderID = with_env (\<lambda>env. let now = go_now env in
     tbind (Permissions_ListByResource tid kind i now) (\<lambda>direct.
     tbind (opt_read (only_when folderID (kind = ''document'')) (\<lambda>f. Permissions_ListByResource tid ''folder'' f now)) (\<lambda>viaFolder.
     tbind (opt_read (if kind = ''folder'' then Some i else only_when folderID (kind = ''document''))
              (query_folder_grants tid)) (\<lambda>grants.
     let ws = only_when workspaceID (kind = ''document'' \<or> kind = ''folder'') in
     tbind (opt_read ws (\<lambda>x. Permissions_ListByResource tid ''workspace'' x now)) (\<lambda>viaWorkspace.
     tbind (opt_read ws (query_admins tid)) (\<lambda>admins.
     tret (reader_pairs direct @ reader_pairs viaFolder @ grants @ reader_pairs viaWorkspace
           @ map (\<lambda>u. (''user'', u)) admins)))))))"

definition ids_of_type :: "env \<Rightarrow> string \<Rightarrow> (string \<times> uuid) list \<Rightarrow> uuid list" where
  "ids_of_type env ty ps = sort_key (uuid_String env) (remdups (map snd (filter (\<lambda>x. fst x = ty) ps)))"

definition GetResourceReaders ::
    "uuid \<Rightarrow> string \<Rightarrow> uuid \<Rightarrow> uuid option \<Rightarrow> uuid option \<Rightarrow> ('x policy_db_scheme, uuid list \<times> uuid list) m" where
  "GetResourceReaders tid kind i workspaceID folderID = with_env (\<lambda>env.
     tbind (WithTenantTx tid (readers_tx tid kind i workspaceID folderID)) (\<lambda>ps.
     tret (ids_of_type env ''user'' ps, ids_of_type env ''group'' ps)))"

section \<open>\<open>effective.go\<close>\<close>

record effective_principal =
  ep_PrincipalType :: string
  ep_PrincipalID :: uuid
  ep_Capability :: string
  ep_Reasons :: "string list"

record effective_access =
  ea_Principals :: "effective_principal list"
  ea_OrgAdminsHaveAccess :: bool
  ea_WorkspaceBaselineView :: "uuid option"
  ea_PrivateFolder :: bool
  ea_FolderOwner :: "uuid option"

definition upsert_reason :: "string \<Rightarrow> string \<Rightarrow> effective_principal \<Rightarrow> effective_principal" where
  "upsert_reason c reason e = e\<lparr>ep_Capability := (if capRank (ep_Capability e) < capRank c then c else ep_Capability e),
     ep_Reasons := ep_Reasons e @ [c @ '' ('' @ reason @ '')'']\<rparr>"

definition upsert :: "effective_principal list \<Rightarrow> string \<times> uuid \<times> string \<times> string \<Rightarrow> effective_principal list" where
  "upsert merged = (\<lambda>(pt, pid, c, reason).
     if c = [] then merged
     else if \<exists>e \<in> set merged. ep_PrincipalType e = pt \<and> ep_PrincipalID e = pid
     then map (\<lambda>e. if ep_PrincipalType e = pt \<and> ep_PrincipalID e = pid then upsert_reason c reason e else e) merged
     else merged @ [upsert_reason c reason \<lparr>ep_PrincipalType = pt, ep_PrincipalID = pid, ep_Capability = [], ep_Reasons = []\<rparr>])"

definition grant_reasons :: "string \<Rightarrow> permission list \<Rightarrow> (string \<times> uuid \<times> string \<times> string) list" where
  "grant_reasons reason ps = map (\<lambda>p. (pm_PrincipalType p, pm_PrincipalID p, pm_Capability p, reason)) ps"

definition query_visibility :: "uuid \<Rightarrow> uuid \<Rightarrow> ('x policy_db_scheme, (string \<times> uuid option) option) m" where
  "query_visibility tid fid = sql_read ''policy db: '' (\<lambda>env d. Inr (map_option
     (\<lambda>r. (case ff_Visibility r of None \<Rightarrow> ''shared'' | Some v \<Rightarrow> v, ff_OwnerID r))
     (find (\<lambda>r. ff_TenantID r = tid \<and> ff_ID r = fid) (folder_table d))))"

text \<open>The visibility of the governing folder: whether it is private, and then its owner.\<close>

definition private_owner :: "(string \<times> uuid option) option \<Rightarrow> bool \<times> uuid option" where
  "private_owner v = (case v of
      Some (vis, owner) \<Rightarrow> if vis = ''private'' then (True, owner) else (False, None)
    | None \<Rightarrow> (False, None))"

definition effective_tx ::
    "uuid \<Rightarrow> string \<Rightarrow> uuid \<Rightarrow> uuid option \<Rightarrow> uuid option
      \<Rightarrow> ('x policy_db_scheme, (string \<times> uuid \<times> string \<times> string) list \<times> bool \<times> uuid option) m" where
  "effective_tx tid kind i workspaceID folderID = with_env (\<lambda>env. let now = go_now env;
       folder = only_when folderID (kind = ''document''); visFolder = (if kind = ''folder'' then Some i else folder);
       ws = only_when workspaceID (kind = ''document'' \<or> kind = ''folder'') in
     tbind (Permissions_ListByResource tid kind i now) (\<lambda>direct.
     tbind (opt_read folder (\<lambda>f. Permissions_ListByResource tid ''folder'' f now)) (\<lambda>viaFolder.
     tbind (opt_read visFolder (query_folder_grants tid)) (\<lambda>grants.
     tbind (case visFolder of None \<Rightarrow> tret None | Some f \<Rightarrow> query_visibility tid f) (\<lambda>vis.
     tbind (opt_read ws (\<lambda>x. Permissions_ListByResource tid ''workspace'' x now)) (\<lambda>viaWorkspace.
     tbind (opt_read (if kind = ''workspace'' then Some i else ws) (query_admins tid)) (\<lambda>admins.
     case private_owner vis of (private, owner) \<Rightarrow>
     tret (grant_reasons ''direct'' direct @ grant_reasons ''via folder'' viaFolder
           @ map (\<lambda>(t, g). (t, g, ''view'', ''folder grant'')) grants
           @ (case owner of None \<Rightarrow> [] | Some u \<Rightarrow> [(''user'', u, ''admin'', ''folder owner'')])
           @ grant_reasons ''via workspace'' viaWorkspace
           @ map (\<lambda>u. (''user'', u, ''admin'', ''workspace admin'')) admins, private, owner))))))))"

text \<open>
  \<open>sort.Slice\<close> orders by rank, highest first, then by identifier; the capabilities of the entries are ranked
  ones or empty, so equal ranks mean equal capabilities.
\<close>

definition principal_order :: "env \<Rightarrow> effective_principal list \<Rightarrow> effective_principal list" where
  "principal_order env ps = sort_key (\<lambda>e. (50 - capRank (ep_Capability e), uuid_String env (ep_PrincipalID e))) ps"

definition EffectiveAccess ::
    "uuid \<Rightarrow> string \<Rightarrow> uuid \<Rightarrow> uuid option \<Rightarrow> uuid option \<Rightarrow> ('x policy_db_scheme, effective_access) m" where
  "EffectiveAccess tid kind i workspaceID folderID = with_env (\<lambda>env.
     tbind (WithTenantTx tid (effective_tx tid kind i workspaceID folderID)) (\<lambda>(entries, private, owner).
     tret \<lparr>ea_Principals = principal_order env (foldl upsert [] entries), ea_OrgAdminsHaveAccess = True,
           ea_WorkspaceBaselineView = (if private then None else if kind = ''workspace'' then Some i else workspaceID),
           ea_PrivateFolder = private, ea_FolderOwner = owner\<rparr>))"

section \<open>\<open>permission_events.go\<close>\<close>

definition event_str :: "json \<Rightarrow> string \<Rightarrow> string" where
  "event_str m k = (case json_field k m of Some (JStr s) \<Rightarrow> s | _ \<Rightarrow> [])"

definition event_strs :: "json \<Rightarrow> string \<Rightarrow> string list" where
  "event_strs m k = (case json_field k m of
      Some (JArr xs) \<Rightarrow> concat (map (\<lambda>v. case v of JStr s \<Rightarrow> [s] | _ \<Rightarrow> []) xs)
    | _ \<Rightarrow> [])"

text \<open>A message body that is no JSON object fails to decode; \<open>null\<close> decodes to the empty map.\<close>

definition parsePermissionEvent :: "json option \<Rightarrow> json option" where
  "parsePermissionEvent raw =
     (let unwrap = (\<lambda>envelope.
        let fields = (case json_field ''data'' envelope of Some (JObj fs) \<Rightarrow> fs
                      | _ \<Rightarrow> (case envelope of JObj fs \<Rightarrow> fs | _ \<Rightarrow> [])) in
        if map_of fields ''tenant_id'' \<noteq> None then JObj fields
        else (case json_field ''tenantid'' envelope of
            Some (JStr tid) \<Rightarrow> if tid \<noteq> [] then JObj (fields @ [(''tenant_id'', JStr tid)]) else JObj fields
          | _ \<Rightarrow> JObj fields)) in
      case raw of
        Some (JObj fs) \<Rightarrow> Some (unwrap (JObj fs))
      | Some JNull \<Rightarrow> Some (unwrap (JObj []))
      | _ \<Rightarrow> None)"

datatype delivery = Term | Ack

definition invalidate_group :: "policy_lib \<Rightarrow> uuid \<Rightarrow> string \<Rightarrow> ('x policy_db_scheme, unit) m" where
  "invalidate_group L tid s = with_env (\<lambda>env. case uuid_Parse env s of
      None \<Rightarrow> tret ()
    | Some gid \<Rightarrow> tignore (InvalidateResourcesForGroup L tid gid))"

definition handle_permission_event :: "policy_lib \<Rightarrow> json option \<Rightarrow> ('x policy_db_scheme, delivery) m" where
  "handle_permission_event L raw = with_env (\<lambda>env.
     case parsePermissionEvent raw of
       None \<Rightarrow> tret Term
     | Some data \<Rightarrow> (case uuid_Parse env (event_str data ''tenant_id'') of
         None \<Rightarrow> tret Term
       | Some tid \<Rightarrow>
           tbind (case uuid_Parse env (event_str data ''resource_id'') of
                    None \<Rightarrow> tret ()
                  | Some rid \<Rightarrow> if event_str data ''resource_type'' \<noteq> []
                      then tignore (InvalidateResource L tid (event_str data ''resource_type'') rid) else tret ()) (\<lambda>_.
           tbind (if event_str data ''principal_type'' = ''group''
                  then invalidate_group L tid (event_str data ''principal_id'') else tret ()) (\<lambda>_.
           tbind (tfor (event_strs data ''readable_by_groups'') (invalidate_group L tid)) (\<lambda>_.
           tret Ack)))))"

end
