(* ===== verification/Policy_Handler.thy ===== *)
theory Policy_Handler
  imports Policy_Context
begin

text \<open>
  The REST and gRPC surfaces of the policy service: \<open>services/policy/internal/handler\<close>.

  A handler is a run of the service monad whose error is written to the response, so it always answers. Of
  the request the model keeps the path values, the query, the declared length and the decoded body;
  \<open>None\<close> is a body \<open>encoding/json\<close> refuses.
\<close>

section \<open>\<open>http.go\<close>: requests and responses\<close>

record permission_dto =
  po_ID :: string
  po_ResourceType :: string
  po_ResourceID :: string
  po_PrincipalType :: string
  po_PrincipalID :: string
  po_Capability :: string
  po_GrantedBy :: string
  po_GrantedAt :: time
  po_ExpiresAt :: "time option"

definition toPermissionDTO :: "env \<Rightarrow> permission \<Rightarrow> permission_dto" where
  "toPermissionDTO env p = \<lparr>po_ID = uuid_String env (pm_ID p), po_ResourceType = pm_ResourceType p,
     po_ResourceID = uuid_String env (pm_ResourceID p), po_PrincipalType = pm_PrincipalType p,
     po_PrincipalID = uuid_String env (pm_PrincipalID p), po_Capability = pm_Capability p,
     po_GrantedBy = uuid_String env (pm_GrantedBy p), po_GrantedAt = pm_GrantedAt p, po_ExpiresAt = pm_ExpiresAt p\<rparr>"

datatype policy_body =
    BPermissions "permission_dto list"
  | BPermission permission_dto
  | BEffective effective_access
  | BDecision bool string
  | BError http_error
  | BNoContent

type_synonym response = "nat \<times> policy_body"

record check_request_body =
  cb_ResourceType :: string
  cb_ResourceID :: string
  cb_Action :: string
  cb_Context :: abac

record grant_request_body =
  gb_PrincipalType :: string
  gb_PrincipalID :: string
  gb_Capability :: string
  gb_ExpiresAt :: "time option"

definition writeHTTPError :: "gerr \<Rightarrow> response" where
  "writeHTTPError e = (he_Code (ToHTTPError e), BError (ToHTTPError e))"

definition respond :: "('d, response) m \<Rightarrow> ('d, response) m" where
  "respond f = (\<lambda>env w. case f env w of
      (Inl e, w') \<Rightarrow> (Inr (writeHTTPError e), w')
    | (Inr r, w') \<Rightarrow> (Inr r, w'))"

definition require_user :: "('d, userinfo) m" where
  "require_user = with_env (\<lambda>env. case User (ctx env) of
      Inl _ \<Rightarrow> tfail (Domain sentinel_Unauthorized)
    | Inr u \<Rightarrow> tret u)"

definition decodeJSON :: "int \<Rightarrow> 'b option \<Rightarrow> ('d, 'b) m" where
  "decodeJSON contentLength body =
     (if contentLength > 64 * 1024 then tfail (Domain (Validation ''body'' ''request too large''))
      else case body of
        None \<Rightarrow> tfail (Domain (Validation ''body'' ''invalid JSON''))
      | Some b \<Rightarrow> tret b)"

definition parseResource :: "string \<Rightarrow> string \<Rightarrow> ('d, string \<times> uuid) m" where
  "parseResource rt rid = with_env (\<lambda>env.
     if rt \<notin> set [''document'', ''folder'', ''workspace'']
     then tfail (Domain (Validation ''resource_type'' ''must be document, folder, or workspace''))
     else case uuid_Parse env rid of
        None \<Rightarrow> tfail (Domain (Validation ''resource_id'' ''not a uuid''))
      | Some i \<Rightarrow> tret (rt, i))"

section \<open>\<open>http.go\<close>: what the caller holds\<close>

text \<open>The bytes of the dash in the messages.\<close>

definition em_dash :: string where
  "em_dash = [CHR 0xE2, CHR 0x80, CHR 0x94]"

definition resourceContext :: "userinfo \<Rightarrow> string \<Rightarrow> uuid \<Rightarrow> ('x policy_db_scheme, resource_context option) m" where
  "resourceContext u kind i =
     tor (tbind (ResolveResourceContext (u_TenantID u) (u_ID u) (u_Role u) kind i)
            (\<lambda>rc. tret (if rc_Found rc then Some rc else None))) None"

definition caller_check :: "env \<Rightarrow> userinfo \<Rightarrow> string \<Rightarrow> string \<Rightarrow> abac \<Rightarrow> string \<Rightarrow> check_input" where
  "caller_check env u kind rid c action = \<lparr>chk_SubjectType = ''user'', chk_SubjectID = uuid_String env (u_ID u),
     chk_Action = action, chk_ResourceType = kind, chk_ResourceID = rid, chk_Context = c\<rparr>"

definition callerHolds :: "policy_lib \<Rightarrow> userinfo \<Rightarrow> string \<Rightarrow> uuid \<Rightarrow> resource_context \<Rightarrow> string \<Rightarrow> ('x policy_db_scheme, bool) m" where
  "callerHolds L u kind i rc c = with_env (\<lambda>env.
     tor (tbind (Check L (u_TenantID u) (caller_check env u kind (uuid_String env i) (context_For rc c) c))
            (\<lambda>r. tret (cr_Allowed r))) False)"

definition org_admin :: "userinfo \<Rightarrow> bool" where
  "org_admin u \<longleftrightarrow> u_Role u = ''owner'' \<or> u_Role u = ''admin''"

definition callerMayAdminister :: "policy_lib \<Rightarrow> userinfo \<Rightarrow> string \<Rightarrow> uuid \<Rightarrow> ('x policy_db_scheme, bool) m" where
  "callerMayAdminister L u kind i =
     (if org_admin u then tret True
      else tbind (resourceContext u kind i) (\<lambda>rc. case rc of
         None \<Rightarrow> tret False
       | Some x \<Rightarrow> callerHolds L u kind i x ''admin''))"

fun probe :: "policy_lib \<Rightarrow> userinfo \<Rightarrow> string \<Rightarrow> uuid \<Rightarrow> resource_context \<Rightarrow> string list \<Rightarrow> ('x policy_db_scheme, string) m" where
  "probe L u kind i rc [] = tret []"
| "probe L u kind i rc (c # cs) =
     tbind (callerHolds L u kind i rc c) (\<lambda>b. if b then tret c else probe L u kind i rc cs)"

definition callerCapability :: "policy_lib \<Rightarrow> userinfo \<Rightarrow> string \<Rightarrow> uuid \<Rightarrow> ('x policy_db_scheme, string) m" where
  "callerCapability L u kind i =
     (if org_admin u then tret ''admin''
      else tbind (resourceContext u kind i) (\<lambda>rc. case rc of
         None \<Rightarrow> tret []
       | Some x \<Rightarrow> probe L u kind i x CapabilityProbeOrder))"

definition grantDeniedReason :: "string \<Rightarrow> string \<Rightarrow> string \<Rightarrow> string" where
  "grantDeniedReason callerCap requested resourceType =
     (if callerCap = [] then ''you need share access to this '' @ resourceType
        @ '' before you can share it '' @ em_dash @ '' ask an owner or admin''
      else ''you cannot grant '' @ requested @ '' access because you only hold '' @ callerCap @ '' on this '' @ resourceType)"

section \<open>\<open>http.go\<close>: the handlers\<close>

definition admin_gate :: "policy_lib \<Rightarrow> string \<Rightarrow> string \<Rightarrow> ('x policy_db_scheme, userinfo \<times> string \<times> uuid) m" where
  "admin_gate L rt rid =
     tbind require_user (\<lambda>u.
     tbind (parseResource rt rid) (\<lambda>(kind, i).
     tbind (callerMayAdminister L u kind i) (\<lambda>ok.
     if ok then tret (u, kind, i) else tfail (Domain sentinel_Forbidden))))"

definition http_list :: "policy_lib \<Rightarrow> string \<Rightarrow> string \<Rightarrow> ('x policy_db_scheme, response) m" where
  "http_list L rt rid = with_env (\<lambda>env. respond (
     tbind (admin_gate L rt rid) (\<lambda>(u, kind, i).
     tbind (ListByResource (u_TenantID u) kind i) (\<lambda>perms.
     tret (200, BPermissions (map (toPermissionDTO env) perms))))))"

definition http_mine :: "policy_lib \<Rightarrow> ('x policy_db_scheme, response) m" where
  "http_mine L = with_env (\<lambda>env. respond (
     tbind require_user (\<lambda>u.
     tbind (ListMine L (u_TenantID u) (u_ID u)) (\<lambda>perms.
     tret (200, BPermissions (map (toPermissionDTO env) perms))))))"

definition optUUID :: "env \<Rightarrow> string \<Rightarrow> uuid option" where
  "optUUID env v = (if v = [] then None else uuid_Parse env v)"

definition http_effective :: "policy_lib \<Rightarrow> string \<Rightarrow> string \<Rightarrow> string \<Rightarrow> string \<Rightarrow> ('x policy_db_scheme, response) m" where
  "http_effective L rt rid workspaceQ folderQ = with_env (\<lambda>env. respond (
     tbind (admin_gate L rt rid) (\<lambda>(u, kind, i).
     tbind (EffectiveAccess (u_TenantID u) kind i (optUUID env workspaceQ) (optUUID env folderQ)) (\<lambda>ea.
     tret (200, BEffective ea)))))"

definition http_check :: "policy_lib \<Rightarrow> int \<Rightarrow> check_request_body option \<Rightarrow> ('x policy_db_scheme, response) m" where
  "http_check L contentLength body = with_env (\<lambda>env. respond (
     tbind require_user (\<lambda>u.
     tbind (decodeJSON contentLength body) (\<lambda>b.
     if cb_ResourceType b \<notin> set [''document'', ''folder'', ''workspace'']
     then tfail (Domain (Validation ''resource_type'' ''must be document, folder, or workspace''))
     else (case uuid_Parse env (cb_ResourceID b) of
        None \<Rightarrow> tfail (Domain (Validation ''resource_id'' ''not a uuid''))
      | Some i \<Rightarrow>
          tbind (ResolveResourceContext (u_TenantID u) (u_ID u) (u_Role u) (cb_ResourceType b) i) (\<lambda>rc.
          if \<not> rc_Found rc then tret (200, BDecision False ''resource not found'')
          else tbind (Check L (u_TenantID u)
                        (caller_check env u (cb_ResourceType b) (cb_ResourceID b) (context_For rc (cb_Action b)) (cb_Action b))) (\<lambda>r.
               tret (200, BDecision (cr_Allowed r) (cr_Reason r)))))))))"

definition http_grant :: "policy_lib \<Rightarrow> string \<Rightarrow> string \<Rightarrow> int \<Rightarrow> grant_request_body option \<Rightarrow> ('x policy_db_scheme, response) m" where
  "http_grant L rt rid contentLength body = with_env (\<lambda>env. respond (
     tbind require_user (\<lambda>u.
     tbind (parseResource rt rid) (\<lambda>(kind, i).
     tbind (decodeJSON contentLength body) (\<lambda>b.
     case uuid_Parse env (gb_PrincipalID b) of
       None \<Rightarrow> tfail (Domain (Validation ''principal_id'' ''not a uuid''))
     | Some pid \<Rightarrow>
         tbind (callerCapability L u kind i) (\<lambda>callerCap.
         if \<not> MayGrant callerCap (gb_Capability b)
         then tfail (Domain (Forbidden (grantDeniedReason callerCap (gb_Capability b) kind)))
         else tbind (Grant L \<lparr>gi_TenantID = u_TenantID u, gi_GrantedBy = u_ID u, gi_ResourceType = kind, gi_ResourceID = i,
                 gi_PrincipalType = gb_PrincipalType b, gi_PrincipalID = pid, gi_Capability = gb_Capability b,
                 gi_ValidTo = None, gi_ExpiresAt = gb_ExpiresAt b, gi_GranterCapability = callerCap,
                 gi_GranterOrgAdmin = org_admin u\<rparr>) (\<lambda>p.
              tret (201, BPermission (toPermissionDTO env p)))))))))"

definition http_revoke :: "policy_lib \<Rightarrow> string \<Rightarrow> string \<Rightarrow> string \<Rightarrow> ('x policy_db_scheme, response) m" where
  "http_revoke L rt rid principalID = with_env (\<lambda>env. respond (
     tbind (admin_gate L rt rid) (\<lambda>(u, kind, i).
     case uuid_Parse env principalID of
       None \<Rightarrow> tfail (Domain (Validation ''principal_id'' ''not a uuid''))
     | Some pid \<Rightarrow>
         tbind (ListByResource (u_TenantID u) kind i) (\<lambda>existing.
         tbind (tfor existing (\<lambda>p. if pm_PrincipalID p \<noteq> pid then tret ()
                  else Revoke L (u_TenantID u) (pm_ID p) (u_ID u))) (\<lambda>_.
         tret (204, BNoContent))))))"

section \<open>\<open>handler.go\<close>: gRPC\<close>

definition structToStringMap :: "(string \<times> json) list \<Rightarrow> abac" where
  "structToStringMap fs = (\<lambda>k. case map_of fs k of
      None \<Rightarrow> None
    | Some JNull \<Rightarrow> None
    | Some (JStr s) \<Rightarrow> Some s
    | Some (JBool b) \<Rightarrow> Some (if b then ''true'' else ''false'')
    | Some _ \<Rightarrow> Some [])"

record check_request =
  cq_SubjectType :: string
  cq_SubjectID :: string
  cq_Action :: string
  cq_ResourceType :: string
  cq_ResourceID :: string
  cq_Context :: "(string \<times> json) list"

definition toServiceCheckInput :: "check_request \<Rightarrow> check_input" where
  "toServiceCheckInput r = \<lparr>chk_SubjectType = cq_SubjectType r, chk_SubjectID = cq_SubjectID r, chk_Action = cq_Action r,
     chk_ResourceType = cq_ResourceType r, chk_ResourceID = cq_ResourceID r, chk_Context = structToStringMap (cq_Context r)\<rparr>"

text \<open>A gRPC method answers with a status error or a result.\<close>

definition grpc :: "('d, 'a) m \<Rightarrow> ('d, (grpc_code \<times> string) + 'a) m" where
  "grpc f = (\<lambda>env w. case f env w of
      (Inl e, w') \<Rightarrow> (Inr (Inl (ToGRPCError e)), w')
    | (Inr a, w') \<Rightarrow> (Inr (Inr a), w'))"

definition CheckPermission :: "policy_lib \<Rightarrow> check_request \<Rightarrow> ('x policy_db_scheme, (grpc_code \<times> string) + check_result) m" where
  "CheckPermission L req = with_env (\<lambda>env. case GetTenantID (ctx env) of
      Inl _ \<Rightarrow> tret (Inl (GUnauthenticated, ''tenant required''))
    | Inr tid \<Rightarrow> grpc (Check L tid (toServiceCheckInput req)))"

definition BatchCheckPermission ::
    "policy_lib \<Rightarrow> nat list \<Rightarrow> check_request list \<Rightarrow> ('x policy_db_scheme, (grpc_code \<times> string) + check_result list) m" where
  "BatchCheckPermission L schedule reqs = with_env (\<lambda>env. case GetTenantID (ctx env) of
      Inl _ \<Rightarrow> tret (Inl (GUnauthenticated, ''tenant required''))
    | Inr tid \<Rightarrow> grpc (BatchCheck L schedule (map (\<lambda>r. (tid, toServiceCheckInput r)) reqs)))"

end
