(* ===== verification/Policy_Rules.thy ===== *)
theory Policy_Rules
  imports Policy_Handler
begin

text \<open>
  Reasoning about runs whose errors the caller ignores. \<open>keeps env I f Q\<close>: started in a database that
  satisfies \<open>I\<close>, \<open>f\<close> leaves one that satisfies \<open>I\<close> on success and on failure, and a successful run returns a
  value that satisfies \<open>Q\<close>.
\<close>

definition keeps :: "env \<Rightarrow> ('d \<Rightarrow> bool) \<Rightarrow> ('d, 'a) m \<Rightarrow> ('a \<Rightarrow> bool) \<Rightarrow> bool" where
  "keeps env I f Q \<longleftrightarrow> (\<forall>w r w'. I (wdb w) \<longrightarrow> f env w = (r, w') \<longrightarrow> I (wdb w') \<and> (\<forall>a. r = Inr a \<longrightarrow> Q a))"

lemma keepsI:
  "(\<And>w r w'. I (wdb w) \<Longrightarrow> f env w = (r, w') \<Longrightarrow> I (wdb w')) \<Longrightarrow>
   (\<And>w a w'. I (wdb w) \<Longrightarrow> f env w = (Inr a, w') \<Longrightarrow> Q a) \<Longrightarrow> keeps env I f Q"
  unfolding keeps_def by blast

lemma keepsD: "keeps env I f Q \<Longrightarrow> I (wdb w) \<Longrightarrow> f env w = (r, w') \<Longrightarrow> I (wdb w')"
  unfolding keeps_def by blast

lemma keeps_InrD: "keeps env I f Q \<Longrightarrow> I (wdb w) \<Longrightarrow> f env w = (Inr a, w') \<Longrightarrow> Q a"
  unfolding keeps_def by blast

lemma keeps_weaken: "keeps env I f Q \<Longrightarrow> (\<And>a. Q a \<Longrightarrow> Q' a) \<Longrightarrow> keeps env I f Q'"
  unfolding keeps_def by blast

lemma keeps_tret: "Q a \<Longrightarrow> keeps env I (tret a) Q"
  by (simp add: keeps_def tret_def)

lemma keeps_tfail: "keeps env I (tfail e) Q"
  by (simp add: keeps_def tfail_def)

lemma keeps_tbind:
  assumes "keeps env I f Q" and "\<And>a. Q a \<Longrightarrow> keeps env I (g a) S"
  shows "keeps env I (tbind f g) S"
proof -
  have "I (wdb w') \<and> (\<forall>b. r = Inr b \<longrightarrow> S b)" if I: "I (wdb w)" and run: "tbind f g env w = (r, w')" for w r w'
  proof -
    obtain x w1 where fw: "f env w = (x, w1)" by fastforce
    have I1: "I (wdb w1)" using keepsD [OF assms(1) I fw] .
    show ?thesis
    proof (cases x)
      case (Inl e)
      with fw run I1 show ?thesis by (auto simp: tbind_def)
    next
      case (Inr a)
      with fw have "Q a" using keeps_InrD [OF assms(1) I] by simp
      moreover have "g a env w1 = (r, w')" using fw run Inr by (simp add: tbind_def)
      ultimately show ?thesis using assms(2) I1 unfolding keeps_def by blast
    qed
  qed
  then show ?thesis unfolding keeps_def by blast
qed

lemma keeps_with_env: "keeps env I (f env) Q \<Longrightarrow> keeps env I (with_env f) Q"
  by (simp add: keeps_def)

lemma keeps_tor: "keeps env I f Q \<Longrightarrow> Q x \<Longrightarrow> keeps env I (tor f x) Q"
  unfolding keeps_def tor_def by (auto split: prod.splits sum.splits)

lemma keeps_tignore: "keeps env I f Q \<Longrightarrow> keeps env I (tignore f) (\<lambda>_. True)"
  unfolding keeps_def tignore_def by (auto) (metis surjective_pairing)

lemma keeps_tfor: "(\<And>x. x \<in> set xs \<Longrightarrow> keeps env I (f x) (\<lambda>_. True)) \<Longrightarrow> keeps env I (tfor xs f) (\<lambda>_. True)"
  by (induction xs) (auto intro: keeps_tret keeps_tbind)

lemma keeps_tmap: "(\<And>x. x \<in> set xs \<Longrightarrow> keeps env I (f x) Q) \<Longrightarrow> keeps env I (tmap xs f) (\<lambda>ys. \<forall>y \<in> set ys. Q y)"
proof (induction xs)
  case Nil
  then show ?case by (simp add: keeps_tret)
next
  case (Cons x xs)
  show ?case
    by (simp, rule keeps_tbind [where Q = Q]) (use Cons in \<open>auto intro!: keeps_tbind [where Q = "\<lambda>ys. \<forall>y \<in> set ys. Q y"] keeps_tret\<close>)
qed

lemma keeps_if: "(b \<Longrightarrow> keeps env I f Q) \<Longrightarrow> (\<not> b \<Longrightarrow> keeps env I g Q) \<Longrightarrow> keeps env I (if b then f else g) Q"
  by simp

lemma keeps_sql_read:
  "(\<And>d a. I d \<Longrightarrow> f env d = Inr a \<Longrightarrow> Q a) \<Longrightarrow> keeps env I (sql_read l f) Q"
  unfolding keeps_def sql_read_def sql_def Let_def by (auto split: option.splits sum.splits)

lemma keeps_redis:
  "(\<And>d a d'. I d \<Longrightarrow> f env d = (a, d') \<Longrightarrow> I d' \<and> Q a) \<Longrightarrow> keeps env I (redis L f) Q"
  unfolding keeps_def redis_def Let_def by (auto split: option.splits prod.splits)

text \<open>A transaction that fails leaves the database as it was, so its body need only be right when it succeeds.\<close>

lemma keeps_WithTenantTx:
  assumes "\<And>w a w'. I (wdb w) \<Longrightarrow> f (env\<lparr>cur_tenant := tid\<rparr>) w = (Inr a, w') \<Longrightarrow> I (wdb w') \<and> Q a"
  shows "keeps env I (WithTenantTx tid f) Q"
proof -
  have "I (wdb w') \<and> (\<forall>a. r = Inr a \<longrightarrow> Q a)" if I: "I (wdb w)" and run: "WithTenantTx tid f env w = (r, w')" for w r w'
  proof (cases r)
    case (Inl e)
    with run I show ?thesis by (auto dest: WithTenantTx_Inl)
  next
    case (Inr a)
    with run obtain w1 w2 where "wdb w1 = wdb w" "f (env\<lparr>cur_tenant := tid\<rparr>) w1 = (Inr a, w2)" "wdb w' = wdb w2"
      by (auto elim: WithTenantTx_InrE)
    with assms [of w1 a w2] I Inr show ?thesis by auto
  qed
  then show ?thesis unfolding keeps_def by blast
qed

lemma keeps_tx_read:
  assumes "\<And>d a. I d \<Longrightarrow> f (env\<lparr>cur_tenant := tid\<rparr>) d = Inr a \<Longrightarrow> Q a"
  shows "keeps env I (WithTenantTx tid (sql_read l f)) Q"
  by (rule keeps_WithTenantTx) (use assms in \<open>auto simp: sql_read_Inr\<close>)

lemmas keeps_intros = keeps_tret keeps_tfail keeps_with_env keeps_if

end
