(* ===== verification/Policy_Decision.thy ===== *)
theory Policy_Decision
  imports Policy_Rules
begin

text \<open>
  What a positive decision rests on. \<open>authorised\<close> states the access rules over the rows of the tables, with no
  caches, documents or texts in between; \<open>cache_ok\<close> says where each cache entry came from; and every decision
  \<open>Check\<close> makes, from the cache or from the database, whatever fails on the way, is shown to be justified by
  such rows.
\<close>

section \<open>The access rules over rows\<close>

definition uuid_laws :: "env \<Rightarrow> bool" where
  "uuid_laws env \<longleftrightarrow> (\<forall>u. uuid_Parse env (uuid_String env u) = Some u \<and> length (uuid_String env u) = 36)"

definition ends :: "permission \<Rightarrow> time set" where
  "ends p = set_option (pm_ValidTo p) \<union> set_option (pm_ExpiresAt p)"

text \<open>The rules compare with the end of a grant cut to the second, as its text carries it.\<close>

definition in_force :: "time \<Rightarrow> permission \<Rightarrow> bool" where
  "in_force now p \<longleftrightarrow> pm_ValidFrom p \<le> now \<and> (\<forall>v \<in> ends p. now \<le> v - v mod second)"

definition principal_of :: "env \<Rightarrow> (uuid \<times> uuid \<times> uuid) set \<Rightarrow> check_input \<Rightarrow> permission \<Rightarrow> bool" where
  "principal_of env M i p \<longleftrightarrow>
     (pm_PrincipalType p = chk_SubjectType i \<and> uuid_String env (pm_PrincipalID p) = chk_SubjectID i)
     \<or> (chk_SubjectType i = ''user'' \<and> pm_PrincipalType p = ''group''
        \<and> (\<exists>u. uuid_Parse env (chk_SubjectID i) = Some u \<and> (pm_TenantID p, pm_PrincipalID p, u) \<in> M))"

definition grant_covers :: "env \<Rightarrow> check_input \<Rightarrow> permission \<Rightarrow> bool" where
  "grant_covers env i p \<longleftrightarrow>
     (pm_ResourceType p = chk_ResourceType i \<and> uuid_String env (pm_ResourceID p) = chk_ResourceID i)
     \<or> (chk_ResourceType i = ''document'' \<and> pm_ResourceType p = ''folder''
        \<and> chk_Context i ''folder_id'' = Some (uuid_String env (pm_ResourceID p)))
     \<or> (chk_ResourceType i \<in> {''document'', ''folder''} \<and> pm_ResourceType p = ''workspace''
        \<and> chk_Context i ''workspace_id'' = Some (uuid_String env (pm_ResourceID p)))"

definition grant_allows :: "env \<Rightarrow> time \<Rightarrow> uuid \<Rightarrow> (uuid \<times> uuid \<times> uuid) set \<Rightarrow> check_input \<Rightarrow> permission \<Rightarrow> bool" where
  "grant_allows env now tid M i p \<longleftrightarrow> pm_TenantID p = tid \<and> principal_of env M i p \<and> grant_covers env i p
     \<and> capability_includes (pm_Capability p) (chk_Action i) \<and> in_force now p"

definition member_allows :: "env \<Rightarrow> uuid \<Rightarrow> check_input \<Rightarrow> workspace_member \<Rightarrow> bool" where
  "member_allows env tid i m \<longleftrightarrow> chk_SubjectType i = ''user'' \<and> wm_TenantID m = tid
     \<and> uuid_String env (wm_UserID m) = chk_SubjectID i \<and> workspace_id_of_input i = Some (uuid_String env (wm_WorkspaceID m))
     \<and> (wm_Role m = ''admin'' \<or> chk_Action i = ''view'')"

definition role_allows :: "check_input \<Rightarrow> bool" where
  "role_allows i \<longleftrightarrow> chk_SubjectType i = ''user'' \<and> (ctx_is i ''user_role'' ''owner'' \<or> ctx_is i ''user_role'' ''admin'')"

definition authorised ::
    "env \<Rightarrow> time \<Rightarrow> uuid \<Rightarrow> check_input \<Rightarrow> permission set \<Rightarrow> (uuid \<times> uuid \<times> uuid) set \<Rightarrow> workspace_member set \<Rightarrow> bool" where
  "authorised env now tid i P M W \<longleftrightarrow> \<not> rego_deny i
     \<and> (role_allows i \<or> (\<exists>m \<in> W. member_allows env tid i m) \<or> (\<exists>p \<in> P. grant_allows env now tid M i p))"

lemma authorised_mono:
  assumes "authorised env now tid i P M W" "P \<subseteq> P'" "M \<subseteq> M'" "W \<subseteq> W'"
  shows "authorised env now tid i P' M' W'"
proof -
  have "grant_allows env now tid M' i p" if "grant_allows env now tid M i p" for p
    using that assms(3) unfolding grant_allows_def principal_of_def by blast
  then show ?thesis using assms unfolding authorised_def by blast
qed

section \<open>Where cache entries come from\<close>

text \<open>The documents of the grants on one resource that were valid at an instant.\<close>

definition docs_of :: "env \<Rightarrow> permission list \<Rightarrow> uuid \<Rightarrow> string \<Rightarrow> uuid \<Rightarrow> time \<Rightarrow> permission_doc list" where
  "docs_of env tb tid kind i t = permsToDocs env (filter (\<lambda>p. on_resource tid kind i p \<and> valid_at t p) tb)"

definition groups_of :: "env \<Rightarrow> (uuid \<times> uuid \<times> uuid) list \<Rightarrow> uuid \<Rightarrow> uuid \<Rightarrow> string list" where
  "groups_of env gm tid uid = map (\<lambda>r. uuid_String env (fst (snd r))) (filter (\<lambda>r. fst r = tid \<and> snd (snd r) = uid) gm)"

definition workspaces_of :: "env \<Rightarrow> workspace_member list \<Rightarrow> uuid \<Rightarrow> uuid \<Rightarrow> workspace_doc list" where
  "workspaces_of env wms tid uid = workspace_docs env (filter (\<lambda>m. wm_TenantID m = tid \<and> wm_UserID m = uid) wms)"

type_synonym perm_source = "uuid \<Rightarrow> string \<Rightarrow> uuid \<Rightarrow> time \<Rightarrow> permission list \<Rightarrow> bool"
type_synonym member_source = "time \<Rightarrow> (uuid \<times> uuid \<times> uuid) list \<Rightarrow> workspace_member list \<Rightarrow> bool"

definition perms_cached :: "env \<Rightarrow> perm_source \<Rightarrow> 'x policy_db_scheme \<Rightarrow> bool" where
  "perms_cached env PP d \<longleftrightarrow> (\<forall>tid kind i docs e. redis_kv d (ResourcePermsKey env tid kind i) = Some (CPerms docs, e)
     \<longrightarrow> (\<exists>t tb. e = t + TTL \<and> PP tid kind i t tb \<and> docs = docs_of env tb tid kind i t))"

definition groups_cached :: "env \<Rightarrow> member_source \<Rightarrow> 'x policy_db_scheme \<Rightarrow> bool" where
  "groups_cached env MM d \<longleftrightarrow> (\<forall>tid uid gs e. redis_kv d (UserGroupsKey env tid uid) = Some (CGroups gs, e)
     \<longrightarrow> (\<exists>t gm wms. e = t + MembershipTTL \<and> MM t gm wms \<and> gs = groups_of env gm tid uid))"

definition workspaces_cached :: "env \<Rightarrow> member_source \<Rightarrow> 'x policy_db_scheme \<Rightarrow> bool" where
  "workspaces_cached env MM d \<longleftrightarrow> (\<forall>tid uid ws e. redis_kv d (UserWorkspacesKey env tid uid) = Some (CWorkspaces ws, e)
     \<longrightarrow> (\<exists>t gm wms. e = t + MembershipTTL \<and> MM t gm wms \<and> ws = workspaces_of env wms tid uid))"

definition cache_ok :: "env \<Rightarrow> perm_source \<Rightarrow> member_source \<Rightarrow> 'x policy_db_scheme \<Rightarrow> bool" where
  "cache_ok env PP MM d \<longleftrightarrow> perms_cached env PP d \<and> groups_cached env MM d \<and> workspaces_cached env MM d"

lemmas cache_defs = perms_cached_def groups_cached_def workspaces_cached_def

text \<open>The keys determine what they are keys of, and the three key spaces are apart.\<close>

lemma uuid_String_inj: "uuid_laws env \<Longrightarrow> uuid_String env u = uuid_String env v \<longleftrightarrow> u = v"
  unfolding uuid_laws_def by (metis option.inject)

lemma key_inj:
  assumes "uuid_laws env"
  shows "ResourcePermsKey env t k i = ResourcePermsKey env t' k' i' \<longleftrightarrow> t = t' \<and> k = k' \<and> i = i'"
    and "UserGroupsKey env t u = UserGroupsKey env t' u' \<longleftrightarrow> t = t' \<and> u = u'"
    and "UserWorkspacesKey env t u = UserWorkspacesKey env t' u' \<longleftrightarrow> t = t' \<and> u = u'"
proof -
  have len: "length (uuid_String env x) = 36" for x using assms by (simp add: uuid_laws_def)
  show "ResourcePermsKey env t k i = ResourcePermsKey env t' k' i' \<longleftrightarrow> t = t' \<and> k = k' \<and> i = i'"
  proof
    assume "ResourcePermsKey env t k i = ResourcePermsKey env t' k' i'"
    then have "uuid_String env t = uuid_String env t'" and rest: "k @ '':'' @ uuid_String env i = k' @ '':'' @ uuid_String env i'"
      using len by (auto simp: ResourcePermsKey_def append_eq_append_conv)
    from rest have "(k @ '':'') @ uuid_String env i = (k' @ '':'') @ uuid_String env i'" by simp
    then have "k @ '':'' = k' @ '':'' \<and> uuid_String env i = uuid_String env i'"
      using len append_eq_append_conv [of "uuid_String env i" "uuid_String env i'" "k @ '':''"] by simp
    then show "t = t' \<and> k = k' \<and> i = i'"
      using \<open>uuid_String env t = uuid_String env t'\<close> by (simp add: uuid_String_inj [OF assms])
  qed simp
  show "UserGroupsKey env t u = UserGroupsKey env t' u' \<longleftrightarrow> t = t' \<and> u = u'"
    and "UserWorkspacesKey env t u = UserWorkspacesKey env t' u' \<longleftrightarrow> t = t' \<and> u = u'"
    using len by (auto simp: UserGroupsKey_def UserWorkspacesKey_def append_eq_append_conv uuid_String_inj [OF assms])
qed

lemma key_apart [simp]:
  "UserGroupsKey env t u \<noteq> ResourcePermsKey env t' k i" "ResourcePermsKey env t' k i \<noteq> UserGroupsKey env t u"
  "UserWorkspacesKey env t u \<noteq> ResourcePermsKey env t' k i" "ResourcePermsKey env t' k i \<noteq> UserWorkspacesKey env t u"
  "UserGroupsKey env t u \<noteq> UserWorkspacesKey env t' u'" "UserWorkspacesKey env t' u' \<noteq> UserGroupsKey env t u"
  by (simp_all add: UserGroupsKey_def ResourcePermsKey_def UserWorkspacesKey_def)

text \<open>Losing entries, and storing what the database just gave, keep the cache in order.\<close>

lemma cache_ok_frame:
  "cache_ok env PP MM d \<Longrightarrow> (\<And>k x. redis_kv d' k = Some x \<Longrightarrow> redis_kv d k = Some x) \<Longrightarrow> cache_ok env PP MM d'"
  unfolding cache_ok_def cache_defs by blast

lemma cache_ok_tables [simp]:
  "cache_ok env PP MM (d\<lparr>redis_sets := s\<rparr>) = cache_ok env PP MM d"
  by (simp add: cache_ok_def cache_defs)

lemma cur_tenant_irrelevant [simp]:
  "permsToDocs (env\<lparr>cur_tenant := t\<rparr>) = permsToDocs env" "workspace_docs (env\<lparr>cur_tenant := t\<rparr>) = workspace_docs env"
  "ResourcePermsKey (env\<lparr>cur_tenant := t\<rparr>) = ResourcePermsKey env" "UserGroupsKey (env\<lparr>cur_tenant := t\<rparr>) = UserGroupsKey env"
  "UserWorkspacesKey (env\<lparr>cur_tenant := t\<rparr>) = UserWorkspacesKey env" "docs_of (env\<lparr>cur_tenant := t\<rparr>) = docs_of env"
  "groups_of (env\<lparr>cur_tenant := t\<rparr>) = groups_of env" "workspaces_of (env\<lparr>cur_tenant := t\<rparr>) = workspaces_of env"
  by (simp_all add: fun_eq_iff permsToDocs_def workspace_docs_def ResourcePermsKey_def UserGroupsKey_def
      UserWorkspacesKey_def docs_of_def groups_of_def workspaces_of_def split: option.split)

lemma cache_ok_set_perms:
  assumes "uuid_laws env" "cache_ok env PP MM d" "PP tid kind i t tb"
  shows "cache_ok env PP MM (d\<lparr>redis_kv := (redis_kv d)(ResourcePermsKey env tid kind i \<mapsto> (CPerms (docs_of env tb tid kind i t), t + TTL))\<rparr>)"
  using assms unfolding cache_ok_def cache_defs by (auto simp: key_inj)

lemma cache_ok_set_groups:
  assumes "uuid_laws env" "cache_ok env PP MM d" "MM t gm wms"
  shows "cache_ok env PP MM (d\<lparr>redis_kv := (redis_kv d)(UserGroupsKey env tid uid \<mapsto> (CGroups (groups_of env gm tid uid), t + MembershipTTL))\<rparr>)"
  using assms unfolding cache_ok_def cache_defs by (auto simp: key_inj)

lemma cache_ok_set_workspaces:
  assumes "uuid_laws env" "cache_ok env PP MM d" "MM t gm wms"
  shows "cache_ok env PP MM (d\<lparr>redis_kv := (redis_kv d)(UserWorkspacesKey env tid uid \<mapsto> (CWorkspaces (workspaces_of env wms tid uid), t + MembershipTTL))\<rparr>)"
  using assms unfolding cache_ok_def cache_defs by (auto simp: key_inj)

section \<open>The loaders\<close>

text \<open>
  The state a read-only operation works in: tables that stay as they are, and a cache in order. The sources
  must admit the tables as they are now.
\<close>

definition view_ok ::
    "env \<Rightarrow> perm_source \<Rightarrow> member_source \<Rightarrow> permission list \<Rightarrow> (uuid \<times> uuid \<times> uuid) list \<Rightarrow> workspace_member list \<Rightarrow> 'x policy_db_scheme \<Rightarrow> bool" where
  "view_ok env PP MM tb gm wms d \<longleftrightarrow> cache_ok env PP MM d
     \<and> permissions d = tb \<and> group_members d = gm \<and> workspace_members d = wms"

definition admits ::
    "env \<Rightarrow> perm_source \<Rightarrow> member_source \<Rightarrow> permission list \<Rightarrow> (uuid \<times> uuid \<times> uuid) list \<Rightarrow> workspace_member list \<Rightarrow> bool" where
  "admits env PP MM tb gm wms \<longleftrightarrow> uuid_laws env \<and> (\<forall>tid kind i. PP tid kind i (go_now env) tb) \<and> MM (go_now env) gm wms"

lemma view_ok_lose:
  "view_ok env PP MM tb gm wms d \<Longrightarrow> view_ok env PP MM tb gm wms (d\<lparr>redis_kv := (\<lambda>k. if k \<in> K then None else redis_kv d k)\<rparr>)"
  "view_ok env PP MM tb gm wms d \<Longrightarrow> view_ok env PP MM tb gm wms (d\<lparr>redis_sets := s\<rparr>)"
  by (auto simp: view_ok_def elim!: cache_ok_frame split: if_splits)

lemma keeps_Del: "keeps env (view_ok env PP MM tb gm wms) (Cache_Del L ks) (\<lambda>_. True)"
  unfolding Cache_Del_def by (intro keeps_if keeps_tret keeps_redis) (auto intro: view_ok_lose)

lemma keeps_Track: "keeps env (view_ok env PP MM tb gm wms) (TrackResourceByGroup L tid gid kind i) (\<lambda>_. True)"
  unfolding TrackResourceByGroup_def by (rule keeps_redis) (auto simp: Let_def intro: view_ok_lose)

text \<open>A cached value was stored for the key and has not expired.\<close>

lemma keeps_GetJSON:
  assumes "\<And>(d :: 'x policy_db_scheme) v e x. view_ok env PP MM tb gm wms d \<Longrightarrow> redis_kv d key = Some (v, e) \<Longrightarrow> go_now env < e \<Longrightarrow> decode v = Some x \<Longrightarrow> Q x"
  shows "keeps env (view_ok env PP MM tb gm wms :: 'x policy_db_scheme \<Rightarrow> bool) (GetJSON L key decode) (\<lambda>r. case r of None \<Rightarrow> True | Some x \<Rightarrow> Q x)"
  unfolding GetJSON_def
proof (rule keeps_tbind)
  show "keeps env (view_ok env PP MM tb gm wms :: 'x policy_db_scheme \<Rightarrow> bool) (redis L (\<lambda>env d. (cache_lookup (go_now env) d key, d)))
      (\<lambda>b. case b of None \<Rightarrow> True | Some v \<Rightarrow> \<forall>x. decode v = Some x \<longrightarrow> Q x)"
    by (rule keeps_redis) (auto simp: cache_lookup_def split: option.splits prod.splits if_splits intro: assms)
next
  fix b :: "cval option"
  assume b: "case b of None \<Rightarrow> True | Some v \<Rightarrow> \<forall>x. decode v = Some x \<longrightarrow> Q x"
  show "keeps env (view_ok env PP MM tb gm wms :: 'x policy_db_scheme \<Rightarrow> bool) (case b of None \<Rightarrow> tret None | Some v \<Rightarrow> (case decode v of
      Some x \<Rightarrow> tret (Some x) | None \<Rightarrow> tbind (tignore (Cache_Del L [key])) (\<lambda>_. tret None))) (\<lambda>r. case r of None \<Rightarrow> True | Some x \<Rightarrow> Q x)"
    using b by (auto split: option.splits intro!: keeps_tret keeps_tbind [OF keeps_tignore [OF keeps_Del]])
qed

lemma cached_docs:
  "cache_ok env PP MM d \<Longrightarrow> redis_kv d (ResourcePermsKey env tid kind i) = Some (v, e) \<Longrightarrow> as_perms v = Some docs
     \<Longrightarrow> \<exists>t tb. e = t + TTL \<and> PP tid kind i t tb \<and> docs = docs_of env tb tid kind i t"
  "cache_ok env PP MM d \<Longrightarrow> redis_kv d (UserGroupsKey env tid uid) = Some (v, e) \<Longrightarrow> as_groups v = Some gs
     \<Longrightarrow> \<exists>t gm wms. e = t + MembershipTTL \<and> MM t gm wms \<and> gs = groups_of env gm tid uid"
  "cache_ok env PP MM d \<Longrightarrow> redis_kv d (UserWorkspacesKey env tid uid) = Some (v, e) \<Longrightarrow> as_workspaces v = Some ws
     \<Longrightarrow> \<exists>t gm wms. e = t + MembershipTTL \<and> MM t gm wms \<and> ws = workspaces_of env wms tid uid"
  by (cases v; simp add: cache_ok_def cache_defs as_perms_def as_groups_def as_workspaces_def)+

text \<open>What a loader returns: the documents of an admitted table no older than the time to live.\<close>

definition perms_from :: "env \<Rightarrow> perm_source \<Rightarrow> uuid \<Rightarrow> string \<Rightarrow> uuid \<Rightarrow> permission_doc list \<Rightarrow> bool" where
  "perms_from env PP tid kind i docs \<longleftrightarrow>
     (\<exists>t tb. go_now env - TTL < t \<and> PP tid kind i t tb \<and> docs = docs_of env tb tid kind i t)"

definition groups_from :: "env \<Rightarrow> member_source \<Rightarrow> uuid \<Rightarrow> uuid \<Rightarrow> string list \<Rightarrow> bool" where
  "groups_from env MM tid uid gs \<longleftrightarrow>
     (\<exists>t gm wms. go_now env - MembershipTTL < t \<and> MM t gm wms \<and> gs = groups_of env gm tid uid)"

definition workspaces_from :: "env \<Rightarrow> member_source \<Rightarrow> uuid \<Rightarrow> uuid \<Rightarrow> workspace_doc list \<Rightarrow> bool" where
  "workspaces_from env MM tid uid ws \<longleftrightarrow>
     (\<exists>t gm wms. go_now env - MembershipTTL < t \<and> MM t gm wms \<and> ws = workspaces_of env wms tid uid)"

lemma ttl_pos [simp]: "0 < TTL" "0 < MembershipTTL" "0 < second"
  by (simp_all add: TTL_def MembershipTTL_def second_def)

text \<open>The shape the three loaders share.\<close>

lemma keeps_loader:
  assumes get: "keeps env I get (\<lambda>r. case r of None \<Rightarrow> True | Some x \<Rightarrow> Q x)"
    and read: "keeps env I read R" and rest: "\<And>a. R a \<Longrightarrow> keeps env I (k a) Q"
  shows "keeps env I (tbind (tor get None) (\<lambda>hit. case hit of Some x \<Rightarrow> tret x | None \<Rightarrow> tbind read k)) Q"
proof (rule keeps_tbind [OF keeps_tor [OF get]])
  fix hit
  assume "case hit of None \<Rightarrow> True | Some x \<Rightarrow> Q x"
  then show "keeps env I (case hit of Some x \<Rightarrow> tret x | None \<Rightarrow> tbind read k) Q"
    by (auto split: option.splits intro: keeps_tret keeps_tbind [OF read rest])
qed simp

lemma keeps_loadPermsForOne:
  assumes adm: "admits env PP MM tb gm wms"
  shows "keeps env (view_ok env PP MM tb gm wms :: 'x policy_db_scheme \<Rightarrow> bool) (loadPermsForOne L tid kind i) (perms_from env PP tid kind i)"
  unfolding loadPermsForOne_def Let_def
proof (rule keeps_with_env, rule keeps_loader [where R = "\<lambda>ps. permsToDocs env ps = docs_of env tb tid kind i (go_now env)"], rule keeps_GetJSON)
  fix d :: "'x policy_db_scheme" and v e x
  assume "view_ok env PP MM tb gm wms d" "redis_kv d (ResourcePermsKey env tid kind i) = Some (v, e)" "go_now env < e" "as_perms v = Some x"
  then obtain t tb' where "e = t + TTL" "PP tid kind i t tb'" "x = docs_of env tb' tid kind i t"
    using cached_docs(1) unfolding view_ok_def by blast
  with \<open>go_now env < e\<close> show "perms_from env PP tid kind i x"
    unfolding perms_from_def by (intro exI [of _ t] exI [of _ tb']) simp
next
  show "keeps env (view_ok env PP MM tb gm wms :: 'x policy_db_scheme \<Rightarrow> bool) (WithTenantTx tid (Permissions_ListByResource tid kind i (go_now env))) (\<lambda>ps. permsToDocs env ps = docs_of env tb tid kind i (go_now env))"
    unfolding Permissions_ListByResource_def by (rule keeps_tx_read) (auto simp: view_ok_def docs_of_def)
next
  fix ps
  assume ps: "permsToDocs env ps = docs_of env tb tid kind i (go_now env)"
  have now: "PP tid kind i (go_now env) tb" and uu: "uuid_laws env" using adm by (simp_all add: admits_def)
  have store: "keeps env (view_ok env PP MM tb gm wms :: 'x policy_db_scheme \<Rightarrow> bool) (SetJSON L (ResourcePermsKey env tid kind i) (CPerms (docs_of env tb tid kind i (go_now env)))) (\<lambda>_. True)"
    unfolding SetJSON_def SetJSONTTL_def
    by (rule keeps_redis) (use cache_ok_set_perms [where PP = PP and tid = tid and kind = kind and i = i, OF uu _ now] in \<open>auto simp: view_ok_def\<close>)
  have "perms_from env PP tid kind i (docs_of env tb tid kind i (go_now env))"
    using now unfolding perms_from_def by (intro exI [of _ "go_now env"] exI [of _ tb]) simp
  with store show "keeps env (view_ok env PP MM tb gm wms :: 'x policy_db_scheme \<Rightarrow> bool) (tbind (tignore (SetJSON L (ResourcePermsKey env tid kind i) (CPerms (permsToDocs env ps)))) (\<lambda>_.
      tbind (tfor ps (\<lambda>p. if pm_PrincipalType p = ''group'' then tignore (TrackResourceByGroup L tid (pm_PrincipalID p) kind i) else tret ())) (\<lambda>_.
      tret (permsToDocs env ps)))) (perms_from env PP tid kind i)"
    unfolding ps by (intro keeps_tbind [OF keeps_tignore] keeps_tbind [OF keeps_tfor] keeps_if keeps_tret keeps_tignore [OF keeps_Track]) auto
qed

lemma keeps_loadUserGroups:
  assumes adm: "admits env PP MM tb gm wms"
  shows "keeps env (view_ok env PP MM tb gm wms :: 'x policy_db_scheme \<Rightarrow> bool) (loadUserGroups L tid uid) (groups_from env MM tid uid)"
  unfolding loadUserGroups_def Let_def
proof (rule keeps_with_env, rule keeps_loader [where R = "\<lambda>ids. map (uuid_String env) ids = groups_of env gm tid uid"], rule keeps_GetJSON)
  fix d :: "'x policy_db_scheme" and v e x
  assume "view_ok env PP MM tb gm wms d" "redis_kv d (UserGroupsKey env tid uid) = Some (v, e)" "go_now env < e" "as_groups v = Some x"
  then obtain t gm' wms' where "e = t + MembershipTTL" "MM t gm' wms'" "x = groups_of env gm' tid uid"
    using cached_docs(2) unfolding view_ok_def by blast
  with \<open>go_now env < e\<close> show "groups_from env MM tid uid x"
    unfolding groups_from_def by (intro exI [of _ t] exI [of _ gm'] exI [of _ wms']) simp
next
  show "keeps env (view_ok env PP MM tb gm wms :: 'x policy_db_scheme \<Rightarrow> bool) (WithTenantTx tid (Groups_GroupsForUser tid uid)) (\<lambda>ids. map (uuid_String env) ids = groups_of env gm tid uid)"
    unfolding Groups_GroupsForUser_def by (rule keeps_tx_read) (auto simp: view_ok_def groups_of_def)
next
  fix ids
  assume ids: "map (uuid_String env) ids = groups_of env gm tid uid"
  have now: "MM (go_now env) gm wms" and uu: "uuid_laws env" using adm by (simp_all add: admits_def)
  have store: "keeps env (view_ok env PP MM tb gm wms :: 'x policy_db_scheme \<Rightarrow> bool) (SetJSONTTL L (UserGroupsKey env tid uid) (CGroups (groups_of env gm tid uid)) MembershipTTL) (\<lambda>_. True)"
    unfolding SetJSONTTL_def
    by (rule keeps_redis) (use cache_ok_set_groups [where MM = MM and gm = gm and wms = wms, OF uu _ now] in \<open>auto simp: view_ok_def\<close>)
  have "groups_from env MM tid uid (groups_of env gm tid uid)"
    using now unfolding groups_from_def by (intro exI [of _ "go_now env"] exI [of _ gm] exI [of _ wms]) simp
  with store show "keeps env (view_ok env PP MM tb gm wms :: 'x policy_db_scheme \<Rightarrow> bool) (tbind (tignore (SetJSONTTL L (UserGroupsKey env tid uid) (CGroups (map (uuid_String env) ids)) MembershipTTL)) (\<lambda>_.
      tret (map (uuid_String env) ids))) (groups_from env MM tid uid)"
    unfolding ids by (intro keeps_tbind [OF keeps_tignore] keeps_tret) auto
qed

lemma keeps_loadUserWorkspaces:
  assumes adm: "admits env PP MM tb gm wms"
  shows "keeps env (view_ok env PP MM tb gm wms :: 'x policy_db_scheme \<Rightarrow> bool) (loadUserWorkspaces L tid uid) (workspaces_from env MM tid uid)"
  unfolding loadUserWorkspaces_def Let_def
proof (rule keeps_with_env, rule keeps_loader [where R = "\<lambda>ms. workspace_docs env ms = workspaces_of env wms tid uid"], rule keeps_GetJSON)
  fix d :: "'x policy_db_scheme" and v e x
  assume "view_ok env PP MM tb gm wms d" "redis_kv d (UserWorkspacesKey env tid uid) = Some (v, e)" "go_now env < e" "as_workspaces v = Some x"
  then obtain t gm' wms' where "e = t + MembershipTTL" "MM t gm' wms'" "x = workspaces_of env wms' tid uid"
    using cached_docs(3) unfolding view_ok_def by blast
  with \<open>go_now env < e\<close> show "workspaces_from env MM tid uid x"
    unfolding workspaces_from_def by (intro exI [of _ t] exI [of _ gm'] exI [of _ wms']) simp
next
  show "keeps env (view_ok env PP MM tb gm wms :: 'x policy_db_scheme \<Rightarrow> bool) (WithTenantTx tid (Workspaces_MembershipsForUser tid uid)) (\<lambda>ms. workspace_docs env ms = workspaces_of env wms tid uid)"
    unfolding Workspaces_MembershipsForUser_def by (rule keeps_tx_read) (auto simp: view_ok_def workspaces_of_def)
next
  fix ms
  assume ms: "workspace_docs env ms = workspaces_of env wms tid uid"
  have now: "MM (go_now env) gm wms" and uu: "uuid_laws env" using adm by (simp_all add: admits_def)
  have store: "keeps env (view_ok env PP MM tb gm wms :: 'x policy_db_scheme \<Rightarrow> bool) (SetJSONTTL L (UserWorkspacesKey env tid uid) (CWorkspaces (workspaces_of env wms tid uid)) MembershipTTL) (\<lambda>_. True)"
    unfolding SetJSONTTL_def
    by (rule keeps_redis) (use cache_ok_set_workspaces [where MM = MM and gm = gm and wms = wms, OF uu _ now] in \<open>auto simp: view_ok_def\<close>)
  have "workspaces_from env MM tid uid (workspaces_of env wms tid uid)"
    using now unfolding workspaces_from_def by (intro exI [of _ "go_now env"] exI [of _ gm] exI [of _ wms]) simp
  with store show "keeps env (view_ok env PP MM tb gm wms :: 'x policy_db_scheme \<Rightarrow> bool) (tbind (tignore (SetJSONTTL L (UserWorkspacesKey env tid uid) (CWorkspaces (workspace_docs env ms)) MembershipTTL)) (\<lambda>_.
      tret (workspace_docs env ms))) (workspaces_from env MM tid uid)"
    unfolding ms by (intro keeps_tbind [OF keeps_tignore] keeps_tret) auto
qed

section \<open>The decision\<close>

text \<open>What the rules are evaluated on: nothing but grants and memberships the sources admit.\<close>

definition evidence_from :: "env \<Rightarrow> perm_source \<Rightarrow> member_source \<Rightarrow> uuid \<Rightarrow> check_input \<Rightarrow> eval_input \<Rightarrow> bool" where
  "evidence_from env PP MM tid i e \<longleftrightarrow> ei_Input e = i
     \<and> (\<forall>x \<in> set (ei_Permissions e). \<exists>kind rid docs. perms_from env PP tid kind rid docs \<and> x \<in> set docs)
     \<and> (\<forall>g \<in> set (ei_UserGroups e). \<exists>sid gs. uuid_Parse env (chk_SubjectID i) = Some sid
          \<and> groups_from env MM tid sid gs \<and> g \<in> set gs)
     \<and> (\<forall>x \<in> set (ei_Workspaces e). \<exists>sid ws. workspaces_from env MM tid sid ws \<and> x \<in> set ws)"

definition docs_from :: "env \<Rightarrow> perm_source \<Rightarrow> uuid \<Rightarrow> permission_doc list \<Rightarrow> bool" where
  "docs_from env PP tid ds \<longleftrightarrow> (\<forall>x \<in> set ds. \<exists>kind rid docs. perms_from env PP tid kind rid docs \<and> x \<in> set docs)"

lemma docs_from_one: "perms_from env PP tid kind i docs \<Longrightarrow> docs_from env PP tid docs"
  by (auto simp: docs_from_def)

lemma docs_from_simps [simp]:
  "docs_from env PP tid []" "docs_from env PP tid (xs @ ys) \<longleftrightarrow> docs_from env PP tid xs \<and> docs_from env PP tid ys"
  by (auto simp: docs_from_def)

lemma keeps_load_cascade:
  assumes "admits env PP MM tb gm wms"
  shows "keeps env (view_ok env PP MM tb gm wms) (load_cascade L tid applies kind s) (docs_from env PP tid)"
  unfolding load_cascade_def
  by (rule keeps_with_env)
     (auto split: option.split intro!: keeps_tret keeps_tor keeps_weaken [OF keeps_loadPermsForOne [OF assms] docs_from_one])

lemma keeps_loadResourcePermissions:
  assumes "admits env PP MM tb gm wms"
  shows "keeps env (view_ok env PP MM tb gm wms) (loadResourcePermissions L tid kind i f s) (docs_from env PP tid)"
  unfolding loadResourcePermissions_def
  by (intro keeps_tbind [OF keeps_weaken [OF keeps_loadPermsForOne [OF assms] docs_from_one]]
      keeps_tbind [OF keeps_load_cascade [OF assms]] keeps_tret) auto

lemma keeps_load_memberships:
  assumes "admits env PP MM tb gm wms"
  shows "keeps env (view_ok env PP MM tb gm wms) (load_memberships L tid i) (\<lambda>(gs, ws).
     (\<forall>g \<in> set gs. \<exists>sid gs'. uuid_Parse env (chk_SubjectID i) = Some sid \<and> groups_from env MM tid sid gs' \<and> g \<in> set gs')
     \<and> (\<forall>x \<in> set ws. \<exists>sid ws'. workspaces_from env MM tid sid ws' \<and> x \<in> set ws'))"
proof -
  have gs: "keeps env (view_ok env PP MM tb gm wms) (tor (loadUserGroups L tid sid) []) (\<lambda>gs. gs = [] \<or> groups_from env MM tid sid gs)" for sid
    by (rule keeps_tor [OF keeps_weaken [OF keeps_loadUserGroups [OF assms]]]) auto
  have ws: "keeps env (view_ok env PP MM tb gm wms) (tor (loadUserWorkspaces L tid sid) []) (\<lambda>ws. ws = [] \<or> workspaces_from env MM tid sid ws)" for sid
    by (rule keeps_tor [OF keeps_weaken [OF keeps_loadUserWorkspaces [OF assms]]]) auto
  show ?thesis
    unfolding load_memberships_def
    by (rule keeps_with_env)
       (auto split: option.split intro!: keeps_tret keeps_tbind [OF gs] keeps_tbind [OF ws])
qed

text \<open>\<open>Check\<close> leaves the tables alone and the cache in order, and its answer is the rules' verdict on such evidence.\<close>

lemma keeps_Check:
  assumes "admits env PP MM tb gm wms"
  shows "keeps env (view_ok env PP MM tb gm wms) (Check L tid i)
     (\<lambda>r. validateCheck tid i = None \<and> (\<exists>e. evidence_from env PP MM tid i e \<and> r = Eval (parse_rfc3339_ns L) (go_now env) e))"
proof -
  have run: "keeps env (view_ok env PP MM tb gm wms) (tbind (loadResourcePermissions L tid kind rid f s) (\<lambda>perms.
           tbind (load_memberships L tid i) (\<lambda>(gs, ws).
           tret (Eval (parse_rfc3339_ns L) (go_now env)
                   \<lparr>ei_Input = i, ei_Permissions = perms, ei_UserGroups = gs, ei_Workspaces = ws\<rparr>))))
        (\<lambda>r. \<exists>e. evidence_from env PP MM tid i e \<and> r = Eval (parse_rfc3339_ns L) (go_now env) e)" for kind rid f s
    by (rule keeps_tbind [OF keeps_loadResourcePermissions [OF assms]], rule keeps_tbind [OF keeps_load_memberships [OF assms]])
       (auto simp: evidence_from_def docs_from_def intro!: keeps_tret
         exI [of _ "\<lparr>ei_Input = i, ei_Permissions = _, ei_UserGroups = _, ei_Workspaces = _\<rparr>"])
  show ?thesis
    unfolding Check_def
    by (rule keeps_with_env) (auto split: option.split intro!: keeps_tfail keeps_weaken [OF run])
qed

section \<open>Allowed means authorised\<close>

text \<open>The grants and memberships a decision may rest on: those admitted within the last \<open>TTL\<close> and \<open>MembershipTTL\<close>.\<close>

definition usable_grants :: "env \<Rightarrow> perm_source \<Rightarrow> uuid \<Rightarrow> permission set" where
  "usable_grants env PP tid = {p. \<exists>kind rid t tb. go_now env - TTL < t \<and> PP tid kind rid t tb \<and> p \<in> set tb
     \<and> on_resource tid kind rid p \<and> valid_at t p}"

definition usable_groups :: "env \<Rightarrow> member_source \<Rightarrow> (uuid \<times> uuid \<times> uuid) set" where
  "usable_groups env MM = {r. \<exists>t gm wms. go_now env - MembershipTTL < t \<and> MM t gm wms \<and> r \<in> set gm}"

definition usable_members :: "env \<Rightarrow> member_source \<Rightarrow> workspace_member set" where
  "usable_members env MM = {m. \<exists>t gm wms. go_now env - MembershipTTL < t \<and> MM t gm wms \<and> m \<in> set wms}"

text \<open>The agent reads the end of a grant back from its text, to the second.\<close>

definition reads_back :: "policy_lib \<Rightarrow> env \<Rightarrow> time \<Rightarrow> bool" where
  "reads_back L env v \<longleftrightarrow>
     parse_rfc3339_ns L (format_RFC3339_in (local_offset env v) v) = Some (v - v mod second)"

definition doc_of :: "env \<Rightarrow> permission \<Rightarrow> permission_doc" where
  "doc_of env p =
     \<lparr>pd_ResourceType = pm_ResourceType p, pd_ResourceID = uuid_String env (pm_ResourceID p),
      pd_PrincipalType = pm_PrincipalType p, pd_PrincipalID = uuid_String env (pm_PrincipalID p),
      pd_Capability = pm_Capability p,
      pd_ValidTo = (case pm_ValidTo p of None \<Rightarrow> [] | Some v \<Rightarrow> format_RFC3339_in (local_offset env v) v),
      pd_ExpiresAt = (case pm_ExpiresAt p of None \<Rightarrow> [] | Some v \<Rightarrow> format_RFC3339_in (local_offset env v) v)\<rparr>"

lemma permsToDocs_map: "permsToDocs env ps = map (doc_of env) ps"
  by (simp add: permsToDocs_def doc_of_def)

lemma doc_of_fields [simp]:
  "pd_ResourceType (doc_of env p) = pm_ResourceType p" "pd_ResourceID (doc_of env p) = uuid_String env (pm_ResourceID p)"
  "pd_PrincipalType (doc_of env p) = pm_PrincipalType p" "pd_PrincipalID (doc_of env p) = uuid_String env (pm_PrincipalID p)"
  "pd_Capability (doc_of env p) = pm_Capability p"
  by (simp_all add: doc_of_def)

lemma perms_from_rows:
  "perms_from env PP tid kind i docs \<Longrightarrow> x \<in> set docs \<Longrightarrow> \<exists>p \<in> usable_grants env PP tid. pm_TenantID p = tid \<and> x = doc_of env p"
proof -
  assume "perms_from env PP tid kind i docs" "x \<in> set docs"
  then obtain t tb p where "go_now env - TTL < t" "PP tid kind i t tb" "p \<in> set tb" "on_resource tid kind i p" "valid_at t p" "x = doc_of env p"
    unfolding perms_from_def docs_of_def permsToDocs_map by auto
  then have "p \<in> usable_grants env PP tid" "pm_TenantID p = tid" unfolding usable_grants_def on_resource_def by blast+
  with \<open>x = doc_of env p\<close> show ?thesis by blast
qed

lemma format_nonempty [simp]: "format_RFC3339_in off t \<noteq> []"
  by (simp add: format_RFC3339_in_def format_RFC3339_def Let_def)

lemma permission_expired_doc:
  assumes "\<And>v. v \<in> ends p \<Longrightarrow> reads_back L env v"
  shows "permission_expired (parse_rfc3339_ns L) now (doc_of env p) \<longleftrightarrow> (\<exists>v \<in> ends p. v - v mod second < now)"
proof -
  have "past (parse_rfc3339_ns L) now (case x of None \<Rightarrow> [] | Some v \<Rightarrow> format_RFC3339_in (local_offset env v) v)
      \<longleftrightarrow> (\<exists>v \<in> set_option x. v - v mod second < now)" if "\<And>v. v \<in> set_option x \<Longrightarrow> reads_back L env v" for x
    using that by (cases x) (auto simp: past_def reads_back_def)
  from this [of "pm_ValidTo p"] this [of "pm_ExpiresAt p"] assms show ?thesis
    unfolding permission_expired_def doc_of_def ends_def by auto
qed

lemma usable_started:
  assumes "p \<in> usable_grants env PP tid" "\<And>kind rid t tb. PP tid kind rid t tb \<Longrightarrow> t \<le> go_now env"
  shows "pm_ValidFrom p \<le> go_now env"
proof -
  from assms(1) obtain kind rid t tb where PP: "PP tid kind rid t tb" and v: "valid_at t p" unfolding usable_grants_def by blast
  from v have "pm_ValidFrom p \<le> pg_time t" by (simp add: valid_at_def)
  also have "\<dots> \<le> t" by (rule pg_time_le)
  also have "\<dots> \<le> go_now env" using assms(2) PP .
  finally show ?thesis .
qed

definition source_laws :: "policy_lib \<Rightarrow> env \<Rightarrow> perm_source \<Rightarrow> uuid \<Rightarrow> bool" where
  "source_laws L env PP tid \<longleftrightarrow> uuid_laws env \<and> (\<forall>p \<in> usable_grants env PP tid. \<forall>v \<in> ends p. reads_back L env v)
     \<and> (\<forall>kind rid t tb. PP tid kind rid t tb \<longrightarrow> t \<le> go_now env)"

lemma source_lawsD:
  assumes "source_laws L env PP tid"
  shows "uuid_laws env" "\<And>p v. p \<in> usable_grants env PP tid \<Longrightarrow> v \<in> ends p \<Longrightarrow> reads_back L env v"
    "\<And>kind rid t tb. PP tid kind rid t tb \<Longrightarrow> t \<le> go_now env"
  using assms unfolding source_laws_def by blast+

lemma evidence_grant:
  assumes ev: "evidence_from env PP MM tid i e" "x \<in> set (ei_Permissions e)"
    and laws: "source_laws L env PP tid"
    and "\<not> permission_expired (parse_rfc3339_ns L) (go_now env) x"
  obtains p where "p \<in> usable_grants env PP tid" "pm_TenantID p = tid" "x = doc_of env p" "in_force (go_now env) p"
proof -
  from ev obtain kind rid docs where "perms_from env PP tid kind rid docs" "x \<in> set docs" unfolding evidence_from_def by blast
  from perms_from_rows [OF this] obtain p where p: "p \<in> usable_grants env PP tid" "pm_TenantID p = tid" "x = doc_of env p" by blast
  moreover have "in_force (go_now env) p"
    using assms(4) p permission_expired_doc [of p L env] source_lawsD(2) [OF laws p(1)] usable_started [OF p(1) source_lawsD(3) [OF laws]]
    by (force simp: in_force_def not_less)
  ultimately show thesis using that by blast
qed

lemma evidence_group:
  assumes "uuid_laws env" "evidence_from env PP MM tid i e" "uuid_String env g \<in> set (ei_UserGroups e)"
  shows "\<exists>u. uuid_Parse env (chk_SubjectID i) = Some u \<and> (tid, g, u) \<in> usable_groups env MM"
proof -
  from assms(2,3) obtain sid gs where "uuid_Parse env (chk_SubjectID i) = Some sid" and gs: "groups_from env MM tid sid gs" "uuid_String env g \<in> set gs"
    unfolding evidence_from_def by blast
  moreover from gs obtain t gm wms where "go_now env - MembershipTTL < t" "MM t gm wms" "(tid, g, sid) \<in> set gm"
    unfolding groups_from_def groups_of_def by (auto simp: uuid_String_inj [OF assms(1)])
  then have "(tid, g, sid) \<in> usable_groups env MM" unfolding usable_groups_def by blast
  ultimately show ?thesis by blast
qed

lemma rule_grants_allow:
  assumes laws: "source_laws L env PP tid"
    and ev: "evidence_from env PP MM tid i e" "x \<in> set (ei_Permissions e)"
    and x: "matches_principal x e" "grants_on (parse_rfc3339_ns L) (go_now env) i kind rid x"
    and cover: "(kind, rid) = (chk_ResourceType i, Some (chk_ResourceID i))
      \<or> chk_ResourceType i = ''document'' \<and> (kind, rid) = (''folder'', chk_Context i ''folder_id'')
      \<or> chk_ResourceType i \<in> {''document'', ''folder''} \<and> (kind, rid) = (''workspace'', chk_Context i ''workspace_id'')"
  shows "\<exists>p \<in> usable_grants env PP tid. grant_allows env (go_now env) tid (usable_groups env MM) i p"
proof -
  have fresh: "\<not> permission_expired (parse_rfc3339_ns L) (go_now env) x" using x(2) by (simp add: grants_on_def)
  obtain p where p: "p \<in> usable_grants env PP tid" "pm_TenantID p = tid" "x = doc_of env p" "in_force (go_now env) p"
    by (rule evidence_grant [OF ev laws fresh])
  have inp: "ei_Input e = i" using ev(1) by (simp add: evidence_from_def)
  have "principal_of env (usable_groups env MM) i p"
    using x(1) p(2) evidence_group [OF source_lawsD(1) [OF laws] ev(1), of "pm_PrincipalID p"]
    by (auto simp: matches_principal_def principal_of_def p(3) inp)
  moreover have "grant_covers env i p" using x(2) cover by (auto simp: grants_on_def grant_covers_def p(3))
  ultimately show ?thesis using p x(2) by (auto simp: grant_allows_def grants_on_def)
qed

lemma evidence_member:
  assumes "evidence_from env PP MM tid i e" "x \<in> set (ei_Workspaces e)"
  shows "\<exists>m \<in> usable_members env MM. wm_TenantID m = tid \<and> wd_UserID x = uuid_String env (wm_UserID m)
     \<and> wd_WorkspaceID x = uuid_String env (wm_WorkspaceID m) \<and> wd_Role x = wm_Role m"
proof -
  from assms obtain sid ws where "workspaces_from env MM tid sid ws" "x \<in> set ws" unfolding evidence_from_def by blast
  then obtain t gm wms m where "go_now env - MembershipTTL < t" "MM t gm wms" "m \<in> set wms" "wm_TenantID m = tid"
    "wd_UserID x = uuid_String env (wm_UserID m)" "wd_WorkspaceID x = uuid_String env (wm_WorkspaceID m)" "wd_Role x = wm_Role m"
    unfolding workspaces_from_def workspaces_of_def workspace_docs_def by auto
  then show ?thesis unfolding usable_members_def by blast
qed

lemma Eval_authorised:
  assumes laws: "source_laws L env PP tid"
    and ev: "evidence_from env PP MM tid i e" and allowed: "cr_Allowed (Eval (parse_rfc3339_ns L) (go_now env) e)"
  shows "authorised env (go_now env) tid i (usable_grants env PP tid) (usable_groups env MM) (usable_members env MM)"
proof -
  let ?G = "\<exists>p \<in> usable_grants env PP tid. grant_allows env (go_now env) tid (usable_groups env MM) i p"
  note grant = rule_grants_allow [OF laws ev]
  have inp: "ei_Input e = i" using ev by (simp add: evidence_from_def)
  from allowed have allow: "rego_allow (parse_rfc3339_ns L) (go_now env) e" and deny: "\<not> rego_deny i"
    by (auto simp: Eval_def final_decision_def inp Let_def split: if_splits)
  have "?G \<or> (\<exists>m \<in> usable_members env MM. member_allows env tid i m) \<or> role_allows i"
    using allow unfolding rego_allow_def
  proof (elim disjE)
    assume "rule1 (parse_rfc3339_ns L) (go_now env) e"
    then obtain x where "x \<in> set (ei_Permissions e)" "matches_principal x e"
      "grants_on (parse_rfc3339_ns L) (go_now env) i (chk_ResourceType i) (Some (chk_ResourceID i)) x"
      by (auto simp: rule1_def inp Let_def matches_principal_def)
    then show ?thesis using grant by blast
  next
    assume "rule2 (parse_rfc3339_ns L) (go_now env) e"
    then obtain x where "x \<in> set (ei_Permissions e)" "matches_principal x e"
      "grants_on (parse_rfc3339_ns L) (go_now env) i (chk_ResourceType i) (Some (chk_ResourceID i)) x"
      by (auto simp: rule2_def inp Let_def matches_principal_def)
    then show ?thesis using grant by blast
  next
    assume "rule3 (parse_rfc3339_ns L) (go_now env) e"
    then obtain x where "x \<in> set (ei_Permissions e)" "matches_principal x e" "chk_ResourceType i = ''document''"
      "grants_on (parse_rfc3339_ns L) (go_now env) i ''folder'' (chk_Context i ''folder_id'') x"
      by (auto simp: rule3_def inp Let_def)
    then show ?thesis using grant by blast
  next
    assume "rule4 (parse_rfc3339_ns L) (go_now env) e"
    then obtain x where "x \<in> set (ei_Permissions e)" "matches_principal x e" "chk_ResourceType i \<in> {''document'', ''folder''}"
      "grants_on (parse_rfc3339_ns L) (go_now env) i ''workspace'' (chk_Context i ''workspace_id'') x"
      by (auto simp: rule4_def inp Let_def)
    then show ?thesis using grant by blast
  next
    assume "rule5 e"
    then show ?thesis using evidence_member [OF ev] by (fastforce simp: rule5_def inp Let_def member_allows_def wm_ws_in_scope_def)
  next
    assume "rule5a e"
    then show ?thesis using evidence_member [OF ev] by (fastforce simp: rule5a_def inp Let_def member_allows_def wm_ws_in_scope_def)
  next
    assume "rule6 e"
    then show ?thesis by (simp add: rule6_def role_allows_def inp Let_def)
  qed
  with deny show ?thesis unfolding authorised_def by blast
qed

text \<open>Every run of \<open>Check\<close>: tables untouched, cache in order, and a positive answer is justified.\<close>

lemma Check_justified:
  assumes "admits env PP MM (permissions (wdb w)) (group_members (wdb w)) (workspace_members (wdb w))"
    and "cache_ok env PP MM (wdb w)"
    and "source_laws L env PP tid" and "Check L tid i env w = (Inr r, w')" and "cr_Allowed r"
  shows "authorised env (go_now env) tid i (usable_grants env PP tid) (usable_groups env MM) (usable_members env MM)"
proof -
  have "view_ok env PP MM (permissions (wdb w)) (group_members (wdb w)) (workspace_members (wdb w)) (wdb w)"
    using assms(2) by (simp add: view_ok_def)
  from keeps_InrD [OF keeps_Check [OF assms(1)] this assms(4)]
  obtain e where "evidence_from env PP MM tid i e" "r = Eval (parse_rfc3339_ns L) (go_now env) e" by blast
  with assms show ?thesis using Eval_authorised [of L env PP tid MM i e] by simp
qed

end
