(* ===== verification/Policy_Grants.thy ===== *)
theory Policy_Grants
  imports Policy_Rules
begin

text \<open>
  What granting and revoking do to the table of grants. \<open>grant_spec\<close> and \<open>revoke_spec\<close> describe the new table as
  functions of the old one; the transactions of \<open>Grant\<close> and \<open>Revoke\<close> are shown to compute them.
\<close>

section \<open>The invariant of the table\<close>

definition pkey :: "permission \<Rightarrow> uuid \<times> uuid" where
  "pkey p = (pm_TenantID p, pm_ID p)"

definition perms_inv :: "permission list \<Rightarrow> bool" where
  "perms_inv ps \<longleftrightarrow> distinct (map pkey ps) \<and> distinct (map slot ps)
     \<and> (\<forall>p \<in> set ps. permission_checks p \<and> permission_columns p = p \<and> pm_Effect p = ''allow'')"

lemma has_key_iff: "has_key tid i p \<longleftrightarrow> pkey p = (tid, i)"
  by (auto simp: has_key_def pkey_def)

lemma key_unique: "distinct (map f ps) \<Longrightarrow> p \<in> set ps \<Longrightarrow> q \<in> set ps \<Longrightarrow> f p = f q \<Longrightarrow> p = q"
  by (auto simp: distinct_map dest: inj_onD)

lemma pg_time_fixed_less: "pg_time v = v \<Longrightarrow> pg_time t < v \<longleftrightarrow> t < v"
proof -
  assume "pg_time v = v"
  then have "v mod 1000 = 0" by (simp add: pg_time_def microsecond_def)
  then obtain k where v: "v = 1000 * k" by (auto simp: zmod_eq_0_iff)
  define q where "q = t div 1000"
  have "t = 1000 * q + t mod 1000" "0 \<le> t mod 1000" "t mod 1000 < 1000" by (simp_all add: q_def)
  then have "q < k \<longleftrightarrow> t < 1000 * k" by (intro iffI) linarith+
  then show ?thesis unfolding v q_def by (simp add: pg_time_def microsecond_def minus_mod_eq_mult_div)
qed

lemma pg_time_fixed_le: "pg_time v = v \<Longrightarrow> v \<le> pg_time t \<longleftrightarrow> v \<le> t"
  using pg_time_fixed_less [of v t] pg_time_fixed_less [of v t] by (metis linorder_not_less)

text \<open>On stored rows the two definitions of activity and the SQL predicate agree.\<close>

lemma columnsD:
  assumes "permission_columns p = p"
  shows "pg_time (pm_ValidFrom p) = pm_ValidFrom p" "pm_ValidTo p = Some v \<Longrightarrow> pg_time v = v" "pm_ExpiresAt p = Some v \<Longrightarrow> pg_time v = v"
    "pg_time (pm_GrantedAt p) = pm_GrantedAt p"
proof -
  have "pm_ValidFrom (permission_columns p) = pm_ValidFrom p" "pm_GrantedAt (permission_columns p) = pm_GrantedAt p" "pm_ValidTo (permission_columns p) = pm_ValidTo p"
    "pm_ExpiresAt (permission_columns p) = pm_ExpiresAt p" using assms by simp_all
  then show "pg_time (pm_ValidFrom p) = pm_ValidFrom p" "pm_ValidTo p = Some v \<Longrightarrow> pg_time v = v" "pm_ExpiresAt p = Some v \<Longrightarrow> pg_time v = v"
    "pg_time (pm_GrantedAt p) = pm_GrantedAt p"
    by (auto simp: permission_columns_def)
qed

lemma isActive_IsActive: "isActive p t = IsActive p t"
  by (auto simp: isActive_def IsActive_def)

lemma valid_at_active: "permission_columns p = p \<Longrightarrow> valid_at t p \<longleftrightarrow> isActive p t"
  using columnsD [of p] by (auto simp: valid_at_def isActive_def pg_time_fixed_less pg_time_fixed_le split: option.splits)

section \<open>Specifications\<close>

definition is_target :: "grant_input \<Rightarrow> permission \<Rightarrow> bool" where
  "is_target g p \<longleftrightarrow> on_resource (gi_TenantID g) (gi_ResourceType g) (gi_ResourceID g) p
     \<and> for_principal (gi_PrincipalType g) (gi_PrincipalID g) p"

definition granter_of :: "grant_input \<Rightarrow> supersede_granter" where
  "granter_of g = \<lparr>sg_ID = gi_GrantedBy g, sg_Cap = gi_GranterCapability g, sg_OrgAdmin = gi_GranterOrgAdmin g\<rparr>"

definition revived :: "grant_input \<Rightarrow> time \<Rightarrow> permission \<Rightarrow> permission" where
  "revived g now p = p\<lparr>pm_ValidFrom := pg_time now, pm_ValidTo := None, pm_ExpiresAt := map_option pg_time (gi_ExpiresAt g),
     pm_GrantedBy := gi_GrantedBy g, pm_GrantedAt := pg_time now\<rparr>"

definition retired :: "time \<Rightarrow> permission \<Rightarrow> permission" where
  "retired now p = p\<lparr>pm_ValidTo := Some (pg_time now)\<rparr>"

definition same_grant :: "grant_input \<Rightarrow> permission \<Rightarrow> bool" where
  "same_grant g p \<longleftrightarrow> is_target g p \<and> pm_Capability p = gi_Capability g"

definition replaced :: "grant_input \<Rightarrow> time \<Rightarrow> permission \<Rightarrow> bool" where
  "replaced g now p \<longleftrightarrow> is_target g p \<and> isActive p now \<and> superseded (gi_Capability g) (granter_of g) p"

definition grant_spec :: "grant_input \<Rightarrow> time \<Rightarrow> uuid \<Rightarrow> permission list \<Rightarrow> permission list" where
  "grant_spec g now i ps =
     map (\<lambda>p. if same_grant g p \<and> \<not> isActive p now then revived g now p
              else if replaced g now p then retired now p else p) ps
     @ (if \<exists>p \<in> set ps. same_grant g p then [] else [permission_columns (new_permission g i now)])"

definition revoke_spec :: "uuid \<Rightarrow> uuid \<Rightarrow> time \<Rightarrow> permission list \<Rightarrow> permission list" where
  "revoke_spec tid i now ps = map (\<lambda>p. if has_key tid i p then retired now p else p) ps"

lemma slot_key_updates [simp]:
  "slot (revived g now p) = slot p" "slot (retired now p) = slot p" "pkey (revived g now p) = pkey p" "pkey (retired now p) = pkey p"
  "slot (permission_columns p) = slot p" "pkey (permission_columns p) = pkey p"
  "permission_checks (revived g now p) = permission_checks p" "permission_checks (retired now p) = permission_checks p"
  "permission_checks (permission_columns p) = permission_checks p"
  by (simp_all add: slot_def pkey_def revived_def retired_def permission_columns_def permission_checks_def)

lemma same_not_replaced: "same_grant g p \<Longrightarrow> \<not> replaced g now p"
  by (simp add: same_grant_def replaced_def superseded_def Let_def)

section \<open>The statements\<close>

text \<open>An event insert touches the outbox only.\<close>

definition off_outbox :: "'x policy_db_scheme \<Rightarrow> 'x policy_db_scheme \<Rightarrow> bool" where
  "off_outbox d d' \<longleftrightarrow> (\<exists>x. d' = d\<lparr>outbox := x\<rparr>)"

lemma off_outbox_refl [simp]: "off_outbox d d"
  unfolding off_outbox_def by (rule exI [of _ "outbox d"]) simp

lemma off_outbox_trans: "off_outbox d d' \<Longrightarrow> off_outbox d' d'' \<Longrightarrow> off_outbox d d''"
  by (auto simp: off_outbox_def)

lemma off_outboxD:
  assumes "off_outbox d d'"
  shows "permissions d' = permissions d" "group_members d' = group_members d" "workspace_members d' = workspace_members d"
    "redis_kv d' = redis_kv d" "redis_sets d' = redis_sets d" "accounts d' = accounts d" "organizations d' = organizations d"
  using assms by (auto simp: off_outbox_def)

lemma policy_emit_frame: "policy_emit tid a ty payload env w = (Inr (), w') \<Longrightarrow> off_outbox (wdb w) (wdb w')"
  by (auto simp: policy_emit_def NewOutboxEvent_def tbind_Inr Outbox_Insert_Inr draw_id_or_new_def off_outbox_def split: option.splits)

lemma Permissions_Revoke_Inr:
  assumes "Permissions_Revoke tid i now env w = (Inr r, w')" and inv: "distinct (map pkey (permissions (wdb w)))"
  shows "\<exists>p \<in> set (permissions (wdb w)). revocable tid i now p \<and> r = retired now p"
    and "wdb w' = (wdb w)\<lparr>permissions := revoke_spec tid i now (permissions (wdb w))\<rparr>"
proof -
  from assms(1) obtain p where p: "find (revocable tid i now) (permissions (wdb w)) = Some p" "r = retired now p"
    and w': "wdb w' = (wdb w)\<lparr>permissions := map (\<lambda>q. if revocable tid i now q then retired now q else q) (permissions (wdb w))\<rparr>"
    by (auto simp: Permissions_Revoke_def sql_Inr Let_def retired_def split: option.splits)
  then have mem: "p \<in> set (permissions (wdb w))" "revocable tid i now p" by (auto simp: find_Some_iff)
  with p show "\<exists>p \<in> set (permissions (wdb w)). revocable tid i now p \<and> r = retired now p" by blast
  have "revocable tid i now q \<longleftrightarrow> has_key tid i q" if "q \<in> set (permissions (wdb w))" for q
    using key_unique [OF inv mem(1) that] mem(2) by (auto simp: revocable_def has_key_iff)
  with w' show "wdb w' = (wdb w)\<lparr>permissions := revoke_spec tid i now (permissions (wdb w))\<rparr>"
    by (simp add: revoke_spec_def cong: map_cong)
qed

lemma pkeys_revoke_spec [simp]: "map pkey (revoke_spec tid i now ps) = map pkey ps" "map slot (revoke_spec tid i now ps) = map slot ps"
  by (simp_all add: revoke_spec_def)

text \<open>The loop that retires grants: it retires exactly the rows with the given identifiers.\<close>

definition retire_ids :: "uuid \<Rightarrow> uuid set \<Rightarrow> time \<Rightarrow> permission list \<Rightarrow> permission list" where
  "retire_ids tid I now ps = map (\<lambda>p. if pm_TenantID p = tid \<and> pm_ID p \<in> I then retired now p else p) ps"

lemma retire_ids_revoke: "retire_ids tid I now (revoke_spec tid i now ps) = retire_ids tid (insert i I) now ps"
  by (auto simp: retire_ids_def revoke_spec_def has_key_def retired_def)

lemma emitRevoked_frame: "emitRevoked r actor env w = (Inr (), w') \<Longrightarrow> off_outbox (wdb w) (wdb w')"
  by (auto simp: emitRevoked_def intro: policy_emit_frame)

lemma retire_loop:
  assumes "tmap ps (\<lambda>p. tbind (Permissions_Revoke tid (pm_ID p) now) (\<lambda>r. tbind (emitRevoked r actor) (\<lambda>_. tret r))) env w = (Inr rs, w')"
    and "distinct (map pkey (permissions (wdb w)))"
  shows "permissions (wdb w') = retire_ids tid (pm_ID ` set ps) now (permissions (wdb w))
     \<and> off_outbox ((wdb w)\<lparr>permissions := permissions (wdb w')\<rparr>) (wdb w')
     \<and> (\<forall>r \<in> set rs. \<exists>q \<in> set (permissions (wdb w)). \<exists>p \<in> set ps. has_key tid (pm_ID p) q \<and> slot r = slot q)"
  using assms
proof (induction ps arbitrary: w rs)
  case Nil
  then have "w' = w" "rs = []" by auto
  moreover have "(wdb w)\<lparr>permissions := permissions (wdb w)\<rparr> = wdb w" by simp
  ultimately show ?case by (simp add: retire_ids_def)
next
  case (Cons p ps)
  from Cons.prems(1) obtain r w1 w2 rs' where 1: "Permissions_Revoke tid (pm_ID p) now env w = (Inr r, w1)"
    and 2: "emitRevoked r actor env w1 = (Inr (), w2)" and rs: "rs = r # rs'"
    and 3: "tmap ps (\<lambda>p. tbind (Permissions_Revoke tid (pm_ID p) now) (\<lambda>r. tbind (emitRevoked r actor) (\<lambda>_. tret r))) env w2 = (Inr rs', w')"
    by (auto simp: tbind_Inr)
  note rev = Permissions_Revoke_Inr [OF 1 Cons.prems(2)]
  have off: "off_outbox (wdb w1) (wdb w2)" by (rule emitRevoked_frame [OF 2])
  have p2: "permissions (wdb w2) = revoke_spec tid (pm_ID p) now (permissions (wdb w))"
    using off_outboxD(1) [OF off] rev(2) by simp
  then have inv2: "distinct (map pkey (permissions (wdb w2)))" using Cons.prems(2) by simp
  note IH = Cons.IH [OF 3 inv2]
  have "permissions (wdb w') = retire_ids tid (pm_ID ` set (p # ps)) now (permissions (wdb w))"
    using IH p2 by (simp add: retire_ids_revoke)
  moreover have "off_outbox ((wdb w)\<lparr>permissions := permissions (wdb w')\<rparr>) (wdb w')"
  proof -
    from off rev(2) obtain x where "wdb w2 = (wdb w)\<lparr>permissions := revoke_spec tid (pm_ID p) now (permissions (wdb w)), outbox := x\<rparr>"
      by (auto simp: off_outbox_def)
    then have "(wdb w2)\<lparr>permissions := permissions (wdb w')\<rparr> = (wdb w)\<lparr>permissions := permissions (wdb w'), outbox := x\<rparr>" by simp
    then have "off_outbox ((wdb w)\<lparr>permissions := permissions (wdb w')\<rparr>) ((wdb w2)\<lparr>permissions := permissions (wdb w')\<rparr>)"
      by (auto simp: off_outbox_def)
    with IH show ?thesis by (blast intro: off_outbox_trans)
  qed
  moreover have "\<forall>x \<in> set rs. \<exists>q \<in> set (permissions (wdb w)). \<exists>p' \<in> set (p # ps). has_key tid (pm_ID p') q \<and> slot x = slot q"
  proof
    fix x
    assume "x \<in> set rs"
    then consider "x = r" | "x \<in> set rs'" using rs by auto
    then show "\<exists>q \<in> set (permissions (wdb w)). \<exists>p' \<in> set (p # ps). has_key tid (pm_ID p') q \<and> slot x = slot q"
    proof cases
      case 1
      then show ?thesis using rev(1) by (auto simp: revocable_def)
    next
      case 2
      with IH obtain q p' where q: "q \<in> set (permissions (wdb w2))" "p' \<in> set ps" "has_key tid (pm_ID p') q" "slot x = slot q" by blast
      from q(1) obtain q0 where q0: "q0 \<in> set (permissions (wdb w))" "slot q = slot q0" "pkey q = pkey q0"
        by (auto simp: p2 revoke_spec_def)
      then show ?thesis using q by (auto simp: has_key_iff intro!: bexI [OF _ q0(1)])
    qed
  qed
  ultimately show ?case by blast
qed

section \<open>The transaction of \<open>Grant\<close>\<close>

lemma sort_existing_result:
  "foldl (sort_existing c now) (s, h) xs =
     (case filter (\<lambda>p. pm_Capability p = c) xs of [] \<Rightarrow> s | ys \<Rightarrow> Some (last ys),
      h @ filter (\<lambda>p. pm_Capability p \<noteq> c \<and> isActive p now) xs)"
  by (induction xs arbitrary: s h) (auto simp: sort_existing_def split: list.splits)

lemma is_target_slot: "slot p = slot q \<Longrightarrow> is_target g p = is_target g q"
  by (auto simp: is_target_def slot_def on_resource_def for_principal_def)

lemma same_grant_slot: "same_grant g p \<longleftrightarrow> slot p = (gi_TenantID g, gi_ResourceType g, gi_ResourceID g, gi_PrincipalType g, gi_PrincipalID g, gi_Capability g)"
  by (auto simp: same_grant_def is_target_def slot_def on_resource_def for_principal_def)

lemma existing_same:
  assumes "perms_inv ps"
  shows "filter (\<lambda>p. pm_Capability p = gi_Capability g) (filter (is_target g) ps) = [] \<longleftrightarrow> \<not> (\<exists>p \<in> set ps. same_grant g p)"
    and "p \<in> set ps \<Longrightarrow> same_grant g p \<Longrightarrow> filter (\<lambda>p. pm_Capability p = gi_Capability g) (filter (is_target g) ps) = [p]"
proof -
  have same: "filter (\<lambda>p. pm_Capability p = gi_Capability g) (filter (is_target g) ps) = filter (same_grant g) ps"
    by (auto simp: same_grant_def intro: filter_cong)
  show "filter (\<lambda>p. pm_Capability p = gi_Capability g) (filter (is_target g) ps) = [] \<longleftrightarrow> \<not> (\<exists>p \<in> set ps. same_grant g p)"
    unfolding same by (auto simp: filter_empty_conv)
  assume p: "p \<in> set ps" "same_grant g p"
  have "filter (same_grant g) qs = (if p \<in> set qs then [p] else [])" if "set qs \<subseteq> set ps" "distinct (map slot qs)" for qs
    using that
  proof (induction qs)
    case (Cons q qs)
    have "same_grant g q \<Longrightarrow> q = p"
      using key_unique [of slot ps q p] assms p Cons.prems by (auto simp: perms_inv_def same_grant_slot)
    then show ?case using Cons p(2) by auto
  qed simp
  from this [of ps] assms p show "filter (\<lambda>p. pm_Capability p = gi_Capability g) (filter (is_target g) ps) = [p]"
    unfolding same by (simp add: perms_inv_def)
qed

lemma new_permission_slot: "slot (new_permission g i now) = (gi_TenantID g, gi_ResourceType g, gi_ResourceID g, gi_PrincipalType g, gi_PrincipalID g, gi_Capability g)"
  "pkey (new_permission g i now) = (gi_TenantID g, i)"
  by (simp_all add: new_permission_def slot_def pkey_def)

text \<open>The row the grant leaves: the one already there, the revived one, or a new one.\<close>

lemma grant_row_Inr:
  assumes run: "grant_row g same env w = (Inr (granted, changed), w')" and inv: "perms_inv (permissions (wdb w))"
    and same: "same = (if \<exists>p \<in> set (permissions (wdb w)). same_grant g p then Some p0 else None)"
      "\<exists>p \<in> set (permissions (wdb w)). same_grant g p \<Longrightarrow> p0 \<in> set (permissions (wdb w)) \<and> same_grant g p0"
  obtains i where "wdb w' = (wdb w)\<lparr>permissions := map (\<lambda>p. if same_grant g p \<and> \<not> isActive p (go_now env) then revived g (go_now env) p else p)
        (permissions (wdb w)) @ (if \<exists>p \<in> set (permissions (wdb w)). same_grant g p then [] else [permission_columns (new_permission g i (go_now env))])\<rparr>"
    "same_grant g granted"
    "\<not> (\<exists>p \<in> set (permissions (wdb w)). same_grant g p) \<Longrightarrow> (gi_TenantID g, i) \<notin> pkey ` set (permissions (wdb w)) \<and> permission_checks (new_permission g i (go_now env))"
    "changed \<longleftrightarrow> \<not> (\<exists>p \<in> set (permissions (wdb w)). same_grant g p \<and> isActive p (go_now env))"
proof (cases "\<exists>p \<in> set (permissions (wdb w)). same_grant g p")
  case False
  with run same(1) obtain i w1 where i: "draw_id ''uuid: '' env w = (Inr i, w1)" "granted = new_permission g i (go_now env)" "changed"
    and ins: "Permissions_Insert (new_permission g i (go_now env)) env w1 = (Inr (), w')"
    by (auto simp: grant_row_def tbind_Inr Let_def)
  have w1: "wdb w1 = wdb w" using i(1) by (auto simp: draw_id_def)
  from ins have w': "wdb w' = (wdb w)\<lparr>permissions := permissions (wdb w) @ [permission_columns (new_permission g i (go_now env))]\<rparr>"
    and fresh: "permission_checks (new_permission g i (go_now env))" "(gi_TenantID g, i) \<notin> pkey ` set (permissions (wdb w))"
    by (auto simp: Permissions_Insert_def new_permission_def sql_Inr tfail_def w1 has_key_iff split: if_splits)
  have "map (\<lambda>p. if same_grant g p \<and> \<not> isActive p (go_now env) then revived g (go_now env) p else p) (permissions (wdb w)) = permissions (wdb w)"
    using False by (intro map_if_unchanged) auto
  with w' fresh i(2,3) False show thesis
    by (intro that [of i]) (auto simp: same_grant_slot new_permission_slot)
next
  case True
  with same have p0: "same = Some p0" "p0 \<in> set (permissions (wdb w))" "same_grant g p0" by auto
  have only: "same_grant g q \<longleftrightarrow> q = p0" if "q \<in> set (permissions (wdb w))" for q
    using key_unique [of slot "permissions (wdb w)" q p0] inv p0 that by (auto simp: perms_inv_def same_grant_slot)
  show thesis
  proof (cases "isActive p0 (go_now env)")
    case act: True
    with run p0(1) have r: "granted = p0" "\<not> changed" "w' = w" by (auto simp: grant_row_def Let_def)
    have "map (\<lambda>p. if same_grant g p \<and> \<not> isActive p (go_now env) then revived g (go_now env) p else p) (permissions (wdb w)) = permissions (wdb w)"
      using act only by (intro map_if_unchanged) auto
    with True r p0 act show thesis by (intro that [of uuid_Nil]) auto
  next
    case inact: False
    with run p0(1) obtain r where r: "Permissions_Reactivate (gi_TenantID g) (pm_ID p0) (gi_GrantedBy g) (go_now env) (gi_ExpiresAt g) env w = (Inr r, w')"
      "granted = r" "changed" by (auto simp: grant_row_def Let_def tbind_Inr)
    have k: "has_key (gi_TenantID g) (pm_ID p0) q \<longleftrightarrow> q = p0" if "q \<in> set (permissions (wdb w))" for q
      using key_unique [of pkey "permissions (wdb w)" q p0] inv p0 that
      by (auto simp: perms_inv_def has_key_iff pkey_def same_grant_slot slot_def)
    from r(1) obtain p where p: "find (has_key (gi_TenantID g) (pm_ID p0)) (permissions (wdb w)) = Some p" "r = revived g (go_now env) p"
      and w': "wdb w' = (wdb w)\<lparr>permissions := map (\<lambda>q. if has_key (gi_TenantID g) (pm_ID p0) q then revived g (go_now env) q else q) (permissions (wdb w))\<rparr>"
      by (auto simp: Permissions_Reactivate_def sql_Inr Let_def revived_def split: option.splits if_splits)
    have "p = p0" using p(1) k by (auto simp: find_Some_iff)
    have "map (\<lambda>q. if has_key (gi_TenantID g) (pm_ID p0) q then revived g (go_now env) q else q) (permissions (wdb w))
        = map (\<lambda>p. if same_grant g p \<and> \<not> isActive p (go_now env) then revived g (go_now env) p else p) (permissions (wdb w))"
      using k only inact by (intro map_cong) auto
    moreover have "same_grant g granted" using p0(3) r(2) p(2) \<open>p = p0\<close> by (simp add: same_grant_slot)
    ultimately show thesis using True w' r inact only by (intro that [of uuid_Nil]) auto
  qed
qed

lemma superseded_other: "superseded c g p \<Longrightarrow> pm_Capability p \<noteq> c"
  by (auto simp: superseded_def Let_def)

lemma to_retire:
  "supersededCapabilities (filter (\<lambda>p. is_target g p \<and> pm_Capability p \<noteq> gi_Capability g \<and> isActive p now) ps) (gi_Capability g) (granter_of g)
     = filter (replaced g now) ps"
  using superseded_other by (fastforce simp: supersededCapabilities_def replaced_def intro!: filter_cong)

lemma retire_ids_spec:
  assumes inv: "perms_inv ps" and fresh: "\<not> (\<exists>p \<in> set ps. same_grant g p) \<Longrightarrow> (gi_TenantID g, i) \<notin> pkey ` set ps"
  shows "retire_ids (gi_TenantID g) (pm_ID ` set (filter (replaced g now) ps)) now
       (map (\<lambda>p. if same_grant g p \<and> \<not> isActive p now then revived g now p else p) ps
        @ (if \<exists>p \<in> set ps. same_grant g p then [] else [permission_columns (new_permission g i now)]))
     = grant_spec g now i ps"
proof -
  let ?I = "pm_ID ` set (filter (replaced g now) ps)"
  have hit: "pm_TenantID q = gi_TenantID g \<and> pm_ID q \<in> ?I \<longleftrightarrow> replaced g now q" if "q \<in> set ps" for q
  proof
    assume "pm_TenantID q = gi_TenantID g \<and> pm_ID q \<in> ?I"
    then obtain p where p: "p \<in> set ps" "replaced g now p" "pm_ID q = pm_ID p" "pm_TenantID q = gi_TenantID g" by auto
    then have "pkey q = pkey p" by (auto simp: pkey_def replaced_def is_target_def on_resource_def)
    then show "replaced g now q" using key_unique [of pkey ps q p] inv p that by (simp add: perms_inv_def)
  next
    assume "replaced g now q"
    with that show "pm_TenantID q = gi_TenantID g \<and> pm_ID q \<in> ?I" by (auto simp: replaced_def is_target_def on_resource_def)
  qed
  have row: "(\<lambda>p. if pm_TenantID p = gi_TenantID g \<and> pm_ID p \<in> ?I then retired now p else p)
       (if same_grant g q \<and> \<not> isActive q now then revived g now q else q)
     = (if same_grant g q \<and> \<not> isActive q now then revived g now q else if replaced g now q then retired now q else q)"
    if "q \<in> set ps" for q
    using hit [OF that] same_not_replaced [of g q now] by (auto simp: revived_def)
  have "\<not> (\<exists>p \<in> set ps. same_grant g p) \<Longrightarrow> pm_ID (new_permission g i now) \<notin> ?I"
    using fresh hit by (auto simp: new_permission_def replaced_def is_target_def on_resource_def pkey_def image_iff)
  then show ?thesis
    unfolding grant_spec_def retire_ids_def using row by (auto simp: permission_columns_def)
qed

text \<open>The grant transaction computes \<open>grant_spec\<close>.\<close>

lemma grant_tx_Inr:
  assumes run: "grant_tx g env w = (Inr (granted, gone), w')" and inv: "perms_inv (permissions (wdb w))"
  obtains i where "permissions (wdb w') = grant_spec g (go_now env) i (permissions (wdb w))"
    "off_outbox ((wdb w)\<lparr>permissions := permissions (wdb w')\<rparr>) (wdb w')" "same_grant g granted" "\<forall>r \<in> set gone. is_target g r"
    "\<not> (\<exists>p \<in> set (permissions (wdb w)). same_grant g p) \<Longrightarrow> (gi_TenantID g, i) \<notin> pkey ` set (permissions (wdb w)) \<and> permission_checks (new_permission g i (go_now env))"
    "(\<exists>p \<in> set (permissions (wdb w)). same_grant g p \<and> isActive p (go_now env)) \<Longrightarrow> filter (replaced g (go_now env)) (permissions (wdb w)) = [] \<Longrightarrow> wdb w' = wdb w"
proof -
  let ?T = "permissions (wdb w)" and ?now = "go_now env"
  obtain p0 where p0: "\<exists>p \<in> set ?T. same_grant g p \<Longrightarrow> p0 \<in> set ?T \<and> same_grant g p0" by metis
  define same where "same = (if \<exists>p \<in> set ?T. same_grant g p then Some p0 else None)"
  have fold: "foldl (sort_existing (gi_Capability g) ?now) (None, []) (filter (is_target g) ?T)
      = (same, filter (\<lambda>p. pm_Capability p \<noteq> gi_Capability g \<and> isActive p ?now) (filter (is_target g) ?T))"
  proof (cases "\<exists>p \<in> set ?T. same_grant g p")
    case True
    with p0 existing_same(2) [OF inv, of p0 g] show ?thesis by (simp add: sort_existing_result same_def)
  next
    case False
    with existing_same(1) [OF inv, of g] show ?thesis by (simp add: sort_existing_result same_def)
  qed
  from run obtain w1 w2 x xs changed where
    row: "grant_row g same env (w\<lparr>stmts := Suc (stmts w)\<rparr>) = (Inr (x, changed), w1)"
    and ret: "retire_grants (gi_TenantID g) (gi_GrantedBy g) (filter (replaced g ?now) ?T) env w1 = (Inr xs, w2)"
    and fin: "(if \<not> changed then tret (x, xs)
       else tbind (policy_emit (gi_TenantID g) (pm_ID x) ''dms.permission.granted.v1'' (permission_payload env x ''granted_by'' (pm_GrantedBy x))) (\<lambda>_.
          tbind (notifyGrantee x) (\<lambda>_. tret (x, xs)))) env w2 = (Inr (granted, gone), w')"
    unfolding grant_tx_def
    by (auto simp: tbind_Inr Permissions_ListForPrincipalOnResource_def sql_read_Inr is_target_def [symmetric] fold
        to_retire [unfolded granter_of_def])
  have [simp]: "x = granted" "xs = gone" using fin by (auto simp: tbind_Inr split: if_splits)
  have off2: "off_outbox (wdb w2) (wdb w')"
    using fin by (auto simp: tbind_Inr notifyGrantee_def Let_def split: if_splits dest!: policy_emit_frame intro: off_outbox_trans)
  obtain i where d1: "wdb w1 = (wdb w)\<lparr>permissions := map (\<lambda>p. if same_grant g p \<and> \<not> isActive p ?now then revived g ?now p else p) ?T
        @ (if \<exists>p \<in> set ?T. same_grant g p then [] else [permission_columns (new_permission g i ?now)])\<rparr>"
    and gr: "same_grant g granted"
    and fresh: "\<not> (\<exists>p \<in> set ?T. same_grant g p) \<Longrightarrow> (gi_TenantID g, i) \<notin> pkey ` set ?T \<and> permission_checks (new_permission g i ?now)"
    and ch: "changed \<longleftrightarrow> \<not> (\<exists>p \<in> set ?T. same_grant g p \<and> isActive p ?now)"
    by (rule grant_row_Inr [OF row, of p0]) (use inv p0 in \<open>auto simp: same_def\<close>)
  have "map pkey (permissions (wdb w1)) = map pkey ?T @ (if \<exists>p \<in> set ?T. same_grant g p then [] else [(gi_TenantID g, i)])"
    by (auto simp: d1 new_permission_slot)
  then have dist1: "distinct (map pkey (permissions (wdb w1)))" using fresh inv by (auto simp: perms_inv_def)
  note loop = retire_loop [OF ret [unfolded retire_grants_def with_env_app] dist1]
  have T': "permissions (wdb w') = grant_spec g ?now i ?T"
    using loop off_outboxD(1) [OF off2] retire_ids_spec [OF inv, of g i ?now] fresh by (simp add: d1)
  moreover have "off_outbox ((wdb w)\<lparr>permissions := permissions (wdb w')\<rparr>) (wdb w')"
  proof -
    have "(wdb w1)\<lparr>permissions := X\<rparr> = (wdb w)\<lparr>permissions := X\<rparr>" for X by (simp add: d1)
    with loop have "off_outbox ((wdb w)\<lparr>permissions := permissions (wdb w2)\<rparr>) (wdb w2)" by metis
    then show ?thesis using off2 off_outboxD(1) [OF off2] off_outbox_trans by metis
  qed
  moreover have "\<forall>r \<in> set gone. is_target g r"
  proof
    fix r
    assume "r \<in> set gone"
    with loop obtain q p where q: "q \<in> set (permissions (wdb w1))" "p \<in> set ?T" "replaced g ?now p" "has_key (gi_TenantID g) (pm_ID p) q" "slot r = slot q"
      by auto
    from q(1) consider q0 where "q0 \<in> set ?T" "slot q = slot q0" "pkey q = pkey q0" | "slot q = slot (new_permission g i ?now)"
      by (auto simp: d1 split: if_splits)
    then show "is_target g r"
    proof cases
      case (1 q0)
      then have "q0 = p" using key_unique [of pkey ?T q0 p] inv q by (auto simp: perms_inv_def has_key_iff replaced_def is_target_def on_resource_def pkey_def)
      with 1 q show ?thesis using is_target_slot [of r p g] by (auto simp: replaced_def)
    next
      case 2
      then show ?thesis using q(5) by (auto simp: is_target_def slot_def on_resource_def for_principal_def new_permission_def)
    qed
  qed
  moreover have "wdb w' = wdb w" if held: "\<exists>p \<in> set ?T. same_grant g p \<and> isActive p ?now" and none: "filter (replaced g ?now) ?T = []"
  proof -
    have "\<not> changed" using ch held by blast
    with fin have "w' = w2" by simp
    moreover have "w2 = w1" using ret none by (simp add: retire_grants_def)
    moreover have "wdb w1 = wdb w"
    proof -
      obtain p where "p \<in> set ?T" "same_grant g p" "isActive p ?now" using held by blast
      then have "q = p" if "q \<in> set ?T" "same_grant g q" for q
        using key_unique [of slot ?T q p] inv that by (auto simp: perms_inv_def same_grant_slot)
      then have "map (\<lambda>p. if same_grant g p \<and> \<not> isActive p ?now then revived g ?now p else p) ?T = ?T"
        using \<open>isActive p ?now\<close> by (intro map_if_unchanged) auto
      with held show ?thesis unfolding d1 by auto
    qed
    ultimately show ?thesis by simp
  qed
  ultimately show thesis using that gr fresh by blast
qed

text \<open>The specifications keep the invariant.\<close>

lemma columns_updates:
  assumes "permission_columns p = p"
  shows "permission_columns (revived g now p) = revived g now p" "permission_columns (retired now p) = retired now p"
  using columnsD [OF assms] by (auto simp: permission_columns_def revived_def retired_def map_option_idI option.map_comp comp_def
      intro!: permission.equality option.map_ident_strong)

lemma revoke_spec_inv: "perms_inv ps \<Longrightarrow> perms_inv (revoke_spec t n now ps)"
proof -
  assume inv: "perms_inv ps"
  have "permission_checks p \<and> permission_columns p = p \<and> pm_Effect p = ''allow''" if "p \<in> set (revoke_spec t n now ps)" for p
  proof -
    from that obtain q where "q \<in> set ps" "p \<in> {q, retired now q}" by (auto simp: revoke_spec_def)
    then show ?thesis using inv columns_updates(2) [of q now] by (auto simp: perms_inv_def) (simp_all add: retired_def)
  qed
  with inv show ?thesis by (simp add: perms_inv_def)
qed

lemma grant_spec_inv:
  assumes inv: "perms_inv ps" and fresh: "\<not> (\<exists>p \<in> set ps. same_grant g p) \<Longrightarrow> (gi_TenantID g, i) \<notin> pkey ` set ps \<and> permission_checks (new_permission g i now)"
  shows "perms_inv (grant_spec g now i ps)"
proof -
  have "map pkey (grant_spec g now i ps) = map pkey ps @ (if \<exists>p \<in> set ps. same_grant g p then [] else [(gi_TenantID g, i)])"
    "map slot (grant_spec g now i ps) = map slot ps @ (if \<exists>p \<in> set ps. same_grant g p then [] else [slot (new_permission g i now)])"
    by (auto simp: grant_spec_def new_permission_slot)
  then have dist: "distinct (map pkey (grant_spec g now i ps))" "distinct (map slot (grant_spec g now i ps))"
    using inv fresh by (auto simp: perms_inv_def same_grant_slot new_permission_slot)
  have again: "permission_columns (permission_columns p) = permission_columns p" for p
    by (simp add: permission_columns_def option.map_comp comp_def)
  have "permission_checks p \<and> permission_columns p = p \<and> pm_Effect p = ''allow''" if "p \<in> set (grant_spec g now i ps)" for p
  proof -
    from that consider q where "q \<in> set ps" "p \<in> {q, revived g now q, retired now q}"
      | "p = permission_columns (new_permission g i now)" "\<not> (\<exists>p \<in> set ps. same_grant g p)"
      unfolding grant_spec_def by (auto split: if_splits)
    then show ?thesis
    proof cases
      case (1 q)
      then have "permission_checks q" "permission_columns q = q" "pm_Effect q = ''allow''" using inv by (auto simp: perms_inv_def)
      moreover have "pm_Effect (revived g now q) = pm_Effect q" "pm_Effect (retired now q) = pm_Effect q"
        by (simp_all add: revived_def retired_def)
      ultimately show ?thesis using 1(2) columns_updates(1) [of q g now] columns_updates(2) [of q now] by auto
    next
      case 2
      moreover have "pm_Effect (permission_columns (new_permission g i now)) = ''allow''"
        by (simp add: new_permission_def permission_columns_def)
      ultimately show ?thesis using fresh again by simp
    qed
  qed
  with dist show ?thesis unfolding perms_inv_def by blast
qed

section \<open>Invalidation\<close>

definition redis_ok :: "policy_lib \<Rightarrow> bool" where
  "redis_ok L \<longleftrightarrow> (\<forall>k. redis_fault L k = None)"

definition cache_shrinks :: "'x policy_db_scheme \<Rightarrow> 'x policy_db_scheme \<Rightarrow> bool" where
  "cache_shrinks d d' \<longleftrightarrow> (\<exists>kv. d' = d\<lparr>redis_kv := kv\<rparr> \<and> kv \<subseteq>\<^sub>m redis_kv d)"

lemma cache_shrinks_refl [simp]: "cache_shrinks d d"
  unfolding cache_shrinks_def by (rule exI [of _ "redis_kv d"]) simp

lemma cache_shrinks_del: "cache_shrinks d d' \<Longrightarrow> cache_shrinks d (d'\<lparr>redis_kv := (\<lambda>k. if k \<in> K then None else redis_kv d' k)\<rparr>)"
  unfolding cache_shrinks_def
  by (elim exE conjE, rule exI [of _ "\<lambda>k. if k \<in> K then None else redis_kv d' k"]) (auto simp: map_le_def dom_def)

lemma cache_shrinksD:
  assumes "cache_shrinks d d'"
  shows "permissions d' = permissions d" "group_members d' = group_members d" "workspace_members d' = workspace_members d"
    "accounts d' = accounts d" "outbox d' = outbox d" "redis_kv d' \<subseteq>\<^sub>m redis_kv d"
  using assms by (auto simp: cache_shrinks_def)

lemma keeps_shrinks_Del: "keeps env (\<lambda>d. cache_shrinks d0 d \<and> (b \<longrightarrow> redis_kv d k0 = None)) (Cache_Del L ks) (\<lambda>_. True)"
  unfolding Cache_Del_def by (intro keeps_if keeps_tret keeps_redis) (auto intro: cache_shrinks_del)

lemma keeps_shrinks_group:
  "keeps env (\<lambda>d. cache_shrinks d0 d \<and> (b \<longrightarrow> redis_kv d k0 = None)) (InvalidateResourcesForGroup L tid gid) (\<lambda>_. True)"
  unfolding InvalidateResourcesForGroup_def Let_def
  by (intro keeps_with_env keeps_tbind [where Q = "\<lambda>_. True"] keeps_redis keeps_if keeps_tret keeps_shrinks_Del) auto

lemma keeps_invalidate:
  "keeps env (\<lambda>d. cache_shrinks d0 d \<and> (b \<longrightarrow> redis_kv d k0 = None)) (invalidateForPermission L p) (\<lambda>_. True)"
  unfolding invalidateForPermission_def InvalidateResource_def
  by (rule keeps_tbind [OF keeps_tignore [OF keeps_with_env [OF keeps_shrinks_Del]]])
     (auto intro: keeps_tret keeps_tignore [OF keeps_shrinks_group])

lemma invalidate_runs: "invalidateForPermission L p env w = (r, w') \<Longrightarrow> r = Inr ()"
  by (auto simp: invalidateForPermission_def tbind_def tignore_def tret_def split: if_splits prod.splits)

lemma invalidate_drops:
  assumes "invalidateForPermission L p env w = (r, w')" "redis_ok L"
  shows "redis_kv (wdb w') (ResourcePermsKey env (pm_TenantID p) (pm_ResourceType p) (pm_ResourceID p)) = None"
proof -
  let ?k = "ResourcePermsKey env (pm_TenantID p) (pm_ResourceType p) (pm_ResourceID p)"
  obtain w1 where w1: "tignore (InvalidateResource L (pm_TenantID p) (pm_ResourceType p) (pm_ResourceID p)) env w = (Inr (), w1)"
    by (simp add: tignore_def)
  then have drop: "redis_kv (wdb w1) ?k = None"
    using assms(2) by (auto simp: tignore_def InvalidateResource_def Cache_Del_def redis_def redis_ok_def Let_def)
  have rest: "(if pm_PrincipalType p = ''group'' then tignore (InvalidateResourcesForGroup L (pm_TenantID p) (pm_PrincipalID p)) else tret ()) env w1 = (r, w')"
    using assms(1) w1 by (simp add: invalidateForPermission_def tbind_def)
  have "keeps env (\<lambda>d. cache_shrinks (wdb w1) d \<and> (True \<longrightarrow> redis_kv d ?k = None))
      (if pm_PrincipalType p = ''group'' then tignore (InvalidateResourcesForGroup L (pm_TenantID p) (pm_PrincipalID p)) else tret ()) (\<lambda>_. True)"
    by (intro keeps_if keeps_tret keeps_tignore [OF keeps_shrinks_group]) auto
  from keepsD [OF this _ rest] drop show ?thesis by simp
qed

lemma invalidate_all_runs: "tfor ps (invalidateForPermission L) env w = (r, w') \<Longrightarrow> r = Inr ()"
proof (induction ps arbitrary: w)
  case (Cons p ps)
  obtain x w1 where "invalidateForPermission L p env w = (x, w1)" by fastforce
  with Cons invalidate_runs [OF this] show ?case by (simp add: tbind_def)
qed (simp add: tret_def)

section \<open>\<open>Grant\<close> and \<open>Revoke\<close>\<close>

text \<open>Both report an error exactly when their transaction failed, and then nothing has changed.\<close>

lemma after_tx:
  assumes "tbind (WithTenantTx tid f) g env w = (Inl e, w')" "\<And>a w1 r w2. g a env w1 = (r, w2) \<Longrightarrow> \<exists>x. r = Inr x"
  shows "wdb w' = wdb w"
proof -
  obtain r w1 where r: "WithTenantTx tid f env w = (r, w1)" by fastforce
  show ?thesis
  proof (cases r)
    case (Inl x)
    with r assms(1) have "w' = w1" by (simp add: tbind_def)
    with Inl r show ?thesis by (simp add: WithTenantTx_Inl)
  next
    case (Inr a)
    with r assms(1) have "g a env w1 = (Inl e, w')" by (simp add: tbind_def)
    from assms(2) [OF this] show ?thesis by simp
  qed
qed

lemma Grant_Inl: "Grant L g env w = (Inl e, w') \<Longrightarrow> wdb w' = wdb w"
proof -
  assume run: "Grant L g env w = (Inl e, w')"
  have runs: "\<exists>x. r = Inr x" if "(case a of (granted, gone) \<Rightarrow> tbind (invalidateForPermission L granted) (\<lambda>_.
          tbind (tfor gone (invalidateForPermission L)) (\<lambda>_. tret granted))) env w1 = (r, w2)" for a w1 r w2
    using that by (auto simp: tbind_def tret_def split: prod.splits sum.splits dest!: invalidate_runs invalidate_all_runs)
  show ?thesis
  proof (cases "validateGrant g")
    case None
    with run have "tbind (WithTenantTx (gi_TenantID g) (grant_tx g)) (\<lambda>(granted, gone). tbind (invalidateForPermission L granted) (\<lambda>_.
        tbind (tfor gone (invalidateForPermission L)) (\<lambda>_. tret granted))) env w = (Inl e, w')" by (simp add: Grant_def)
    from after_tx [OF this] runs show ?thesis by blast
  next
    case (Some x)
    with run show ?thesis by (simp add: Grant_def tfail_def)
  qed
qed

lemma Grant_Inr:
  assumes run: "Grant L g env w = (Inr p, w')" and inv: "perms_inv (permissions (wdb w))"
  obtains i d where "validateGrant g = None" "permissions d = grant_spec g (go_now env) i (permissions (wdb w))"
    "off_outbox ((wdb w)\<lparr>permissions := permissions d\<rparr>) d" "cache_shrinks d (wdb w')" "same_grant g p"
    "redis_ok L \<Longrightarrow> redis_kv (wdb w') (ResourcePermsKey env (gi_TenantID g) (gi_ResourceType g) (gi_ResourceID g)) = None"
    "perms_inv (permissions d)"
    "(\<exists>p \<in> set (permissions (wdb w)). same_grant g p \<and> isActive p (go_now env)) \<Longrightarrow> filter (replaced g (go_now env)) (permissions (wdb w)) = [] \<Longrightarrow> d = wdb w"
proof -
  from run obtain granted gone w1 w2 w3 where val: "validateGrant g = None"
    and tx: "WithTenantTx (gi_TenantID g) (grant_tx g) env w = (Inr (granted, gone), w1)"
    and i1: "invalidateForPermission L granted env w1 = (Inr (), w2)" and i2: "tfor gone (invalidateForPermission L) env w2 = (Inr (), w')"
    and p: "p = granted"
    unfolding Grant_def by (auto simp: tbind_Inr split: option.splits)
  from tx obtain wa wb where wa: "wdb wa = wdb w" "grant_tx g (env\<lparr>cur_tenant := gi_TenantID g\<rparr>) wa = (Inr (granted, gone), wb)" "wdb w1 = wdb wb"
    by (auto elim: WithTenantTx_InrE)
  obtain i where i: "permissions (wdb wb) = grant_spec g (go_now env) i (permissions (wdb w))"
    "off_outbox ((wdb w)\<lparr>permissions := permissions (wdb wb)\<rparr>) (wdb wb)" "same_grant g granted"
    "\<not> (\<exists>p \<in> set (permissions (wdb w)). same_grant g p) \<Longrightarrow> (gi_TenantID g, i) \<notin> pkey ` set (permissions (wdb w)) \<and> permission_checks (new_permission g i (go_now env))"
    "(\<exists>p \<in> set (permissions (wdb w)). same_grant g p \<and> isActive p (go_now env)) \<Longrightarrow> filter (replaced g (go_now env)) (permissions (wdb w)) = [] \<Longrightarrow> wdb wb = wdb w"
    by (rule grant_tx_Inr [OF wa(2)]) (use inv in \<open>simp_all add: wa(1)\<close>)
  let ?k = "ResourcePermsKey env (gi_TenantID g) (gi_ResourceType g) (gi_ResourceID g)"
  have k: "ResourcePermsKey env (pm_TenantID granted) (pm_ResourceType granted) (pm_ResourceID granted) = ?k"
    using i(3) by (auto simp: same_grant_slot slot_def)
  have s1: "cache_shrinks (wdb w1) (wdb w2) \<and> (False \<longrightarrow> redis_kv (wdb w2) ?k = None)"
    by (rule keepsD [OF keeps_invalidate _ i1]) simp
  have k2: "redis_ok L \<longrightarrow> redis_kv (wdb w2) ?k = None" using invalidate_drops [OF i1] k by simp
  have s2: "cache_shrinks (wdb w1) (wdb w') \<and> (redis_ok L \<longrightarrow> redis_kv (wdb w') ?k = None)"
    by (rule keepsD [OF keeps_tfor [OF keeps_invalidate] _ i2]) (use s1 k2 in auto)
  show thesis
    by (rule that [of "wdb wb" i]) (use val i s2 p wa(3) grant_spec_inv [OF inv i(4)] in auto)
qed

lemma Revoke_Inl: "Revoke L tid i actor env w = (Inl e, w') \<Longrightarrow> wdb w' = wdb w"
  unfolding Revoke_def with_env_app
  by (auto simp: tfail_def split: if_splits elim!: after_tx dest!: invalidate_runs)

lemma Revoke_Inr:
  assumes run: "Revoke L tid i actor env w = (Inr u, w')" and inv: "distinct (map pkey (permissions (wdb w)))"
  obtains d p where "p \<in> set (permissions (wdb w))" "revocable tid i (go_now env) p"
    "permissions d = revoke_spec tid i (go_now env) (permissions (wdb w))"
    "off_outbox ((wdb w)\<lparr>permissions := permissions d\<rparr>) d" "cache_shrinks d (wdb w')"
    "redis_ok L \<Longrightarrow> redis_kv (wdb w') (ResourcePermsKey env tid (pm_ResourceType p) (pm_ResourceID p)) = None"
proof -
  from run obtain r w1 where tx: "WithTenantTx tid (tbind (Permissions_Revoke tid i (go_now env)) (\<lambda>p.
            tbind (policy_emit tid i ''dms.permission.revoked.v1'' (permission_payload env (p\<lparr>pm_ID := i\<rparr>) ''revoked_by'' actor)) (\<lambda>_. tret p))) env w = (Inr r, w1)"
    and inva: "invalidateForPermission L r env w1 = (Inr u, w')"
    by (auto simp: Revoke_def tbind_Inr split: if_splits)
  from tx obtain wa wb wc where wa: "wdb wa = wdb w" and rev: "Permissions_Revoke tid i (go_now env) (env\<lparr>cur_tenant := tid\<rparr>) wa = (Inr r, wb)"
    and em: "policy_emit tid i ''dms.permission.revoked.v1'' (permission_payload env (r\<lparr>pm_ID := i\<rparr>) ''revoked_by'' actor) (env\<lparr>cur_tenant := tid\<rparr>) wb = (Inr (), wc)"
    and w1: "wdb w1 = wdb wc"
    by (auto elim!: WithTenantTx_InrE simp: tbind_Inr)
  obtain p where p: "p \<in> set (permissions (wdb w))" "revocable tid i (go_now env) p" "r = retired (go_now env) p"
    and db: "wdb wb = (wdb w)\<lparr>permissions := revoke_spec tid i (go_now env) (permissions (wdb w))\<rparr>"
    using Permissions_Revoke_Inr [OF rev] inv by (auto simp: wa)
  have off: "off_outbox (wdb wb) (wdb wc)" by (rule policy_emit_frame [OF em])
  have "cache_shrinks (wdb wc) (wdb w') \<and> (False \<longrightarrow> redis_kv (wdb w') k = None)" for k
    by (rule keepsD [OF keeps_invalidate _ inva]) (simp add: w1)
  moreover have "redis_ok L \<Longrightarrow> redis_kv (wdb w') (ResourcePermsKey env tid (pm_ResourceType p) (pm_ResourceID p)) = None"
    using invalidate_drops [OF inva] p by (simp add: retired_def revocable_def has_key_def)
  ultimately show thesis
    using that [of p "wdb wc"] p off off_outboxD(1) [OF off] db by auto
qed

end
