(* ===== verification/Policy_System.thy ===== *)
theory Policy_System
  imports Policy_Decision Policy_Grants
begin

text \<open>
  The policy service in operation: requests are served one after the other, at instants that do not go back,
  while other services change memberships and Redis may lose entries. \<open>py_seen\<close> is a ghost record of the
  grants and memberships that have been current, and when; it lets a theorem say how old the evidence of a
  decision can be.
\<close>

record policy_system =
  py_now :: time
  py_db :: policy_db
  py_seen :: "(time \<times> permission list \<times> (uuid \<times> uuid \<times> uuid) list \<times> workspace_member list) set"

definition snapshot :: "time \<Rightarrow> 'x policy_db_scheme \<Rightarrow> time \<times> permission list \<times> (uuid \<times> uuid \<times> uuid) list \<times> workspace_member list" where
  "snapshot t d = (t, permissions d, group_members d, workspace_members d)"

datatype policy_op =
    OpCheck uuid check_input
  | OpBatch "nat list" "(uuid \<times> check_input) list"
  | OpMine uuid uuid
  | OpEvent "json option"
  | OpGrant grant_input
  | OpRevoke uuid uuid uuid

fun run_policy_op :: "policy_lib \<Rightarrow> policy_op \<Rightarrow> ('x policy_db_scheme, unit) m" where
  "run_policy_op L (OpCheck tid i) = tbind (Check L tid i) (\<lambda>_. tret ())"
| "run_policy_op L (OpBatch schedule inputs) = tbind (BatchCheck L schedule inputs) (\<lambda>_. tret ())"
| "run_policy_op L (OpMine tid uid) = tbind (ListMine L tid uid) (\<lambda>_. tret ())"
| "run_policy_op L (OpEvent raw) = tbind (handle_permission_event L raw) (\<lambda>_. tret ())"
| "run_policy_op L (OpGrant g) = tbind (Grant L g) (\<lambda>_. tret ())"
| "run_policy_op L (OpRevoke tid i actor) = Revoke L tid i actor"

text \<open>All replicas write identifiers and instants the same way.\<close>

definition same_formats :: "env \<Rightarrow> env \<Rightarrow> bool" where
  "same_formats env0 env \<longleftrightarrow> uuid_String env = uuid_String env0 \<and> uuid_Parse env = uuid_Parse env0 \<and> local_offset env = local_offset env0"

inductive policy_step :: "(policy_lib \<Rightarrow> bool) \<Rightarrow> env \<Rightarrow> policy_system \<Rightarrow> policy_system \<Rightarrow> bool" for LS env0 where
  serve: "LS L \<Longrightarrow> same_formats env0 env \<Longrightarrow> py_now s \<le> go_now env \<Longrightarrow> wdb w = py_db s \<Longrightarrow> run_policy_op L op env w = (r, w') \<Longrightarrow>
     policy_step LS env0 s \<lparr>py_now = go_now env, py_db = wdb w',
       py_seen = py_seen s \<union> {snapshot (go_now env) (py_db s), snapshot (go_now env) (wdb w')}\<rparr>"
| elsewhere: "py_now s \<le> t \<Longrightarrow> permissions d = permissions (py_db s) \<Longrightarrow> redis_kv d \<subseteq>\<^sub>m redis_kv (py_db s) \<Longrightarrow>
     policy_step LS env0 s \<lparr>py_now = t, py_db = d, py_seen = py_seen s \<union> {snapshot t (py_db s), snapshot t d}\<rparr>"

definition policy_start :: "policy_system \<Rightarrow> bool" where
  "policy_start s \<longleftrightarrow> permissions (py_db s) = [] \<and> redis_kv (py_db s) = Map.empty \<and> py_seen s = {snapshot (py_now s) (py_db s)}"

section \<open>Sources\<close>

definition seen_members :: "policy_system \<Rightarrow> member_source" where
  "seen_members s t gm wms \<longleftrightarrow> (\<exists>tb. (t, tb, gm, wms) \<in> py_seen s)"

text \<open>Grants that have been in the table, and grants that are.\<close>

definition seen_perms :: "policy_system \<Rightarrow> perm_source" where
  "seen_perms s tid kind i t tb \<longleftrightarrow> (\<exists>gm wms. (t, tb, gm, wms) \<in> py_seen s)"

definition current_perms :: "policy_system \<Rightarrow> perm_source" where
  "current_perms s tid kind i t tb \<longleftrightarrow> t \<le> py_now s
     \<and> filter (on_resource tid kind i) tb = filter (on_resource tid kind i) (permissions (py_db s))
     \<and> (\<forall>p \<in> set tb. on_resource tid kind i p \<longrightarrow> pm_ValidFrom p \<le> pg_time t)"

definition seen_rows :: "policy_system \<Rightarrow> permission set" where
  "seen_rows s = (\<Union>(t, tb, gm, wms) \<in> py_seen s. set tb)"

definition policy_base :: "policy_system \<Rightarrow> bool" where
  "policy_base s \<longleftrightarrow> perms_inv (permissions (py_db s)) \<and> (\<forall>p \<in> set (permissions (py_db s)). pm_ValidFrom p \<le> py_now s)
     \<and> snapshot (py_now s) (py_db s) \<in> py_seen s \<and> (\<forall>x \<in> py_seen s. fst x \<le> py_now s)"

definition policy_inv :: "env \<Rightarrow> (policy_system \<Rightarrow> perm_source) \<Rightarrow> policy_system \<Rightarrow> bool" where
  "policy_inv env0 PS s \<longleftrightarrow> uuid_laws env0 \<and> policy_base s \<and> cache_ok env0 (PS s) (seen_members s) (py_db s)"

lemma docs_formats:
  assumes "same_formats env0 env"
  shows "ResourcePermsKey env = ResourcePermsKey env0" "UserGroupsKey env = UserGroupsKey env0" "UserWorkspacesKey env = UserWorkspacesKey env0"
    "docs_of env = docs_of env0" "groups_of env = groups_of env0" "workspaces_of env = workspaces_of env0"
  using assms unfolding same_formats_def
  by (intro ext, simp add: ResourcePermsKey_def UserGroupsKey_def UserWorkspacesKey_def docs_of_def groups_of_def workspaces_of_def
      permsToDocs_def workspace_docs_def split: option.split)+

lemma cache_ok_formats: "same_formats env0 env \<Longrightarrow> cache_ok env PP MM d = cache_ok env0 PP MM d"
  by (simp add: cache_ok_def cache_defs docs_formats)

lemma uuid_laws_formats: "same_formats env0 env \<Longrightarrow> uuid_laws env = uuid_laws env0"
  by (simp add: uuid_laws_def same_formats_def)

text \<open>Entries that survive a step stay justified when their sources do.\<close>

lemma cache_ok_transfer:
  assumes "cache_ok env PP MM d" "redis_kv d' \<subseteq>\<^sub>m redis_kv d"
    and "\<And>tid kind i t tb. redis_kv d' (ResourcePermsKey env tid kind i) \<noteq> None \<Longrightarrow> PP tid kind i t tb \<Longrightarrow> PP' tid kind i t tb"
    and "\<And>t gm wms. MM t gm wms \<Longrightarrow> MM' t gm wms"
  shows "cache_ok env PP' MM' d'"
proof -
  have old: "redis_kv d' k = Some x \<Longrightarrow> redis_kv d k = Some x" for k x
    using assms(2) by (auto simp: map_le_def dom_def)
  have "perms_cached env PP' d'"
    unfolding perms_cached_def
  proof (intro allI impI)
    fix tid kind i docs e
    assume now: "redis_kv d' (ResourcePermsKey env tid kind i) = Some (CPerms docs, e)"
    from assms(1) old [OF this] obtain t tb where "e = t + TTL" "PP tid kind i t tb" "docs = docs_of env tb tid kind i t"
      unfolding cache_ok_def perms_cached_def by blast
    with assms(3) [of tid kind i t tb] now show "\<exists>t tb. e = t + TTL \<and> PP' tid kind i t tb \<and> docs = docs_of env tb tid kind i t" by auto
  qed
  moreover have "groups_cached env MM' d'" "workspaces_cached env MM' d'"
    using assms(1,4) old unfolding cache_ok_def groups_cached_def workspaces_cached_def by blast+
  ultimately show ?thesis unfolding cache_ok_def by blast
qed

section \<open>Operations that only read\<close>

lemma keeps_check_or_deny:
  "admits env PP MM tb gm wms \<Longrightarrow> keeps env (view_ok env PP MM tb gm wms) (check_or_deny L tid i) (\<lambda>_. True)"
  unfolding check_or_deny_def by (rule keeps_tor [OF keeps_weaken [OF keeps_Check]]) auto

lemma keeps_run_checks:
  "admits env PP MM tb gm wms \<Longrightarrow> keeps env (view_ok env PP MM tb gm wms) (run_checks L inputs schedule out) (\<lambda>_. True)"
  by (induction schedule arbitrary: out) (auto intro: keeps_tret keeps_tbind [OF keeps_check_or_deny])

lemma keeps_ListByPrincipal: "keeps env (view_ok env PP MM tb gm wms) (ListByPrincipal tid pt pid) (\<lambda>_. True)"
  unfolding ListByPrincipal_def Permissions_ListByPrincipal_def by (intro keeps_with_env keeps_tx_read) simp

lemma keeps_ListMine:
  assumes "admits env PP MM tb gm wms"
  shows "keeps env (view_ok env PP MM tb gm wms) (ListMine L tid uid) (\<lambda>_. True)"
  unfolding ListMine_def
  by (rule keeps_with_env, rule keeps_tbind [OF keeps_ListByPrincipal], rule keeps_tbind [OF keeps_loadUserGroups [OF assms]],
      rule keeps_tbind [OF keeps_tmap [where Q = "\<lambda>_. True"]])
     (auto split: option.split intro: keeps_tret keeps_ListByPrincipal)

lemma keeps_view_group: "keeps env (view_ok env PP MM tb gm wms) (InvalidateResourcesForGroup L tid gid) (\<lambda>_. True)"
  unfolding InvalidateResourcesForGroup_def Let_def
  by (intro keeps_with_env keeps_tbind [where Q = "\<lambda>_. True"] keeps_redis keeps_if keeps_tret keeps_Del) auto

lemma keeps_invalidate_group: "keeps env (view_ok env PP MM tb gm wms) (invalidate_group L tid s) (\<lambda>_. True)"
  unfolding invalidate_group_def
  by (rule keeps_with_env) (auto split: option.split intro: keeps_tret keeps_tignore [OF keeps_view_group])

lemma keeps_event: "keeps env (view_ok env PP MM tb gm wms) (handle_permission_event L raw) (\<lambda>_. True)"
proof -
  have res: "keeps env (view_ok env PP MM tb gm wms) (tignore (InvalidateResource L tid ty rid)) (\<lambda>_. True)" for tid ty rid
    unfolding InvalidateResource_def by (rule keeps_tignore [OF keeps_with_env [OF keeps_Del]])
  show ?thesis
    unfolding handle_permission_event_def
    by (rule keeps_with_env)
       (auto split: option.split intro!: keeps_tret keeps_tbind [OF res] keeps_tbind [OF keeps_invalidate_group]
          keeps_tbind [OF keeps_tfor] keeps_invalidate_group)
qed

fun reads_only :: "policy_op \<Rightarrow> bool" where
  "reads_only (OpGrant g) = False"
| "reads_only (OpRevoke tid i actor) = False"
| "reads_only _ = True"

lemma keeps_read_op:
  assumes "admits env PP MM tb gm wms" "reads_only op"
  shows "keeps env (view_ok env PP MM tb gm wms) (run_policy_op L op) (\<lambda>_. True)"
  using assms
  by (cases op)
     (auto simp: BatchCheck_def intro!: keeps_tret keeps_tfail keeps_tbind [OF keeps_Check] keeps_tbind [OF keeps_run_checks] keeps_tbind [OF keeps_ListMine] keeps_tbind [OF keeps_event])

section \<open>What a step does to the tables\<close>

lemma filter_map_fixed:
  assumes "\<And>x. x \<in> set xs \<Longrightarrow> P (f x) = P x" "\<And>x. x \<in> set xs \<Longrightarrow> P x \<Longrightarrow> f x = x"
  shows "filter P (map f xs) = filter P xs"
  using assms by (induction xs) auto

lemma grant_spec_other:
  assumes "(tid, kind, i) \<noteq> (gi_TenantID g, gi_ResourceType g, gi_ResourceID g)"
  shows "filter (on_resource tid kind i) (grant_spec g now n ps) = filter (on_resource tid kind i) ps"
proof -
  have "\<not> on_resource tid kind i (permission_columns (new_permission g n now))"
    using assms by (auto simp: on_resource_def new_permission_def permission_columns_def)
  moreover have "filter (on_resource tid kind i) (map (\<lambda>p. if same_grant g p \<and> \<not> isActive p now then revived g now p
              else if replaced g now p then retired now p else p) ps) = filter (on_resource tid kind i) ps"
    using assms by (intro filter_map_fixed)
      (auto simp: on_resource_def revived_def retired_def same_grant_def replaced_def is_target_def)
  ultimately show ?thesis by (simp add: grant_spec_def)
qed

lemma revoke_spec_other:
  assumes "distinct (map pkey ps)" "p \<in> set ps" "has_key t n p" "(tid, kind, i) \<noteq> (t, pm_ResourceType p, pm_ResourceID p)"
  shows "filter (on_resource tid kind i) (revoke_spec t n now ps) = filter (on_resource tid kind i) ps"
proof -
  have off: "\<not> on_resource tid kind i q" if "q \<in> set ps" "has_key t n q" for q
  proof -
    have "q = p" using key_unique [OF assms(1) that(1) assms(2)] that(2) assms(3) by (simp add: has_key_iff)
    with assms(3,4) show ?thesis by (auto simp: on_resource_def has_key_def)
  qed
  have same: "on_resource tid kind i (retired now q) = on_resource tid kind i q" for q
    by (simp add: on_resource_def retired_def)
  show ?thesis
    unfolding revoke_spec_def by (rule filter_map_fixed) (auto simp: same dest: off)
qed

lemma grant_spec_started:
  assumes "\<forall>p \<in> set ps. pm_ValidFrom p \<le> now" "p \<in> set (grant_spec g now i ps)"
  shows "pm_ValidFrom p \<le> now"
proof -
  from assms(2) consider q where "q \<in> set ps" "p \<in> {q, revived g now q, retired now q}" | "p = permission_columns (new_permission g i now)"
    unfolding grant_spec_def by (auto split: if_splits)
  then show ?thesis
  proof cases
    case 1
    then show ?thesis using assms(1) pg_time_le [of now] by (auto simp: revived_def retired_def)
  next
    case 2
    then show ?thesis using pg_time_le [of now] by (simp add: permission_columns_def new_permission_def)
  qed
qed

text \<open>A run of one operation: its effect on memberships, the table and the cache.\<close>

lemma run_op_effect:
  assumes run: "run_policy_op L op env w = (r, w')" and inv: "perms_inv (permissions (wdb w))"
    and fromnow: "\<forall>p \<in> set (permissions (wdb w)). pm_ValidFrom p \<le> go_now env" and wr: "\<not> reads_only op"
  shows "perms_inv (permissions (wdb w')) \<and> (\<forall>p \<in> set (permissions (wdb w')). pm_ValidFrom p \<le> go_now env)
     \<and> redis_kv (wdb w') \<subseteq>\<^sub>m redis_kv (wdb w) \<and> group_members (wdb w') = group_members (wdb w) \<and> workspace_members (wdb w') = workspace_members (wdb w)
     \<and> (redis_ok L \<longrightarrow> (\<forall>tid kind i. filter (on_resource tid kind i) (permissions (wdb w')) = filter (on_resource tid kind i) (permissions (wdb w))
          \<or> redis_kv (wdb w') (ResourcePermsKey env tid kind i) = None))"
proof (cases op)
  case (OpGrant g)
  obtain x where x: "Grant L g env w = (x, w')"
    using run OpGrant by (auto simp: tbind_def tret_def split: prod.splits sum.splits)
  show ?thesis
  proof (cases x)
    case (Inl e)
    with x have "wdb w' = wdb w" by (simp add: Grant_Inl)
    with inv fromnow show ?thesis by simp
  next
    case (Inr p)
    then obtain i d where d: "permissions d = grant_spec g (go_now env) i (permissions (wdb w))"
      "off_outbox ((wdb w)\<lparr>permissions := permissions d\<rparr>) d" "cache_shrinks d (wdb w')"
      "redis_ok L \<Longrightarrow> redis_kv (wdb w') (ResourcePermsKey env (gi_TenantID g) (gi_ResourceType g) (gi_ResourceID g)) = None"
      "perms_inv (permissions d)"
      using Grant_Inr [OF x [unfolded Inr] inv] by metis
    note tables = cache_shrinksD [OF d(3)] off_outboxD [OF d(2)]
    have "filter (on_resource tid kind j) (permissions (wdb w')) = filter (on_resource tid kind j) (permissions (wdb w))
        \<or> redis_kv (wdb w') (ResourcePermsKey env tid kind j) = None" if "redis_ok L" for tid kind j
      using d(4) [OF that] grant_spec_other [of tid kind j g "go_now env" i] tables(1) d(1)
      by (cases "(tid, kind, j) = (gi_TenantID g, gi_ResourceType g, gi_ResourceID g)") auto
    then show ?thesis using tables d grant_spec_started [OF fromnow] by auto
  qed
next
  case (OpRevoke tid n actor)
  with run have x: "Revoke L tid n actor env w = (r, w')" by simp
  show ?thesis
  proof (cases r)
    case (Inl e)
    with x have "wdb w' = wdb w" by (simp add: Revoke_Inl)
    with inv fromnow show ?thesis by simp
  next
    case (Inr u)
    have dist: "distinct (map pkey (permissions (wdb w)))" using inv by (simp add: perms_inv_def)
    obtain d p where d: "p \<in> set (permissions (wdb w))" "revocable tid n (go_now env) p"
      "permissions d = revoke_spec tid n (go_now env) (permissions (wdb w))"
      "off_outbox ((wdb w)\<lparr>permissions := permissions d\<rparr>) d" "cache_shrinks d (wdb w')"
      "redis_ok L \<Longrightarrow> redis_kv (wdb w') (ResourcePermsKey env tid (pm_ResourceType p) (pm_ResourceID p)) = None"
      using Revoke_Inr [OF x [unfolded Inr] dist] by metis
    note tables = cache_shrinksD [OF d(5)] off_outboxD [OF d(4)]
    have "filter (on_resource t kind j) (permissions (wdb w')) = filter (on_resource t kind j) (permissions (wdb w))
        \<or> redis_kv (wdb w') (ResourcePermsKey env t kind j) = None" if "redis_ok L" for t kind j
      using d(6) [OF that] revoke_spec_other [OF dist d(1), of tid n t kind j] d(2,3) tables(1)
      by (cases "(t, kind, j) = (tid, pm_ResourceType p, pm_ResourceID p)") (auto simp: revocable_def)
    moreover have "\<forall>q \<in> set (permissions (wdb w')). pm_ValidFrom q \<le> go_now env"
      using fromnow tables(1) d(3) by (auto simp: revoke_spec_def retired_def)
    ultimately show ?thesis using tables d revoke_spec_inv [OF inv] by auto
  qed
qed (use wr in auto)

text \<open>An operation that only reads leaves the tables as they are, and serving keeps what \<open>policy_base\<close> says.\<close>

lemma cache_ok_mono:
  "cache_ok env PP MM d \<Longrightarrow> (\<And>tid kind i t tb. PP tid kind i t tb \<Longrightarrow> PP' tid kind i t tb) \<Longrightarrow> (\<And>t gm wms. MM t gm wms \<Longrightarrow> MM' t gm wms)
     \<Longrightarrow> cache_ok env PP' MM' d"
  by (rule cache_ok_transfer [where PP = PP and MM = MM and d = d]) auto

lemma read_op_tables:
  assumes "run_policy_op L op env w = (r, w')" "reads_only op" "uuid_laws env" "cache_ok env PP MM (wdb w)"
  shows "permissions (wdb w') = permissions (wdb w)"
proof -
  let ?V = "view_ok env (\<lambda>_ _ _ _ _. True) (\<lambda>_ _ _. True) (permissions (wdb w)) (group_members (wdb w)) (workspace_members (wdb w))"
  have "?V (wdb w)" using cache_ok_mono [OF assms(4)] by (simp add: view_ok_def)
  from keepsD [OF keeps_read_op [OF _ assms(2)] this assms(1)] assms(3) show ?thesis by (simp add: admits_def view_ok_def)
qed

lemma policy_baseI:
  assumes "perms_inv (permissions d)" "\<And>p. p \<in> set (permissions d) \<Longrightarrow> pm_ValidFrom p \<le> t" "py_now s \<le> t" "policy_base s"
  shows "policy_base \<lparr>py_now = t, py_db = d, py_seen = py_seen s \<union> {snapshot t (py_db s), snapshot t d}\<rparr>"
  using assms unfolding policy_base_def by (auto simp: snapshot_def intro: order_trans)

lemma policy_base_step:
  assumes "policy_step LS env0 s s'" "policy_base s" "uuid_laws env0" "cache_ok env0 PP MM (py_db s)"
  shows "policy_base s'"
  using assms
proof (cases rule: policy_step.cases)
  case (serve L env w op r w')
  have base: "perms_inv (permissions (wdb w))" "\<forall>p \<in> set (permissions (wdb w)). pm_ValidFrom p \<le> go_now env"
    using assms(2) serve(4,5) by (auto simp: policy_base_def intro: order_trans)
  have "perms_inv (permissions (wdb w')) \<and> (\<forall>p \<in> set (permissions (wdb w')). pm_ValidFrom p \<le> go_now env)"
  proof (cases "reads_only op")
    case True
    have "uuid_laws env" "cache_ok env PP MM (wdb w)"
      using assms(3,4) serve(3,5) by (simp_all add: uuid_laws_formats cache_ok_formats)
    from read_op_tables [OF serve(6) True this] base show ?thesis by simp
  next
    case False
    with run_op_effect [OF serve(6) base] show ?thesis by blast
  qed
  then show ?thesis unfolding serve(1) by (intro policy_baseI) (use assms(2) serve in auto)
next
  case (elsewhere t d)
  have "perms_inv (permissions d)" "\<forall>p \<in> set (permissions d). pm_ValidFrom p \<le> t"
    using assms(2) elsewhere by (auto simp: policy_base_def intro: order_trans)
  then show ?thesis unfolding elsewhere(1) using policy_baseI [of d t s] assms(2) elsewhere(2) by auto
qed

section \<open>Histories of the table of grants\<close>

text \<open>
  A reading of the system's history that says which tables a cache entry may come from: the present one,
  whatever was admitted while the grants on the resource stay as they are, and, where invalidation may fail,
  whatever was admitted before.
\<close>

text \<open>A request that arrives in a reached state, with a library that reads every stored end of a grant back.\<close>

definition ends_read_back :: "policy_lib \<Rightarrow> env \<Rightarrow> policy_system \<Rightarrow> bool" where
  "ends_read_back L env s \<longleftrightarrow> (\<forall>(t, tb, gm, wms) \<in> py_seen s. \<forall>p \<in> set tb. \<forall>v \<in> ends p. reads_back L env v)"

definition arrives :: "(policy_lib \<Rightarrow> bool) \<Rightarrow> env \<Rightarrow> policy_system \<Rightarrow> policy_lib \<Rightarrow> env \<Rightarrow> policy_db world \<Rightarrow> bool" where
  "arrives LS env0 s L env w \<longleftrightarrow> uuid_laws env0 \<and> (\<exists>s0. policy_start s0 \<and> (policy_step LS env0)\<^sup>*\<^sup>* s0 s)
     \<and> same_formats env0 env \<and> go_now env = py_now s \<and> wdb w = py_db s \<and> ends_read_back L env s"

locale perm_history =
  fixes LS :: "policy_lib \<Rightarrow> bool"
    and env0 :: env
    and PS :: "policy_system \<Rightarrow> perm_source"
  assumes admitted_now: "policy_base s \<Longrightarrow> PS s tid kind i (py_now s) (permissions (py_db s))"
    and admitted_while: "py_now s \<le> py_now s' \<Longrightarrow> py_seen s \<subseteq> py_seen s' \<Longrightarrow>
      filter (on_resource tid kind i) (permissions (py_db s')) = filter (on_resource tid kind i) (permissions (py_db s)) \<Longrightarrow>
      PS s tid kind i t tb \<Longrightarrow> PS s' tid kind i t tb"
    and admitted_seen: "policy_base s \<Longrightarrow> PS s tid kind i t tb \<Longrightarrow> t \<le> py_now s \<and> (\<forall>p \<in> set tb. on_resource tid kind i p \<longrightarrow> p \<in> seen_rows s)"
    and admitted_stale: "LS L \<Longrightarrow> \<not> redis_ok L \<Longrightarrow> py_seen s \<subseteq> py_seen s' \<Longrightarrow> PS s tid kind i t tb \<Longrightarrow> PS s' tid kind i t tb"
begin

lemma admits_next:
  assumes "policy_base s'" "uuid_laws env" "go_now env = py_now s'" "permissions (py_db s') = tb" "snapshot (go_now env) d \<in> py_seen s'"
    "group_members d = gm" "workspace_members d = wms"
  shows "admits env (PS s') (seen_members s') tb gm wms"
  using assms admitted_now [OF assms(1)] by (auto simp: admits_def seen_members_def snapshot_def)

lemma members_mono: "py_seen s \<subseteq> py_seen s' \<Longrightarrow> seen_members s t gm wms \<Longrightarrow> seen_members s' t gm wms"
  by (auto simp: seen_members_def)

lemma serve_cache:
  assumes run: "run_policy_op L op env w = (r, w')" "LS L" and s: "wdb w = py_db s" "py_now s \<le> go_now env" "policy_base s"
    and laws: "uuid_laws env" "cache_ok env (PS s) (seen_members s) (py_db s)"
    and s': "py_now s' = go_now env" "py_db s' = wdb w'" "py_seen s' = py_seen s \<union> {snapshot (go_now env) (py_db s), snapshot (go_now env) (wdb w')}"
    and base: "policy_base s'"
  shows "cache_ok env (PS s') (seen_members s') (wdb w')"
proof (cases "reads_only op")
  case True
  have same: "permissions (wdb w') = permissions (wdb w)"
    using read_op_tables [OF run(1) True laws(1)] laws(2) s(1) by metis
  have "cache_ok env (PS s') (seen_members s') (wdb w)"
    unfolding s(1)
  proof (rule cache_ok_mono [OF laws(2)])
    show "PS s' tid kind i t tb" if "PS s tid kind i t tb" for tid kind i t tb
      using admitted_while [OF _ _ _ that, of s'] s s' same by auto
    show "seen_members s' t gm wms" if "seen_members s t gm wms" for t gm wms using members_mono [OF _ that] s'(3) by auto
  qed
  then have "view_ok env (PS s') (seen_members s') (permissions (wdb w)) (group_members (wdb w)) (workspace_members (wdb w)) (wdb w)"
    by (simp add: view_ok_def)
  moreover have "admits env (PS s') (seen_members s') (permissions (wdb w)) (group_members (wdb w)) (workspace_members (wdb w))"
    by (rule admits_next [OF base laws(1)]) (use s s' same in auto)
  ultimately show ?thesis using keepsD [OF keeps_read_op [OF _ True] _ run(1)] by (fastforce simp: view_ok_def)
next
  case False
  have "perms_inv (permissions (wdb w))" "\<forall>p \<in> set (permissions (wdb w)). pm_ValidFrom p \<le> go_now env"
    using s by (auto simp: policy_base_def intro: order_trans)
  note eff = run_op_effect [OF run(1) this False]
  show ?thesis
  proof (rule cache_ok_transfer [OF laws(2)])
    show "redis_kv (wdb w') \<subseteq>\<^sub>m redis_kv (py_db s)" using eff s(1) by simp
    show "PS s' tid kind i t tb" if "redis_kv (wdb w') (ResourcePermsKey env tid kind i) \<noteq> None" "PS s tid kind i t tb" for tid kind i t tb
    proof (cases "redis_ok L")
      case True
      with eff that(1) have "filter (on_resource tid kind i) (permissions (wdb w')) = filter (on_resource tid kind i) (permissions (wdb w))" by metis
      then show ?thesis by (intro admitted_while [OF _ _ _ that(2)]) (use s s' in auto)
    next
      case False
      then show ?thesis using admitted_stale [OF run(2) _ _ that(2), of s'] s'(3) by auto
    qed
    show "seen_members s' t gm wms" if "seen_members s t gm wms" for t gm wms using members_mono [OF _ that] s'(3) by auto
  qed
qed

lemma policy_inv_step: "policy_step LS env0 s s' \<Longrightarrow> policy_inv env0 PS s \<Longrightarrow> policy_inv env0 PS s'"
proof -
  assume step: "policy_step LS env0 s s'" and inv: "policy_inv env0 PS s"
  have base: "policy_base s'" by (rule policy_base_step [OF step]) (use inv in \<open>auto simp: policy_inv_def\<close>)
  have "cache_ok env0 (PS s') (seen_members s') (py_db s')"
    using step
  proof (cases rule: policy_step.cases)
    case (serve L env w op r w')
    have "cache_ok env (PS s') (seen_members s') (wdb w')"
      by (rule serve_cache [OF serve(6,2)]) (use inv serve base in \<open>auto simp: policy_inv_def uuid_laws_formats cache_ok_formats\<close>)
    then show ?thesis using serve by (simp add: cache_ok_formats)
  next
    case (elsewhere t d)
    have "cache_ok env0 (PS s) (seen_members s) (py_db s)" using inv by (simp add: policy_inv_def)
    then show ?thesis
    proof (rule cache_ok_transfer)
      show "redis_kv (py_db s') \<subseteq>\<^sub>m redis_kv (py_db s)" using elsewhere by simp
      show "PS s' tid kind i t' tb" if "PS s tid kind i t' tb" for tid kind i t' tb
        by (rule admitted_while [OF _ _ _ that]) (use elsewhere in auto)
      show "seen_members s' t' gm wms" if "seen_members s t' gm wms" for t' gm wms
        by (rule members_mono [OF _ that]) (use elsewhere in auto)
    qed
  qed
  with base inv show ?thesis by (simp add: policy_inv_def)
qed

end

sublocale perm_history \<subseteq> invariant_system "policy_step LS env0" "policy_inv env0 PS"
  by unfold_locales (rule policy_inv_step)

context perm_history
begin

lemma reached_inv:
  assumes "(policy_step LS env0)\<^sup>*\<^sup>* s0 s" "policy_start s0" "uuid_laws env0"
  shows "policy_inv env0 PS s"
  by (rule inv_steps [OF assms(1)])
     (use assms(2,3) in \<open>auto simp: policy_inv_def policy_base_def policy_start_def perms_inv_def cache_ok_def cache_defs snapshot_def\<close>)

text \<open>A request that arrives in a state that has been reached finds everything a decision rests on in order.\<close>

lemma arrives_sources:
  assumes arr: "arrives LS env0 s L env w"
  shows "policy_base s" "uuid_laws env" "admits env (PS s) (seen_members s) (permissions (wdb w)) (group_members (wdb w)) (workspace_members (wdb w))"
    "view_ok env (PS s) (seen_members s) (permissions (wdb w)) (group_members (wdb w)) (workspace_members (wdb w)) (wdb w)"
    "source_laws L env (PS s) tid"
proof -
  note a = arr [unfolded arrives_def]
  have inv: "policy_inv env0 PS s" using a reached_inv by blast
  have now: "same_formats env0 env" "go_now env = py_now s" "wdb w = py_db s" using a by auto
  from inv now(1) show base: "policy_base s" and laws: "uuid_laws env" by (simp_all add: policy_inv_def uuid_laws_formats)
  show "admits env (PS s) (seen_members s) (permissions (wdb w)) (group_members (wdb w)) (workspace_members (wdb w))"
    by (rule admits_next [OF base laws now(2), where d = "py_db s"]) (use base now in \<open>auto simp: policy_base_def\<close>)
  show "view_ok env (PS s) (seen_members s) (permissions (wdb w)) (group_members (wdb w)) (workspace_members (wdb w)) (wdb w)"
    using inv now(1,3) by (simp add: policy_inv_def cache_ok_formats view_ok_def)
  have "reads_back L env v" if "p \<in> usable_grants env (PS s) tid" "v \<in> ends p" for p v
  proof -
    from that(1) obtain kind i t tb where "PS s tid kind i t tb" "p \<in> set tb" "on_resource tid kind i p" unfolding usable_grants_def by blast
    then have "p \<in> seen_rows s" using admitted_seen [OF base] by blast
    with that(2) a show ?thesis by (auto simp: seen_rows_def ends_read_back_def)
  qed
  then show "source_laws L env (PS s) tid"
    unfolding source_laws_def using laws admitted_seen [OF base] now(2) by auto
qed

end

interpretation stale: perm_history "\<lambda>_. True" env0 seen_perms for env0
  by unfold_locales (fastforce simp: seen_perms_def policy_base_def snapshot_def seen_rows_def)+

interpretation fresh: perm_history redis_ok env0 current_perms for env0
proof
  fix s tid kind i
  assume base: "policy_base s"
  have "pm_ValidFrom p \<le> pg_time (py_now s)" if "p \<in> set (permissions (py_db s))" for p
    using base that columnsD(1) [of p] by (auto simp: policy_base_def perms_inv_def pg_time_fixed_le)
  then show "current_perms s tid kind i (py_now s) (permissions (py_db s))" by (simp add: current_perms_def)
next
  fix s tid kind i t tb
  assume base: "policy_base s" and cur: "current_perms s tid kind i t tb"
  have "p \<in> seen_rows s" if "p \<in> set tb" "on_resource tid kind i p" for p
  proof -
    have "p \<in> set (filter (on_resource tid kind i) tb)" using that by simp
    also have "\<dots> = set (filter (on_resource tid kind i) (permissions (py_db s)))" using cur by (simp add: current_perms_def)
    finally show ?thesis using base unfolding policy_base_def seen_rows_def snapshot_def by fastforce
  qed
  with cur show "t \<le> py_now s \<and> (\<forall>p \<in> set tb. on_resource tid kind i p \<longrightarrow> p \<in> seen_rows s)" by (simp add: current_perms_def)
qed (auto simp: current_perms_def)

end
