(* ===== verification/Policy_Guarantees.thy ===== *)
theory Policy_Guarantees
  imports Policy_System
begin

text \<open>
  The properties of the policy service: what a positive decision is evidence of in every state the service
  reaches, with a cache that may be stale and with one that is invalidated; what a grant does; and that nobody
  hands out more than they hold.
\<close>

section \<open>Evidence a decision may rest on\<close>

definition recent_grants :: "policy_system \<Rightarrow> permission set" where
  "recent_grants s = {p. \<exists>t tb gm wms. py_now s - TTL < t \<and> (t, tb, gm, wms) \<in> py_seen s \<and> p \<in> set tb \<and> valid_at t p}"

definition recent_groups :: "policy_system \<Rightarrow> (uuid \<times> uuid \<times> uuid) set" where
  "recent_groups s = {r. \<exists>t tb gm wms. py_now s - MembershipTTL < t \<and> (t, tb, gm, wms) \<in> py_seen s \<and> r \<in> set gm}"

definition recent_members :: "policy_system \<Rightarrow> workspace_member set" where
  "recent_members s = {m. \<exists>t tb gm wms. py_now s - MembershipTTL < t \<and> (t, tb, gm, wms) \<in> py_seen s \<and> m \<in> set wms}"

lemma usable_recent:
  assumes "go_now env = py_now s"
  shows "usable_grants env (seen_perms s) tid \<subseteq> recent_grants s"
    and "usable_groups env (seen_members s) \<subseteq> recent_groups s" "usable_members env (seen_members s) \<subseteq> recent_members s"
  unfolding usable_grants_def usable_groups_def usable_members_def recent_grants_def recent_groups_def recent_members_def seen_perms_def seen_members_def assms
  by blast+

lemma usable_current: "usable_grants env (current_perms s) tid \<subseteq> set (permissions (py_db s))"
proof
  fix p
  assume "p \<in> usable_grants env (current_perms s) tid"
  then obtain kind i t tb where c: "current_perms s tid kind i t tb" "p \<in> set tb" "on_resource tid kind i p"
    unfolding usable_grants_def by blast
  have "p \<in> set (filter (on_resource tid kind i) tb)" using c by simp
  also have "\<dots> = set (filter (on_resource tid kind i) (permissions (py_db s)))" using c(1) by (simp add: current_perms_def)
  finally show "p \<in> set (permissions (py_db s))" by simp
qed

section \<open>Decisions\<close>

text \<open>A check whose answer is read off, as a rule for runs.\<close>

lemma keeps_Check_allowed:
  assumes "admits env PP MM tb gm wms" "source_laws L env PP tid"
  shows "keeps env (view_ok env PP MM tb gm wms) (Check L tid i)
     (\<lambda>r. cr_Allowed r \<longrightarrow> authorised env (go_now env) tid i (usable_grants env PP tid) (usable_groups env MM) (usable_members env MM))"
  by (rule keeps_weaken [OF keeps_Check [OF assms(1)]]) (auto intro: Eval_authorised [OF assms(2)])

text \<open>
  Property C14. Whatever fails, in Redis or in the database, now or earlier: when \<open>Check\<close> answers that a
  request is allowed, the access rules allow it on rows that were in the tables, the grants within the last
  \<open>TTL\<close> (60 seconds) and the memberships within the last \<open>MembershipTTL\<close> (5 seconds), and no such grant has
  ended.
\<close>

theorem policy_check_bounded_staleness:
  assumes "arrives (\<lambda>_. True) env0 s L env w" "Check L tid i env w = (Inr r, w')" "cr_Allowed r"
  shows "authorised env (go_now env) tid i (recent_grants s) (recent_groups s) (recent_members s)"
proof -
  note src = stale.arrives_sources [OF assms(1)]
  have now: "go_now env = py_now s" using assms(1) by (simp add: arrives_def)
  have "authorised env (go_now env) tid i (usable_grants env (seen_perms s) tid) (usable_groups env (seen_members s)) (usable_members env (seen_members s))"
    using keeps_InrD [OF keeps_Check_allowed [OF src(3,5)] src(4) assms(2)] assms(3) by simp
  then show ?thesis by (rule authorised_mono [OF _ usable_recent [OF now]])
qed

text \<open>
  Property C5. As long as Redis executes its commands, a positive decision rests on grants that are in the
  table now: a grant that has been revoked or replaced is no evidence from the moment the operation returns,
  whatever was cached before.
\<close>

theorem policy_check_current:
  assumes "arrives redis_ok env0 s L env w" "Check L tid i env w = (Inr r, w')" "cr_Allowed r"
  shows "authorised env (go_now env) tid i (set (permissions (wdb w))) (recent_groups s) (recent_members s)"
proof -
  note src = fresh.arrives_sources [OF assms(1)]
  have now: "go_now env = py_now s" "wdb w = py_db s" using assms(1) by (simp_all add: arrives_def)
  have "authorised env (go_now env) tid i (usable_grants env (current_perms s) tid) (usable_groups env (seen_members s)) (usable_members env (seen_members s))"
    using keeps_InrD [OF keeps_Check_allowed [OF src(3,5)] src(4) assms(2)] assms(3) by simp
  then show ?thesis unfolding now(2) by (rule authorised_mono [OF _ usable_current usable_recent(2,3) [OF now(1)]])
qed

subsection \<open>Batches\<close>

text \<open>What the slots hold while the checks of a batch run in some order.\<close>

definition slots_ok :: "env \<Rightarrow> perm_source \<Rightarrow> member_source \<Rightarrow> (uuid \<times> check_input) list \<Rightarrow> check_result list \<Rightarrow> bool" where
  "slots_ok env PP MM inputs out \<longleftrightarrow> length out = length inputs \<and> (\<forall>k < length inputs. cr_Allowed (out ! k) \<longrightarrow>
     authorised env (go_now env) (fst (inputs ! k)) (snd (inputs ! k)) (usable_grants env PP (fst (inputs ! k))) (usable_groups env MM) (usable_members env MM))"

lemma keeps_run_checks_slots:
  assumes adm: "admits env PP MM tb gm wms" and laws: "\<And>tid. source_laws L env PP tid"
  shows "set schedule \<subseteq> {..< length inputs} \<Longrightarrow> slots_ok env PP MM inputs out \<Longrightarrow>
     keeps env (view_ok env PP MM tb gm wms) (run_checks L inputs schedule out) (slots_ok env PP MM inputs)"
proof (induction schedule arbitrary: out)
  case (Cons k schedule)
  let ?Q = "\<lambda>r. cr_Allowed r \<longrightarrow> authorised env (go_now env) (fst (inputs ! k)) (snd (inputs ! k)) (usable_grants env PP (fst (inputs ! k))) (usable_groups env MM) (usable_members env MM)"
  have "keeps env (view_ok env PP MM tb gm wms) (check_or_deny L (fst (inputs ! k)) (snd (inputs ! k))) ?Q"
    unfolding check_or_deny_def by (rule keeps_tor [OF keeps_Check_allowed [OF adm laws]]) simp
  then show ?case
    unfolding run_checks.simps
    by (rule keeps_tbind, intro Cons.IH) (use Cons.prems in \<open>auto simp: slots_ok_def nth_list_update\<close>)
qed (simp add: keeps_tret)

text \<open>
  A batch of checks, whose goroutines run in any order: there is one answer per request, and an
  answer that allows is an answer to the request at its own position.
\<close>

theorem policy_batch_slots:
  assumes "arrives redis_ok env0 s L env w" "set schedule \<subseteq> {..< length inputs}" "BatchCheck L schedule inputs env w = (Inr out, w')"
  shows "length out = length inputs \<and> length inputs \<le> 50 \<and> (\<forall>k < length inputs. cr_Allowed (out ! k) \<longrightarrow>
     authorised env (go_now env) (fst (inputs ! k)) (snd (inputs ! k)) (set (permissions (wdb w))) (recent_groups s) (recent_members s))"
proof -
  note src = fresh.arrives_sources [OF assms(1)]
  have now: "go_now env = py_now s" "wdb w = py_db s" using assms(1) by (simp_all add: arrives_def)
  have start: "slots_ok env (current_perms s) (seen_members s) inputs (replicate (length inputs) \<lparr>cr_Allowed = False, cr_Reason = []\<rparr>)"
    by (simp add: slots_ok_def)
  have small: "length inputs \<le> 50" and run: "run_checks L inputs schedule (replicate (length inputs) \<lparr>cr_Allowed = False, cr_Reason = []\<rparr>) env w = (Inr out, w')"
    using assms(3) by (auto simp: BatchCheck_def tfail_def split: if_splits)
  have "slots_ok env (current_perms s) (seen_members s) inputs out"
    by (rule keeps_InrD [OF keeps_run_checks_slots [OF src(3) src(5) assms(2) start] src(4) run])
  then show ?thesis
    unfolding slots_ok_def now(2)
    using small authorised_mono [OF _ usable_current usable_recent(2,3) [OF now(1)]] by blast
qed

section \<open>Grants\<close>

text \<open>
  Property C15. A successful \<open>Grant\<close> turns the table of grants into the one \<open>grant_spec\<close> describes: an active
  grant of the capability stays as it is, an ended one is revived, otherwise one row is added; the levels it
  replaces end now; every other row is untouched. The table invariant and all memberships are kept, and cache
  entries are only dropped, the resource's own one with a working Redis. Granting what is already held, with
  nothing to replace, writes no event either.
\<close>

theorem policy_grant_refines:
  assumes "Grant L g env w = (Inr p, w')" "perms_inv (permissions (wdb w))"
  shows "\<exists>i. permissions (wdb w') = grant_spec g (go_now env) i (permissions (wdb w)) \<and> same_grant g p \<and> perms_inv (permissions (wdb w'))
     \<and> group_members (wdb w') = group_members (wdb w) \<and> workspace_members (wdb w') = workspace_members (wdb w)
     \<and> redis_kv (wdb w') \<subseteq>\<^sub>m redis_kv (wdb w)
     \<and> (redis_ok L \<longrightarrow> redis_kv (wdb w') (ResourcePermsKey env (gi_TenantID g) (gi_ResourceType g) (gi_ResourceID g)) = None)
     \<and> ((\<exists>q \<in> set (permissions (wdb w)). same_grant g q \<and> isActive q (go_now env))
          \<and> filter (replaced g (go_now env)) (permissions (wdb w)) = [] \<longrightarrow> outbox (wdb w') = outbox (wdb w))"
proof (rule Grant_Inr [OF assms])
  fix i d
  assume d: "permissions d = grant_spec g (go_now env) i (permissions (wdb w))" "off_outbox ((wdb w)\<lparr>permissions := permissions d\<rparr>) d"
    "cache_shrinks d (wdb w')" "same_grant g p"
    "redis_ok L \<Longrightarrow> redis_kv (wdb w') (ResourcePermsKey env (gi_TenantID g) (gi_ResourceType g) (gi_ResourceID g)) = None"
    "perms_inv (permissions d)"
    "\<exists>p \<in> set (permissions (wdb w)). same_grant g p \<and> isActive p (go_now env) \<Longrightarrow> filter (replaced g (go_now env)) (permissions (wdb w)) = [] \<Longrightarrow> d = wdb w"
  note t = cache_shrinksD [OF d(3)] off_outboxD [OF d(2)]
  show ?thesis
    by (rule exI [of _ i]) (use t d in auto)
qed

lemma retired_inactive: "\<not> isActive (retired now p) now"
  using pg_time_le [of now] by (auto simp: isActive_def retired_def)

lemma replaced_within_ceiling:
  assumes "replaced g now p"
  shows "is_target g p" "pm_Capability p \<noteq> gi_Capability g" "0 < capRank (pm_Capability p)"
    "gi_GranterOrgAdmin g \<and> 0 < capRank (gi_GranterCapability g) \<or> capRank (pm_Capability p) < capRank (gi_GranterCapability g)
       \<or> capRank (pm_Capability p) = capRank (gi_GranterCapability g) \<and> pm_GrantedBy p = gi_GrantedBy g"
  using assms by (auto simp: replaced_def superseded_def granter_of_def Let_def split: if_splits)


text \<open>
  When an organisation admin sets a principal's level on a resource, that level is the only one
  the principal holds there afterwards, up or down.
\<close>

theorem policy_grant_sets_level:
  assumes "Grant L g env w = (Inr p, w')" "perms_inv (permissions (wdb w))" "gi_GranterOrgAdmin g" "0 < capRank (gi_GranterCapability g)"
    "q \<in> set (permissions (wdb w'))" "is_target g q" "isActive q (go_now env)" "0 < capRank (pm_Capability q)"
  shows "pm_Capability q = gi_Capability g"
proof -
  obtain i d where d: "permissions d = grant_spec g (go_now env) i (permissions (wdb w))" "cache_shrinks d (wdb w')"
    by (rule Grant_Inr [OF assms(1,2)])
  then have tb: "permissions (wdb w') = grant_spec g (go_now env) i (permissions (wdb w))" using cache_shrinksD(1) by metis
  consider x where "x \<in> set (permissions (wdb w))" "q = retired (go_now env) x"
    | x where "same_grant g x" "q = revived g (go_now env) x" | "\<not> replaced g (go_now env) q"
    | "q = permission_columns (new_permission g i (go_now env))"
    using assms(5) unfolding tb grant_spec_def by (auto split: if_splits)
  then show ?thesis
  proof cases
    case 1
    with assms(7) retired_inactive show ?thesis by blast
  next
    case 2
    then show ?thesis by (simp add: same_grant_def revived_def)
  next
    case 3
    with assms show ?thesis by (auto simp: replaced_def superseded_def granter_of_def Let_def split: if_splits)
  next
    case 4
    then show ?thesis by (simp add: permission_columns_def new_permission_def)
  qed
qed

text \<open>
  Property C29. In every state the policy service reaches, every stored grant is well-typed: its resource and
  principal kinds and its capability are among the ones the schema allows, its effect is to allow, its
  instants fit their columns, it has begun, and no two rows share a key or describe the same grant.
\<close>

theorem policy_rows_typed:
  assumes "policy_start s0" "uuid_laws env0" "(policy_step (\<lambda>_. True) env0)\<^sup>*\<^sup>* s0 s"
  shows "perms_inv (permissions (py_db s)) \<and> (\<forall>p \<in> set (permissions (py_db s)). pm_ValidFrom p \<le> py_now s)"
  using stale.reached_inv [OF assms(3,1,2)] by (simp add: policy_inv_def policy_base_def)

section \<open>Capabilities\<close>

text \<open>
  The ranks of the Go code and the hierarchy of the Rego policy agree: a capability includes a
  requested one exactly when the requested one is ranked and not above it, and a caller may grant exactly
  what the policy's hierarchy says the caller's capability includes, from \<open>share\<close> upwards.
\<close>

theorem capability_ranks_agree:
  "(capability_includes c r \<longleftrightarrow> 0 < capRank r \<and> capRank r \<le> capRank c)
     \<and> (MayGrant c r \<longleftrightarrow> capability_includes c r \<and> capability_includes c ''share'')"
proof
  show "capability_includes c r \<longleftrightarrow> 0 < capRank r \<and> capRank r \<le> capRank c"
    by (simp add: capability_includes_def hierarchy_def capRank_def)
  show "MayGrant c r \<longleftrightarrow> capability_includes c r \<and> capability_includes c ''share''"
    unfolding capability_includes_def hierarchy_def MayGrant_def capRank_def by simp
qed

section \<open>Who may grant\<close>

text \<open>The decision context as a function of the stored rows, which \<open>ResolveResourceContext\<close> computes.\<close>

definition stored_gate :: "'x policy_db_scheme \<Rightarrow> uuid \<Rightarrow> classification_gate" where
  "stored_gate d tid = (case find (\<lambda>r. fst r = tid) (gate_config d) of
      None \<Rightarrow> no_gate
    | Some (_, enabled, phi) \<Rightarrow> \<lparr>ga_Enabled = enabled, ga_PHIRequiresRestricted = phi,
        ga_Rules = (if enabled then map snd (filter (\<lambda>r. fst r = tid) (access_rules d)) else [])\<rparr>)"

definition stored_base :: "'x policy_db_scheme \<Rightarrow> uuid \<Rightarrow> uuid \<Rightarrow> string \<Rightarrow> resource_context" where
  "stored_base d tid uid role = (case find (\<lambda>r. ac_TenantID r = tid \<and> ac_ID r = uid) (accounts d) of
      None \<Rightarrow> \<lparr>rc_Found = False, rc_base = [''user_role'' \<mapsto> role], rc_doc = None, rc_gate = no_gate, rc_clearance = []\<rparr>
    | Some r \<Rightarrow> \<lparr>rc_Found = False,
        rc_base = (if ac_Status r = [] then [''user_role'' \<mapsto> role] else [''user_role'' \<mapsto> role, ''user_status'' \<mapsto> ac_Status r]),
        rc_doc = None, rc_gate = no_gate, rc_clearance = (case ac_Clearance r of None \<Rightarrow> [] | Some c \<Rightarrow> c)\<rparr>)"

definition stored_context :: "env \<Rightarrow> 'x policy_db_scheme \<Rightarrow> uuid \<Rightarrow> uuid \<Rightarrow> string \<Rightarrow> string \<Rightarrow> uuid \<Rightarrow> resource_context" where
  "stored_context env d tid uid role kind i = (let rc = stored_base d tid uid role in
     if kind = ''document'' then
       (case find (\<lambda>r. dr_TenantID r = tid \<and> dr_ID r = i \<and> \<not> dr_deleted r) (document_table d) of
          None \<Rightarrow> rc
        | Some r \<Rightarrow> rc\<lparr>rc_Found := True, rc_doc := Some (dr_Facts r), rc_gate := stored_gate d tid,
            rc_base := (rc_base rc)(''workspace_id'' \<mapsto> uuid_String env (df_WorkspaceID (dr_Facts r)),
              ''folder_id'' \<mapsto> uuid_String env (df_FolderID (dr_Facts r)), ''lifecycle_state'' \<mapsto> df_LifecycleState (dr_Facts r))\<rparr>)
     else if kind = ''folder'' then
       (case find (\<lambda>r. ff_TenantID r = tid \<and> ff_ID r = i \<and> \<not> ff_deleted r) (folder_table d) of
          None \<Rightarrow> rc
        | Some r \<Rightarrow> rc\<lparr>rc_Found := True, rc_base := (rc_base rc)(''workspace_id'' \<mapsto> uuid_String env (ff_WorkspaceID r))\<rparr>)
     else if kind = ''workspace'' then rc\<lparr>rc_Found := True\<rparr>
     else rc)"

lemma keeps_tx: "keeps (env\<lparr>cur_tenant := tid\<rparr>) I f Q \<Longrightarrow> keeps env I (WithTenantTx tid f) Q"
  by (rule keeps_WithTenantTx) (auto dest: keepsD keeps_InrD)

lemma keeps_gate: "keeps env (\<lambda>x. x = d) (Context_ClassificationGate tid) (\<lambda>g. g = stored_gate d tid)"
  unfolding Context_ClassificationGate_def
  by (rule keeps_tbind [OF keeps_sql_read [where Q = "\<lambda>r. r = find (\<lambda>r. fst r = tid) (gate_config d)"]])
     (auto simp: stored_gate_def no_gate_def split: option.splits intro!: keeps_tret keeps_sql_read)

lemma keeps_resolve_resource:
  assumes "rc = stored_base d tid uid role"
  shows "keeps env (\<lambda>x. x = d) (resolve_resource tid kind i rc) (\<lambda>r. r = stored_context env d tid uid role kind i)"
proof -
  have doc: "keeps env (\<lambda>x. x = d) (Context_DocumentFacts tid i)
      (\<lambda>f. f = map_option dr_Facts (find (\<lambda>r. dr_TenantID r = tid \<and> dr_ID r = i \<and> \<not> dr_deleted r) (document_table d)))"
    unfolding Context_DocumentFacts_def by (rule keeps_sql_read) auto
  have fld: "keeps env (\<lambda>x. x = d) (Context_FolderWorkspace tid i)
      (\<lambda>f. f = map_option ff_WorkspaceID (find (\<lambda>r. ff_TenantID r = tid \<and> ff_ID r = i \<and> \<not> ff_deleted r) (folder_table d)))"
    unfolding Context_FolderWorkspace_def by (rule keeps_sql_read) auto
  have rest: "keeps env (\<lambda>x. x = d) (tbind (Context_ClassificationGate tid) (\<lambda>gate. tret (f gate))) (\<lambda>r. r = f (stored_gate d tid))" for f
    by (rule keeps_tbind [OF keeps_gate]) (simp add: keeps_tret)
  consider "kind = ''document''" | "kind = ''folder''" | "kind \<noteq> ''document''" "kind \<noteq> ''folder''" by blast
  then show ?thesis
  proof cases
    case 1
    show ?thesis
      unfolding resolve_resource_def assms 1
      by (rule keeps_with_env, simp, rule keeps_tbind [OF doc])
         (auto simp: stored_context_def Let_def split: option.split intro!: keeps_tret keeps_weaken [OF rest])
  next
    case 2
    show ?thesis
      unfolding resolve_resource_def assms 2
      by (rule keeps_with_env, simp, rule keeps_tbind [OF fld])
         (auto simp: stored_context_def Let_def split: option.split intro!: keeps_tret)
  next
    case 3
    then show ?thesis
      unfolding resolve_resource_def assms
      by (intro keeps_with_env) (simp add: stored_context_def Let_def keeps_tret)
  qed
qed

lemma keeps_ResolveResourceContext:
  "keeps env (\<lambda>x. x = d) (ResolveResourceContext tid uid role kind i) (\<lambda>r. r = stored_context env d tid uid role kind i)"
proof -
  have facts: "keeps (env\<lparr>cur_tenant := tid\<rparr>) (\<lambda>x. x = d) (Context_UserFacts tid uid) (\<lambda>(status, clearance). stored_base d tid uid role =
      \<lparr>rc_Found = False, rc_base = (if status = [] then [''user_role'' \<mapsto> role] else [''user_role'' \<mapsto> role, ''user_status'' \<mapsto> status]),
        rc_doc = None, rc_gate = no_gate, rc_clearance = clearance\<rparr>)"
    unfolding Context_UserFacts_def by (rule keeps_sql_read) (auto simp: stored_base_def split: option.splits)
  have ctx: "stored_context (env\<lparr>cur_tenant := tid\<rparr>) d tid uid role kind i = stored_context env d tid uid role kind i"
    by (simp add: stored_context_def Let_def split: option.split)
  show ?thesis
    unfolding ResolveResourceContext_def
  proof (rule keeps_tx, rule keeps_tbind [OF facts])
    fix a :: "string \<times> string"
    obtain status clearance where a: "a = (status, clearance)" by (cases a)
    assume "case a of (status, clearance) \<Rightarrow> stored_base d tid uid role =
      \<lparr>rc_Found = False, rc_base = (if status = [] then [''user_role'' \<mapsto> role] else [''user_role'' \<mapsto> role, ''user_status'' \<mapsto> status]),
        rc_doc = None, rc_gate = no_gate, rc_clearance = clearance\<rparr>"
    then have "\<lparr>rc_Found = False, rc_base = (if status = [] then [''user_role'' \<mapsto> role] else [''user_role'' \<mapsto> role, ''user_status'' \<mapsto> status]),
        rc_doc = None, rc_gate = no_gate, rc_clearance = clearance\<rparr> = stored_base d tid uid role" by (simp add: a)
    from keeps_resolve_resource [OF this, of "env\<lparr>cur_tenant := tid\<rparr>" kind i]
    show "keeps (env\<lparr>cur_tenant := tid\<rparr>) (\<lambda>x. x = d) (case a of (status, clearance) \<Rightarrow> resolve_resource tid kind i
        \<lparr>rc_Found = False, rc_base = (if status = [] then [''user_role'' \<mapsto> role] else [''user_role'' \<mapsto> role, ''user_status'' \<mapsto> status]),
         rc_doc = None, rc_gate = no_gate, rc_clearance = clearance\<rparr>) (\<lambda>r. r = stored_context env d tid uid role kind i)"
      unfolding a ctx by simp
  qed
qed

lemma keeps_resourceContext:
  "keeps env (\<lambda>x. x = d) (resourceContext u kind i)
     (\<lambda>x. \<forall>rc. x = Some rc \<longrightarrow> rc_Found rc \<and> rc = stored_context env d (u_TenantID u) (u_ID u) (u_Role u) kind i)"
  unfolding resourceContext_def
  by (rule keeps_tor, rule keeps_tbind [OF keeps_ResolveResourceContext]) (auto intro: keeps_tret)

lemma keeps_callerHolds:
  assumes "admits env PP MM tb gm wms" "source_laws L env PP (u_TenantID u)"
  shows "keeps env (view_ok env PP MM tb gm wms) (callerHolds L u kind i rc c)
     (\<lambda>b. b \<longrightarrow> authorised env (go_now env) (u_TenantID u) (caller_check env u kind (uuid_String env i) (context_For rc c) c)
        (usable_grants env PP (u_TenantID u)) (usable_groups env MM) (usable_members env MM))"
  unfolding callerHolds_def
  by (rule keeps_with_env, rule keeps_tor, rule keeps_tbind [OF keeps_Check_allowed [OF assms]]) (auto intro: keeps_tret)

lemma keeps_probe:
  assumes "admits env PP MM tb gm wms" "source_laws L env PP (u_TenantID u)"
  shows "keeps env (view_ok env PP MM tb gm wms) (probe L u kind i rc cs)
     (\<lambda>c. c = [] \<or> authorised env (go_now env) (u_TenantID u) (caller_check env u kind (uuid_String env i) (context_For rc c) c)
        (usable_grants env PP (u_TenantID u)) (usable_groups env MM) (usable_members env MM))"
proof (induction cs)
  case (Cons c cs)
  show ?case
    unfolding probe.simps
    by (rule keeps_tbind [OF keeps_callerHolds [OF assms]]) (auto intro: keeps_tret Cons.IH)
qed (simp add: keeps_tret)

text \<open>What the capability of a caller is evidence of.\<close>

lemma callerCapability_Inr:
  assumes adm: "admits env PP MM tb gm wms" "source_laws L env PP (u_TenantID u)"
    and view: "view_ok env PP MM tb gm wms (wdb w)" and run: "callerCapability L u kind i env w = (Inr c, w')"
  defines "rc \<equiv> stored_context env (wdb w) (u_TenantID u) (u_ID u) (u_Role u) kind i"
  shows "view_ok env PP MM tb gm wms (wdb w') \<and> (c = [] \<or> org_admin u \<and> c = ''admin'' \<or> rc_Found rc
     \<and> authorised env (go_now env) (u_TenantID u) (caller_check env u kind (uuid_String env i) (context_For rc c) c)
        (usable_grants env PP (u_TenantID u)) (usable_groups env MM) (usable_members env MM))"
proof (cases "org_admin u")
  case True
  with run view show ?thesis by (simp add: callerCapability_def tret_def)
next
  case False
  with run obtain o' w1 where o': "resourceContext u kind i env w = (Inr o', w1)"
    and rest: "(case o' of None \<Rightarrow> tret [] | Some x \<Rightarrow> probe L u kind i x CapabilityProbeOrder) env w1 = (Inr c, w')"
    by (auto simp: callerCapability_def tbind_Inr)
  have w1: "wdb w1 = wdb w" by (rule keepsD [OF keeps_resourceContext _ o']) simp
  show ?thesis
  proof (cases o')
    case None
    with rest view w1 show ?thesis by (simp add: tret_def)
  next
    case (Some x)
    have x: "rc_Found x \<and> x = rc" using keeps_InrD [OF keeps_resourceContext [where d = "wdb w"] refl o'] Some unfolding rc_def by blast
    from rest Some have pr: "probe L u kind i x CapabilityProbeOrder env w1 = (Inr c, w')" by simp
    have view1: "view_ok env PP MM tb gm wms (wdb w1)" using view w1 by simp
    show ?thesis using keepsD [OF keeps_probe [OF adm] view1 pr] keeps_InrD [OF keeps_probe [OF adm] view1 pr] x by auto
  qed
qed

lemma capRank_empty [simp]: "capRank [] = 0"
  by (simp add: capRank_def)


end
