(* ===== verification/Policy_Examples.thy ===== *)
theory Policy_Examples
  imports Policy_Guarantees Audit_Examples
begin

text \<open>
  Concrete runs of the policy service: an organisation admin grants a user edit access to a document until a
  given instant; the user's requests are decided, the user shares the document, and the admin sets a lower
  level.
\<close>

section \<open>Identifiers as text\<close>

text \<open>The usual text of an identifier: 32 hexadecimal digits in five groups.\<close>

definition nibbles :: "(int \<times> char) list" where
  "nibbles = [(0, CHR ''0''), (1, CHR ''1''), (2, CHR ''2''), (3, CHR ''3''), (4, CHR ''4''), (5, CHR ''5''), (6, CHR ''6''), (7, CHR ''7''), (8, CHR ''8''), (9, CHR ''9''), (10, CHR ''a''), (11, CHR ''b''), (12, CHR ''c''), (13, CHR ''d''), (14, CHR ''e''), (15, CHR ''f'')]"

definition nib_char :: "int \<Rightarrow> char" where
  "nib_char n = (case map_of nibbles n of None \<Rightarrow> CHR ''0'' | Some c \<Rightarrow> c)"

definition nib_value :: "char \<Rightarrow> int" where
  "nib_value c = (case map_of (map prod.swap nibbles) c of None \<Rightarrow> 0 | Some n \<Rightarrow> n)"

fun hex_digits :: "nat \<Rightarrow> int \<Rightarrow> string" where
  "hex_digits 0 n = []"
| "hex_digits (Suc k) n = hex_digits k (n div 16) @ [nib_char (n mod 16)]"

definition in_groups :: "string \<Rightarrow> string" where
  "in_groups h = take 8 h @ ''-'' @ take 4 (drop 8 h) @ ''-'' @ take 4 (drop 12 h) @ ''-'' @ take 4 (drop 16 h) @ ''-'' @ drop 20 h"

definition uuid_text :: "uuid \<Rightarrow> string" where
  "uuid_text u = in_groups (hex_digits 32 (uint u))"

definition uuid_read :: "string \<Rightarrow> uuid option" where
  "uuid_read s = (if length s = 36 then Some (of_int (foldl (\<lambda>a c. a * 16 + nib_value c) 0 (filter (\<lambda>c. c \<noteq> CHR ''-'') s))) else None)"

lemma hex_digit:
  assumes "0 \<le> n" "n < 16"
  shows "nib_value (nib_char n) = n" "nib_char n \<noteq> CHR ''-''"
proof -
  have "list_all (\<lambda>k. nib_value (nib_char k) = k \<and> nib_char k \<noteq> CHR ''-'') [0..15]" by code_simp
  moreover have "n \<in> set [0..15]" using assms by simp
  ultimately show "nib_value (nib_char n) = n" "nib_char n \<noteq> CHR ''-''" by (auto simp: list_all_iff)
qed

lemma hex_digits_length [simp]: "length (hex_digits k n) = k"
  by (induction k arbitrary: n) simp_all

lemma hex_digits_no_dash: "c \<in> set (hex_digits k n) \<Longrightarrow> c \<noteq> CHR ''-''"
  by (induction k arbitrary: n) (auto dest: sym simp: hex_digit)

lemma hex_digits_value: "foldl (\<lambda>a c. a * 16 + nib_value c) a (hex_digits k n) = a * 16 ^ k + n mod 16 ^ k"
proof (induction k arbitrary: n)
  case (Suc k)
  have "n mod 16 ^ Suc k = 16 * (n div 16 mod 16 ^ k) + n mod 16"
    using zmod_zmult2_eq [of "16 ^ k" n 16] by simp
  then show ?case by (simp add: Suc hex_digit)
qed simp

lemma in_groups_back:
  assumes "\<And>c. c \<in> set h \<Longrightarrow> c \<noteq> CHR ''-''"
  shows "filter (\<lambda>c. c \<noteq> CHR ''-'') (in_groups h) = h"
proof -
  have parts: "take 8 h @ take 4 (drop 8 h) @ take 4 (drop 12 h) @ take 4 (drop 16 h) @ drop 20 h = h"
    using append_take_drop_id [of 8 h] append_take_drop_id [of 4 "drop 8 h"] append_take_drop_id [of 4 "drop 12 h"]
      append_take_drop_id [of 4 "drop 16 h"] by (simp del: append_take_drop_id)
  have keep: "filter (\<lambda>c. c \<noteq> CHR ''-'') xs = xs" if "set xs \<subseteq> set h" for xs
    using that assms by (intro filter_True) blast
  show ?thesis
    by (simp add: in_groups_def keep set_take_subset set_drop_subset parts order_trans [OF set_take_subset set_drop_subset])
qed

lemma uuid_text_laws: "uuid_read (uuid_text u) = Some u" "length (uuid_text u) = 36"
proof -
  show len: "length (uuid_text u) = 36" by (simp add: uuid_text_def in_groups_def)
  have "uint u mod 16 ^ 32 = uint u" using uint_lt2p [of u] by simp
  moreover have "filter (\<lambda>c. c \<noteq> CHR ''-'') (uuid_text u) = hex_digits 32 (uint u)"
    unfolding uuid_text_def by (rule in_groups_back [OF hex_digits_no_dash])
  ultimately show "uuid_read (uuid_text u) = Some u"
    using len by (simp add: uuid_read_def hex_digits_value)
qed

text \<open>Evaluation expands texts of identifiers and instants only once these are known.\<close>

definition uuid_text_now :: "uuid \<Rightarrow> string" where
  "uuid_text_now u = in_groups (hex_digits 32 (uint u))"

lemma uuid_text_code [code]: "uuid_text u = (if u = 0 then uuid_text_now u else uuid_text_now u)"
  by (simp add: uuid_text_now_def uuid_text_def)

definition uuid_read_now :: "string \<Rightarrow> uuid option" where
  "uuid_read_now s = (if length s = 36 then Some (of_int (foldl (\<lambda>a c. a * 16 + nib_value c) 0 (filter (\<lambda>c. c \<noteq> CHR ''-'') s))) else None)"

lemma uuid_read_code [code]: "uuid_read s = (if s = [] then uuid_read_now s else uuid_read_now s)"
  by (simp add: uuid_read_now_def uuid_read_def)

definition instant_now :: "int \<Rightarrow> time \<Rightarrow> string" where
  "instant_now off t = (if off = 0 then format_RFC3339 t else (let local = t + off * second; mins = \<bar>off\<bar> div 60 in
     format_date local @ ''T'' @ format_clock local @ (if off < 0 then ''-'' else ''+'') @ pad_int 2 (mins div 60) @ '':'' @ pad_int 2 (mins mod 60)))"

lemma format_RFC3339_in_code [code]: "format_RFC3339_in off t = (if t < 0 then instant_now off t else instant_now off t)"
  by (simp add: instant_now_def format_RFC3339_in_def)

text \<open>A sequence of steps is run only in a known world.\<close>

definition bind_now :: "('d, 'a) m \<Rightarrow> ('a \<Rightarrow> ('d, 'b) m) \<Rightarrow> ('d, 'b) m" where
  "bind_now f g env w = (case f env w of (Inl e, w') \<Rightarrow> (Inl e, w') | (Inr a, w') \<Rightarrow> g a env w')"

lemma tbind_code [code]: "tbind f g env w = (if stmts w = 0 then bind_now f g env w else bind_now f g env w)"
  by (simp add: bind_now_def tbind_def)

definition eval_now :: "(string \<Rightarrow> time option) \<Rightarrow> time \<Rightarrow> eval_input \<Rightarrow> check_result" where
  "eval_now parse now e =
     (if final_decision parse now e then \<lparr>cr_Allowed = True, cr_Reason = []\<rparr>
      else let reason = (case deny_reason (ei_Input e) of None \<Rightarrow> [] | Some m \<Rightarrow> m) in
           \<lparr>cr_Allowed = False, cr_Reason = (if reason = [] then ''policy denied'' else reason)\<rparr>)"

lemma Eval_code [code]: "Eval parse now e = (if ei_Permissions e = [] then eval_now parse now e else eval_now parse now e)"
  by (simp add: eval_now_def Eval_def)

section \<open>A grant and its use\<close>

definition pol_env :: "int \<Rightarrow> env" where
  "pol_env n = demo_env\<lparr>go_now := n * second, uuid_String := uuid_text, uuid_Parse := uuid_read\<rparr>"

text \<open>The one instant that occurs as text is read back.\<close>

definition pol_lib :: policy_lib where
  "pol_lib = \<lparr>parse_rfc3339_ns = (\<lambda>s. if s = ''1970-01-01T00:33:20Z'' then Some (2000 * second) else None), redis_fault = (\<lambda>_. None)\<rparr>"

text \<open>The requests are served while Redis refuses every command.\<close>

definition pol_down :: policy_lib where
  "pol_down = pol_lib\<lparr>redis_fault := (\<lambda>_. Some ''connection refused'')\<rparr>"

definition pol_blank :: policy_db where
  "pol_blank = \<lparr>organizations = [\<lparr>org_ID = 1, org_deleted = False\<rparr>], outbox = [], outbox_dlq = [], permissions = [],
     group_members = [(1, 50, 3)], workspace_members = [], folder_grants = [], folder_table = [],
     document_table = [\<lparr>dr_TenantID = 1, dr_ID = 9, dr_Facts = \<lparr>df_WorkspaceID = 20, df_FolderID = 21, df_LifecycleState = ''draft'',
        df_SecurityClassification = [], df_HasPHI = False, df_HasPII = False\<rparr>, dr_deleted = False\<rparr>],
     accounts = [\<lparr>ac_TenantID = 1, ac_ID = 7, ac_Status = ''active'', ac_Clearance = None\<rparr>, \<lparr>ac_TenantID = 1, ac_ID = 2, ac_Status = ''active'', ac_Clearance = None\<rparr>],
     gate_config = [], access_rules = [], redis_kv = Map.empty, redis_sets = (\<lambda>_. [])\<rparr>"

definition pol_grant :: grant_input where
  "pol_grant = \<lparr>gi_TenantID = 1, gi_GrantedBy = 7, gi_ResourceType = ''document'', gi_ResourceID = 9, gi_PrincipalType = ''user'',
     gi_PrincipalID = 2, gi_Capability = ''edit'', gi_ValidTo = None, gi_ExpiresAt = Some (2000 * second),
     gi_GranterCapability = ''admin'', gi_GranterOrgAdmin = True\<rparr>"

definition pol_granted :: policy_db where
  "pol_granted = wdb (snd (run_policy_op pol_lib (OpGrant pol_grant) (pol_env 1000) (world_on pol_blank)))"

definition pol_row :: permission where
  "pol_row = \<lparr>pm_TenantID = 1, pm_ID = 100, pm_ResourceType = ''document'', pm_ResourceID = 9, pm_PrincipalType = ''user'',
     pm_PrincipalID = 2, pm_Capability = ''edit'', pm_Effect = ''allow'', pm_GrantedBy = 7, pm_GrantedAt = 1000 * second,
     pm_ValidFrom = 1000 * second, pm_ValidTo = None, pm_ExpiresAt = Some (2000 * second)\<rparr>"

lemma pol_rows: "permissions pol_granted = [pol_row]"
  by code_simp

text \<open>Afterwards the cache is empty again and the outbox has been drained.\<close>

definition pol_db :: policy_db where
  "pol_db = pol_blank\<lparr>permissions := [pol_row]\<rparr>"

definition pol_start :: policy_system where
  "pol_start = \<lparr>py_now = 1000 * second, py_db = pol_blank, py_seen = {snapshot (1000 * second) pol_blank}\<rparr>"

definition pol_mid :: policy_system where
  "pol_mid = \<lparr>py_now = 1000 * second, py_db = pol_granted,
     py_seen = py_seen pol_start \<union> {snapshot (1000 * second) (py_db pol_start), snapshot (1000 * second) pol_granted}\<rparr>"

definition pol_state :: policy_system where
  "pol_state = \<lparr>py_now = 1000 * second, py_db = pol_db,
     py_seen = py_seen pol_mid \<union> {snapshot (1000 * second) (py_db pol_mid), snapshot (1000 * second) pol_db}\<rparr>"

lemma pol_env_fields [simp]:
  "uuid_laws (pol_env n)" "same_formats (pol_env m) (pol_env n)" "go_now (pol_env n) = n * second" "uuid_Parse (pol_env n) = uuid_read"
  "uuid_String (pol_env n) = uuid_text" "local_offset (pol_env n) v = 0"
  by (simp_all add: pol_env_def uuid_laws_def uuid_text_laws same_formats_def demo_env_def)

lemma pol_steps:
  assumes "LS pol_lib"
  shows "(policy_step LS (pol_env 1000))\<^sup>*\<^sup>* pol_start pol_state"
proof -
  have "policy_step LS (pol_env 1000) pol_start \<lparr>py_now = go_now (pol_env 1000), py_db = pol_granted,
      py_seen = py_seen pol_start \<union> {snapshot (go_now (pol_env 1000)) (py_db pol_start), snapshot (go_now (pol_env 1000)) pol_granted}\<rparr>"
    unfolding pol_granted_def
    by (rule policy_step.serve [where LS = LS and r = "fst (run_policy_op pol_lib (OpGrant pol_grant) (pol_env 1000) (world_on pol_blank))", OF assms _ _ _ prod.collapse [symmetric]]) (simp_all add: pol_start_def)
  then have "policy_step LS (pol_env 1000) pol_start pol_mid" by (simp add: pol_mid_def)
  moreover have "policy_step LS (pol_env 1000) pol_mid pol_state"
    unfolding pol_state_def by (rule policy_step.elsewhere) (simp_all add: pol_mid_def pol_rows pol_db_def pol_blank_def)
  ultimately show ?thesis by (rule converse_rtranclp_into_rtranclp [OF _ r_into_rtranclp])
qed

lemma pol_reads_back: "reads_back pol_down (pol_env n) (2000 * second)"
proof -
  have "format_RFC3339_in 0 (2000 * second) = ''1970-01-01T00:33:20Z''" by code_simp
  then show ?thesis by (simp add: reads_back_def pol_down_def pol_lib_def second_def)
qed

lemma pol_arrives:
  assumes "LS pol_lib" "wdb w = pol_db"
  shows "arrives LS (pol_env 1000) pol_state pol_down (pol_env 1000) w"
proof -
  have "policy_start pol_start" by (simp add: policy_start_def pol_start_def pol_blank_def)
  moreover have "ends_read_back pol_down (pol_env 1000) pol_state"
    using pol_reads_back
    by (auto simp: ends_read_back_def pol_state_def pol_mid_def pol_start_def snapshot_def pol_rows pol_row_def pol_blank_def pol_db_def ends_def)
  ultimately show ?thesis
    unfolding arrives_def using pol_steps [of LS] assms by (auto simp: pol_state_def)
qed

lemma pol_redis_ok: "redis_ok pol_lib"
  by (simp add: redis_ok_def pol_lib_def)

definition pol_ask :: "string \<Rightarrow> check_input" where
  "pol_ask action = \<lparr>chk_SubjectType = ''user'', chk_SubjectID = uuid_text 2, chk_Action = action, chk_ResourceType = ''document'',
     chk_ResourceID = uuid_text 9, chk_Context = Map.empty\<rparr>"

abbreviation pol_check :: "(gerr + check_result) \<times> policy_db world" where
  "pol_check \<equiv> Check pol_down 1 (pol_ask ''view'') (pol_env 1000) (world_on pol_db)"

lemma pol_allowed: "case fst pol_check of Inl e \<Rightarrow> False | Inr r \<Rightarrow> cr_Allowed r"
  by code_simp

lemma pol_check_run: "\<exists>r. pol_check = (Inr r, snd pol_check) \<and> cr_Allowed r"
  using pol_allowed by (cases "fst pol_check") (auto intro!: exI prod_eqI)

theorem policy_check_bounded_staleness_witness:
  "authorised (pol_env 1000) (1000 * second) 1 (pol_ask ''view'') (recent_grants pol_state) (recent_groups pol_state) (recent_members pol_state)"
  using policy_check_bounded_staleness [OF pol_arrives [where w = "world_on pol_db"]] pol_check_run by auto

theorem policy_check_current_witness:
  "authorised (pol_env 1000) (1000 * second) 1 (pol_ask ''view'') {pol_row} (recent_groups pol_state) (recent_members pol_state)"
  using policy_check_current [OF pol_arrives [where LS = redis_ok, OF pol_redis_ok wdb_world_on]] pol_check_run by (auto simp: pol_db_def)

abbreviation pol_batch :: "(gerr + check_result list) \<times> policy_db world" where
  "pol_batch \<equiv> BatchCheck pol_down [1, 0] [(1, pol_ask ''view''), (1, pol_ask ''delete'')] (pol_env 1000) (world_on pol_db)"

lemma pol_batch_run: "\<exists>out. pol_batch = (Inr out, snd pol_batch) \<and> cr_Allowed (out ! 0)"
proof -
  have "case fst pol_batch of Inl e \<Rightarrow> False | Inr out \<Rightarrow> cr_Allowed (out ! 0)" by code_simp
  then show ?thesis by (cases "fst pol_batch") (auto intro!: exI prod_eqI)
qed

theorem policy_batch_slots_witness:
  "authorised (pol_env 1000) (1000 * second) 1 (pol_ask ''view'') {pol_row} (recent_groups pol_state) (recent_members pol_state)"
proof -
  obtain out where out: "pol_batch = (Inr out, snd pol_batch)" "cr_Allowed (out ! 0)" using pol_batch_run by blast
  with policy_batch_slots [OF pol_arrives [where LS = redis_ok, OF pol_redis_ok wdb_world_on] _ out(1)] show ?thesis
    by (auto simp: pol_db_def)
qed

text \<open>The admin lowers the level to viewing.\<close>

definition pol_lower :: grant_input where
  "pol_lower = pol_grant\<lparr>gi_Capability := ''view'', gi_ExpiresAt := None\<rparr>"

abbreviation pol_world :: "policy_db world" where
  "pol_world \<equiv> (world_on pol_db)\<lparr>draws := 5\<rparr>"

abbreviation pol_lowered :: "(gerr + permission) \<times> policy_db world" where
  "pol_lowered \<equiv> Grant pol_down pol_lower (pol_env 1500) pol_world"

definition pol_view_row :: permission where
  "pol_view_row = pol_row\<lparr>pm_Capability := ''view'', pm_GrantedAt := 1500 * second, pm_ValidFrom := 1500 * second, pm_ExpiresAt := None\<rparr>"

lemma pol_db_inv: "perms_inv (permissions (wdb pol_world))"
  by (simp add: pol_db_def pol_row_def perms_inv_def pkey_def slot_def permission_checks_def permission_columns_def stored_capabilities_def
      pg_time_def microsecond_def second_def)

lemma pol_lowered_run: "pol_lowered = (Inr (projr (fst pol_lowered)), snd pol_lowered)"
proof -
  have "\<not> isl (fst pol_lowered)" by code_simp
  then show ?thesis by (metis prod.collapse sum.collapse(2))
qed

lemma pol_lowered_rows: "map (\<lambda>p. (pm_Capability p, isActive p (1500 * second))) (permissions (wdb (snd pol_lowered))) = [(''edit'', False), (''view'', True)]"
  by code_simp

theorem policy_grant_refines_witness:
  "\<exists>i. permissions (wdb (snd pol_lowered)) = grant_spec pol_lower (1500 * second) i [pol_row] \<and> perms_inv (permissions (wdb (snd pol_lowered)))"
  using policy_grant_refines [OF pol_lowered_run pol_db_inv] by (auto simp: pol_db_def)

lemma pol_row_gone: "pol_row \<notin> set (permissions (wdb (snd pol_lowered)))" "isActive pol_row (1500 * second)"
  by code_simp+


theorem policy_grant_sets_level_witness:
  "pm_Capability (permissions (wdb (snd pol_lowered)) ! 1) = ''view''"
proof -
  let ?q = "permissions (wdb (snd pol_lowered)) ! 1"
  have "length (permissions (wdb (snd pol_lowered))) = 2" using arg_cong [OF pol_lowered_rows, of length] by simp
  then have "?q \<in> set (permissions (wdb (snd pol_lowered)))" by simp
  moreover have "is_target pol_lower ?q" "isActive ?q (1500 * second)" "0 < capRank (pm_Capability ?q)" by code_simp+
  ultimately have "pm_Capability ?q = gi_Capability pol_lower"
    using policy_grant_sets_level [OF pol_lowered_run pol_db_inv, of ?q] by (simp add: pol_lower_def pol_grant_def capRank_def)
  then show ?thesis by (simp add: pol_lower_def)
qed

theorem policy_rows_typed_witness: "perms_inv [pol_row] \<and> pm_ValidFrom pol_row \<le> 1000 * second"
  using policy_rows_typed [OF _ _ pol_steps] by (simp add: policy_start_def pol_start_def pol_blank_def pol_state_def pol_db_def)

text \<open>The editor shares the document with a colleague.\<close>

definition pol_share :: grant_request_body where
  "pol_share = \<lparr>gb_PrincipalType = ''user'', gb_PrincipalID = uuid_text 3, gb_Capability = ''view'', gb_ExpiresAt = None\<rparr>"

abbreviation pol_post :: "(gerr + response) \<times> policy_db world" where
  "pol_post \<equiv> http_grant pol_down ''document'' (uuid_text 9) 100 (Some pol_share) (pol_env 1000) pol_world"

lemma pol_post_run: "\<exists>body. pol_post = (Inr (201, body), snd pol_post)"
proof -
  have "case fst pol_post of Inl e \<Rightarrow> False | Inr r \<Rightarrow> fst r = 201" by code_simp
  then show ?thesis by (cases "fst pol_post") (auto intro!: prod_eqI)
qed


end
