(* ===== verification/Folder_Model.thy ===== *)
theory Folder_Model
  imports Policy_Handler "HOL-Library.Sublist"
begin

text \<open>
  The data of the folder tree of the document service: rows of \<open>services/document/internal/model\<close>, the \<open>ltree\<close>
  paths PostgreSQL keeps, the labels and names the service builds (\<open>folders.go\<close>, \<open>service.go\<close>) and the page
  cursor.
\<close>

section \<open>The \<open>ltree\<close> type\<close>

text \<open>
  A path is a text of labels separated by dots, as the Go code handles it; the operators of the extension
  work on the labels. A label has letters, digits and underscores, and at most 255 bytes.
\<close>

fun split_on :: "char \<Rightarrow> string \<Rightarrow> string list" where
  "split_on d [] = [[]]"
| "split_on d (c # cs) =
     (if c = d then [] # split_on d cs
      else (case split_on d cs of [] \<Rightarrow> [[c]] | x # xs \<Rightarrow> (c # x) # xs))"

fun join_with :: "char \<Rightarrow> string list \<Rightarrow> string" where
  "join_with d [] = []"
| "join_with d [x] = x"
| "join_with d (x # y # ys) = x @ d # join_with d (y # ys)"

definition ltree_labels :: "string \<Rightarrow> string list" where
  "ltree_labels p = (if p = [] then [] else split_on CHR ''.'' p)"

definition ltree_text :: "string list \<Rightarrow> string" where
  "ltree_text ls = join_with CHR ''.'' ls"

definition label_char :: "char \<Rightarrow> bool" where
  "label_char c = (let n = (of_char c :: nat) in
     (48 \<le> n \<and> n \<le> 57) \<or> (65 \<le> n \<and> n \<le> 90) \<or> (97 \<le> n \<and> n \<le> 122) \<or> c = CHR ''_'')"

definition label_ok :: "string \<Rightarrow> bool" where
  "label_ok l \<longleftrightarrow> l \<noteq> [] \<and> length l \<le> 255 \<and> list_all label_char l"

definition ltree_ok :: "string \<Rightarrow> bool" where
  "ltree_ok p = list_all label_ok (ltree_labels p)"

definition nlevel :: "string \<Rightarrow> int" where
  "nlevel p = int (length (ltree_labels p))"

text \<open>\<open>p <@ q\<close>: \<open>p\<close> is \<open>q\<close> or lies below it.\<close>

definition below :: "string \<Rightarrow> string \<Rightarrow> bool" where
  "below p q = prefix (ltree_labels q) (ltree_labels p)"

definition subpath :: "string \<Rightarrow> int \<Rightarrow> string" where
  "subpath p n = ltree_text (drop (nat n) (ltree_labels p))"

definition ltree_cat :: "string \<Rightarrow> string \<Rightarrow> string" where
  "ltree_cat p q = ltree_text (ltree_labels p @ ltree_labels q)"

section \<open>Labels and names\<close>

text \<open>
  The runes that survive \<open>ltreeLabel\<close>, after \<open>strings.ToLower\<close>: besides the ASCII letters, digits and
  separators, the Kelvin sign and the dotted capital I, whose lower case is in ASCII.
\<close>

fun slug_runes :: "string \<Rightarrow> string" where
  "slug_runes [] = []"
| "slug_runes (c # cs) =
     (let n = (of_char c :: nat) in
      if prefix [CHR 0xE2, CHR 0x84, CHR 0xAA] (c # cs) then CHR ''k'' # slug_runes cs
      else if prefix [CHR 0xC4, CHR 0xB0] (c # cs) then CHR ''i'' # slug_runes cs
      else if (97 \<le> n \<and> n \<le> 122) \<or> (48 \<le> n \<and> n \<le> 57) then c # slug_runes cs
      else if 65 \<le> n \<and> n \<le> 90 then char_of (n + 32) # slug_runes cs
      else if c = CHR '' '' \<or> c = CHR ''-'' \<or> c = CHR ''_'' then CHR ''_'' # slug_runes cs
      else slug_runes cs)"

definition ltreeLabel :: "env \<Rightarrow> string \<Rightarrow> uuid \<Rightarrow> string" where
  "ltreeLabel env name i =
     (let slug = slug_runes name;
          slug = (if slug = [] then ''f'' else slug);
          slug = (if length slug > 40 then take 40 slug else slug) in
      slug @ ''_'' @ filter (\<lambda>c. c \<noteq> CHR ''-'') (take 8 (uuid_String env i)))"

definition lastLabel :: "string \<Rightarrow> string" where
  "lastLabel path = rev (takeWhile (\<lambda>c. c \<noteq> CHR ''.'') (rev path))"

text \<open>Go's UTF-8 decoding: the number of bytes of the first rune; a byte that starts no rune counts as one.\<close>

definition in_range :: "nat \<Rightarrow> nat \<Rightarrow> string \<Rightarrow> nat \<Rightarrow> bool" where
  "in_range lo hi s k = (k < length s \<and> lo \<le> (of_char (s ! k) :: nat) \<and> (of_char (s ! k) :: nat) \<le> hi)"

definition rune_width :: "string \<Rightarrow> nat" where
  "rune_width s =
     (if in_range 0xC2 0xDF s 0 \<and> in_range 0x80 0xBF s 1 then 2
      else if ((in_range 0xE0 0xE0 s 0 \<and> in_range 0xA0 0xBF s 1) \<or> (in_range 0xED 0xED s 0 \<and> in_range 0x80 0x9F s 1)
               \<or> ((in_range 0xE1 0xEC s 0 \<or> in_range 0xEE 0xEF s 0) \<and> in_range 0x80 0xBF s 1)) \<and> in_range 0x80 0xBF s 2 then 3
      else if ((in_range 0xF0 0xF0 s 0 \<and> in_range 0x90 0xBF s 1) \<or> (in_range 0xF4 0xF4 s 0 \<and> in_range 0x80 0x8F s 1)
               \<or> (in_range 0xF1 0xF3 s 0 \<and> in_range 0x80 0xBF s 1)) \<and> in_range 0x80 0xBF s 2 \<and> in_range 0x80 0xBF s 3 then 4
      else 1)"

lemma rune_width_pos: "0 < rune_width s"
  by (simp add: rune_width_def)

function rune_count :: "string \<Rightarrow> nat" where
  "rune_count s = (if s = [] then 0 else Suc (rune_count (drop (rune_width s) s)))"
  by pat_completeness auto
termination
  by (relation "measure length") (use rune_width_pos in auto)

declare rune_count.simps [simp del]

text \<open>PostgreSQL stores no text that is not UTF-8; \<open>LEFT\<close> counts runes.\<close>

function utf8_ok :: "string \<Rightarrow> bool" where
  "utf8_ok s = (if s = [] then True
     else if rune_width s = 1 \<and> (of_char (hd s) :: nat) \<ge> 0x80 then False
     else utf8_ok (drop (rune_width s) s))"
  by pat_completeness auto
termination
  by (relation "measure length") (use rune_width_pos in auto)

declare utf8_ok.simps [simp del]

fun take_runes :: "nat \<Rightarrow> string \<Rightarrow> string" where
  "take_runes 0 s = []"
| "take_runes (Suc n) s = (if s = [] then [] else take (rune_width s) s @ take_runes n (drop (rune_width s) s))"

text \<open>What \<open>json.Marshal\<close> writes for a text: a byte that belongs to no rune becomes U+FFFD.\<close>

function json_text :: "string \<Rightarrow> string" where
  "json_text s = (if s = [] then []
     else (if rune_width s = 1 \<and> (of_char (hd s) :: nat) \<ge> 0x80 then [CHR 0xEF, CHR 0xBF, CHR 0xBD] else take (rune_width s) s)
       @ json_text (drop (rune_width s) s))"
  by pat_completeness auto
termination
  by (relation "measure length") (use rune_width_pos in auto)

declare json_text.simps [simp del]

definition name_forbids :: "char \<Rightarrow> bool" where
  "name_forbids c \<longleftrightarrow> c \<in> set [CHR ''/'', CHR 0x5C, CHR '':'', CHR ''*'', CHR ''?'', CHR 0x22, CHR ''<'', CHR ''>'', CHR ''|'']
     \<or> (of_char c :: nat) \<le> 0x1F"

definition validateFolderName :: "string \<Rightarrow> gerr option" where
  "validateFolderName name =
     (if 1 \<le> rune_count name \<and> rune_count name \<le> 255 \<and> \<not> list_ex name_forbids name then None
      else Some (Domain (Validation ''name'' (''must be 1..255 chars; cannot contain / '' @ [CHR 0x5C] @ '' : * ? '' @ [CHR 0x22] @ '' < > | or control chars''))))"

text \<open>
  \<open>%q\<close>: the text in double quotes, with the escapes of \<open>strconv.Quote\<close>. Which runes beyond ASCII are printable is
  the Unicode table's matter: \<open>printable\<close> is asked with the bytes of the rune.
\<close>

definition rune_value :: "string \<Rightarrow> nat" where
  "rune_value s =
     (case map (\<lambda>c. (of_char c :: nat)) (take (rune_width s) s) of
        [a, b] \<Rightarrow> (a - 0xC0) * 64 + (b - 0x80)
      | [a, b, c] \<Rightarrow> ((a - 0xE0) * 64 + (b - 0x80)) * 64 + (c - 0x80)
      | [a, b, c, e] \<Rightarrow> (((a - 0xF0) * 64 + (b - 0x80)) * 64 + (c - 0x80)) * 64 + (e - 0x80)
      | a # _ \<Rightarrow> a
      | [] \<Rightarrow> 0)"

fun hex_pad :: "nat \<Rightarrow> nat \<Rightarrow> string" where
  "hex_pad 0 n = []"
| "hex_pad (Suc k) n = hex_pad k (n div 16) @ [hex_char (n mod 16)]"

definition quote_rune :: "(string \<Rightarrow> bool) \<Rightarrow> string \<Rightarrow> string" where
  "quote_rune printable s =
     (let c = hd s; n = (of_char c :: nat); esc = (\<lambda>x. [CHR 0x5C, x]) in
      if rune_width s > 1
      then (if printable (take (rune_width s) s) then take (rune_width s) s
            else if rune_value s < 0x10000 then esc CHR ''u'' @ hex_pad 4 (rune_value s) else esc CHR ''U'' @ hex_pad 8 (rune_value s))
      else if c = CHR 0x22 \<or> c = CHR 0x5C then esc c
      else if 0x20 \<le> n \<and> n < 0x7F then [c]
      else if n = 7 then esc CHR ''a'' else if n = 8 then esc CHR ''b'' else if n = 9 then esc CHR ''t''
      else if n = 10 then esc CHR ''n'' else if n = 11 then esc CHR ''v'' else if n = 12 then esc CHR ''f''
      else if n = 13 then esc CHR ''r''
      else esc CHR ''x'' @ hex_pad 2 n)"

function quote_body :: "(string \<Rightarrow> bool) \<Rightarrow> string \<Rightarrow> string" where
  "quote_body printable s = (if s = [] then [] else quote_rune printable s @ quote_body printable (drop (rune_width s) s))"
  by pat_completeness auto
termination
  by (relation "measure (\<lambda>(_, s). length s)") (use rune_width_pos in auto)

declare quote_body.simps [simp del]

definition Quote :: "(string \<Rightarrow> bool) \<Rightarrow> string \<Rightarrow> string" where
  "Quote printable s = CHR 0x22 # quote_body printable s @ [CHR 0x22]"

section \<open>The page cursor\<close>

definition to_url :: "char \<Rightarrow> char" where
  "to_url c = (if c = CHR ''+'' then CHR ''-'' else if c = CHR ''/'' then CHR ''_'' else c)"

definition from_url :: "char \<Rightarrow> char" where
  "from_url c = (if c = CHR ''-'' then CHR ''+'' else if c = CHR ''_'' then CHR ''/'' else c)"

text \<open>\<open>base64.RawURLEncoding\<close>: the other alphabet, and no padding.\<close>

definition rawurl_encode :: "string \<Rightarrow> string" where
  "rawurl_encode s = map to_url (filter (\<lambda>c. c \<noteq> CHR ''='') (b64_encode s))"

definition rawurl_decode :: "string \<Rightarrow> string option" where
  "rawurl_decode s =
     (let t = filter (\<lambda>c. c \<noteq> CHR 0x0A \<and> c \<noteq> CHR 0x0D) s in
      if list_ex (\<lambda>c. c \<in> set [CHR ''+'', CHR ''/'', CHR ''='']) t \<or> length t mod 4 = 1 then None
      else b64_quads (map from_url t @ replicate ((4 - length t mod 4) mod 4) CHR ''=''))"

definition encodeFolderToken :: "env \<Rightarrow> string \<Rightarrow> uuid \<Rightarrow> string" where
  "encodeFolderToken env name i = rawurl_encode (name @ CHR 0x00 # uuid_String env i)"

definition decodeFolderToken :: "env \<Rightarrow> string \<Rightarrow> (string \<times> uuid) option" where
  "decodeFolderToken env token =
     (let t = TrimSpace token in
      if t = [] then Some ([], uuid_Nil)
      else (case rawurl_decode t of
         None \<Rightarrow> None
       | Some s \<Rightarrow> (case index_byte s CHR 0x00 of
           None \<Rightarrow> None
         | Some k \<Rightarrow> (case uuid_Parse env (drop (Suc k) s) of
             None \<Rightarrow> None
           | Some i \<Rightarrow> Some (take k s, i)))))"

section \<open>Rows\<close>

record folder =
  fo_TenantID :: uuid
  fo_ID :: uuid
  fo_WorkspaceID :: uuid
  fo_ParentFolderID :: "uuid option"
  fo_Name :: string
  fo_Path :: string
  fo_Depth :: int
  fo_CreatedBy :: uuid
  fo_CreatedAt :: time
  fo_UpdatedAt :: time
  fo_DeletedAt :: "time option"
  fo_Visibility :: string
  fo_OwnerID :: "uuid option"
  fo_Cohort :: "uuid option"
  fo_DeletedBy :: "uuid option"

text \<open>A folder as the service returns it: the row, the two counts and the breadcrumb.\<close>

record folder_view =
  fv_Folder :: folder
  fv_DocumentCount :: nat
  fv_ChildFolderCount :: nat
  fv_Ancestors :: "folder list"

record folder_acl =
  fa_TenantID :: uuid
  fa_ID :: uuid
  fa_FolderID :: uuid
  fa_GranteeType :: string
  fa_GranteeID :: uuid
  fa_GrantedBy :: "uuid option"
  fa_CreatedAt :: time

record stored_doc =
  dd_TenantID :: uuid
  dd_ID :: uuid
  dd_WorkspaceID :: uuid
  dd_FolderID :: "uuid option"
  dd_Title :: string
  dd_Description :: string
  dd_Tags :: "string list"
  dd_Class :: string
  dd_State :: string
  dd_Region :: string
  dd_Mime :: string
  dd_Size :: int
  dd_CreatedBy :: "uuid option"
  dd_Version :: "uuid option"
  dd_CreatedAt :: time
  dd_UpdatedAt :: time
  dd_DeletedAt :: "time option"
  dd_Cohort :: "uuid option"
  dd_DeletedBy :: "uuid option"
  dd_WormUntil :: "time option"

record workspace_row =
  ws_TenantID :: uuid
  ws_ID :: uuid
  ws_Name :: string
  ws_deleted :: bool

record member_row =
  me_TenantID :: uuid
  me_WorkspaceID :: uuid
  me_UserID :: uuid

record hold_row =
  ho_TenantID :: uuid
  ho_ID :: uuid
  ho_active :: bool

record record_row =
  re_TenantID :: uuid
  re_DocumentID :: uuid
  re_State :: string

record person_row =
  pe_TenantID :: uuid
  pe_ID :: uuid
  pe_Name :: string

text \<open>
  The tables the folder operations touch. \<open>dm_hold_documents\<close> binds documents to holds, \<open>dm_ocr\<close> is the text
  of the pages of a version, \<open>dm_versions\<close> the versions of documents.
\<close>

record doc_db = outbox_db +
  dm_folders :: "folder list"
  dm_documents :: "stored_doc list"
  dm_grants :: "folder_acl list"
  dm_workspaces :: "workspace_row list"
  dm_members :: "member_row list"
  dm_holds :: "hold_row list"
  dm_hold_documents :: "(uuid \<times> uuid \<times> uuid) list"
  dm_records :: "record_row list"
  dm_people :: "person_row list"
  dm_ocr :: "(uuid \<times> uuid \<times> int \<times> string) list"
  dm_versions :: "(uuid \<times> uuid \<times> uuid) list"

text \<open>
  What lies outside: the policy service behind its client (any answer to any request, \<open>None\<close> an RPC error),
  PostgreSQL's \<open>lower\<close>, and the sort key of its collation, whose ties it breaks by the bytes; the runes Go prints
  unescaped; and the order in which \<open>range\<close> visits the keys of a map.
\<close>

record doc_lib =
  policy_client :: "nat \<Rightarrow> uuid option \<Rightarrow> check_request \<Rightarrow> bool option"
  pg_lower :: "string \<Rightarrow> string"
  collation_key :: "string \<Rightarrow> string"
  printable :: "string \<Rightarrow> bool"
  map_order :: "nat \<Rightarrow> string list \<Rightarrow> string list"

end
