(* ===== verification/Folder_Repo.thy ===== *)
theory Folder_Repo
  imports Folder_Model
begin

text \<open>
  The statements of \<open>services/document/internal/repository/folder_repo.go\<close>, of the outbox insert in
  \<open>misc_repo.go\<close>, and the queries \<open>folders.go\<close> sends itself. Every table has the trigger that stamps
  \<open>updated_at\<close> with the time of the transaction.
\<close>

section \<open>Keys and constraints\<close>

definition fo_live :: "folder \<Rightarrow> bool" where
  "fo_live f \<longleftrightarrow> fo_DeletedAt f = None"

definition dd_live :: "stored_doc \<Rightarrow> bool" where
  "dd_live d \<longleftrightarrow> dd_DeletedAt d = None"

definition folder_is :: "uuid \<Rightarrow> uuid \<Rightarrow> folder \<Rightarrow> bool" where
  "folder_is tid i f \<longleftrightarrow> fo_TenantID f = tid \<and> fo_ID f = i"

text \<open>The columns of the unique index \<open>idx_folders_unique_name_per_parent\<close>, which covers the live rows.\<close>

definition name_key :: "doc_lib \<Rightarrow> folder \<Rightarrow> uuid \<times> uuid \<times> uuid \<times> string" where
  "name_key L f = (fo_TenantID f, fo_WorkspaceID f,
     case fo_ParentFolderID f of None \<Rightarrow> uuid_Nil | Some p \<Rightarrow> p, pg_lower L (fo_Name f))"

definition names_unique :: "doc_lib \<Rightarrow> folder list \<Rightarrow> bool" where
  "names_unique L fs = distinct (map (name_key L) (filter fo_live fs))"

definition is_person :: "'x doc_db_scheme \<Rightarrow> uuid \<Rightarrow> uuid \<Rightarrow> bool" where
  "is_person d tid i \<longleftrightarrow> (\<exists>p \<in> set (dm_people d). pe_TenantID p = tid \<and> pe_ID p = i)"

text \<open>An update of the table stands when the index accepts the result.\<close>

definition put_folders :: "doc_lib \<Rightarrow> 'a \<Rightarrow> 'x doc_db_scheme \<Rightarrow> folder list \<Rightarrow> gerr + ('a \<times> 'x doc_db_scheme)" where
  "put_folders L a d fs =
     (if names_unique L fs then Inr (a, d\<lparr>dm_folders := fs\<rparr>) else Inl (Domain sentinel_AlreadyExists))"

definition folder_refs_ok :: "'x doc_db_scheme \<Rightarrow> folder \<Rightarrow> bool" where
  "folder_refs_ok d f \<longleftrightarrow> fo_TenantID f \<in> org_ID ` set (organizations d)
     \<and> (\<exists>w \<in> set (dm_workspaces d). ws_TenantID w = fo_TenantID f \<and> ws_ID w = fo_WorkspaceID f)
     \<and> (case fo_ParentFolderID f of None \<Rightarrow> True | Some p \<Rightarrow> \<exists>g \<in> set (dm_folders d). folder_is (fo_TenantID f) p g)
     \<and> is_person d (fo_TenantID f) (fo_CreatedBy f)
     \<and> (case fo_OwnerID f of None \<Rightarrow> True | Some o' \<Rightarrow> is_person d (fo_TenantID f) o')"

definition folder_columns :: "folder \<Rightarrow> folder" where
  "folder_columns f = f\<lparr>fo_CreatedAt := pg_time (fo_CreatedAt f), fo_UpdatedAt := pg_time (fo_CreatedAt f),
     fo_Visibility := (if fo_Visibility f = [] then ''shared'' else fo_Visibility f)\<rparr>"

definition bad_text :: gerr where
  "bad_text = DBError ''database error: invalid byte sequence for encoding UTF8''"

section \<open>\<open>folder_repo.go\<close>: one folder\<close>

definition Folders_Create :: "doc_lib \<Rightarrow> folder \<Rightarrow> ('x doc_db_scheme, unit) m" where
  "Folders_Create L f0 = (let f = folder_columns f0 in
     sql ''database error: '' (\<lambda>env d.
       if \<not> utf8_ok (fo_Name f) then Inl bad_text
       else if \<not> ltree_ok (fo_Path f) then Inl (DBError ''database error: ltree syntax error'')
       else if \<not> visible env (fo_TenantID f) then Inl (DBError ''database error: row violates row-level security policy'')
       else if fo_Visibility f \<notin> set [''shared'', ''private'']
       then Inl (Domain (Validation [] ''new row for relation violates check constraint''))
       else if (\<exists>g \<in> set (dm_folders d). folder_is (fo_TenantID f) (fo_ID f) g) then Inl (Domain sentinel_AlreadyExists)
       else if \<not> names_unique L (dm_folders d @ [f]) then Inl (Domain sentinel_AlreadyExists)
       else if \<not> folder_refs_ok d f then Inl fk_violation
       else Inr ((), d\<lparr>dm_folders := dm_folders d @ [f]\<rparr>)))"

definition live_docs_in :: "'x doc_db_scheme \<Rightarrow> uuid \<Rightarrow> uuid \<Rightarrow> stored_doc list" where
  "live_docs_in d tid fid = filter (\<lambda>x. dd_TenantID x = tid \<and> dd_FolderID x = Some fid \<and> dd_live x) (dm_documents d)"

definition live_children :: "'x doc_db_scheme \<Rightarrow> uuid \<Rightarrow> uuid \<Rightarrow> folder list" where
  "live_children d tid fid = filter (\<lambda>c. fo_TenantID c = tid \<and> fo_ParentFolderID c = Some fid \<and> fo_live c) (dm_folders d)"

definition view_of :: "'x doc_db_scheme \<Rightarrow> folder \<Rightarrow> folder_view" where
  "view_of d f = \<lparr>fv_Folder = f, fv_DocumentCount = length (live_docs_in d (fo_TenantID f) (fo_ID f)),
     fv_ChildFolderCount = length (live_children d (fo_TenantID f) (fo_ID f)), fv_Ancestors = []\<rparr>"

definition Folders_GetByID :: "uuid \<Rightarrow> uuid \<Rightarrow> ('x doc_db_scheme, folder_view) m" where
  "Folders_GetByID tid i = sql_read ''database error: '' (\<lambda>env d.
     case find (folder_is tid i) (dm_folders d) of
       None \<Rightarrow> Inl (Domain sentinel_NotFound)
     | Some f \<Rightarrow> Inr (view_of d f))"

definition Folders_Ancestors :: "uuid \<Rightarrow> string \<Rightarrow> ('x doc_db_scheme, folder list) m" where
  "Folders_Ancestors tid path = sql_read ''database error: '' (\<lambda>env d. Inr (sort_key (\<lambda>f. nlevel (fo_Path f))
     (filter (\<lambda>f. fo_TenantID f = tid \<and> below path (fo_Path f) \<and> ltree_labels (fo_Path f) \<noteq> ltree_labels path \<and> fo_live f)
        (dm_folders d))))"

definition Folders_UpdateName :: "doc_lib \<Rightarrow> uuid \<Rightarrow> uuid \<Rightarrow> string \<Rightarrow> ('x doc_db_scheme, unit) m" where
  "Folders_UpdateName L tid i name = sql ''database error: '' (\<lambda>env d.
     if \<not> utf8_ok name then Inl bad_text
     else if \<not> (\<exists>f \<in> set (dm_folders d). folder_is tid i f \<and> fo_live f) then Inl (Domain sentinel_NotFound)
     else put_folders L () d (map (\<lambda>f. if folder_is tid i f \<and> fo_live f
            then f\<lparr>fo_Name := name, fo_UpdatedAt := db_now env\<rparr> else f) (dm_folders d)))"

section \<open>\<open>folder_repo.go\<close>: pages of children\<close>

definition FolderPageDefaultLimit :: int where "FolderPageDefaultLimit = 50"
definition FolderPageMaxLimit :: int where "FolderPageMaxLimit = 200"

definition page_limit :: "int \<Rightarrow> int" where
  "page_limit limit =
     (let l = (if limit \<le> 0 then FolderPageDefaultLimit else limit) in
      if l > FolderPageMaxLimit then FolderPageMaxLimit else l)"

text \<open>The order of \<open>(name, id)\<close>: the collation, its ties by bytes, then the identifier.\<close>

definition name_order :: "doc_lib \<Rightarrow> string \<Rightarrow> uuid \<Rightarrow> string \<times> string \<times> uuid" where
  "name_order L name i = (collation_key L name, name, i)"

definition key_less :: "string \<times> string \<times> uuid \<Rightarrow> string \<times> string \<times> uuid \<Rightarrow> bool" where
  "key_less x y = (case (x, y) of ((a, b, c), (a', b', c')) \<Rightarrow> a < a' \<or> a = a' \<and> (b < b' \<or> b = b' \<and> c < c'))"

definition insert_by_name :: "doc_lib \<Rightarrow> folder \<Rightarrow> folder list \<Rightarrow> folder list" where
  "insert_by_name L f fs = takeWhile (\<lambda>g. key_less (name_order L (fo_Name g) (fo_ID g)) (name_order L (fo_Name f) (fo_ID f))) fs
     @ f # dropWhile (\<lambda>g. key_less (name_order L (fo_Name g) (fo_ID g)) (name_order L (fo_Name f) (fo_ID f))) fs"

definition sort_by_name :: "doc_lib \<Rightarrow> folder list \<Rightarrow> folder list" where
  "sort_by_name L fs = foldr (insert_by_name L) fs []"

definition child_of :: "uuid \<Rightarrow> uuid \<Rightarrow> uuid option \<Rightarrow> folder \<Rightarrow> bool" where
  "child_of tid wid parent f \<longleftrightarrow> fo_TenantID f = tid \<and> fo_WorkspaceID f = wid \<and> fo_live f \<and> fo_ParentFolderID f = parent"

definition after_cursor :: "doc_lib \<Rightarrow> string \<Rightarrow> uuid \<Rightarrow> folder \<Rightarrow> bool" where
  "after_cursor L cname cid f \<longleftrightarrow>
     cid = uuid_Nil \<or> key_less (name_order L cname cid) (name_order L (fo_Name f) (fo_ID f))"

text \<open>\<open>fillCounts\<close>: the two aggregates; documents count only in the workspace of the page.\<close>

definition fillCounts :: "uuid \<Rightarrow> uuid \<Rightarrow> folder list \<Rightarrow> ('x doc_db_scheme, folder_view list) m" where
  "fillCounts tid wid page =
     (if page = [] then tret []
      else tbind (sql_read ''database error: '' (\<lambda>env d. Inr (map (\<lambda>f. length (live_children d tid (fo_ID f))) page))) (\<lambda>children.
           tbind (sql_read ''database error: '' (\<lambda>env d. Inr (map (\<lambda>f.
                    length (filter (\<lambda>x. dd_WorkspaceID x = wid) (live_docs_in d tid (fo_ID f)))) page))) (\<lambda>docs.
           tret (map (\<lambda>(f, c, n). \<lparr>fv_Folder = f, fv_DocumentCount = n, fv_ChildFolderCount = c, fv_Ancestors = []\<rparr>)
                  (zip page (zip children docs))))))"

definition Folders_ListByParent ::
    "doc_lib \<Rightarrow> uuid \<Rightarrow> uuid \<Rightarrow> uuid option \<Rightarrow> string \<Rightarrow> uuid \<Rightarrow> int \<Rightarrow> ('x doc_db_scheme, folder_view list) m" where
  "Folders_ListByParent L tid wid parent cname cid limit =
     tbind (sql_read ''database error: '' (\<lambda>env d.
              if cid \<noteq> uuid_Nil \<and> \<not> utf8_ok cname then Inl bad_text
              else Inr (take (nat (page_limit limit)) (sort_by_name L
                (filter (\<lambda>f. child_of tid wid parent f \<and> after_cursor L cname cid f) (dm_folders d)))))) (\<lambda>page.
     fillCounts tid wid page)"

section \<open>\<open>folder_repo.go\<close>: moving\<close>

definition moved :: "string \<Rightarrow> string \<Rightarrow> int \<Rightarrow> time \<Rightarrow> folder \<Rightarrow> folder" where
  "moved oldPath newParentPath newDepth now f = f\<lparr>
     fo_Path := ltree_cat newParentPath (subpath (fo_Path f) (nlevel oldPath - 1)),
     fo_Depth := newDepth + (fo_Depth f - nlevel oldPath + 1), fo_UpdatedAt := now\<rparr>"

definition Folders_Move_paths :: "doc_lib \<Rightarrow> uuid \<Rightarrow> string \<Rightarrow> string \<Rightarrow> int \<Rightarrow> ('x doc_db_scheme, unit) m" where
  "Folders_Move_paths L tid oldPath newParentPath newDepth = sql ''database error: '' (\<lambda>env d.
     put_folders L () d (map (\<lambda>f. if fo_TenantID f = tid \<and> below (fo_Path f) oldPath \<and> fo_live f
       then moved oldPath newParentPath newDepth (db_now env) f else f) (dm_folders d)))"

text \<open>The trigger \<open>update_folders_updated_at\<close> stamps the row the second statement of \<open>Move\<close> writes.\<close>

definition Folders_Move_parent :: "doc_lib \<Rightarrow> uuid \<Rightarrow> uuid \<Rightarrow> string \<Rightarrow> ('x doc_db_scheme, unit) m" where
  "Folders_Move_parent L tid i newParentPath = sql ''database error: '' (\<lambda>env d.
     case filter (\<lambda>g. fo_TenantID g = tid \<and> fo_Path g = newParentPath \<and> fo_live g) (dm_folders d) of
       g # g' # _ \<Rightarrow> Inl (DBError ''database error: more than one row returned by a subquery used as an expression'')
     | ps \<Rightarrow> put_folders L () d (map (\<lambda>f. if folder_is tid i f
         then f\<lparr>fo_ParentFolderID := (case ps of [] \<Rightarrow> None | g # _ \<Rightarrow> Some (fo_ID g)), fo_UpdatedAt := db_now env\<rparr> else f) (dm_folders d)))"

definition Folders_Move :: "doc_lib \<Rightarrow> uuid \<Rightarrow> uuid \<Rightarrow> string \<Rightarrow> string \<Rightarrow> int \<Rightarrow> ('x doc_db_scheme, unit) m" where
  "Folders_Move L tid i oldPath newParentPath newDepth =
     tbind (Folders_Move_paths L tid oldPath newParentPath newDepth) (\<lambda>_.
     Folders_Move_parent L tid i newParentPath)"

section \<open>\<open>folder_repo.go\<close>: deleting and restoring subtrees\<close>

record subtree_delete_result =
  sr_CohortID :: uuid
  sr_FolderIDs :: "uuid list"
  sr_DocumentIDs :: "uuid list"

definition in_subtree :: "uuid \<Rightarrow> string \<Rightarrow> folder \<Rightarrow> bool" where
  "in_subtree tid rootPath f \<longleftrightarrow> fo_TenantID f = tid \<and> fo_live f \<and> below (fo_Path f) rootPath"

definition doc_in_subtree :: "'x doc_db_scheme \<Rightarrow> uuid \<Rightarrow> string \<Rightarrow> stored_doc \<Rightarrow> bool" where
  "doc_in_subtree d tid rootPath x \<longleftrightarrow> dd_TenantID x = tid \<and> dd_live x
     \<and> (\<exists>f \<in> set (dm_folders d). in_subtree tid rootPath f \<and> dd_FolderID x = Some (fo_ID f))"

definition trash_doc :: "time \<Rightarrow> uuid \<Rightarrow> uuid \<Rightarrow> stored_doc \<Rightarrow> stored_doc" where
  "trash_doc now cohort uid x = x\<lparr>dd_DeletedAt := Some now, dd_Cohort := Some cohort, dd_DeletedBy := Some uid, dd_UpdatedAt := now\<rparr>"

definition trash_folder :: "time \<Rightarrow> uuid \<Rightarrow> uuid \<Rightarrow> folder \<Rightarrow> folder" where
  "trash_folder now cohort uid f = f\<lparr>fo_DeletedAt := Some now, fo_Cohort := Some cohort, fo_DeletedBy := Some uid, fo_UpdatedAt := now\<rparr>"

definition trash_documents :: "uuid \<Rightarrow> string \<Rightarrow> uuid \<Rightarrow> uuid \<Rightarrow> ('x doc_db_scheme, uuid list) m" where
  "trash_documents tid rootPath cohort uid = sql ''database error: '' (\<lambda>env d.
     Inr (map dd_ID (filter (doc_in_subtree d tid rootPath) (dm_documents d)),
       d\<lparr>dm_documents := map (\<lambda>x. if doc_in_subtree d tid rootPath x then trash_doc (db_now env) cohort uid x else x) (dm_documents d)\<rparr>))"

definition trash_folders :: "uuid \<Rightarrow> string \<Rightarrow> uuid \<Rightarrow> uuid \<Rightarrow> ('x doc_db_scheme, uuid list) m" where
  "trash_folders tid rootPath cohort uid = sql ''database error: '' (\<lambda>env d.
     Inr (map fo_ID (filter (in_subtree tid rootPath) (dm_folders d)),
       d\<lparr>dm_folders := map (\<lambda>f. if in_subtree tid rootPath f then trash_folder (db_now env) cohort uid f else f) (dm_folders d)\<rparr>))"

definition Folders_SoftDeleteSubtree :: "uuid \<Rightarrow> uuid \<Rightarrow> uuid \<Rightarrow> ('x doc_db_scheme, subtree_delete_result) m" where
  "Folders_SoftDeleteSubtree tid rootID deletedBy =
     tbind (draw_id ''uuid: '') (\<lambda>cohort.
     tbind (sql_read ''database error: '' (\<lambda>env d.
              case find (\<lambda>f. folder_is tid rootID f \<and> fo_live f) (dm_folders d) of
                None \<Rightarrow> Inl (Domain sentinel_NotFound)
              | Some f \<Rightarrow> Inr (fo_Path f))) (\<lambda>rootPath.
     tbind (trash_documents tid rootPath cohort deletedBy) (\<lambda>docIDs.
     tbind (trash_folders tid rootPath cohort deletedBy) (\<lambda>folderIDs.
     tret \<lparr>sr_CohortID = cohort, sr_FolderIDs = folderIDs, sr_DocumentIDs = docIDs\<rparr>))))"

text \<open>Why a document may not go to the trash, if there is a reason.\<close>

definition protection :: "'x doc_db_scheme \<Rightarrow> time \<Rightarrow> stored_doc \<Rightarrow> string option" where
  "protection d now x =
     (if dd_State x = ''legal_hold''
         \<or> (\<exists>(t, h, i) \<in> set (dm_hold_documents d). t = dd_TenantID x \<and> i = dd_ID x
              \<and> (\<exists>r \<in> set (dm_holds d). ho_TenantID r = t \<and> ho_ID r = h \<and> ho_active r))
      then Some ''legal hold''
      else if (\<exists>r \<in> set (dm_records d). re_TenantID r = dd_TenantID x \<and> re_DocumentID r = dd_ID x
                 \<and> re_State r \<in> set [''declared'', ''cutoff_pending''])
      then Some ''declared record''
      else if (case dd_WormUntil x of None \<Rightarrow> False | Some t \<Rightarrow> now < t) then Some ''WORM retention''
      else None)"

record protected_document =
  pr_ID :: uuid
  pr_Title :: string
  pr_Reason :: string

definition protected_in :: "'x doc_db_scheme \<Rightarrow> time \<Rightarrow> uuid \<Rightarrow> uuid \<Rightarrow> stored_doc list" where
  "protected_in d now tid rootID =
     (case find (\<lambda>f. folder_is tid rootID f \<and> fo_live f) (dm_folders d) of
        None \<Rightarrow> []
      | Some r \<Rightarrow> filter (\<lambda>x. doc_in_subtree d tid (fo_Path r) x \<and> protection d now x \<noteq> None) (dm_documents d))"

definition ProtectedDocumentsInSubtree :: "doc_lib \<Rightarrow> uuid \<Rightarrow> uuid \<Rightarrow> nat \<Rightarrow> ('x doc_db_scheme, protected_document list \<times> nat) m" where
  "ProtectedDocumentsInSubtree L tid rootID limit = sql_read ''database error: '' (\<lambda>env d.
     let docs = sort_key (\<lambda>x. collation_key L (dd_Title x)) (sort_key dd_Title (sort_key dd_ID (protected_in d (db_now env) tid rootID))) in
     Inr (map (\<lambda>x. \<lparr>pr_ID = dd_ID x, pr_Title = dd_Title x, pr_Reason = (case protection d (db_now env) x of None \<Rightarrow> [] | Some r \<Rightarrow> r)\<rparr>)
            (take limit docs), length docs))"

definition restore_folder_row :: "time \<Rightarrow> folder \<Rightarrow> folder" where
  "restore_folder_row now f = f\<lparr>fo_DeletedAt := None, fo_Cohort := None, fo_DeletedBy := None, fo_UpdatedAt := now\<rparr>"

definition restore_doc_row :: "time \<Rightarrow> stored_doc \<Rightarrow> stored_doc" where
  "restore_doc_row now x = x\<lparr>dd_DeletedAt := None, dd_Cohort := None, dd_DeletedBy := None, dd_UpdatedAt := now\<rparr>"

definition restore_folders :: "doc_lib \<Rightarrow> uuid \<Rightarrow> uuid \<Rightarrow> ('x doc_db_scheme, unit) m" where
  "restore_folders L tid cohort = sql ''database error: '' (\<lambda>env d.
     put_folders L () d (map (\<lambda>f. if fo_TenantID f = tid \<and> fo_Cohort f = Some cohort then restore_folder_row (db_now env) f else f) (dm_folders d)))"

definition restore_documents :: "uuid \<Rightarrow> uuid \<Rightarrow> ('x doc_db_scheme, uuid list) m" where
  "restore_documents tid cohort = sql ''database error: '' (\<lambda>env d.
     Inr (map dd_ID (filter (\<lambda>x. dd_TenantID x = tid \<and> dd_Cohort x = Some cohort) (dm_documents d)),
       d\<lparr>dm_documents := map (\<lambda>x. if dd_TenantID x = tid \<and> dd_Cohort x = Some cohort then restore_doc_row (db_now env) x else x) (dm_documents d)\<rparr>))"

definition Folders_RestoreSubtree :: "doc_lib \<Rightarrow> uuid \<Rightarrow> uuid \<Rightarrow> ('x doc_db_scheme, uuid list) m" where
  "Folders_RestoreSubtree L tid rootID =
     tbind (sql_read ''database error: '' (\<lambda>env d.
              case find (\<lambda>f. folder_is tid rootID f \<and> \<not> fo_live f) (dm_folders d) of
                None \<Rightarrow> Inl (Domain sentinel_NotFound)
              | Some f \<Rightarrow> Inr (fo_Cohort f))) (\<lambda>cohort.
     case cohort of
       None \<Rightarrow> tfail (Domain (Validation ''folder'' ''deleted before cascade support; cannot restore''))
     | Some c \<Rightarrow> tbind (restore_folders L tid c) (\<lambda>_. restore_documents tid c))"

section \<open>\<open>folder_repo.go\<close>: visibility and grants\<close>

definition Folders_UpdateVisibility :: "uuid \<Rightarrow> uuid \<Rightarrow> string \<Rightarrow> uuid option \<Rightarrow> ('x doc_db_scheme, unit) m" where
  "Folders_UpdateVisibility tid i visibility owner = sql ''database error: '' (\<lambda>env d.
     if \<not> (\<exists>f \<in> set (dm_folders d). folder_is tid i f \<and> fo_live f) then Inl (Domain sentinel_NotFound)
     else if visibility \<notin> set [''shared'', ''private'']
     then Inl (Domain (Validation [] ''new row for relation violates check constraint''))
     else if (case owner of None \<Rightarrow> False | Some u \<Rightarrow> \<not> is_person d tid u) then Inl fk_violation
     else Inr ((), d\<lparr>dm_folders := map (\<lambda>f. if folder_is tid i f \<and> fo_live f
            then f\<lparr>fo_Visibility := visibility, fo_OwnerID := owner, fo_UpdatedAt := db_now env\<rparr> else f) (dm_folders d)\<rparr>))"

definition acl_on :: "uuid \<Rightarrow> uuid \<Rightarrow> folder_acl \<Rightarrow> bool" where
  "acl_on tid fid g \<longleftrightarrow> fa_TenantID g = tid \<and> fa_FolderID g = fid"

definition acl_slot :: "folder_acl \<Rightarrow> uuid \<times> uuid \<times> string \<times> uuid" where
  "acl_slot g = (fa_TenantID g, fa_FolderID g, fa_GranteeType g, fa_GranteeID g)"

definition Folders_ListGrants :: "uuid \<Rightarrow> uuid \<Rightarrow> ('x doc_db_scheme, folder_acl list) m" where
  "Folders_ListGrants tid fid = sql_read ''database error: '' (\<lambda>env d.
     Inr (sort_key fa_CreatedAt (filter (acl_on tid fid) (dm_grants d))))"

definition Folders_AddGrant :: "folder_acl \<Rightarrow> ('x doc_db_scheme, unit) m" where
  "Folders_AddGrant g0 = (let g = g0\<lparr>fa_CreatedAt := pg_time (fa_CreatedAt g0)\<rparr> in
     sql ''database error: '' (\<lambda>env d.
       if \<not> visible env (fa_TenantID g) then Inl (DBError ''database error: row violates row-level security policy'')
       else if fa_GranteeType g \<notin> set [''user'', ''group'']
       then Inl (Domain (Validation [] ''new row for relation violates check constraint''))
       else if acl_slot g \<in> acl_slot ` set (dm_grants d) then Inr ((), d)
       else if (\<exists>h \<in> set (dm_grants d). fa_TenantID h = fa_TenantID g \<and> fa_ID h = fa_ID g) then Inl (Domain sentinel_AlreadyExists)
       else if fa_TenantID g \<notin> org_ID ` set (organizations d)
         \<or> \<not> (\<exists>f \<in> set (dm_folders d). folder_is (fa_TenantID g) (fa_FolderID g) f)
         \<or> (case fa_GrantedBy g of None \<Rightarrow> False | Some u \<Rightarrow> \<not> is_person d (fa_TenantID g) u) then Inl fk_violation
       else Inr ((), d\<lparr>dm_grants := dm_grants d @ [g]\<rparr>)))"

definition Folders_RemoveGrant :: "uuid \<Rightarrow> uuid \<Rightarrow> string \<Rightarrow> uuid \<Rightarrow> ('x doc_db_scheme, unit) m" where
  "Folders_RemoveGrant tid fid ty gid = sql ''database error: '' (\<lambda>env d.
     if (tid, fid, ty, gid) \<notin> acl_slot ` set (dm_grants d) then Inl (Domain sentinel_NotFound)
     else Inr ((), d\<lparr>dm_grants := filter (\<lambda>g. acl_slot g \<noteq> (tid, fid, ty, gid)) (dm_grants d)\<rparr>))"

text \<open>A grant that reaches the user, directly or through one of the groups.\<close>

definition acl_reaches :: "uuid \<Rightarrow> uuid list \<Rightarrow> folder_acl \<Rightarrow> bool" where
  "acl_reaches uid groups g \<longleftrightarrow> (fa_GranteeType g = ''user'' \<and> fa_GranteeID g = uid)
     \<or> (fa_GranteeType g = ''group'' \<and> fa_GranteeID g \<in> set groups)"

definition granted :: "'x doc_db_scheme \<Rightarrow> uuid \<Rightarrow> uuid \<Rightarrow> uuid \<Rightarrow> uuid list \<Rightarrow> bool" where
  "granted d tid fid uid groups \<longleftrightarrow> (\<exists>g \<in> set (dm_grants d). acl_on tid fid g \<and> acl_reaches uid groups g)"

definition Folders_CanAccessFolder :: "uuid \<Rightarrow> uuid \<Rightarrow> uuid \<Rightarrow> uuid list \<Rightarrow> bool \<Rightarrow> ('x doc_db_scheme, bool) m" where
  "Folders_CanAccessFolder tid fid uid groups isAdmin =
     (if isAdmin then tret True
      else tbind (sql_read ''database error: '' (\<lambda>env d.
             case find (\<lambda>f. folder_is tid fid f \<and> fo_live f) (dm_folders d) of
               None \<Rightarrow> Inl (Domain sentinel_NotFound)
             | Some f \<Rightarrow> Inr (fo_Visibility f, fo_OwnerID f))) (\<lambda>(visibility, owner).
           if visibility = ''shared'' then tret True
           else if owner = Some uid then tret True
           else sql_read ''database error: '' (\<lambda>env d. Inr (granted d tid fid uid groups))))"

definition accessible_row :: "'x doc_db_scheme \<Rightarrow> uuid \<Rightarrow> uuid \<Rightarrow> uuid list \<Rightarrow> folder \<Rightarrow> bool" where
  "accessible_row d tid uid groups f \<longleftrightarrow> fo_TenantID f = tid \<and> fo_live f
     \<and> (fo_Visibility f = ''shared'' \<or> fo_OwnerID f = Some uid \<or> granted d tid (fo_ID f) uid groups)"

definition Folders_FilterAccessibleFolderIDs :: "uuid \<Rightarrow> uuid list \<Rightarrow> uuid \<Rightarrow> uuid list \<Rightarrow> ('x doc_db_scheme, uuid list) m" where
  "Folders_FilterAccessibleFolderIDs tid ids uid groups =
     (if ids = [] then tret []
      else sql_read ''database error: '' (\<lambda>env d.
        Inr (map fo_ID (filter (\<lambda>f. fo_ID f \<in> set ids \<and> accessible_row d tid uid groups f) (dm_folders d)))))"

record shared_folder =
  sh_Folder :: folder_view
  sh_WorkspaceName :: string
  sh_GrantedVia :: string
  sh_GroupID :: "uuid option"
  sh_GrantedAt :: time

text \<open>\<open>DISTINCT ON (f.id)\<close> in the order of the query: direct grants before group grants, older before newer.\<close>

definition best_grant :: "folder_acl list \<Rightarrow> folder_acl option" where
  "best_grant gs = (case sort_key fa_CreatedAt (filter (\<lambda>g. fa_GranteeType g = ''user'') gs)
       @ sort_key fa_CreatedAt (filter (\<lambda>g. fa_GranteeType g \<noteq> ''user'') gs) of
     [] \<Rightarrow> None | g # _ \<Rightarrow> Some g)"

definition shared_row :: "'x doc_db_scheme \<Rightarrow> uuid \<Rightarrow> uuid \<Rightarrow> uuid list \<Rightarrow> folder \<Rightarrow> shared_folder option" where
  "shared_row d tid uid groups f =
     (case (find (\<lambda>w. ws_TenantID w = tid \<and> ws_ID w = fo_WorkspaceID f \<and> \<not> ws_deleted w) (dm_workspaces d),
            best_grant (filter (\<lambda>g. acl_on tid (fo_ID f) g \<and> acl_reaches uid groups g) (dm_grants d))) of
        (Some w, Some g) \<Rightarrow>
          if fo_TenantID f = tid \<and> fo_live f \<and> fo_OwnerID f \<noteq> Some uid
          then Some \<lparr>sh_Folder = view_of d f, sh_WorkspaceName = ws_Name w, sh_GrantedVia = fa_GranteeType g,
                 sh_GroupID = (if fa_GranteeType g = ''group'' then Some (fa_GranteeID g) else None), sh_GrantedAt = fa_CreatedAt g\<rparr>
          else None
      | _ \<Rightarrow> None)"

definition Folders_ListSharedWithUser :: "uuid \<Rightarrow> uuid \<Rightarrow> uuid list \<Rightarrow> ('x doc_db_scheme, shared_folder list) m" where
  "Folders_ListSharedWithUser tid uid groups = sql_read ''database error: '' (\<lambda>env d.
     Inr (List.map_filter (shared_row d tid uid groups) (sort_key fo_ID (dm_folders d))))"

section \<open>\<open>folder_repo.go\<close>: empty folders\<close>

definition empty_leaf :: "'x doc_db_scheme \<Rightarrow> uuid \<Rightarrow> folder \<Rightarrow> bool" where
  "empty_leaf d tid f \<longleftrightarrow> fo_TenantID f = tid \<and> fo_live f \<and> live_children d tid (fo_ID f) = [] \<and> live_docs_in d tid (fo_ID f) = []"

text \<open>\<open>uuid_Nil\<close> is the whole tenant, \<open>None\<close> the zero time.\<close>

definition cleanup_scope :: "uuid \<Rightarrow> time option \<Rightarrow> folder \<Rightarrow> bool" where
  "cleanup_scope wid olderThan f \<longleftrightarrow> (wid = uuid_Nil \<or> fo_WorkspaceID f = wid)
     \<and> (case olderThan of None \<Rightarrow> True | Some t \<Rightarrow> fo_CreatedAt f < pg_time t)"

definition Folders_ListEmptyFolders :: "uuid \<Rightarrow> uuid \<Rightarrow> time option \<Rightarrow> int \<Rightarrow> ('x doc_db_scheme, folder list) m" where
  "Folders_ListEmptyFolders tid wid olderThan limit = sql_read ''database error: '' (\<lambda>env d.
     Inr (take (nat (page_limit limit)) (sort_key (\<lambda>f. - fo_Depth f) (sort_key fo_ID
       (filter (\<lambda>f. empty_leaf d tid f \<and> cleanup_scope wid olderThan f) (dm_folders d))))))"

section \<open>Queries of \<open>folders.go\<close>\<close>

definition query_direct_grant :: "uuid \<Rightarrow> uuid \<Rightarrow> uuid \<Rightarrow> uuid list \<Rightarrow> ('x doc_db_scheme, bool) m" where
  "query_direct_grant tid fid uid groups = sql_read [] (\<lambda>env d.
     Inr ((\<exists>f \<in> set (dm_folders d). folder_is tid fid f \<and> fo_live f \<and> fo_OwnerID f = Some uid) \<or> granted d tid fid uid groups))"

definition query_workspace_grant :: "uuid \<Rightarrow> uuid \<Rightarrow> uuid \<Rightarrow> uuid list \<Rightarrow> ('x doc_db_scheme, bool) m" where
  "query_workspace_grant tid wid uid groups = sql_read [] (\<lambda>env d.
     Inr (\<exists>f \<in> set (dm_folders d). fo_TenantID f = tid \<and> fo_WorkspaceID f = wid \<and> fo_live f \<and> granted d tid (fo_ID f) uid groups))"

section \<open>\<open>misc_repo.go\<close>: the outbox\<close>

text \<open>This insert leaves the user agent and the trace context to their defaults.\<close>

definition doc_outbox_row :: "env \<Rightarrow> outbox_event \<Rightarrow> json \<Rightarrow> outbox_row" where
  "doc_outbox_row env e payload = (outbox_row_of env e payload)
     \<lparr>o_CreatedAt := pg_time (e_CreatedAt e), o_UserAgent := None, o_TraceContext := []\<rparr>"

definition Doc_Outbox_Insert :: "outbox_event \<Rightarrow> json \<Rightarrow> ('x outbox_db_scheme, unit) m" where
  "Doc_Outbox_Insert e payload = sql ''database error: '' (\<lambda>env d.
     if \<not> visible env (e_TenantID e) then Inl (DBError ''database error: row violates row-level security policy'')
     else if e_ID e \<in> o_ID ` set (outbox d) then Inl (Domain sentinel_AlreadyExists)
     else Inr ((), d\<lparr>outbox := outbox d @ [doc_outbox_row env e payload]\<rparr>))"

text \<open>\<open>model.NewOutboxEvent\<close> followed by the insert.\<close>

definition doc_emit :: "uuid \<Rightarrow> string \<Rightarrow> string \<Rightarrow> uuid \<Rightarrow> json \<Rightarrow> ('x outbox_db_scheme, unit) m" where
  "doc_emit tid ty agg aid payload = with_env (\<lambda>env.
     tbind (draw_id ''gen outbox id: '') (\<lambda>i.
     Doc_Outbox_Insert \<lparr>e_ID = i, e_TenantID = tid, e_EventType = ty, e_AggregateType = agg, e_AggregateID = aid,
       e_Payload = Some payload, e_CreatedAt = go_now env\<rparr> payload))"

end
