(* ===== verification/Folder_Service.thy ===== *)
theory Folder_Service
  imports Folder_Repo
begin

text \<open>
  The folder operations of the document service (\<open>services/document/internal/service/folders.go\<close>), with the
  helpers they call: the caller, the permission check and the validators of \<open>service.go\<close>, and the search
  projection of \<open>search_reindex.go\<close>, which a restore re-emits.
\<close>

section \<open>\<open>service.go\<close>: caller and permission\<close>

definition errs_Is :: "gerr \<Rightarrow> derror \<Rightarrow> bool" where
  "errs_Is e t = (case e of Domain x \<Rightarrow> er_Kind x = er_Kind t \<and> er_Code x = er_Code t | _ \<Rightarrow> False)"

text \<open>Code that goes on after an error.\<close>

definition on_error :: "('d, 'a) m \<Rightarrow> (gerr \<Rightarrow> ('d, 'a) m) \<Rightarrow> ('d, 'a) m" where
  "on_error f h = (\<lambda>env w. case f env w of (Inl e, w') \<Rightarrow> h e env w' | (Inr a, w') \<Rightarrow> (Inr a, w'))"

text \<open>\<open>fmt.Errorf("label: %w", err)\<close>: a domain error stays one.\<close>

definition wrap_err :: "string \<Rightarrow> gerr \<Rightarrow> gerr" where
  "wrap_err label e = (case e of DBError m \<Rightarrow> DBError (label @ m) | _ \<Rightarrow> e)"

text \<open>The user may be absent; the tenant may not.\<close>

definition doc_mustCaller :: "reqctx \<Rightarrow> gerr + (uuid \<times> uuid)" where
  "doc_mustCaller c =
     (case GetTenantID c of
        Inl _ \<Rightarrow> Inl (Domain sentinel_Unauthorized)
      | Inr tid \<Rightarrow>
          if tid = uuid_Nil then Inl (Domain sentinel_Unauthorized)
          else (case GetUserID c of Inl _ \<Rightarrow> Inr (tid, uuid_Nil) | Inr u \<Rightarrow> Inr (tid, u)))"

definition doc_caller :: "(uuid \<Rightarrow> uuid \<Rightarrow> ('d, 'a) m) \<Rightarrow> ('d, 'a) m" where
  "doc_caller f = with_env (\<lambda>env. tbind (tlift (doc_mustCaller (ctx env))) (\<lambda>(tid, uid). f tid uid))"

definition callerIsTenantAdmin :: "reqctx \<Rightarrow> bool" where
  "callerIsTenantAdmin c = (GetUserRole c = ''owner'' \<or> GetUserRole c = ''admin'')"

text \<open>
  \<open>checkPermission\<close>: the role joins the context of the request; an RPC error denies. The answer may differ from
  call to call.
\<close>

definition permission_request :: "env \<Rightarrow> uuid \<Rightarrow> string \<Rightarrow> string \<Rightarrow> uuid \<Rightarrow> (string \<times> json) list \<Rightarrow> check_request" where
  "permission_request env uid action ty rid extra =
     \<lparr>cq_SubjectType = ''user'', cq_SubjectID = uuid_String env uid, cq_Action = action, cq_ResourceType = ty,
      cq_ResourceID = uuid_String env rid,
      cq_Context = (let role = GetUserRole (ctx env) in
        if role \<noteq> [] \<and> map_of extra ''user_role'' = None then extra @ [(''user_role'', JStr role)] else extra)\<rparr>"

definition outgoing_tenant :: "reqctx \<Rightarrow> uuid option" where
  "outgoing_tenant c = (case GetTenantID c of Inl _ \<Rightarrow> None | Inr t \<Rightarrow> if t = uuid_Nil then None else Some t)"

definition checkPermission :: "doc_lib \<Rightarrow> uuid \<Rightarrow> string \<Rightarrow> string \<Rightarrow> uuid \<Rightarrow> (string \<times> json) list \<Rightarrow> ('d, bool) m" where
  "checkPermission L uid action ty rid extra = (\<lambda>env w.
     if \<not> utf8_ok (GetUserRole (ctx env)) then (Inl (DBError ''build context struct: invalid UTF-8''), w)
     else (Inr (policy_client L (stmts w) (outgoing_tenant (ctx env)) (permission_request env uid action ty rid extra) = Some True), w))"

definition requirePermission :: "doc_lib \<Rightarrow> uuid \<Rightarrow> string \<Rightarrow> string \<Rightarrow> uuid \<Rightarrow> (string \<times> json) list \<Rightarrow> ('d, unit) m" where
  "requirePermission L uid action ty rid extra =
     tbind (checkPermission L uid action ty rid extra) (\<lambda>ok. tguard ok (Domain sentinel_Forbidden))"

definition in_workspace :: "env \<Rightarrow> uuid \<Rightarrow> (string \<times> json) list" where
  "in_workspace env wid = [(''workspace_id'', JStr (uuid_String env wid))]"

text \<open>\<open>tx\<close>-scoped check of the caller's right on a folder the transaction has read.\<close>

definition require_on_folder :: "doc_lib \<Rightarrow> uuid \<Rightarrow> string \<Rightarrow> folder \<Rightarrow> ('d, unit) m" where
  "require_on_folder L uid action f = with_env (\<lambda>env.
     requirePermission L uid action ''folder'' (fo_ID f) (in_workspace env (fo_WorkspaceID f)))"

definition maxFolderDepth :: int where "maxFolderDepth = 20"

section \<open>\<open>folders.go\<close>: creating and reading\<close>

definition folderNameTaken :: "doc_lib \<Rightarrow> string \<Rightarrow> gerr" where
  "folderNameTaken L name = Domain \<lparr>er_Kind = KindAlreadyExists, er_Code = ''ALREADY_EXISTS'',
     er_Message = ''a folder named '' @ Quote (printable L) name @ '' already exists here '' @ [CHR 0xE2, CHR 0x80, CHR 0x94]
       @ '' pick a different name'', er_Field = []\<rparr>"

definition name_conflict :: "doc_lib \<Rightarrow> string \<Rightarrow> ('d, unit) m \<Rightarrow> ('d, unit) m" where
  "name_conflict L name f = on_error f (\<lambda>e.
     tfail (if errs_Is e sentinel_AlreadyExists then folderNameTaken L name else e))"

record create_folder_input =
  cf_WorkspaceID :: uuid
  cf_Name :: string
  cf_ParentFolderID :: "uuid option"
  cf_Visibility :: string

definition new_folder :: "env \<Rightarrow> create_folder_input \<Rightarrow> uuid \<Rightarrow> uuid \<Rightarrow> uuid \<Rightarrow> folder" where
  "new_folder env inp tid uid i =
     (let visibility = (if cf_Visibility inp = [] then ''shared'' else cf_Visibility inp) in
      \<lparr>fo_TenantID = tid, fo_ID = i, fo_WorkspaceID = cf_WorkspaceID inp, fo_ParentFolderID = cf_ParentFolderID inp,
       fo_Name = cf_Name inp, fo_Path = [], fo_Depth = 0, fo_CreatedBy = uid, fo_CreatedAt = go_now env,
       fo_UpdatedAt = go_now env, fo_DeletedAt = None, fo_Visibility = visibility,
       fo_OwnerID = (if visibility = ''private'' then Some uid else None), fo_Cohort = None, fo_DeletedBy = None\<rparr>)"

text \<open>The path and the depth the parent gives; the parent may be in the trash.\<close>

definition place_folder :: "env \<Rightarrow> folder \<Rightarrow> ('x doc_db_scheme, folder) m" where
  "place_folder env f =
     (case fo_ParentFolderID f of
        None \<Rightarrow> tret (f\<lparr>fo_Path := ltreeLabel env (fo_Name f) (fo_ID f), fo_Depth := 0\<rparr>)
      | Some p \<Rightarrow>
          tbind (Folders_GetByID (fo_TenantID f) p) (\<lambda>v. let parent = fv_Folder v in
          tbind (tguard (fo_WorkspaceID parent = fo_WorkspaceID f)
                   (Domain (Validation ''parent_folder_id'' ''parent is in a different workspace''))) (\<lambda>_.
          tbind (tguard (fo_Depth parent + 1 < maxFolderDepth)
                   (Domain (Validation ''parent_folder_id'' ''max folder nesting depth exceeded''))) (\<lambda>_.
          tret (f\<lparr>fo_Depth := fo_Depth parent + 1, fo_Path := fo_Path parent @ ''.'' @ ltreeLabel env (fo_Name f) (fo_ID f)\<rparr>)))))"

definition folder_created :: "env \<Rightarrow> uuid \<Rightarrow> folder \<Rightarrow> json" where
  "folder_created env uid f = JObj [(''folder_id'', JStr (uuid_String env (fo_ID f))),
     (''workspace_id'', JStr (uuid_String env (fo_WorkspaceID f))), (''path'', JStr (fo_Path f)), (''name'', JStr (fo_Name f)),
     (''created_by'', JStr (uuid_String env uid))]"

definition CreateFolder :: "doc_lib \<Rightarrow> create_folder_input \<Rightarrow> ('x doc_db_scheme, folder) m" where
  "CreateFolder L inp = doc_caller (\<lambda>tid uid. with_env (\<lambda>env.
     tbind (tguard (cf_WorkspaceID inp \<noteq> uuid_Nil) (Domain (Validation ''workspace_id'' ''required''))) (\<lambda>_.
     tbind (case validateFolderName (cf_Name inp) of None \<Rightarrow> tret () | Some e \<Rightarrow> tfail e) (\<lambda>_.
     tbind (requirePermission L uid ''edit'' ''workspace'' (cf_WorkspaceID inp) (in_workspace env (cf_WorkspaceID inp))) (\<lambda>_.
     tbind (draw_id []) (\<lambda>i.
     WithTenantTx tid (
       tbind (place_folder env (new_folder env inp tid uid i)) (\<lambda>f.
       tbind (name_conflict L (cf_Name inp) (Folders_Create L f)) (\<lambda>_.
       tbind (doc_emit tid ''dms.folder.created.v1'' ''folder'' (fo_ID f) (folder_created env uid f)) (\<lambda>_.
       tret f))))))))))"

text \<open>
  The result of a query whose transaction failed is what had been scanned when it failed: the statement's own value
  when only the commit failed, otherwise false.
\<close>

definition scanned :: "uuid \<Rightarrow> ('d, bool) m \<Rightarrow> ('d, bool) m" where
  "scanned tid q = (\<lambda>env w. case WithTenantTx tid q env w of
      (Inr b, w') \<Rightarrow> (Inr b, w')
    | (Inl e, w') \<Rightarrow> (Inr (case tbind (statement ''begin tx: '') (\<lambda>_. tbind setTenantGUC (\<lambda>_. q)) (env\<lparr>cur_tenant := tid\<rparr>) w of
         (Inr b, _) \<Rightarrow> b | (Inl _, _) \<Rightarrow> False), w'))"

text \<open>\<open>callerHasDirectGrantOnFolder\<close>, whose error \<open>GetFolder\<close> drops.\<close>

definition callerHasDirectGrantOnFolder :: "uuid \<Rightarrow> uuid \<Rightarrow> uuid \<Rightarrow> ('x doc_db_scheme, bool) m" where
  "callerHasDirectGrantOnFolder tid fid uid = with_env (\<lambda>env.
     if callerIsTenantAdmin (ctx env) then tret True
     else scanned tid (query_direct_grant tid fid uid (GetUserGroups (ctx env))))"

definition callerHasGrantInWorkspace :: "uuid \<Rightarrow> uuid \<Rightarrow> uuid \<Rightarrow> ('x doc_db_scheme, bool) m" where
  "callerHasGrantInWorkspace tid wid uid = with_env (\<lambda>env.
     WithTenantTx tid (query_workspace_grant tid wid uid (GetUserGroups (ctx env))))"

text \<open>No group is passed on.\<close>

definition checkFolderAccess :: "uuid \<Rightarrow> uuid \<Rightarrow> uuid \<Rightarrow> ('x doc_db_scheme, unit) m" where
  "checkFolderAccess tid fid uid = with_env (\<lambda>env.
     if callerIsTenantAdmin (ctx env) then tret ()
     else tbind (WithTenantTx tid (Folders_CanAccessFolder tid fid uid [] False)) (\<lambda>ok.
          tguard ok (Domain sentinel_NotFound)))"

text \<open>A failed breadcrumb query aborts the transaction, so the commit fails.\<close>

definition read_folder :: "uuid \<Rightarrow> uuid \<Rightarrow> ('x doc_db_scheme, folder_view) m" where
  "read_folder tid i =
     tbind (Folders_GetByID tid i) (\<lambda>v.
     tbind (on_error (Folders_Ancestors tid (fo_Path (fv_Folder v)))
              (\<lambda>_. tfail (DBError ''commit tx: commit unexpectedly resulted in rollback''))) (\<lambda>anc.
     tret (v\<lparr>fv_Ancestors := anc\<rparr>)))"

definition GetFolder :: "doc_lib \<Rightarrow> uuid \<Rightarrow> ('x doc_db_scheme, folder_view) m" where
  "GetFolder L i = doc_caller (\<lambda>tid uid.
     tbind (WithTenantTx tid (read_folder tid i)) (\<lambda>v.
     tbind (callerHasDirectGrantOnFolder tid i uid) (\<lambda>direct.
     if direct then tret v
     else tbind (with_env (\<lambda>env. requirePermission L uid ''view'' ''folder'' i (in_workspace env (fo_WorkspaceID (fv_Folder v))))) (\<lambda>_.
          tbind (checkFolderAccess tid i uid) (\<lambda>_. tret v)))))"

section \<open>\<open>folders.go\<close>: listing\<close>

text \<open>Members pass; others need a grant in the workspace, and then see only what they were granted.\<close>

definition workspace_entry :: "doc_lib \<Rightarrow> uuid \<Rightarrow> uuid \<Rightarrow> uuid \<Rightarrow> ('x doc_db_scheme, bool) m" where
  "workspace_entry L tid wid uid =
     on_error (tbind (requirePermission L uid ''view'' ''workspace'' wid []) (\<lambda>_. tret True)) (\<lambda>e.
       if \<not> errs_Is e sentinel_Forbidden then tfail e
       else tbind (callerHasGrantInWorkspace tid wid uid) (\<lambda>ok.
            if ok then tret False else tfail e))"

definition is_shared :: "folder_view \<Rightarrow> bool" where
  "is_shared v = (fo_Visibility (fv_Folder v) = ''shared'')"

definition visible_folders :: "bool \<Rightarrow> bool \<Rightarrow> uuid list \<Rightarrow> folder_view list \<Rightarrow> folder_view list" where
  "visible_folders isAdmin isMember accessible raw =
     filter (\<lambda>v. if is_shared v then isAdmin \<or> isMember else isAdmin \<or> fo_ID (fv_Folder v) \<in> set accessible) raw"

definition next_token :: "env \<Rightarrow> int \<Rightarrow> folder_view list \<Rightarrow> string" where
  "next_token env limit raw =
     (if int (length raw) = limit \<and> raw \<noteq> []
      then encodeFolderToken env (fo_Name (fv_Folder (last raw))) (fo_ID (fv_Folder (last raw))) else [])"

definition folder_page ::
    "doc_lib \<Rightarrow> uuid \<Rightarrow> uuid \<Rightarrow> uuid \<Rightarrow> uuid option \<Rightarrow> bool \<Rightarrow> string \<Rightarrow> uuid \<Rightarrow> int \<Rightarrow> ('x doc_db_scheme, folder_view list \<times> string) m" where
  "folder_page L tid uid wid parent isMember cname cid limit = with_env (\<lambda>env.
     tbind (Folders_ListByParent L tid wid parent cname cid limit) (\<lambda>raw.
     let isAdmin = callerIsTenantAdmin (ctx env);
         privateIDs = map (\<lambda>v. fo_ID (fv_Folder v)) (filter (\<lambda>v. \<not> is_shared v) raw) in
     tbind (if privateIDs \<noteq> [] \<and> \<not> isAdmin
            then Folders_FilterAccessibleFolderIDs tid privateIDs uid (GetUserGroups (ctx env)) else tret []) (\<lambda>accessible.
     tret (visible_folders isAdmin isMember accessible raw, next_token env limit raw))))"

definition ListFolders :: "doc_lib \<Rightarrow> uuid \<Rightarrow> uuid option \<Rightarrow> string \<Rightarrow> int \<Rightarrow> ('x doc_db_scheme, folder_view list \<times> string) m" where
  "ListFolders L wid parent pageToken limit = doc_caller (\<lambda>tid uid. with_env (\<lambda>env.
     case decodeFolderToken env pageToken of
       None \<Rightarrow> tfail (Domain (Validation ''page_token'' ''malformed cursor''))
     | Some (cname, cid) \<Rightarrow>
         tbind (workspace_entry L tid wid uid) (\<lambda>isMember.
         WithTenantTx tid (folder_page L tid uid wid parent isMember cname cid (page_limit limit)))))"

definition ListSharedWithMe :: "('x doc_db_scheme, shared_folder list) m" where
  "ListSharedWithMe = doc_caller (\<lambda>tid uid. with_env (\<lambda>env.
     WithTenantTx tid (Folders_ListSharedWithUser tid uid (GetUserGroups (ctx env)))))"

section \<open>\<open>folders.go\<close>: renaming and moving\<close>

record update_folder_input =
  uf_FolderID :: uuid
  uf_Name :: "string option"
  uf_NewParentFolderID :: "uuid option"

definition rename_folder :: "doc_lib \<Rightarrow> uuid \<Rightarrow> string option \<Rightarrow> folder \<Rightarrow> ('x doc_db_scheme, folder) m" where
  "rename_folder L tid name cur =
     (case name of
        None \<Rightarrow> tret cur
      | Some n \<Rightarrow>
          if n = fo_Name cur then tret cur
          else tbind (name_conflict L n (Folders_UpdateName L tid (fo_ID cur) n)) (\<lambda>_. tret (cur\<lparr>fo_Name := n\<rparr>)))"

definition folder_moved :: "env \<Rightarrow> uuid \<Rightarrow> folder \<Rightarrow> folder \<Rightarrow> json" where
  "folder_moved env uid cur parent = JObj [(''folder_id'', JStr (uuid_String env (fo_ID cur))), (''old_path'', JStr (fo_Path cur)),
     (''new_path'', JStr (fo_Path parent @ ''.'' @ lastLabel (fo_Path cur))), (''moved_by'', JStr (uuid_String env uid))]"

definition reparent_folder :: "doc_lib \<Rightarrow> uuid \<Rightarrow> uuid \<Rightarrow> uuid option \<Rightarrow> folder \<Rightarrow> ('x doc_db_scheme, unit) m" where
  "reparent_folder L tid uid newParent cur =
     (case newParent of
        None \<Rightarrow> tret ()
      | Some p \<Rightarrow>
          if fo_ParentFolderID cur = Some p then tret ()
          else tbind (Folders_GetByID tid p) (\<lambda>v. let parent = fv_Folder v in
               tbind (tguard (fo_WorkspaceID parent = fo_WorkspaceID cur)
                        (Domain (Validation ''new_parent_folder_id'' ''target is in a different workspace''))) (\<lambda>_.
               tbind (tguard (\<not> (prefix (fo_Path cur @ ''.'') (fo_Path parent) \<or> fo_Path parent = fo_Path cur))
                        (Domain (Conflict ''cannot move a folder into itself or its own descendants''))) (\<lambda>_.
               tbind (tguard (fo_Depth parent + 1 < maxFolderDepth)
                        (Domain (Validation ''new_parent_folder_id'' ''max folder nesting depth exceeded''))) (\<lambda>_.
               tbind (name_conflict L (fo_Name cur)
                        (Folders_Move L tid (fo_ID cur) (fo_Path cur) (fo_Path parent) (fo_Depth parent + 1))) (\<lambda>_.
               with_env (\<lambda>env. doc_emit tid ''dms.folder.moved.v1'' ''folder'' (fo_ID cur) (folder_moved env uid cur parent))))))))"

definition valid_name :: "string option \<Rightarrow> ('d, unit) m" where
  "valid_name name =
     (case name of
        None \<Rightarrow> tret ()
      | Some n \<Rightarrow> (case validateFolderName n of None \<Rightarrow> tret () | Some e \<Rightarrow> tfail e))"

definition update_tx :: "doc_lib \<Rightarrow> uuid \<Rightarrow> uuid \<Rightarrow> update_folder_input \<Rightarrow> ('x doc_db_scheme, folder_view) m" where
  "update_tx L tid uid inp =
     tbind (Folders_GetByID tid (uf_FolderID inp)) (\<lambda>v.
     tbind (require_on_folder L uid ''edit'' (fv_Folder v)) (\<lambda>_.
     tbind (rename_folder L tid (uf_Name inp) (fv_Folder v)) (\<lambda>cur.
     tbind (reparent_folder L tid uid (uf_NewParentFolderID inp) cur) (\<lambda>_.
     Folders_GetByID tid (fo_ID cur)))))"

definition UpdateFolder :: "doc_lib \<Rightarrow> update_folder_input \<Rightarrow> ('x doc_db_scheme, folder_view) m" where
  "UpdateFolder L inp = doc_caller (\<lambda>tid uid.
     tbind (valid_name (uf_Name inp)) (\<lambda>_. WithTenantTx tid (update_tx L tid uid inp)))"

section \<open>\<open>folders.go\<close>: deleting\<close>

definition folderDeleteProtectedListed :: nat where "folderDeleteProtectedListed = 10"

fun join_parts :: "string list \<Rightarrow> string" where
  "join_parts [] = []"
| "join_parts [x] = x"
| "join_parts (x # y # ys) = x @ '', '' @ join_parts (y # ys)"

definition protectedDocumentsMessage :: "doc_lib \<Rightarrow> protected_document list \<Rightarrow> nat \<Rightarrow> string" where
  "protectedDocumentsMessage L listed found =
     ''folder contains '' @ show_nat found @ '' protected document(s) that cannot be deleted: ''
       @ join_parts (map (\<lambda>p. Quote (printable L) (pr_Title p) @ '' ('' @ pr_Reason p @ '')'') listed)
       @ (if found > length listed then '', and '' @ show_nat (found - length listed) @ '' more'' else [])"

definition id_list :: "env \<Rightarrow> uuid list \<Rightarrow> json" where
  "id_list env is = JArr (map (\<lambda>i. JStr (uuid_String env i)) is)"

definition folder_deleted :: "env \<Rightarrow> uuid \<Rightarrow> folder \<Rightarrow> subtree_delete_result \<Rightarrow> json" where
  "folder_deleted env uid cur r = JObj [(''folder_id'', JStr (uuid_String env (fo_ID cur))),
     (''workspace_id'', JStr (uuid_String env (fo_WorkspaceID cur))), (''cohort_id'', JStr (uuid_String env (sr_CohortID r))),
     (''deleted_by'', JStr (uuid_String env uid)), (''folder_ids'', id_list env (sr_FolderIDs r)),
     (''document_ids'', id_list env (sr_DocumentIDs r))]"

definition delete_tx :: "doc_lib \<Rightarrow> uuid \<Rightarrow> uuid \<Rightarrow> uuid \<Rightarrow> ('x doc_db_scheme, unit) m" where
  "delete_tx L tid uid i =
     tbind (Folders_GetByID tid i) (\<lambda>v. let cur = fv_Folder v in
     tbind (require_on_folder L uid ''admin'' cur) (\<lambda>_.
     tbind (ProtectedDocumentsInSubtree L tid i folderDeleteProtectedListed) (\<lambda>(listed, found).
     tbind (tguard (found = 0) (Domain (Conflict (protectedDocumentsMessage L listed found)))) (\<lambda>_.
     tbind (Folders_SoftDeleteSubtree tid i uid) (\<lambda>r.
     with_env (\<lambda>env. doc_emit tid ''dms.folder.deleted.v1'' ''folder'' i (folder_deleted env uid cur r)))))))"

definition DeleteFolder :: "doc_lib \<Rightarrow> uuid \<Rightarrow> ('x doc_db_scheme, unit) m" where
  "DeleteFolder L i = doc_caller (\<lambda>tid uid. WithTenantTx tid (delete_tx L tid uid i))"

section \<open>\<open>folders.go\<close>: cleaning up empty folders\<close>

definition emptyFolderCleanupMaxBatch :: int where "emptyFolderCleanupMaxBatch = 500"
definition emptyFolderCleanupHardCap :: int where "emptyFolderCleanupHardCap = 20000"

definition cleanup_denied :: gerr where
  "cleanup_denied = Domain (Forbidden ''empty-folder cleanup is owner/admin only'')"

text \<open>\<open>time.Now().UTC().AddDate(0, 0, -days)\<close>; \<open>None\<close> is the zero time, which filters nothing.\<close>

definition age_limit :: "env \<Rightarrow> int \<Rightarrow> time option" where
  "age_limit env days =
     (if days > 0 \<and> go_now env - days * (24 * hour) \<noteq> zero_time then Some (go_now env - days * (24 * hour)) else None)"

definition ListEmptyFolders :: "uuid \<Rightarrow> int \<Rightarrow> int \<Rightarrow> ('x doc_db_scheme, folder list) m" where
  "ListEmptyFolders wid olderThanDays limit = doc_caller (\<lambda>tid uid. with_env (\<lambda>env.
     tbind (tguard (callerIsTenantAdmin (ctx env)) cleanup_denied) (\<lambda>_.
     WithTenantTx tid (Folders_ListEmptyFolders tid wid (age_limit env olderThanDays)
       (if limit \<le> 0 \<or> limit > emptyFolderCleanupMaxBatch then emptyFolderCleanupMaxBatch else limit)))))"

record cleanup_result =
  cl_Folders :: "folder list"
  cl_Deleted :: nat
  cl_MoreRemaining :: bool

definition folder_cleaned :: "env \<Rightarrow> uuid \<Rightarrow> folder \<Rightarrow> uuid \<Rightarrow> json" where
  "folder_cleaned env uid f cohort = JObj [(''folder_id'', JStr (uuid_String env (fo_ID f))),
     (''workspace_id'', JStr (uuid_String env (fo_WorkspaceID f))), (''cohort_id'', JStr (uuid_String env cohort)),
     (''deleted_by'', JStr (uuid_String env uid)), (''reason'', JStr ''empty_folder_cleanup''),
     (''folder_ids'', id_list env [fo_ID f]), (''document_ids'', JArr [])]"

definition cleanup_one :: "uuid \<Rightarrow> uuid \<Rightarrow> folder \<Rightarrow> ('x doc_db_scheme, unit) m" where
  "cleanup_one tid uid f =
     tbind (Folders_SoftDeleteSubtree tid (fo_ID f) uid) (\<lambda>r.
     with_env (\<lambda>env. doc_emit tid ''dms.folder.deleted.v1'' ''folder'' (fo_ID f) (folder_cleaned env uid f (sr_CohortID r))))"

text \<open>
  The loop of the transaction. Every pass that is not the last removes at least one folder and the found may not pass
  the cap, so the distance to the cap decreases.
\<close>

function cleanup_loop ::
    "uuid \<Rightarrow> uuid \<Rightarrow> time option \<Rightarrow> uuid \<Rightarrow> int \<Rightarrow> folder list \<Rightarrow> env \<Rightarrow> ('x doc_db_scheme) world
      \<Rightarrow> (gerr + folder list) \<times> ('x doc_db_scheme) world" where
  "cleanup_loop tid wid olderThan uid cap acc env w =
     (if int (length acc) \<ge> cap then (Inr acc, w)
      else (case Folders_ListEmptyFolders tid wid olderThan (min (cap - int (length acc)) emptyFolderCleanupMaxBatch) env w of
         (Inl e, w1) \<Rightarrow> (Inl e, w1)
       | (Inr empties, w1) \<Rightarrow>
           if empties = [] then (Inr acc, w1)
           else (case tfor empties (cleanup_one tid uid) env w1 of
              (Inl e, w2) \<Rightarrow> (Inl e, w2)
            | (Inr _, w2) \<Rightarrow> cleanup_loop tid wid olderThan uid cap (acc @ empties) env w2)))"
  by pat_completeness auto
termination
  by (relation "measure (\<lambda>(tid, wid, olderThan, uid, cap, acc, env, w). nat (cap - int (length acc)))") auto

declare cleanup_loop.simps [simp del]

definition cleanup_cap :: "int \<Rightarrow> int" where
  "cleanup_cap n =
     (let m = (if n \<le> 0 then emptyFolderCleanupMaxBatch else n) in
      if m > emptyFolderCleanupHardCap then emptyFolderCleanupHardCap else m)"

definition CleanupEmptyFolders :: "uuid \<Rightarrow> int \<Rightarrow> int \<Rightarrow> ('x doc_db_scheme, cleanup_result) m" where
  "CleanupEmptyFolders wid olderThanDays most = doc_caller (\<lambda>tid uid. with_env (\<lambda>env.
     tbind (tguard (callerIsTenantAdmin (ctx env)) cleanup_denied) (\<lambda>_.
     tbind (WithTenantTx tid (cleanup_loop tid wid (age_limit env olderThanDays) uid (cleanup_cap most) [])) (\<lambda>fs.
     tret \<lparr>cl_Folders = fs, cl_Deleted = length fs, cl_MoreRemaining = (int (length fs) \<ge> cleanup_cap most)\<rparr>))))"

section \<open>\<open>folders.go\<close>: the trash\<close>

record trashed_folder =
  tf_Folder :: folder
  tf_CohortDocs :: nat
  tf_WorkspaceName :: string

definition cohort_key :: "folder \<Rightarrow> uuid" where
  "cohort_key f = (case fo_Cohort f of None \<Rightarrow> fo_ID f | Some c \<Rightarrow> c)"

text \<open>\<open>DISTINCT ON\<close>: the first row of every key.\<close>

fun first_per_key :: "('r \<Rightarrow> 'k) \<Rightarrow> 'k list \<Rightarrow> 'r list \<Rightarrow> 'r list" where
  "first_per_key k seen [] = []"
| "first_per_key k seen (x # xs) =
     (if k x \<in> set seen then first_per_key k seen xs else x # first_per_key k (k x # seen) xs)"

definition cohort_roots :: "'x doc_db_scheme \<Rightarrow> uuid \<Rightarrow> folder list" where
  "cohort_roots d tid = first_per_key cohort_key [] (sort_key cohort_key (sort_key fo_Depth
     (filter (\<lambda>f. fo_TenantID f = tid \<and> \<not> fo_live f) (dm_folders d))))"

definition trashed_row :: "'x doc_db_scheme \<Rightarrow> folder \<Rightarrow> trashed_folder" where
  "trashed_row d f = \<lparr>tf_Folder = f,
     tf_CohortDocs = (case fo_Cohort f of None \<Rightarrow> 0
        | Some c \<Rightarrow> length (filter (\<lambda>x. dd_TenantID x = fo_TenantID f \<and> dd_Cohort x = Some c) (dm_documents d))),
     tf_WorkspaceName = (case find (\<lambda>x. ws_TenantID x = fo_TenantID f \<and> ws_ID x = fo_WorkspaceID f) (dm_workspaces d) of
        None \<Rightarrow> ''<deleted workspace>'' | Some x \<Rightarrow> ws_Name x)\<rparr>"

definition ListTrashFolders :: "('x doc_db_scheme, trashed_folder list) m" where
  "ListTrashFolders = doc_caller (\<lambda>tid uid. WithTenantTx tid (sql_read [] (\<lambda>env d.
     Inr (map (trashed_row d) (sort_key (\<lambda>f. - (case fo_DeletedAt f of None \<Rightarrow> 0 | Some t \<Rightarrow> t)) (cohort_roots d tid))))))"

section \<open>Who can read a folder\<close>

text \<open>
  \<open>computeFolderReaders\<close>: the members of the workspace and the users granted, as a set that Go lists in an order of its
  own, then the groups likewise. The answer is \<open>readable_by\<close>, the users and the groups.
\<close>

definition workspace_users :: "env \<Rightarrow> 'x doc_db_scheme \<Rightarrow> uuid \<Rightarrow> uuid \<Rightarrow> string list" where
  "workspace_users env d tid wid =
     map (\<lambda>m. uuid_String env (me_UserID m)) (filter (\<lambda>m. me_TenantID m = tid \<and> me_WorkspaceID m = wid) (dm_members d))"

definition grantees :: "env \<Rightarrow> 'x doc_db_scheme \<Rightarrow> uuid \<Rightarrow> uuid \<Rightarrow> string \<Rightarrow> string list" where
  "grantees env d tid fid ty =
     map (\<lambda>g. uuid_String env (fa_GranteeID g)) (filter (\<lambda>g. acl_on tid fid g \<and> fa_GranteeType g = ty) (dm_grants d))"

definition computeFolderReaders :: "doc_lib \<Rightarrow> uuid \<Rightarrow> uuid \<Rightarrow> uuid \<Rightarrow> ('x doc_db_scheme, string list \<times> string list \<times> string list) m" where
  "computeFolderReaders L tid fid wid =
     tbind (sql_read [] (\<lambda>env d. Inr (workspace_users env d tid wid))) (\<lambda>members.
     tbind (sql_read [] (\<lambda>env d. Inr (grantees env d tid fid ''user''))) (\<lambda>direct.
     tbind (sql_read [] (\<lambda>env d. Inr (grantees env d tid fid ''group''))) (\<lambda>viaGroup.
     (\<lambda>env w. let users = map_order L (stmts w) (remdups (members @ direct));
                  groups = map_order L (Suc (stmts w)) (remdups viaGroup) in
              (Inr (users @ groups, users, groups), w)))))"

definition text_list :: "string list \<Rightarrow> json" where
  "text_list xs = JArr (map JStr xs)"

definition publishFolderACLChange :: "doc_lib \<Rightarrow> uuid \<Rightarrow> uuid \<Rightarrow> uuid \<Rightarrow> ('x doc_db_scheme, unit) m" where
  "publishFolderACLChange L tid fid wid =
     tbind (computeFolderReaders L tid fid wid) (\<lambda>(readableBy, users, groups). with_env (\<lambda>env.
     doc_emit tid ''dms.permission.changed.v1'' ''folder'' fid (JObj [(''tenant_id'', JStr (uuid_String env tid)),
       (''resource_type'', JStr ''folder''), (''resource_id'', JStr (uuid_String env fid)),
       (''workspace_id'', JStr (uuid_String env wid)), (''readable_by'', text_list readableBy),
       (''readable_by_users'', text_list users), (''readable_by_groups'', text_list groups)])))"

section \<open>\<open>search_reindex.go\<close>\<close>

definition reindexBatchSize :: nat where "reindexBatchSize = 200"
definition reindexContentCap :: nat where "reindexContentCap = 1000000"

definition snippet :: "string \<Rightarrow> nat \<Rightarrow> string" where
  "snippet s n = (if length s \<le> n then s else take n s)"

definition reindex_rows :: "'x doc_db_scheme \<Rightarrow> uuid \<Rightarrow> uuid option \<Rightarrow> uuid \<Rightarrow> stored_doc list" where
  "reindex_rows d tid docID cursor = sort_key dd_ID (filter (\<lambda>x. dd_TenantID x = tid \<and> dd_live x
     \<and> (case docID of None \<Rightarrow> cursor < dd_ID x | Some i \<Rightarrow> dd_ID x = i)) (dm_documents d))"

definition creator_name :: "'x doc_db_scheme \<Rightarrow> stored_doc \<Rightarrow> string" where
  "creator_name d x = (case dd_CreatedBy x of None \<Rightarrow> []
     | Some u \<Rightarrow> (case find (\<lambda>p. pe_TenantID p = dd_TenantID x \<and> pe_ID p = u) (dm_people d) of None \<Rightarrow> [] | Some p \<Rightarrow> pe_Name p))"

definition ocr_text :: "'x doc_db_scheme \<Rightarrow> uuid \<Rightarrow> uuid \<Rightarrow> string" where
  "ocr_text d tid vid = take_runes reindexContentCap (join_with CHR 0x0A
     (map (\<lambda>(_, _, _, t). t) (sort_key (\<lambda>(_, _, page, _). page) (filter (\<lambda>(t, v, _, _). t = tid \<and> v = vid) (dm_ocr d)))))"

definition opt_field :: "bool \<Rightarrow> string \<Rightarrow> string \<Rightarrow> (string \<times> json) list" where
  "opt_field present k v = (if present then [(k, JStr v)] else [])"

definition reindex_payload ::
    "env \<Rightarrow> stored_doc \<Rightarrow> string \<Rightarrow> string \<Rightarrow> nat \<Rightarrow> (string list \<times> string list \<times> string list) option \<Rightarrow> json" where
  "reindex_payload env x name content versions readers =
     (let lists = (\<lambda>f. case readers of None \<Rightarrow> JNull | Some r \<Rightarrow> text_list (f r)) in
      JObj ([(''document_id'', JStr (uuid_String env (dd_ID x))), (''workspace_id'', JStr (uuid_String env (dd_WorkspaceID x))),
        (''title'', JStr (dd_Title x)), (''description'', JStr (dd_Description x)), (''tags'', text_list (dd_Tags x)),
        (''document_class'', JStr (dd_Class x)), (''lifecycle_state'', JStr (dd_State x)), (''region_pin'', JStr (dd_Region x)),
        (''mime_type'', JStr (dd_Mime x)), (''size_bytes'', JNum (dd_Size x)), (''version_count'', JNum (int versions)),
        (''content'', JStr content), (''content_snippet'', JStr (json_text (snippet content 500))),
        (''readable_by'', lists fst), (''readable_by_users'', lists (fst \<circ> snd)), (''readable_by_groups'', lists (snd \<circ> snd))]
       @ opt_field (dd_FolderID x \<noteq> None) ''folder_id'' (uuid_String env (case dd_FolderID x of None \<Rightarrow> uuid_Nil | Some f \<Rightarrow> f))
       @ opt_field (dd_CreatedBy x \<noteq> None) ''created_by'' (uuid_String env (case dd_CreatedBy x of None \<Rightarrow> uuid_Nil | Some u \<Rightarrow> u))
       @ opt_field (name \<noteq> []) ''created_by_name'' name
       @ opt_field (dd_CreatedAt x \<noteq> zero_time) ''created_at'' (format_RFC3339 (dd_CreatedAt x))
       @ opt_field (dd_UpdatedAt x \<noteq> zero_time) ''updated_at'' (format_RFC3339 (dd_UpdatedAt x))))"

definition row_label :: "env \<Rightarrow> string \<Rightarrow> stored_doc \<Rightarrow> string" where
  "row_label env what x = what @ '' for '' @ uuid_String env (dd_ID x) @ '': ''"

definition reindex_content :: "uuid \<Rightarrow> stored_doc \<Rightarrow> ('x doc_db_scheme, string) m" where
  "reindex_content tid x = with_env (\<lambda>env.
     case dd_Version x of
       None \<Rightarrow> tret []
     | Some v \<Rightarrow> sql_read (row_label env ''ocr text'' x) (\<lambda>env d. Inr (ocr_text d tid v)))"

definition version_count :: "uuid \<Rightarrow> stored_doc \<Rightarrow> ('x doc_db_scheme, nat) m" where
  "version_count tid x = with_env (\<lambda>env. sql_read (row_label env ''version count'' x) (\<lambda>env d.
     Inr (length (filter (\<lambda>(t, i, _). t = tid \<and> i = dd_ID x) (dm_versions d)))))"

definition reindex_readers :: "doc_lib \<Rightarrow> uuid \<Rightarrow> stored_doc \<Rightarrow> ('x doc_db_scheme, (string list \<times> string list \<times> string list) option) m" where
  "reindex_readers L tid x = with_env (\<lambda>env.
     case dd_FolderID x of
       None \<Rightarrow> tret None
     | Some f \<Rightarrow> tbind (on_error (computeFolderReaders L tid f (dd_WorkspaceID x))
         (\<lambda>e. tfail (wrap_err (row_label env ''compute readers'' x) e))) (\<lambda>r. tret (Some r)))"

definition reindex_one :: "doc_lib \<Rightarrow> uuid \<Rightarrow> stored_doc \<times> string \<Rightarrow> ('x doc_db_scheme, unit) m" where
  "reindex_one L tid = (\<lambda>(x, name).
     tbind (reindex_content tid x) (\<lambda>content.
     tbind (version_count tid x) (\<lambda>versions.
     tbind (reindex_readers L tid x) (\<lambda>readers.
     with_env (\<lambda>env. doc_emit tid ''dms.document.reindexed.v1'' ''document'' (dd_ID x)
       (reindex_payload env x name content versions readers))))))"

text \<open>The number of events and the last identifier.\<close>

definition reindexBatch :: "doc_lib \<Rightarrow> uuid \<Rightarrow> uuid option \<Rightarrow> uuid \<Rightarrow> ('x doc_db_scheme, nat \<times> uuid) m" where
  "reindexBatch L tid docID cursor =
     tbind (sql_read ''list documents: '' (\<lambda>env d.
              Inr (map (\<lambda>x. (x, creator_name d x)) (take reindexBatchSize (reindex_rows d tid docID cursor))))) (\<lambda>batch.
     tbind (tguard (docID = None \<or> batch \<noteq> []) (Domain sentinel_NotFound)) (\<lambda>_.
     tbind (tfor batch (reindex_one L tid)) (\<lambda>_.
     tret (length batch, if batch = [] then cursor else dd_ID (fst (last batch))))))"

section \<open>\<open>folders.go\<close>: restoring\<close>

definition restore_tx :: "doc_lib \<Rightarrow> uuid \<Rightarrow> uuid \<Rightarrow> uuid \<Rightarrow> ('x doc_db_scheme, unit) m" where
  "restore_tx L tid uid i =
     tbind (Folders_GetByID tid i) (\<lambda>v. let cur = fv_Folder v in
     tbind (require_on_folder L uid ''admin'' cur) (\<lambda>_.
     tbind (Folders_RestoreSubtree L tid i) (\<lambda>docIDs.
     tbind (tfor docIDs (\<lambda>doc. on_error (tbind (reindexBatch L tid (Some doc) uuid_Nil) (\<lambda>_. tret ()))
              (\<lambda>e. tfail (wrap_err ''queue restore reindex: '' e)))) (\<lambda>_.
     with_env (\<lambda>env. doc_emit tid ''dms.folder.restored.v1'' ''folder'' i
       (JObj [(''folder_id'', JStr (uuid_String env i)), (''workspace_id'', JStr (uuid_String env (fo_WorkspaceID cur))),
              (''restored_by'', JStr (uuid_String env uid))]))))))"

definition RestoreFolder :: "doc_lib \<Rightarrow> uuid \<Rightarrow> ('x doc_db_scheme, unit) m" where
  "RestoreFolder L i = doc_caller (\<lambda>tid uid. WithTenantTx tid (restore_tx L tid uid i))"

section \<open>\<open>folders.go\<close>: visibility and grants\<close>

definition canManageFolder :: "reqctx \<Rightarrow> folder \<Rightarrow> uuid \<Rightarrow> bool" where
  "canManageFolder c f uid \<longleftrightarrow> callerIsTenantAdmin c \<or> fo_OwnerID f = Some uid \<or> (fo_OwnerID f = None \<and> fo_CreatedBy f = uid)"

definition managed_folder :: "uuid \<Rightarrow> uuid \<Rightarrow> uuid \<Rightarrow> ('x doc_db_scheme, folder_view) m" where
  "managed_folder tid uid i = with_env (\<lambda>env.
     tbind (Folders_GetByID tid i) (\<lambda>v.
     tbind (tguard (canManageFolder (ctx env) (fv_Folder v) uid) (Domain sentinel_Forbidden)) (\<lambda>_. tret v)))"

definition visibility_changed :: "env \<Rightarrow> uuid \<Rightarrow> uuid \<Rightarrow> string \<Rightarrow> string \<Rightarrow> json" where
  "visibility_changed env uid i old new = JObj [(''folder_id'', JStr (uuid_String env i)), (''old_visibility'', JStr old),
     (''new_visibility'', JStr new), (''changed_by'', JStr (uuid_String env uid))]"

definition SetFolderVisibility :: "doc_lib \<Rightarrow> uuid \<Rightarrow> string \<Rightarrow> ('x doc_db_scheme, folder_view) m" where
  "SetFolderVisibility L i visibility =
     tbind (tguard (i \<noteq> uuid_Nil) (Domain (Validation ''folder_id'' ''required''))) (\<lambda>_.
     tbind (tguard (visibility = ''shared'' \<or> visibility = ''private'')
              (Domain (Validation ''visibility'' (''must be '' @ quoted ''shared'' @ '' or '' @ quoted ''private'')))) (\<lambda>_.
     doc_caller (\<lambda>tid uid. WithTenantTx tid (
       tbind (managed_folder tid uid i) (\<lambda>v. let cur = fv_Folder v in
       if fo_Visibility cur = visibility then tret v
       else tbind (Folders_UpdateVisibility tid i visibility (if visibility = ''private'' then Some uid else None)) (\<lambda>_.
            tbind (with_env (\<lambda>env. doc_emit tid ''dms.folder.visibility_changed.v1'' ''folder'' i
                     (visibility_changed env uid i (fo_Visibility cur) visibility))) (\<lambda>_.
            tbind (publishFolderACLChange L tid i (fo_WorkspaceID cur)) (\<lambda>_.
            Folders_GetByID tid i))))))))"

definition ListFolderGrants :: "uuid \<Rightarrow> ('x doc_db_scheme, folder_acl list) m" where
  "ListFolderGrants i = doc_caller (\<lambda>tid uid. WithTenantTx tid (
     tbind (managed_folder tid uid i) (\<lambda>_. Folders_ListGrants tid i)))"

definition grantee_ok :: "uuid \<Rightarrow> string \<Rightarrow> uuid \<Rightarrow> ('d, unit) m" where
  "grantee_ok i ty gid =
     tbind (tguard (i \<noteq> uuid_Nil) (Domain (Validation ''folder_id'' ''required''))) (\<lambda>_.
     tbind (tguard (gid \<noteq> uuid_Nil) (Domain (Validation ''grantee_id'' ''required''))) (\<lambda>_.
     tguard (ty = ''user'' \<or> ty = ''group'')
       (Domain (Validation ''grantee_type'' (''must be '' @ quoted ''user'' @ '' or '' @ quoted ''group'')))))"

definition grant_event :: "env \<Rightarrow> uuid \<Rightarrow> string \<Rightarrow> uuid \<Rightarrow> string \<Rightarrow> uuid \<Rightarrow> json" where
  "grant_event env i ty gid who uid = JObj [(''folder_id'', JStr (uuid_String env i)), (''grantee_type'', JStr ty),
     (''grantee_id'', JStr (uuid_String env gid)), (who, JStr (uuid_String env uid))]"

text \<open>The error of the generator is dropped.\<close>

definition AddFolderGrant :: "doc_lib \<Rightarrow> uuid \<Rightarrow> string \<Rightarrow> uuid \<Rightarrow> ('x doc_db_scheme, folder_acl) m" where
  "AddFolderGrant L i ty gid =
     tbind (grantee_ok i ty gid) (\<lambda>_.
     doc_caller (\<lambda>tid uid. with_env (\<lambda>env.
       tbind (tor (draw_id []) uuid_Nil) (\<lambda>k.
       let g = \<lparr>fa_TenantID = tid, fa_ID = k, fa_FolderID = i, fa_GranteeType = ty, fa_GranteeID = gid,
                fa_GrantedBy = Some uid, fa_CreatedAt = go_now env\<rparr> in
       WithTenantTx tid (
         tbind (managed_folder tid uid i) (\<lambda>v.
         tbind (Folders_AddGrant g) (\<lambda>_.
         tbind (doc_emit tid ''dms.folder.grant_added.v1'' ''folder'' i (grant_event env i ty gid ''granted_by'' uid)) (\<lambda>_.
         tbind (publishFolderACLChange L tid i (fo_WorkspaceID (fv_Folder v))) (\<lambda>_.
         tret g)))))))))"

definition RemoveFolderGrant :: "doc_lib \<Rightarrow> uuid \<Rightarrow> string \<Rightarrow> uuid \<Rightarrow> ('x doc_db_scheme, unit) m" where
  "RemoveFolderGrant L i ty gid =
     tbind (grantee_ok i ty gid) (\<lambda>_.
     doc_caller (\<lambda>tid uid. with_env (\<lambda>env. WithTenantTx tid (
       tbind (managed_folder tid uid i) (\<lambda>v.
       tbind (Folders_RemoveGrant tid i ty gid) (\<lambda>_.
       tbind (doc_emit tid ''dms.folder.grant_removed.v1'' ''folder'' i (grant_event env i ty gid ''removed_by'' uid)) (\<lambda>_.
       publishFolderACLChange L tid i (fo_WorkspaceID (fv_Folder v)))))))))"

end
