(* ===== verification/Folder_Tree.thy ===== *)
theory Folder_Tree
  imports Folder_Service
begin

text \<open>
  The folder tree. In a well-formed tree a live folder lies directly under a live parent and the path says so; then
  an empty leaf has nothing live below it. The clean-up of empty folders is shown to end, to remove only
  empty leaves, and to leave none behind unless it met its cap.
\<close>

section \<open>Well-formed trees\<close>

definition labels :: "folder \<Rightarrow> string list" where
  "labels f = ltree_labels (fo_Path f)"

definition live_folders :: "'x doc_db_scheme \<Rightarrow> uuid \<Rightarrow> folder set" where
  "live_folders d tid = {f \<in> set (dm_folders d). fo_TenantID f = tid \<and> fo_live f}"

definition folder_id :: "folder \<Rightarrow> uuid \<times> uuid" where
  "folder_id f = (fo_TenantID f, fo_ID f)"

definition tree_ok :: "'x doc_db_scheme \<Rightarrow> uuid \<Rightarrow> bool" where
  "tree_ok d tid \<longleftrightarrow> distinct (map folder_id (dm_folders d)) \<and> inj_on labels (live_folders d tid)
     \<and> (\<forall>g \<in> live_folders d tid. labels g \<noteq> [] \<and>
          (case fo_ParentFolderID g of None \<Rightarrow> length (labels g) = 1
           | Some p \<Rightarrow> \<exists>f \<in> live_folders d tid. fo_ID f = p \<and> labels f = butlast (labels g)))"

lemma live_foldersI: "f \<in> set (dm_folders d) \<Longrightarrow> fo_TenantID f = tid \<Longrightarrow> fo_live f \<Longrightarrow> f \<in> live_folders d tid"
  by (simp add: live_folders_def)

lemma tree_ids: "tree_ok d tid \<Longrightarrow> distinct (map folder_id (dm_folders d))"
  by (simp add: tree_ok_def)

lemma prefix_butlast: "prefix xs ys \<Longrightarrow> xs \<noteq> ys \<Longrightarrow> prefix xs (butlast ys)"
  by (metis butlast_snoc prefix_order.dual_order.refl prefix_snoc rev_exhaust prefix_Nil)

text \<open>An empty leaf has no live folder below it but itself.\<close>

lemma leaf_alone:
  assumes ok: "tree_ok d tid" and f: "f \<in> live_folders d tid" and leaf: "live_children d tid (fo_ID f) = []"
    and g: "g \<in> live_folders d tid" "prefix (labels f) (labels g)"
  shows "g = f"
  using g
proof (induction "length (labels g)" arbitrary: g rule: less_induct)
  case less
  show ?case
  proof (cases "labels f = labels g")
    case True
    with ok f less.prems show ?thesis by (auto simp: tree_ok_def dest: inj_onD)
  next
    case False
    with less.prems have short: "prefix (labels f) (butlast (labels g))" by (simp add: prefix_butlast)
    have ne: "labels f \<noteq> []" "labels g \<noteq> []" using ok f less.prems by (auto simp: tree_ok_def)
    show ?thesis
    proof (cases "fo_ParentFolderID g")
      case None
      with ok less.prems have "length (labels g) = 1" by (auto simp: tree_ok_def)
      then have "butlast (labels g) = []" by (cases "labels g") auto
      with short ne show ?thesis by simp
    next
      case (Some p)
      with ok less.prems obtain h where h: "h \<in> live_folders d tid" "fo_ID h = p" "labels h = butlast (labels g)"
        by (fastforce simp: tree_ok_def)
      from h short ne have "h = f" by (intro less.hyps) auto
      with h Some less.prems have "g \<in> set (live_children d tid (fo_ID f))"
        by (auto simp: live_children_def live_folders_def)
      with leaf show ?thesis by simp
    qed
  qed
qed

lemma empty_leaf_subtree:
  assumes "tree_ok d tid" and "f \<in> set (dm_folders d)" and "empty_leaf d tid f"
  shows "g \<in> set (dm_folders d) \<Longrightarrow> in_subtree tid (fo_Path f) g \<longleftrightarrow> g = f"
    and "x \<in> set (dm_documents d) \<Longrightarrow> \<not> doc_in_subtree d tid (fo_Path f) x"
proof -
  have f: "f \<in> live_folders d tid" using assms by (simp add: live_folders_def empty_leaf_def)
  have sub: "in_subtree tid (fo_Path f) g \<longleftrightarrow> g = f" if "g \<in> set (dm_folders d)" for g
    using that f leaf_alone [OF assms(1) f, of g] assms(3)
    by (auto simp: in_subtree_def live_folders_def below_def labels_def empty_leaf_def)
  then show "g \<in> set (dm_folders d) \<Longrightarrow> in_subtree tid (fo_Path f) g \<longleftrightarrow> g = f" .
  show "x \<in> set (dm_documents d) \<Longrightarrow> \<not> doc_in_subtree d tid (fo_Path f) x"
    using assms(3) by (auto simp: doc_in_subtree_def sub empty_leaf_def live_docs_in_def filter_empty_conv)
qed

section \<open>Trashing exactly some folders\<close>

lemma list_all2_mem:
  "list_all2 P xs ys \<Longrightarrow> x \<in> set xs \<Longrightarrow> \<exists>y \<in> set ys. P x y"
  "list_all2 P xs ys \<Longrightarrow> y \<in> set ys \<Longrightarrow> \<exists>x \<in> set xs. P x y"
  by (induction rule: list_all2_induct) auto

lemma list_all2_same_image: "list_all2 P xs ys \<Longrightarrow> (\<And>x y. P x y \<Longrightarrow> f y = f x) \<Longrightarrow> map f ys = map f xs"
  by (induction rule: list_all2_induct) auto

definition trash_step :: "uuid \<Rightarrow> uuid \<Rightarrow> time \<Rightarrow> uuid set \<Rightarrow> folder \<Rightarrow> folder \<Rightarrow> bool" where
  "trash_step tid uid now S f f' \<longleftrightarrow>
     (if fo_TenantID f = tid \<and> fo_live f \<and> fo_ID f \<in> S then \<exists>c. f' = trash_folder now c uid f else f' = f)"

definition only_trashes :: "uuid \<Rightarrow> uuid \<Rightarrow> time \<Rightarrow> uuid set \<Rightarrow> 'x doc_db_scheme \<Rightarrow> 'x doc_db_scheme \<Rightarrow> bool" where
  "only_trashes tid uid now S d d' \<longleftrightarrow> (\<exists>fs rows. d' = d\<lparr>dm_folders := fs, outbox := outbox d @ rows\<rparr>
     \<and> list_all2 (trash_step tid uid now S) (dm_folders d) fs)"

lemma trash_folder_simps [simp]:
  "fo_TenantID (trash_folder now c uid f) = fo_TenantID f" "fo_ID (trash_folder now c uid f) = fo_ID f"
  "fo_live (trash_folder now c uid f) = False" "fo_ParentFolderID (trash_folder now c uid f) = fo_ParentFolderID f"
  "fo_WorkspaceID (trash_folder now c uid f) = fo_WorkspaceID f" "fo_Path (trash_folder now c uid f) = fo_Path f"
  by (simp_all add: trash_folder_def fo_live_def)

lemma trash_step_refl: "trash_step tid uid now {} f f"
  by (simp add: trash_step_def)

lemma trash_step_live:
  "trash_step tid uid now S f f' \<Longrightarrow> fo_live f' \<Longrightarrow> f' = f \<and> \<not> (fo_TenantID f = tid \<and> fo_ID f \<in> S)"
  unfolding trash_step_def by (metis trash_folder_simps(3))

lemma only_trashes_outbox: "only_trashes tid uid now {} d (d\<lparr>outbox := outbox d @ rows\<rparr>)"
  unfolding only_trashes_def
  by (rule exI [of _ "dm_folders d"], rule exI [of _ rows]) (simp add: list_all2_refl trash_step_refl)

lemma only_trashes_refl: "only_trashes tid uid now {} d d"
  using only_trashes_outbox [of tid uid now d "[]"] by simp

lemma only_trashes_trans:
  assumes "only_trashes tid uid now S d d'" and "only_trashes tid uid now S' d' d''"
  shows "only_trashes tid uid now (S \<union> S') d d''"
proof -
  from assms obtain fs rows fs' rows' where *:
    "d' = d\<lparr>dm_folders := fs, outbox := outbox d @ rows\<rparr>" "list_all2 (trash_step tid uid now S) (dm_folders d) fs"
    "d'' = d'\<lparr>dm_folders := fs', outbox := outbox d' @ rows'\<rparr>" "list_all2 (trash_step tid uid now S') (dm_folders d') fs'"
    unfolding only_trashes_def by blast
  have "list_all2 (trash_step tid uid now (S \<union> S')) (dm_folders d) fs'"
    by (rule list_all2_trans [OF _ *(2)]) (use * in \<open>auto simp: trash_step_def split: if_splits\<close>)
  moreover have "d'' = d\<lparr>dm_folders := fs', outbox := outbox d @ rows @ rows'\<rparr>" using *(1,3) by simp
  ultimately show ?thesis unfolding only_trashes_def by blast
qed

lemma only_trashes_table:
  assumes "only_trashes tid uid now S d d'"
  shows "list_all2 (trash_step tid uid now S) (dm_folders d) (dm_folders d')" "dm_documents d' = dm_documents d"
  using assms unfolding only_trashes_def by auto

text \<open>What is left of a folder that stays.\<close>

lemma only_trashes_kept:
  assumes "only_trashes tid uid now S d d'" and "f' \<in> set (dm_folders d')" and "fo_live f'"
  shows "f' \<in> set (dm_folders d) \<and> \<not> (fo_TenantID f' = tid \<and> fo_ID f' \<in> S)"
  using list_all2_mem(2) [OF only_trashes_table(1) [OF assms(1)] assms(2)] assms(3)
  by (blast dest: trash_step_live)

lemma only_trashes_keeps:
  assumes "only_trashes tid uid now S d d'" and "f \<in> set (dm_folders d)" and "\<not> (fo_TenantID f = tid \<and> fo_ID f \<in> S)"
  shows "f \<in> set (dm_folders d')"
  using list_all2_mem(1) [OF only_trashes_table(1) [OF assms(1)] assms(2)] assms(3)
  by (auto simp: trash_step_def split: if_splits)

lemma only_trashes_ids: "only_trashes tid uid now S d d' \<Longrightarrow> map folder_id (dm_folders d') = map folder_id (dm_folders d)"
  by (rule list_all2_same_image [OF only_trashes_table(1)]) (auto simp: trash_step_def folder_id_def split: if_splits)

lemma only_trashes_live:
  assumes "only_trashes tid uid now S d d'"
  shows "live_folders d' tid = {f \<in> live_folders d tid. fo_ID f \<notin> S}"
  using only_trashes_kept [OF assms] only_trashes_keeps [OF assms] by (auto simp: live_folders_def)

lemma only_trashes_empty_leaf:
  assumes "only_trashes tid uid now S d d'" and "empty_leaf d tid f"
  shows "empty_leaf d' tid f"
  using assms(2) only_trashes_kept [OF assms(1)] only_trashes_table(2) [OF assms(1)]
  by (auto simp: empty_leaf_def live_children_def live_docs_in_def filter_empty_conv)

lemma only_trashes_tree:
  assumes ot: "only_trashes tid uid now {fo_ID f} d d'" and ok: "tree_ok d tid"
    and f: "f \<in> set (dm_folders d)" "empty_leaf d tid f"
  shows "tree_ok d' tid"
proof -
  have live: "live_folders d' tid = {g \<in> live_folders d tid. fo_ID g \<noteq> fo_ID f}"
    using only_trashes_live [OF ot] by simp
  have parent: "fo_ParentFolderID g \<noteq> Some (fo_ID f)" if "g \<in> live_folders d tid" for g
    using that f(2) by (auto simp: empty_leaf_def live_children_def live_folders_def filter_empty_conv)
  have "labels g \<noteq> [] \<and> (case fo_ParentFolderID g of None \<Rightarrow> length (labels g) = 1
        | Some p \<Rightarrow> \<exists>h \<in> live_folders d' tid. fo_ID h = p \<and> labels h = butlast (labels g))"
    if g: "g \<in> live_folders d tid" for g
    using ok g parent [OF g] unfolding tree_ok_def live by (fastforce split: option.splits)
  moreover have "inj_on labels (live_folders d' tid)"
    using ok live by (auto simp: tree_ok_def intro: inj_on_subset)
  ultimately show ?thesis
    using ok live only_trashes_ids [OF ot] by (auto simp: tree_ok_def)
qed

section \<open>Identifiers the generator still has to give\<close>

text \<open>The next \<open>n\<close> identifiers are distinct and name no event of the outbox.\<close>

definition ids_fresh :: "nat \<Rightarrow> env \<Rightarrow> 'x outbox_db_scheme world \<Rightarrow> bool" where
  "ids_fresh n env w \<longleftrightarrow> inj_on (new_id env) {draws w..<draws w + n}
     \<and> (\<forall>k \<in> {draws w..<draws w + n}. new_id env k \<notin> Some ` o_ID ` set (outbox (wdb w)))"

lemma ids_fresh_skip:
  "ids_fresh (Suc n) env w \<Longrightarrow> draws w' = Suc (draws w) \<Longrightarrow> outbox (wdb w') = outbox (wdb w) \<Longrightarrow> ids_fresh n env w'"
  by (auto simp: ids_fresh_def intro: inj_on_subset)

lemma ids_fresh_use:
  assumes "ids_fresh (Suc n) env w" "draws w' = Suc (draws w)" "outbox (wdb w') = outbox (wdb w) @ [r]"
    "new_id env (draws w) = Some (o_ID r)"
  shows "ids_fresh n env w'"
proof -
  have "new_id env k \<noteq> Some (o_ID r)" if "k \<in> {Suc (draws w)..<Suc (draws w) + n}" for k
    using assms(1) that assms(4) unfolding ids_fresh_def
    by (auto dest!: inj_onD [where x = k and y = "draws w"])
  with assms show ?thesis by (auto simp: ids_fresh_def intro: inj_on_subset)
qed

lemma ids_fresh_mono: "ids_fresh n env w \<Longrightarrow> m \<le> n \<Longrightarrow> ids_fresh m env w"
  by (auto simp: ids_fresh_def intro: inj_on_subset)

lemma ids_fresh_stmts [simp]:
  "ids_fresh n env (w\<lparr>stmts := k\<rparr>) = ids_fresh n env w" "ids_fresh n (env\<lparr>cur_tenant := t\<rparr>) w = ids_fresh n env w"
  by (simp_all add: ids_fresh_def)

lemma doc_outbox_row_simps [simp]:
  "o_ID (doc_outbox_row env e p) = e_ID e" "o_TenantID (doc_outbox_row env e p) = e_TenantID e"
  "o_EventType (doc_outbox_row env e p) = e_EventType e" "o_AggregateType (doc_outbox_row env e p) = e_AggregateType e"
  "o_AggregateID (doc_outbox_row env e p) = e_AggregateID e" "o_Payload (doc_outbox_row env e p) = p"
  by (simp_all add: doc_outbox_row_def outbox_row_of_def)

lemma doc_emit_healthy:
  assumes "healthy env" and "visible env tid" and "ids_fresh (Suc n) env w"
  obtains r w' where "doc_emit tid ty agg aid payload env w = (Inr (), w')" "wdb w' = (wdb w)\<lparr>outbox := outbox (wdb w) @ [r]\<rparr>"
    "ids_fresh n env w'" "o_TenantID r = tid" "o_EventType r = ty" "o_AggregateID r = aid" "o_Payload r = payload"
proof -
  obtain u where u: "new_id env (draws w) = Some u" using assms(1) healthy_new_id by blast
  have new: "u \<notin> o_ID ` set (outbox (wdb w))"
    using assms(3) u by (force simp: ids_fresh_def)
  let ?e = "\<lparr>e_ID = u, e_TenantID = tid, e_EventType = ty, e_AggregateType = agg, e_AggregateID = aid,
       e_Payload = Some payload, e_CreatedAt = go_now env\<rparr>"
  let ?r = "doc_outbox_row env ?e payload"
  let ?w = "w\<lparr>draws := Suc (draws w), stmts := Suc (stmts w), wdb := (wdb w)\<lparr>outbox := outbox (wdb w) @ [?r]\<rparr>\<rparr>"
  have run: "doc_emit tid ty agg aid payload env w = (Inr (), ?w)"
    using assms(1,2) u new by (simp add: doc_emit_def tbind_def draw_id_def Doc_Outbox_Insert_def)
  have "ids_fresh n env ?w"
    by (rule ids_fresh_use [OF assms(3), where r = ?r]) (simp_all add: u)
  then show thesis by (intro that [OF run, of ?r]) simp_all
qed

section \<open>One empty folder goes to the trash\<close>

lemma find_by_id:
  "distinct (map folder_id fs) \<Longrightarrow> f \<in> set fs \<Longrightarrow> P f \<Longrightarrow> fo_TenantID f = tid
     \<Longrightarrow> find (\<lambda>g. folder_is tid (fo_ID f) g \<and> P g) fs = Some f"
  by (induction fs) (force simp: folder_is_def folder_id_def)+

lemma SoftDelete_leaf:
  assumes env: "healthy env" and ok: "tree_ok (wdb w) tid" and f: "f \<in> set (dm_folders (wdb w))" "empty_leaf (wdb w) tid f"
  obtains r w' where "Folders_SoftDeleteSubtree tid (fo_ID f) uid env w = (Inr r, w')"
    "only_trashes tid uid (db_now env) {fo_ID f} (wdb w) (wdb w')"
    "draws w' = Suc (draws w)" "outbox (wdb w') = outbox (wdb w)"
proof -
  obtain u where u: "new_id env (draws w) = Some u" using env healthy_new_id by blast
  have live: "fo_TenantID f = tid" "fo_live f" using f by (auto simp: empty_leaf_def)
  have found: "find (\<lambda>g. folder_is tid (fo_ID f) g \<and> fo_live g) (dm_folders (wdb w)) = Some f"
    using ok f live by (intro find_by_id) (auto simp: tree_ok_def)
  let ?fs = "map (\<lambda>g. if in_subtree tid (fo_Path f) g then trash_folder (db_now env) u uid g else g) (dm_folders (wdb w))"
  have docs: "map (\<lambda>x. if doc_in_subtree (wdb w) tid (fo_Path f) x then trash_doc (db_now env) u uid x else x) (dm_documents (wdb w))
      = dm_documents (wdb w)"
    using empty_leaf_subtree(2) [OF ok f] by (intro map_if_unchanged) simp
  let ?w = "w\<lparr>draws := Suc (draws w), stmts := Suc (Suc (Suc (stmts w))), wdb := (wdb w)\<lparr>dm_folders := ?fs\<rparr>\<rparr>"
  let ?r = "\<lparr>sr_CohortID = u, sr_FolderIDs = map fo_ID (filter (in_subtree tid (fo_Path f)) (dm_folders (wdb w))),
      sr_DocumentIDs = map dd_ID (filter (doc_in_subtree (wdb w) tid (fo_Path f)) (dm_documents (wdb w)))\<rparr>"
  have run: "Folders_SoftDeleteSubtree tid (fo_ID f) uid env w = (Inr ?r, ?w)"
    using env u found
    by (simp add: Folders_SoftDeleteSubtree_def tbind_def draw_id_def trash_documents_def trash_folders_def tret_def docs)
  have same: "g = f" if "g \<in> set (dm_folders (wdb w))" "folder_id g = folder_id f" for g
    using ok that f(1) by (auto simp: tree_ok_def distinct_map dest: inj_onD)
  have "trash_step tid uid (db_now env) {fo_ID f} g (if in_subtree tid (fo_Path f) g then trash_folder (db_now env) u uid g else g)"
    if g: "g \<in> set (dm_folders (wdb w))" for g
    using empty_leaf_subtree(1) [OF ok f g] live same [OF g] by (auto simp: trash_step_def folder_id_def)
  then have "list_all2 (trash_step tid uid (db_now env) {fo_ID f}) (dm_folders (wdb w)) ?fs"
    by (simp add: list_all2_map2 list.rel_refl_strong)
  moreover have "wdb ?w = (wdb w)\<lparr>dm_folders := ?fs, outbox := outbox (wdb w) @ []\<rparr>" by simp
  ultimately have "only_trashes tid uid (db_now env) {fo_ID f} (wdb w) (wdb ?w)" unfolding only_trashes_def by blast
  then show thesis by (intro that [OF run]) simp_all
qed

lemma cleanup_one_leaf:
  assumes env: "healthy env" "visible env tid" "ids_fresh (Suc (Suc n)) env w" and ok: "tree_ok (wdb w) tid"
    and f: "f \<in> set (dm_folders (wdb w))" "empty_leaf (wdb w) tid f"
  obtains w' where "cleanup_one tid uid f env w = (Inr (), w')" "only_trashes tid uid (db_now env) {fo_ID f} (wdb w) (wdb w')"
    "ids_fresh n env w'"
proof -
  obtain r w1 where del: "Folders_SoftDeleteSubtree tid (fo_ID f) uid env w = (Inr r, w1)"
    "only_trashes tid uid (db_now env) {fo_ID f} (wdb w) (wdb w1)" "draws w1 = Suc (draws w)" "outbox (wdb w1) = outbox (wdb w)"
    by (rule SoftDelete_leaf [OF env(1) ok f])
  have "ids_fresh (Suc n) env w1" by (rule ids_fresh_skip [OF env(3) del(3,4)])
  from doc_emit_healthy [OF env(1,2) this] obtain row w2 where
    emit: "doc_emit tid ''dms.folder.deleted.v1'' ''folder'' (fo_ID f) (folder_cleaned env uid f (sr_CohortID r)) env w1 = (Inr (), w2)"
      "wdb w2 = (wdb w1)\<lparr>outbox := outbox (wdb w1) @ [row]\<rparr>" "ids_fresh n env w2"
    by metis
  have "only_trashes tid uid (db_now env) {fo_ID f} (wdb w) (wdb w2)"
    using only_trashes_trans [OF del(2) only_trashes_outbox [of tid uid "db_now env" "wdb w1" "[row]"]] emit(2) by simp
  with del emit show thesis by (intro that [of w2]) (simp_all add: cleanup_one_def tbind_def)
qed

lemma cleanup_batch:
  assumes "healthy env" "visible env tid" "ids_fresh (2 * length fs + n) env w" "tree_ok (wdb w) tid"
    and "distinct (map fo_ID fs)" "\<And>f. f \<in> set fs \<Longrightarrow> f \<in> set (dm_folders (wdb w)) \<and> empty_leaf (wdb w) tid f"
  shows "\<exists>w'. tfor fs (cleanup_one tid uid) env w = (Inr (), w') \<and> tree_ok (wdb w') tid \<and> ids_fresh n env w'
     \<and> only_trashes tid uid (db_now env) (fo_ID ` set fs) (wdb w) (wdb w')"
  using assms(3-)
proof (induction fs arbitrary: w)
  case Nil
  then show ?case using only_trashes_refl by (auto simp: tret_def)
next
  case (Cons f fs)
  have f: "f \<in> set (dm_folders (wdb w))" "empty_leaf (wdb w) tid f" using Cons.prems(4) by auto
  have "ids_fresh (Suc (Suc (2 * length fs + n))) env w" using Cons.prems(1) by simp
  then obtain w1 where one: "cleanup_one tid uid f env w = (Inr (), w1)" "only_trashes tid uid (db_now env) {fo_ID f} (wdb w) (wdb w1)"
    "ids_fresh (2 * length fs + n) env w1"
    using cleanup_one_leaf [OF assms(1,2) _ Cons.prems(2) f] by metis
  have ok: "tree_ok (wdb w1) tid" by (rule only_trashes_tree [OF one(2) Cons.prems(2) f])
  have rest: "g \<in> set (dm_folders (wdb w1)) \<and> empty_leaf (wdb w1) tid g" if "g \<in> set fs" for g
  proof -
    have "fo_ID f \<notin> fo_ID ` set fs" using Cons.prems(3) by simp
    then have "fo_ID g \<noteq> fo_ID f" using that by (metis imageI)
    with that show ?thesis
      using Cons.prems(4) [of g] only_trashes_keeps [OF one(2), of g] only_trashes_empty_leaf [OF one(2), of g] by auto
  qed
  obtain w2 where "tfor fs (cleanup_one tid uid) env w1 = (Inr (), w2)" "tree_ok (wdb w2) tid" "ids_fresh n env w2"
      "only_trashes tid uid (db_now env) (fo_ID ` set fs) (wdb w1) (wdb w2)"
    using Cons.IH [OF one(3) ok _ rest] Cons.prems(3) by auto
  with one show ?case using only_trashes_trans [OF one(2)] by (fastforce simp: tbind_def)
qed

section \<open>The whole clean-up\<close>

definition cleanable :: "'x doc_db_scheme \<Rightarrow> uuid \<Rightarrow> uuid \<Rightarrow> time option \<Rightarrow> folder list" where
  "cleanable d tid wid olderThan = filter (\<lambda>f. empty_leaf d tid f \<and> cleanup_scope wid olderThan f) (dm_folders d)"

lemma page_limit_bounds: "1 \<le> page_limit k" "1 \<le> k \<Longrightarrow> page_limit k \<le> k"
  by (auto simp: page_limit_def Let_def FolderPageDefaultLimit_def FolderPageMaxLimit_def)

lemma ListEmptyFolders_healthy:
  assumes "healthy env" and "1 \<le> k" and "distinct (map folder_id (dm_folders (wdb w)))"
  obtains fs where "Folders_ListEmptyFolders tid wid olderThan k env w = (Inr fs, w\<lparr>stmts := Suc (stmts w)\<rparr>)"
    "set fs \<subseteq> set (cleanable (wdb w) tid wid olderThan)" "fs = [] \<longleftrightarrow> cleanable (wdb w) tid wid olderThan = []"
    "int (length fs) \<le> k" "distinct (map fo_ID fs)"
proof -
  let ?c = "cleanable (wdb w) tid wid olderThan"
  let ?s = "sort_key (\<lambda>f. - fo_Depth f) (sort_key fo_ID ?c)"
  let ?fs = "take (nat (page_limit k)) ?s"
  have run: "Folders_ListEmptyFolders tid wid olderThan k env w = (Inr ?fs, w\<lparr>stmts := Suc (stmts w)\<rparr>)"
    using assms by (simp add: Folders_ListEmptyFolders_def cleanable_def)
  have sub: "set ?fs \<subseteq> set ?c" using set_take_subset [of _ ?s] by auto
  have "?s = [] \<longleftrightarrow> ?c = []" by (metis length_0_conv length_sort)
  then have none: "?fs = [] \<longleftrightarrow> ?c = []" using page_limit_bounds(1) [of k] by simp
  have "int (length ?fs) \<le> page_limit k" using page_limit_bounds(1) [of k] by (simp add: min_le_iff_disj)
  then have len: "int (length ?fs) \<le> k" using page_limit_bounds(2) [OF assms(2)] by linarith
  have "inj_on fo_ID (set ?c)" "distinct ?c"
    using assms(3) by (auto simp: cleanable_def empty_leaf_def folder_id_def distinct_map inj_on_def)
  then have "inj_on fo_ID (set ?s)" "distinct ?s" by simp_all
  then have dist: "distinct (map fo_ID ?fs)"
    using set_take_subset [of _ ?s] by (auto simp: distinct_map intro: inj_on_subset)
  show thesis by (rule that [OF run sub none len dist])
qed

definition drained :: "uuid \<Rightarrow> uuid \<Rightarrow> time option \<Rightarrow> folder list \<Rightarrow> uuid \<Rightarrow> time \<Rightarrow> 'x doc_db_scheme \<Rightarrow> 'x doc_db_scheme \<Rightarrow> bool" where
  "drained tid wid olderThan fs uid now d d' \<longleftrightarrow> only_trashes tid uid now (fo_ID ` set fs) d d' \<and> distinct (map fo_ID fs)
     \<and> list_all (\<lambda>f. f \<in> live_folders d tid \<and> cleanup_scope wid olderThan f \<and> live_docs_in d tid (fo_ID f) = []) fs"

lemma drained_Nil: "drained tid wid olderThan [] uid now d d"
  by (simp add: drained_def only_trashes_refl)

lemma drained_append:
  assumes "drained tid wid olderThan fs uid now d d'" "drained tid wid olderThan gs uid now d' d''"
  shows "drained tid wid olderThan (fs @ gs) uid now d d''"
proof -
  have ot: "only_trashes tid uid now (fo_ID ` set fs) d d'" using assms by (simp add: drained_def)
  have "fo_ID g \<notin> fo_ID ` set fs \<and> g \<in> live_folders d tid \<and> cleanup_scope wid olderThan g \<and> live_docs_in d tid (fo_ID g) = []"
    if "g \<in> set gs" for g
    using that assms(2) only_trashes_live [OF ot] only_trashes_table(2) [OF ot]
    by (auto simp: drained_def list_all_iff live_docs_in_def)
  note new = this
  then have "fo_ID ` set gs \<inter> fo_ID ` set fs = {}" by blast
  then have "distinct (map fo_ID (fs @ gs))" using assms by (simp add: drained_def inf_commute)
  moreover have "list_all (\<lambda>f. f \<in> live_folders d tid \<and> cleanup_scope wid olderThan f
      \<and> live_docs_in d tid (fo_ID f) = []) (fs @ gs)"
    using assms(1) new unfolding drained_def list_all_iff set_append by blast
  moreover have "only_trashes tid uid now (fo_ID ` set (fs @ gs)) d d''"
    using only_trashes_trans [OF ot] assms(2) by (simp add: drained_def image_Un)
  ultimately show ?thesis by (simp add: drained_def)
qed

lemma cleanup_loop_drains:
  assumes "healthy env" "visible env tid" "tree_ok (wdb w) tid" "ids_fresh (2 * nat (cap - int (length acc))) env w"
    and "int (length acc) \<le> cap"
  shows "\<exists>fs w'. cleanup_loop tid wid olderThan uid cap acc env w = (Inr (acc @ fs), w') \<and> int (length (acc @ fs)) \<le> cap
     \<and> (int (length (acc @ fs)) = cap \<or> cleanable (wdb w') tid wid olderThan = []) \<and> drained tid wid olderThan fs uid (db_now env) (wdb w) (wdb w')"
  using assms(3-)
proof (induction "nat (cap - int (length acc))" arbitrary: acc w rule: less_induct)
  case less
  show ?case
  proof (cases "int (length acc) = cap")
    case True
    then show ?thesis using drained_Nil
      by (intro exI [of _ "[]"] exI [of _ w]) (simp add: cleanup_loop.simps [of tid wid olderThan uid cap acc])
  next
    case False
    let ?k = "min (cap - int (length acc)) emptyFolderCleanupMaxBatch"
    have k: "1 \<le> ?k" using False less.prems(3) by (simp add: emptyFolderCleanupMaxBatch_def)
    obtain es where es: "Folders_ListEmptyFolders tid wid olderThan ?k env w = (Inr es, w\<lparr>stmts := Suc (stmts w)\<rparr>)"
      "set es \<subseteq> set (cleanable (wdb w) tid wid olderThan)" "es = [] \<longleftrightarrow> cleanable (wdb w) tid wid olderThan = []"
      "int (length es) \<le> ?k" "distinct (map fo_ID es)"
      by (rule ListEmptyFolders_healthy [OF assms(1) k tree_ids [OF less.prems(1)]])
    show ?thesis
    proof (cases "es = []")
      case True
      with es False less.prems(3) show ?thesis using drained_Nil
        by (intro exI [of _ "[]"] exI [of _ "w\<lparr>stmts := Suc (stmts w)\<rparr>"]) (simp add: cleanup_loop.simps [of tid wid olderThan uid cap acc])
    next
      case ne: False
      let ?w1 = "w\<lparr>stmts := Suc (stmts w)\<rparr>"
      let ?n = "2 * nat (cap - int (length (acc @ es)))"
      have room: "2 * length es + ?n = 2 * nat (cap - int (length acc))" using es(4) by auto
      have leaf: "f \<in> set (dm_folders (wdb ?w1)) \<and> empty_leaf (wdb ?w1) tid f" if "f \<in> set es" for f
        using that es(2) by (auto simp: cleanable_def)
      obtain w2 where pass: "tfor es (cleanup_one tid uid) env ?w1 = (Inr (), w2)" "tree_ok (wdb w2) tid" "ids_fresh ?n env w2"
          "only_trashes tid uid (db_now env) (fo_ID ` set es) (wdb ?w1) (wdb w2)"
        using cleanup_batch [OF assms(1,2) _ _ es(5) leaf, of ?n uid] less.prems(1,2) unfolding room by auto
      have step: "drained tid wid olderThan es uid (db_now env) (wdb w) (wdb w2)"
        using pass(4) es(2,5) by (auto simp: drained_def list_all_iff cleanable_def live_folders_def empty_leaf_def)
      have le: "int (length (acc @ es)) \<le> cap" using es(4) by simp
      have "nat (cap - int (length (acc @ es))) < nat (cap - int (length acc))"
        using ne es(4) k by (cases es) simp_all
      from less.hyps [OF this pass(2,3) le] obtain fs w' where
        "cleanup_loop tid wid olderThan uid cap (acc @ es) env w2 = (Inr ((acc @ es) @ fs), w')" "int (length ((acc @ es) @ fs)) \<le> cap"
        "int (length ((acc @ es) @ fs)) = cap \<or> cleanable (wdb w') tid wid olderThan = []"
        "drained tid wid olderThan fs uid (db_now env) (wdb w2) (wdb w')"
        by blast
      then show ?thesis using es(1) ne pass(1) False less.prems(3) drained_append [OF step]
        by (intro exI [of _ "es @ fs"] exI [of _ w']) (simp add: cleanup_loop.simps [of tid wid olderThan uid cap acc])
    qed
  qed
qed

lemma doc_callerI: "doc_mustCaller (ctx env) = Inr (tid, uid) \<Longrightarrow> doc_caller f env w = f tid uid env w"
  by (simp add: doc_caller_def tbind_def tlift_def)

lemma doc_mustCaller_tenant: "doc_mustCaller c = Inr (tid, uid) \<Longrightarrow> tid \<noteq> uuid_Nil"
  by (auto simp: doc_mustCaller_def split: sum.splits if_splits)

lemma visible_own [simp]: "visible (env\<lparr>cur_tenant := tid\<rparr>) tid"
  by (simp add: visible_def)

lemma cleanup_cap_pos: "0 \<le> cleanup_cap n"
  by (simp add: cleanup_cap_def Let_def emptyFolderCleanupMaxBatch_def emptyFolderCleanupHardCap_def)

text \<open>
  Property C4. Cleaning up empty folders ends with an answer: for an administrator, on a well-formed tree, the
  transaction commits after removing at most the requested number of folders. Exactly the folders it reports went to
  the trash, every one of them live, in the requested scope and free of live documents, and no document changed;
  unless the cap stopped it, no empty folder of the scope is left, so nested empty folders are gone as well.
\<close>

theorem CleanupEmptyFolders_drains:
  assumes env: "healthy env" and caller: "doc_mustCaller (ctx env) = Inr (tid, uid)" "callerIsTenantAdmin (ctx env)"
    and db: "tree_ok (wdb w) tid" "ids_fresh (2 * nat (cleanup_cap most)) env w"
  shows "\<exists>r w'. CleanupEmptyFolders wid days most env w = (Inr r, w')
    \<and> cl_Deleted r = length (cl_Folders r) \<and> int (cl_Deleted r) \<le> cleanup_cap most
    \<and> cl_MoreRemaining r = (int (cl_Deleted r) = cleanup_cap most)
    \<and> drained tid wid (age_limit env days) (cl_Folders r) uid (db_now env) (wdb w) (wdb w')
    \<and> (cl_MoreRemaining r \<or> cleanable (wdb w') tid wid (age_limit env days) = [])"
proof -
  let ?env = "env\<lparr>cur_tenant := tid\<rparr>" and ?w = "w\<lparr>stmts := Suc (Suc (stmts w))\<rparr>"
  have h: "healthy ?env" and tid: "tid \<noteq> uuid_Nil" using env doc_mustCaller_tenant [OF caller(1)] by simp_all
  have start: "tree_ok (wdb ?w) tid" "ids_fresh (2 * nat (cleanup_cap most - int (length []))) ?env ?w"
    "int (length []) \<le> cleanup_cap most"
    using db cleanup_cap_pos by simp_all
  from cleanup_loop_drains [OF h visible_own start, of wid "age_limit env days" uid] obtain fs w1 where
    loop: "cleanup_loop tid wid (age_limit env days) uid (cleanup_cap most) [] ?env ?w = (Inr fs, w1)"
    and fs: "int (length fs) \<le> cleanup_cap most"
      "int (length fs) = cleanup_cap most \<or> cleanable (wdb w1) tid wid (age_limit env days) = []"
      "drained tid wid (age_limit env days) fs uid (db_now env) (wdb w) (wdb w1)"
    by auto
  have tx: "WithTenantTx tid (cleanup_loop tid wid (age_limit env days) uid (cleanup_cap most) []) env w
      = (Inr fs, w1\<lparr>stmts := Suc (stmts w1)\<rparr>)"
    by (rule healthy_WithTenantTx [OF env tid, where fn = "cleanup_loop _ _ _ _ _ _"]) (rule loop)
  show ?thesis
    using fs caller(2) by (simp add: CleanupEmptyFolders_def doc_callerI [OF caller(1)] tbind_def tx tguard_def tret_def) auto
qed

end
