(* ===== verification/Folder_Trash.thy ===== *)
theory Folder_Trash
  imports Folder_Tree
begin

text \<open>
  Deleting a folder and bringing it back: what \<open>DeleteFolder\<close> changes and what it refuses to touch, and that
  \<open>RestoreFolder\<close> undoes it.
\<close>

section \<open>Deleting a subtree and restoring a cohort\<close>

definition trash_subtree :: "time \<Rightarrow> uuid \<Rightarrow> uuid \<Rightarrow> uuid \<Rightarrow> string \<Rightarrow> 'x doc_db_scheme \<Rightarrow> 'x doc_db_scheme" where
  "trash_subtree now cohort uid tid path d = d\<lparr>
     dm_documents := map (\<lambda>x. if doc_in_subtree d tid path x then trash_doc now cohort uid x else x) (dm_documents d),
     dm_folders := map (\<lambda>f. if in_subtree tid path f then trash_folder now cohort uid f else f) (dm_folders d)\<rparr>"

definition restore_cohort :: "time \<Rightarrow> uuid \<Rightarrow> uuid \<Rightarrow> 'x doc_db_scheme \<Rightarrow> 'x doc_db_scheme" where
  "restore_cohort now cohort tid d = d\<lparr>
     dm_folders := map (\<lambda>f. if fo_TenantID f = tid \<and> fo_Cohort f = Some cohort then restore_folder_row now f else f) (dm_folders d),
     dm_documents := map (\<lambda>x. if dd_TenantID x = tid \<and> dd_Cohort x = Some cohort then restore_doc_row now x else x) (dm_documents d)\<rparr>"

text \<open>A database after a deletion and a restore: only the stamps of the rows in the subtree differ.\<close>

definition restamped :: "time \<Rightarrow> uuid \<Rightarrow> string \<Rightarrow> 'x doc_db_scheme \<Rightarrow> 'x doc_db_scheme" where
  "restamped now tid path d = d\<lparr>
     dm_folders := map (\<lambda>f. if in_subtree tid path f then f\<lparr>fo_UpdatedAt := now\<rparr> else f) (dm_folders d),
     dm_documents := map (\<lambda>x. if doc_in_subtree d tid path x then x\<lparr>dd_UpdatedAt := now\<rparr> else x) (dm_documents d)\<rparr>"

text \<open>Live rows carry no trace of the trash.\<close>

definition trash_marks_ok :: "'x doc_db_scheme \<Rightarrow> bool" where
  "trash_marks_ok d \<longleftrightarrow> (\<forall>f \<in> set (dm_folders d). fo_live f \<longrightarrow> fo_Cohort f = None \<and> fo_DeletedBy f = None)
     \<and> (\<forall>x \<in> set (dm_documents d). dd_live x \<longrightarrow> dd_Cohort x = None \<and> dd_DeletedBy x = None)"

definition cohort_unused :: "uuid option \<Rightarrow> 'x doc_db_scheme \<Rightarrow> bool" where
  "cohort_unused c d \<longleftrightarrow> c \<notin> fo_Cohort ` set (dm_folders d) \<and> c \<notin> dd_Cohort ` set (dm_documents d)"

lemma restore_trash_folder:
  "fo_live f \<Longrightarrow> fo_Cohort f = None \<Longrightarrow> fo_DeletedBy f = None \<Longrightarrow>
     restore_folder_row now' (trash_folder now c uid f) = f\<lparr>fo_UpdatedAt := now'\<rparr>"
  by (cases f) (simp add: restore_folder_row_def trash_folder_def fo_live_def)

lemma restore_trash_doc:
  "dd_live x \<Longrightarrow> dd_Cohort x = None \<Longrightarrow> dd_DeletedBy x = None \<Longrightarrow>
     restore_doc_row now' (trash_doc now c uid x) = x\<lparr>dd_UpdatedAt := now'\<rparr>"
  by (cases x) (simp add: restore_doc_row_def trash_doc_def dd_live_def)

lemma restore_trash:
  assumes "trash_marks_ok d" and "cohort_unused (Some c) d"
  shows "restore_cohort now' c tid (trash_subtree now c uid tid path d) = restamped now' tid path d"
proof -
  have fo: "(if fo_TenantID (if in_subtree tid path f then trash_folder now c uid f else f) = tid
          \<and> fo_Cohort (if in_subtree tid path f then trash_folder now c uid f else f) = Some c
        then restore_folder_row now' (if in_subtree tid path f then trash_folder now c uid f else f)
        else (if in_subtree tid path f then trash_folder now c uid f else f))
      = (if in_subtree tid path f then f\<lparr>fo_UpdatedAt := now'\<rparr> else f)" if f: "f \<in> set (dm_folders d)" for f
  proof (cases "in_subtree tid path f")
    case True
    then have "restore_folder_row now' (trash_folder now c uid f) = f\<lparr>fo_UpdatedAt := now'\<rparr>"
      using f assms(1) by (intro restore_trash_folder) (auto simp: in_subtree_def trash_marks_ok_def)
    with True show ?thesis by (simp add: in_subtree_def trash_folder_def)
  next
    case False
    have "fo_Cohort f \<noteq> Some c" using f assms(2) by (metis cohort_unused_def imageI)
    with False show ?thesis by simp
  qed
  have dd: "(if dd_TenantID (if doc_in_subtree d tid path x then trash_doc now c uid x else x) = tid
          \<and> dd_Cohort (if doc_in_subtree d tid path x then trash_doc now c uid x else x) = Some c
        then restore_doc_row now' (if doc_in_subtree d tid path x then trash_doc now c uid x else x)
        else (if doc_in_subtree d tid path x then trash_doc now c uid x else x))
      = (if doc_in_subtree d tid path x then x\<lparr>dd_UpdatedAt := now'\<rparr> else x)" if x: "x \<in> set (dm_documents d)" for x
  proof (cases "doc_in_subtree d tid path x")
    case True
    then have "restore_doc_row now' (trash_doc now c uid x) = x\<lparr>dd_UpdatedAt := now'\<rparr>"
      using x assms(1) by (intro restore_trash_doc) (auto simp: doc_in_subtree_def trash_marks_ok_def)
    with True show ?thesis by (simp add: doc_in_subtree_def trash_doc_def)
  next
    case False
    have "dd_Cohort x \<noteq> Some c" using x assms(2) by (metis cohort_unused_def imageI)
    with False show ?thesis by simp
  qed
  show ?thesis by (simp add: restore_cohort_def trash_subtree_def restamped_def comp_def fo dd cong: map_cong)
qed

lemma in_subtree_stamp [simp]: "fo_live (f\<lparr>fo_UpdatedAt := t\<rparr>) = fo_live f" "name_key L (f\<lparr>fo_UpdatedAt := t\<rparr>) = name_key L f"
  by (simp_all add: fo_live_def name_key_def)

lemma names_unique_map:
  assumes "\<And>f. f \<in> set fs \<Longrightarrow> fo_live (h f) = fo_live f \<and> name_key L (h f) = name_key L f"
  shows "names_unique L (map h fs) = names_unique L fs"
proof -
  have "map (name_key L) (filter fo_live (map h fs)) = map (name_key L) (filter fo_live fs)"
    using assms by (induction fs) auto
  then show ?thesis by (simp add: names_unique_def)
qed

section \<open>What \<open>DeleteFolder\<close> does\<close>

definition live_root :: "'x doc_db_scheme \<Rightarrow> uuid \<Rightarrow> uuid \<Rightarrow> folder option" where
  "live_root d tid i = find (\<lambda>f. folder_is tid i f \<and> fo_live f) (dm_folders d)"

lemma live_root_Some: "live_root d tid i = Some f \<Longrightarrow> f \<in> set (dm_folders d) \<and> fo_TenantID f = tid \<and> fo_ID f = i \<and> fo_live f"
  by (auto simp: live_root_def find_Some_iff folder_is_def)

lemma SoftDelete_Inr:
  assumes "Folders_SoftDeleteSubtree tid i uid env w = (Inr r, w')"
  obtains f c where "live_root (wdb w) tid i = Some f" "new_id env (draws w) = Some c"
    "wdb w' = trash_subtree (db_now env) c uid tid (fo_Path f) (wdb w)" "draws w' = Suc (draws w)" "sr_CohortID r = c"
    "sr_FolderIDs r = map fo_ID (filter (in_subtree tid (fo_Path f)) (dm_folders (wdb w)))"
    "sr_DocumentIDs r = map dd_ID (filter (doc_in_subtree (wdb w) tid (fo_Path f)) (dm_documents (wdb w)))"
  using assms
  by (auto simp: Folders_SoftDeleteSubtree_def tx_Inr draw_id_def trash_documents_def trash_folders_def live_root_def
      trash_subtree_def split: option.splits)

lemma doc_emit_Inr:
  assumes "doc_emit tid ty agg aid payload env w = (Inr (), w')"
  obtains r where "wdb w' = (wdb w)\<lparr>outbox := outbox (wdb w) @ [r]\<rparr>" "draws w' = Suc (draws w)" "new_id env (draws w) = Some (o_ID r)"
    "o_TenantID r = tid" "o_EventType r = ty" "o_AggregateType r = agg" "o_AggregateID r = aid" "o_Payload r = payload"
proof -
  from assms obtain u where u: "new_id env (draws w) = Some u" and w': "draws w' = Suc (draws w)"
      "wdb w' = (wdb w)\<lparr>outbox := outbox (wdb w) @ [doc_outbox_row env \<lparr>e_ID = u, e_TenantID = tid, e_EventType = ty,
         e_AggregateType = agg, e_AggregateID = aid, e_Payload = Some payload, e_CreatedAt = go_now env\<rparr> payload]\<rparr>"
    by (auto simp: doc_emit_def tx_Inr draw_id_def Doc_Outbox_Insert_def split: option.splits if_splits)
  show thesis by (rule that [OF w'(2,1)]) (simp_all add: u)
qed

lemma GetByID_Inr:
  "Folders_GetByID tid i env w = (Inr v, w') \<longleftrightarrow> fault env (stmts w) = None \<and> w' = w\<lparr>stmts := Suc (stmts w)\<rparr>
     \<and> (\<exists>f. find (folder_is tid i) (dm_folders (wdb w)) = Some f \<and> v = view_of (wdb w) f)"
  by (auto simp: Folders_GetByID_def sql_read_Inr split: option.splits)

definition policy_says :: "doc_lib \<Rightarrow> nat \<Rightarrow> env \<Rightarrow> uuid \<Rightarrow> string \<Rightarrow> folder \<Rightarrow> bool" where
  "policy_says L k env uid action f \<longleftrightarrow> policy_client L k (outgoing_tenant (ctx env))
     (permission_request env uid action ''folder'' (fo_ID f) (in_workspace env (fo_WorkspaceID f))) = Some True"

lemma permission_request_tenant [simp]: "permission_request (env\<lparr>cur_tenant := t\<rparr>) = permission_request env"
  "in_workspace (env\<lparr>cur_tenant := t\<rparr>) = in_workspace env"
  by (auto simp: permission_request_def in_workspace_def fun_eq_iff)

lemma policy_says_tenant [simp]: "policy_says L k (env\<lparr>cur_tenant := t\<rparr>) uid action f = policy_says L k env uid action f"
  by (simp add: policy_says_def)

lemma require_on_folder_Inr:
  "require_on_folder L uid action f env w = (Inr x, w') \<longleftrightarrow> utf8_ok (GetUserRole (ctx env)) \<and> policy_says L (stmts w) env uid action f \<and> w' = w"
  by (auto simp: require_on_folder_def requirePermission_def checkPermission_def tbind_Inr policy_says_def)

lemma require_ok:
  "utf8_ok (GetUserRole (ctx env)) \<Longrightarrow> policy_says L (stmts w) env uid action f \<Longrightarrow> require_on_folder L uid action f env w = (Inr (), w)"
  by (simp add: require_on_folder_def requirePermission_def checkPermission_def tbind_def tguard_def tret_def policy_says_def)

lemma doc_caller_Inr:
  assumes "doc_caller f env w = (Inr a, w')"
  obtains tid uid where "doc_mustCaller (ctx env) = Inr (tid, uid)" "f tid uid env w = (Inr a, w')"
  using assms by (auto simp: doc_caller_def tbind_Inr tlift_def)

lemma Protected_Inr:
  "ProtectedDocumentsInSubtree L tid i n env w = (Inr (listed, k), w') \<Longrightarrow>
     k = length (protected_in (wdb w) (db_now env) tid i) \<and> w' = w\<lparr>stmts := Suc (stmts w)\<rparr>"
  by (simp add: ProtectedDocumentsInSubtree_def sql_read_Inr Let_def)

lemma delete_tx_Inr:
  assumes "delete_tx L tid uid i env w = (Inr (), w')"
  obtains cur r w4 w5 where "find (folder_is tid i) (dm_folders (wdb w)) = Some cur"
    "policy_says L (Suc (stmts w)) env uid ''admin'' cur" "protected_in (wdb w) (db_now env) tid i = []"
    "Folders_SoftDeleteSubtree tid i uid env w4 = (Inr r, w5)" "wdb w4 = wdb w" "draws w4 = draws w"
    "doc_emit tid ''dms.folder.deleted.v1'' ''folder'' i (folder_deleted env uid cur r) env w5 = (Inr (), w')"
proof -
  from assms obtain cur where cur: "find (folder_is tid i) (dm_folders (wdb w)) = Some cur"
    and r1: "tbind (require_on_folder L uid ''admin'' cur) (\<lambda>_.
       tbind (ProtectedDocumentsInSubtree L tid i folderDeleteProtectedListed) (\<lambda>(listed, found).
       tbind (tguard (found = 0) (Domain (Conflict (protectedDocumentsMessage L listed found)))) (\<lambda>_.
       tbind (Folders_SoftDeleteSubtree tid i uid) (\<lambda>r.
       with_env (\<lambda>env. doc_emit tid ''dms.folder.deleted.v1'' ''folder'' i (folder_deleted env uid cur r))))))
       env (w\<lparr>stmts := Suc (stmts w)\<rparr>) = (Inr (), w')"
    unfolding delete_tx_def by (subst (asm) tbind_Inr) (auto simp: GetByID_Inr view_of_def)
  from r1 obtain listed k w4 where may: "policy_says L (Suc (stmts w)) env uid ''admin'' cur"
    and prot: "ProtectedDocumentsInSubtree L tid i folderDeleteProtectedListed env (w\<lparr>stmts := Suc (stmts w)\<rparr>) = (Inr (listed, k), w4)"
    and r2: "tbind (tguard (k = 0) (Domain (Conflict (protectedDocumentsMessage L listed k)))) (\<lambda>_.
       tbind (Folders_SoftDeleteSubtree tid i uid) (\<lambda>r.
       with_env (\<lambda>env. doc_emit tid ''dms.folder.deleted.v1'' ''folder'' i (folder_deleted env uid cur r))))
       env w4 = (Inr (), w')"
    by (fastforce simp: tbind_Inr [of "require_on_folder L uid ''admin'' cur"] require_on_folder_Inr
        tbind_Inr [of "ProtectedDocumentsInSubtree L tid i folderDeleteProtectedListed"])
  from r2 obtain r w5 where "k = 0" "Folders_SoftDeleteSubtree tid i uid env w4 = (Inr r, w5)"
    "doc_emit tid ''dms.folder.deleted.v1'' ''folder'' i (folder_deleted env uid cur r) env w5 = (Inr (), w')"
    by (auto simp: tbind_Inr)
  with Protected_Inr [OF prot] cur may show thesis by (intro that [of cur w4 r w5]) auto
qed

lemma doc_in_subtree_root: "doc_in_subtree d tid path x \<Longrightarrow> dd_TenantID x = tid \<and> dd_live x"
  by (simp add: doc_in_subtree_def)


section \<open>Re-emitting documents\<close>

text \<open>A step that succeeds, draws one identifier and only appends one event.\<close>

definition emits :: "nat \<Rightarrow> env \<Rightarrow> ('x doc_db_scheme) world \<Rightarrow> (gerr + 'a) \<times> ('x doc_db_scheme) world \<Rightarrow> bool" where
  "emits n env w r \<longleftrightarrow> (\<exists>a w' rows. r = (Inr a, w') \<and> wdb w' = (wdb w)\<lparr>outbox := outbox (wdb w) @ rows\<rparr> \<and> ids_fresh n env w')"

lemma emitsE:
  assumes "emits n env w r"
  obtains a w' rows where "r = (Inr a, w')" "wdb w' = (wdb w)\<lparr>outbox := outbox (wdb w) @ rows\<rparr>" "ids_fresh n env w'"
  using assms by (auto simp: emits_def)

lemma doc_emit_emits:
  assumes "healthy env" "visible env tid" "ids_fresh (Suc n) env w"
  shows "emits n env w (doc_emit tid ty agg aid payload env w)"
  by (rule doc_emit_healthy [OF assms, of ty agg aid payload]) (auto simp: emits_def)

lemma emits_read:
  assumes "f env w = (Inr a, w1)" "wdb w1 = wdb w" "emits n env w1 (g a env w1)"
  shows "emits n env w (tbind f g env w)"
  using assms by (auto simp: emits_def tbind_def)

lemma reindex_reads:
  assumes "healthy env"
  shows "\<exists>c k. reindex_content tid x env w = (Inr c, w\<lparr>stmts := k\<rparr>)"
    "\<exists>c k. version_count tid x env w = (Inr c, w\<lparr>stmts := k\<rparr>)"
    "\<exists>c k. reindex_readers L tid x env w = (Inr c, w\<lparr>stmts := k\<rparr>)"
proof -
  have same: "\<exists>k. w = w\<lparr>stmts := k\<rparr>" by (rule exI [of _ "stmts w"]) simp
  show "\<exists>c k. reindex_content tid x env w = (Inr c, w\<lparr>stmts := k\<rparr>)"
    using assms same by (cases "dd_Version x") (auto simp: reindex_content_def tret_def)
  show "\<exists>c k. version_count tid x env w = (Inr c, w\<lparr>stmts := k\<rparr>)"
    using assms by (auto simp: version_count_def)
  show "\<exists>c k. reindex_readers L tid x env w = (Inr c, w\<lparr>stmts := k\<rparr>)"
    using assms same
    by (cases "dd_FolderID x") (auto simp: reindex_readers_def tret_def tbind_def on_error_def computeFolderReaders_def Let_def)
qed

lemma reindex_one_emits:
  assumes "healthy env" "visible env tid" "ids_fresh (Suc n) env w"
  shows "emits n env w (reindex_one L tid (x, name) env w)"
proof -
  obtain c k where 1: "reindex_content tid x env w = (Inr c, w\<lparr>stmts := k\<rparr>)" using reindex_reads(1) [OF assms(1)] by blast
  obtain v k' where 2: "version_count tid x env (w\<lparr>stmts := k\<rparr>) = (Inr v, w\<lparr>stmts := k'\<rparr>)"
    using reindex_reads(2) [OF assms(1), of tid x "w\<lparr>stmts := k\<rparr>"] by auto
  obtain r j where 3: "reindex_readers L tid x env (w\<lparr>stmts := k'\<rparr>) = (Inr r, w\<lparr>stmts := j\<rparr>)"
    using reindex_reads(3) [OF assms(1), of L tid x "w\<lparr>stmts := k'\<rparr>"] by auto
  have "emits n env (w\<lparr>stmts := j\<rparr>) (doc_emit tid ''dms.document.reindexed.v1'' ''document'' (dd_ID x)
      (reindex_payload env x name c v r) env (w\<lparr>stmts := j\<rparr>))"
    using assms by (intro doc_emit_emits) simp_all
  then show ?thesis by (simp add: reindex_one_def tbind_def 1 2 3 emits_def)
qed

definition doc_id :: "stored_doc \<Rightarrow> uuid \<times> uuid" where
  "doc_id x = (dd_TenantID x, dd_ID x)"

lemma filter_one: "distinct (map h xs) \<Longrightarrow> x \<in> set xs \<Longrightarrow> (\<And>y. y \<in> set xs \<Longrightarrow> P y \<longleftrightarrow> h y = h x) \<Longrightarrow> filter P xs = [x]"
  by (induction xs) (auto simp: filter_empty_conv image_iff)

lemma reindexBatch_emits:
  assumes "healthy env" "visible env tid" "ids_fresh (Suc n) env w"
    and docs: "distinct (map doc_id (dm_documents (wdb w)))" "x \<in> set (dm_documents (wdb w))" "dd_TenantID x = tid" "dd_live x"
  shows "emits n env w (reindexBatch L tid (Some (dd_ID x)) cursor env w)"
proof -
  have same: "y = x" if "y \<in> set (dm_documents (wdb w))" "doc_id y = doc_id x" for y
    using docs(1,2) that by (auto simp: distinct_map dest: inj_onD)
  have "filter (\<lambda>y. dd_TenantID y = tid \<and> dd_live y \<and> dd_ID y = dd_ID x) (dm_documents (wdb w)) = [x]"
    using docs same by (intro filter_one [where h = doc_id]) (auto simp: doc_id_def)
  then have rows: "reindex_rows (wdb w) tid (Some (dd_ID x)) cursor = [x]" by (simp add: reindex_rows_def)
  have "emits n env (w\<lparr>stmts := Suc (stmts w)\<rparr>) (reindex_one L tid (x, creator_name (wdb w) x) env (w\<lparr>stmts := Suc (stmts w)\<rparr>))"
    using assms by (intro reindex_one_emits) simp_all
  then obtain a w' rs where "reindex_one L tid (x, creator_name (wdb w) x) env (w\<lparr>stmts := Suc (stmts w)\<rparr>) = (Inr a, w')"
      "wdb w' = (wdb w)\<lparr>outbox := outbox (wdb w) @ rs\<rparr>" "ids_fresh n env w'"
    by (auto elim: emitsE)
  then show ?thesis
    using assms(1) by (auto simp: reindexBatch_def tbind_def rows reindexBatchSize_def tguard_def tret_def emits_def)
qed

lemma restore_reindex_emits:
  assumes "healthy env" "visible env tid" "ids_fresh (length docs + n) env w" "distinct (map doc_id (dm_documents (wdb w)))"
    and "\<And>i. i \<in> set docs \<Longrightarrow> \<exists>x \<in> set (dm_documents (wdb w)). dd_TenantID x = tid \<and> dd_live x \<and> dd_ID x = i"
  shows "emits n env w (tfor docs (\<lambda>doc. on_error (tbind (reindexBatch L tid (Some doc) uuid_Nil) (\<lambda>_. tret ()))
              (\<lambda>e. tfail (wrap_err ''queue restore reindex: '' e))) env w)"
  using assms(3-)
proof (induction docs arbitrary: w)
  case Nil
  then show ?case by (auto simp: emits_def tret_def intro: exI [of _ "[]"])
next
  case (Cons i docs)
  from Cons.prems(3) obtain x where x: "x \<in> set (dm_documents (wdb w))" "dd_TenantID x = tid" "dd_live x" "dd_ID x = i" by auto
  have "emits (length docs + n) env w (reindexBatch L tid (Some (dd_ID x)) uuid_Nil env w)"
    using Cons.prems x by (intro reindexBatch_emits [OF assms(1,2)]) simp_all
  then obtain a w1 rs where one: "reindexBatch L tid (Some i) uuid_Nil env w = (Inr a, w1)"
      "wdb w1 = (wdb w)\<lparr>outbox := outbox (wdb w) @ rs\<rparr>" "ids_fresh (length docs + n) env w1"
    unfolding x(4) by (rule emitsE)
  have "emits n env w1 (tfor docs (\<lambda>doc. on_error (tbind (reindexBatch L tid (Some doc) uuid_Nil) (\<lambda>_. tret ()))
              (\<lambda>e. tfail (wrap_err ''queue restore reindex: '' e))) env w1)"
    using Cons.prems one by (intro Cons.IH) simp_all
  with one show ?case by (force simp: emits_def tbind_def on_error_def tret_def)
qed

section \<open>Restoring what was deleted\<close>

definition tables_ok :: "doc_lib \<Rightarrow> 'x doc_db_scheme \<Rightarrow> bool" where
  "tables_ok L d \<longleftrightarrow> distinct (map folder_id (dm_folders d)) \<and> distinct (map doc_id (dm_documents d))
     \<and> names_unique L (dm_folders d) \<and> trash_marks_ok d"

lemma policy_says_trashed [simp]: "policy_says L k env uid action (trash_folder now c u f) = policy_says L k env uid action f"
  by (simp add: policy_says_def)

lemma find_only:
  "distinct (map folder_id fs) \<Longrightarrow> f \<in> set fs \<Longrightarrow> fo_TenantID f = tid \<Longrightarrow> find (folder_is tid (fo_ID f)) fs = Some f"
  using find_by_id [of fs f "\<lambda>_. True" tid] by simp

lemma trash_subtree_ids [simp]:
  "map folder_id (dm_folders (trash_subtree now c uid tid path d)) = map folder_id (dm_folders d)"
  "map doc_id (dm_documents (trash_subtree now c uid tid path d)) = map doc_id (dm_documents d)"
  by (simp_all add: trash_subtree_def folder_id_def doc_id_def trash_doc_def)

lemma root_trashed:
  assumes "live_root d tid i = Some f"
  shows "trash_folder now c uid f \<in> set (dm_folders (trash_subtree now c uid tid (fo_Path f) d))"
proof -
  have "in_subtree tid (fo_Path f) f" "f \<in> set (dm_folders d)"
    using live_root_Some [OF assms] by (simp_all add: in_subtree_def below_def)
  then show ?thesis by (force simp: trash_subtree_def)
qed

lemma names_unique_restamped: "names_unique L (dm_folders (restamped now tid path d)) = names_unique L (dm_folders d)"
  by (simp add: restamped_def names_unique_map)

lemma RestoreSubtree_healthy:
  assumes env: "healthy env" and d: "wdb w = (trash_subtree now c uid tid (fo_Path root) d)\<lparr>outbox := out\<rparr>"
    and root: "live_root d tid i = Some root" and ok: "tables_ok L d" "cohort_unused (Some c) d"
  obtains w' docIDs where "Folders_RestoreSubtree L tid i env w = (Inr docIDs, w')" "draws w' = draws w"
    "wdb w' = (restamped (db_now env) tid (fo_Path root) d)\<lparr>outbox := out\<rparr>"
    "docIDs = map dd_ID (filter (doc_in_subtree d tid (fo_Path root)) (dm_documents d))"
proof -
  let ?t = "trash_subtree now c uid tid (fo_Path root) d" and ?r = "trash_folder now c uid root"
  have r: "fo_TenantID root = tid" "fo_ID root = i" using live_root_Some [OF root] by simp_all
  have "find (\<lambda>f. folder_is tid (fo_ID ?r) f \<and> \<not> fo_live f) (dm_folders ?t) = Some ?r"
    using ok root_trashed [OF root] r by (intro find_by_id) (simp_all add: tables_ok_def)
  then have found: "find (\<lambda>f. folder_is tid i f \<and> \<not> fo_live f) (dm_folders (wdb w)) = Some ?r" using r d by simp
  have undo: "restore_cohort (db_now env) c tid ?t = restamped (db_now env) tid (fo_Path root) d"
    using ok by (intro restore_trash) (simp_all add: tables_ok_def)
  let ?fs = "dm_folders (restamped (db_now env) tid (fo_Path root) d)"
  let ?ds = "dm_documents (restamped (db_now env) tid (fo_Path root) d)"
  have fs: "map (\<lambda>f. if fo_TenantID f = tid \<and> fo_Cohort f = Some c then restore_folder_row (db_now env) f else f) (dm_folders (wdb w)) = ?fs"
    using arg_cong [OF undo, of dm_folders] d by (simp add: restore_cohort_def)
  have ds: "map (\<lambda>x. if dd_TenantID x = tid \<and> dd_Cohort x = Some c then restore_doc_row (db_now env) x else x) (dm_documents (wdb w)) = ?ds"
    using arg_cong [OF undo, of dm_documents] d by (simp add: restore_cohort_def)
  have ids: "map dd_ID (filter (\<lambda>x. dd_TenantID x = tid \<and> dd_Cohort x = Some c) (dm_documents (wdb w)))
      = map dd_ID (filter (doc_in_subtree d tid (fo_Path root)) (dm_documents d))"
  proof -
    have "(dd_TenantID (if P then trash_doc now c uid x else x) = tid \<and> dd_Cohort (if P then trash_doc now c uid x else x) = Some c)
        = doc_in_subtree d tid (fo_Path root) x"
      if "x \<in> set (dm_documents d)" "P = doc_in_subtree d tid (fo_Path root) x" for x P
    proof -
      have "dd_Cohort x \<noteq> Some c" using that(1) ok(2) by (metis cohort_unused_def imageI)
      then show ?thesis by (auto simp: that(2) doc_in_subtree_def trash_doc_def)
    qed
    then have "filter (\<lambda>x. dd_TenantID x = tid \<and> dd_Cohort x = Some c) (dm_documents ?t)
        = map (\<lambda>x. if doc_in_subtree d tid (fo_Path root) x then trash_doc now c uid x else x)
            (filter (doc_in_subtree d tid (fo_Path root)) (dm_documents d))"
      by (simp add: trash_subtree_def filter_map comp_def cong: filter_cong)
    then show ?thesis using d by (simp add: trash_doc_def comp_def if_distrib [of dd_ID] cong: if_cong)
  qed
  have unique: "names_unique L ?fs" using ok(1) by (simp add: names_unique_restamped tables_ok_def)
  let ?w = "w\<lparr>stmts := Suc (Suc (Suc (stmts w))), wdb := (wdb w)\<lparr>dm_folders := ?fs, dm_documents := ?ds\<rparr>\<rparr>"
  have run: "Folders_RestoreSubtree L tid i env w
      = (Inr (map dd_ID (filter (doc_in_subtree d tid (fo_Path root)) (dm_documents d))), ?w)"
    using env unique found
    by (simp add: Folders_RestoreSubtree_def tbind_def restore_folders_def restore_documents_def put_folders_def fs ds ids
        trash_folder_def)
  have "wdb ?w = (restamped (db_now env) tid (fo_Path root) d)\<lparr>outbox := out\<rparr>"
    using d by (simp add: trash_subtree_def restamped_def)
  then show thesis by (intro that [OF run]) simp_all
qed

lemma doc_in_subtree_restamped: "x \<in> set (dm_documents d) \<Longrightarrow> doc_in_subtree d tid path x \<Longrightarrow>
    \<exists>y \<in> set (dm_documents (restamped now tid path d)). dd_TenantID y = tid \<and> dd_live y \<and> dd_ID y = dd_ID x"
  by (rule bexI [of _ "x\<lparr>dd_UpdatedAt := now\<rparr>"]) (auto simp: restamped_def doc_in_subtree_def dd_live_def)

lemma restamped_ids [simp]: "map doc_id (dm_documents (restamped now tid path d)) = map doc_id (dm_documents d)"
  by (simp add: restamped_def doc_id_def)

lemma DeleteFolder_Inr:
  assumes "DeleteFolder L i env w = (Inr (), w')" and "doc_mustCaller (ctx env) = Inr (tid, uid)"
  obtains root c row where "live_root (wdb w) tid i = Some root" "new_id env (draws w) = Some c"
    "wdb w' = (trash_subtree (db_now env) c uid tid (fo_Path root) (wdb w))\<lparr>outbox := outbox (wdb w) @ [row]\<rparr>"
proof -
  from assms obtain w1 w2 where w1: "wdb w1 = wdb w" "draws w1 = draws w"
    and run: "delete_tx L tid uid i (env\<lparr>cur_tenant := tid\<rparr>) w1 = (Inr (), w2)" and w2: "wdb w' = wdb w2"
    unfolding DeleteFolder_def doc_callerI [OF assms(2)] by (auto elim: WithTenantTx_InrE)
  from run obtain cur r w4 w5 where del: "Folders_SoftDeleteSubtree tid i uid (env\<lparr>cur_tenant := tid\<rparr>) w4 = (Inr r, w5)"
      "wdb w4 = wdb w1" "draws w4 = draws w1"
    and emit: "doc_emit tid ''dms.folder.deleted.v1'' ''folder'' i (folder_deleted (env\<lparr>cur_tenant := tid\<rparr>) uid cur r)
      (env\<lparr>cur_tenant := tid\<rparr>) w5 = (Inr (), w2)"
    by (rule delete_tx_Inr)
  obtain root c where root: "live_root (wdb w) tid i = Some root" "new_id env (draws w) = Some c"
    and w5: "wdb w5 = trash_subtree (db_now env) c uid tid (fo_Path root) (wdb w)"
    by (rule SoftDelete_Inr [OF del(1)]) (use del(2,3) w1 in auto)
  from emit obtain row where "wdb w2 = (wdb w5)\<lparr>outbox := outbox (wdb w5) @ [row]\<rparr>" by (rule doc_emit_Inr)
  then show thesis using that [OF root] w2 w5 by (simp add: trash_subtree_def)
qed

text \<open>
  Property C3. Restoring undoes deleting. After a successful \<open>DeleteFolder\<close>, \<open>RestoreFolder\<close> of the same folder by a
  caller of the tenant with the \<open>admin\<close> right succeeds when nothing else happened in between, and gives every table its
  old contents back, whatever the subtree held: only \<open>updated_at\<close> of the folders and documents of the subtree differs,
  and the outbox has new events. What the trash held before is not restored with it.
\<close>

theorem delete_restore_roundtrip:
  assumes del: "DeleteFolder L i env w = (Inr (), w1)" and caller: "doc_mustCaller (ctx env) = Inr (tid, uid)"
    and ok: "tables_ok L (wdb w)" "cohort_unused (new_id env (draws w)) (wdb w)"
    and env': "healthy env'" "doc_mustCaller (ctx env') = Inr (tid, uid')" "utf8_ok (GetUserRole (ctx env'))"
    and may: "\<And>k f. f \<in> set (dm_folders (wdb w)) \<Longrightarrow> folder_is tid i f \<Longrightarrow> policy_says L k env' uid' ''admin'' f"
    and fresh: "ids_fresh (Suc (length (dm_documents (wdb w)))) env' w1"
  shows "\<exists>root w2 rows. live_root (wdb w) tid i = Some root \<and> RestoreFolder L i env' w1 = (Inr (), w2)
    \<and> wdb w2 = (restamped (db_now env') tid (fo_Path root) (wdb w))\<lparr>outbox := outbox (wdb w1) @ rows\<rparr>"
proof -
  from del caller obtain root c row where root: "live_root (wdb w) tid i = Some root" "new_id env (draws w) = Some c"
    and w1: "wdb w1 = (trash_subtree (db_now env) c uid tid (fo_Path root) (wdb w))\<lparr>outbox := outbox (wdb w) @ [row]\<rparr>"
    by (rule DeleteFolder_Inr)
  let ?e = "env'\<lparr>cur_tenant := tid\<rparr>" and ?v = "w1\<lparr>stmts := Suc (Suc (Suc (stmts w1)))\<rparr>"
  let ?r = "trash_folder (db_now env) c uid root"
  have tid: "tid \<noteq> uuid_Nil" and he: "healthy ?e" using env' doc_mustCaller_tenant [OF caller] by simp_all
  have r: "root \<in> set (dm_folders (wdb w))" "fo_TenantID root = tid" "fo_ID root = i" using live_root_Some [OF root(1)] by simp_all
  have "find (folder_is tid (fo_ID ?r)) (dm_folders (trash_subtree (db_now env) c uid tid (fo_Path root) (wdb w))) = Some ?r"
    using ok(1) root_trashed [OF root(1)] r by (intro find_only) (simp_all add: tables_ok_def)
  then have cur: "find (folder_is tid i) (dm_folders (wdb w1)) = Some ?r" using r w1 by simp
  have rightly: "policy_says L k env' uid' ''admin'' root" for k using may r by (simp add: folder_is_def)
  obtain v docIDs where undo: "Folders_RestoreSubtree L tid i ?e ?v = (Inr docIDs, v)" "draws v = draws ?v"
      "wdb v = (restamped (db_now env') tid (fo_Path root) (wdb w))\<lparr>outbox := outbox (wdb w1)\<rparr>"
      "docIDs = map dd_ID (filter (doc_in_subtree (wdb w) tid (fo_Path root)) (dm_documents (wdb w)))"
    by (rule RestoreSubtree_healthy [OF he _ root(1) ok(1), where w = ?v and now = "db_now env" and c = c and uid = uid and out = "outbox (wdb w1)"])
      (use w1 ok(2) root(2) in simp_all)
  have many: "length docIDs + 1 \<le> Suc (length (dm_documents (wdb w)))" by (simp add: undo(4))
  have fresh': "ids_fresh (length docIDs + 1) ?e v"
    using ids_fresh_mono [OF fresh many] undo(2,3) by (simp add: ids_fresh_def)
  have "emits 1 ?e v (tfor docIDs (\<lambda>doc. on_error (tbind (reindexBatch L tid (Some doc) uuid_Nil) (\<lambda>_. tret ()))
              (\<lambda>e. tfail (wrap_err ''queue restore reindex: '' e))) ?e v)"
    using ok(1) undo doc_in_subtree_restamped
    by (intro restore_reindex_emits [OF he visible_own fresh']) (auto simp: tables_ok_def)
  then obtain v2 rows where docs: "tfor docIDs (\<lambda>doc. on_error (tbind (reindexBatch L tid (Some doc) uuid_Nil) (\<lambda>_. tret ()))
              (\<lambda>e. tfail (wrap_err ''queue restore reindex: '' e))) ?e v = (Inr (), v2)"
      "wdb v2 = (wdb v)\<lparr>outbox := outbox (wdb v) @ rows\<rparr>" "ids_fresh 1 ?e v2"
    by (auto elim: emitsE)
  let ?p = "JObj [(''folder_id'', JStr (uuid_String env' i)), (''workspace_id'', JStr (uuid_String env' (fo_WorkspaceID root))),
              (''restored_by'', JStr (uuid_String env' uid'))]"
  from docs(3) obtain row' v3 where ev: "doc_emit tid ''dms.folder.restored.v1'' ''folder'' i ?p ?e v2 = (Inr (), v3)"
      "wdb v3 = (wdb v2)\<lparr>outbox := outbox (wdb v2) @ [row']\<rparr>"
    by (metis doc_emit_healthy [OF he visible_own] One_nat_def)
  have "restore_tx L tid uid' i ?e (w1\<lparr>stmts := Suc (Suc (stmts w1))\<rparr>) = (Inr (), v3)"
    using he cur env'(3) rightly undo(1) docs(1) ev(1)
    by (simp add: restore_tx_def tbind_def Folders_GetByID_def view_of_def require_ok Let_def)
  from healthy_WithTenantTx [OF env'(1) tid, where fn = "restore_tx L tid uid' i", OF this]
  have "RestoreFolder L i env' w1 = (Inr (), v3\<lparr>stmts := Suc (stmts v3)\<rparr>)"
    by (simp add: RestoreFolder_def doc_callerI [OF env'(2)])
  moreover have "wdb v3 = (restamped (db_now env') tid (fo_Path root) (wdb w))\<lparr>outbox := outbox (wdb w1) @ rows @ [row']\<rparr>"
    using undo(3) docs(2) ev(2) by simp
  ultimately show ?thesis using root(1) by (intro exI [of _ root] exI [of _ "v3\<lparr>stmts := Suc (stmts v3)\<rparr>"] exI [of _ "rows @ [row']"]) simp
qed

text \<open>
  Property C24. A folder that holds a protected document cannot be deleted: if the subtree has a live document under
  legal hold, declared as a record or locked by WORM retention, \<open>DeleteFolder\<close> answers an authorised caller with a
  conflict (HTTP 409) whose message counts all of them and names at most ten, and changes nothing.
\<close>

theorem DeleteFolder_refuses_protected:
  assumes env: "healthy env" "doc_mustCaller (ctx env) = Inr (tid, uid)" "utf8_ok (GetUserRole (ctx env))"
    and cur: "find (folder_is tid i) (dm_folders (wdb w)) = Some cur" and may: "\<And>k. policy_says L k env uid ''admin'' cur"
    and held: "protected_in (wdb w) (db_now env) tid i \<noteq> []"
  shows "\<exists>listed w'. DeleteFolder L i env w
      = (Inl (Domain (Conflict (protectedDocumentsMessage L listed (length (protected_in (wdb w) (db_now env) tid i))))), w')
    \<and> length listed = min 10 (length (protected_in (wdb w) (db_now env) tid i)) \<and> wdb w' = wdb w
    \<and> (\<forall>m. he_Code (ToHTTPError (Domain (Conflict m))) = 409)"
proof -
  let ?e = "env\<lparr>cur_tenant := tid\<rparr>" and ?w = "w\<lparr>stmts := Suc (Suc (stmts w))\<rparr>"
  let ?ps = "protected_in (wdb w) (db_now env) tid i"
  have tid: "tid \<noteq> uuid_Nil" and he: "healthy ?e" using env doc_mustCaller_tenant by simp_all
  have "\<exists>listed w1. ProtectedDocumentsInSubtree L tid i folderDeleteProtectedListed ?e (w\<lparr>stmts := Suc (Suc (Suc (stmts w)))\<rparr>)
      = (Inr (listed, length ?ps), w1) \<and> length listed = min 10 (length ?ps)"
    using he by (auto simp: ProtectedDocumentsInSubtree_def Let_def folderDeleteProtectedListed_def)
  then obtain listed w1 where prot: "ProtectedDocumentsInSubtree L tid i folderDeleteProtectedListed ?e (w\<lparr>stmts := Suc (Suc (Suc (stmts w)))\<rparr>)
      = (Inr (listed, length ?ps), w1)" and len: "length listed = min 10 (length ?ps)" by blast
  let ?err = "Domain (Conflict (protectedDocumentsMessage L listed (length ?ps)))"
  have "fst (delete_tx L tid uid i ?e ?w) = Inl ?err"
    using he cur env(3) may held prot
    by (simp add: delete_tx_def tbind_def Folders_GetByID_def view_of_def require_ok Let_def tguard_def tfail_def)
  then have "fst (DeleteFolder L i env w) = Inl ?err"
    using WithTenantTx_fails [OF env(1) tid, of "delete_tx L tid uid i" w] by (simp add: DeleteFolder_def doc_callerI [OF env(2)])
  moreover have "wdb (snd (DeleteFolder L i env w)) = wdb w"
    using calculation WithTenantTx_Inl [of tid "delete_tx L tid uid i" env w]
    by (simp add: DeleteFolder_def doc_callerI [OF env(2)]) (metis prod.collapse)
  ultimately show ?thesis
    using len by (intro exI [of _ listed] exI [of _ "snd (DeleteFolder L i env w)"])
      (simp add: prod_eq_iff ToHTTPError_def domain_of_def http_error_of_def Conflict_def http_status_def)
qed

end
