(* ===== verification/Folder_Inv.thy ===== *)
theory Folder_Inv
  imports Folder_Trash
begin

text \<open>
  An invariant of the folder tables that every operation of the service keeps, whatever statements fail: keys and names
  are unique, paths are valid and agree with the depths, live rows carry no mark of the trash, and grants are unique and
  refer to folders.
\<close>

section \<open>Paths\<close>

lemma split_on_ne [simp]: "split_on d s \<noteq> []"
  by (induction s) (auto split: list.splits)

lemma split_on_plain: "d \<notin> set s \<Longrightarrow> split_on d s = [s]"
  by (induction s) auto

lemma split_on_append: "split_on d (s @ d # t) = split_on d s @ split_on d t"
  by (induction s) (auto split: list.splits)

lemma split_join: "xs \<noteq> [] \<Longrightarrow> list_all (\<lambda>x. d \<notin> set x) xs \<Longrightarrow> split_on d (join_with d xs) = xs"
  by (induction d xs rule: join_with.induct) (auto simp: split_on_plain split_on_append)

lemma label_ok_plain: "label_ok l \<Longrightarrow> CHR ''.'' \<notin> set l \<and> l \<noteq> []"
  by (auto simp: label_ok_def label_char_def list_all_iff Let_def)

lemma join_with_Nil: "join_with d xs = [] \<longleftrightarrow> xs = [] \<or> xs = [[]]"
  by (induction d xs rule: join_with.induct) auto

lemma labels_of_text:
  assumes "list_all label_ok ls"
  shows "ltree_labels (ltree_text ls) = ls"
proof -
  have "list_all (\<lambda>x. CHR ''.'' \<notin> set x) ls" "[] \<notin> set ls"
    using assms label_ok_plain by (auto simp: list_all_iff)
  then show ?thesis
    by (cases "ls = []") (auto simp: ltree_labels_def ltree_text_def join_with_Nil split_join)
qed

lemma labels_child: "p \<noteq> [] \<Longrightarrow> CHR ''.'' \<notin> set l \<Longrightarrow> ltree_labels (p @ ''.'' @ l) = ltree_labels p @ [l]"
  by (simp add: ltree_labels_def split_on_append split_on_plain)

lemma labels_root: "l \<noteq> [] \<Longrightarrow> CHR ''.'' \<notin> set l \<Longrightarrow> ltree_labels l = [l]"
  by (simp add: ltree_labels_def split_on_plain)

text \<open>The text of an identifier has no dot in it.\<close>

definition uuid_plain :: "env \<Rightarrow> bool" where
  "uuid_plain env \<longleftrightarrow> (\<forall>u. CHR ''.'' \<notin> set (uuid_String env u))"

lemma slug_plain: "CHR ''.'' \<notin> set (slug_runes s)"
proof (induction s)
  case (Cons c cs)
  have upper: "CHR ''.'' \<noteq> char_of (n + 32)" if "65 \<le> n" "n \<le> 90" for n :: nat
  proof
    assume "CHR ''.'' = char_of (n + 32)"
    then have "(of_char CHR ''.'' :: nat) = (n + 32) mod 256" by simp
    with that show False by simp
  qed
  have kept: "CHR ''.'' \<noteq> c" if "(97 \<le> n \<and> n \<le> 122) \<or> (48 \<le> n \<and> n \<le> 57)" "n = (of_char c :: nat)" for n
    using that by auto
  show ?case
    unfolding slug_runes.simps Let_def by (simp add: Cons kept upper split del: if_split) (simp split: if_split add: Cons kept upper)
qed simp

lemma ltreeLabel_plain: "uuid_plain env \<Longrightarrow> CHR ''.'' \<notin> set (ltreeLabel env name i) \<and> ltreeLabel env name i \<noteq> []"
  using slug_plain [of name]
  by (auto simp: ltreeLabel_def Let_def uuid_plain_def dest: in_set_takeD)

section \<open>The invariant\<close>

definition folder_wf :: "folder \<Rightarrow> bool" where
  "folder_wf f \<longleftrightarrow> ltree_ok (fo_Path f) \<and> fo_Path f \<noteq> [] \<and> fo_Depth f = nlevel (fo_Path f) - 1
     \<and> fo_Visibility f \<in> set [''shared'', ''private'']"

definition grants_ok :: "'x doc_db_scheme \<Rightarrow> bool" where
  "grants_ok d \<longleftrightarrow> distinct (map acl_slot (dm_grants d))
     \<and> (\<forall>g \<in> set (dm_grants d). fa_GranteeType g \<in> set [''user'', ''group'']
          \<and> (fa_TenantID g, fa_FolderID g) \<in> folder_id ` set (dm_folders d))"

definition folder_inv :: "doc_lib \<Rightarrow> 'x doc_db_scheme \<Rightarrow> bool" where
  "folder_inv L d \<longleftrightarrow> tables_ok L d \<and> (\<forall>f \<in> set (dm_folders d). folder_wf f) \<and> grants_ok d"

lemma folder_inv_outbox [simp]: "folder_inv L (d\<lparr>outbox := x\<rparr>) = folder_inv L d"
  by (simp add: folder_inv_def tables_ok_def trash_marks_ok_def grants_ok_def)

text \<open>An update of the rows that keeps keys, liveness marks and well-formedness.\<close>

lemma folder_inv_map:
  assumes inv: "folder_inv L d" and names: "names_unique L (map h (dm_folders d))"
    and keep: "\<And>f. f \<in> set (dm_folders d) \<Longrightarrow> folder_id (h f) = folder_id f \<and> folder_wf (h f)
      \<and> (fo_live (h f) \<longrightarrow> fo_Cohort (h f) = None \<and> fo_DeletedBy (h f) = None)"
  shows "folder_inv L (d\<lparr>dm_folders := map h (dm_folders d)\<rparr>)"
proof -
  have ids: "map (folder_id \<circ> h) (dm_folders d) = map folder_id (dm_folders d)" using keep by simp
  then have "folder_id ` h ` set (dm_folders d) = folder_id ` set (dm_folders d)"
    by (metis image_comp list.set_map)
  moreover have "distinct (map (folder_id \<circ> h) (dm_folders d))"
    unfolding ids using inv by (simp add: folder_inv_def tables_ok_def)
  ultimately show ?thesis
    using inv names keep by (auto simp: folder_inv_def tables_ok_def trash_marks_ok_def grants_ok_def)
qed

section \<open>Steps that keep it\<close>

abbreviation keeps :: "(env \<Rightarrow> bool) \<Rightarrow> ('d \<Rightarrow> bool) \<Rightarrow> ('d, 'a) m \<Rightarrow> bool" where
  "keeps E I f \<equiv> tx_post E I f (\<lambda>_. I)"

lemma keeps_bind: "keeps E I f \<Longrightarrow> (\<And>a. keeps E I (g a)) \<Longrightarrow> keeps E I (tbind f g)"
  by (rule post_tbind)

lemma keeps_pure: "keeps E I (tret a)" "keeps E I (tfail e)" "keeps E I (tguard b e)" "keeps E I (sql_read l q)" "keeps E I (draw_id l)"
  "keeps E I (tor (draw_id l) u)"
  by (auto simp: tx_post_def sql_read_Inr draw_id_def tor_def split: option.splits)

lemma keeps_each: "(\<And>x. keeps E I (f x)) \<Longrightarrow> keeps E I (tfor xs f)"
  by (induction xs) (auto intro: keeps_bind keeps_pure)

lemma keeps_env: "(\<And>e. keeps E I (f e)) \<Longrightarrow> keeps E I (with_env f)"
  by (rule post_with_env)

lemma keeps_failing: "keeps E I f \<Longrightarrow> keeps E I (on_error f (\<lambda>e. tfail (h e)))"
  by (auto simp: tx_post_def on_error_def split: prod.splits sum.splits)

lemma keeps_sql: "(\<And>env d a d'. E env \<Longrightarrow> I d \<Longrightarrow> f env d = Inr (a, d') \<Longrightarrow> I d') \<Longrightarrow> keeps E I (sql l f)"
  by (auto simp: tx_post_def sql_Inr)

lemmas keeps_intros = keeps_bind keeps_pure keeps_each keeps_env keeps_failing

lemma keeps_emit: "keeps E (folder_inv L) (doc_emit tid ty agg aid p)"
  by (rule tx_postI) (auto elim!: doc_emit_Inr)

lemma put_folders_Inr: "put_folders L a d fs = Inr (b, d') \<longleftrightarrow> names_unique L fs \<and> b = a \<and> d' = d\<lparr>dm_folders := fs\<rparr>"
  by (auto simp: put_folders_def)

lemma inv_folder: "folder_inv L d \<Longrightarrow> f \<in> set (dm_folders d) \<Longrightarrow> folder_wf f \<and> (fo_live f \<longrightarrow> fo_Cohort f = None \<and> fo_DeletedBy f = None)"
  by (simp add: folder_inv_def tables_ok_def trash_marks_ok_def)

lemma names_unique_shrink:
  assumes "names_unique L fs" and "\<And>f. f \<in> set fs \<Longrightarrow> h f = f \<or> \<not> fo_live (h f)"
  shows "names_unique L (map h fs)"
proof -
  have "filter fo_live (map h fs) = filter (\<lambda>f. fo_live (h f)) (filter fo_live fs)"
    using assms(2) by (induction fs) (simp_all, metis)
  then show ?thesis using assms(1) by (simp add: names_unique_def distinct_map_filter del: filter_filter)
qed

lemma inv_documents:
  assumes "folder_inv L d" and "\<And>x. x \<in> set (dm_documents d) \<Longrightarrow> doc_id (h x) = doc_id x
      \<and> (dd_live (h x) \<longrightarrow> dd_Cohort (h x) = None \<and> dd_DeletedBy (h x) = None)"
  shows "folder_inv L (d\<lparr>dm_documents := map h (dm_documents d)\<rparr>)"
proof -
  have "map (doc_id \<circ> h) (dm_documents d) = map doc_id (dm_documents d)" using assms(2) by simp
  then have "distinct (map (doc_id \<circ> h) (dm_documents d))" using assms(1) by (simp only: folder_inv_def tables_ok_def)
  with assms show ?thesis by (auto simp: folder_inv_def tables_ok_def trash_marks_ok_def grants_ok_def)
qed

text \<open>Updates of some rows.\<close>

definition row_kept :: "folder \<Rightarrow> folder \<Rightarrow> bool" where
  "row_kept f f' \<longleftrightarrow> folder_id f' = folder_id f \<and> (folder_wf f \<longrightarrow> folder_wf f')
     \<and> (fo_live f' \<longrightarrow> fo_Cohort f' = None \<and> fo_DeletedBy f' = None \<or> fo_live f \<and> fo_Cohort f' = fo_Cohort f \<and> fo_DeletedBy f' = fo_DeletedBy f)"

lemma inv_update:
  assumes inv: "folder_inv L d" and "names_unique L (map (\<lambda>f. if P f then upd f else f) (dm_folders d))"
    and kept: "\<And>f. P f \<Longrightarrow> f \<in> set (dm_folders d) \<Longrightarrow> row_kept f (upd f)"
  shows "folder_inv L (d\<lparr>dm_folders := map (\<lambda>f. if P f then upd f else f) (dm_folders d)\<rparr>)"
proof (rule folder_inv_map [OF assms(1,2)])
  fix f assume f: "f \<in> set (dm_folders d)"
  show "folder_id (if P f then upd f else f) = folder_id f \<and> folder_wf (if P f then upd f else f)
      \<and> (fo_live (if P f then upd f else f) \<longrightarrow> fo_Cohort (if P f then upd f else f) = None \<and> fo_DeletedBy (if P f then upd f else f) = None)"
    using inv_folder [OF inv f] kept [of f] f by (auto simp: row_kept_def)
qed

lemma inv_names: "folder_inv L d \<Longrightarrow> names_unique L (dm_folders d)"
  by (simp add: folder_inv_def tables_ok_def)

lemma inv_doc_update:
  assumes "folder_inv L d" and "\<And>x. P x \<Longrightarrow> doc_id (upd x) = doc_id x
      \<and> (dd_live (upd x) \<longrightarrow> dd_Cohort (upd x) = None \<and> dd_DeletedBy (upd x) = None)"
  shows "folder_inv L (d\<lparr>dm_documents := map (\<lambda>x. if P x then upd x else x) (dm_documents d)\<rparr>)"
  using assms by (intro inv_documents) (auto simp: folder_inv_def tables_ok_def trash_marks_ok_def)

lemma row_kept_simple:
  "row_kept f (f\<lparr>fo_Name := n, fo_UpdatedAt := t\<rparr>)" "row_kept f (f\<lparr>fo_ParentFolderID := p, fo_UpdatedAt := t\<rparr>)"
  "row_kept f (trash_folder t c uid f)" "row_kept f (restore_folder_row t f)"
  "v \<in> set [''shared'', ''private''] \<Longrightarrow> row_kept f (f\<lparr>fo_Visibility := v, fo_OwnerID := u, fo_UpdatedAt := t\<rparr>)"
  by (simp_all add: row_kept_def folder_id_def folder_wf_def fo_live_def trash_folder_def restore_folder_row_def)

lemma keeps_UpdateName: "keeps E (folder_inv L) (Folders_UpdateName L tid i name)"
  unfolding Folders_UpdateName_def
  by (rule keeps_sql) (auto simp: put_folders_Inr split: if_splits intro!: inv_update row_kept_simple)

lemma keeps_Move_parent: "keeps E (folder_inv L) (Folders_Move_parent L tid i p)"
  unfolding Folders_Move_parent_def
  by (rule keeps_sql) (auto simp: put_folders_Inr split: list.splits intro!: inv_update row_kept_simple)

lemma keeps_UpdateVisibility: "keeps E (folder_inv L) (Folders_UpdateVisibility tid i v owner)"
  unfolding Folders_UpdateVisibility_def
proof (rule keeps_sql)
  fix env :: env and d :: "'a doc_db_scheme" and a d'
  let ?P = "\<lambda>f. folder_is tid i f \<and> fo_live f"
  let ?u = "\<lambda>f. f\<lparr>fo_Visibility := v, fo_OwnerID := owner, fo_UpdatedAt := db_now env\<rparr>"
  assume inv: "folder_inv L d" and run: "(if \<not> (\<exists>f \<in> set (dm_folders d). ?P f) then Inl (Domain sentinel_NotFound)
     else if v \<notin> set [''shared'', ''private''] then Inl (Domain (Validation [] ''new row for relation violates check constraint''))
     else if (case owner of None \<Rightarrow> False | Some u \<Rightarrow> \<not> is_person d tid u) then Inl fk_violation
     else Inr ((), d\<lparr>dm_folders := map (\<lambda>f. if ?P f then ?u f else f) (dm_folders d)\<rparr>)) = Inr (a, d')"
  from run have v: "v \<in> set [''shared'', ''private'']" and d': "d' = d\<lparr>dm_folders := map (\<lambda>f. if ?P f then ?u f else f) (dm_folders d)\<rparr>"
    by (auto split: if_splits)
  have "names_unique L (map (\<lambda>f. if ?P f then ?u f else f) (dm_folders d)) = names_unique L (dm_folders d)"
    by (rule names_unique_map) (simp add: fo_live_def name_key_def)
  then show "folder_inv L d'"
    unfolding d' using inv v by (intro inv_update row_kept_simple) (simp_all add: folder_inv_def tables_ok_def)
qed

lemma keeps_SoftDelete: "keeps E (folder_inv L) (Folders_SoftDeleteSubtree tid i uid)"
proof -
  have "keeps E (folder_inv L) (trash_documents tid path c uid)" for path c
    unfolding trash_documents_def
    by (rule keeps_sql) (auto simp: doc_id_def trash_doc_def dd_live_def intro!: inv_doc_update)
  moreover have "keeps E (folder_inv L) (trash_folders tid path c uid)" for path c
    unfolding trash_folders_def
  proof (rule keeps_sql)
    fix env d a d'
    let ?h = "\<lambda>f. if in_subtree tid path f then trash_folder (db_now env) c uid f else f"
    assume inv: "folder_inv L d" and "Inr (map fo_ID (filter (in_subtree tid path) (dm_folders d)), d\<lparr>dm_folders := map ?h (dm_folders d)\<rparr>) = Inr (a, d')"
    moreover have "names_unique L (map ?h (dm_folders d))"
      by (rule names_unique_shrink [OF inv_names [OF inv]]) simp
    moreover have "folder_inv L (d\<lparr>dm_folders := map ?h (dm_folders d)\<rparr>)"
      by (rule inv_update [OF inv calculation(3)]) (rule row_kept_simple)
    ultimately show "folder_inv L d'" by simp
  qed
  ultimately show ?thesis unfolding Folders_SoftDeleteSubtree_def by (intro keeps_intros)
qed

lemma keeps_Restore: "keeps E (folder_inv L) (Folders_RestoreSubtree L tid i)"
proof -
  have "keeps E (folder_inv L) (restore_folders L tid c)" for c
    unfolding restore_folders_def
    by (rule keeps_sql) (auto simp: put_folders_Inr intro!: inv_update row_kept_simple)
  moreover have "keeps E (folder_inv L) (restore_documents tid c)" for c
    unfolding restore_documents_def
    by (rule keeps_sql) (auto simp: doc_id_def restore_doc_row_def dd_live_def intro!: inv_doc_update)
  ultimately show ?thesis unfolding Folders_RestoreSubtree_def
    by (intro keeps_bind keeps_pure) (auto split: option.splits intro!: keeps_bind keeps_pure)
qed

lemma inv_new_grant:
  assumes "folder_inv L d" "acl_slot g \<notin> acl_slot ` set (dm_grants d)" "fa_GranteeType g \<in> set [''user'', ''group'']"
    and "f \<in> set (dm_folders d)" "folder_is (fa_TenantID g) (fa_FolderID g) f"
  shows "folder_inv L (d\<lparr>dm_grants := dm_grants d @ [g]\<rparr>)"
proof -
  have "(fa_TenantID g, fa_FolderID g) \<in> folder_id ` set (dm_folders d)"
    using assms(4,5) by (force simp: folder_is_def folder_id_def)
  with assms(1-3) show ?thesis by (auto simp: folder_inv_def tables_ok_def trash_marks_ok_def grants_ok_def)
qed

lemma keeps_AddGrant: "keeps E (folder_inv L) (Folders_AddGrant g)"
  unfolding Folders_AddGrant_def Let_def
proof (rule keeps_sql)
  let ?g = "g\<lparr>fa_CreatedAt := pg_time (fa_CreatedAt g)\<rparr>"
  fix env :: env and d :: "'a doc_db_scheme" and a d'
  assume inv: "folder_inv L d" and run: "(if \<not> visible env (fa_TenantID ?g) then Inl (DBError ''database error: row violates row-level security policy'')
       else if fa_GranteeType ?g \<notin> set [''user'', ''group'']
       then Inl (Domain (Validation [] ''new row for relation violates check constraint''))
       else if acl_slot ?g \<in> acl_slot ` set (dm_grants d) then Inr ((), d)
       else if (\<exists>h \<in> set (dm_grants d). fa_TenantID h = fa_TenantID ?g \<and> fa_ID h = fa_ID ?g) then Inl (Domain sentinel_AlreadyExists)
       else if fa_TenantID ?g \<notin> org_ID ` set (organizations d)
         \<or> \<not> (\<exists>f \<in> set (dm_folders d). folder_is (fa_TenantID ?g) (fa_FolderID ?g) f)
         \<or> (case fa_GrantedBy ?g of None \<Rightarrow> False | Some u \<Rightarrow> \<not> is_person d (fa_TenantID ?g) u) then Inl fk_violation
       else Inr ((), d\<lparr>dm_grants := dm_grants d @ [?g]\<rparr>)) = Inr (a, d')"
  show "folder_inv L d'"
  proof (cases "acl_slot ?g \<in> acl_slot ` set (dm_grants d)")
    case True
    with run inv show ?thesis by (simp split: if_split_asm)
  next
    case False
    with run have ty: "fa_GranteeType ?g \<in> set [''user'', ''group'']" and d': "d' = d\<lparr>dm_grants := dm_grants d @ [?g]\<rparr>"
      and "\<exists>f \<in> set (dm_folders d). folder_is (fa_TenantID ?g) (fa_FolderID ?g) f"
      by (simp_all split: if_split_asm)
    then show ?thesis using inv_new_grant [OF inv False] by blast
  qed
qed

lemma keeps_RemoveGrant: "keeps E (folder_inv L) (Folders_RemoveGrant tid i ty gid)"
  unfolding Folders_RemoveGrant_def
  by (rule keeps_sql) (auto simp: folder_inv_def tables_ok_def trash_marks_ok_def grants_ok_def distinct_map_filter split: if_splits)

section \<open>Steps whose rows come from the table\<close>

lemma keeps_bind_value: "tx_post E I f (\<lambda>v d. I d \<and> P v) \<Longrightarrow> (\<And>v. P v \<Longrightarrow> keeps E I (g v)) \<Longrightarrow> keeps E I (tbind f g)"
  by (erule post_tbind, rule tx_postI) (blast dest: tx_postD)

lemma GetByID_wf: "tx_post E (folder_inv L) (Folders_GetByID tid i) (\<lambda>v d. folder_inv L d \<and> folder_wf (fv_Folder v))"
proof (rule tx_postI)
  fix env w v w'
  assume inv: "folder_inv L (wdb w)" and "Folders_GetByID tid i env w = (Inr v, w')"
  then obtain f where f: "find (folder_is tid i) (dm_folders (wdb w)) = Some f" and v: "v = view_of (wdb w) f" "wdb w' = wdb w"
    by (auto simp: GetByID_Inr)
  from f have "f \<in> set (dm_folders (wdb w))" by (auto simp: find_Some_iff)
  with inv_folder [OF inv] v inv show "folder_inv L (wdb w') \<and> folder_wf (fv_Folder v)" by (simp add: view_of_def)
qed

lemma ltree_labels_ne: "p \<noteq> [] \<Longrightarrow> ltree_labels p \<noteq> []"
  by (simp add: ltree_labels_def)

lemma folder_wf_labels: "folder_wf f \<Longrightarrow> labels f \<noteq> [] \<and> list_all label_ok (labels f) \<and> fo_Depth f = int (length (labels f)) - 1"
  by (simp add: folder_wf_def labels_def ltree_labels_ne ltree_ok_def nlevel_def)

lemma labels_moved:
  assumes "folder_wf f" "folder_wf cur" "folder_wf parent" "below (fo_Path f) (fo_Path cur)"
  shows "labels (moved (fo_Path cur) (fo_Path parent) (fo_Depth parent + 1) t f)
      = labels parent @ drop (length (labels cur) - 1) (labels f)"
    and "fo_Depth (moved (fo_Path cur) (fo_Path parent) (fo_Depth parent + 1) t f)
      = int (length (labels parent @ drop (length (labels cur) - 1) (labels f))) - 1"
proof -
  note wf = folder_wf_labels [OF assms(1)] folder_wf_labels [OF assms(2)] folder_wf_labels [OF assms(3)]
  have n: "nat (nlevel (fo_Path cur) - 1) = length (labels cur) - 1" "length (labels cur) \<le> length (labels f)" "0 < length (labels cur)"
    using wf(2) assms(4) by (auto simp: nlevel_def labels_def below_def dest: prefix_length_le)
  have tail: "list_all label_ok (drop (length (labels cur) - 1) (labels f))"
    using wf(1) by (auto simp: list_all_iff dest: in_set_dropD)
  have "ltree_labels (subpath (fo_Path f) (nlevel (fo_Path cur) - 1)) = drop (length (labels cur) - 1) (labels f)"
    unfolding subpath_def n(1) labels_def [symmetric] by (rule labels_of_text [OF tail])
  moreover have "list_all label_ok (labels parent @ drop (length (labels cur) - 1) (labels f))" using tail wf(3) by simp
  from labels_of_text [OF this] calculation
  show "labels (moved (fo_Path cur) (fo_Path parent) (fo_Depth parent + 1) t f) = labels parent @ drop (length (labels cur) - 1) (labels f)"
    by (simp add: labels_def moved_def ltree_cat_def)
  have "nlevel (fo_Path cur) = int (length (labels cur))" by (simp add: nlevel_def labels_def)
  moreover have "int (length (labels cur) - 1) = int (length (labels cur)) - 1" using n(3) by linarith
  ultimately show "fo_Depth (moved (fo_Path cur) (fo_Path parent) (fo_Depth parent + 1) t f)
      = int (length (labels parent @ drop (length (labels cur) - 1) (labels f))) - 1"
    using wf n(2,3) by (simp add: moved_def of_nat_diff del: length_greater_0_conv)
qed

lemma row_kept_moved:
  assumes "folder_wf f" "folder_wf cur" "folder_wf parent" "below (fo_Path f) (fo_Path cur)"
  shows "row_kept f (moved (fo_Path cur) (fo_Path parent) (fo_Depth parent + 1) t f)"
proof -
  let ?m = "moved (fo_Path cur) (fo_Path parent) (fo_Depth parent + 1) t f"
  note l = labels_moved [OF assms, of t]
  have ok: "list_all label_ok (labels ?m)" "labels ?m \<noteq> []"
    unfolding l(1) using folder_wf_labels [OF assms(1)] folder_wf_labels [OF assms(3)] by (auto simp: list_all_iff dest: in_set_dropD)
  then have "fo_Path ?m \<noteq> []" by (auto simp: labels_def ltree_labels_def)
  moreover have "fo_Depth ?m = nlevel (fo_Path ?m) - 1" using l by (simp add: nlevel_def labels_def)
  moreover have "fo_Visibility ?m = fo_Visibility f" "folder_id ?m = folder_id f" "fo_live ?m = fo_live f"
      "fo_Cohort ?m = fo_Cohort f" "fo_DeletedBy ?m = fo_DeletedBy f"
    by (simp_all add: moved_def folder_id_def fo_live_def)
  ultimately show ?thesis using ok by (simp add: row_kept_def folder_wf_def ltree_ok_def labels_def)
qed

lemma keeps_Move:
  assumes "folder_wf cur" "folder_wf parent"
  shows "keeps E (folder_inv L) (Folders_Move L tid i (fo_Path cur) (fo_Path parent) (fo_Depth parent + 1))"
  unfolding Folders_Move_def
proof (rule keeps_bind [OF _ keeps_Move_parent])
  show "keeps E (folder_inv L) (Folders_Move_paths L tid (fo_Path cur) (fo_Path parent) (fo_Depth parent + 1))"
    unfolding Folders_Move_paths_def
  proof (rule keeps_sql)
    fix env d a d'
    let ?P = "\<lambda>f. fo_TenantID f = tid \<and> below (fo_Path f) (fo_Path cur) \<and> fo_live f"
    let ?u = "moved (fo_Path cur) (fo_Path parent) (fo_Depth parent + 1) (db_now env)"
    assume inv: "folder_inv L d" and "put_folders L () d (map (\<lambda>f. if ?P f then ?u f else f) (dm_folders d)) = Inr (a, d')"
    then have "names_unique L (map (\<lambda>f. if ?P f then ?u f else f) (dm_folders d))"
      and d': "d' = d\<lparr>dm_folders := map (\<lambda>f. if ?P f then ?u f else f) (dm_folders d)\<rparr>"
      by (simp_all add: put_folders_Inr)
    then show "folder_inv L d'"
      unfolding d' using inv_folder [OF inv] assms by (intro inv_update [OF inv]) (auto intro: row_kept_moved)
  qed
qed

lemma keeps_name_conflict: "keeps E I f \<Longrightarrow> keeps E I (name_conflict L n f)"
  unfolding name_conflict_def by (rule keeps_failing)

lemma keeps_reparent:
  assumes "folder_wf cur"
  shows "keeps E (folder_inv L) (reparent_folder L tid uid p cur)"
  unfolding reparent_folder_def Let_def
  by (auto split: option.splits intro!: keeps_pure keeps_bind_value [OF GetByID_wf] keeps_bind keeps_name_conflict keeps_Move
      keeps_env keeps_emit assms)

lemma rename_wf:
  assumes "folder_wf cur"
  shows "tx_post E (folder_inv L) (rename_folder L tid n cur) (\<lambda>cur d. folder_inv L d \<and> folder_wf cur)"
proof -
  have "keeps E (folder_inv L) (name_conflict L x (Folders_UpdateName L tid (fo_ID cur) x))" for x
    by (intro keeps_name_conflict keeps_UpdateName)
  with assms show ?thesis
    unfolding rename_folder_def by (auto simp: tx_post_def tbind_Inr folder_wf_def split: option.splits)
qed

text \<open>A folder about to be inserted.\<close>

definition new_wf :: "folder \<Rightarrow> bool" where
  "new_wf f \<longleftrightarrow> fo_Path f \<noteq> [] \<and> fo_Depth f = nlevel (fo_Path f) - 1 \<and> fo_live f \<and> fo_Cohort f = None \<and> fo_DeletedBy f = None"

lemma place_wf:
  assumes plain: "uuid_plain env" and f: "fo_live f" "fo_Cohort f = None" "fo_DeletedBy f = None"
  shows "tx_post E (folder_inv L) (place_folder env f) (\<lambda>f' d. folder_inv L d \<and> new_wf f')"
proof -
  note l = ltreeLabel_plain [OF plain, of "fo_Name f" "fo_ID f"]
  let ?l = "ltreeLabel env (fo_Name f) (fo_ID f)"
  have "nlevel ?l = 1" using l by (simp add: nlevel_def labels_root)
  then have root: "new_wf (f\<lparr>fo_Path := ?l, fo_Depth := 0\<rparr>)"
    using l f by (simp add: new_wf_def fo_live_def)
  have child: "new_wf (f\<lparr>fo_Depth := fo_Depth p + 1, fo_Path := fo_Path p @ ''.'' @ ?l\<rparr>)" if "folder_wf p" for p
    using that l f labels_child [of "fo_Path p" ?l] by (simp add: new_wf_def folder_wf_def nlevel_def fo_live_def)
  have wf: "folder_wf x" if "folder_inv L d" "find P (dm_folders d) = Some x" for P x and d :: "'a doc_db_scheme"
    using that by (auto simp: folder_inv_def find_Some_iff)
  show ?thesis
    using root child wf unfolding place_folder_def Let_def
    by (cases "fo_ParentFolderID f") (auto simp: tx_post_def tbind_Inr GetByID_Inr view_of_def)
qed

lemma keeps_Create:
  assumes "new_wf f"
  shows "keeps E (folder_inv L) (Folders_Create L f)"
proof (rule tx_postI)
  fix env w a w'
  let ?f = "folder_columns f"
  assume inv: "folder_inv L (wdb w)" and "Folders_Create L f env w = (Inr a, w')"
  then have d': "wdb w' = (wdb w)\<lparr>dm_folders := dm_folders (wdb w) @ [?f]\<rparr>" and ok: "ltree_ok (fo_Path ?f)"
      "fo_Visibility ?f \<in> set [''shared'', ''private'']" "\<not> (\<exists>g \<in> set (dm_folders (wdb w)). folder_is (fo_TenantID ?f) (fo_ID ?f) g)"
      "names_unique L (dm_folders (wdb w) @ [?f])"
    unfolding Folders_Create_def Let_def by (simp_all add: sql_Inr split: if_split_asm)
  have "folder_wf ?f" using assms ok(1,2) by (simp add: folder_wf_def new_wf_def folder_columns_def)
  moreover have "fo_Cohort ?f = None" "fo_DeletedBy ?f = None" using assms by (simp_all add: new_wf_def folder_columns_def)
  moreover have "folder_id ?f \<notin> folder_id ` set (dm_folders (wdb w))" using ok(3) by (auto simp: folder_id_def folder_is_def)
  ultimately show "folder_inv L (wdb w')"
    using inv ok(4) unfolding d' by (auto simp: folder_inv_def tables_ok_def trash_marks_ok_def grants_ok_def)
qed

section \<open>The operations\<close>

lemma keeps_cleanup_one: "keeps E (folder_inv L) (cleanup_one tid uid f)"
  unfolding cleanup_one_def by (intro keeps_bind keeps_SoftDelete keeps_env keeps_emit)

lemma keeps_cleanup_loop: "keeps E (folder_inv L) (cleanup_loop tid wid olderThan uid cap acc)"
proof (rule tx_postI)
  fix env w fs w'
  assume "E env" "folder_inv L (wdb w)" "cleanup_loop tid wid olderThan uid cap acc env w = (Inr fs, w')"
  then show "folder_inv L (wdb w')"
  proof (induction tid wid olderThan uid cap acc env w rule: cleanup_loop.induct)
    case (1 tid wid olderThan uid cap acc env w)
    let ?q = "Folders_ListEmptyFolders tid wid olderThan (min (cap - int (length acc)) emptyFolderCleanupMaxBatch)"
    show ?case
    proof (cases "int (length acc) \<ge> cap")
      case True
      with 1 show ?thesis by (simp add: cleanup_loop.simps [of tid wid olderThan uid cap acc])
    next
      case False
      with 1(4) obtain es w1 where list: "?q env w = (Inr es, w1)"
        by (auto simp: cleanup_loop.simps [of tid wid olderThan uid cap acc] split: prod.splits sum.splits)
      have w1: "wdb w1 = wdb w" using list by (simp add: Folders_ListEmptyFolders_def sql_read_Inr)
      show ?thesis
      proof (cases "es = []")
        case True
        with 1 False list w1 show ?thesis by (simp add: cleanup_loop.simps [of tid wid olderThan uid cap acc])
      next
        case ne: False
        with 1(4) False list obtain x w2 where pass: "tfor es (cleanup_one tid uid) env w1 = (Inr x, w2)"
          and rest: "cleanup_loop tid wid olderThan uid cap (acc @ es) env w2 = (Inr fs, w')"
          by (auto simp: cleanup_loop.simps [of tid wid olderThan uid cap acc] split: prod.splits sum.splits)
        have "folder_inv L (wdb w2)"
          by (rule tx_postD [where f = "tfor es (cleanup_one tid uid)" and E = E and P = "folder_inv L", OF _ 1(2) _ pass])
            (use 1(3) w1 in \<open>simp_all add: keeps_each keeps_cleanup_one\<close>)
        with 1(1) [OF False list [symmetric] refl ne pass [symmetric] refl 1(2) _ rest] show ?thesis by simp
      qed
    qed
  qed
qed

lemma keeps_reindex: "keeps E (folder_inv L) (reindexBatch L tid i cursor)"
proof -
  have "keeps E (folder_inv L) (computeFolderReaders L tid f wid)" for f wid
    unfolding computeFolderReaders_def by (intro keeps_bind keeps_pure) (simp add: tx_post_def Let_def)
  then have "keeps E (folder_inv L) (reindex_one L tid x)" for x
    unfolding reindex_one_def reindex_content_def version_count_def reindex_readers_def
    by (cases x) (auto split: option.splits intro!: keeps_bind keeps_pure keeps_env keeps_emit keeps_failing)
  then show ?thesis unfolding reindexBatch_def by (intro keeps_bind keeps_pure keeps_each)
qed

lemma keeps_acl_event: "keeps E (folder_inv L) (publishFolderACLChange L tid f wid)"
  unfolding publishFolderACLChange_def computeFolderReaders_def
  by (intro keeps_bind keeps_pure) (auto simp: tx_post_def Let_def elim!: doc_emit_Inr)

lemma keeps_managed: "keeps E (folder_inv L) (managed_folder tid uid i)"
  unfolding managed_folder_def Folders_GetByID_def by (intro keeps_env keeps_bind keeps_pure)

lemma keeps_require: "keeps E I (require_on_folder L uid action f)"
  by (auto simp: tx_post_def require_on_folder_Inr)

lemma keeps_GetByID: "keeps E I (Folders_GetByID tid i)"
  unfolding Folders_GetByID_def by (rule keeps_pure)

lemma keeps_delete_tx: "keeps E (folder_inv L) (delete_tx L tid uid i)"
  unfolding delete_tx_def Let_def ProtectedDocumentsInSubtree_def
  by (intro keeps_bind keeps_GetByID keeps_require keeps_pure) (auto intro!: keeps_bind keeps_pure keeps_SoftDelete keeps_env keeps_emit)

lemma keeps_restore_tx: "keeps E (folder_inv L) (restore_tx L tid uid i)"
  unfolding restore_tx_def Let_def
  by (intro keeps_bind keeps_GetByID keeps_require keeps_Restore keeps_each keeps_failing keeps_reindex keeps_pure keeps_env keeps_emit)

interpretation folder_rel: db_preorder "\<lambda>d d'. folder_inv L d \<longrightarrow> folder_inv L d'" for L
  by unfold_locales auto

lemma rel_doc_caller:
  assumes "\<And>tid uid. tx_rel E (\<lambda>d d'. folder_inv L d \<longrightarrow> folder_inv L d') (f tid uid)"
  shows "tx_rel E (\<lambda>d d'. folder_inv L d \<longrightarrow> folder_inv L d') (doc_caller f)"
  unfolding doc_caller_def by (intro folder_rel.rel_with_env folder_rel.rel_tbind folder_rel.rel_tlift) (auto intro: assms)

lemma rel_requirePermission: "tx_rel E (\<lambda>d d'. folder_inv L d \<longrightarrow> folder_inv L d') (requirePermission L' uid action ty rid extra)"
  unfolding requirePermission_def checkPermission_def
  by (intro folder_rel.rel_tbind folder_rel.rel_tguard) (simp add: tx_rel_def)

lemma rel_tenant_tx: "keeps (\<lambda>_. True) (folder_inv L) f \<Longrightarrow> tx_rel E (\<lambda>d d'. folder_inv L d \<longrightarrow> folder_inv L d') (WithTenantTx tid f)"
  by (rule inv_WithTenantTx) auto

lemmas op_intros = rel_doc_caller folder_rel.rel_with_env folder_rel.rel_tbind folder_rel.rel_tguard folder_rel.rel_tret
  folder_rel.rel_tfail folder_rel.rel_draw rel_requirePermission rel_tenant_tx

lemma rel_CreateFolder: "tx_rel uuid_plain (\<lambda>d d'. folder_inv L d \<longrightarrow> folder_inv L d') (CreateFolder L inp)"
proof -
  have body: "keeps (\<lambda>_. True) (folder_inv L) (tbind (place_folder env (new_folder env inp tid uid i)) (\<lambda>f.
       tbind (name_conflict L (cf_Name inp) (Folders_Create L f)) (\<lambda>_.
       tbind (doc_emit tid ''dms.folder.created.v1'' ''folder'' (fo_ID f) (folder_created env uid f)) (\<lambda>_. tret f))))"
    if "uuid_plain env" for env tid uid i
    using that
    by (intro keeps_bind_value [OF place_wf] keeps_bind keeps_name_conflict keeps_Create keeps_emit keeps_pure)
      (simp_all add: new_folder_def Let_def fo_live_def)
  have split: "tx_rel uuid_plain R (with_env f)" if "\<And>e. uuid_plain e \<Longrightarrow> tx_rel (\<lambda>x. x = e) R (f e)"
    for R and f :: "env \<Rightarrow> ('a doc_db_scheme, folder) m"
    using that by (simp add: tx_rel_def)
  show ?thesis
    unfolding CreateFolder_def
    by (intro rel_doc_caller split op_intros body) (auto split: option.splits intro: op_intros)
qed

lemma keeps_update_tx: "keeps E (folder_inv L) (update_tx L tid uid inp)"
  unfolding update_tx_def
  by (rule keeps_bind_value [OF GetByID_wf], intro keeps_bind [OF keeps_require] keeps_bind_value [OF rename_wf])
    (auto intro!: keeps_bind keeps_reparent keeps_GetByID)

lemma rel_UpdateFolder: "tx_rel E (\<lambda>d d'. folder_inv L d \<longrightarrow> folder_inv L d') (UpdateFolder L inp)"
  unfolding UpdateFolder_def valid_name_def
  by (intro op_intros keeps_update_tx) (auto split: option.splits intro: op_intros)

lemma rel_DeleteFolder: "tx_rel E (\<lambda>d d'. folder_inv L d \<longrightarrow> folder_inv L d') (DeleteFolder L i)"
  unfolding DeleteFolder_def by (intro op_intros keeps_delete_tx)

lemma rel_RestoreFolder: "tx_rel E (\<lambda>d d'. folder_inv L d \<longrightarrow> folder_inv L d') (RestoreFolder L i)"
  unfolding RestoreFolder_def by (intro op_intros keeps_restore_tx)

lemma rel_Cleanup: "tx_rel E (\<lambda>d d'. folder_inv L d \<longrightarrow> folder_inv L d') (CleanupEmptyFolders wid days n)"
  unfolding CleanupEmptyFolders_def by (intro op_intros keeps_cleanup_loop)

lemma rel_SetFolderVisibility: "tx_rel E (\<lambda>d d'. folder_inv L d \<longrightarrow> folder_inv L d') (SetFolderVisibility L i v)"
  unfolding SetFolderVisibility_def Let_def
  by (intro op_intros keeps_bind [OF keeps_managed])
    (auto intro!: keeps_bind keeps_pure keeps_UpdateVisibility keeps_env keeps_emit keeps_acl_event keeps_GetByID)

lemma rel_AddFolderGrant: "tx_rel E (\<lambda>d d'. folder_inv L d \<longrightarrow> folder_inv L d') (AddFolderGrant L i ty gid)"
proof -
  have "tx_rel E (\<lambda>d d'. folder_inv L d \<longrightarrow> folder_inv L d') (tor (draw_id l) u)" for l u
    by (simp add: tx_rel_def tor_def draw_id_def split: option.splits)
  then show ?thesis
    unfolding AddFolderGrant_def grantee_ok_def Let_def
    by (intro op_intros keeps_bind [OF keeps_managed] keeps_bind keeps_AddGrant keeps_emit keeps_acl_event keeps_pure)
qed

lemma rel_RemoveFolderGrant: "tx_rel E (\<lambda>d d'. folder_inv L d \<longrightarrow> folder_inv L d') (RemoveFolderGrant L i ty gid)"
  unfolding RemoveFolderGrant_def grantee_ok_def
  by (intro op_intros keeps_bind [OF keeps_managed] keeps_bind keeps_RemoveGrant keeps_emit keeps_acl_event)

section \<open>Every reachable state\<close>

text \<open>A request to the folder operations, in any environment, with any outcome.\<close>

inductive folder_step :: "doc_lib \<Rightarrow> 'x doc_db_scheme \<Rightarrow> 'x doc_db_scheme \<Rightarrow> bool" for L where
  create: "uuid_plain env \<Longrightarrow> CreateFolder L inp env w = (r, w') \<Longrightarrow> folder_step L (wdb w) (wdb w')"
| update: "UpdateFolder L upd env w = (r', w') \<Longrightarrow> folder_step L (wdb w) (wdb w')"
| delete: "DeleteFolder L i env w = (u, w') \<Longrightarrow> folder_step L (wdb w) (wdb w')"
| restore: "RestoreFolder L i env w = (u, w') \<Longrightarrow> folder_step L (wdb w) (wdb w')"
| cleanup: "CleanupEmptyFolders wid days n env w = (c, w') \<Longrightarrow> folder_step L (wdb w) (wdb w')"
| visibility: "SetFolderVisibility L i v env w = (r', w') \<Longrightarrow> folder_step L (wdb w) (wdb w')"
| grant: "AddFolderGrant L i ty gid env w = (g, w') \<Longrightarrow> folder_step L (wdb w) (wdb w')"
| revoke: "RemoveFolderGrant L i ty gid env w = (u, w') \<Longrightarrow> folder_step L (wdb w) (wdb w')"

lemma inv_run:
  "tx_rel (\<lambda>_. True) (\<lambda>d d'. folder_inv L d \<longrightarrow> folder_inv L d') f \<Longrightarrow> f env w = (r, w') \<Longrightarrow> folder_inv L (wdb w) \<Longrightarrow> folder_inv L (wdb w')"
  by (metis tx_relD)

lemma folder_step_inv: "folder_step L d d' \<Longrightarrow> folder_inv L d \<Longrightarrow> folder_inv L d'"
proof (induction rule: folder_step.induct)
  case (create env inp w r w')
  then show ?case using tx_relD [OF rel_CreateFolder] by metis
qed (fact inv_run [OF rel_UpdateFolder] inv_run [OF rel_DeleteFolder] inv_run [OF rel_RestoreFolder] inv_run [OF rel_Cleanup]
      inv_run [OF rel_SetFolderVisibility] inv_run [OF rel_AddFolderGrant] inv_run [OF rel_RemoveFolderGrant])+

interpretation folder_sys: invariant_system "folder_step L" "folder_inv L" for L
  by unfold_locales (rule folder_step_inv)

text \<open>
  Property C10. The folder tables stay consistent along every run of the folder operations, whatever statements fail and
  whatever the policy service answers: folders and documents have unique identifiers, no two live siblings have the
  same name, every path consists of valid labels and its length is the depth of the folder plus one, the visibility is
  shared or private, live rows carry no mark of the trash, and every grant is the only one of its grantee on its folder
  and refers to a folder that exists.
\<close>

theorem folder_reachable_inv:
  assumes "(folder_step L)\<^sup>*\<^sup>* d d'" and "folder_inv L d"
  shows "folder_inv L d'"
  using assms by (rule folder_sys.inv_steps)

end
