(* ===== verification/Folder_Access.thy ===== *)
theory Folder_Access
  imports Folder_Inv
begin

text \<open>
  Moving a folder rewrites exactly the paths of its live subtree; reading a folder needs a right to it.
\<close>

section \<open>Moving\<close>

lemma join_split: "join_with d (split_on d s) = s"
proof (induction s)
  case (Cons c s)
  obtain x xs where "split_on d s = x # xs" by (cases "split_on d s") auto
  with Cons show ?case by (cases xs) auto
qed simp

lemma join_append: "xs \<noteq> [] \<Longrightarrow> ys \<noteq> [] \<Longrightarrow> join_with d (xs @ ys) = join_with d xs @ d # join_with d ys"
proof (induction d xs rule: join_with.induct)
  case (2 d x)
  then show ?case by (cases ys) auto
qed auto

text \<open>The test of the code, a prefix of the texts, finds every path below.\<close>

lemma below_text:
  assumes "p \<noteq> []" and "below q p"
  shows "q = p \<or> prefix (p @ ''.'') q"
proof -
  from assms(2) obtain rest where q: "ltree_labels q = ltree_labels p @ rest" by (auto simp: below_def prefix_def)
  have ne: "ltree_labels p \<noteq> []" "ltree_labels q \<noteq> []" using assms(1) q by (simp_all add: ltree_labels_ne)
  have whole: "join_with CHR ''.'' (ltree_labels x) = x" if "ltree_labels x \<noteq> []" for x
    using that by (auto simp: ltree_labels_def join_split split: if_splits)
  show ?thesis
  proof (cases "rest = []")
    case True
    then show ?thesis using q whole [OF ne(1)] whole [OF ne(2)] by simp
  next
    case False
    then have "q = p @ ''.'' @ join_with CHR ''.'' rest"
      using whole [OF ne(2)] whole [OF ne(1)] join_append [OF ne(1) False, of "CHR ''.''"] q by simp
    then show ?thesis by (metis append.assoc prefixI)
  qed
qed

definition same_place :: "folder \<Rightarrow> folder \<Rightarrow> bool" where
  "same_place f f' \<longleftrightarrow> folder_id f' = folder_id f \<and> fo_Path f' = fo_Path f \<and> fo_Depth f' = fo_Depth f
     \<and> fo_WorkspaceID f' = fo_WorkspaceID f \<and> fo_live f' = fo_live f \<and> fo_ParentFolderID f' = fo_ParentFolderID f"

lemma same_place_refl: "same_place f f"
  by (simp add: same_place_def)

lemma rename_place:
  assumes "rename_folder L tid n cur env w = (Inr cur', w')"
  shows "list_all2 same_place (dm_folders (wdb w)) (dm_folders (wdb w'))" "same_place cur cur'"
  using assms
  by (auto simp: rename_folder_def name_conflict_def on_error_def tbind_Inr Folders_UpdateName_def sql_Inr put_folders_Inr
      list_all2_map2 same_place_def folder_id_def fo_live_def
      intro!: list.rel_refl_strong split: option.splits if_splits prod.splits sum.splits)

text \<open>The labels of a folder after a move of \<open>cur\<close> under \<open>parent\<close>.\<close>

definition new_labels :: "uuid \<Rightarrow> folder \<Rightarrow> folder \<Rightarrow> folder \<Rightarrow> string list" where
  "new_labels tid cur parent f =
     (if fo_TenantID f = tid \<and> fo_live f \<and> below (fo_Path f) (fo_Path cur)
      then labels parent @ drop (length (labels cur) - 1) (labels f) else labels f)"

lemma new_labels_place:
  "same_place cur cur' \<Longrightarrow> same_place p p' \<Longrightarrow> same_place f f' \<Longrightarrow> new_labels tid cur' p' f' = new_labels tid cur p f"
  by (simp add: new_labels_def same_place_def labels_def folder_id_def)

lemma list_all2_map_eq: "list_all2 P xs ys \<Longrightarrow> (\<And>x y. P x y \<Longrightarrow> g y = h x) \<Longrightarrow> map g ys = map h xs"
  by (induction rule: list_all2_induct) auto

lemma Move_paths_Inr:
  "Folders_Move_paths L tid p q n env w = (Inr u, w') \<Longrightarrow> dm_folders (wdb w') = map (\<lambda>f. if fo_TenantID f = tid \<and> below (fo_Path f) p \<and> fo_live f
     then moved p q n (db_now env) f else f) (dm_folders (wdb w))"
  by (auto simp: Folders_Move_paths_def sql_Inr put_folders_Inr)

lemma Move_parent_Inr:
  "Folders_Move_parent L tid i p env w = (Inr u, w') \<Longrightarrow> \<exists>q. dm_folders (wdb w') = map (\<lambda>f. if folder_is tid i f
     then f\<lparr>fo_ParentFolderID := q, fo_UpdatedAt := db_now env\<rparr> else f) (dm_folders (wdb w))"
  by (auto simp: Folders_Move_parent_def sql_Inr put_folders_Inr split: list.splits)

lemma Move_labels:
  assumes run: "Folders_Move L tid i (fo_Path cur) (fo_Path parent) (fo_Depth parent + 1) env w = (Inr u, w')"
    and wf: "folder_wf cur" "folder_wf parent" "\<And>f. f \<in> set (dm_folders (wdb w)) \<Longrightarrow> folder_wf f"
  shows "list_all2 (\<lambda>f f'. folder_id f' = folder_id f \<and> labels f' = new_labels tid cur parent f) (dm_folders (wdb w)) (dm_folders (wdb w'))"
proof -
  let ?P = "\<lambda>f. fo_TenantID f = tid \<and> below (fo_Path f) (fo_Path cur) \<and> fo_live f"
  let ?m = "\<lambda>f. if ?P f then moved (fo_Path cur) (fo_Path parent) (fo_Depth parent + 1) (db_now env) f else f"
  from run obtain w1 where steps: "Folders_Move_paths L tid (fo_Path cur) (fo_Path parent) (fo_Depth parent + 1) env w = (Inr (), w1)"
      "Folders_Move_parent L tid i (fo_Path parent) env w1 = (Inr u, w')"
    by (auto simp: Folders_Move_def tbind_Inr)
  note w1 = Move_paths_Inr [OF steps(1)]
  from Move_parent_Inr [OF steps(2)] obtain q where
    w': "dm_folders (wdb w') = map (\<lambda>f. if folder_is tid i f then f\<lparr>fo_ParentFolderID := q, fo_UpdatedAt := db_now env\<rparr> else f) (dm_folders (wdb w1))"
    by blast
  have "folder_id (if folder_is tid i (?m f) then (?m f)\<lparr>fo_ParentFolderID := q, fo_UpdatedAt := db_now env\<rparr> else ?m f) = folder_id f
      \<and> labels (if folder_is tid i (?m f) then (?m f)\<lparr>fo_ParentFolderID := q, fo_UpdatedAt := db_now env\<rparr> else ?m f) = new_labels tid cur parent f"
    if "f \<in> set (dm_folders (wdb w))" for f
  proof -
    have "labels (g\<lparr>fo_ParentFolderID := q, fo_UpdatedAt := db_now env\<rparr>) = labels g"
        "folder_id (g\<lparr>fo_ParentFolderID := q, fo_UpdatedAt := db_now env\<rparr>) = folder_id g" for g
      by (simp_all add: labels_def folder_id_def)
    moreover have "folder_id (?m f) = folder_id f" by (simp add: folder_id_def moved_def)
    moreover have "labels (?m f) = new_labels tid cur parent f"
      using labels_moved(1) [OF wf(3) [OF that] wf(1,2)] by (simp add: new_labels_def)
    ultimately show ?thesis by simp
  qed
  then show ?thesis unfolding w' w1 by (simp add: list_all2_map2 list.rel_refl_strong)
qed

lemma reparent_Inr:
  assumes run: "reparent_folder L tid uid (Some p) cur env w = (Inr (), w')" and inv: "folder_inv L (wdb w)" and cur: "folder_wf cur"
  shows "(fo_ParentFolderID cur = Some p \<and> w' = w)
    \<or> (\<exists>parent \<in> set (dm_folders (wdb w)). folder_is tid p parent \<and> fo_WorkspaceID parent = fo_WorkspaceID cur
        \<and> \<not> below (fo_Path parent) (fo_Path cur) \<and> fo_Depth parent + 1 < maxFolderDepth
        \<and> list_all2 (\<lambda>f f'. folder_id f' = folder_id f \<and> labels f' = new_labels tid cur parent f) (dm_folders (wdb w)) (dm_folders (wdb w')))"
proof (cases "fo_ParentFolderID cur = Some p")
  case True
  with run show ?thesis by (simp add: reparent_folder_def)
next
  case False
  from run obtain parent w2 where parent: "find (folder_is tid p) (dm_folders (wdb w)) = Some parent"
    and ok: "fo_WorkspaceID parent = fo_WorkspaceID cur" "fo_Depth parent + 1 < maxFolderDepth"
      "\<not> (prefix (fo_Path cur @ ''.'') (fo_Path parent) \<or> fo_Path parent = fo_Path cur)"
    and move: "name_conflict L (fo_Name cur) (Folders_Move L tid (fo_ID cur) (fo_Path cur) (fo_Path parent) (fo_Depth parent + 1)) env (w\<lparr>stmts := Suc (stmts w)\<rparr>) = (Inr (), w2)"
    and emit: "doc_emit tid ''dms.folder.moved.v1'' ''folder'' (fo_ID cur) (folder_moved env uid cur parent) env w2 = (Inr (), w')"
    by (auto simp: reparent_folder_def False tbind_Inr GetByID_Inr view_of_def Let_def)
  have p: "parent \<in> set (dm_folders (wdb w))" "folder_is tid p parent" using parent by (auto simp: find_Some_iff)
  have "\<not> below (fo_Path parent) (fo_Path cur)" using ok(3) below_text cur by (auto simp: folder_wf_def)
  moreover have "Folders_Move L tid (fo_ID cur) (fo_Path cur) (fo_Path parent) (fo_Depth parent + 1) env (w\<lparr>stmts := Suc (stmts w)\<rparr>) = (Inr (), w2)"
    using move by (auto simp: name_conflict_def on_error_def split: prod.splits sum.splits)
  from Move_labels [OF this cur] have "list_all2 (\<lambda>f f'. folder_id f' = folder_id f \<and> labels f' = new_labels tid cur parent f) (dm_folders (wdb w)) (dm_folders (wdb w2))"
    using inv_folder [OF inv] p(1) by simp
  moreover have "dm_folders (wdb w') = dm_folders (wdb w2)" using emit by (auto elim!: doc_emit_Inr)
  ultimately show ?thesis using p ok(1,2) by auto
qed


section \<open>Reading\<close>

definition owns_or_granted :: "'x doc_db_scheme \<Rightarrow> uuid \<Rightarrow> uuid \<Rightarrow> uuid \<Rightarrow> uuid list \<Rightarrow> bool" where
  "owns_or_granted d tid i uid groups \<longleftrightarrow>
     (\<exists>f \<in> set (dm_folders d). folder_is tid i f \<and> fo_live f \<and> fo_OwnerID f = Some uid) \<or> granted d tid i uid groups"

lemma direct_grant_Inr:
  "query_direct_grant tid i uid groups env w = (Inr b, w') \<longleftrightarrow> fault env (stmts w) = None \<and> b = owns_or_granted (wdb w) tid i uid groups
     \<and> w' = w\<lparr>stmts := Suc (stmts w)\<rparr>"
  by (auto simp: query_direct_grant_def sql_read_Inr owns_or_granted_def)

lemma read_tx_db:
  assumes "WithTenantTx tid f env w = (r, w')" and "\<And>env w a w'. f env w = (Inr a, w') \<Longrightarrow> wdb w' = wdb w"
  shows "wdb w' = wdb w"
proof (cases r)
  case (Inl e)
  then show ?thesis using WithTenantTx_Inl assms(1) by metis
next
  case (Inr a)
  with assms(1) show ?thesis by (auto elim!: WithTenantTx_InrE dest: assms(2))
qed

lemma scanned_direct:
  assumes "scanned tid (query_direct_grant tid i uid groups) env w = (Inr b, w')"
  shows "wdb w' = wdb w" "b \<Longrightarrow> owns_or_granted (wdb w) tid i uid groups"
proof -
  obtain r w1 where run: "WithTenantTx tid (query_direct_grant tid i uid groups) env w = (r, w1)" by fastforce
  have "wdb w1 = wdb w" by (rule read_tx_db [OF run]) (simp add: direct_grant_Inr)
  moreover have "w' = w1" using assms run by (auto simp: scanned_def split: sum.splits)
  ultimately show "wdb w' = wdb w" by simp
  show "b \<Longrightarrow> owns_or_granted (wdb w) tid i uid groups"
    using assms run
    by (cases r) (auto simp: scanned_def direct_grant_Inr tbind_Inr statement_Inr setTenantGUC_def
        elim!: WithTenantTx_InrE split: sum.splits prod.splits)
qed

lemma callerHasDirect_Inr:
  assumes "callerHasDirectGrantOnFolder tid i uid env w = (Inr b, w')"
  shows "wdb w' = wdb w" "b \<Longrightarrow> callerIsTenantAdmin (ctx env) \<or> owns_or_granted (wdb w) tid i uid (GetUserGroups (ctx env))"
  using assms scanned_direct by (auto simp: callerHasDirectGrantOnFolder_def split: if_splits)

lemma CanAccess_Inr:
  assumes "Folders_CanAccessFolder tid i uid groups False env w = (Inr b, w')"
  shows "wdb w' = wdb w" "b \<Longrightarrow> \<exists>f \<in> set (dm_folders (wdb w)). folder_is tid i f \<and> fo_live f
      \<and> (fo_Visibility f = ''shared'' \<or> fo_OwnerID f = Some uid \<or> granted (wdb w) tid i uid groups)"
  using assms
  by (auto simp: Folders_CanAccessFolder_def tbind_Inr sql_read_Inr find_Some_iff split: if_splits option.splits)

lemma checkFolderAccess_Inr:
  assumes "checkFolderAccess tid i uid env w = (Inr u, w')"
  shows "wdb w' = wdb w \<and> (callerIsTenantAdmin (ctx env) \<or> (\<exists>f \<in> set (dm_folders (wdb w)). folder_is tid i f \<and> fo_live f
      \<and> (fo_Visibility f = ''shared'' \<or> fo_OwnerID f = Some uid \<or> granted (wdb w) tid i uid [])))"
proof (cases "callerIsTenantAdmin (ctx env)")
  case True
  with assms show ?thesis by (simp add: checkFolderAccess_def)
next
  case False
  with assms obtain w1 w2 where "wdb w1 = wdb w" "Folders_CanAccessFolder tid i uid [] False (env\<lparr>cur_tenant := tid\<rparr>) w1 = (Inr True, w2)"
      "wdb w' = wdb w2"
    by (auto simp: checkFolderAccess_def tbind_Inr elim!: WithTenantTx_InrE)
  with CanAccess_Inr show ?thesis by metis
qed

lemma on_error_fails: "on_error f (\<lambda>e. tfail (h e)) env w = (Inr a, w') \<longleftrightarrow> f env w = (Inr a, w')"
  by (auto simp: on_error_def split: prod.splits sum.splits)

lemma read_folder_Inr:
  assumes "read_folder tid i env w = (Inr v, w')"
  shows "\<exists>f. find (folder_is tid i) (dm_folders (wdb w)) = Some f \<and> fv_Folder v = f \<and> wdb w' = wdb w
    \<and> set (fv_Ancestors v) \<subseteq> {g \<in> live_folders (wdb w) tid. below (fo_Path f) (fo_Path g)}"
proof -
  from assms obtain f anc where "find (folder_is tid i) (dm_folders (wdb w)) = Some f"
    and "v = (view_of (wdb w) f)\<lparr>fv_Ancestors := anc\<rparr>"
    and "Folders_Ancestors tid (fo_Path f) env (w\<lparr>stmts := Suc (stmts w)\<rparr>) = (Inr anc, w')"
    by (auto simp: read_folder_def tbind_Inr on_error_fails GetByID_Inr view_of_def)
  then show ?thesis by (auto simp: Folders_Ancestors_def sql_read_Inr view_of_def live_folders_def)
qed

text \<open>
  Property C23. \<open>GetFolder\<close> shows a folder only to those who may see it, and changes nothing: when it answers, the caller
  is an administrator of the tenant, or owns the folder or was granted it (in person or through a group), or the policy
  service allowed the view and the folder is live and shared, the caller's own, or granted to the caller in person. The
  answer is a folder of the caller's tenant, with its live ancestors.
\<close>

theorem GetFolder_authorized:
  assumes run: "GetFolder L i env w = (Inr v, w')"
  shows "\<exists>tid uid f k. doc_mustCaller (ctx env) = Inr (tid, uid) \<and> wdb w' = wdb w
    \<and> f \<in> set (dm_folders (wdb w)) \<and> folder_is tid i f \<and> fv_Folder v = f
    \<and> set (fv_Ancestors v) \<subseteq> {g \<in> live_folders (wdb w) tid. below (fo_Path f) (fo_Path g)}
    \<and> (callerIsTenantAdmin (ctx env) \<or> owns_or_granted (wdb w) tid i uid (GetUserGroups (ctx env))
       \<or> (policy_client L k (outgoing_tenant (ctx env)) (permission_request env uid ''view'' ''folder'' i (in_workspace env (fo_WorkspaceID f))) = Some True
          \<and> (\<exists>g \<in> set (dm_folders (wdb w)). folder_is tid i g \<and> fo_live g
              \<and> (fo_Visibility g = ''shared'' \<or> fo_OwnerID g = Some uid \<or> granted (wdb w) tid i uid []))))"
proof -
  from run obtain tid uid where caller: "doc_mustCaller (ctx env) = Inr (tid, uid)"
    and rest: "tbind (WithTenantTx tid (read_folder tid i)) (\<lambda>v.
     tbind (callerHasDirectGrantOnFolder tid i uid) (\<lambda>direct.
     if direct then tret v
     else tbind (with_env (\<lambda>env. requirePermission L uid ''view'' ''folder'' i (in_workspace env (fo_WorkspaceID (fv_Folder v))))) (\<lambda>_.
          tbind (checkFolderAccess tid i uid) (\<lambda>_. tret v)))) env w = (Inr v, w')"
    unfolding GetFolder_def by (rule doc_caller_Inr)
  from rest obtain v0 w1 direct w2 where tx: "WithTenantTx tid (read_folder tid i) env w = (Inr v0, w1)"
    and dir: "callerHasDirectGrantOnFolder tid i uid env w1 = (Inr direct, w2)"
    and last: "(if direct then tret v0
     else tbind (with_env (\<lambda>env. requirePermission L uid ''view'' ''folder'' i (in_workspace env (fo_WorkspaceID (fv_Folder v0))))) (\<lambda>_.
          tbind (checkFolderAccess tid i uid) (\<lambda>_. tret v0))) env w2 = (Inr v, w')"
    unfolding tbind_Inr by blast
  from tx obtain u1 u2 where u: "wdb u1 = wdb w" "read_folder tid i (env\<lparr>cur_tenant := tid\<rparr>) u1 = (Inr v0, u2)" "wdb w1 = wdb u2"
    by (rule WithTenantTx_InrE)
  from read_folder_Inr [OF u(2)] obtain f where f: "find (folder_is tid i) (dm_folders (wdb w)) = Some f" "fv_Folder v0 = f" "wdb u2 = wdb w"
    and anc: "set (fv_Ancestors v0) \<subseteq> {g \<in> live_folders (wdb w) tid. below (fo_Path f) (fo_Path g)}"
    by (auto simp: u(1))
  have w1: "wdb w1 = wdb w" using u(3) f(3) by simp
  have w2: "wdb w2 = wdb w" using callerHasDirect_Inr(1) [OF dir] w1 by simp
  have mem: "f \<in> set (dm_folders (wdb w))" "folder_is tid i f" using f(1) by (auto simp: find_Some_iff)
  show ?thesis
  proof (cases direct)
    case True
    with last have "v = v0" "w' = w2" by simp_all
    with True callerHasDirect_Inr(2) [OF dir] caller w1 w2 f(2) anc mem show ?thesis by auto
  next
    case False
    with last obtain w3 k where "v = v0" and check: "checkFolderAccess tid i uid env w3 = (Inr (), w')" and w3: "wdb w3 = wdb w"
      and allow: "policy_client L k (outgoing_tenant (ctx env)) (permission_request env uid ''view'' ''folder'' i (in_workspace env (fo_WorkspaceID f))) = Some True"
      by (auto simp: tbind_Inr requirePermission_def checkPermission_def f(2) w2 split: if_split_asm)
    with checkFolderAccess_Inr [OF check] caller f(2) anc mem show ?thesis by auto
  qed
qed

end
