(* ===== verification/Folder_Paging.thy ===== *)
theory Folder_Paging
  imports Folder_Tree Policy_Decision
begin

text \<open>
  Pages of children: the cursor is read back as it was written, and following the cursors from the first page
  visits every child of a folder once, in order, and stops.
\<close>

section \<open>The cursor\<close>

definition url_char :: "char \<Rightarrow> bool" where
  "url_char c \<longleftrightarrow> c \<notin> set [CHR ''+'', CHR ''/'', CHR ''=''] \<and> 33 \<le> (of_char c :: nat) \<and> (of_char c :: nat) < 128"

lemma b64_val_code:
  "b64_val c \<noteq> None \<Longrightarrow> 33 \<le> (of_char c :: nat) \<and> (of_char c :: nat) < 128 \<and> c \<noteq> CHR ''-'' \<and> c \<noteq> CHR ''_'' \<and> c \<noteq> CHR ''=''"
  by (auto simp: b64_val_def Let_def split: if_splits)

lemma encode_chars: "c \<in> set (b64_encode s) \<Longrightarrow> c = CHR ''='' \<or> b64_val c \<noteq> None"
  by (induction s rule: b64_encode.induct) (auto simp: Let_def b64_arith)

lemma encode_padding:
  "filter (\<lambda>c. c \<noteq> CHR ''='') (b64_encode s) @ replicate ((4 - length (filter (\<lambda>c. c \<noteq> CHR ''='') (b64_encode s)) mod 4) mod 4) CHR ''=''
     = b64_encode s \<and> length (filter (\<lambda>c. c \<noteq> CHR ''='') (b64_encode s)) mod 4 \<noteq> 1"
  by (induction s rule: b64_encode.induct) (simp_all add: Let_def b64_arith numeral_2_eq_2)

lemma from_to_url: "c \<noteq> CHR ''-'' \<Longrightarrow> c \<noteq> CHR ''_'' \<Longrightarrow> from_url (to_url c) = c"
  by (simp add: from_url_def to_url_def)

lemma rawurl_encode_chars: "c \<in> set (rawurl_encode s) \<Longrightarrow> url_char c"
  using encode_chars b64_val_code by (fastforce simp: rawurl_encode_def url_char_def to_url_def)

lemma rawurl_roundtrip: "rawurl_decode (rawurl_encode s) = Some s"
proof -
  let ?f = "filter (\<lambda>c. c \<noteq> CHR ''='') (b64_encode s)"
  have line: "filter (\<lambda>c. c \<noteq> CHR 0x0A \<and> c \<noteq> CHR 0x0D) (rawurl_encode s) = rawurl_encode s"
    using rawurl_encode_chars by (fastforce simp: filter_id_conv url_char_def)
  have "map (from_url \<circ> to_url) ?f = ?f"
    using encode_chars b64_val_code by (intro map_idI) (fastforce intro: from_to_url)
  then have "map from_url (rawurl_encode s) = ?f" by (simp add: rawurl_encode_def)
  moreover have "\<not> list_ex (\<lambda>c. c \<in> set [CHR ''+'', CHR ''/'', CHR ''='']) (rawurl_encode s)"
    using rawurl_encode_chars by (auto simp: list_ex_iff url_char_def)
  moreover have "length (rawurl_encode s) = length ?f" by (simp add: rawurl_encode_def)
  ultimately show ?thesis
    using encode_padding [of s] by (simp add: rawurl_decode_def line Let_def b64_quads_encode del: set_simps)
qed

lemma trim_left_id: "(\<And>p. p \<in> set pats \<Longrightarrow> p \<noteq> [] \<Longrightarrow> hd p \<notin> set s) \<Longrightarrow> trim_left pats s = s"
proof -
  assume "\<And>p. p \<in> set pats \<Longrightarrow> p \<noteq> [] \<Longrightarrow> hd p \<notin> set s"
  then have "find (\<lambda>p. p \<noteq> [] \<and> prefix p s) pats = None"
    unfolding find_None_iff by (metis append_Cons hd_in_set in_set_conv_decomp list.exhaust_sel prefixE set_append UnCI)
  then show ?thesis by (simp add: trim_left.simps)
qed

lemma space_heads:
  "list_all (\<lambda>p. p \<noteq> [] \<and> ((of_char (hd p) :: nat) < 33 \<or> 128 \<le> (of_char (hd p) :: nat))) (space_patterns @ map rev space_patterns)"
  by (simp add: space_patterns_def)

lemma TrimSpace_url:
  assumes "\<And>c. c \<in> set s \<Longrightarrow> url_char c"
  shows "TrimSpace s = s"
proof -
  have "hd p \<notin> set s" if "p \<in> set (space_patterns @ map rev space_patterns)" for p
  proof -
    have "(of_char (hd p) :: nat) < 33 \<or> 128 \<le> (of_char (hd p) :: nat)"
      using that space_heads unfolding list_all_iff by blast
    then show ?thesis using assms [of "hd p"] by (auto simp: url_char_def)
  qed
  then have "trim_left space_patterns s = s" "trim_left (map rev space_patterns) (rev s) = rev s"
    by (auto intro!: trim_left_id)
  then show ?thesis by (simp add: TrimSpace_def)
qed

lemma read_token:
  assumes "uuid_laws env" and "CHR 0x00 \<notin> set name"
  shows "decodeFolderToken env (encodeFolderToken env name i) = Some (name, i)"
proof -
  let ?s = "name @ CHR 0x00 # uuid_String env i"
  have "encodeFolderToken env name i \<noteq> []"
    using rawurl_roundtrip [of ?s] by (auto simp: encodeFolderToken_def rawurl_decode_def)
  moreover have "TrimSpace (encodeFolderToken env name i) = encodeFolderToken env name i"
    unfolding encodeFolderToken_def by (rule TrimSpace_url) (rule rawurl_encode_chars)
  moreover have "index_byte ?s CHR 0x00 = Some (length name)" by (rule index_byte_append_notin [OF assms(2)])
  moreover have "uuid_Parse env (uuid_String env i) = Some i" using assms(1) by (simp add: uuid_laws_def)
  ultimately show ?thesis
    by (simp add: decodeFolderToken_def Let_def encodeFolderToken_def [of env name i] rawurl_roundtrip)
qed

text \<open>
  The page cursor survives the round trip: what \<open>decodeFolderToken\<close> reads from the token made for a folder
  is that folder's name and identifier, for every name \<open>validateFolderName\<close> accepts, whatever runes or bytes it has.
\<close>

theorem folder_token_roundtrip:
  assumes "uuid_laws env" and "validateFolderName name = None"
  shows "decodeFolderToken env (encodeFolderToken env name i) = Some (name, i)"
proof (rule read_token [OF assms(1)])
  show "CHR 0x00 \<notin> set name"
  proof
    assume "CHR 0x00 \<in> set name"
    moreover have "name_forbids CHR 0x00" by (simp add: name_forbids_def)
    ultimately have "list_ex name_forbids name" by (auto simp: list_ex_iff)
    with assms(2) show False by (simp add: validateFolderName_def)
  qed
qed

section \<open>The order of a page\<close>

definition order_of :: "doc_lib \<Rightarrow> folder \<Rightarrow> string \<times> string \<times> uuid" where
  "order_of L f = name_order L (fo_Name f) (fo_ID f)"

lemma key_less_less: "key_less x y \<longleftrightarrow> x < y"
  by (cases x; cases y) (auto simp: key_less_def less_prod_def')

lemma insort_split: "insort_key h x xs = takeWhile (\<lambda>y. h y < h x) xs @ x # dropWhile (\<lambda>y. h y < h x) xs"
  by (induction xs) auto

lemma sort_by_name_sort: "sort_by_name L fs = sort_key (order_of L) fs"
  by (simp add: sort_by_name_def sort_key_def insert_by_name_def [abs_def] insort_split [abs_def] key_less_less order_of_def)

text \<open>In a strictly sorted list the elements after one of them are the tail.\<close>

lemma filter_after:
  fixes h :: "'a \<Rightarrow> 'b :: linorder"
  assumes "sorted_wrt (\<lambda>x y. h x < h y) (xs @ c # ys)"
  shows "filter (\<lambda>y. h c < h y) (xs @ c # ys) = ys"
proof -
  have "filter (\<lambda>y. h c < h y) xs = []" using assms by (auto simp: sorted_wrt_append filter_empty_conv)
  moreover have "filter (\<lambda>y. h c < h y) ys = ys" using assms by (auto simp: sorted_wrt_append filter_id_conv)
  ultimately show ?thesis by simp
qed

definition children_of :: "'x doc_db_scheme \<Rightarrow> uuid \<Rightarrow> uuid \<Rightarrow> uuid option \<Rightarrow> folder list" where
  "children_of d tid wid parent = filter (child_of tid wid parent) (dm_folders d)"

lemma children_strict:
  assumes "distinct (map folder_id (dm_folders d))"
  shows "sorted_wrt (\<lambda>x y. order_of L x < order_of L y) (sort_by_name L (children_of d tid wid parent))"
proof -
  have "distinct (map (order_of L) (children_of d tid wid parent))"
  proof -
    have "inj_on (order_of L) (set (children_of d tid wid parent))"
      using assms by (auto simp: children_of_def child_of_def distinct_map inj_on_def order_of_def name_order_def folder_id_def)
    then show ?thesis using assms by (simp add: distinct_map children_of_def)
  qed
  then have "sorted_wrt (<) (map (order_of L) (sort_by_name L (children_of d tid wid parent)))"
    by (simp add: sort_by_name_sort strict_sorted_iff distinct_map)
  then show ?thesis by (simp add: sorted_wrt_map)
qed

text \<open>The rest of the children after a cursor: all of them, or those after the folder it names.\<close>

definition rest_after :: "doc_lib \<Rightarrow> 'x doc_db_scheme \<Rightarrow> uuid \<Rightarrow> uuid \<Rightarrow> uuid option \<Rightarrow> string \<Rightarrow> uuid \<Rightarrow> folder list" where
  "rest_after L d tid wid parent cname cid =
     sort_by_name L (filter (\<lambda>f. child_of tid wid parent f \<and> after_cursor L cname cid f) (dm_folders d))"

lemma rest_first: "rest_after L d tid wid parent [] uuid_Nil = sort_by_name L (children_of d tid wid parent)"
  by (simp add: rest_after_def children_of_def after_cursor_def)

lemma rest_next:
  assumes "distinct (map folder_id (dm_folders d))" and "sort_by_name L (children_of d tid wid parent) = xs @ c # ys" and "fo_ID c \<noteq> uuid_Nil"
  shows "rest_after L d tid wid parent (fo_Name c) (fo_ID c) = ys"
proof -
  have "filter (\<lambda>f. child_of tid wid parent f \<and> after_cursor L (fo_Name c) (fo_ID c) f) (dm_folders d)
      = filter (\<lambda>f. order_of L c < order_of L f) (children_of d tid wid parent)"
    using assms(3) by (simp add: children_of_def after_cursor_def key_less_less order_of_def conj_commute)
  then have "rest_after L d tid wid parent (fo_Name c) (fo_ID c)
      = filter (\<lambda>f. order_of L c < order_of L f) (sort_by_name L (children_of d tid wid parent))"
    by (simp add: rest_after_def sort_by_name_sort filter_sort)
  also have "\<dots> = ys" using children_strict [OF assms(1), of L tid wid parent] unfolding assms(2) by (rule filter_after)
  finally show ?thesis .
qed

section \<open>One page\<close>

text \<open>What a caller sees of a workspace: administrators everything; of shared folders, members all and others none; of
  private folders, those they own or were granted, in person or through a group.\<close>

definition sees :: "env \<Rightarrow> 'x doc_db_scheme \<Rightarrow> uuid \<Rightarrow> uuid \<Rightarrow> bool \<Rightarrow> folder \<Rightarrow> bool" where
  "sees env d tid uid member f \<longleftrightarrow> callerIsTenantAdmin (ctx env)
     \<or> (if fo_Visibility f = ''shared'' then member else accessible_row d tid uid (GetUserGroups (ctx env)) f)"

lemma sees_tenant [simp]: "sees (env\<lparr>cur_tenant := t\<rparr>) = sees env"
  by (simp add: sees_def fun_eq_iff)

lemma fillCounts_healthy:
  assumes "healthy env"
  obtains vs k where "fillCounts tid wid page env w = (Inr vs, w\<lparr>stmts := k\<rparr>)" "map fv_Folder vs = page"
proof (cases "page = []")
  case True
  have "w = w\<lparr>stmts := stmts w\<rparr>" by simp
  then show thesis using that [of "[]" "stmts w"] True by (simp add: fillCounts_def tret_def)
next
  case False
  let ?vs = "map (\<lambda>(f, c, n). \<lparr>fv_Folder = f, fv_DocumentCount = n, fv_ChildFolderCount = c, fv_Ancestors = []\<rparr>)
      (zip page (zip (map (\<lambda>f. length (live_children (wdb w) tid (fo_ID f))) page)
        (map (\<lambda>f. length (filter (\<lambda>x. dd_WorkspaceID x = wid) (live_docs_in (wdb w) tid (fo_ID f)))) page)))"
  have "map fv_Folder ?vs = page" by (rule nth_equalityI) simp_all
  moreover have "fillCounts tid wid page env w = (Inr ?vs, w\<lparr>stmts := Suc (Suc (stmts w))\<rparr>)"
    using assms False by (simp add: fillCounts_def tbind_def tret_def)
  ultimately show thesis using that by blast
qed

lemma mem_map_filter: "x \<in> set (map h (filter P xs)) \<longleftrightarrow> (\<exists>g \<in> set xs. h g = x \<and> P g)"
  by auto

lemma folder_page_healthy:
  assumes env: "healthy env" and ids: "distinct (map folder_id (dm_folders (wdb w)))" and name: "cid = uuid_Nil \<or> utf8_ok cname"
  obtains vs k where "folder_page L tid uid wid parent member cname cid limit env w
      = (Inr (vs, next_token env limit (map (\<lambda>f. \<lparr>fv_Folder = f, fv_DocumentCount = 0, fv_ChildFolderCount = 0, fv_Ancestors = []\<rparr>)
          (take (nat (page_limit limit)) (rest_after L (wdb w) tid wid parent cname cid)))), w\<lparr>stmts := k\<rparr>)"
    "map fv_Folder vs = filter (sees env (wdb w) tid uid member) (take (nat (page_limit limit)) (rest_after L (wdb w) tid wid parent cname cid))"
proof -
  let ?page = "take (nat (page_limit limit)) (rest_after L (wdb w) tid wid parent cname cid)"
  obtain raw k where raw: "fillCounts tid wid ?page env (w\<lparr>stmts := Suc (stmts w)\<rparr>) = (Inr raw, w\<lparr>stmts := k\<rparr>)" "map fv_Folder raw = ?page"
    by (rule fillCounts_healthy [OF env, of tid wid ?page "w\<lparr>stmts := Suc (stmts w)\<rparr>"]) auto
  have list: "Folders_ListByParent L tid wid parent cname cid limit env w = (Inr raw, w\<lparr>stmts := k\<rparr>)"
    using env name raw(1) by (auto simp: Folders_ListByParent_def tbind_def rest_after_def)
  let ?admin = "callerIsTenantAdmin (ctx env)"
  let ?priv = "map (\<lambda>v. fo_ID (fv_Folder v)) (filter (\<lambda>v. \<not> is_shared v) raw)"
  let ?acc = "map fo_ID (filter (\<lambda>f. fo_ID f \<in> set ?priv \<and> accessible_row (wdb w) tid uid (GetUserGroups (ctx env)) f) (dm_folders (wdb w)))"
  let ?ids = "if ?priv \<noteq> [] \<and> \<not> ?admin then ?acc else []"
  have "\<exists>j. (if ?priv \<noteq> [] \<and> \<not> ?admin then Folders_FilterAccessibleFolderIDs tid ?priv uid (GetUserGroups (ctx env)) else tret [])
      env (w\<lparr>stmts := k\<rparr>) = (Inr ?ids, w\<lparr>stmts := j\<rparr>)"
    using env by (auto simp: Folders_FilterAccessibleFolderIDs_def tret_def)
  then obtain j where acc: "(if ?priv \<noteq> [] \<and> \<not> ?admin then Folders_FilterAccessibleFolderIDs tid ?priv uid (GetUserGroups (ctx env)) else tret [])
      env (w\<lparr>stmts := k\<rparr>) = (Inr ?ids, w\<lparr>stmts := j\<rparr>)" by blast
  have run: "folder_page L tid uid wid parent member cname cid limit env w
      = (Inr (visible_folders ?admin member ?ids raw, next_token env limit raw), w\<lparr>stmts := j\<rparr>)"
    unfolding folder_page_def with_env_app tbind_def list Let_def by (simp only: acc prod.case sum.case) (simp add: tret_def)
  have nt: "next_token env limit raw = next_token env limit
      (map (\<lambda>f. \<lparr>fv_Folder = f, fv_DocumentCount = 0, fv_ChildFolderCount = 0, fv_Ancestors = []\<rparr>) ?page)"
    unfolding raw(2) [symmetric] by (simp add: next_token_def last_map)
  have seen: "map fv_Folder (visible_folders ?admin member ?ids raw) = filter (sees env (wdb w) tid uid member) ?page"
  proof -
    have row: "f \<in> set (dm_folders (wdb w)) \<and> fo_TenantID f = tid" if "f \<in> set ?page" for f
      using that by (auto simp: rest_after_def sort_by_name_sort child_of_def dest: in_set_takeD)
    have "(if is_shared v then ?admin \<or> member else ?admin \<or> fo_ID (fv_Folder v) \<in> set ?ids) = sees env (wdb w) tid uid member (fv_Folder v)"
      if v: "v \<in> set raw" for v
    proof (cases "is_shared v \<or> ?admin")
      case True
      then show ?thesis by (auto simp: sees_def is_shared_def)
    next
      case False
      let ?f = "fv_Folder v"
      have f: "?f \<in> set (dm_folders (wdb w))" "fo_TenantID ?f = tid"
        using row [of ?f] v unfolding raw(2) [symmetric] by auto
      have priv: "fo_ID ?f \<in> set ?priv" using v False by auto
      then have ne: "?priv \<noteq> []" by (metis empty_iff empty_set)
      have "fo_ID ?f \<in> set ?acc \<longleftrightarrow> accessible_row (wdb w) tid uid (GetUserGroups (ctx env)) ?f"
      proof
        assume "fo_ID ?f \<in> set ?acc"
        then obtain g where g: "g \<in> set (dm_folders (wdb w))" "fo_ID g = fo_ID ?f" "accessible_row (wdb w) tid uid (GetUserGroups (ctx env)) g"
          unfolding mem_map_filter by blast
        then have "folder_id g = folder_id ?f" using f(2) by (simp add: accessible_row_def folder_id_def)
        then have "g = ?f" using ids f(1) g(1) unfolding distinct_map by (blast dest: inj_onD)
        with g(3) show "accessible_row (wdb w) tid uid (GetUserGroups (ctx env)) ?f" by simp
      next
        assume "accessible_row (wdb w) tid uid (GetUserGroups (ctx env)) ?f"
        with f(1) priv show "fo_ID ?f \<in> set ?acc" unfolding mem_map_filter [of _ fo_ID] by blast
      qed
      with False ne show ?thesis by (simp add: sees_def is_shared_def)
    qed
    then show ?thesis unfolding raw(2) [symmetric] visible_folders_def by (simp add: filter_map comp_def cong: filter_cong)
  qed
  show thesis by (rule that [OF run [unfolded nt] seen])
qed

section \<open>All pages\<close>

text \<open>
  The caller may enter the workspace: as a member when the policy service allows it (\<open>member\<close>), otherwise because some
  folder of the workspace was granted.
\<close>

definition may_enter :: "doc_lib \<Rightarrow> env \<Rightarrow> 'x doc_db_scheme \<Rightarrow> uuid \<Rightarrow> uuid \<Rightarrow> uuid \<Rightarrow> bool \<Rightarrow> bool" where
  "may_enter L env d tid uid wid member \<longleftrightarrow> utf8_ok (GetUserRole (ctx env))
     \<and> (\<forall>k. policy_client L k (outgoing_tenant (ctx env)) (permission_request env uid ''view'' ''workspace'' wid []) = Some member)
     \<and> (member \<or> (\<exists>f \<in> set (dm_folders d). fo_TenantID f = tid \<and> fo_WorkspaceID f = wid \<and> fo_live f
          \<and> granted d tid (fo_ID f) uid (GetUserGroups (ctx env))))"

lemma workspace_entry_healthy:
  assumes env: "healthy env" "tid \<noteq> uuid_Nil" and may: "may_enter L env (wdb w) tid uid wid member"
  obtains k where "workspace_entry L tid wid uid env w = (Inr member, w\<lparr>stmts := k\<rparr>)"
proof (cases member)
  case True
  with may have "workspace_entry L tid wid uid env w = (Inr True, w)"
    by (simp add: may_enter_def workspace_entry_def requirePermission_def checkPermission_def tbind_def tguard_def tret_def on_error_def)
  moreover have "w = w\<lparr>stmts := stmts w\<rparr>" by simp
  ultimately show thesis using that [of "stmts w"] True by simp
next
  case False
  have q: "query_workspace_grant tid wid uid (GetUserGroups (ctx env)) (env\<lparr>cur_tenant := tid\<rparr>) (w\<lparr>stmts := Suc (Suc (stmts w))\<rparr>)
      = (Inr True, w\<lparr>stmts := Suc (Suc (Suc (stmts w)))\<rparr>)"
    using env may False by (simp add: query_workspace_grant_def may_enter_def)
  have "callerHasGrantInWorkspace tid wid uid env w = (Inr True, w\<lparr>stmts := Suc (Suc (Suc (Suc (stmts w))))\<rparr>)"
    using healthy_WithTenantTx [OF env, where fn = "query_workspace_grant tid wid uid (GetUserGroups (ctx env))", OF q]
    by (simp add: callerHasGrantInWorkspace_def)
  with may False have "workspace_entry L tid wid uid env w = (Inr False, w\<lparr>stmts := Suc (Suc (Suc (Suc (stmts w))))\<rparr>)"
    by (simp add: may_enter_def workspace_entry_def requirePermission_def checkPermission_def tbind_def tguard_def tret_def tfail_def
        on_error_def errs_Is_def)
  then show thesis using that False by simp
qed

lemma ListFolders_page:
  fixes parent :: "uuid option" and limit :: int
  assumes env: "healthy env" "doc_mustCaller (ctx env) = Inr (tid, uid)" and may: "may_enter L env (wdb w) tid uid wid member"
    and ids: "distinct (map folder_id (dm_folders (wdb w)))"
    and tok: "decodeFolderToken env tok = Some (cname, cid)" "cid = uuid_Nil \<or> utf8_ok cname"
  defines "page \<equiv> take (nat (page_limit limit)) (rest_after L (wdb w) tid wid parent cname cid)"
  obtains vs k where "ListFolders L wid parent tok limit env w = (Inr (vs, if length page = nat (page_limit limit)
      then encodeFolderToken env (fo_Name (last page)) (fo_ID (last page)) else []), w\<lparr>stmts := k\<rparr>)"
    "map fv_Folder vs = filter (sees env (wdb w) tid uid member) page"
proof -
  have tid: "tid \<noteq> uuid_Nil" using env(2) doc_mustCaller_tenant by blast
  obtain k where entry: "workspace_entry L tid wid uid env w = (Inr member, w\<lparr>stmts := k\<rparr>)"
    by (rule workspace_entry_healthy [OF env(1) tid may])
  let ?w = "w\<lparr>stmts := Suc (Suc k)\<rparr>" and ?e = "env\<lparr>cur_tenant := tid\<rparr>"
  have twice: "page_limit (page_limit limit) = page_limit limit"
    by (simp add: page_limit_def Let_def FolderPageDefaultLimit_def FolderPageMaxLimit_def)
  have he: "healthy ?e" and ids': "distinct (map folder_id (dm_folders (wdb ?w)))" using env ids by simp_all
  let ?vp = "map (\<lambda>f. \<lparr>fv_Folder = f, fv_DocumentCount = 0, fv_ChildFolderCount = 0, fv_Ancestors = []\<rparr>) page"
  obtain vs j where page: "folder_page L tid uid wid parent member cname cid (page_limit limit) ?e ?w
      = (Inr (vs, next_token ?e (page_limit limit) ?vp), w\<lparr>stmts := j\<rparr>)"
    "map fv_Folder vs = filter (sees env (wdb w) tid uid member) page"
    by (rule folder_page_healthy [OF he ids' tok(2), of L tid uid wid parent member "page_limit limit"])
      (auto simp: twice page_def)
  have "page_limit limit \<ge> 1" by (rule page_limit_bounds)
  then have full: "int (length page) = page_limit limit \<longleftrightarrow> length page = nat (page_limit limit)" by linarith
  have "length page = nat (page_limit limit) \<Longrightarrow> page \<noteq> []" using \<open>page_limit limit \<ge> 1\<close> by auto
  then have nt: "next_token ?e (page_limit limit) ?vp = (if length page = nat (page_limit limit)
      then encodeFolderToken env (fo_Name (last page)) (fo_ID (last page)) else [])"
    by (auto simp: next_token_def full last_map encodeFolderToken_def)
  have "WithTenantTx tid (folder_page L tid uid wid parent member cname cid (page_limit limit)) env (w\<lparr>stmts := k\<rparr>)
      = (Inr (vs, next_token ?e (page_limit limit) ?vp), (w\<lparr>stmts := j\<rparr>)\<lparr>stmts := Suc j\<rparr>)"
    using healthy_WithTenantTx [OF env(1) tid, where fn = "folder_page L tid uid wid parent member cname cid (page_limit limit)"
        and w = "w\<lparr>stmts := k\<rparr>"] page(1) by simp
  then have "ListFolders L wid parent tok limit env w = (Inr (vs, next_token ?e (page_limit limit) ?vp), w\<lparr>stmts := Suc j\<rparr>)"
    by (simp add: ListFolders_def doc_callerI [OF env(2)] tok(1) tbind_def entry)
  then show thesis using that page(2) by (simp only: nt)
qed

text \<open>A client that asks for page after page until there is no further token.\<close>

fun all_pages :: "nat \<Rightarrow> doc_lib \<Rightarrow> uuid \<Rightarrow> uuid option \<Rightarrow> string \<Rightarrow> int \<Rightarrow> env \<Rightarrow> ('x doc_db_scheme) world \<Rightarrow> folder list option" where
  "all_pages 0 L wid parent tok limit env w = None"
| "all_pages (Suc n) L wid parent tok limit env w =
     (case ListFolders L wid parent tok limit env w of
        (Inl _, _) \<Rightarrow> None
      | (Inr (vs, next), w') \<Rightarrow>
          if next = [] then Some (map fv_Folder vs)
          else map_option (\<lambda>fs. map fv_Folder vs @ fs) (all_pages n L wid parent next limit env w'))"

text \<open>Names and identifiers a cursor can carry.\<close>

definition cursor_ok :: "folder \<Rightarrow> bool" where
  "cursor_ok f \<longleftrightarrow> fo_ID f \<noteq> uuid_Nil \<and> CHR 0x00 \<notin> set (fo_Name f) \<and> utf8_ok (fo_Name f)"

lemma token_ne: "encodeFolderToken env name i \<noteq> []"
  using rawurl_roundtrip [of "name @ CHR 0x00 # uuid_String env i"] by (auto simp: encodeFolderToken_def rawurl_decode_def)

lemma token_read: "uuid_laws env \<Longrightarrow> cursor_ok f \<Longrightarrow> decodeFolderToken env (encodeFolderToken env (fo_Name f) (fo_ID f)) = Some (fo_Name f, fo_ID f)"
  using read_token by (simp add: cursor_ok_def)

lemma pages_from:
  assumes env: "healthy env" "doc_mustCaller (ctx env) = Inr (tid, uid)" "uuid_laws env"
    and ids: "distinct (map folder_id (dm_folders d))" and names: "\<And>f. f \<in> set (children_of d tid wid parent) \<Longrightarrow> cursor_ok f"
    and may: "may_enter L env d tid uid wid member"
  shows "\<lbrakk>wdb w = d; sort_by_name L (children_of d tid wid parent) = xs @ ys; decodeFolderToken env tok = Some (cname, cid);
      cid = uuid_Nil \<or> utf8_ok cname; rest_after L d tid wid parent cname cid = ys; length ys < n\<rbrakk>
    \<Longrightarrow> all_pages n L wid parent tok limit env w = Some (filter (sees env d tid uid member) ys)"
proof (induction n arbitrary: w xs ys tok cname cid)
  case (Suc n)
  let ?m = "nat (page_limit limit)"
  let ?page = "take ?m ys"
  obtain vs k where run: "ListFolders L wid parent tok limit env w = (Inr (vs, if length ?page = ?m
      then encodeFolderToken env (fo_Name (last ?page)) (fo_ID (last ?page)) else []), w\<lparr>stmts := k\<rparr>)"
    and vs: "map fv_Folder vs = filter (sees env d tid uid member) ?page"
    by (rule ListFolders_page [OF env(1,2), where parent = parent and limit = limit and member = member and tok = tok and cname = cname and cid = cid and L = L and wid = wid and w = w]) (use Suc.prems may ids in auto)
  have pos: "0 < ?m" using page_limit_bounds(1) [of limit] by simp
  show ?case
  proof (cases "length ?page = ?m")
    case False
    then have "?page = ys" by simp
    with False run vs show ?thesis by simp
  next
    case True
    let ?c = "last ?page" and ?zs = "drop ?m ys"
    have ne: "?page \<noteq> []" using True pos by auto
    have split: "sort_by_name L (children_of d tid wid parent) = (xs @ butlast ?page) @ ?c # ?zs"
      using Suc.prems(2) append_butlast_last_id [OF ne] append_take_drop_id [of ?m ys]
      by (metis append.assoc append_Cons append_Nil)
    then have "?c \<in> set (sort_by_name L (children_of d tid wid parent))" by simp
    then have "?c \<in> set (children_of d tid wid parent)" by (simp add: sort_by_name_sort)
    then have c: "cursor_ok ?c" by (rule names)
    have rest: "rest_after L d tid wid parent (fo_Name ?c) (fo_ID ?c) = ?zs"
      using rest_next [OF ids split] c by (simp add: cursor_ok_def)
    have short: "length ?zs < n" using Suc.prems(6) True pos by simp
    have "all_pages n L wid parent (encodeFolderToken env (fo_Name ?c) (fo_ID ?c)) limit env (w\<lparr>stmts := k\<rparr>)
        = Some (filter (sees env d tid uid member) ?zs)"
      by (rule Suc.IH [where xs = "xs @ ?page" and cname = "fo_Name ?c" and cid = "fo_ID ?c"])
        (use Suc.prems(1,2) token_read [OF env(3) c] c rest short in \<open>auto simp: cursor_ok_def\<close>)
    then show ?thesis
      using True run vs token_ne by (simp add: filter_append [symmetric] del: filter_append)
  qed
qed simp

text \<open>
  Property C21. Paging through a folder shows every child the caller may see, once, and ends. Starting without a token
  and following the tokens, with any page size, a client that may enter the workspace gets after finitely many pages
  exactly the children it may see, in the order of their names: all of them for an administrator; for a member the
  shared ones and the private ones it owns or was granted; for a caller who only holds a grant, the latter. Rows that
  are filtered out of a page never hide later ones.
\<close>

theorem folder_pages_complete:
  assumes env: "healthy env" "doc_mustCaller (ctx env) = Inr (tid, uid)" "uuid_laws env"
    and ids: "distinct (map folder_id (dm_folders (wdb w)))"
    and names: "list_all cursor_ok (children_of (wdb w) tid wid parent)"
    and may: "may_enter L env (wdb w) tid uid wid member" and pages: "length (children_of (wdb w) tid wid parent) < n"
  shows "all_pages n L wid parent [] limit env w
      = Some (filter (sees env (wdb w) tid uid member) (sort_by_name L (children_of (wdb w) tid wid parent)))"
proof (rule pages_from [OF env ids _ may refl, where xs = "[]" and cname = "[]" and cid = uuid_Nil])
  show "decodeFolderToken env [] = Some ([], uuid_Nil)"
    using TrimSpace_url [of "[]"] by (simp add: decodeFolderToken_def Let_def)
qed (use names pages in \<open>auto simp: list_all_iff rest_first sort_by_name_sort\<close>)

end
