(* ===== verification/Folder_Reindex.thy ===== *)
theory Folder_Reindex
  imports Folder_Inv
begin

text \<open>
  \<open>ReindexSearch\<close> of \<open>services/document/internal/service/search_reindex.go\<close>: the loop that walks the documents of a
  tenant in batches, one transaction each. The loop ends because every batch that is not the last moves the cursor past
  a document; this holds in every environment, also when statements fail.
\<close>

section \<open>What a batch leaves alone\<close>

lemma keeps_documents: "keeps E (\<lambda>d. dm_documents d = D) (reindexBatch L tid i cursor)"
proof -
  have emit: "keeps E (\<lambda>d. dm_documents d = D) (doc_emit tid ty agg aid p)" for ty agg aid p
    by (rule tx_postI) (auto elim!: doc_emit_Inr)
  have "keeps E (\<lambda>d. dm_documents d = D) (computeFolderReaders L tid f wid)" for f wid
    unfolding computeFolderReaders_def by (intro keeps_bind keeps_pure) (simp add: tx_post_def Let_def)
  then have "keeps E (\<lambda>d. dm_documents d = D) (reindex_one L tid x)" for x
    unfolding reindex_one_def reindex_content_def version_count_def reindex_readers_def
    by (cases x) (auto split: option.splits intro!: keeps_bind keeps_pure keeps_env emit keeps_failing)
  then show ?thesis unfolding reindexBatch_def by (intro keeps_bind keeps_pure keeps_each)
qed

lemma reindexBatch_Inr:
  assumes "reindexBatch L tid i cursor env w = (Inr (n, c), w')"
  shows "dm_documents (wdb w') = dm_documents (wdb w)"
    and "n = min reindexBatchSize (length (reindex_rows (wdb w) tid i cursor))"
    and "c = (if n = 0 then cursor else dd_ID (reindex_rows (wdb w) tid i cursor ! (n - 1)))"
proof -
  show "dm_documents (wdb w') = dm_documents (wdb w)"
    using tx_postD [OF keeps_documents [where E = "\<lambda>_. True"]] assms by metis
  from assms have n: "n = length (take reindexBatchSize (reindex_rows (wdb w) tid i cursor))"
    and c: "c = (if take reindexBatchSize (reindex_rows (wdb w) tid i cursor) = [] then cursor
       else dd_ID (last (take reindexBatchSize (reindex_rows (wdb w) tid i cursor))))"
    by (auto simp: reindexBatch_def tbind_Inr sql_read_Inr tret_Inr last_map)
  show "n = min reindexBatchSize (length (reindex_rows (wdb w) tid i cursor))" using n by simp
  then show "c = (if n = 0 then cursor else dd_ID (reindex_rows (wdb w) tid i cursor ! (n - 1)))"
    using c n by (cases "n = 0") (auto simp: last_conv_nth)
qed

text \<open>The rows after the last one of a full batch are the rest of the rows.\<close>

lemma reindex_rows_docs: "dm_documents d = dm_documents d' \<Longrightarrow> reindex_rows d tid i cursor = reindex_rows d' tid i cursor"
  by (simp add: reindex_rows_def)

lemma sorted_reindex_rows: "sorted (map dd_ID (reindex_rows d tid i cursor))"
  by (simp add: reindex_rows_def)

lemma set_reindex_rows:
  "set (reindex_rows d tid None cursor) = {x \<in> set (dm_documents d). dd_TenantID x = tid \<and> dd_live x \<and> cursor < dd_ID x}"
  by (auto simp: reindex_rows_def)

lemma reindex_rows_later:
  assumes "cursor \<le> c"
  shows "reindex_rows d tid None c = filter (\<lambda>x. c < dd_ID x) (reindex_rows d tid None cursor)"
  using assms by (auto simp: reindex_rows_def filter_sort intro!: arg_cong [where f = "sort_key dd_ID"] filter_cong)

lemma reindex_rows_shorter:
  assumes "k < length (reindex_rows d tid None cursor)"
  shows "length (reindex_rows d tid None (dd_ID (reindex_rows d tid None cursor ! k))) < length (reindex_rows d tid None cursor)"
proof -
  let ?rs = "reindex_rows d tid None cursor"
  have "?rs ! k \<in> set ?rs" using assms by simp
  then have "cursor < dd_ID (?rs ! k)" by (simp add: set_reindex_rows)
  then have "reindex_rows d tid None (dd_ID (?rs ! k)) = filter (\<lambda>x. dd_ID (?rs ! k) < dd_ID x) ?rs"
    by (intro reindex_rows_later) simp
  moreover have "length (filter (\<lambda>x. dd_ID (?rs ! k) < dd_ID x) ?rs) < length ?rs"
    using assms by (intro length_filter_less [of "?rs ! k"]) simp_all
  ultimately show ?thesis by simp
qed

section \<open>\<open>search_reindex.go\<close>: the loop\<close>

text \<open>The result is the number of events and the error, as in Go; batches committed before an error stay.\<close>

function reindex_loop ::
    "doc_lib \<Rightarrow> uuid \<Rightarrow> uuid option \<Rightarrow> uuid \<Rightarrow> nat \<Rightarrow> env \<Rightarrow> ('x doc_db_scheme) world
      \<Rightarrow> (nat \<times> gerr option) \<times> ('x doc_db_scheme) world" where
  "reindex_loop L tid docID cursor so_far env w =
     (case WithTenantTx tid (reindexBatch L tid docID cursor) env w of
        (Inl e, w1) \<Rightarrow> ((so_far, Some e), w1)
      | (Inr (n, c), w1) \<Rightarrow>
          if docID \<noteq> None \<or> n < reindexBatchSize then ((so_far + n, None), w1)
          else reindex_loop L tid docID c (so_far + n) env w1)"
  by pat_completeness auto
termination
proof (relation "measure (\<lambda>(L, tid, docID, cursor, so_far, env, w). length (reindex_rows (wdb w) tid None cursor))", simp, goal_cases)
  case (1 L tid docID cursor so_far env w x w1 y n c)
  then have run: "WithTenantTx tid (reindexBatch L tid docID cursor) env w = (Inr (n, c), w1)"
    and id: "docID = None" and full: "\<not> n < reindexBatchSize" by auto
  from run obtain v v' where v: "wdb v = wdb w"
    and batch: "reindexBatch L tid docID cursor (env\<lparr>cur_tenant := tid\<rparr>) v = (Inr (n, c), v')" "wdb w1 = wdb v'"
    by (rule WithTenantTx_InrE)
  note b = reindexBatch_Inr [OF batch(1)]
  have pos: "0 < n" "n - 1 < length (reindex_rows (wdb w) tid None cursor)"
    using full b(2) v id by (auto simp: reindexBatchSize_def)
  have "reindex_rows (wdb w1) tid None c = reindex_rows (wdb w) tid None c"
    using b(1) batch(2) v by (intro reindex_rows_docs) simp
  then show ?case using reindex_rows_shorter [OF pos(2)] b(3) pos(1) v id by simp
qed

declare reindex_loop.simps [simp del]

definition ReindexSearch :: "doc_lib \<Rightarrow> uuid option \<Rightarrow> env \<Rightarrow> ('x doc_db_scheme) world
    \<Rightarrow> (nat \<times> gerr option) \<times> ('x doc_db_scheme) world" where
  "ReindexSearch L documentID env w =
     (case doc_mustCaller (ctx env) of
        Inl e \<Rightarrow> ((0, Some e), w)
      | Inr (tid, _) \<Rightarrow> reindex_loop L tid documentID uuid_Nil 0 env w)"

section \<open>One event per document\<close>

text \<open>The event that carries the projection of a document: its columns, its text, its versions and its creator's name.\<close>

definition indexes :: "env \<Rightarrow> 'x doc_db_scheme \<Rightarrow> uuid \<Rightarrow> stored_doc \<Rightarrow> outbox_row \<Rightarrow> bool" where
  "indexes env d tid x r \<longleftrightarrow> o_TenantID r = tid \<and> o_EventType r = ''dms.document.reindexed.v1'' \<and> o_AggregateID r = dd_ID x
     \<and> (\<exists>readers. o_Payload r = reindex_payload env x (creator_name d x) (case dd_Version x of None \<Rightarrow> [] | Some v \<Rightarrow> ocr_text d tid v)
          (length (filter (\<lambda>(t, i, _). t = tid \<and> i = dd_ID x) (dm_versions d))) readers)"

lemma projection_outbox [simp]:
  "creator_name (d\<lparr>outbox := out\<rparr>) x = creator_name d x" "ocr_text (d\<lparr>outbox := out\<rparr>) tid v = ocr_text d tid v"
  "reindex_rows (d\<lparr>outbox := out\<rparr>) tid i cursor = reindex_rows d tid i cursor"
  "reindex_payload (env\<lparr>cur_tenant := t\<rparr>) = reindex_payload env" "indexes (env\<lparr>cur_tenant := t\<rparr>) = indexes env"
  by (simp_all add: creator_name_def ocr_text_def reindex_rows_def reindex_payload_def fun_eq_iff indexes_def cong: option.case_cong)

lemma reindex_one_indexes:
  assumes "healthy env" "visible env tid" "ids_fresh (Suc n) env w" "wdb w = d\<lparr>outbox := out\<rparr>"
  obtains w' r where "reindex_one L tid (x, creator_name d x) env w = (Inr (), w')" "wdb w' = d\<lparr>outbox := out @ [r]\<rparr>"
    "ids_fresh n env w'" "indexes env d tid x r"
proof -
  let ?text = "case dd_Version x of None \<Rightarrow> [] | Some v \<Rightarrow> ocr_text d tid v"
  let ?versions = "length (filter (\<lambda>(t, i, _). t = tid \<and> i = dd_ID x) (dm_versions d))"
  obtain k where content: "reindex_content tid x env w = (Inr ?text, w\<lparr>stmts := k\<rparr>)"
    using reindex_reads(1) [OF assms(1), of tid x w] assms(1,4)
    by (cases "dd_Version x") (auto simp: reindex_content_def tret_def)
  have versions: "version_count tid x env (w\<lparr>stmts := k\<rparr>) = (Inr ?versions, w\<lparr>stmts := Suc k\<rparr>)"
    using assms(1,4) by (simp add: version_count_def)
  obtain readers j where readers: "reindex_readers L tid x env (w\<lparr>stmts := Suc k\<rparr>) = (Inr readers, w\<lparr>stmts := j\<rparr>)"
    using reindex_reads(3) [OF assms(1), of L tid x "w\<lparr>stmts := Suc k\<rparr>"] by auto
  have "ids_fresh (Suc n) env (w\<lparr>stmts := j\<rparr>)" using assms(3) by simp
  from doc_emit_healthy [OF assms(1,2) this, of "''dms.document.reindexed.v1''" "''document''" "dd_ID x"
      "reindex_payload env x (creator_name d x) ?text ?versions readers"]
  obtain r w' where
    "doc_emit tid ''dms.document.reindexed.v1'' ''document'' (dd_ID x) (reindex_payload env x (creator_name d x) ?text ?versions readers)
       env (w\<lparr>stmts := j\<rparr>) = (Inr (), w')"
    "wdb w' = (wdb (w\<lparr>stmts := j\<rparr>))\<lparr>outbox := outbox (wdb (w\<lparr>stmts := j\<rparr>)) @ [r]\<rparr>" "ids_fresh n env w'" "o_TenantID r = tid"
    "o_EventType r = ''dms.document.reindexed.v1''" "o_AggregateID r = dd_ID x"
    "o_Payload r = reindex_payload env x (creator_name d x) ?text ?versions readers" .
  then show thesis
    by (intro that [of w' r]) (auto simp: reindex_one_def tbind_def content versions readers assms(4) indexes_def)
qed

lemma reindex_each_indexes:
  assumes "healthy env" "visible env tid" "ids_fresh (length xs + n) env w" "wdb w = d\<lparr>outbox := out\<rparr>"
  shows "\<exists>w' rows. tfor (map (\<lambda>x. (x, creator_name d x)) xs) (reindex_one L tid) env w = (Inr (), w')
    \<and> wdb w' = d\<lparr>outbox := out @ rows\<rparr> \<and> ids_fresh n env w' \<and> list_all2 (indexes env d tid) xs rows"
  using assms(3,4)
proof (induction xs arbitrary: w out)
  case Nil
  then show ?case by (auto simp: tret_def intro: exI [of _ w])
next
  case (Cons x xs)
  have "ids_fresh (Suc (length xs + n)) env w" using Cons.prems(1) by simp
  from reindex_one_indexes [OF assms(1,2) this Cons.prems(2)] obtain w1 r where
    one: "reindex_one L tid (x, creator_name d x) env w = (Inr (), w1)" "wdb w1 = d\<lparr>outbox := out @ [r]\<rparr>"
      "ids_fresh (length xs + n) env w1" "indexes env d tid x r" .
  from Cons.IH [OF one(3,2)] obtain w2 rows where
    "tfor (map (\<lambda>x. (x, creator_name d x)) xs) (reindex_one L tid) env w1 = (Inr (), w2)"
    "wdb w2 = d\<lparr>outbox := (out @ [r]) @ rows\<rparr>" "ids_fresh n env w2" "list_all2 (indexes env d tid) xs rows"
    by blast
  then show ?case using one by (intro exI [of _ w2] exI [of _ "r # rows"]) (simp add: tbind_def)
qed

lemma reindexBatch_indexes:
  assumes "healthy env" "visible env tid" "wdb w = d\<lparr>outbox := out\<rparr>"
    and rs: "rs = reindex_rows d tid None cursor" and "ids_fresh (length (take reindexBatchSize rs) + n) env w"
  obtains c w' rows where "reindexBatch L tid None cursor env w = (Inr (length (take reindexBatchSize rs), c), w')"
    "wdb w' = d\<lparr>outbox := out @ rows\<rparr>" "ids_fresh n env w'" "list_all2 (indexes env d tid) (take reindexBatchSize rs) rows"
proof -
  let ?w = "w\<lparr>stmts := Suc (stmts w)\<rparr>"
  from reindex_each_indexes [OF assms(1,2), where xs = "take reindexBatchSize rs" and n = n and w = ?w and d = d and out = out and L = L] assms(3,5) obtain w' rows where
    "tfor (map (\<lambda>x. (x, creator_name d x)) (take reindexBatchSize rs)) (reindex_one L tid) env ?w = (Inr (), w')"
    "wdb w' = d\<lparr>outbox := out @ rows\<rparr>" "ids_fresh n env w'" "list_all2 (indexes env d tid) (take reindexBatchSize rs) rows"
    by auto
  then show thesis
    using assms(1,3) by (intro that [of _ w' rows]) (auto simp: reindexBatch_def tbind_def tguard_def tret_def rs)
qed

section \<open>All documents\<close>

lemma filter_above_nth:
  fixes f :: "'a \<Rightarrow> 'b :: linorder"
  assumes "sorted (map f xs)" "distinct (map f xs)" "k < length xs"
  shows "filter (\<lambda>x. f (xs ! k) < f x) xs = drop (Suc k) xs"
proof -
  have lt: "f (xs ! i) < f (xs ! j)" if "i < j" "j < length xs" for i j
    using sorted_wrt_nth_less [of "(<)" "map f xs" i j] assms(1,2) that strict_sorted_iff by auto
  have "filter (\<lambda>x. f (xs ! k) < f x) (take (Suc k) xs) = []"
  proof (rule filter_False, rule ballI)
    fix x assume "x \<in> set (take (Suc k) xs)"
    then obtain i where "i \<le> k" "x = xs ! i" using assms(3) by (auto simp: in_set_conv_nth less_Suc_eq_le)
    then show "\<not> f (xs ! k) < f x" using lt [of i k] assms(3) by (cases "i = k") auto
  qed
  moreover have "filter (\<lambda>x. f (xs ! k) < f x) (drop (Suc k) xs) = drop (Suc k) xs"
    using lt [of k] by (intro filter_True) (auto simp: in_set_conv_nth)
  ultimately show ?thesis by (metis append_Nil append_take_drop_id filter_append)
qed

lemma distinct_reindex_rows:
  assumes "distinct (map doc_id (dm_documents d))"
  shows "distinct (map dd_ID (reindex_rows d tid None cursor))"
proof -
  have "distinct (map doc_id (reindex_rows d tid None cursor))"
    using assms by (simp add: reindex_rows_def distinct_map inj_on_def)
  then show ?thesis by (auto simp: distinct_map inj_on_def set_reindex_rows doc_id_def)
qed

lemma reindex_loop_indexes:
  assumes env: "healthy env" "tid \<noteq> uuid_Nil" and ids: "distinct (map doc_id (dm_documents d))"
  shows "wdb w = d\<lparr>outbox := out\<rparr> \<Longrightarrow> ids_fresh (length (reindex_rows d tid None cursor)) env w \<Longrightarrow>
    \<exists>w' rows. reindex_loop L tid None cursor so_far env w = ((so_far + length (reindex_rows d tid None cursor), None), w')
      \<and> wdb w' = d\<lparr>outbox := out @ rows\<rparr> \<and> list_all2 (indexes env d tid) (reindex_rows d tid None cursor) rows"
proof (induction "length (reindex_rows d tid None cursor)" arbitrary: cursor so_far w out rule: less_induct)
  case less
  let ?rs = "reindex_rows d tid None cursor" and ?e = "env\<lparr>cur_tenant := tid\<rparr>" and ?w = "w\<lparr>stmts := Suc (Suc (stmts w))\<rparr>"
  let ?k = "length (take reindexBatchSize ?rs)"
  have "healthy ?e" "wdb ?w = d\<lparr>outbox := out\<rparr>" "ids_fresh (?k + (length ?rs - ?k)) ?e ?w" using env(1) less.prems by simp_all
  from reindexBatch_indexes [OF this(1) visible_own this(2) refl this(3)] obtain c w1 rows where
    batch: "reindexBatch L tid None cursor ?e ?w = (Inr (?k, c), w1)" and w1: "wdb w1 = d\<lparr>outbox := out @ rows\<rparr>"
      "ids_fresh (length ?rs - ?k) ?e w1" "list_all2 (indexes env d tid) (take reindexBatchSize ?rs) rows"
    by (metis projection_outbox(5))
  let ?w1 = "w1\<lparr>stmts := Suc (stmts w1)\<rparr>"
  have tx: "WithTenantTx tid (reindexBatch L tid None cursor) env w = (Inr (?k, c), ?w1)"
    by (rule healthy_WithTenantTx [OF env, where fn = "reindexBatch L tid None cursor", OF batch])
  show ?case
  proof (cases "?k < reindexBatchSize")
    case True
    then have "take reindexBatchSize ?rs = ?rs" "?k = length ?rs" by simp_all
    then show ?thesis
      using tx True w1 by (intro exI [of _ ?w1] exI [of _ rows]) (simp add: reindex_loop.simps [of L tid None cursor])
  next
    case False
    then have k: "?k = reindexBatchSize" "reindexBatchSize - 1 < length ?rs" "0 < reindexBatchSize"
      by (auto simp: reindexBatchSize_def)
    have c: "c = dd_ID (?rs ! (reindexBatchSize - 1))"
      using reindexBatch_Inr(3) [OF batch] k less.prems(1) by simp
    have "?rs ! (reindexBatchSize - 1) \<in> set ?rs" using k(2) by simp
    then have "cursor < c" unfolding c by (simp add: set_reindex_rows)
    then have rest: "reindex_rows d tid None c = drop reindexBatchSize ?rs"
      using reindex_rows_later [of cursor c d tid] filter_above_nth [OF sorted_reindex_rows distinct_reindex_rows [OF ids] k(2)] k(3) c
      by simp
    have "wdb ?w1 = d\<lparr>outbox := out @ rows\<rparr>" "ids_fresh (length (reindex_rows d tid None c)) env ?w1"
      using w1(1,2) k(1) rest by simp_all
    moreover have "length (reindex_rows d tid None c) < length ?rs" using rest k(2,3) by simp
    ultimately obtain w2 rows' where
      "reindex_loop L tid None c (so_far + ?k) env ?w1 = ((so_far + ?k + length (reindex_rows d tid None c), None), w2)"
      "wdb w2 = d\<lparr>outbox := (out @ rows) @ rows'\<rparr>" "list_all2 (indexes env d tid) (reindex_rows d tid None c) rows'"
      using less.hyps by blast
    moreover have "list_all2 (indexes env d tid) (take reindexBatchSize ?rs @ drop reindexBatchSize ?rs) (rows @ rows')"
      using w1(3) calculation(3) rest by (intro list_all2_appendI) simp_all
    ultimately show ?thesis
      using tx False k(1) rest by (intro exI [of _ w2] exI [of _ "rows @ rows'"]) (simp add: reindex_loop.simps [of L tid None cursor])
  qed
qed


end
