(* ===== verification/Folder_Buckets.thy ===== *)
theory Folder_Buckets
  imports Folder_Model
begin

unbundle bit_operations_syntax

text \<open>
  The placement of customer folders (\<open>services/document/internal/service/folder_bucketing.go\<close>): intermediate folders
  that keep the number of children of one folder small. The 32-bit hash is computed in 32-bit words. Go's
  \<open>strings.ToLower\<close> is an argument where its whole result is hashed; \<open>bucketSlug\<close> keeps ASCII only, so there it is
  written out.
\<close>

section \<open>\<open>folder_bucketing.go\<close>\<close>

record bucket_scheme =
  bs_Mode :: string
  bs_PrefixLen :: int

definition defaultBucketPrefixLen :: int where "defaultBucketPrefixLen = 2"

definition normalizeBucketScheme :: "bucket_scheme \<Rightarrow> bucket_scheme" where
  "normalizeBucketScheme s =
     (let n = (if bs_PrefixLen s \<le> 0 then defaultBucketPrefixLen else bs_PrefixLen s) in
      \<lparr>bs_Mode = (if bs_Mode s \<in> set [''hash'', ''id_prefix'', ''region''] then bs_Mode s else ''hash''),
       bs_PrefixLen = (if n > 8 then 8 else n)\<rparr>)"

text \<open>\<open>fnv.New32a\<close> and its \<open>Write\<close>.\<close>

fun fnv_write :: "32 word \<Rightarrow> string \<Rightarrow> 32 word" where
  "fnv_write h [] = h"
| "fnv_write h (c # cs) = fnv_write ((h XOR of_nat (of_char c)) * 16777619) cs"

definition fnv32a :: "string \<Rightarrow> 32 word" where
  "fnv32a s = fnv_write 2166136261 s"

text \<open>The array is filled from its end.\<close>

fun hex_fill :: "nat \<Rightarrow> 32 word \<Rightarrow> string \<Rightarrow> string" where
  "hex_fill 0 v b = b"
| "hex_fill (Suc i) v b = hex_fill i (drop_bit 4 v) (b[i := ''0123456789abcdef'' ! unat (v AND 0xf)])"

definition leftPadHex :: "32 word \<Rightarrow> string" where
  "leftPadHex v = hex_fill 8 v (replicate 8 CHR 0x00)"

definition hashBucket :: "(string \<Rightarrow> string) \<Rightarrow> string \<Rightarrow> int \<Rightarrow> string" where
  "hashBucket lower customerRef prefixLen =
     (let hexStr = leftPadHex (fnv32a (lower (TrimSpace customerRef)));
          n = (if prefixLen > int (length hexStr) then int (length hexStr) else prefixLen) in
      take (nat n) hexStr)"

text \<open>The runes that survive, after \<open>strings.ToLower\<close>; the Kelvin sign and the dotted capital I become ASCII.\<close>

fun bucketSlug :: "string \<Rightarrow> string" where
  "bucketSlug [] = []"
| "bucketSlug (c # cs) =
     (let n = (of_char c :: nat) in
      if prefix [CHR 0xE2, CHR 0x84, CHR 0xAA] (c # cs) then CHR ''k'' # bucketSlug cs
      else if prefix [CHR 0xC4, CHR 0xB0] (c # cs) then CHR ''i'' # bucketSlug cs
      else if (97 \<le> n \<and> n \<le> 122) \<or> (48 \<le> n \<and> n \<le> 57) then c # bucketSlug cs
      else if 65 \<le> n \<and> n \<le> 90 then char_of (n + 32) # bucketSlug cs
      else if c = CHR '' '' \<or> c = CHR ''-'' \<or> c = CHR ''_'' \<or> c = CHR ''.'' then CHR ''_'' # bucketSlug cs
      else bucketSlug cs)"

definition idPrefixBucket :: "string \<Rightarrow> int \<Rightarrow> string" where
  "idPrefixBucket customerRef prefixLen =
     (let slug = bucketSlug customerRef in
      if slug = [] then ''_''
      else take (nat (if prefixLen > int (length slug) then int (length slug) else prefixLen)) slug)"

definition computeBuckets :: "(string \<Rightarrow> string) \<Rightarrow> bucket_scheme \<Rightarrow> string \<Rightarrow> string \<Rightarrow> string list" where
  "computeBuckets lower scheme0 customerRef region =
     (let scheme = normalizeBucketScheme scheme0 in
      if bs_Mode scheme = ''id_prefix'' then [idPrefixBucket customerRef (bs_PrefixLen scheme)]
      else if bs_Mode scheme = ''region''
      then [(let top = bucketSlug region in if top = [] then ''global'' else top), hashBucket lower customerRef (bs_PrefixLen scheme)]
      else [hashBucket lower customerRef (bs_PrefixLen scheme)])"

definition FolderBucketScheme :: "bucket_scheme \<Rightarrow> bucket_scheme" where
  "FolderBucketScheme folderBuckets = normalizeBucketScheme folderBuckets"

definition PlaceCustomerFolder :: "(string \<Rightarrow> string) \<Rightarrow> bucket_scheme \<Rightarrow> string \<Rightarrow> string \<Rightarrow> string list" where
  "PlaceCustomerFolder lower folderBuckets customerRef region =
     computeBuckets lower (FolderBucketScheme folderBuckets) customerRef region"

section \<open>The hexadecimal digits of a word\<close>

lemma hexdigits_nth: "d < 16 \<Longrightarrow> ''0123456789abcdef'' ! d = hex_char d"
proof -
  have "\<forall>k < 16. ''0123456789abcdef'' ! k = hex_char k" by code_simp
  then show "d < 16 \<Longrightarrow> ?thesis" by blast
qed

lemma low_nibble: "unat (v AND 0xf :: 32 word) = unat v mod 16"
proof -
  have "v AND 0xf = take_bit 4 v" by (simp add: take_bit_eq_mask mask_eq_exp_minus_1)
  then have "unat (v AND 0xf) = take_bit 4 (unat v)" by (simp only: unsigned_take_bit_eq)
  then show ?thesis by (simp add: take_bit_eq_mod)
qed

lemma high_nibbles: "unat (drop_bit 4 v :: 32 word) = unat v div 16"
proof -
  have "unat (drop_bit 4 v :: 32 word) = drop_bit 4 (unat v)" by (rule unat_drop_bit_eq)
  then show ?thesis by (simp add: drop_bit_eq_div)
qed

lemma hex_fill_pad: "i \<le> length b \<Longrightarrow> hex_fill i v b = hex_pad i (unat v) @ drop i b"
proof (induction i arbitrary: v b)
  case (Suc i)
  then show ?case
    by (simp add: low_nibble high_nibbles hexdigits_nth drop_update_swap Cons_nth_drop_Suc [symmetric])
qed simp

lemma leftPadHex_pad: "leftPadHex v = hex_pad 8 (unat v)"
  by (simp add: leftPadHex_def hex_fill_pad)

lemma length_hex_pad [simp]: "length (hex_pad n a) = n"
  by (induction n arbitrary: a) simp_all

lemma take_hex_pad: "take n (hex_pad (n + k) a) = hex_pad n (a div 16 ^ k)"
  by (induction k arbitrary: a) (simp_all add: div_mult2_eq)

lemma hex_char_inj: "a < 16 \<Longrightarrow> b < 16 \<Longrightarrow> hex_char a = hex_char b \<longleftrightarrow> a = b"
  by (metis hex_val_hex_char option.inject)

lemma hex_pad_inj: "a < 16 ^ n \<Longrightarrow> b < 16 ^ n \<Longrightarrow> hex_pad n a = hex_pad n b \<longleftrightarrow> a = b"
proof (induction n arbitrary: a b)
  case (Suc n)
  then have "a div 16 < 16 ^ n" "b div 16 < 16 ^ n" by (simp_all add: less_mult_imp_div_less)
  with Suc show ?case by (simp add: hex_char_inj) (metis div_mult_mod_eq)
qed simp

section \<open>The labels\<close>

text \<open>What the comment on \<open>PlaceCustomerFolder\<close> calls safe for \<open>ltree\<close>.\<close>

definition bucket_char :: "char \<Rightarrow> bool" where
  "bucket_char c = (let n = (of_char c :: nat) in (97 \<le> n \<and> n \<le> 122) \<or> (48 \<le> n \<and> n \<le> 57) \<or> c = CHR ''_'')"

definition bucket_label :: "string \<Rightarrow> bool" where
  "bucket_label l \<longleftrightarrow> l \<noteq> [] \<and> list_all bucket_char l"

lemma hex_bucket_char: "d < 16 \<Longrightarrow> bucket_char (hex_char d)"
  by (auto simp: bucket_char_def hex_char_def Let_def)

lemma hex_pad_chars: "list_all bucket_char (hex_pad n a)"
  by (induction n arbitrary: a) (simp_all add: hex_bucket_char)

lemma bucketSlug_chars: "list_all bucket_char (bucketSlug s)"
proof (induction s)
  case (Cons c cs)
  have upper: "bucket_char (char_of (n + 32))" if "65 \<le> n" "n \<le> 90" for n :: nat
    using that by (simp add: bucket_char_def)
  have kept: "bucket_char c" if "(97 \<le> n \<and> n \<le> 122) \<or> (48 \<le> n \<and> n \<le> 57)" "n = (of_char c :: nat)" for n
    using that by (auto simp: bucket_char_def)
  have "bucket_char CHR ''k''" "bucket_char CHR ''i''" "bucket_char CHR ''_''" by (simp_all add: bucket_char_def)
  then show ?case
    unfolding bucketSlug.simps Let_def by (simp add: Cons kept upper split del: if_split) (simp split: if_split add: Cons kept upper)
qed simp

lemma bucket_label_take: "list_all bucket_char s \<Longrightarrow> s \<noteq> [] \<Longrightarrow> 0 < n \<Longrightarrow> bucket_label (take n s)"
  by (auto simp: bucket_label_def list_all_iff dest: in_set_takeD)

text \<open>How many digits a scheme takes.\<close>

definition bucket_width :: "bucket_scheme \<Rightarrow> nat" where
  "bucket_width S = nat (bs_PrefixLen (FolderBucketScheme S))"

lemma bucket_width_bounds: "0 < bucket_width S" "bucket_width S \<le> 8"
  by (auto simp: bucket_width_def FolderBucketScheme_def normalizeBucketScheme_def Let_def defaultBucketPrefixLen_def)

lemma scheme_idem [simp]: "normalizeBucketScheme (normalizeBucketScheme S) = normalizeBucketScheme S"
  by (simp add: normalizeBucketScheme_def Let_def defaultBucketPrefixLen_def)

lemma hashBucket_pad:
  assumes "n \<le> 8"
  shows "hashBucket lower r (int n) = hex_pad n (unat (fnv32a (lower (TrimSpace r))) div 16 ^ (8 - n))"
  using assms take_hex_pad [of n "8 - n"] by (simp add: hashBucket_def Let_def leftPadHex_pad)

lemma hash_prefix_bound: "n \<le> 8 \<Longrightarrow> unat (h :: 32 word) div 16 ^ (8 - n) < 16 ^ n"
proof -
  assume "n \<le> 8"
  then have "(16 :: nat) ^ n * 16 ^ (8 - n) = 16 ^ 8" by (simp add: power_add [symmetric])
  moreover have "unat h < 16 ^ 8" using unsigned_less [of h, where ?'a = nat] by simp
  ultimately show ?thesis by (simp add: less_mult_imp_div_less)
qed

lemma place_last:
  assumes "bs_Mode (FolderBucketScheme S) \<noteq> ''id_prefix''"
  shows "last (PlaceCustomerFolder lower S r g)
    = hex_pad (bucket_width S) (unat (fnv32a (lower (TrimSpace r))) div 16 ^ (8 - bucket_width S))"
proof -
  have "bs_PrefixLen (FolderBucketScheme S) = int (bucket_width S)"
    using bucket_width_bounds(1) [of S] by (simp add: bucket_width_def)
  then have "last (PlaceCustomerFolder lower S r g) = hashBucket lower r (int (bucket_width S))"
    using assms by (simp add: PlaceCustomerFolder_def computeBuckets_def FolderBucketScheme_def Let_def)
  then show ?thesis using hashBucket_pad bucket_width_bounds(2) by simp
qed


end
