(* ===== verification/Folder_Examples.thy ===== *)
theory Folder_Examples
  imports Folder_Access Folder_Paging Folder_Reindex Folder_Buckets Policy_Examples
begin

text \<open>A small folder tree on which the properties of the folder operations are evaluated.\<close>

section \<open>The tree\<close>

definition dir_user :: userinfo where
  "dir_user = \<lparr>u_ID = 7, u_TenantID = 1, u_Email = ''ann@example.org'', u_Role = ''owner'', u_Groups = []\<rparr>"

definition dir_env :: env where
  "dir_env = demo_env\<lparr>ctx := WithUser emptyctx dir_user, uuid_String := uuid_text, uuid_Parse := uuid_read\<rparr>"

definition dir_lib :: doc_lib where
  "dir_lib = \<lparr>policy_client = (\<lambda>_ _ _. Some True), pg_lower = (\<lambda>s. s), collation_key = (\<lambda>s. s), printable = (\<lambda>_. True),
     map_order = (\<lambda>_ xs. xs)\<rparr>"

definition dir :: "uuid \<Rightarrow> uuid option \<Rightarrow> string \<Rightarrow> string \<Rightarrow> int \<Rightarrow> folder" where
  "dir i parent name path depth = \<lparr>fo_TenantID = 1, fo_ID = i, fo_WorkspaceID = 20, fo_ParentFolderID = parent, fo_Name = name,
     fo_Path = path, fo_Depth = depth, fo_CreatedBy = 7, fo_CreatedAt = second, fo_UpdatedAt = second, fo_DeletedAt = None,
     fo_Visibility = ''shared'', fo_OwnerID = None, fo_Cohort = None, fo_DeletedBy = None\<rparr>"

definition paper :: "uuid \<Rightarrow> uuid \<Rightarrow> string \<Rightarrow> stored_doc" where
  "paper i f state = \<lparr>dd_TenantID = 1, dd_ID = i, dd_WorkspaceID = 20, dd_FolderID = Some f, dd_Title = ''memo'', dd_Description = [],
     dd_Tags = [], dd_Class = [], dd_State = state, dd_Region = ''eu'', dd_Mime = ''text/plain'', dd_Size = 3, dd_CreatedBy = None,
     dd_Version = None, dd_CreatedAt = second, dd_UpdatedAt = second, dd_DeletedAt = None, dd_Cohort = None, dd_DeletedBy = None,
     dd_WormUntil = None\<rparr>"

text \<open>Folder 31 lies in folder 30 and holds document 40; folder 32 is empty; document 41, in folder 33, is under legal hold.\<close>

definition dir_db :: doc_db where
  "dir_db = \<lparr>organizations = [\<lparr>org_ID = 1, org_deleted = False\<rparr>], outbox = [], outbox_dlq = [],
     dm_folders = [dir 30 None ''a'' ''a_1'' 0, dir 31 (Some 30) ''b'' ''a_1.b_1'' 1, dir 32 (Some 30) ''c'' ''a_1.c_1'' 1, dir 33 None ''d'' ''d_1'' 0],
     dm_documents = [paper 40 31 ''draft'', paper 41 33 ''legal_hold''], dm_grants = [],
     dm_workspaces = [\<lparr>ws_TenantID = 1, ws_ID = 20, ws_Name = ''home'', ws_deleted = False\<rparr>], dm_members = [], dm_holds = [],
     dm_hold_documents = [], dm_records = [], dm_people = [\<lparr>pe_TenantID = 1, pe_ID = 7, pe_Name = ''Ann''\<rparr>], dm_ocr = [], dm_versions = []\<rparr>"

abbreviation dir_world :: "doc_db world" where
  "dir_world \<equiv> world_on dir_db"

lemma dir_env_fields [simp]:
  "healthy dir_env" "doc_mustCaller (ctx dir_env) = Inr (1, 7)" "callerIsTenantAdmin (ctx dir_env)" "uuid_laws dir_env"
  "db_now dir_env = 1000 * second" "new_id dir_env k = Some (of_nat (100 + k))"
  by (simp_all add: dir_env_def healthy_def demo_env_def doc_mustCaller_def GetTenantID_def GetUserID_def User_def WithUser_def dir_user_def
      uuid_Nil_def callerIsTenantAdmin_def GetUserRole_def uuid_laws_def uuid_text_laws)

lemma dir_role: "utf8_ok (GetUserRole (ctx dir_env))"
  by code_simp

lemma dir_ids: "j < 1000 \<Longrightarrow> k < 1000 \<Longrightarrow> (of_nat (100 + j) :: uuid) = of_nat (100 + k) \<longleftrightarrow> j = k"
proof -
  have "unat (of_nat (100 + n) :: uuid) = 100 + n" if "n < 1000" for n using that by (simp add: unat_of_nat del: of_nat_add)
  then show "j < 1000 \<Longrightarrow> k < 1000 \<Longrightarrow> ?thesis" by (metis add_left_cancel)
qed

lemma dir_fresh:
  assumes "draws w + n \<le> 1000" and "\<And>r. r \<in> set (outbox (wdb w)) \<Longrightarrow> \<exists>j < draws w. o_ID r = of_nat (100 + j)"
  shows "ids_fresh n dir_env w"
proof -
  have "inj_on (new_id dir_env) {draws w..<draws w + n}" using assms(1) dir_ids by (auto simp: inj_on_def simp del: of_nat_add)
  moreover have "new_id dir_env k \<noteq> Some (o_ID r)" if "k \<in> {draws w..<draws w + n}" "r \<in> set (outbox (wdb w))" for k r
  proof -
    from assms(2) [OF that(2)] obtain j where "j < draws w" "o_ID r = of_nat (100 + j)" by blast
    moreover have "(of_nat (100 + k) :: uuid) \<noteq> of_nat (100 + j)" using that(1) \<open>j < draws w\<close> assms(1) dir_ids [of k j] by auto
    ultimately show ?thesis by simp
  qed
  ultimately show ?thesis by (auto simp: ids_fresh_def image_iff)
qed

lemma dir_inv: "folder_inv dir_lib dir_db"
  by code_simp

lemma dir_allows: "policy_says dir_lib k env uid action f"
  by (simp add: policy_says_def dir_lib_def)

section \<open>Cleaning up\<close>

lemma dir_labels:
  "labels (dir i p n ''a_1'' d) = [''a_1'']" "labels (dir i p n ''a_1.b_1'' d) = [''a_1'', ''b_1'']"
  "labels (dir i p n ''a_1.c_1'' d) = [''a_1'', ''c_1'']" "labels (dir i p n ''d_1'' d) = [''d_1'']"
  by (simp_all add: labels_def dir_def ltree_labels_def)

lemma dir_live: "live_folders dir_db 1 = set (dm_folders dir_db)"
  by (auto simp: live_folders_def dir_db_def dir_def fo_live_def)

lemma dir_tree: "tree_ok dir_db 1"
proof -
  have "distinct (map folder_id (dm_folders dir_db))" by code_simp
  moreover have "inj_on labels (set (dm_folders dir_db))" by (auto simp: dir_db_def dir_labels inj_on_def)
  moreover have "list_all (\<lambda>g. labels g \<noteq> [] \<and> (case fo_ParentFolderID g of None \<Rightarrow> length (labels g) = 1
      | Some p \<Rightarrow> \<exists>f \<in> set (dm_folders dir_db). fo_ID f = p \<and> labels f = butlast (labels g))) (dm_folders dir_db)"
    by code_simp
  ultimately show ?thesis unfolding tree_ok_def dir_live list_all_iff by blast
qed

theorem CleanupEmptyFolders_drains_witness:
  "\<exists>r w'. CleanupEmptyFolders 20 0 5 dir_env dir_world = (Inr r, w')
    \<and> cl_Deleted r = length (cl_Folders r) \<and> int (cl_Deleted r) \<le> cleanup_cap 5
    \<and> cl_MoreRemaining r = (int (cl_Deleted r) = cleanup_cap 5)
    \<and> drained 1 20 (age_limit dir_env 0) (cl_Folders r) 7 (1000 * second) dir_db (wdb w')
    \<and> (cl_MoreRemaining r \<or> cleanable (wdb w') 1 20 (age_limit dir_env 0) = [])"
proof -
  have "ids_fresh (2 * nat (cleanup_cap 5)) dir_env dir_world"
    by (rule dir_fresh) (simp_all add: world_on_def dir_db_def cleanup_cap_def emptyFolderCleanupMaxBatch_def emptyFolderCleanupHardCap_def Let_def)
  with CleanupEmptyFolders_drains [of dir_env 1 7 dir_world 5 20 0] dir_tree show ?thesis by simp
qed

section \<open>Deleting and restoring\<close>

abbreviation dir_after :: "doc_db world" where
  "dir_after \<equiv> snd (DeleteFolder dir_lib 31 dir_env dir_world)"

lemma dir_deleted: "DeleteFolder dir_lib 31 dir_env dir_world = (Inr (), dir_after)"
proof (rule prod_eqI)
  show "fst (DeleteFolder dir_lib 31 dir_env dir_world) = fst (Inr (), dir_after)" by code_simp
qed simp


lemma dir_after_ids: "map o_ID (outbox (wdb dir_after)) = [101] \<and> draws dir_after = 2"
  by code_simp

theorem delete_restore_roundtrip_witness:
  "\<exists>root w2 rows. live_root dir_db 1 31 = Some root \<and> RestoreFolder dir_lib 31 dir_env dir_after = (Inr (), w2)
    \<and> wdb w2 = (restamped (1000 * second) 1 (fo_Path root) dir_db)\<lparr>outbox := outbox (wdb dir_after) @ rows\<rparr>"
proof -
  have "ids_fresh (Suc (length (dm_documents dir_db))) dir_env dir_after"
  proof (rule dir_fresh)
    show "draws dir_after + Suc (length (dm_documents dir_db)) \<le> 1000" using dir_after_ids by (simp add: dir_db_def)
    fix r assume "r \<in> set (outbox (wdb dir_after))"
    then have "o_ID r \<in> set (map o_ID (outbox (wdb dir_after)))" by simp
    then show "\<exists>j < draws dir_after. o_ID r = of_nat (100 + j)" using dir_after_ids by (auto intro: exI [of _ 1])
  qed
  moreover have "tables_ok dir_lib dir_db" using dir_inv by (simp add: folder_inv_def)
  moreover have "cohort_unused (new_id dir_env (draws dir_world)) dir_db" by (simp add: cohort_unused_def dir_db_def dir_def paper_def)
  ultimately show ?thesis
    using delete_restore_roundtrip [OF dir_deleted, of 1 7 dir_env 7] dir_role dir_allows by simp
qed

theorem DeleteFolder_refuses_protected_witness:
  "\<exists>listed w'. DeleteFolder dir_lib 33 dir_env dir_world
      = (Inl (Domain (Conflict (protectedDocumentsMessage dir_lib listed (length (protected_in dir_db (1000 * second) 1 33))))), w')
    \<and> length listed = min 10 (length (protected_in dir_db (1000 * second) 1 33)) \<and> wdb w' = dir_db
    \<and> (\<forall>m. he_Code (ToHTTPError (Domain (Conflict m))) = 409)"
proof -
  have "protected_in dir_db (1000 * second) 1 33 \<noteq> []" by code_simp
  moreover have "find (folder_is 1 33) (dm_folders dir_db) = Some (dir 33 None ''d'' ''d_1'' 0)" by code_simp
  ultimately show ?thesis
    using DeleteFolder_refuses_protected [of dir_env 1 7 33 dir_world _ dir_lib] dir_role dir_allows by simp
qed

theorem folder_reachable_inv_witness: "folder_inv dir_lib (wdb dir_after)"
proof (rule folder_reachable_inv [OF _ dir_inv])
  have "folder_step dir_lib (wdb dir_world) (wdb dir_after)" by (rule folder_step.delete [OF dir_deleted])
  then show "(folder_step dir_lib)\<^sup>*\<^sup>* dir_db (wdb dir_after)" by simp
qed

section \<open>Moving, reading and listing\<close>

definition dir_move :: update_folder_input where
  "dir_move = \<lparr>uf_FolderID = 31, uf_Name = None, uf_NewParentFolderID = Some 33\<rparr>"

lemma dir_moved: "\<exists>v. UpdateFolder dir_lib dir_move dir_env dir_world = (Inr v, snd (UpdateFolder dir_lib dir_move dir_env dir_world))"
proof -
  have "case fst (UpdateFolder dir_lib dir_move dir_env dir_world) of Inl _ \<Rightarrow> False | Inr _ \<Rightarrow> True" by code_simp
  then show ?thesis by (cases "fst (UpdateFolder dir_lib dir_move dir_env dir_world)") (auto intro!: exI prod_eqI)
qed


lemma dir_read: "\<exists>v. GetFolder dir_lib 31 dir_env dir_world = (Inr v, snd (GetFolder dir_lib 31 dir_env dir_world))"
proof -
  have "case fst (GetFolder dir_lib 31 dir_env dir_world) of Inl _ \<Rightarrow> False | Inr _ \<Rightarrow> True" by code_simp
  then show ?thesis by (cases "fst (GetFolder dir_lib 31 dir_env dir_world)") (auto intro!: exI prod_eqI)
qed

theorem GetFolder_authorized_witness:
  "\<exists>v f. GetFolder dir_lib 31 dir_env dir_world = (Inr v, snd (GetFolder dir_lib 31 dir_env dir_world)) \<and> fv_Folder v = f
    \<and> folder_is 1 31 f \<and> set (fv_Ancestors v) \<subseteq> {g \<in> live_folders dir_db 1. below (fo_Path f) (fo_Path g)}"
proof -
  obtain v where run: "GetFolder dir_lib 31 dir_env dir_world = (Inr v, snd (GetFolder dir_lib 31 dir_env dir_world))" using dir_read by blast
  from GetFolder_authorized [OF this] show ?thesis using run by auto
qed

theorem folder_token_roundtrip_witness:
  "decodeFolderToken dir_env (encodeFolderToken dir_env ''Q3 2025 (Final)'' 31) = Some (''Q3 2025 (Final)'', 31)"
proof (rule folder_token_roundtrip)
  show "validateFolderName ''Q3 2025 (Final)'' = None" by code_simp
qed simp

theorem folder_pages_complete_witness:
  "all_pages 5 dir_lib 20 None [] 1 dir_env dir_world = Some [dir 30 None ''a'' ''a_1'' 0, dir 33 None ''d'' ''d_1'' 0]"
proof -
  have "list_all cursor_ok (children_of dir_db 1 20 None)" by code_simp
  moreover have "may_enter dir_lib dir_env dir_db 1 7 20 True" using dir_role by (simp add: may_enter_def dir_lib_def)
  moreover have "length (children_of dir_db 1 20 None) < 5" by code_simp
  moreover have "distinct (map folder_id (dm_folders dir_db))" by code_simp
  ultimately have "all_pages 5 dir_lib 20 None [] 1 dir_env dir_world
      = Some (filter (sees dir_env dir_db 1 7 True) (sort_by_name dir_lib (children_of dir_db 1 20 None)))"
    using folder_pages_complete [of dir_env 1 7 dir_world 20 None dir_lib True 5 1] by simp
  also have "filter (sees dir_env dir_db 1 7 True) (sort_by_name dir_lib (children_of dir_db 1 20 None))
      = [dir 30 None ''a'' ''a_1'' 0, dir 33 None ''d'' ''d_1'' 0]"
    by code_simp
  finally show ?thesis .
qed

section \<open>Rebuilding the search index\<close>


section \<open>Customer folders\<close>

definition ascii_lower :: "string \<Rightarrow> string" where
  "ascii_lower = map (\<lambda>c. let n = (of_char c :: nat) in if 65 \<le> n \<and> n \<le> 90 then char_of (n + 32) else c)"

definition hash_scheme :: bucket_scheme where
  "hash_scheme = \<lparr>bs_Mode = ''hash'', bs_PrefixLen = 0\<rparr>"

text \<open>The reference of the example in the source and another spelling of it, with the default width of two digits.\<close>

lemma bucket_10042: "PlaceCustomerFolder ascii_lower hash_scheme ''CUST-10042'' [] = [''bb'']"
  by code_simp


section \<open>A clean-up that trashes a document\<close>

text \<open>
  Folder 30 holds folder 31, which holds folder 34 with a document. Folder 34 is deleted, then folder 31, then folder 34
  is restored: it is live below a folder in the trash. Folder 30 now looks empty, and cleaning it up takes folder 34 and
  its document to the trash again, although neither was empty.
\<close>

definition deep_db :: doc_db where
  "deep_db = dir_db\<lparr>dm_folders := [dir 30 None ''a'' ''a_1'' 0, dir 31 (Some 30) ''b'' ''a_1.b_1'' 1, dir 34 (Some 31) ''e'' ''a_1.b_1.e_1'' 2],
     dm_documents := [paper 40 34 ''draft'']\<rparr>"

definition deep_world :: "doc_db world" where
  "deep_world = snd (RestoreFolder dir_lib 34 dir_env (snd (DeleteFolder dir_lib 31 dir_env (snd (DeleteFolder dir_lib 34 dir_env (world_on deep_db))))))"

lemma deep_live: "map dd_live (dm_documents (wdb deep_world)) = [True]"
  by code_simp

theorem cleanup_trashes_document:
  "map dd_live (dm_documents (wdb (snd (CleanupEmptyFolders 20 0 1 dir_env deep_world)))) = [False]"
  by code_simp

end
