(* ===== verification/Spec2Isabelle.thy ===== *)
theory Spec2Isabelle
  imports Outbox_Examples Task_Examples Audit_Examples Policy_Examples Folder_Examples
begin

text \<open>
  A verification of parts of SeDoc, a multi-tenant document management system written in Go. The
  services share a PostgreSQL database under row-level security and talk through NATS JetStream: a
  service writes its rows and an outbox row in one transaction, a publisher in every service moves
  outbox rows to JetStream, and other services, the audit service among them, consume them.

  \<^bold>\<open>Theories.\<close>

  \<^item> \<open>Prelude\<close>: identifiers, instants (nanoseconds since 1970), JSON values, decimal, hexadecimal and base64
    text, time formatting, \<open>TrimSpace\<close>, and the list lemmas and locales the components share.
  \<^item> \<open>Tx\<close>: \<open>pkg/auth\<close> (request context, roles) and \<open>pkg/database\<close> (\<open>WithTx\<close>, \<open>WithTenantTx\<close>,
    \<open>ForEachTenant\<close>). Code with effects is a function of an environment (clock, caller, tenant setting,
    role attributes, which statements fail) and a world (tables, statement counter, fresh identifiers)
    that returns an error or a value with the new world. \<open>fault\<close> may make any statement fail, so a theorem
    about any environment covers a failure at any point.
  \<^item> \<open>Outbox\<close>, \<open>Outbox_Publisher\<close>: \<open>outbox.go\<close>, \<open>outbox_publisher.go\<close> and \<open>outbox_dlq.go\<close>. The broker is
    a parameter: any function from the number of the attempt and the message to acceptance or an error.
    \<open>Outbox_Delivery\<close> proves one drain cycle correct, \<open>Outbox_System\<close> the interleaving of producers,
    publishers, clean-ups and replays.
  \<^item> \<open>Task_Model\<close>, \<open>Task_Repo\<close>, \<open>Task_Service\<close>: \<open>services/task/internal\<close>, its model, repository and
    service packages. \<open>Task_Frame\<close>, \<open>Task_Isolation\<close>, \<open>Task_Lifecycle\<close>, \<open>Task_Behaviour\<close>, \<open>Task_Access\<close>
    and \<open>Task_Sweep\<close> prove tenant isolation, atomicity, the reachable-state invariant, the effect of a
    status change, authorisation, list visibility and paging, and the reminder sweep.
  \<^item> \<open>Audit_Model\<close>, \<open>Audit_Repo\<close>, \<open>Audit_Service\<close>: \<open>services/audit/internal\<close>, its model, repository and
    service packages. \<open>Audit_Chain\<close>, \<open>Audit_Append\<close>, \<open>Audit_Trail\<close> and \<open>Audit_Erasure\<close> treat the hash
    chain, appending to it, the invariant of a trail, and the erasure of a data subject; \<open>Audit_Guarantees\<close>
    holds what they give (every reachable trail verifies, tampering below a checkpoint shows, Merkle proofs),
    and \<open>Audit_Pipeline\<close> follows a row of the outbox through publication into the trail.
  \<^item> \<open>Errors\<close>: \<open>pkg/errors\<close>, the kinds of domain errors and their HTTP and gRPC form.
  \<^item> \<open>Policy_Model\<close>, \<open>Policy_Repo\<close>, \<open>Policy_Service\<close>, \<open>Policy_Context\<close>, \<open>Policy_Handler\<close>:
    \<open>services/policy/internal\<close>, its model, the Rego rules with their Go wrapper, the repositories, the Redis
    cache, the service and the REST and gRPC handlers. \<open>Policy_Rules\<close> gives proof rules for runs whose errors
    are ignored. \<open>Policy_Decision\<close> states the access rules over table rows (\<open>authorised\<close>) and shows that
    every decision is justified by such rows, \<open>Policy_Grants\<close> refines \<open>Grant\<close> and \<open>Revoke\<close> to functions on
    the table, \<open>Policy_System\<close> lets requests, other services and cache losses follow one another and keeps
    the invariant of the cache, and \<open>Policy_Guarantees\<close> draws the conclusions: bounded staleness, immediate
    revocation, no escalation by granting.
  \<^item> \<open>Folder_Model\<close>, \<open>Folder_Repo\<close>, \<open>Folder_Service\<close>: the folder tree of \<open>services/document/internal\<close>: rows,
    labels, paths and cursors; \<open>folder_repo.go\<close> and the outbox insert of \<open>misc_repo.go\<close>; \<open>folders.go\<close>, the
    permission check of \<open>service.go\<close> and the search projection of \<open>search_reindex.go\<close>. A path is text, as in the
    column, and \<open>below\<close>, \<open>subpath\<close> and \<open>nlevel\<close> are the operators of the \<open>ltree\<close> extension on its labels.
    \<open>Folder_Tree\<close> proves that the clean-up of empty folders ends and drains nested ones, \<open>Folder_Trash\<close> that the
    cascade delete spares protected documents and that a restore undoes it, \<open>Folder_Inv\<close> the invariant of the
    tables along every run, \<open>Folder_Paging\<close> that following the cursors shows every visible child once,
    \<open>Folder_Access\<close> what a move rewrites and who may read a folder. \<open>Folder_Reindex\<close> has the loop of
    \<open>ReindexSearch\<close> and shows that it ends and covers every document, \<open>Folder_Buckets\<close> the placement of customer
    folders (\<open>folder_bucketing.go\<close>), with its hash in 32-bit words.
  \<^item> \<open>Outbox_Examples\<close>, \<open>Task_Examples\<close>, \<open>Audit_Examples\<close>, \<open>Policy_Examples\<close> and \<open>Folder_Examples\<close> run the
    definitions on concrete states. \<open>Folder_Examples\<close> also shows a run in which the clean-up of empty folders
    trashes a document (\<open>cleanup_trashes_document\<close>): the tree it starts from has a live folder below a trashed
    one, which \<open>tree_ok\<close> excludes and \<open>RestoreFolder\<close> can make.

  \<^bold>\<open>Parameters.\<close> The text of identifiers (\<open>uuid_String\<close>, \<open>uuid_Parse\<close>), the digest and the JSON canoniser of the
  audit service, the broker, the case-insensitive match of PostgreSQL and the instant parser of the policy
  agent, the policy client of the document service (which may answer every request differently), PostgreSQL's
  \<open>lower\<close> and collation, the runes Go prints unescaped and the order in which Go visits the keys of a map are
  arguments; what a theorem needs of them is a hypothesis of it (\<open>uuid_laws\<close>, \<open>reads_back\<close>), and
  the examples give functions that satisfy it. Redis keeps a value until the instant it was stored for on
  the same clock, may lose any entry at any time, and a failed command has no effect.

  \<^bold>\<open>What is not modelled.\<close> Transport layers other than the policy service's (the HTTP and gRPC handlers of tasks
  and audit, the NATS subscriptions), metrics, logs and traces; connection pools and migrations; of the document service
  everything but folders, and of those \<open>PurgeFolder\<close>, which erases documents and stored objects through code
  outside the folder files; the other services. Concurrency inside a transaction is not modelled: a transaction is one step, which row locks,
  advisory locks and \<open>FOR UPDATE SKIP LOCKED\<close> justify for the writers treated here. Requests of the policy
  service follow one another whole: a reader that fills the cache with rows read before a revocation after
  the revocation has dropped the entry is outside the model, and its entry then lives for at most \<open>TTL\<close>.
\<close>

end
